(* ===== verification/Prelude.thy ===== *)
theory Prelude
  imports Main "HOL-Library.Word" "HOL-Library.Multiset"
begin

text \<open>
  Shared vocabulary of the development: Go errors as values, the loops over slices that
  every package repeats (first failing element, "seen" maps, lookup by key), whitespace
  trimming, and Go's integer arithmetic (\<open>int\<close> is 64 bits wide and wraps, \<open>/\<close> and \<open>%\<close>
  truncate toward zero).  Only facts that two or more component theories use live here.
\<close>

section \<open>Collections of rewrite rules\<close>

named_theorems err_simps \<open>sequencing of error results\<close>
named_theorems find_simps \<open>lookups in slices by a key\<close>

section \<open>Identifiers and errors\<close>

text \<open>A \<open>uuid.UUID\<close> is sixteen bytes; \<open>uuid.Nil\<close> is the all-zero value.\<close>
type_synonym uuid = "128 word"

abbreviation uuid_nil :: uuid where "uuid_nil \<equiv> 0"

text \<open>
  A Go \<open>error\<close> value: the stable \<open>GOLC_*\<close> diagnostic code that starts its message, or an error
  wrapped by a caller with a further code.  The human-readable detail after the code
  is not represented.
\<close>
datatype golc_error = Code string | Wrap string golc_error

type_synonym 'a result = "golc_error + 'a"

text \<open>\<open>if err := f(); err != nil { return err }\<close> followed by the rest of the function body.\<close>
definition err_seq :: "golc_error option \<Rightarrow> golc_error option \<Rightarrow> golc_error option" where
  "err_seq e rest = (case e of Some x \<Rightarrow> Some x | None \<Rightarrow> rest)"

text \<open>\<open>value, err := f(); if err != nil { return ..., err }\<close> followed by the rest.\<close>
definition bind_res :: "'a result \<Rightarrow> ('a \<Rightarrow> 'b result) \<Rightarrow> 'b result" where
  "bind_res r k = (case r of Inl e \<Rightarrow> Inl e | Inr v \<Rightarrow> k v)"

text \<open>\<open>if err := check(); err != nil { return zero, err }; return v, nil\<close>.\<close>
definition guard_err :: "golc_error option \<Rightarrow> 'a result \<Rightarrow> 'a result" where
  "guard_err e r = (case e of Some x \<Rightarrow> Inl x | None \<Rightarrow> r)"

definition is_ok :: "'a result \<Rightarrow> bool" where
  "is_ok r = (case r of Inl _ \<Rightarrow> False | Inr _ \<Rightarrow> True)"

lemma err_seq_simps [simp, err_simps]:
  "err_seq None r = r"
  "err_seq (Some e) r = Some e"
  by (simp_all add: err_seq_def)

lemma err_seq_None_iff [simp, err_simps]: "err_seq a b = None \<longleftrightarrow> a = None \<and> b = None"
  by (cases a) simp_all

lemma bind_res_simps [simp, err_simps]:
  "bind_res (Inl e) k = Inl e"
  "bind_res (Inr v) k = k v"
  by (simp_all add: bind_res_def)

lemma bind_res_Inr_iff [err_simps]: "bind_res r k = Inr w \<longleftrightarrow> (\<exists>v. r = Inr v \<and> k v = Inr w)"
  by (cases r) simp_all

lemma guard_err_simps [simp, err_simps]:
  "guard_err None r = r"
  "guard_err (Some e) r = Inl e"
  by (simp_all add: guard_err_def)

lemma guard_err_Inr_iff [simp, err_simps]: "guard_err e r = Inr w \<longleftrightarrow> e = None \<and> r = Inr w"
  by (cases e) simp_all

lemma is_ok_simps [simp]: "is_ok (Inl e) = False" "is_ok (Inr v) = True"
  by (simp_all add: is_ok_def)

section \<open>Loops over slices\<close>

text \<open>\<open>for _, x := range xs { if err := f(x); err != nil { return err } }; return nil\<close>\<close>
fun first_err :: "('a \<Rightarrow> golc_error option) \<Rightarrow> 'a list \<Rightarrow> golc_error option" where
  "first_err f [] = None"
| "first_err f (x # xs) = err_seq (f x) (first_err f xs)"

lemma first_err_None_iff [simp, err_simps]: "first_err f xs = None \<longleftrightarrow> (\<forall>x\<in>set xs. f x = None)"
  by (induction xs) auto

lemma first_err_SomeD: "first_err f xs = Some e \<Longrightarrow> \<exists>x\<in>set xs. f x = Some e"
  by (induction xs) (auto simp: err_seq_def split: option.splits)

text \<open>
  The uniqueness loop: \<open>seen := map[K]bool{}\<close>, fail with \<open>e\<close> at the first element whose key was
  seen before.
\<close>
fun unique_keys :: "golc_error \<Rightarrow> ('a \<Rightarrow> 'k) \<Rightarrow> 'k set \<Rightarrow> 'a list \<Rightarrow> golc_error option" where
  "unique_keys e k seen [] = None"
| "unique_keys e k seen (x # xs) =
     (if k x \<in> seen then Some e else unique_keys e k (insert (k x) seen) xs)"

lemma unique_keys_None_iff_gen:
  "unique_keys e k seen xs = None \<longleftrightarrow> distinct (map k xs) \<and> set (map k xs) \<inter> seen = {}"
  by (induction xs arbitrary: seen) auto

lemma unique_keys_None_iff [simp, err_simps]:
  "unique_keys e k {} xs = None \<longleftrightarrow> distinct (map k xs)"
  by (simp add: unique_keys_None_iff_gen)

lemma unique_keys_Some: "unique_keys e k seen xs = Some e' \<Longrightarrow> e' = e"
  by (induction xs arbitrary: seen) (auto split: if_splits)

text \<open>\<open>for _, x := range xs { if x.ID == id { return x, true } }\<close>\<close>
definition find_by :: "('a \<Rightarrow> 'k) \<Rightarrow> 'k \<Rightarrow> 'a list \<Rightarrow> 'a option" where
  "find_by k i xs = find (\<lambda>x. k x = i) xs"

lemma find_by_simps [simp, find_simps]:
  "find_by k i [] = None"
  "find_by k i (x # xs) = (if k x = i then Some x else find_by k i xs)"
  by (simp_all add: find_by_def)

lemma find_by_None_iff [find_simps]: "find_by k i xs = None \<longleftrightarrow> i \<notin> k ` set xs"
  by (induction xs) auto

lemma find_by_SomeD: "find_by k i xs = Some x \<Longrightarrow> x \<in> set xs \<and> k x = i"
  by (induction xs) (auto split: if_splits)

lemma find_by_Some_iff:
  "distinct (map k xs) \<Longrightarrow> find_by k i xs = Some x \<longleftrightarrow> x \<in> set xs \<and> k x = i"
  by (induction xs) force+

text \<open>
  \<open>for i := range xs { if xs[i].ID == id { ...; xs[i] = f(xs[i]); return } }\<close>: updates the first
  element with the key.
\<close>
fun update_first :: "('a \<Rightarrow> bool) \<Rightarrow> ('a \<Rightarrow> 'a) \<Rightarrow> 'a list \<Rightarrow> 'a list" where
  "update_first p f [] = []"
| "update_first p f (x # xs) = (if p x then f x # xs else x # update_first p f xs)"

lemma update_first_length [simp]: "length (update_first p f xs) = length xs"
  by (induction xs) auto

lemma update_first_map:
  "(\<And>x. k (f x) = k x) \<Longrightarrow> map k (update_first p f xs) = map k xs"
  by (induction xs) auto

lemma update_first_id: "\<not> (\<exists>x\<in>set xs. p x) \<Longrightarrow> update_first p f xs = xs"
  by (induction xs) auto

lemma find_by_update_first_other:
  "(\<And>x. k (f x) = k x) \<Longrightarrow> i \<noteq> j \<Longrightarrow>
   find_by k j (update_first (\<lambda>x. k x = i) f xs) = find_by k j xs"
  by (induction xs) auto

lemma find_by_update_first_same:
  "(\<And>x. k (f x) = k x) \<Longrightarrow>
   find_by k i (update_first (\<lambda>x. k x = i) f xs) = map_option f (find_by k i xs)"
  by (induction xs) auto

text \<open>\<open>slices.Index\<close>-style search: the position of the first element that satisfies \<open>p\<close>.\<close>
fun index_of :: "('a \<Rightarrow> bool) \<Rightarrow> 'a list \<Rightarrow> nat option" where
  "index_of p [] = None"
| "index_of p (x # xs) = (if p x then Some 0 else map_option Suc (index_of p xs))"

lemma index_of_None_iff: "index_of p xs = None \<longleftrightarrow> (\<forall>x\<in>set xs. \<not> p x)"
  by (induction xs) auto

lemma index_of_SomeD:
  "index_of p xs = Some i \<Longrightarrow> i < length xs \<and> p (xs ! i) \<and> (\<forall>j<i. \<not> p (xs ! j))"
proof (induction xs arbitrary: i)
  case (Cons x xs)
  show ?case
  proof (cases "p x")
    case True
    then show ?thesis using Cons.prems by simp
  next
    case False
    then obtain m where m: "index_of p xs = Some m" "i = Suc m"
      using Cons.prems by auto
    then show ?thesis using Cons.IH [OF m(1)] False by (auto simp: nth_Cons split: nat.splits)
  qed
qed simp

lemma update_first_index:
  "index_of p xs = Some i \<Longrightarrow> xs[i := f (xs ! i)] = update_first p f xs"
  by (induction xs arbitrary: i) (auto split: if_splits)

text \<open>Removing the element at index \<open>i\<close>: \<open>append(xs[:i], xs[i+1:]...)\<close>.\<close>
definition remove_at :: "nat \<Rightarrow> 'a list \<Rightarrow> 'a list" where
  "remove_at i xs = take i xs @ drop (Suc i) xs"

lemma remove_at_simps [simp]:
  "remove_at 0 (x # xs) = xs"
  "remove_at (Suc i) (x # xs) = x # remove_at i xs"
  by (simp_all add: remove_at_def)

lemma set_remove_at: "x \<in> set xs \<Longrightarrow> x \<noteq> xs ! i \<Longrightarrow> x \<in> set (remove_at i xs)"
proof (induction xs arbitrary: i)
  case (Cons y xs)
  then show ?case by (cases i) auto
qed simp

section \<open>Sorting a slice\<close>

text \<open>
  \<open>sort.Slice(xs, less)\<close> for the slice lengths (at most twelve) where the library runs its insertion
  sort: each element moves left past its predecessors while it is less than them.  The sorted
  prefix is kept reversed.  For longer slices the library leaves the order of equal keys open;
  no theorem depends on it.
\<close>
fun ins_rev :: "('a \<Rightarrow> 'a \<Rightarrow> bool) \<Rightarrow> 'a \<Rightarrow> 'a list \<Rightarrow> 'a list" where
  "ins_rev lt x [] = [x]"
| "ins_rev lt x (y # ys) = (if lt x y then y # ins_rev lt x ys else x # y # ys)"

definition sort_slice :: "('a \<Rightarrow> 'a \<Rightarrow> bool) \<Rightarrow> 'a list \<Rightarrow> 'a list" where
  "sort_slice lt xs = rev (fold (ins_rev lt) xs [])"

lemma ins_rev_mset [simp]: "mset (ins_rev lt x ys) = add_mset x (mset ys)"
  by (induction ys) auto

lemma fold_ins_rev_mset: "mset (fold (ins_rev lt) xs ys) = mset xs + mset ys"
  by (induction xs arbitrary: ys) auto

lemma sort_slice_mset [simp]: "mset (sort_slice lt xs) = mset xs"
  by (simp add: sort_slice_def fold_ins_rev_mset)

lemma sort_slice_set [simp]: "set (sort_slice lt xs) = set xs"
  by (metis set_mset_mset sort_slice_mset)

lemma sort_slice_length [simp]: "length (sort_slice lt xs) = length xs"
  by (metis size_mset sort_slice_mset)

text \<open>The comparison contract of \<open>sort.Slice\<close>, on the elements that satisfy \<open>ok\<close>.\<close>

locale slice_order =
  fixes ok :: "'a \<Rightarrow> bool" and lt :: "'a \<Rightarrow> 'a \<Rightarrow> bool"
  assumes asym: "ok x \<Longrightarrow> ok y \<Longrightarrow> lt x y \<Longrightarrow> \<not> lt y x"
    and neg_trans: "ok x \<Longrightarrow> ok y \<Longrightarrow> ok z \<Longrightarrow> \<not> lt y x \<Longrightarrow> \<not> lt z y \<Longrightarrow> \<not> lt z x"
begin

lemma ins_rev_sorted:
  "ok x \<Longrightarrow> (\<forall>y\<in>set ys. ok y) \<Longrightarrow> sorted_wrt (\<lambda>a b. \<not> lt a b) ys \<Longrightarrow>
   sorted_wrt (\<lambda>a b. \<not> lt a b) (ins_rev lt x ys)"
proof (induction ys)
  case (Cons y ys)
  have set_eq: "set (ins_rev lt x ys) = insert x (set ys)"
    by (metis ins_rev_mset set_mset_add_mset_insert set_mset_mset)
  show ?case
  proof (cases "lt x y")
    case True
    then show ?thesis using Cons set_eq asym [of x y] by auto
  next
    case False
    then show ?thesis using Cons.prems neg_trans [of _ y x] by auto
  qed
qed simp

lemma sort_slice_sorted:
  assumes "\<forall>x\<in>set xs. ok x"
  shows "sorted_wrt (\<lambda>a b. \<not> lt b a) (sort_slice lt xs)"
proof -
  have "sorted_wrt (\<lambda>a b. \<not> lt a b) (fold (ins_rev lt) xs ys)"
    if "\<forall>x\<in>set xs. ok x" "\<forall>y\<in>set ys. ok y" "sorted_wrt (\<lambda>a b. \<not> lt a b) ys" for xs ys
    using that
  proof (induction xs arbitrary: ys)
    case (Cons x xs)
    have "set (ins_rev lt x ys) = insert x (set ys)"
      by (metis ins_rev_mset set_mset_add_mset_insert set_mset_mset)
    then show ?case using Cons ins_rev_sorted by simp
  qed simp
  from this [of xs "[]"] show ?thesis using assms by (simp add: sort_slice_def sorted_wrt_rev)
qed

end

text \<open>A symmetric relation that holds between all elements of a list holds in any order.\<close>
lemma sorted_wrt_symmetric_perm:
  assumes "mset xs = mset ys" "\<And>a b. P a b \<Longrightarrow> P b a" "sorted_wrt P xs"
  shows "sorted_wrt P ys"
  using assms
proof (induction xs arbitrary: ys)
  case (Cons x xs)
  then have "x \<in> set ys" by (metis list.set_intros(1) mset_eq_setD)
  then obtain us vs where ys: "ys = us @ x # vs" by (meson split_list)
  then have m: "mset xs = mset (us @ vs)" using Cons.prems(1) by simp
  then have "sorted_wrt P (us @ vs)" using Cons by (simp del: mset_append)
  moreover have "\<forall>y\<in>set (us @ vs). P x y" using Cons.prems(3) m by (metis mset_eq_setD sorted_wrt.simps(2))
  ultimately show ?case using ys Cons.prems(2) by (auto simp: sorted_wrt_append)
qed simp

section \<open>Text\<close>

text \<open>
  \<open>strings.TrimSpace\<close> on ASCII text: strips tab, newline, vertical tab, form feed, carriage return
  and blank at both ends.
\<close>
definition is_space :: "char \<Rightarrow> bool" where
  "is_space c = (let n = of_char c in n = (32::nat) \<or> (9 \<le> n \<and> n \<le> 13))"

definition trim_space :: "string \<Rightarrow> string" where
  "trim_space s = rev (dropWhile is_space (rev (dropWhile is_space s)))"

lemma trim_space_empty_iff: "trim_space s = [] \<longleftrightarrow> (\<forall>c\<in>set s. is_space c)"
proof
  assume "trim_space s = []"
  then have "\<forall>c\<in>set (dropWhile is_space s). is_space c"
    by (simp add: trim_space_def dropWhile_eq_Nil_conv)
  then have "dropWhile is_space s = []"
    by (metis hd_dropWhile hd_in_set)
  then show "\<forall>c\<in>set s. is_space c" by (simp add: dropWhile_eq_Nil_conv)
next
  assume "\<forall>c\<in>set s. is_space c"
  then show "trim_space s = []"
    by (auto simp: trim_space_def dropWhile_eq_Nil_conv dest: set_dropWhileD)
qed

section \<open>Go's 64-bit signed integers\<close>

definition max_int64 :: int where "max_int64 = 9223372036854775807"
definition min_int64 :: int where "min_int64 = - 9223372036854775808"

text \<open>Two's-complement wrap-around of an \<open>int\<close> result.\<close>
definition wrap64 :: "int \<Rightarrow> int" where
  "wrap64 n = (n + 9223372036854775808) mod 18446744073709551616 - 9223372036854775808"

definition is_int64 :: "int \<Rightarrow> bool" where
  "is_int64 n = (min_int64 \<le> n \<and> n \<le> max_int64)"

lemma wrap64_id [simp]: "is_int64 n \<Longrightarrow> wrap64 n = n"
  by (simp add: is_int64_def min_int64_def max_int64_def wrap64_def)

lemma wrap64_range: "is_int64 (wrap64 n)"
  using pos_mod_bound [of 18446744073709551616 "n + 9223372036854775808"]
  by (simp add: is_int64_def min_int64_def max_int64_def wrap64_def)

lemma mod_pred:
  fixes y m :: int
  assumes "0 < m" "y mod m \<noteq> 0"
  shows "(y - 1) mod m = y mod m - 1"
proof -
  have "0 \<le> y mod m" "y mod m < m" using assms(1) by simp_all
  then have "0 \<le> y mod m - 1" "y mod m - 1 < m" using assms(2) by linarith+
  then have "(y mod m - 1) mod m = y mod m - 1" by simp
  then show ?thesis by (metis mod_diff_left_eq)
qed

lemma wrap64_shift: "\<exists>k. wrap64 n = n + 18446744073709551616 * k"
proof
  show "wrap64 n = n + 18446744073709551616 * - ((n + 9223372036854775808) div 18446744073709551616)"
    by (simp add: wrap64_def minus_div_mult_eq_mod [symmetric])
qed

lemma wrap64_period: "wrap64 (n + 18446744073709551616 * k) = wrap64 n"
proof -
  have "n + 18446744073709551616 * k + 9223372036854775808 =
      n + 9223372036854775808 + 18446744073709551616 * k" by simp
  then show ?thesis unfolding wrap64_def by (simp only: mod_mult_self2)
qed

text \<open>Go's \<open>/\<close> and \<open>%\<close> on integers truncate toward zero.\<close>
definition go_quot :: "int \<Rightarrow> int \<Rightarrow> int" where
  "go_quot a b = sgn a * sgn b * (\<bar>a\<bar> div \<bar>b\<bar>)"

definition go_rem :: "int \<Rightarrow> int \<Rightarrow> int" where
  "go_rem a b = a - go_quot a b * b"

lemma go_quot_nonneg: "0 \<le> a \<Longrightarrow> 0 < b \<Longrightarrow> go_quot a b = a div b"
  by (cases "a = 0") (simp_all add: go_quot_def)

lemma go_rem_nonneg: "0 \<le> a \<Longrightarrow> 0 < b \<Longrightarrow> go_rem a b = a mod b"
  by (simp add: go_rem_def go_quot_nonneg minus_div_mult_eq_mod)

end
