(* ===== verification/GoStrings.thy ===== *)
theory GoStrings
  imports Prelude "HOL-Library.List_Lexorder" "HOL-Library.Char_ord" "HOL-Library.Sublist"
begin

text \<open>
  What the command line and the HTTP interface use of the Go packages \<open>strings\<close> and \<open>strconv\<close>, on ASCII
  text: prefixes, splitting and joining, fields, lower case, trimming, and decimal integers of 64
  bits.  Strings compare by their bytes (\<open>Char_ord\<close>, \<open>List_Lexorder\<close>).
\<close>

section \<open>strings\<close>

definition HasPrefix :: "string \<Rightarrow> string \<Rightarrow> bool" where
  "HasPrefix s p = (take (length p) s = p)"

definition TrimPrefix :: "string \<Rightarrow> string \<Rightarrow> string" where
  "TrimPrefix s p = (if HasPrefix s p then drop (length p) s else s)"

definition CutPrefix :: "string \<Rightarrow> string \<Rightarrow> string option" where
  "CutPrefix s p = (if HasPrefix s p then Some (drop (length p) s) else None)"

definition Contains :: "string \<Rightarrow> string \<Rightarrow> bool" where
  "Contains s t = sublist t s"

text \<open>\<open>strings.Split\<close> with a separator of one character.\<close>
fun Split :: "char \<Rightarrow> string \<Rightarrow> string list" where
  "Split c [] = [[]]"
| "Split c (x # s) =
     (if x = c then [] # Split c s
      else case Split c s of [] \<Rightarrow> [[x]] | part # parts \<Rightarrow> (x # part) # parts)"

fun Join :: "string \<Rightarrow> string list \<Rightarrow> string" where
  "Join sep [] = []"
| "Join sep [s] = s"
| "Join sep (s # t # ss) = s @ sep @ Join sep (t # ss)"

text \<open>\<open>strings.SplitN\<close> with a separator of one character: at most \<open>n\<close> parts, the last one unsplit.\<close>
fun SplitN :: "char \<Rightarrow> nat \<Rightarrow> string \<Rightarrow> string list" where
  "SplitN c 0 s = []"
| "SplitN c (Suc 0) s = [s]"
| "SplitN c (Suc (Suc n)) s =
     (case dropWhile (\<lambda>x. x \<noteq> c) s of
        [] \<Rightarrow> [s]
      | _ # rest \<Rightarrow> takeWhile (\<lambda>x. x \<noteq> c) s # SplitN c (Suc n) rest)"

text \<open>\<open>strings.Fields\<close>: the maximal runs without white space.\<close>
function Fields :: "string \<Rightarrow> string list" where
  "Fields s =
     (let t = dropWhile is_space s in
      if t = [] then []
      else takeWhile (\<lambda>c. \<not> is_space c) t # Fields (dropWhile (\<lambda>c. \<not> is_space c) t))"
  by pat_completeness auto
termination
proof (relation "measure length")
  fix s t :: string
  assume t: "t = dropWhile is_space s" "t \<noteq> []"
  then have "\<not> is_space (hd t)" using hd_dropWhile by metis
  then have "length (dropWhile (\<lambda>c. \<not> is_space c) t) < length t"
    using t(2) by (cases t) (auto simp: le_imp_less_Suc length_dropWhile_le)
  also have "length t \<le> length s" by (simp add: t(1) length_dropWhile_le)
  finally show "(dropWhile (\<lambda>c. \<not> is_space c) t, s) \<in> measure length" by simp
qed simp

declare Fields.simps [simp del]

definition lower_char :: "char \<Rightarrow> char" where
  "lower_char c = (let n = of_char c :: nat in if 65 \<le> n \<and> n \<le> 90 then char_of (n + 32) else c)"

definition ToLower :: "string \<Rightarrow> string" where
  "ToLower s = map lower_char s"

text \<open>\<open>strings.Trim\<close> with a cutset of one character.\<close>
definition Trim :: "char \<Rightarrow> string \<Rightarrow> string" where
  "Trim c s = rev (dropWhile (\<lambda>x. x = c) (rev (dropWhile (\<lambda>x. x = c) s)))"

section \<open>strconv\<close>

definition is_digit :: "char \<Rightarrow> bool" where
  "is_digit c = (let n = of_char c :: nat in 48 \<le> n \<and> n \<le> 57)"

definition digit_val :: "char \<Rightarrow> int" where
  "digit_val c = int (of_char c) - 48"

definition digits_val :: "string \<Rightarrow> int" where
  "digits_val s = foldl (\<lambda>n c. n * 10 + digit_val c) 0 s"

text \<open>\<open>strconv.ParseInt(s, 10, 64)\<close> and \<open>strconv.Atoi\<close>: an optional sign, at least one digit, and a value that fits
  64 bits.\<close>
definition ParseInt :: "string \<Rightarrow> int option" where
  "ParseInt s =
     (let (neg, ds) = (case s of c # r \<Rightarrow> if c = CHR ''-'' then (True, r) else if c = CHR ''+'' then (False, r) else (False, s)
                       | [] \<Rightarrow> (False, []));
          v = (if neg then - digits_val ds else digits_val ds) in
      if ds = [] \<or> \<not> list_all is_digit ds then None
      else if min_int64 \<le> v \<and> v \<le> max_int64 then Some v else None)"

text \<open>\<open>%d\<close>\<close>
fun nat_text :: "nat \<Rightarrow> string" where
  "nat_text n = (if n < 10 then [char_of (48 + n)] else nat_text (n div 10) @ [char_of (48 + n mod 10)])"

declare nat_text.simps [simp del]

definition itoa :: "int \<Rightarrow> string" where
  "itoa i = (if i < 0 then CHR ''-'' # nat_text (nat (- i)) else nat_text (nat i))"

section \<open>Lemmas\<close>

lemma HasPrefix_iff: "HasPrefix s p \<longleftrightarrow> prefix p s"
  by (auto simp: HasPrefix_def prefix_def) (metis append_take_drop_id)

lemma HasPrefix_append [simp]: "HasPrefix (p @ s) p"
  by (simp add: HasPrefix_def)

lemma TrimPrefix_append [simp]: "TrimPrefix (p @ s) p = s"
  by (simp add: TrimPrefix_def)

lemma CutPrefix_Some_iff: "CutPrefix s p = Some t \<longleftrightarrow> s = p @ t"
  by (auto simp: CutPrefix_def HasPrefix_def) (metis append_take_drop_id)

lemma Split_not_Nil [simp]: "Split c s \<noteq> []"
  by (cases s) (auto split: list.splits)

lemma Split_no_sep: "c \<notin> set s \<Longrightarrow> Split c s = [s]"
  by (induction s) auto

lemma Split_parts: "part \<in> set (Split c s) \<Longrightarrow> c \<notin> set part"
  by (induction s arbitrary: part) (auto split: if_splits list.splits)

lemma Split_append: "c \<notin> set s \<Longrightarrow> Split c (s @ c # t) = s # Split c t"
  by (induction s) auto

lemma Join_Cons: "ss \<noteq> [] \<Longrightarrow> Join sep (s # ss) = s @ sep @ Join sep ss"
  by (cases ss) auto

text \<open>Splitting a joined list gives the list back when no part contains the separator.\<close>
lemma Split_Join:
  "\<lbrakk>ss \<noteq> []; \<forall>s\<in>set ss. c \<notin> set s\<rbrakk> \<Longrightarrow> Split c (Join [c] ss) = ss"
proof (induction ss)
  case (Cons s ss)
  then show ?case by (cases "ss = []") (auto simp: Split_no_sep Join_Cons Split_append)
qed simp

lemma Join_Split: "Join [c] (Split c s) = s"
proof (induction s)
  case (Cons x s)
  obtain p ps where p: "Split c s = p # ps" by (cases "Split c s") auto
  then show ?case using Cons by (cases ps) auto
qed simp

lemma Fields_words:
  "w \<in> set (Fields s) \<Longrightarrow> w \<noteq> [] \<and> (\<forall>c\<in>set w. \<not> is_space c)"
proof (induction s rule: Fields.induct)
  case (1 s)
  show ?case
  proof (cases "dropWhile is_space s = []")
    case False
    let ?t = "dropWhile is_space s"
    have h: "\<not> is_space (hd ?t)" using False hd_dropWhile by blast
    have "Fields s = takeWhile (\<lambda>c. \<not> is_space c) ?t # Fields (dropWhile (\<lambda>c. \<not> is_space c) ?t)"
      using False by (subst Fields.simps) (simp add: Let_def)
    then consider "w = takeWhile (\<lambda>c. \<not> is_space c) ?t" | "w \<in> set (Fields (dropWhile (\<lambda>c. \<not> is_space c) ?t))"
      using 1(2) by auto
    then show ?thesis
    proof cases
      case 1
      then show ?thesis using False h by (cases ?t) (auto dest: set_takeWhileD)
    next
      case 2
      then show ?thesis using 1(1) False by blast
    qed
  next
    case True
    then show ?thesis using 1(2) by (subst (asm) Fields.simps) simp
  qed
qed

lemma Fields_blank: "\<forall>c\<in>set s. is_space c \<Longrightarrow> Fields s = []"
  by (subst Fields.simps) (simp add: dropWhile_eq_Nil_conv)

lemma Fields_space: "is_space c \<Longrightarrow> Fields (c # s) = Fields s"
  by (subst Fields.simps, subst (2) Fields.simps) simp

lemma Fields_spaces: "\<forall>c\<in>set b. is_space c \<Longrightarrow> Fields (b @ s) = Fields s"
  by (induction b) (auto simp: Fields_space)

lemma Fields_word:
  assumes "w \<noteq> []" "\<forall>c\<in>set w. \<not> is_space c"
  shows "Fields w = [w]" "is_space c \<Longrightarrow> Fields (w @ c # s) = w # Fields s"
proof -
  obtain x w' where w: "w = x # w'" using assms by (cases w) auto
  have d: "dropWhile is_space (w @ t) = w @ t" for t using assms w by simp
  have all: "dropWhile (\<lambda>c. \<not> is_space c) w = []" "takeWhile (\<lambda>c. \<not> is_space c) w = w"
    using assms(2) by (auto simp: takeWhile_eq_all_conv)
  show "Fields w = [w]"
    using assms(1) d [of "[]"] by (subst Fields.simps) (simp add: all Fields_blank del: dropWhile_eq_Nil_conv)
  show "Fields (w @ c # s) = w # Fields s" if c: "is_space c"
  proof -
    have "takeWhile (\<lambda>c. \<not> is_space c) (w @ c # s) = w" "dropWhile (\<lambda>c. \<not> is_space c) (w @ c # s) = c # s"
      using assms c by (auto simp: takeWhile_append dropWhile_append)
    then show ?thesis using d [of "c # s"] c assms by (subst Fields.simps) (simp add: Fields_space)
  qed
qed

lemma is_space_blank [simp]: "is_space CHR '' ''" by (simp add: is_space_def)

lemma Fields_Join:
  assumes "\<forall>w\<in>set ws. w \<noteq> [] \<and> (\<forall>c\<in>set w. \<not> is_space c)"
  shows "Fields (Join '' '' ws) = ws"
  using assms
proof (induction ws)
  case (Cons w ws)
  then show ?case by (cases "ws = []") (auto simp: Join_Cons Fields_word)
qed (simp add: Fields_blank)

lemma digits_val_append: "digits_val (s @ [c]) = digits_val s * 10 + digit_val c"
  by (simp add: digits_val_def)

lemma digit_char: "n < 10 \<Longrightarrow> is_digit (char_of (48 + n)) \<and> digit_val (char_of (48 + n)) = int n"
  by (simp add: is_digit_def digit_val_def of_char_of take_bit_nat_eq_self)

lemma nat_text_digits: "nat_text n \<noteq> [] \<and> list_all is_digit (nat_text n) \<and> digits_val (nat_text n) = int n"
proof (induction n rule: nat_text.induct)
  case (1 n)
  show ?case
  proof (cases "n < 10")
    case True
    then show ?thesis
      by (subst nat_text.simps, subst (2) nat_text.simps, subst (3) nat_text.simps)
         (simp add: digit_char digits_val_def)
  next
    case False
    have v: "int (n div 10) * 10 + int (n mod 10) = int n" by (metis div_mult_mod_eq of_nat_add of_nat_mult of_nat_numeral)
    have e: "nat_text n = nat_text (n div 10) @ [char_of (48 + n mod 10)]"
      using False by (subst nat_text.simps) simp
    show ?thesis using 1 [OF False] v digit_char [of "n mod 10"] by (simp add: e digits_val_append)
  qed
qed

lemma nat_text_first: "hd (nat_text n) \<noteq> CHR ''-'' \<and> hd (nat_text n) \<noteq> CHR ''+''"
  using nat_text_digits [of n] by (cases "nat_text n") (auto simp: is_digit_def)

text \<open>Reading a printed integer of 64 bits gives it back.\<close>
lemma ParseInt_itoa: "is_int64 i \<Longrightarrow> ParseInt (itoa i) = Some i"
proof -
  assume i: "is_int64 i"
  show ?thesis
  proof (cases "i < 0")
    case True
    have "ParseInt (CHR ''-'' # nat_text (nat (- i))) = Some i"
      using nat_text_digits [of "nat (- i)"] True i
      by (simp add: ParseInt_def is_int64_def)
    then show ?thesis using True by (simp add: itoa_def)
  next
    case False
    obtain c r where cr: "nat_text (nat i) = c # r" using nat_text_digits [of "nat i"] by (cases "nat_text (nat i)") auto
    have "ParseInt (nat_text (nat i)) = Some i"
      using nat_text_digits [of "nat i"] nat_text_first [of "nat i"] False i cr
      by (simp add: ParseInt_def is_int64_def)
    then show ?thesis using False by (simp add: itoa_def)
  qed
qed

lemma ParseInt_int64: "ParseInt s = Some i \<Longrightarrow> is_int64 i"
  by (auto simp: ParseInt_def Let_def is_int64_def split: if_splits list.splits prod.splits)

end
