(* ===== verification/F64.thy ===== *)
theory F64
  imports Prelude Complex_Main
begin

text \<open>
  Go's \<open>float64\<close>: IEEE-754 binary64 with round-to-nearest, ties to even.  A finite value is
  the rational it denotes; every arithmetic operation computes exactly and rounds once with
  \<open>round64\<close>.  Comparisons with a NaN are false.  The two zeros are one value here: no code that
  is modelled tells them apart.  The lemmas the components use: rounding is monotone
  (\<open>round64_mono\<close>), does nothing to a value that is already a float (\<open>round64_idem\<close>), and
  fixes the integers up to \<open>2^53\<close> (\<open>is_rep_int\<close>).
\<close>

section \<open>Rounding\<close>

text \<open>Nearest integer, ties to the even one.\<close>
definition round_even :: "rat \<Rightarrow> int" where
  "round_even q =
     (let f = \<lfloor>q\<rfloor>; d = q - of_int f in
      if d < 1 / 2 then f else if 1 / 2 < d then f + 1 else if even f then f else f + 1)"

text \<open>The number of binary digits of a positive integer.\<close>
function blen :: "int \<Rightarrow> nat" where
  "blen n = (if n \<le> 0 then 0 else Suc (blen (n div 2)))"
  by pat_completeness auto
termination
  by (relation "measure nat") auto

declare blen.simps [simp del]

text \<open>The binary exponent of a positive rational: \<open>2 powi expo x \<le> x < 2 powi (expo x + 1)\<close>.\<close>
definition expo :: "rat \<Rightarrow> int" where
  "expo x =
     (let (n, d) = quotient_of x; e = int (blen n) - int (blen d) in
      if 2 powi e \<le> x then e else e - 1)"

text \<open>The exponent of the last place: 52 fraction bits, and gradual underflow at \<open>2^-1074\<close>.\<close>
definition ulp_exp :: "rat \<Rightarrow> int" where
  "ulp_exp x = max (expo x - 52) (- 1074)"

definition rnd_pos :: "rat \<Rightarrow> rat" where
  "rnd_pos x = (let u = 2 powi ulp_exp x in of_int (round_even (x / u)) * u)"

definition rnd :: "rat \<Rightarrow> rat" where
  "rnd x = (if x = 0 then 0 else if x < 0 then - rnd_pos (- x) else rnd_pos x)"

datatype f64 = F_NaN | F_PInf | F_NInf | Fin rat

text \<open>Two to the power 1024, written out so that it evaluates at once; results at or beyond it
  overflow to an infinity.\<close>
definition f64_limit :: rat where
  "f64_limit =
     179769313486231590772930519078902473361797697894230657273430081157732675805500963132708477322407536021120113879871393357658789768814416622492847430639474124377767893424865485276302219601246094119453082952085005768838150682342462881473913110540827237163350510684586298239947245938479716304835356329624224137216"

definition round64 :: "rat \<Rightarrow> f64" where
  "round64 x =
     (let r = rnd x in
      if f64_limit \<le> r then F_PInf else if r \<le> - f64_limit then F_NInf else Fin r)"

text \<open>The rationals that are binary64 values.\<close>
definition is_rep :: "rat \<Rightarrow> bool" where
  "is_rep q = (round64 q = Fin q)"

definition is_f64 :: "f64 \<Rightarrow> bool" where
  "is_f64 x = (case x of Fin q \<Rightarrow> is_rep q | _ \<Rightarrow> True)"

definition f_is_nan :: "f64 \<Rightarrow> bool" where
  "f_is_nan x = (x = F_NaN)"

definition f_is_inf :: "f64 \<Rightarrow> bool" where
  "f_is_inf x = (x = F_PInf \<or> x = F_NInf)"

section \<open>Comparison and arithmetic\<close>

instantiation f64 :: ord
begin

fun less_f64 :: "f64 \<Rightarrow> f64 \<Rightarrow> bool" where
  "less_f64 F_NaN _ = False"
| "less_f64 _ F_NaN = False"
| "less_f64 F_PInf _ = False"
| "less_f64 _ F_NInf = False"
| "less_f64 F_NInf _ = True"
| "less_f64 _ F_PInf = True"
| "less_f64 (Fin a) (Fin b) = (a < b)"

definition less_eq_f64 :: "f64 \<Rightarrow> f64 \<Rightarrow> bool" where
  "less_eq_f64 x y = (x < y \<or> (x = y \<and> x \<noteq> F_NaN))"

instance ..

end

definition f_sign :: "f64 \<Rightarrow> int" where
  "f_sign x = (case x of F_NaN \<Rightarrow> 0 | F_PInf \<Rightarrow> 1 | F_NInf \<Rightarrow> -1
                 | Fin a \<Rightarrow> if a < 0 then -1 else if a = 0 then 0 else 1)"

definition f_inf :: "int \<Rightarrow> f64" where
  "f_inf s = (if s < 0 then F_NInf else if s = 0 then F_NaN else F_PInf)"

instantiation f64 :: "{zero, one, plus, minus, times, inverse}"
begin

definition zero_f64 :: f64 where "zero_f64 = Fin 0"
definition one_f64 :: f64 where "one_f64 = Fin 1"

fun plus_f64 :: "f64 \<Rightarrow> f64 \<Rightarrow> f64" where
  "plus_f64 F_NaN _ = F_NaN"
| "plus_f64 _ F_NaN = F_NaN"
| "plus_f64 F_PInf F_NInf = F_NaN"
| "plus_f64 F_NInf F_PInf = F_NaN"
| "plus_f64 F_PInf _ = F_PInf"
| "plus_f64 _ F_PInf = F_PInf"
| "plus_f64 F_NInf _ = F_NInf"
| "plus_f64 _ F_NInf = F_NInf"
| "plus_f64 (Fin a) (Fin b) = round64 (a + b)"

fun minus_f64 :: "f64 \<Rightarrow> f64 \<Rightarrow> f64" where
  "minus_f64 F_NaN _ = F_NaN"
| "minus_f64 _ F_NaN = F_NaN"
| "minus_f64 F_PInf F_PInf = F_NaN"
| "minus_f64 F_NInf F_NInf = F_NaN"
| "minus_f64 F_PInf _ = F_PInf"
| "minus_f64 _ F_PInf = F_NInf"
| "minus_f64 F_NInf _ = F_NInf"
| "minus_f64 _ F_NInf = F_PInf"
| "minus_f64 (Fin a) (Fin b) = round64 (a - b)"

fun times_f64 :: "f64 \<Rightarrow> f64 \<Rightarrow> f64" where
  "times_f64 (Fin a) (Fin b) = round64 (a * b)"
| "times_f64 x y = (if x = F_NaN \<or> y = F_NaN then F_NaN else f_inf (f_sign x * f_sign y))"

fun divide_f64 :: "f64 \<Rightarrow> f64 \<Rightarrow> f64" where
  "divide_f64 (Fin a) (Fin b) = (if b = 0 then f_inf (f_sign (Fin a)) else round64 (a / b))"
| "divide_f64 F_NaN _ = F_NaN"
| "divide_f64 _ F_NaN = F_NaN"
| "divide_f64 (Fin a) _ = Fin 0"
| "divide_f64 x (Fin b) = (if b < 0 then f_inf (- f_sign x) else x)"
| "divide_f64 _ _ = F_NaN"

definition inverse_f64 :: "f64 \<Rightarrow> f64" where "inverse_f64 x = Fin 1 div x"

instance ..

end

text \<open>\<open>float64(n)\<close> of an integer, and \<open>int(x)\<close>: truncation toward zero; a NaN or a value
  out of the 64-bit range gives the most negative integer (the amd64 conversion).\<close>
definition f_of_int :: "int \<Rightarrow> f64" where
  "f_of_int n = round64 (of_int n)"

definition rat_trunc :: "rat \<Rightarrow> int" where
  "rat_trunc q = (if q < 0 then \<lceil>q\<rceil> else \<lfloor>q\<rfloor>)"

definition f_to_int :: "f64 \<Rightarrow> int" where
  "f_to_int x = (case x of Fin q \<Rightarrow> (let n = rat_trunc q in if is_int64 n then n else min_int64)
                   | _ \<Rightarrow> min_int64)"

text \<open>\<open>byte(x)\<close>: the low eight bits of the converted integer.\<close>
definition f_to_byte :: "f64 \<Rightarrow> 8 word" where
  "f_to_byte x = word_of_int (f_to_int x)"

section \<open>Rounding is monotone and idempotent\<close>

lemma round_even_ge: "of_int n \<le> q \<Longrightarrow> n \<le> round_even q"
  unfolding le_floor_iff [symmetric] by (auto simp: round_even_def Let_def)

lemma round_even_le:
  assumes "q \<le> of_int n"
  shows "round_even q \<le> n"
proof (cases "\<lfloor>q\<rfloor> < n")
  case True
  then show ?thesis by (auto simp: round_even_def Let_def)
next
  case False
  then have "\<lfloor>q\<rfloor> = n" using assms by (metis floor_mono floor_of_int linorder_not_less order_antisym)
  then have "q - of_int \<lfloor>q\<rfloor> \<le> 0" using assms by simp
  then show ?thesis using \<open>\<lfloor>q\<rfloor> = n\<close> by (auto simp: round_even_def Let_def)
qed

lemma round_even_of_int [simp]: "round_even (of_int n) = n"
  by (simp add: order_antisym round_even_ge round_even_le)

lemma round_even_mono:
  assumes "p \<le> q"
  shows "round_even p \<le> round_even q"
proof (cases "\<lfloor>p\<rfloor> = \<lfloor>q\<rfloor>")
  case True
  then show ?thesis using assms by (auto simp: round_even_def Let_def)
next
  case False
  then have "\<lfloor>p\<rfloor> + 1 \<le> \<lfloor>q\<rfloor>" using floor_mono [OF assms] by linarith
  moreover have "round_even p \<le> \<lfloor>p\<rfloor> + 1" by (auto simp: round_even_def Let_def)
  moreover have "\<lfloor>q\<rfloor> \<le> round_even q" by (auto simp: round_even_def Let_def)
  ultimately show ?thesis by linarith
qed

lemma blen_bounds: "0 < n \<Longrightarrow> 2 ^ (blen n - 1) \<le> n \<and> n < 2 ^ blen n \<and> 0 < blen n"
proof (induction n rule: blen.induct)
  case (1 n)
  have b: "blen n = Suc (blen (n div 2))" using 1 by (subst blen.simps) simp
  show ?case
  proof (cases "n div 2 = 0")
    case True
    then have "n = 1" using 1 by linarith
    then show ?thesis using b by (simp add: blen.simps [of 0])
  next
    case False
    then have pos: "0 < n div 2" using 1 by linarith
    then obtain m where m: "blen (n div 2) = Suc m" "2 ^ m \<le> n div 2" "n div 2 < 2 * 2 ^ m"
      using 1 by (cases "blen (n div 2)") auto
    then have "2 * 2 ^ m \<le> n" "n < 2 * (2 * 2 ^ m)" by linarith+
    then show ?thesis using m b by simp
  qed
qed

lemma powi2_pos [simp]: "0 < (2::rat) powi e"
  by (simp add: zero_less_power_int)

lemma powi2_le_iff [simp]: "(2::rat) powi a \<le> 2 powi b \<longleftrightarrow> a \<le> b"
  by (meson not_le one_less_numeral_iff power_int_increasing power_int_strict_increasing
      semiring_norm(76) less_imp_le)

lemma powi2_less_iff [simp]: "(2::rat) powi a < 2 powi b \<longleftrightarrow> a < b"
  by (simp add: less_le_not_le)

lemma powi2_quotient: "(2::rat) powi a / 2 powi b = 2 powi (a - b)"
  by (simp add: power_int_diff)

lemma powi2_int: "0 \<le> e \<Longrightarrow> (2::rat) powi e = of_int (2 ^ nat e)"
  by (simp add: power_int_def)

lemma blen_powi:
  assumes "0 < n"
  shows "2 powi (int (blen n) - 1) \<le> (of_int n :: rat)"
    and "(of_int n :: rat) < 2 powi int (blen n)"
proof -
  define b where "b = blen n"
  have b: "2 ^ (b - 1) \<le> n" "n < 2 ^ b" "0 < b"
    using blen_bounds [of n] assms by (auto simp: b_def)
  have "(of_int (2 ^ (b - 1)) :: rat) \<le> of_int n" using b(1) of_int_le_iff by blast
  then show "2 powi (int (blen n) - 1) \<le> (of_int n :: rat)"
    unfolding b_def [symmetric] using b(3) by (simp add: power_int_def nat_diff_distrib)
  have "(of_int n :: rat) < of_int (2 ^ b)" using b(2) of_int_less_iff by blast
  then show "(of_int n :: rat) < 2 powi int (blen n)"
    unfolding b_def [symmetric] by (simp add: power_int_def)
qed

lemma expo_bounds:
  assumes "0 < x"
  shows "2 powi expo x \<le> x" "x < 2 powi (expo x + 1)"
proof -
  obtain n d where q: "quotient_of x = (n, d)" by (cases "quotient_of x")
  have d: "0 < d" and x: "x = of_int n / of_int d"
    using q quotient_of_denom_pos quotient_of_div by auto
  have n: "0 < n" using assms d x by (simp add: zero_less_divide_iff)
  define bn where "bn = int (blen n)"
  define bd where "bd = int (blen d)"
  define e where "e = bn - bd"
  note n' = blen_powi [OF n, folded bn_def] and d' = blen_powi [OF d, folded bd_def]
  have lo: "2 powi (e - 1) \<le> x"
  proof -
    have "2 powi (e - 1) = (2::rat) powi (bn - 1) / 2 powi bd"
      unfolding powi2_quotient e_def by (simp add: algebra_simps)
    also have "\<dots> \<le> of_int n / of_int d"
      using n' d' d by (intro frac_le) (auto simp: n less_imp_le)
    finally show ?thesis using x by simp
  qed
  have hi: "x < 2 powi (e + 1)"
  proof -
    have "x < 2 powi bn / 2 powi (bd - 1)"
      unfolding x using n' d' d n by (intro frac_less) auto
    then show ?thesis unfolding powi2_quotient e_def by (simp add: algebra_simps)
  qed
  have ex: "expo x = (if 2 powi e \<le> x then e else e - 1)"
    by (simp add: expo_def q e_def bn_def bd_def)
  show "2 powi expo x \<le> x" using ex lo by auto
  show "x < 2 powi (expo x + 1)" using ex hi by auto
qed

lemma expo_mono:
  assumes "0 < x" "x \<le> y"
  shows "expo x \<le> expo y"
proof -
  have "2 powi expo x < (2::rat) powi (expo y + 1)"
    using expo_bounds [of x] expo_bounds [of y] assms by linarith
  then show ?thesis by simp
qed

lemma rnd_pos_le:
  assumes "0 < x" "x \<le> 2 powi f" "ulp_exp x \<le> f"
  shows "rnd_pos x \<le> 2 powi f"
proof -
  let ?u = "2 powi ulp_exp x :: rat"
  have "x / ?u \<le> 2 powi f / ?u" using assms by (simp add: divide_right_mono less_imp_le)
  also have "\<dots> = of_int (2 ^ nat (f - ulp_exp x))"
    unfolding powi2_quotient using assms(3) by (simp add: powi2_int)
  finally have "round_even (x / ?u) \<le> 2 ^ nat (f - ulp_exp x)" by (rule round_even_le)
  then have "of_int (round_even (x / ?u)) \<le> (2::rat) powi (f - ulp_exp x)"
    using assms(3) by (simp only: powi2_int diff_ge_0_iff_ge of_int_le_iff)
  then have "of_int (round_even (x / ?u)) * ?u \<le> 2 powi (f - ulp_exp x) * ?u"
    by (simp add: mult_right_mono less_imp_le)
  also have "\<dots> = 2 powi f" by (simp add: power_int_diff)
  finally show ?thesis by (simp add: rnd_pos_def Let_def)
qed

lemma rnd_pos_ge:
  assumes "0 < x" "2 powi f \<le> x" "ulp_exp x \<le> f"
  shows "2 powi f \<le> rnd_pos x"
proof -
  let ?u = "2 powi ulp_exp x :: rat"
  have "of_int (2 ^ nat (f - ulp_exp x)) = 2 powi f / ?u"
    unfolding powi2_quotient using assms(3) by (simp add: powi2_int)
  also have "\<dots> \<le> x / ?u" using assms by (simp add: divide_right_mono less_imp_le)
  finally have "2 ^ nat (f - ulp_exp x) \<le> round_even (x / ?u)" by (rule round_even_ge)
  then have "(2::rat) powi (f - ulp_exp x) \<le> of_int (round_even (x / ?u))"
    using assms(3) by (simp only: powi2_int diff_ge_0_iff_ge of_int_le_iff)
  then have "2 powi (f - ulp_exp x) * ?u \<le> of_int (round_even (x / ?u)) * ?u"
    by (simp add: mult_right_mono less_imp_le)
  moreover have "2 powi (f - ulp_exp x) * ?u = 2 powi f" by (simp add: power_int_diff)
  ultimately show ?thesis by (simp add: rnd_pos_def Let_def)
qed

lemma rnd_pos_nonneg: "0 < x \<Longrightarrow> 0 \<le> rnd_pos x"
  using round_even_ge [of 0 "x / 2 powi ulp_exp x"]
  by (simp add: rnd_pos_def Let_def zero_le_mult_iff less_imp_le)

lemma rnd_pos_mono:
  assumes "0 < x" "x \<le> y"
  shows "rnd_pos x \<le> rnd_pos y"
proof (cases "ulp_exp x = ulp_exp y")
  case True
  then show ?thesis using assms
    by (simp add: rnd_pos_def Let_def mult_right_mono less_imp_le round_even_mono divide_right_mono)
next
  case False
  have y: "0 < y" using assms by simp
  have "ulp_exp x < ulp_exp y" using False expo_mono [OF assms] by (auto simp: ulp_exp_def)
  then have *: "expo x < expo y" "ulp_exp x \<le> expo y" "ulp_exp y \<le> expo y"
    by (auto simp: ulp_exp_def max_def split: if_splits)
  have "x \<le> 2 powi expo y"
    using expo_bounds(2) [OF assms(1)] *(1) by (meson add_le_imp_le_right less_imp_le
        order_less_le_trans powi2_le_iff zless_imp_add1_zle)
  then have "rnd_pos x \<le> 2 powi expo y" using assms * by (simp add: rnd_pos_le)
  also have "\<dots> \<le> rnd_pos y" using y * expo_bounds(1) by (simp add: rnd_pos_ge)
  finally show ?thesis .
qed

lemma rnd_mono:
  assumes "x \<le> y"
  shows "rnd x \<le> rnd y"
proof -
  consider "0 < x" | "x \<le> 0" "0 \<le> y" | "y < 0" by linarith
  then show ?thesis
  proof cases
    case 1
    then show ?thesis using assms by (simp add: rnd_def rnd_pos_mono)
  next
    case 2
    then show ?thesis using rnd_pos_nonneg [of "- x"] rnd_pos_nonneg [of y]
      by (auto simp: rnd_def)
  next
    case 3
    then show ?thesis using assms rnd_pos_mono [of "- y" "- x"] by (simp add: rnd_def)
  qed
qed

lemma rnd_neg: "rnd (- x) = - rnd x"
  by (simp add: rnd_def)

lemma rnd_pos_exact:
  assumes "0 < x" "x = of_int k * 2 powi f" "ulp_exp x \<le> f"
  shows "rnd_pos x = x"
proof -
  have "x / 2 powi ulp_exp x = of_int k * 2 powi (f - ulp_exp x)"
    by (simp add: assms(2) power_int_diff flip: powi2_quotient)
  also have "\<dots> = of_int (k * 2 ^ nat (f - ulp_exp x))"
    using assms(3) by (simp add: powi2_int)
  finally show ?thesis by (simp add: rnd_pos_def Let_def del: of_int_mult)
                          (metis nonzero_divide_eq_eq less_irrefl powi2_pos)
qed

lemma rnd_pos_idem:
  assumes "0 < x" "0 < rnd_pos x"
  shows "rnd_pos (rnd_pos x) = rnd_pos x"
proof -
  define r where "r = rnd_pos x"
  have r: "0 < r" "r = of_int (round_even (x / 2 powi ulp_exp x)) * 2 powi ulp_exp x"
    using assms by (simp_all add: r_def rnd_pos_def Let_def)
  show ?thesis
  proof (cases "ulp_exp r \<le> ulp_exp x")
    case True
    then show ?thesis using rnd_pos_exact [OF r(1,2)] by (simp add: r_def)
  next
    case False
    define f where "f = ulp_exp x + 53"
    have e: "f \<le> expo r" "ulp_exp x \<le> f" "expo x + 1 \<le> f" "ulp_exp r = expo r - 52"
      using False by (auto simp: f_def ulp_exp_def max_def split: if_splits)
    have "x \<le> 2 powi f"
      using expo_bounds(2) [OF assms(1)] e(3) by (meson less_imp_le order_trans powi2_le_iff)
    then have "r \<le> 2 powi f"
      unfolding r_def using assms e by (intro rnd_pos_le) auto
    then have "expo r = f" "2 powi f \<le> r"
      using expo_bounds(1) [OF r(1)] e(1) by (meson order_antisym order_trans powi2_le_iff)+
    then have "r = of_int 1 * 2 powi f" "ulp_exp r \<le> f"
      using \<open>r \<le> 2 powi f\<close> e(4) by auto
    then show ?thesis using rnd_pos_exact [OF r(1), of 1 f] by (simp add: r_def)
  qed
qed

lemma rnd_idem [simp]: "rnd (rnd x) = rnd x"
proof -
  have pos: "rnd (rnd x) = rnd x" if "0 < x" for x
    using that rnd_pos_idem [of x] rnd_pos_nonneg [of x] by (auto simp: rnd_def)
  show ?thesis
    using pos [of x] pos [of "- x"] rnd_neg [of x] rnd_neg [of "rnd x"]
    by (cases x "0::rat" rule: linorder_cases) (auto simp: rnd_def [of 0])
qed

text \<open>The contract of a rounding function, and what follows from it alone.\<close>

locale monotone_rounding =
  fixes r :: "rat \<Rightarrow> rat"
  assumes mono: "x \<le> y \<Longrightarrow> r x \<le> r y"
    and idem: "r (r x) = r x"
begin

lemma between: "r a = a \<Longrightarrow> r b = b \<Longrightarrow> a \<le> x \<Longrightarrow> x \<le> b \<Longrightarrow> a \<le> r x \<and> r x \<le> b"
  using mono [of a x] mono [of x b] by simp

lemma shrink:
  assumes "r v = v" "r 0 = 0" "0 \<le> v" "0 \<le> m" "m \<le> 1"
  shows "0 \<le> r (v * m) \<and> r (v * m) \<le> v"
  using assms by (intro between) (auto simp: mult_left_le)

end

interpretation rd: monotone_rounding rnd
  by unfold_locales (simp_all add: rnd_mono)

lemma f64_limit_eq: "f64_limit = 2 ^ 1024"
  by (simp add: f64_limit_def)

lemma f64_limit_gt: "9007199254740992 < f64_limit"
  by (simp add: f64_limit_def)

lemma is_rep_iff: "is_rep q \<longleftrightarrow> rnd q = q \<and> - f64_limit < q \<and> q < f64_limit"
  by (auto simp: is_rep_def round64_def Let_def)

lemma rnd_0 [simp]: "rnd 0 = 0" by (simp add: rnd_def)

lemma is_f64_Fin [simp]: "is_f64 (Fin q) = is_rep q" by (simp add: is_f64_def)

lemma is_f64_round64 [simp]: "is_f64 (round64 x)"
  by (auto simp: round64_def Let_def is_f64_def is_rep_iff)

lemma is_rep_0 [simp]: "is_rep 0" using f64_limit_gt by (simp add: is_rep_iff)

lemma is_rep_int:
  assumes "\<bar>n\<bar> < 2 ^ 53"
  shows "is_rep (of_int n)"
proof -
  have pos: "rnd_pos (of_int m) = of_int m" if m: "0 < m" "m < 2 ^ 53" for m :: int
  proof -
    have x: "0 < (of_int m :: rat)" using m by simp
    have "(of_int m :: rat) < of_int (2 ^ 53)" using m(2) of_int_less_iff by blast
    then have "2 powi expo (of_int m) < (2::rat) powi 53"
      using expo_bounds(1) [OF x] by simp
    then have "ulp_exp (of_int m) \<le> 0" by (simp only: powi2_less_iff ulp_exp_def)
    then show ?thesis using rnd_pos_exact [OF x, of m 0] by simp
  qed
  have "rnd (of_int n) = of_int n"
    using assms pos [of n] pos [of "- n"] by (auto simp: rnd_def)
  moreover have "\<bar>of_int n :: rat\<bar> < of_int (2 ^ 53)" using assms by (metis of_int_abs of_int_less_iff)
  then have "- f64_limit < of_int n" "of_int n < f64_limit" using f64_limit_gt by auto
  ultimately show ?thesis by (simp add: is_rep_iff)
qed

lemma is_rep_numeral: "numeral k < (2 ^ 53 :: int) \<Longrightarrow> is_rep (numeral k)"
  using is_rep_int [of "numeral k"] by simp

lemma is_rep_1 [simp]: "is_rep 1"
  using is_rep_int [of 1] by simp

lemma round64_between:
  assumes "is_rep a" "is_rep b" "a \<le> x" "x \<le> b"
  shows "round64 x = Fin (rnd x) \<and> a \<le> rnd x \<and> rnd x \<le> b \<and> is_rep (rnd x)"
proof -
  have "a \<le> rnd x \<and> rnd x \<le> b" using assms by (intro rd.between) (auto simp: is_rep_iff)
  moreover have "- f64_limit < rnd x" "rnd x < f64_limit"
    using calculation assms by (auto simp: is_rep_iff)
  ultimately show ?thesis by (auto simp: round64_def Let_def is_rep_iff)
qed

lemma round64_rep: "is_rep q \<Longrightarrow> round64 q = Fin q"
  by (simp add: is_rep_def)

lemma f64_le_Fin [simp]: "Fin a \<le> Fin b \<longleftrightarrow> a \<le> b"
  by (auto simp: less_eq_f64_def)

lemma f64_le_refl: "x \<noteq> F_NaN \<Longrightarrow> x \<le> (x :: f64)"
  by (simp add: less_eq_f64_def)

lemma f64_le_special [simp]:
  "x \<le> F_PInf \<longleftrightarrow> x \<noteq> F_NaN" "F_NInf \<le> x \<longleftrightarrow> x \<noteq> F_NaN"
  "\<not> F_NaN \<le> x" "\<not> x \<le> F_NaN" "\<not> F_PInf \<le> Fin a" "\<not> Fin a \<le> F_NInf"
  "\<not> F_PInf \<le> F_NInf" "Fin a \<le> F_PInf" "F_NInf \<le> Fin a"
  by (cases x; auto simp: less_eq_f64_def)+

lemma round64_mono: "x \<le> y \<Longrightarrow> round64 x \<le> round64 y"
  using rnd_mono [of x y] by (auto simp: round64_def Let_def)

lemma f64_le_trans: "x \<le> y \<Longrightarrow> y \<le> z \<Longrightarrow> x \<le> (z :: f64)"
  by (cases x; cases y; cases z) (auto simp: less_eq_f64_def)

lemma round64_not_NaN [simp]: "round64 x \<noteq> F_NaN"
  by (simp add: round64_def Let_def)

text \<open>A non-negative float splits exactly into its integral and its fractional part.\<close>
lemma rep_split:
  assumes "is_rep x" "0 \<le> x"
  shows "is_rep (of_int \<lfloor>x\<rfloor>)" "is_rep (x - of_int \<lfloor>x\<rfloor>)"
proof -
  define m where "m = \<lfloor>x\<rfloor>"
  define fr where "fr = x - of_int m"
  have m: "0 \<le> m" "of_int m \<le> x" "0 \<le> fr" "fr < 1" "fr \<le> x" "x < f64_limit"
    using assms by (auto simp: m_def fr_def is_rep_iff) linarith
  define u where "u = ulp_exp x"
  have small: "rnd y = y" if y: "0 \<le> y" "y \<le> x" "y = of_int k * 2 powi f" "u \<le> f" for y k f
  proof (cases "y = 0")
    case False
    then have pos: "0 < y" using y(1) by linarith
    then have "expo y \<le> expo x" using y(2) by (rule expo_mono)
    then have "ulp_exp y \<le> f" using y(4) by (auto simp: u_def ulp_exp_def)
    then show ?thesis using pos rnd_pos_exact [OF pos y(3)] by (simp add: rnd_def)
  qed simp
  have "rnd (of_int m) = of_int m \<and> rnd fr = fr"
  proof (cases "x = 0")
    case True
    then show ?thesis by (simp add: m_def fr_def)
  next
    case False
    then have "of_int (round_even (x / 2 powi u)) * 2 powi u = x"
      using assms by (simp add: is_rep_iff rnd_def rnd_pos_def Let_def u_def)
    then obtain k where k: "x = of_int k * 2 powi u" by metis
    show ?thesis
    proof (cases "0 \<le> u")
      case True
      then have "x = of_int (k * 2 ^ nat u)" using k by (simp add: powi2_int)
      then have "of_int m = x" by (simp add: m_def)
      then show ?thesis using assms by (simp add: fr_def is_rep_iff)
    next
      case False
      have 2: "of_int m = of_int m * (2::rat) powi 0" by simp
      have "fr = of_int k * 2 powi u - of_int m * 2 powi (- u) * 2 powi u"
        using k by (simp add: fr_def power_int_minus)
      also have "\<dots> = of_int (k - m * 2 ^ nat (- u)) * 2 powi u"
        using False powi2_int [of "- u"] by (simp add: algebra_simps)
      finally have 3: "fr = of_int (k - m * 2 ^ nat (- u)) * 2 powi u" .
      show ?thesis using small [OF _ _ 2] small [OF m(3) m(5) 3] m(1,2) False by simp
    qed
  qed
  moreover have "- f64_limit < (of_int m :: rat)" "- f64_limit < fr"
    using m f64_limit_gt by (auto intro: less_le_trans [of _ 0])
  moreover have "of_int m < f64_limit" "fr < f64_limit" using m by linarith+
  ultimately show "is_rep (of_int \<lfloor>x\<rfloor>)" "is_rep (x - of_int \<lfloor>x\<rfloor>)"
    by (simp_all add: is_rep_iff flip: m_def fr_def)
qed

end
