(* ===== verification/Fixture.thy ===== *)
theory Fixture
  imports F64
begin

text \<open>
  \<open>src/internal/fixture\<close>: the capability-based fixture model (\<open>model.go\<close>), its post-decode
  validation (\<open>decode.go\<close>), content-addressed pinning (\<open>identity.go\<close>) and provenance
  (\<open>provenance.go\<close>).  The YAML loader, the canonical JSON encoder and SHA-256 are library code
  and appear as arguments.
\<close>

section \<open>model.go\<close>

type_synonym CapabilityType = string

abbreviation CapabilityIntensity :: CapabilityType where "CapabilityIntensity \<equiv> ''intensity''"
abbreviation CapabilityColor :: CapabilityType where "CapabilityColor \<equiv> ''color''"
abbreviation CapabilityColorRed :: CapabilityType where "CapabilityColorRed \<equiv> ''color_red''"
abbreviation CapabilityColorGreen :: CapabilityType where "CapabilityColorGreen \<equiv> ''color_green''"
abbreviation CapabilityColorBlue :: CapabilityType where "CapabilityColorBlue \<equiv> ''color_blue''"
abbreviation CapabilityColorWhite :: CapabilityType where "CapabilityColorWhite \<equiv> ''color_white''"
abbreviation CapabilityPan :: CapabilityType where "CapabilityPan \<equiv> ''pan''"
abbreviation CapabilityTilt :: CapabilityType where "CapabilityTilt \<equiv> ''tilt''"
abbreviation CapabilityZoom :: CapabilityType where "CapabilityZoom \<equiv> ''zoom''"
abbreviation CapabilityFocus :: CapabilityType where "CapabilityFocus \<equiv> ''focus''"
abbreviation CapabilityGobo :: CapabilityType where "CapabilityGobo \<equiv> ''gobo''"
abbreviation CapabilityShutter :: CapabilityType where "CapabilityShutter \<equiv> ''shutter''"
abbreviation CapabilityStrobe :: CapabilityType where "CapabilityStrobe \<equiv> ''strobe''"

definition SupportedCapabilityTypes :: "CapabilityType list" where
  "SupportedCapabilityTypes =
     [CapabilityIntensity, CapabilityColor, CapabilityColorRed, CapabilityColorGreen,
      CapabilityColorBlue, CapabilityColorWhite, CapabilityPan, CapabilityTilt, CapabilityZoom,
      CapabilityFocus, CapabilityGobo, CapabilityShutter, CapabilityStrobe]"

record Capability =
  cap_Type :: CapabilityType
  cap_Range :: "f64 \<times> f64"
  cap_Comment :: string

record ChannelSlot =
  slot_Type :: CapabilityType
  slot_Occurrence :: int

record Mode =
  mode_Name :: string
  mode_Channels :: "ChannelSlot list"

record FixtureDefinition =
  def_SchemaVersion :: int
  def_Manufacturer :: string
  def_Model :: string
  def_Modes :: "Mode list"
  def_Capabilities :: "Capability list"

section \<open>decode.go\<close>

definition supportedCapabilityTypes :: "CapabilityType \<Rightarrow> bool" where
  "supportedCapabilityTypes t = (t \<in> set SupportedCapabilityTypes)"

text \<open>The \<open>rangesByType\<close> map that \<open>validate\<close> fills; an absent key reads as the nil slice.\<close>
definition rangesByType :: "FixtureDefinition \<Rightarrow> CapabilityType \<Rightarrow> (f64 \<times> f64) list" where
  "rangesByType def t = map cap_Range (filter (\<lambda>c. cap_Type c = t) (def_Capabilities def))"

text \<open>\<open>for i := 1; i < len(sorted); i++ { if sorted[i][0] < sorted[i-1][1] { ... } }\<close>\<close>
fun overlap_scan :: "(f64 \<times> f64) list \<Rightarrow> golc_error option" where
  "overlap_scan (a # b # rs) =
     (if fst b < snd a then Some (Code ''GOLC_FIXTURE_CAPABILITY_RANGE_INVALID'')
      else overlap_scan (b # rs))"
| "overlap_scan _ = None"

definition rejectOverlappingRanges :: "(CapabilityType \<Rightarrow> (f64 \<times> f64) list) \<Rightarrow> golc_error option" where
  "rejectOverlappingRanges ranges =
     first_err (\<lambda>t. if length (ranges t) < 2 then None
                    else overlap_scan (sort_slice (\<lambda>a b. fst a < fst b) (ranges t)))
       SupportedCapabilityTypes"

definition validateChannelSlot ::
  "(CapabilityType \<Rightarrow> (f64 \<times> f64) list) \<Rightarrow> ChannelSlot \<Rightarrow> golc_error option" where
  "validateChannelSlot ranges s =
     (if \<not> supportedCapabilityTypes (slot_Type s)
        then Some (Code ''GOLC_FIXTURE_CHANNEL_TYPE_UNKNOWN'')
      else if slot_Occurrence s < 0 \<or> slot_Occurrence s \<ge> int (length (ranges (slot_Type s)))
        then Some (Code ''GOLC_FIXTURE_CHANNEL_OCCURRENCE_INVALID'')
      else None)"

definition validateChannelLayouts ::
  "FixtureDefinition \<Rightarrow> (CapabilityType \<Rightarrow> (f64 \<times> f64) list) \<Rightarrow> golc_error option" where
  "validateChannelLayouts def ranges =
     first_err (\<lambda>m. if mode_Channels m = [] then Some (Code ''GOLC_FIXTURE_CHANNEL_LAYOUT_MISSING'')
                    else first_err (validateChannelSlot ranges) (mode_Channels m))
       (def_Modes def)"

definition validateCapability :: "Capability \<Rightarrow> golc_error option" where
  "validateCapability c =
     (let low = fst (cap_Range c); high = snd (cap_Range c) in
      if \<not> supportedCapabilityTypes (cap_Type c)
        then Some (Code ''GOLC_FIXTURE_CAPABILITY_TYPE_UNSUPPORTED'')
      else if low < Fin 0 \<or> Fin 1 < low \<or> high < Fin 0 \<or> Fin 1 < high \<or> high < low
        then Some (Code ''GOLC_FIXTURE_CAPABILITY_RANGE_INVALID'')
      else None)"

definition validate_fixture :: "FixtureDefinition \<Rightarrow> golc_error option" where
  "validate_fixture def =
     (if def_SchemaVersion def \<noteq> 1
        then Some (Code ''GOLC_FIXTURE_SCHEMA_VERSION_UNSUPPORTED'')
      else if trim_space (def_Manufacturer def) = []
        then Some (Code ''GOLC_FIXTURE_MANUFACTURER_EMPTY'')
      else if trim_space (def_Model def) = [] then Some (Code ''GOLC_FIXTURE_MODEL_EMPTY'')
      else if def_Modes def = [] then Some (Code ''GOLC_FIXTURE_MODES_EMPTY'')
      else if def_Capabilities def = [] then Some (Code ''GOLC_FIXTURE_EMPTY'')
      else err_seq (first_err validateCapability (def_Capabilities def))
          (err_seq (rejectOverlappingRanges (rangesByType def))
             (validateChannelLayouts def (rangesByType def))))"

definition Decode ::
  "(string \<Rightarrow> FixtureDefinition result) \<Rightarrow> string \<Rightarrow> FixtureDefinition result" where
  "Decode yaml_load data =
     (if trim_space data = [] then Inl (Code ''GOLC_FIXTURE_EMPTY'')
      else case yaml_load data of
          Inl e \<Rightarrow> Inl (Wrap ''GOLC_FIXTURE_YAML_INVALID'' e)
        | Inr def \<Rightarrow> guard_err (validate_fixture def) (Inr def))"

section \<open>identity.go and provenance.go\<close>

record Identity =
  id_SchemaVersion :: int
  id_ContentHash :: string
  id_Revision :: string
  id_StableKey :: string

definition revisionPrefixLength :: nat where "revisionPrefixLength = 12"

definition Pin ::
  "(FixtureDefinition \<Rightarrow> string result) \<Rightarrow> (string \<Rightarrow> string) \<Rightarrow> FixtureDefinition \<Rightarrow> Identity result" where
  "Pin encode sha256_hex def =
     (case encode def of
        Inl e \<Rightarrow> Inl (Wrap ''GOLC_FIXTURE_PIN_HASH'' e)
      | Inr encoded \<Rightarrow>
          let contentHash = sha256_hex encoded in
          Inr \<lparr>id_SchemaVersion = def_SchemaVersion def, id_ContentHash = contentHash,
               id_Revision = take revisionPrefixLength contentHash,
               id_StableKey = def_Manufacturer def @ ''/'' @ def_Model def\<rparr>)"

record LossyImportWarning =
  warn_Severity :: string
  warn_CapabilityType :: string
  warn_Detail :: string

record Provenance =
  prov_Source :: string
  prov_SchemaVersion :: int
  prov_ContentHash :: string
  prov_Revision :: string
  prov_ValidationResult :: string
  prov_Warnings :: "LossyImportWarning list"

definition NewProvenance :: "FixtureDefinition \<Rightarrow> Identity \<Rightarrow> string \<Rightarrow> Provenance" where
  "NewProvenance def identity source =
     \<lparr>prov_Source = source, prov_SchemaVersion = id_SchemaVersion identity,
      prov_ContentHash = id_ContentHash identity, prov_Revision = id_Revision identity,
      prov_ValidationResult = ''valid'', prov_Warnings = []\<rparr>"

section \<open>What a valid fixture guarantees\<close>

text \<open>Two ranges share at most a boundary point.\<close>
definition disjoint_ranges :: "f64 \<times> f64 \<Rightarrow> f64 \<times> f64 \<Rightarrow> bool" where
  "disjoint_ranges a b = (snd a \<le> fst b \<or> snd b \<le> fst a)"

text \<open>A range in the unit interval whose ends are numbers.\<close>
definition unit_range :: "f64 \<times> f64 \<Rightarrow> bool" where
  "unit_range r = (Fin 0 \<le> fst r \<and> fst r \<le> snd r \<and> snd r \<le> Fin 1)"

definition range_no_nan :: "f64 \<times> f64 \<Rightarrow> bool" where
  "range_no_nan r = (fst r \<noteq> F_NaN \<and> snd r \<noteq> F_NaN)"

lemma f64_not_less: "x \<noteq> F_NaN \<Longrightarrow> y \<noteq> F_NaN \<Longrightarrow> \<not> x < y \<longleftrightarrow> y \<le> (x :: f64)"
  by (cases x; cases y) (auto simp: less_eq_f64_def)

interpretation range_sort: slice_order range_no_nan "\<lambda>a b. fst a < fst b"
proof (unfold_locales, goal_cases)
  case (1 x y)
  then show ?case by (cases "fst x"; cases "fst y") (auto simp: range_no_nan_def)
next
  case (2 x y z)
  then show ?case by (auto simp: range_no_nan_def f64_not_less intro: f64_le_trans)
qed

lemma overlap_scan_pairwise:
  assumes "overlap_scan rs = None" "\<forall>r\<in>set rs. unit_range r \<and> range_no_nan r"
  shows "sorted_wrt (\<lambda>a b. snd a \<le> fst b) rs"
  using assms
proof (induction rs rule: overlap_scan.induct)
  case (1 a b rs)
  then have ab: "snd a \<le> fst b"
    by (auto simp: range_no_nan_def f64_not_less split: if_splits)
  have s: "sorted_wrt (\<lambda>a b. snd a \<le> fst b) (b # rs)" using 1 by (auto split: if_splits)
  have "fst b \<le> snd b" using 1(3) by (simp add: unit_range_def)
  then have "\<forall>c\<in>set rs. snd a \<le> fst c" using ab s by (auto intro: f64_le_trans)
  then show ?case using ab s by simp
qed auto

lemma overlap_scan_complete:
  assumes "sorted_wrt (\<lambda>a b. \<not> fst b < fst a) rs" "sorted_wrt disjoint_ranges rs"
    and "\<forall>r\<in>set rs. range_no_nan r \<and> fst r < snd r"
  shows "overlap_scan rs = None"
  using assms
proof (induction rs rule: overlap_scan.induct)
  case (1 a b rs)
  have n: "fst a \<noteq> F_NaN" "snd a \<noteq> F_NaN" "fst b \<noteq> F_NaN" "snd b \<noteq> F_NaN"
    and w: "fst b < snd b"
    using 1(4) by (auto simp: range_no_nan_def)
  have le: "fst a \<le> fst b" using 1(2) n by (simp add: f64_not_less)
  have "\<not> snd b \<le> fst a"
    using le w n by (metis f64_le_trans f64_not_less)
  then have "snd a \<le> fst b" using 1(3) by (simp add: disjoint_ranges_def)
  then have "\<not> fst b < snd a" using n by (simp add: f64_not_less)
  then show ?case using 1 by simp
qed auto

lemma overlap_scan_sort_iff:
  assumes "\<forall>r\<in>set rs. range_no_nan r \<and> unit_range r \<and> fst r < snd r"
  shows "overlap_scan (sort_slice (\<lambda>a b. fst a < fst b) rs) = None \<longleftrightarrow> sorted_wrt disjoint_ranges rs"
    (is "overlap_scan ?s = None \<longleftrightarrow> _")
proof
  assume "overlap_scan ?s = None"
  then have "sorted_wrt (\<lambda>a b. snd a \<le> fst b) ?s"
    using assms by (intro overlap_scan_pairwise) auto
  then have "sorted_wrt disjoint_ranges ?s"
    by (rule sorted_wrt_mono_rel [rotated]) (simp add: disjoint_ranges_def)
  then show "sorted_wrt disjoint_ranges rs"
    by (rule sorted_wrt_symmetric_perm [rotated 2]) (auto simp: disjoint_ranges_def)
next
  assume "sorted_wrt disjoint_ranges rs"
  then have "sorted_wrt disjoint_ranges ?s"
    by (rule sorted_wrt_symmetric_perm [rotated 2]) (auto simp: disjoint_ranges_def)
  moreover have "sorted_wrt (\<lambda>a b. \<not> fst b < fst a) ?s"
    using assms by (intro range_sort.sort_slice_sorted) auto
  ultimately show "overlap_scan ?s = None" using assms by (intro overlap_scan_complete) auto
qed

text \<open>The declarative contract of an accepted fixture.\<close>
definition fixture_ok :: "FixtureDefinition \<Rightarrow> bool" where
  "fixture_ok def =
     (def_SchemaVersion def = 1 \<and> trim_space (def_Manufacturer def) \<noteq> [] \<and>
      trim_space (def_Model def) \<noteq> [] \<and> def_Modes def \<noteq> [] \<and> def_Capabilities def \<noteq> [] \<and>
      (\<forall>c\<in>set (def_Capabilities def).
         cap_Type c \<in> set SupportedCapabilityTypes \<and> unit_range (cap_Range c)) \<and>
      (\<forall>t\<in>set SupportedCapabilityTypes. sorted_wrt disjoint_ranges (rangesByType def t)) \<and>
      (\<forall>m\<in>set (def_Modes def). mode_Channels m \<noteq> [] \<and>
         (\<forall>s\<in>set (mode_Channels m). 0 \<le> slot_Occurrence s \<and>
            slot_Occurrence s < int (length (rangesByType def (slot_Type s))))))"

lemma validateCapability_iff:
  "range_no_nan (cap_Range c) \<Longrightarrow>
   validateCapability c = None \<longleftrightarrow>
   cap_Type c \<in> set SupportedCapabilityTypes \<and> unit_range (cap_Range c)"
  by (cases "fst (cap_Range c)"; cases "snd (cap_Range c)")
     (auto simp: validateCapability_def Let_def supportedCapabilityTypes_def unit_range_def
       range_no_nan_def less_eq_f64_def)

lemma rangesByType_nonempty:
  assumes "\<forall>c\<in>set (def_Capabilities def). cap_Type c \<in> set SupportedCapabilityTypes"
    and "rangesByType def t \<noteq> []"
  shows "t \<in> set SupportedCapabilityTypes"
  using assms by (cases "filter (\<lambda>c. cap_Type c = t) (def_Capabilities def)")
    (auto simp: rangesByType_def filter_eq_Cons_iff)

lemma sorted_wrt_short: "length rs < 2 \<Longrightarrow> sorted_wrt P rs"
  by (cases rs; cases "tl rs") auto

text \<open>
  On a definition without NaN and without zero-width capability ranges, \<open>fixture.Validate\<close>
  accepts exactly the fixtures the model promises: supported schema, named, non-empty, every
  range inside [0,1], same-type ranges pairwise non-overlapping (touching allowed) whatever
  their declared order, and every channel slot pointing at a declared capability.
\<close>
theorem validate_fixture_iff:
  assumes n: "\<forall>c\<in>set (def_Capabilities def).
     range_no_nan (cap_Range c) \<and> fst (cap_Range c) < snd (cap_Range c)"
  shows "validate_fixture def = None \<longleftrightarrow> fixture_ok def"
proof -
  let ?caps = "\<forall>c\<in>set (def_Capabilities def).
     cap_Type c \<in> set SupportedCapabilityTypes \<and> unit_range (cap_Range c)"
  have caps: "first_err validateCapability (def_Capabilities def) = None \<longleftrightarrow> ?caps"
    using n validateCapability_iff by auto
  have over: "rejectOverlappingRanges (rangesByType def) = None \<longleftrightarrow>
      (\<forall>t\<in>set SupportedCapabilityTypes. sorted_wrt disjoint_ranges (rangesByType def t))"
    if ?caps
  proof -
    have "\<forall>r\<in>set (rangesByType def t). range_no_nan r \<and> unit_range r \<and> fst r < snd r" for t
      using that n by (auto simp: rangesByType_def)
    then show ?thesis
      by (auto simp: rejectOverlappingRanges_def overlap_scan_sort_iff sorted_wrt_short)
  qed
  have slots: "validateChannelLayouts def (rangesByType def) = None \<longleftrightarrow>
      (\<forall>m\<in>set (def_Modes def). mode_Channels m \<noteq> [] \<and>
         (\<forall>s\<in>set (mode_Channels m). 0 \<le> slot_Occurrence s \<and>
            slot_Occurrence s < int (length (rangesByType def (slot_Type s)))))"
    if ?caps
  proof -
    have "slot_Type s \<in> set SupportedCapabilityTypes"
      if "0 \<le> slot_Occurrence s" "slot_Occurrence s < int (length (rangesByType def (slot_Type s)))"
      for s
      using rangesByType_nonempty [of def "slot_Type s"] \<open>?caps\<close> that by force
    then show ?thesis
      by (fastforce simp: validateChannelLayouts_def validateChannelSlot_def
          supportedCapabilityTypes_def not_le not_less split: if_splits)
  qed
  show ?thesis
    using caps over slots by (auto simp: validate_fixture_def fixture_ok_def split: if_splits)
qed

text \<open>A two-channel moving PAR whose shutter has two touching sub-ranges, declared high first.\<close>
definition par_fixture :: FixtureDefinition where
  "par_fixture =
     \<lparr>def_SchemaVersion = 1, def_Manufacturer = ''Acme'', def_Model = ''PAR'',
      def_Modes = [\<lparr>mode_Name = ''2ch'',
        mode_Channels = [\<lparr>slot_Type = CapabilityIntensity, slot_Occurrence = 0\<rparr>,
                         \<lparr>slot_Type = CapabilityShutter, slot_Occurrence = 1\<rparr>]\<rparr>],
      def_Capabilities =
        [\<lparr>cap_Type = CapabilityIntensity, cap_Range = (Fin 0, Fin 1), cap_Comment = []\<rparr>,
         \<lparr>cap_Type = CapabilityShutter, cap_Range = (Fin (1 / 2), Fin 1), cap_Comment = []\<rparr>,
         \<lparr>cap_Type = CapabilityShutter, cap_Range = (Fin 0, Fin (1 / 2)), cap_Comment = []\<rparr>]\<rparr>"

theorem validate_fixture_iff_witness: "validate_fixture par_fixture = None \<and> fixture_ok par_fixture"
proof -
  have "validate_fixture par_fixture = None" by code_simp
  moreover have "validate_fixture par_fixture = None \<longleftrightarrow> fixture_ok par_fixture"
    by (rule validate_fixture_iff) (simp add: par_fixture_def range_no_nan_def)
  ultimately show ?thesis by blast
qed

end
