(* ===== verification/Contracts.thy ===== *)
theory Contracts
  imports Prelude
begin

text \<open>
  The contracts that several packages of the program share, as locales: objects with a stable
  identity and an editable unique name (pools, deployments, scenes, themes, presets, chases,
  motion presets, blend presets, operator surfaces), and collections in which at most one
  object is active, selected by name (deployments and scenes).  Every component theory
  interprets them on its own operations.
\<close>

section \<open>Named objects\<close>

locale named_object =
  fixes ident :: "'a \<Rightarrow> uuid"
    and name :: "'a \<Rightarrow> string"
    and rename :: "'a \<Rightarrow> string \<Rightarrow> 'a result"
    and validate_unique :: "'a list \<Rightarrow> golc_error option"
  assumes rename_total: "trim_space n \<noteq> [] \<longleftrightarrow> is_ok (rename x n)"
    and rename_ident: "rename x n = Inr y \<Longrightarrow> ident y = ident x"
    and rename_name: "rename x n = Inr y \<Longrightarrow> name y = n"
    and unique_iff: "validate_unique xs = None \<longleftrightarrow> distinct (map name xs)"
begin

text \<open>Renaming one object of a collection to an unused name keeps the names unique and leaves
  every identity where it was.\<close>
lemma rename_in_place:
  assumes "validate_unique xs = None" "i < length xs" "n \<notin> name ` set xs"
    and "rename (xs ! i) n = Inr y"
  shows "validate_unique (xs[i := y]) = None" "map ident (xs[i := y]) = map ident xs"
proof -
  have "distinct ((map name xs)[i := n])"
    using assms by (simp add: unique_iff distinct_list_update)
  then show "validate_unique (xs[i := y]) = None"
    using assms rename_name by (simp add: unique_iff map_update)
  have "map ident (xs[i := y]) = (map ident xs)[i := ident y]" by (simp add: map_update)
  also have "\<dots> = map ident xs"
    using rename_ident [OF assms(4)] assms(2) by (metis list_update_id nth_map)
  finally show "map ident (xs[i := y]) = map ident xs" .
qed

lemma rename_blank: "trim_space n = [] \<longleftrightarrow> (\<exists>e. rename x n = Inl e)"
  using rename_total [of n x] by (cases "rename x n") auto

lemma rename_to_used:
  assumes "i < length xs" "j < length xs" "i \<noteq> j" "rename (xs ! i) (name (xs ! j)) = Inr y"
  shows "validate_unique (xs[i := y]) \<noteq> None"
proof -
  have "map name (xs[i := y]) ! i = map name (xs[i := y]) ! j"
    using assms rename_name by simp
  then have "\<not> distinct (map name (xs[i := y]))"
    using assms by (metis length_list_update length_map nth_eq_iff_index_eq)
  then show ?thesis using unique_iff by blast
qed

end

section \<open>Collections with at most one active object\<close>

definition count_active :: "('a \<Rightarrow> bool) \<Rightarrow> 'a list \<Rightarrow> nat" where
  "count_active active xs = length (filter active xs)"

locale single_active =
  fixes name :: "'a \<Rightarrow> string"
    and active :: "'a \<Rightarrow> bool"
    and set_active :: "bool \<Rightarrow> 'a \<Rightarrow> 'a"
    and validate_single :: "'a list \<Rightarrow> golc_error option"
    and activate :: "'a list \<Rightarrow> string \<Rightarrow> 'a list result"
  assumes active_set [simp]: "active (set_active b x) = b"
    and name_set [simp]: "name (set_active b x) = name x"
    and set_set [simp]: "set_active b (set_active c x) = set_active b x"
    and set_same: "active x = b \<Longrightarrow> set_active b x = x"
    and single_iff: "validate_single xs = None \<longleftrightarrow> count_active active xs \<le> 1"
    and activate_ok: "n \<in> name ` set xs \<Longrightarrow>
      activate xs n = Inr (map (\<lambda>x. set_active (name x = n) x) xs)"
    and activate_err: "n \<notin> name ` set xs \<Longrightarrow> \<exists>e. activate xs n = Inl e"
begin

lemma activate_InrD:
  "activate xs n = Inr ys \<Longrightarrow>
   n \<in> name ` set xs \<and> ys = map (\<lambda>x. set_active (name x = n) x) xs"
  by (cases "n \<in> name ` set xs") (use activate_ok activate_err in fastforce)+

lemma activate_names: "activate xs n = Inr ys \<Longrightarrow> map name ys = map name xs"
  by (drule activate_InrD) (simp add: comp_def)

lemma activate_single:
  assumes "distinct (map name xs)" "activate xs n = Inr ys"
  shows "validate_single ys = None" "\<exists>!y. y \<in> set ys \<and> active y"
proof -
  have ys: "ys = map (\<lambda>x. set_active (name x = n) x) xs" and n: "n \<in> name ` set xs"
    using activate_InrD [OF assms(2)] by auto
  have "filter active ys = map (set_active True) (filter (\<lambda>x. name x = n) xs)"
    unfolding ys by (induction xs) auto
  moreover have "length (filter (\<lambda>x. name x = n) xs) = 1"
    using assms(1) n by (induction xs) (auto simp: filter_empty_conv rev_image_eqI)
  ultimately have one: "length (filter active ys) = 1" by simp
  then show "validate_single ys = None" by (simp add: single_iff count_active_def)
  obtain y where "filter active ys = [y]" using one by (auto simp: length_Suc_conv)
  then have "\<And>z. z \<in> set ys \<and> active z \<longleftrightarrow> z = y"
    by (metis empty_iff empty_set filter_is_subset list.set_intros(1) mem_Collect_eq set_ConsD
        set_filter)
  then show "\<exists>!y. y \<in> set ys \<and> active y" by simp
qed

lemma activate_again:
  assumes "activate xs n = Inr ys" "activate ys m = Inr zs"
  shows "activate xs m = Inr zs"
proof -
  have "m \<in> name ` set xs" "zs = map (\<lambda>x. set_active (name x = m) x) xs"
    using activate_InrD [OF assms(1)] activate_InrD [OF assms(2)] by (auto simp: comp_def)
  then show ?thesis by (simp add: activate_ok)
qed

end

section \<open>Deletion by identity\<close>

text \<open>\<open>kept\<close>/\<open>found\<close> loops: drop every element with the key, fail when there is none.\<close>
definition delete_by :: "golc_error \<Rightarrow> ('a \<Rightarrow> 'k) \<Rightarrow> 'k \<Rightarrow> 'a list \<Rightarrow> 'a list result" where
  "delete_by e k i xs = (if i \<in> k ` set xs then Inr (filter (\<lambda>x. k x \<noteq> i) xs) else Inl e)"

lemma delete_by_Inr: "delete_by e k i xs = Inr ys \<Longrightarrow>
   i \<in> k ` set xs \<and> i \<notin> k ` set ys \<and> set ys = {x \<in> set xs. k x \<noteq> i}"
  by (auto simp: delete_by_def split: if_splits)

end
