(* ===== verification/Deployment.thy ===== *)
theory Deployment
  imports Contracts
begin

text \<open>
  \<open>src/internal/deployment\<close>: deployments and their patched instances (\<open>model.go\<close>), the first-fit
  DMX address allocator, in-place reassignment (\<open>reassign.go\<close>) and deletion (\<open>delete.go\<close>).
  Additions in the allocator keep Go's 64-bit wrap-around.  A fresh UUIDv7 is an argument
  (\<open>None\<close>: the generator failed).
\<close>

section \<open>model.go\<close>

definition channelsPerUniverse :: int where "channelsPerUniverse = 512"
definition maxUniverseSearch :: int where "maxUniverseSearch = 64"

record Instance =
  inst_ID :: uuid
  inst_PoolID :: uuid
  inst_PoolMemberID :: uuid
  inst_Mode :: string
  inst_Universe :: int
  inst_Address :: int

record Deployment =
  dep_ID :: uuid
  dep_Name :: string
  dep_Active :: bool
  dep_Instances :: "Instance list"

definition NewDeployment :: "uuid option \<Rightarrow> string \<Rightarrow> Deployment result" where
  "NewDeployment mint nm =
     (if trim_space nm = [] then Inl (Code ''GOLC_DEPLOYMENT_NAME_EMPTY'')
      else case mint of
          None \<Rightarrow> Inl (Code ''GOLC_DEPLOYMENT_ID_MINT_FAILED'')
        | Some i \<Rightarrow> Inr \<lparr>dep_ID = i, dep_Name = nm, dep_Active = False, dep_Instances = []\<rparr>)"

definition RenameDeployment :: "Deployment \<Rightarrow> string \<Rightarrow> Deployment result" where
  "RenameDeployment d newName =
     (if trim_space newName = [] then Inl (Code ''GOLC_DEPLOYMENT_NAME_EMPTY'')
      else Inr (d\<lparr>dep_Name := newName\<rparr>))"

definition ValidateUniqueDeploymentNames :: "Deployment list \<Rightarrow> golc_error option" where
  "ValidateUniqueDeploymentNames ds =
     unique_keys (Code ''GOLC_DEPLOYMENT_DUPLICATE_NAME'') dep_Name {} ds"

definition ValidateSingleActive :: "Deployment list \<Rightarrow> golc_error option" where
  "ValidateSingleActive ds =
     (if count_active dep_Active ds > 1 then Some (Code ''GOLC_DEPLOYMENT_MULTIPLE_ACTIVE'')
      else None)"

definition Activate :: "Deployment list \<Rightarrow> string \<Rightarrow> Deployment list result" where
  "Activate ds nm =
     (let activated = map (\<lambda>d. d\<lparr>dep_Active := (dep_Name d = nm)\<rparr>) ds in
      if \<exists>d\<in>set activated. dep_Active d then Inr activated
      else Inl (Code ''GOLC_DEPLOYMENT_NOT_FOUND''))"

definition ValidateInstanceAddress :: "Instance \<Rightarrow> golc_error option" where
  "ValidateInstanceAddress i =
     (if inst_Universe i < 1 then Some (Code ''GOLC_DEPLOYMENT_ADDRESS_OUT_OF_RANGE'')
      else if inst_Address i < 1 \<or> inst_Address i > channelsPerUniverse
        then Some (Code ''GOLC_DEPLOYMENT_ADDRESS_OUT_OF_RANGE'')
      else None)"

definition overlapsExisting :: "Instance list \<Rightarrow> int \<Rightarrow> int \<Rightarrow> int \<Rightarrow> bool" where
  "overlapsExisting existing universe address channelCount =
     (let newEnd = wrap64 (address + channelCount - 1) in
      \<exists>i\<in>set existing. inst_Universe i = universe \<and>
        address \<le> wrap64 (inst_Address i + channelCount - 1) \<and> inst_Address i \<le> newEnd)"

text \<open>The inner loop of \<open>NextFreeAddressFrom\<close> over \<open>candidateAddress\<close>.\<close>
function scan_addresses :: "Instance list \<Rightarrow> int \<Rightarrow> int \<Rightarrow> int \<Rightarrow> int option" where
  "scan_addresses existing universe channelCount a =
     (if wrap64 (a + channelCount - 1) \<le> channelsPerUniverse
      then if \<not> overlapsExisting existing universe a channelCount then Some a
           else scan_addresses existing universe channelCount (wrap64 (a + 1))
      else None)"
  by pat_completeness auto
termination
proof (relation "measure (\<lambda>(_, _, c, a). nat ((514 - c - a) mod 18446744073709551616))", goal_cases)
  case (2 existing universe c a)
  let ?M = "18446744073709551616 :: int" and ?x = "514 - c - a"
  have "?x mod ?M \<noteq> 0"
  proof
    assume "?x mod ?M = 0"
    then obtain k where "?x = ?M * k" by (metis dvd_def mod_0_imp_dvd)
    then have "a + c - 1 = 513 + ?M * (- k)" by simp
    then have "wrap64 (a + c - 1) = wrap64 513" using wrap64_period by metis
    then show False using 2(1) by (simp add: wrap64_def channelsPerUniverse_def)
  qed
  moreover have "(514 - c - wrap64 (a + 1)) mod ?M = (?x - 1) mod ?M"
  proof -
    obtain k where "wrap64 (a + 1) = a + 1 + ?M * k" using wrap64_shift by blast
    then have "514 - c - wrap64 (a + 1) = (?x - 1) + ?M * (- k)" by simp
    then show ?thesis by (simp only: mod_mult_self2)
  qed
  ultimately show ?case using mod_pred [of ?M ?x] pos_mod_sign [of ?M ?x] by simp
qed simp

declare scan_addresses.simps [simp del]

text \<open>The outer loop over \<open>candidateUniverse\<close>.\<close>
function scan_universes ::
  "Instance list \<Rightarrow> int \<Rightarrow> int \<Rightarrow> int \<Rightarrow> int \<Rightarrow> (int \<times> int) option" where
  "scan_universes existing channelCount startUniverse startAddress u =
     (if u \<le> maxUniverseSearch
      then let addressFloor = (if u = startUniverse then startAddress else 1) in
           case scan_addresses existing u channelCount addressFloor of
             Some a \<Rightarrow> Some (u, a)
           | None \<Rightarrow> scan_universes existing channelCount startUniverse startAddress (u + 1)
      else None)"
  by pat_completeness auto
termination
  by (relation "measure (\<lambda>(_, _, _, _, u). nat (65 - u))") (auto simp: maxUniverseSearch_def)

declare scan_universes.simps [simp del]

definition NextFreeAddressFrom ::
  "Instance list \<Rightarrow> int \<Rightarrow> int \<Rightarrow> int \<Rightarrow> (int \<times> int) result" where
  "NextFreeAddressFrom existing channelCount startUniverse startAddress =
     (let exhausted = Inl (Code ''GOLC_DEPLOYMENT_ADDRESS_EXHAUSTED'') in
      if channelCount < 1 then exhausted
      else if channelCount > channelsPerUniverse then exhausted
      else
        let su = (if startUniverse < 1 then 1 else startUniverse);
            sa = (if startAddress < 1 then 1 else startAddress) in
        if su > maxUniverseSearch then exhausted
        else case scan_universes existing channelCount su sa su of
            Some slot \<Rightarrow> Inr slot
          | None \<Rightarrow> exhausted)"

definition NextFreeAddress :: "Instance list \<Rightarrow> int \<Rightarrow> (int \<times> int) result" where
  "NextFreeAddress existing channelCount = NextFreeAddressFrom existing channelCount 1 1"

section \<open>reassign.go and delete.go\<close>

definition reassignChannelCount :: int where "reassignChannelCount = 1"

definition Reassign ::
  "Instance list \<Rightarrow> uuid \<Rightarrow> string \<Rightarrow> int \<Rightarrow> int \<Rightarrow> Instance list result" where
  "Reassign existing instanceID mode universe address =
     (case index_of (\<lambda>i. inst_ID i = instanceID) existing of
        None \<Rightarrow> Inl (Code ''GOLC_DEPLOYMENT_INSTANCE_NOT_FOUND'')
      | Some index \<Rightarrow>
          let candidate = (existing ! index)
                \<lparr>inst_Mode := mode, inst_Universe := universe, inst_Address := address\<rparr> in
          guard_err (ValidateInstanceAddress candidate)
            (if overlapsExisting (remove_at index existing) universe address reassignChannelCount
             then Inl (Code ''GOLC_DEPLOYMENT_ADDRESS_COLLISION'')
             else Inr (existing[index := candidate])))"

definition DeleteDeployment :: "Deployment list \<Rightarrow> uuid \<Rightarrow> Deployment list result" where
  "DeleteDeployment ds deploymentID =
     delete_by (Code ''GOLC_DEPLOYMENT_NOT_FOUND'') dep_ID deploymentID ds"

section \<open>Contracts\<close>

interpretation dep: named_object dep_ID dep_Name RenameDeployment ValidateUniqueDeploymentNames
  by unfold_locales
     (auto simp: RenameDeployment_def ValidateUniqueDeploymentNames_def split: if_splits)

interpretation dep_act: single_active dep_Name dep_Active "\<lambda>b. dep_Active_update (\<lambda>_. b)"
  ValidateSingleActive Activate
  by unfold_locales (auto simp: ValidateSingleActive_def Activate_def Let_def)

section \<open>The allocator is first fit\<close>

text \<open>A span of \<open>c\<close> channels at \<open>(u, a)\<close> that meets no \<open>c\<close>-wide footprint of an existing instance.\<close>
definition slot_free :: "Instance list \<Rightarrow> int \<Rightarrow> int \<Rightarrow> int \<Rightarrow> bool" where
  "slot_free existing u a c =
     (\<forall>i\<in>set existing. inst_Universe i = u \<longrightarrow>
        a + c - 1 < inst_Address i \<or> inst_Address i + c - 1 < a)"

text \<open>The slots the search visits from a start position.\<close>
definition in_scan :: "int \<Rightarrow> int \<Rightarrow> int \<Rightarrow> int \<Rightarrow> int \<Rightarrow> bool" where
  "in_scan su sa c u a =
     (su \<le> u \<and> u \<le> maxUniverseSearch \<and> (if u = su then sa else 1) \<le> a \<and>
      a + c - 1 \<le> channelsPerUniverse)"

definition addresses_valid :: "Instance list \<Rightarrow> bool" where
  "addresses_valid existing = (\<forall>i\<in>set existing. ValidateInstanceAddress i = None)"

lemma ValidateInstanceAddress_None [simp]:
  "ValidateInstanceAddress i = None \<longleftrightarrow>
     1 \<le> inst_Universe i \<and> 1 \<le> inst_Address i \<and> inst_Address i \<le> 512"
  by (auto simp: ValidateInstanceAddress_def channelsPerUniverse_def)

lemma overlapsExisting_free:
  assumes "addresses_valid existing" "1 \<le> c" "c \<le> 512" "1 \<le> a" "a + c - 1 \<le> max_int64"
  shows "overlapsExisting existing u a c \<longleftrightarrow> \<not> slot_free existing u a c"
proof -
  have "wrap64 (a + c - 1) = a + c - 1"
    using assms by (intro wrap64_id) (simp add: is_int64_def min_int64_def)
  moreover have "wrap64 (inst_Address i + c - 1) = inst_Address i + c - 1" if "i \<in> set existing" for i
    using assms that
    by (intro wrap64_id) (auto simp: is_int64_def min_int64_def max_int64_def addresses_valid_def)
  ultimately show ?thesis by (auto simp: overlapsExisting_def slot_free_def not_less)
qed

text \<open>Without overflow the loops are plain searches.\<close>
lemma scan_addresses_step:
  assumes "addresses_valid ex" "1 \<le> c" "c \<le> 512" "1 \<le> a" "a + c - 1 \<le> max_int64"
  shows "scan_addresses ex u c a =
    (if a + c - 1 \<le> 512 then if slot_free ex u a c then Some a else scan_addresses ex u c (a + 1)
     else None)"
proof -
  have "wrap64 (a + c - 1) = a + c - 1"
    using assms by (intro wrap64_id) (simp add: is_int64_def min_int64_def)
  moreover have "wrap64 (a + 1) = a + 1" if "a + c - 1 \<le> 512"
    using that assms by (intro wrap64_id) (simp add: is_int64_def min_int64_def max_int64_def)
  ultimately show ?thesis using overlapsExisting_free [OF assms]
    by (subst scan_addresses.simps) (simp add: channelsPerUniverse_def)
qed

lemma scan_addresses_SomeD:
  assumes "addresses_valid ex" "1 \<le> c" "c \<le> 512" "1 \<le> a" "a + c - 1 \<le> max_int64"
    and "scan_addresses ex u c a = Some b"
  shows "a \<le> b \<and> b + c - 1 \<le> 512 \<and> slot_free ex u b c \<and>
    (\<forall>a'. a \<le> a' \<and> a' < b \<longrightarrow> \<not> slot_free ex u a' c)"
  using assms(4-)
proof (induction "nat (513 - a)" arbitrary: a rule: less_induct)
  case less
  note step = scan_addresses_step [OF assms(1-3) less.prems(1,2), of u]
  have fit: "a + c - 1 \<le> 512" using less.prems(3) step by (simp split: if_splits)
  show ?case
  proof (cases "slot_free ex u a c")
    case True
    then show ?thesis using less.prems(3) step fit by auto
  next
    case False
    have IH: "a + 1 \<le> b \<and> b + c - 1 \<le> 512 \<and> slot_free ex u b c \<and>
        (\<forall>a'. a + 1 \<le> a' \<and> a' < b \<longrightarrow> \<not> slot_free ex u a' c)"
      using less.prems step fit False assms(2) by (intro less.hyps) (auto simp: max_int64_def)
    moreover have "a' = a \<or> a + 1 \<le> a'" if "a \<le> a'" for a' using that by linarith
    ultimately show ?thesis using False by (metis add_increasing2 le_add_same_cancel1 zero_less_one_class.zero_le_one order_trans)
  qed
qed

lemma scan_addresses_NoneD:
  assumes "addresses_valid ex" "1 \<le> c" "c \<le> 512" "1 \<le> a" "a + c - 1 \<le> max_int64"
    and "scan_addresses ex u c a = None" "a \<le> b" "b + c - 1 \<le> 512"
  shows "\<not> slot_free ex u b c"
  using assms(4-)
proof (induction "nat (513 - a)" arbitrary: a rule: less_induct)
  case less
  note step = scan_addresses_step [OF assms(1-3) less.prems(1,2), of u]
  have fit: "a + c - 1 \<le> 512" using less.prems by linarith
  then have taken: "\<not> slot_free ex u a c" and next_a: "scan_addresses ex u c (a + 1) = None"
    using less.prems(3) step by (auto split: if_splits)
  show ?case
  proof (cases "b = a")
    case True
    then show ?thesis using taken by simp
  next
    case False
    then show ?thesis
      using less.prems next_a fit assms(2) by (intro less.hyps [of "a + 1"]) (auto simp: max_int64_def)
  qed
qed

lemma scan_universes_step:
  "scan_universes ex c su sa u =
    (if u \<le> 64
     then case scan_addresses ex u c (if u = su then sa else 1) of
         Some a \<Rightarrow> Some (u, a) | None \<Rightarrow> scan_universes ex c su sa (u + 1)
     else None)"
  by (subst scan_universes.simps) (simp add: maxUniverseSearch_def Let_def)

lemma scan_universes_SomeD:
  assumes ok: "addresses_valid ex" "1 \<le> c" "c \<le> 512" "1 \<le> sa" "sa + c - 1 \<le> max_int64"
    and "scan_universes ex c su sa u = Some (v, a)"
  shows "u \<le> v \<and> v \<le> 64 \<and> (if v = su then sa else 1) \<le> a \<and> a + c - 1 \<le> 512 \<and> slot_free ex v a c \<and>
    (\<forall>v' a'. u \<le> v' \<and> (v' < v \<or> v' = v \<and> a' < a) \<and> (if v' = su then sa else 1) \<le> a' \<and>
       a' + c - 1 \<le> 512 \<longrightarrow> \<not> slot_free ex v' a' c)"
  using assms(6)
proof (induction "nat (65 - u)" arbitrary: u rule: less_induct)
  case less
  let ?fl = "if u = su then sa else 1"
  have fl: "1 \<le> ?fl" "?fl + c - 1 \<le> max_int64" using ok by (auto simp: max_int64_def)
  have le: "u \<le> 64"
    using less.prems scan_universes_step [of ex c su sa u] by (simp split: if_splits)
  show ?case
  proof (cases "scan_addresses ex u c ?fl")
    case None
    note here = scan_addresses_NoneD [OF ok(1-3) fl None]
    have "scan_universes ex c su sa (u + 1) = Some (v, a)"
      using less.prems le None scan_universes_step [of ex c su sa u] by simp
    then have "u + 1 \<le> v \<and> v \<le> 64 \<and> (if v = su then sa else 1) \<le> a \<and> a + c - 1 \<le> 512 \<and>
        slot_free ex v a c \<and>
        (\<forall>v' a'. u + 1 \<le> v' \<and> (v' < v \<or> v' = v \<and> a' < a) \<and> (if v' = su then sa else 1) \<le> a' \<and>
           a' + c - 1 \<le> 512 \<longrightarrow> \<not> slot_free ex v' a' c)"
      using le by (intro less.hyps) auto
    moreover have "v' = u \<or> u + 1 \<le> v'" if "u \<le> v'" for v' using that by linarith
    moreover have "u \<le> v" if "u + 1 \<le> v" using that by linarith
    ultimately show ?thesis using here by blast
  next
    case (Some b)
    then have "v = u" "a = b"
      using less.prems le scan_universes_step [of ex c su sa u] by simp_all
    moreover have "v' = u" if "u \<le> v'" "v' < u \<or> v' = u \<and> a' < a" for v' and a' :: int
      using that by linarith
    ultimately show ?thesis using scan_addresses_SomeD [OF ok(1-3) fl Some] le by auto
  qed
qed

lemma scan_universes_NoneD:
  assumes ok: "addresses_valid ex" "1 \<le> c" "c \<le> 512" "1 \<le> sa" "sa + c - 1 \<le> max_int64"
    and "scan_universes ex c su sa u = None" "u \<le> v" "v \<le> 64"
    and "(if v = su then sa else 1) \<le> a" "a + c - 1 \<le> 512"
  shows "\<not> slot_free ex v a c"
  using assms(6,7)
proof (induction "nat (65 - u)" arbitrary: u rule: less_induct)
  case less
  let ?fl = "if u = su then sa else 1"
  have fl: "1 \<le> ?fl" "?fl + c - 1 \<le> max_int64" using ok by (auto simp: max_int64_def)
  have le: "u \<le> 64" using less.prems assms(8) by linarith
  then have here: "scan_addresses ex u c ?fl = None"
    and rest: "scan_universes ex c su sa (u + 1) = None"
    using less.prems(1) scan_universes_step [of ex c su sa u] by (auto split: option.splits)
  show ?case
  proof (cases "v = u")
    case True
    then show ?thesis using scan_addresses_NoneD [OF ok(1-3) fl here] assms(9,10) by simp
  next
    case False
    then show ?thesis using less.hyps [of "u + 1"] rest less.prems(2) le by simp
  qed
qed

text \<open>
  With validated instance addresses and a start address that does not overflow,
  \<open>NextFreeAddressFrom\<close> is first fit: the slot it returns lies inside one universe at or after
  the (clamped) start, meets no existing footprint of the requested width, and every earlier
  slot of the scan is taken; it reports exhaustion only when every slot of the scan is taken.
\<close>
theorem NextFreeAddressFrom_first_fit:
  assumes "addresses_valid ex" "1 \<le> c" "c \<le> channelsPerUniverse" "su \<le> maxUniverseSearch"
    and "sa + c - 1 \<le> max_int64"
  shows "case NextFreeAddressFrom ex c su sa of
      Inr (u, a) \<Rightarrow> in_scan (max 1 su) (max 1 sa) c u a \<and> slot_free ex u a c \<and>
        (\<forall>u' a'. in_scan (max 1 su) (max 1 sa) c u' a' \<and> (u' < u \<or> u' = u \<and> a' < a) \<longrightarrow>
           \<not> slot_free ex u' a' c)
    | Inl e \<Rightarrow> e = Code ''GOLC_DEPLOYMENT_ADDRESS_EXHAUSTED'' \<and>
        (\<forall>u a. in_scan (max 1 su) (max 1 sa) c u a \<longrightarrow> \<not> slot_free ex u a c)"
proof -
  define s where "s = max 1 su"
  define t where "t = max 1 sa"
  have c: "c \<le> 512" using assms by (simp add: channelsPerUniverse_def)
  have t: "1 \<le> t" "t + c - 1 \<le> max_int64"
    using assms c by (auto simp: t_def max_int64_def)
  have s: "1 \<le> s" "s \<le> 64" using assms(4) by (auto simp: s_def maxUniverseSearch_def)
  have eq: "NextFreeAddressFrom ex c su sa =
      (case scan_universes ex c s t s of Some slot \<Rightarrow> Inr slot
       | None \<Rightarrow> Inl (Code ''GOLC_DEPLOYMENT_ADDRESS_EXHAUSTED''))"
    using assms by (auto simp: NextFreeAddressFrom_def Let_def s_def t_def max_def maxUniverseSearch_def)
  show ?thesis
  proof (cases "scan_universes ex c s t s")
    case None
    then show ?thesis using scan_universes_NoneD [OF assms(1,2) c t None]
      by (simp add: eq in_scan_def maxUniverseSearch_def channelsPerUniverse_def flip: s_def t_def)
  next
    case (Some p)
    then show ?thesis using scan_universes_SomeD [OF assms(1,2) c t, of s s]
      by (cases p) (auto simp: eq in_scan_def maxUniverseSearch_def channelsPerUniverse_def
          simp flip: s_def t_def)
  qed
qed

definition two_patched :: "Instance list" where
  "two_patched =
     [\<lparr>inst_ID = 1, inst_PoolID = 7, inst_PoolMemberID = 11, inst_Mode = ''a'', inst_Universe = 1, inst_Address = 1\<rparr>,
      \<lparr>inst_ID = 2, inst_PoolID = 7, inst_PoolMemberID = 12, inst_Mode = ''a'', inst_Universe = 1, inst_Address = 5\<rparr>]"

theorem NextFreeAddressFrom_first_fit_witness:
  "NextFreeAddressFrom two_patched 4 1 1 = Inr (1, 9) \<and> slot_free two_patched 1 9 4"
proof -
  have r: "NextFreeAddressFrom two_patched 4 1 1 = Inr (1, 9)" by code_simp
  moreover have "slot_free two_patched 1 9 4"
    using NextFreeAddressFrom_first_fit [of two_patched 4 1 1]
    by (simp add: r) (simp add: addresses_valid_def two_patched_def channelsPerUniverse_def
        maxUniverseSearch_def max_int64_def)
  ultimately show ?thesis by blast
qed

text \<open>
  The bound test of the address search overflows: for a start address at the top of the
  \<open>int\<close> range, \<open>candidateAddress+channelCount-1\<close> wraps to a negative number, and an address far
  outside the 512 channels is returned as a free slot.
\<close>
theorem NextFreeAddressFrom_overflow:
  "NextFreeAddressFrom [] 2 1 9223372036854775807 = Inr (1, 9223372036854775807)"
  by code_simp

text \<open>
  An address the allocator reports as free for a narrow fixture can collide with a wider
  existing fixture, because every existing instance is measured with the width of the new one:
  a 4-channel fixture patched at 1 leaves address 2 "free" for a 1-channel fixture.
\<close>
theorem NextFreeAddress_wider_collision:
  "NextFreeAddress two_patched 1 = Inr (1, 2) \<and>
   (let wide = hd two_patched in
    inst_Universe wide = 1 \<and> inst_Address wide \<le> 2 \<and> 2 \<le> inst_Address wide + 4 - 1)"
  by (rule conjI, code_simp, simp add: two_patched_def)

section \<open>Reassignment keeps the patch collision-free\<close>

definition patch_ok :: "Instance list \<Rightarrow> bool" where
  "patch_ok ex = (addresses_valid ex \<and> distinct (map (\<lambda>i. (inst_Universe i, inst_Address i)) ex))"

lemma overlaps_one_channel:
  assumes "addresses_valid ex" "1 \<le> a" "a \<le> 512"
  shows "overlapsExisting ex u a 1 \<longleftrightarrow> (u, a) \<in> (\<lambda>i. (inst_Universe i, inst_Address i)) ` set ex"
  using overlapsExisting_free [OF assms(1), of 1 a u] assms(2,3)
  by (fastforce simp: slot_free_def max_int64_def)

text \<open>
  C35: \<open>Reassign\<close> moves exactly the named instance.  On a patch with valid, pairwise different
  addresses a successful call yields such a patch again, changes only the mode, universe and
  address of the first instance with the identity, and keeps every identity in place.
\<close>
theorem Reassign_safe:
  assumes ok: "patch_ok ex" and r: "Reassign ex iid m u a = Inr ex'"
  shows "patch_ok ex' \<and> map inst_ID ex' = map inst_ID ex \<and>
    find_by inst_ID iid ex' =
      map_option (\<lambda>i. i\<lparr>inst_Mode := m, inst_Universe := u, inst_Address := a\<rparr>) (find_by inst_ID iid ex) \<and>
    (\<forall>j. j \<noteq> iid \<longrightarrow> find_by inst_ID j ex' = find_by inst_ID j ex)"
proof -
  let ?k = "\<lambda>i. (inst_Universe i, inst_Address i)"
  let ?f = "\<lambda>i. i\<lparr>inst_Mode := m, inst_Universe := u, inst_Address := a\<rparr>"
  obtain n where n: "index_of (\<lambda>i. inst_ID i = iid) ex = Some n"
    using r by (auto simp: Reassign_def split: option.splits)
  then have ex': "ex' = ex[n := ?f (ex ! n)]" and "ValidateInstanceAddress (?f (ex ! n)) = None"
    and free: "\<not> overlapsExisting (remove_at n ex) u a 1"
    using r by (auto simp: Reassign_def Let_def reassignChannelCount_def split: if_splits)
  then have ua: "1 \<le> u" "1 \<le> a" "a \<le> 512" by simp_all
  have len: "n < length ex" using index_of_SomeD [OF n] by simp
  have upd: "ex' = update_first (\<lambda>i. inst_ID i = iid) ?f ex"
    unfolding ex' by (rule update_first_index [OF n])
  have "addresses_valid (remove_at n ex)"
    using ok by (auto simp: patch_ok_def addresses_valid_def remove_at_def dest: in_set_takeD in_set_dropD)
  then have "(u, a) \<notin> ?k ` set (remove_at n ex)" using free ua by (simp add: overlaps_one_channel)
  then have "\<forall>x\<in>set ex. ?k x = (u, a) \<longrightarrow> x = ex ! n" using set_remove_at [of _ ex n] by force
  then have "(u, a) \<notin> set (map ?k ex) - {map ?k ex ! n}" using len by auto
  then have "distinct ((map ?k ex)[n := (u, a)])"
    using ok by (auto simp: patch_ok_def intro: distinct_list_update)
  moreover have "addresses_valid ex'"
    using ok ua by (auto simp: ex' patch_ok_def addresses_valid_def dest: set_update_subset_insert [THEN subsetD])
  ultimately have "patch_ok ex'" by (simp add: patch_ok_def ex' map_update)
  then show ?thesis
    by (simp add: upd update_first_map find_by_update_first_same find_by_update_first_other)
qed

theorem Reassign_safe_witness:
  "\<exists>ex'. Reassign two_patched 2 ''b'' 1 7 = Inr ex' \<and> patch_ok ex' \<and> map inst_ID ex' = [1, 2]"
proof -
  have ok: "patch_ok two_patched" by (simp add: patch_ok_def addresses_valid_def two_patched_def)
  have "is_ok (Reassign two_patched 2 ''b'' 1 7)" by code_simp
  then obtain ex' where r: "Reassign two_patched 2 ''b'' 1 7 = Inr ex'"
    by (cases "Reassign two_patched 2 ''b'' 1 7") auto
  then show ?thesis using Reassign_safe [OF ok r] by (simp add: two_patched_def)
qed

lemma NextFreeAddressFrom_fresh:
  assumes v: "addresses_valid ex" and sa: "sa \<le> 512"
    and r: "NextFreeAddressFrom ex c su sa = Inr (u, a)"
  shows "1 \<le> u \<and> 1 \<le> a \<and> a \<le> 512 \<and> (u, a) \<notin> (\<lambda>i. (inst_Universe i, inst_Address i)) ` set ex"
proof -
  define s where "s = max 1 su"
  define t where "t = max 1 sa"
  have c: "1 \<le> c" "c \<le> 512" and sc: "scan_universes ex c s t s = Some (u, a)"
    using r by (auto simp: NextFreeAddressFrom_def Let_def s_def t_def max_def channelsPerUniverse_def
        split: if_splits option.splits)
  have t: "1 \<le> t" "t + c - 1 \<le> max_int64" using sa c by (auto simp: t_def max_int64_def)
  have *: "s \<le> u" "(if u = s then t else 1) \<le> a" "a + c - 1 \<le> 512" "slot_free ex u a c"
    using scan_universes_SomeD [OF v c t sc] by auto
  have "1 \<le> a" using *(2) t(1) by (auto split: if_splits)
  then show ?thesis using * c by (auto simp: s_def slot_free_def)
qed

lemma patch_ok_append:
  assumes "patch_ok ex" "sa \<le> 512" "NextFreeAddressFrom ex c su sa = Inr (u, a)"
    and "inst_Universe i = u" "inst_Address i = a"
  shows "patch_ok (ex @ [i])"
  using NextFreeAddressFrom_fresh [of ex sa c su u a] assms
  by (auto simp: patch_ok_def addresses_valid_def)

lemma addresses_valid_slots:
  "addresses_valid zs \<longleftrightarrow>
   (\<forall>(u, a)\<in>(\<lambda>i. (inst_Universe i, inst_Address i)) ` set zs. 1 \<le> u \<and> 1 \<le> a \<and> a \<le> 512)"
  by (auto simp: addresses_valid_def)

lemma patch_ok_same_slots:
  assumes "patch_ok xs"
    and "map (\<lambda>i. (inst_Universe i, inst_Address i)) ys = map (\<lambda>i. (inst_Universe i, inst_Address i)) xs"
  shows "patch_ok ys"
proof -
  have "(\<lambda>i. (inst_Universe i, inst_Address i)) ` set ys = (\<lambda>i. (inst_Universe i, inst_Address i)) ` set xs"
    using assms(2) by (metis set_map)
  then have "addresses_valid ys = addresses_valid xs" by (simp only: addresses_valid_slots)
  then show ?thesis using assms by (simp add: patch_ok_def)
qed

lemma patch_ok_filter_append: "patch_ok (xs @ ys) \<Longrightarrow> patch_ok (filter P xs @ ys)"
  by (auto simp: patch_ok_def addresses_valid_def distinct_map_filter)

text \<open>
  Activating a deployment by name, in a show whose deployment names are unique, leaves
  exactly one deployment active, the named one; identities, names and instances are untouched,
  and an unknown name is an error.
\<close>
theorem Activate_single_active:
  assumes "ValidateUniqueDeploymentNames ds = None"
  shows "case Activate ds nm of
      Inr ds' \<Rightarrow> ValidateSingleActive ds' = None \<and> (\<exists>!d. d \<in> set ds' \<and> dep_Active d) \<and>
        (\<forall>d\<in>set ds'. dep_Active d \<longleftrightarrow> dep_Name d = nm) \<and>
        map (\<lambda>d. (dep_ID d, dep_Name d, dep_Instances d)) ds' = map (\<lambda>d. (dep_ID d, dep_Name d, dep_Instances d)) ds
    | Inl e \<Rightarrow> e = Code ''GOLC_DEPLOYMENT_NOT_FOUND'' \<and> nm \<notin> dep_Name ` set ds"
proof (cases "Activate ds nm")
  case (Inl e)
  then show ?thesis by (auto simp: Activate_def Let_def split: if_splits)
next
  case (Inr ds')
  have "distinct (map dep_Name ds)" using assms dep.unique_iff by blast
  note one = dep_act.activate_single [OF this Inr]
  have "ds' = map (\<lambda>d. d\<lparr>dep_Active := (dep_Name d = nm)\<rparr>) ds"
    using dep_act.activate_InrD [OF Inr] by simp
  then have "\<forall>d\<in>set ds'. dep_Active d \<longleftrightarrow> dep_Name d = nm"
    "map (\<lambda>d. (dep_ID d, dep_Name d, dep_Instances d)) ds' = map (\<lambda>d. (dep_ID d, dep_Name d, dep_Instances d)) ds"
    by auto
  then show ?thesis using Inr one by simp
qed

definition two_deployments :: "Deployment list" where
  "two_deployments =
     [\<lparr>dep_ID = 1, dep_Name = ''club'', dep_Active = True, dep_Instances = two_patched\<rparr>,
      \<lparr>dep_ID = 2, dep_Name = ''hall'', dep_Active = False, dep_Instances = []\<rparr>]"

theorem Activate_single_active_witness:
  "\<exists>ds'. Activate two_deployments ''hall'' = Inr ds' \<and> (\<exists>!d. d \<in> set ds' \<and> dep_Active d)"
proof -
  have u: "ValidateUniqueDeploymentNames two_deployments = None" by code_simp
  have "is_ok (Activate two_deployments ''hall'')" by code_simp
  then obtain ds' where "Activate two_deployments ''hall'' = Inr ds'"
    by (cases "Activate two_deployments ''hall''") auto
  then show ?thesis using Activate_single_active [OF u, of "''hall''"] by simp
qed

end
