(* ===== verification/Pool.thy ===== *)
theory Pool
  imports Fixture Deployment
begin

text \<open>
  \<open>src/internal/pool\<close>: pools, members and groups (\<open>model.go\<close>), the deterministic impact plan of a
  pool change (\<open>impact.go\<close>), its integrity and freshness gates and its application (\<open>plan.go\<close>),
  and cascading deletion (\<open>delete.go\<close>).  The canonical JSON encoder and the digest are
  arguments; UUIDs minted by \<open>Apply\<close> come from a supply \<open>mint 0, mint 1, \<dots>\<close> in the order of the
  calls.
\<close>

section \<open>model.go\<close>

record PoolMember =
  mem_ID :: uuid
  mem_FixtureStableKey :: string
  mem_FixtureContentHash :: string

record Pool =
  pool_ID :: uuid
  pool_Name :: string
  pool_RequiredCapabilities :: "CapabilityType list"
  pool_Members :: "PoolMember list"

record MemberRef =
  ref_PoolID :: uuid
  ref_PoolMemberID :: uuid

record Group =
  group_ID :: uuid
  group_Name :: string
  group_MemberRefs :: "MemberRef list"

definition validateRequiredCapabilities :: "CapabilityType list \<Rightarrow> golc_error option" where
  "validateRequiredCapabilities caps =
     first_err (\<lambda>t. if supportedCapabilityTypes t then None
                    else Some (Code ''GOLC_POOL_CAPABILITY_UNSUPPORTED'')) caps"

definition NewPool :: "uuid option \<Rightarrow> string \<Rightarrow> CapabilityType list \<Rightarrow> Pool result" where
  "NewPool mint nm caps =
     (if trim_space nm = [] then Inl (Code ''GOLC_POOL_NAME_EMPTY'')
      else guard_err (validateRequiredCapabilities caps)
        (case mint of
           None \<Rightarrow> Inl (Code ''GOLC_POOL_ID_MINT_FAILED'')
         | Some i \<Rightarrow> Inr \<lparr>pool_ID = i, pool_Name = nm, pool_RequiredCapabilities = caps, pool_Members = []\<rparr>))"

definition RenamePool :: "Pool \<Rightarrow> string \<Rightarrow> Pool result" where
  "RenamePool p newName =
     (if trim_space newName = [] then Inl (Code ''GOLC_POOL_NAME_EMPTY'')
      else Inr (p\<lparr>pool_Name := newName\<rparr>))"

definition NewPoolMember :: "uuid option \<Rightarrow> string \<Rightarrow> string \<Rightarrow> PoolMember result" where
  "NewPoolMember mint key hash =
     (if trim_space key = [] then Inl (Code ''GOLC_POOL_MEMBER_KEY_EMPTY'')
      else case mint of
          None \<Rightarrow> Inl (Code ''GOLC_POOL_ID_MINT_FAILED'')
        | Some i \<Rightarrow> Inr \<lparr>mem_ID = i, mem_FixtureStableKey = key, mem_FixtureContentHash = hash\<rparr>)"

definition ValidatePool :: "Pool \<Rightarrow> golc_error option" where
  "ValidatePool p =
     (if trim_space (pool_Name p) = [] then Some (Code ''GOLC_POOL_NAME_EMPTY'')
      else validateRequiredCapabilities (pool_RequiredCapabilities p))"

definition ValidateUniquePoolNames :: "Pool list \<Rightarrow> golc_error option" where
  "ValidateUniquePoolNames ps = unique_keys (Code ''GOLC_POOL_DUPLICATE_NAME'') pool_Name {} ps"

definition ValidateUniqueGroupNames :: "Group list \<Rightarrow> golc_error option" where
  "ValidateUniqueGroupNames gs = unique_keys (Code ''GOLC_GROUP_DUPLICATE_NAME'') group_Name {} gs"

text \<open>The \<open>membersByPool\<close> lookup: member identities by pool, a later pool with the same
  identity overwriting an earlier one.\<close>
definition membersByPool :: "Pool list \<Rightarrow> uuid \<Rightarrow> uuid set option" where
  "membersByPool pools i =
     map_option (\<lambda>p. mem_ID ` set (pool_Members p)) (find_by pool_ID i (rev pools))"

definition checkMemberRef :: "string \<Rightarrow> Pool list \<Rightarrow> uuid \<Rightarrow> uuid \<Rightarrow> golc_error option" where
  "checkMemberRef code pools poolID memberID =
     (case membersByPool pools poolID of
        None \<Rightarrow> Some (Code code)
      | Some members \<Rightarrow> if memberID \<in> members then None else Some (Code code))"

definition ValidateGroupReferences :: "Pool list \<Rightarrow> Group list \<Rightarrow> golc_error option" where
  "ValidateGroupReferences pools groups =
     first_err (\<lambda>g. first_err
       (\<lambda>ref. checkMemberRef ''GOLC_GROUP_DANGLING_REFERENCE'' pools (ref_PoolID ref) (ref_PoolMemberID ref))
       (group_MemberRefs g)) groups"

section \<open>impact.go\<close>

definition ImpactSchemaVersion :: int where "ImpactSchemaVersion = 1"
definition defaultInstanceChannelCount :: int where "defaultInstanceChannelCount = 1"

record PoolMemberSpec =
  spec_FixtureStableKey :: string
  spec_FixtureContentHash :: string
  spec_Mode :: string
  spec_ChannelCount :: int

record ImpactRequest =
  req_PoolID :: uuid
  req_Add :: "PoolMemberSpec list"
  req_Remove :: "uuid list"
  req_AttachDeployments :: "uuid list"
  req_StartUniverse :: int
  req_StartAddress :: int
  req_Propagate :: string

record ImpactOp =
  op_DependentKind :: string
  op_DependentRef :: string
  op_DependentID :: uuid
  op_Action :: string
  op_PoolMemberIndex :: int
  op_PoolMemberID :: uuid
  op_ProposedUniverse :: int
  op_ProposedAddress :: int
  op_Status :: string

text \<open>\<open>Warning\<close> and \<open>Error\<close>: a code and a message.\<close>
record PlanNote =
  note_Code :: string
  note_Message :: string

record planBody =
  plan_SchemaVersion :: int
  plan_PoolID :: uuid
  plan_Add :: "PoolMemberSpec list"
  plan_Remove :: "uuid list"
  plan_AttachDeployments :: "uuid list"
  plan_StartUniverse :: int
  plan_StartAddress :: int
  plan_Propagate :: string
  plan_ExpectedRevision :: int
  plan_Operations :: "ImpactOp list"
  plan_Warnings :: "PlanNote list"
  plan_Errors :: "PlanNote list"

record ImpactPlan = planBody +
  plan_PlanID :: string

definition bodyOf :: "ImpactPlan \<Rightarrow> planBody" where
  "bodyOf plan = planBody.truncate plan"

definition computePlanID ::
  "(planBody \<Rightarrow> string result) \<Rightarrow> (string \<Rightarrow> string) \<Rightarrow> planBody \<Rightarrow> string result" where
  "computePlanID encode digest body =
     (case encode body of
        Inl e \<Rightarrow> Inl (Wrap ''GOLC_POOL_PLAN_ENCODE'' e)
      | Inr encoded \<Rightarrow> Inr (digest encoded))"

definition findPool :: "Pool list \<Rightarrow> uuid \<Rightarrow> Pool option" where
  "findPool pools i = find_by pool_ID i pools"

definition deploymentUsesPool :: "Deployment \<Rightarrow> uuid \<Rightarrow> bool" where
  "deploymentUsesPool d poolID = (\<exists>i\<in>set (dep_Instances d). inst_PoolID i = poolID)"

text \<open>The zero \<open>Instance\<close> with a position: the pseudo-instance a proposal reserves.\<close>
definition pseudoInstance :: "int \<times> int \<Rightarrow> Instance" where
  "pseudoInstance slot =
     \<lparr>inst_ID = uuid_nil, inst_PoolID = uuid_nil, inst_PoolMemberID = uuid_nil, inst_Mode = [],
      inst_Universe = fst slot, inst_Address = snd slot\<rparr>"

definition addOp :: "Deployment \<Rightarrow> nat \<Rightarrow> int \<times> int \<Rightarrow> ImpactOp" where
  "addOp d addIndex slot =
     \<lparr>op_DependentKind = ''deployment_instance'', op_DependentRef = dep_Name d, op_DependentID = dep_ID d,
      op_Action = ''add'', op_PoolMemberIndex = int addIndex, op_PoolMemberID = uuid_nil,
      op_ProposedUniverse = fst slot, op_ProposedAddress = snd slot, op_Status = ''pending''\<rparr>"

definition removeOp :: "string \<Rightarrow> string \<Rightarrow> uuid \<Rightarrow> uuid \<Rightarrow> ImpactOp" where
  "removeOp kind ref i member =
     \<lparr>op_DependentKind = kind, op_DependentRef = ref, op_DependentID = i,
      op_Action = ''remove'', op_PoolMemberIndex = 0, op_PoolMemberID = member,
      op_ProposedUniverse = 0, op_ProposedAddress = 0, op_Status = ''pending''\<rparr>"

text \<open>The inner loop of dependent category 1: one added member against every deployment.\<close>
fun proposeInstances ::
  "ImpactRequest \<Rightarrow> nat \<Rightarrow> int \<Rightarrow> Deployment list \<Rightarrow> (uuid \<Rightarrow> Instance list) \<Rightarrow>
   ((uuid \<Rightarrow> Instance list) \<times> ImpactOp list) result" where
  "proposeInstances req addIndex channelCount [] proposed = Inr (proposed, [])"
| "proposeInstances req addIndex channelCount (d # ds) proposed =
     (if \<not> deploymentUsesPool d (req_PoolID req) \<and> dep_ID d \<notin> set (req_AttachDeployments req)
      then proposeInstances req addIndex channelCount ds proposed
      else case NextFreeAddressFrom (proposed (dep_ID d)) channelCount
                  (req_StartUniverse req) (req_StartAddress req) of
          Inl e \<Rightarrow> Inl (Wrap ''GOLC_POOL_PLAN_ADDRESS_EXHAUSTED'' e)
        | Inr slot \<Rightarrow>
            bind_res (proposeInstances req addIndex channelCount ds
                        (proposed(dep_ID d := proposed (dep_ID d) @ [pseudoInstance slot])))
              (\<lambda>(proposed', ops). Inr (proposed', addOp d addIndex slot # ops)))"

text \<open>The outer loop over the added members.\<close>
fun proposeAdds ::
  "ImpactRequest \<Rightarrow> Deployment list \<Rightarrow> nat \<Rightarrow> PoolMemberSpec list \<Rightarrow> (uuid \<Rightarrow> Instance list) \<Rightarrow>
   ((uuid \<Rightarrow> Instance list) \<times> ImpactOp list) result" where
  "proposeAdds req deployments addIndex [] proposed = Inr (proposed, [])"
| "proposeAdds req deployments addIndex (spec # specs) proposed =
     (let channelCount = (if spec_ChannelCount spec < 1 then defaultInstanceChannelCount
                          else spec_ChannelCount spec) in
      bind_res (proposeInstances req addIndex channelCount deployments proposed) (\<lambda>(proposed', ops).
      bind_res (proposeAdds req deployments (Suc addIndex) specs proposed') (\<lambda>(proposed'', ops').
      Inr (proposed'', ops @ ops'))))"

text \<open>Dependent categories 2 and 3: what refers to a removed member.\<close>
definition removeInstanceOps :: "ImpactRequest \<Rightarrow> Deployment list \<Rightarrow> ImpactOp list" where
  "removeInstanceOps req deployments =
     concat (map (\<lambda>d. map (\<lambda>i. removeOp ''deployment_instance'' (dep_Name d) (dep_ID d) (inst_PoolMemberID i))
       (filter (\<lambda>i. inst_PoolID i = req_PoolID req \<and> inst_PoolMemberID i \<in> set (req_Remove req))
          (dep_Instances d))) deployments)"

definition removeGroupOps :: "ImpactRequest \<Rightarrow> Group list \<Rightarrow> ImpactOp list" where
  "removeGroupOps req groups =
     concat (map (\<lambda>g. map (\<lambda>r. removeOp ''group_member'' (group_Name g) (group_ID g) (ref_PoolMemberID r))
       (filter (\<lambda>r. ref_PoolID r = req_PoolID req \<and> ref_PoolMemberID r \<in> set (req_Remove req))
          (group_MemberRefs g))) groups)"

definition initialProposed :: "Deployment list \<Rightarrow> uuid \<Rightarrow> Instance list" where
  "initialProposed deployments i =
     (case find_by dep_ID i (rev deployments) of Some d \<Rightarrow> dep_Instances d | None \<Rightarrow> [])"

definition BuildImpactPlan ::
  "(planBody \<Rightarrow> string result) \<Rightarrow> (string \<Rightarrow> string) \<Rightarrow> Pool list \<Rightarrow> Deployment list \<Rightarrow>
   Group list \<Rightarrow> int \<Rightarrow> ImpactRequest \<Rightarrow> ImpactPlan result" where
  "BuildImpactPlan encode digest pools deployments groups revision req =
     (case findPool pools (req_PoolID req) of
        None \<Rightarrow> Inl (Code ''GOLC_POOL_PLAN_UNKNOWN_POOL'')
      | Some targetPool \<Rightarrow>
          if \<exists>i\<in>set (req_Remove req). i \<notin> mem_ID ` set (pool_Members targetPool)
          then Inl (Code ''GOLC_POOL_PLAN_UNKNOWN_MEMBER'')
          else if \<exists>i\<in>set (req_AttachDeployments req). i \<notin> dep_ID ` set deployments
          then Inl (Code ''GOLC_POOL_PLAN_UNKNOWN_DEPLOYMENT'')
          else bind_res (proposeAdds req deployments 0 (req_Add req) (initialProposed deployments))
            (\<lambda>(_, addOps).
              let body = \<lparr>plan_SchemaVersion = ImpactSchemaVersion, plan_PoolID = req_PoolID req,
                    plan_Add = req_Add req, plan_Remove = req_Remove req,
                    plan_AttachDeployments = req_AttachDeployments req,
                    plan_StartUniverse = req_StartUniverse req, plan_StartAddress = req_StartAddress req,
                    plan_Propagate = req_Propagate req, plan_ExpectedRevision = revision,
                    plan_Operations = addOps @ removeInstanceOps req deployments @ removeGroupOps req groups,
                    plan_Warnings = [], plan_Errors = []\<rparr> in
              bind_res (computePlanID encode digest body) (\<lambda>i.
                Inr (planBody.extend body \<lparr>plan_PlanID = i\<rparr>))))"

section \<open>plan.go\<close>

definition ValidatePlanIntegrity ::
  "(planBody \<Rightarrow> string result) \<Rightarrow> (string \<Rightarrow> string) \<Rightarrow> ImpactPlan \<Rightarrow> golc_error option" where
  "ValidatePlanIntegrity encode digest plan =
     (if plan_SchemaVersion plan \<noteq> ImpactSchemaVersion then Some (Code ''GOLC_POOL_PLAN_SCHEMA'')
      else case computePlanID encode digest (bodyOf plan) of
          Inl e \<Rightarrow> Some e
        | Inr recomputed \<Rightarrow>
            if recomputed \<noteq> plan_PlanID plan then Some (Code ''GOLC_POOL_PLAN_HASH'') else None)"

definition planRequest :: "ImpactPlan \<Rightarrow> ImpactRequest" where
  "planRequest plan =
     \<lparr>req_PoolID = plan_PoolID plan, req_Add = plan_Add plan, req_Remove = plan_Remove plan,
      req_AttachDeployments = plan_AttachDeployments plan, req_StartUniverse = plan_StartUniverse plan,
      req_StartAddress = plan_StartAddress plan, req_Propagate = plan_Propagate plan\<rparr>"

definition ValidatePlanFreshness ::
  "(planBody \<Rightarrow> string result) \<Rightarrow> (string \<Rightarrow> string) \<Rightarrow> ImpactPlan \<Rightarrow> Pool list \<Rightarrow>
   Deployment list \<Rightarrow> Group list \<Rightarrow> int \<Rightarrow> golc_error option" where
  "ValidatePlanFreshness encode digest plan pools deployments groups revision =
     (case BuildImpactPlan encode digest pools deployments groups revision (planRequest plan) of
        Inl e \<Rightarrow> Some (Wrap ''GOLC_POOL_PLAN_STALE'' e)
      | Inr fresh \<Rightarrow>
          (case computePlanID encode digest
             (bodyOf (fresh\<lparr>plan_Warnings := plan_Warnings plan, plan_Errors := plan_Errors plan\<rparr>)) of
             Inl e \<Rightarrow> Some e
           | Inr freshID \<Rightarrow>
               if freshID \<noteq> plan_PlanID plan then Some (Code ''GOLC_POOL_PLAN_STALE'') else None))"

definition RecomputePlanID ::
  "(planBody \<Rightarrow> string result) \<Rightarrow> (string \<Rightarrow> string) \<Rightarrow> ImpactPlan \<Rightarrow> string result" where
  "RecomputePlanID encode digest plan = computePlanID encode digest (bodyOf plan)"

text \<open>The loop that mints the added members.\<close>
fun mintMembers :: "(nat \<Rightarrow> uuid option) \<Rightarrow> nat \<Rightarrow> PoolMemberSpec list \<Rightarrow> PoolMember list result" where
  "mintMembers mint n [] = Inr []"
| "mintMembers mint n (spec # specs) =
     bind_res (NewPoolMember (mint n) (spec_FixtureStableKey spec) (spec_FixtureContentHash spec)) (\<lambda>m.
     bind_res (mintMembers mint (Suc n) specs) (\<lambda>ms. Inr (m # ms)))"

text \<open>The instances that the plan's operations add to deployment \<open>d\<close>; \<open>n\<close> counts minted identities.\<close>
fun addInstances ::
  "(nat \<Rightarrow> uuid option) \<Rightarrow> ImpactPlan \<Rightarrow> PoolMember list \<Rightarrow> Deployment \<Rightarrow> nat \<Rightarrow> ImpactOp list \<Rightarrow>
   (Instance list \<times> nat) result" where
  "addInstances mint plan newMembers d n [] = Inr ([], n)"
| "addInstances mint plan newMembers d n (op # ops) =
     (if op_DependentKind op \<noteq> ''deployment_instance'' \<or> op_Action op \<noteq> ''add'' \<or> op_DependentID op \<noteq> dep_ID d
      then addInstances mint plan newMembers d n ops
      else if op_PoolMemberIndex op < 0 \<or> op_PoolMemberIndex op \<ge> int (length newMembers)
      then Inl (Code ''GOLC_POOL_PLAN_STALE'')
      else case mint n of
          None \<Rightarrow> Inl (Code ''GOLC_POOL_INSTANCE_ID_MINT_FAILED'')
        | Some instanceID \<Rightarrow>
            let k = nat (op_PoolMemberIndex op);
                i = \<lparr>inst_ID = instanceID, inst_PoolID = plan_PoolID plan,
                     inst_PoolMemberID = mem_ID (newMembers ! k), inst_Mode = spec_Mode (plan_Add plan ! k),
                     inst_Universe = op_ProposedUniverse op, inst_Address = op_ProposedAddress op\<rparr> in
            bind_res (addInstances mint plan newMembers d (Suc n) ops) (\<lambda>(is, n'). Inr (i # is, n')))"

definition refersRemoved :: "ImpactPlan \<Rightarrow> uuid \<Rightarrow> uuid \<Rightarrow> bool" where
  "refersRemoved plan poolID memberID = (poolID = plan_PoolID plan \<and> memberID \<in> set (plan_Remove plan))"

fun applyDeployments ::
  "(nat \<Rightarrow> uuid option) \<Rightarrow> ImpactPlan \<Rightarrow> PoolMember list \<Rightarrow> nat \<Rightarrow> Deployment list \<Rightarrow> Deployment list result" where
  "applyDeployments mint plan newMembers n [] = Inr []"
| "applyDeployments mint plan newMembers n (d # ds) =
     bind_res (addInstances mint plan newMembers d n (plan_Operations plan)) (\<lambda>(added, n').
     bind_res (applyDeployments mint plan newMembers n' ds) (\<lambda>ds'.
     Inr (d\<lparr>dep_Instances :=
            filter (\<lambda>i. \<not> refersRemoved plan (inst_PoolID i) (inst_PoolMemberID i)) (dep_Instances d) @ added\<rparr>
          # ds')))"

definition keepMemberRefs :: "ImpactPlan \<Rightarrow> Group \<Rightarrow> Group" where
  "keepMemberRefs plan g =
     g\<lparr>group_MemberRefs :=
        filter (\<lambda>r. \<not> refersRemoved plan (ref_PoolID r) (ref_PoolMemberID r)) (group_MemberRefs g)\<rparr>"

definition Apply ::
  "(nat \<Rightarrow> uuid option) \<Rightarrow> Pool list \<Rightarrow> Deployment list \<Rightarrow> Group list \<Rightarrow> ImpactPlan \<Rightarrow>
   (Pool list \<times> Deployment list \<times> Group list) result" where
  "Apply mint pools deployments groups plan =
     (if plan_Errors plan \<noteq> [] then Inl (Code ''GOLC_POOL_APPLY_PLAN_ERRORS'')
      else case index_of (\<lambda>p. pool_ID p = plan_PoolID plan) pools of
          None \<Rightarrow> Inl (Code ''GOLC_POOL_PLAN_STALE'')
        | Some poolIndex \<Rightarrow>
            let targetPool = pools ! poolIndex;
                keptMembers = filter (\<lambda>m. mem_ID m \<notin> set (plan_Remove plan)) (pool_Members targetPool) in
            bind_res (mintMembers mint 0 (plan_Add plan)) (\<lambda>newMembers.
            bind_res (applyDeployments mint plan newMembers (length (plan_Add plan)) deployments)
              (\<lambda>newDeployments.
               Inr (pools[poolIndex := targetPool\<lparr>pool_Members := keptMembers @ newMembers\<rparr>],
                    newDeployments, map (keepMemberRefs plan) groups))))"

section \<open>delete.go\<close>

definition DeletePool ::
  "Pool list \<Rightarrow> Deployment list \<Rightarrow> Group list \<Rightarrow> uuid \<Rightarrow> (Pool list \<times> Deployment list \<times> Group list) result" where
  "DeletePool pools deployments groups poolID =
     bind_res (delete_by (Code ''GOLC_POOL_NOT_FOUND'') pool_ID poolID pools) (\<lambda>newPools.
       Inr (newPools,
            map (\<lambda>d. d\<lparr>dep_Instances := filter (\<lambda>i. inst_PoolID i \<noteq> poolID) (dep_Instances d)\<rparr>) deployments,
            map (\<lambda>g. g\<lparr>group_MemberRefs := filter (\<lambda>r. ref_PoolID r \<noteq> poolID) (group_MemberRefs g)\<rparr>) groups))"

section \<open>Contracts and lookup lemmas\<close>

interpretation pool: named_object pool_ID pool_Name RenamePool ValidateUniquePoolNames
  by unfold_locales (auto simp: RenamePool_def ValidateUniquePoolNames_def split: if_splits)

lemma checkMemberRef_None [simp]:
  "checkMemberRef code pools p m = None \<longleftrightarrow> (\<exists>ms. membersByPool pools p = Some ms \<and> m \<in> ms)"
  by (auto simp: checkMemberRef_def split: option.splits)

lemma find_by_rev:
  assumes "distinct (map k xs)"
  shows "find_by k i (rev xs) = find_by k i xs"
proof -
  have "find_by k i (rev xs) = Some x \<longleftrightarrow> find_by k i xs = Some x" for x
    using assms by (simp add: find_by_Some_iff flip: rev_map)
  then show ?thesis by (metis option.exhaust)
qed

lemma membersByPool_find:
  "distinct (map pool_ID pools) \<Longrightarrow>
   membersByPool pools i = map_option (\<lambda>p. mem_ID ` set (pool_Members p)) (find_by pool_ID i pools)"
  by (simp add: membersByPool_def find_by_rev)

lemma find_by_filter_other: "i \<noteq> j \<Longrightarrow> find_by k i (filter (\<lambda>x. k x \<noteq> j) xs) = find_by k i xs"
  by (induction xs) auto

text \<open>
  Deleting a pool cascades completely and touches nothing else: on success no remaining
  pool, deployment instance or group member reference names the pool, every other pool,
  instance and reference is kept in order, and group references that all resolved before
  still resolve; a pool that does not exist is an error.
\<close>
theorem DeletePool_cascade:
  assumes "DeletePool pools deployments groups pid = Inr (pools', deployments', groups')"
  shows "pid \<in> pool_ID ` set pools \<and> pools' = filter (\<lambda>p. pool_ID p \<noteq> pid) pools \<and>
    (\<forall>d\<in>set deployments'. \<forall>i\<in>set (dep_Instances d). inst_PoolID i \<noteq> pid) \<and>
    map (\<lambda>d. filter (\<lambda>i. inst_PoolID i \<noteq> pid) (dep_Instances d)) deployments = map dep_Instances deployments' \<and>
    map (\<lambda>g. filter (\<lambda>r. ref_PoolID r \<noteq> pid) (group_MemberRefs g)) groups = map group_MemberRefs groups' \<and>
    (ValidateGroupReferences pools groups = None \<longrightarrow> ValidateGroupReferences pools' groups' = None)"
proof -
  have 1: "pid \<in> pool_ID ` set pools" "pools' = filter (\<lambda>p. pool_ID p \<noteq> pid) pools"
    and 2: "deployments' = map (\<lambda>d. d\<lparr>dep_Instances := filter (\<lambda>i. inst_PoolID i \<noteq> pid) (dep_Instances d)\<rparr>) deployments"
    and 3: "groups' = map (\<lambda>g. g\<lparr>group_MemberRefs := filter (\<lambda>r. ref_PoolID r \<noteq> pid) (group_MemberRefs g)\<rparr>) groups"
    using assms by (auto simp: DeletePool_def delete_by_def split: if_splits)
  have "membersByPool pools' i = membersByPool pools i" if "i \<noteq> pid" for i
    using that unfolding membersByPool_def 1 rev_filter by (simp add: find_by_filter_other)
  then have "ValidateGroupReferences pools groups = None \<longrightarrow> ValidateGroupReferences pools' groups' = None"
    by (auto simp: ValidateGroupReferences_def 3)
  then show ?thesis using 1 2 3 by (simp add: comp_def)
qed

end
