(* ===== verification/Selection.thy ===== *)
theory Selection
  imports Pool "HOL-Library.Sublist"
begin

text \<open>
  \<open>src/internal/programming/selection.go\<close>: resolution of a selection of pools, groups, deployment
  instances and direct fixture references into an ordered, duplicate-free set of instances,
  and the save-time scrub that drops selectors which no longer resolve.
\<close>

section \<open>Data\<close>

record FixtureRef =
  fref_PoolID :: uuid
  fref_PoolMemberID :: uuid

record Selection =
  sel_PoolIDs :: "uuid list"
  sel_GroupIDs :: "uuid list"
  sel_InstanceIDs :: "uuid list"
  sel_FixtureRefs :: "FixtureRef list"

record ResolvedInstance =
  res_DeploymentID :: uuid
  res_InstanceID :: uuid
  res_PoolID :: uuid
  res_PoolMemberID :: uuid

section \<open>Resolve\<close>

definition poolExists :: "Pool list \<Rightarrow> uuid \<Rightarrow> bool" where
  "poolExists pools i = (i \<in> pool_ID ` set pools)"

definition groupByID :: "Group list \<Rightarrow> uuid \<Rightarrow> Group option" where
  "groupByID groups i = find_by group_ID i (rev groups)"

definition instanceExists :: "Deployment list \<Rightarrow> uuid \<Rightarrow> bool" where
  "instanceExists deployments i = (\<exists>d\<in>set deployments. i \<in> inst_ID ` set (dep_Instances d))"

abbreviation dangling :: golc_error where "dangling \<equiv> Code ''GOLC_SELECTION_DANGLING_REFERENCE''"

text \<open>The four validation loops, in order.\<close>
definition checkSelectors ::
  "Pool list \<Rightarrow> Group list \<Rightarrow> Deployment list \<Rightarrow> Selection \<Rightarrow> golc_error option" where
  "checkSelectors pools groups deployments sel =
     err_seq (first_err (\<lambda>i. if poolExists pools i then None else Some dangling) (sel_PoolIDs sel))
    (err_seq (first_err (\<lambda>i. case groupByID groups i of None \<Rightarrow> Some dangling | Some _ \<Rightarrow> None) (sel_GroupIDs sel))
    (err_seq (first_err (\<lambda>i. if instanceExists deployments i then None else Some dangling) (sel_InstanceIDs sel))
       (first_err (\<lambda>r. checkMemberRef ''GOLC_SELECTION_DANGLING_REFERENCE'' pools (fref_PoolID r) (fref_PoolMemberID r))
          (sel_FixtureRefs sel))))"

text \<open>The \<open>selectedFixtureRefs\<close> set: direct references and the members of selected groups.\<close>
definition selectedFixtureRefs :: "Group list \<Rightarrow> Selection \<Rightarrow> (uuid \<times> uuid) set" where
  "selectedFixtureRefs groups sel =
     (\<lambda>r. (fref_PoolID r, fref_PoolMemberID r)) ` set (sel_FixtureRefs sel) \<union>
     (\<Union>i\<in>set (sel_GroupIDs sel).
        case groupByID groups i of
          None \<Rightarrow> {}
        | Some g \<Rightarrow> (\<lambda>r. (ref_PoolID r, ref_PoolMemberID r)) ` set (group_MemberRefs g))"

definition matched :: "Group list \<Rightarrow> Selection \<Rightarrow> Instance \<Rightarrow> bool" where
  "matched groups sel i =
     (inst_PoolID i \<in> set (sel_PoolIDs sel) \<or> inst_ID i \<in> set (sel_InstanceIDs sel) \<or>
      (inst_PoolID i, inst_PoolMemberID i) \<in> selectedFixtureRefs groups sel)"

definition resolvedOf :: "Deployment \<Rightarrow> Instance \<Rightarrow> ResolvedInstance" where
  "resolvedOf d i =
     \<lparr>res_DeploymentID = dep_ID d, res_InstanceID = inst_ID i, res_PoolID = inst_PoolID i,
      res_PoolMemberID = inst_PoolMemberID i\<rparr>"

definition declared :: "Deployment list \<Rightarrow> (Deployment \<times> Instance) list" where
  "declared deployments = concat (map (\<lambda>d. map (Pair d) (dep_Instances d)) deployments)"

text \<open>The walk over deployments and instances in declaration order, with the \<open>seen\<close> set.\<close>
fun resolveWalk :: "(Instance \<Rightarrow> bool) \<Rightarrow> uuid set \<Rightarrow> (Deployment \<times> Instance) list \<Rightarrow> ResolvedInstance list" where
  "resolveWalk m seen [] = []"
| "resolveWalk m seen ((d, i) # rest) =
     (if \<not> m i \<or> inst_ID i \<in> seen then resolveWalk m seen rest
      else resolvedOf d i # resolveWalk m (insert (inst_ID i) seen) rest)"

definition Resolve ::
  "Pool list \<Rightarrow> Group list \<Rightarrow> Deployment list \<Rightarrow> Selection \<Rightarrow> ResolvedInstance list result" where
  "Resolve pools groups deployments sel =
     guard_err (checkSelectors pools groups deployments sel)
       (Inr (resolveWalk (matched groups sel) {} (declared deployments)))"

section \<open>ScrubDangling\<close>

definition ScrubDangling ::
  "Selection \<Rightarrow> Pool list \<Rightarrow> Group list \<Rightarrow> Deployment list \<Rightarrow> Selection" where
  "ScrubDangling sel pools groups deployments =
     \<lparr>sel_PoolIDs = filter (poolExists pools) (sel_PoolIDs sel),
      sel_GroupIDs = filter (\<lambda>i. i \<in> group_ID ` set groups) (sel_GroupIDs sel),
      sel_InstanceIDs = filter (instanceExists deployments) (sel_InstanceIDs sel),
      sel_FixtureRefs = filter (\<lambda>r. case membersByPool pools (fref_PoolID r) of
          None \<Rightarrow> False | Some members \<Rightarrow> fref_PoolMemberID r \<in> members) (sel_FixtureRefs sel)\<rparr>"

section \<open>Properties\<close>

lemma groupByID_exists: "groupByID groups i \<noteq> None \<longleftrightarrow> i \<in> group_ID ` set groups"
  by (simp add: groupByID_def find_by_None_iff del: not_None_eq)

text \<open>Every selector names something that exists.\<close>
definition selectors_exist :: "Pool list \<Rightarrow> Group list \<Rightarrow> Deployment list \<Rightarrow> Selection \<Rightarrow> bool" where
  "selectors_exist pools groups deployments sel =
     (set (sel_PoolIDs sel) \<subseteq> pool_ID ` set pools \<and>
      set (sel_GroupIDs sel) \<subseteq> group_ID ` set groups \<and>
      (\<forall>i\<in>set (sel_InstanceIDs sel). instanceExists deployments i) \<and>
      (\<forall>r\<in>set (sel_FixtureRefs sel). \<exists>ms. membersByPool pools (fref_PoolID r) = Some ms \<and> fref_PoolMemberID r \<in> ms))"

lemma checkSelectors_None: "checkSelectors pools groups deployments sel = None \<longleftrightarrow> selectors_exist pools groups deployments sel"
proof -
  have "(case groupByID groups i of None \<Rightarrow> Some dangling | Some _ \<Rightarrow> None) = None \<longleftrightarrow> i \<in> group_ID ` set groups" for i
    using groupByID_exists [of groups i] by (auto split: option.splits)
  then show ?thesis
    by (auto simp: checkSelectors_def selectors_exist_def poolExists_def)
qed

lemma Resolve_Inr_iff:
  "Resolve pools groups deployments sel = Inr rs \<longleftrightarrow>
     selectors_exist pools groups deployments sel \<and>
     rs = resolveWalk (matched groups sel) {} (declared deployments)"
  by (auto simp: Resolve_def checkSelectors_None)

lemma resolveWalk_ids:
  "res_InstanceID ` set (resolveWalk m seen ps) = {inst_ID i |d i. (d, i) \<in> set ps \<and> m i \<and> inst_ID i \<notin> seen}"
proof (induction m seen ps rule: resolveWalk.induct)
  case (2 m seen d i rest)
  show ?case
  proof (cases "\<not> m i \<or> inst_ID i \<in> seen")
    case True
    then show ?thesis using 2(1) [OF True] by auto
  next
    case False
    then show ?thesis using 2(2) [OF False] by (auto simp: resolvedOf_def)
  qed
qed simp

lemma resolveWalk_distinct: "distinct (map res_InstanceID (resolveWalk m seen ps))"
proof (induction m seen ps rule: resolveWalk.induct)
  case (2 m seen d i rest)
  then show ?case by (auto simp: resolveWalk_ids resolvedOf_def simp flip: image_image)
qed simp

lemma resolveWalk_subseq: "subseq (resolveWalk m seen ps) (map (\<lambda>(d, i). resolvedOf d i) ps)"
  by (induction m seen ps rule: resolveWalk.induct) (auto intro: subseq_Cons')

text \<open>
  C36: \<open>Resolve\<close> is exact.  It fails, always with the dangling-reference code, exactly when some
  selector names something that does not exist; otherwise the result names each instance once,
  in deployment and instance declaration order, and names exactly the instances matched by a
  pool, a group member, a direct fixture reference or an instance selector.
\<close>
theorem Resolve_exact:
  "case Resolve pools groups deployments sel of
     Inl e \<Rightarrow> e = dangling \<and> \<not> selectors_exist pools groups deployments sel
   | Inr rs \<Rightarrow> selectors_exist pools groups deployments sel \<and> distinct (map res_InstanceID rs) \<and>
       res_InstanceID ` set rs =
         {inst_ID i |d i. d \<in> set deployments \<and> i \<in> set (dep_Instances d) \<and> matched groups sel i} \<and>
       subseq rs (map (\<lambda>(d, i). resolvedOf d i) (declared deployments))"
proof (cases "checkSelectors pools groups deployments sel")
  case None
  moreover have "(d, i) \<in> set (declared deployments) \<longleftrightarrow> d \<in> set deployments \<and> i \<in> set (dep_Instances d)" for d i
    by (auto simp: declared_def)
  ultimately show ?thesis
    by (simp add: Resolve_def resolveWalk_ids resolveWalk_distinct resolveWalk_subseq flip: checkSelectors_None)
next
  case (Some e)
  then have "e = dangling"
    by (auto simp: checkSelectors_def err_seq_def checkMemberRef_def split: option.splits if_splits
        dest!: first_err_SomeD)
  then show ?thesis using Some checkSelectors_None [of pools groups deployments sel] by (simp add: Resolve_def)
qed

lemma ScrubDangling_exist: "selectors_exist pools groups deployments (ScrubDangling sel pools groups deployments)"
  by (auto simp: selectors_exist_def ScrubDangling_def poolExists_def split: option.splits)

lemma ScrubDangling_id:
  "selectors_exist pools groups deployments sel \<Longrightarrow> ScrubDangling sel pools groups deployments = sel"
  by (cases sel) (auto simp: selectors_exist_def ScrubDangling_def poolExists_def filter_id_conv)

text \<open>
  The save-time scrub repairs a selection and does nothing else.  A scrubbed selection
  always resolves, scrubbing twice is scrubbing once, and a selection is left alone exactly
  when it resolved in the first place.
\<close>
theorem ScrubDangling_repairs:
  "is_ok (Resolve pools groups deployments (ScrubDangling sel pools groups deployments)) \<and>
   ScrubDangling (ScrubDangling sel pools groups deployments) pools groups deployments =
     ScrubDangling sel pools groups deployments \<and>
   (ScrubDangling sel pools groups deployments = sel \<longleftrightarrow> is_ok (Resolve pools groups deployments sel))"
proof -
  have ok: "is_ok (Resolve pools groups deployments s) \<longleftrightarrow> selectors_exist pools groups deployments s" for s
    by (cases "checkSelectors pools groups deployments s")
       (simp_all add: Resolve_def flip: checkSelectors_None)
  show ?thesis
    using ScrubDangling_exist ScrubDangling_id unfolding ok by metis
qed

end
