(* ===== verification/Programming.thy ===== *)
theory Programming
  imports Selection F64
begin

text \<open>
  \<open>src/internal/programming\<close>: colour themes (\<open>theme.go\<close>), the programmer buffer of touched
  attributes (\<open>programmer.go\<close>), presets recorded from it (\<open>preset.go\<close>), chases (\<open>chase.go\<close>) and
  motion presets (\<open>motion.go\<close>).  The undo history is in theory \<open>History\<close>, selections in
  \<open>Selection\<close>.
\<close>

section \<open>theme.go\<close>

record ColorAssignment =
  color_InstanceID :: uuid
  color_Value :: f64

record Theme =
  theme_ID :: uuid
  theme_Name :: string
  theme_Colors :: "ColorAssignment list"

definition NewTheme :: "uuid option \<Rightarrow> string \<Rightarrow> Theme result" where
  "NewTheme mint nm =
     (if trim_space nm = [] then Inl (Code ''GOLC_THEME_NAME_EMPTY'')
      else case mint of
          None \<Rightarrow> Inl (Code ''GOLC_THEME_ID_MINT_FAILED'')
        | Some i \<Rightarrow> Inr \<lparr>theme_ID = i, theme_Name = nm, theme_Colors = []\<rparr>)"

definition RenameTheme :: "Theme \<Rightarrow> string \<Rightarrow> Theme result" where
  "RenameTheme t newName =
     (if trim_space newName = [] then Inl (Code ''GOLC_THEME_NAME_EMPTY'')
      else Inr (t\<lparr>theme_Name := newName\<rparr>))"

definition ValidateThemeUniqueNames :: "Theme list \<Rightarrow> golc_error option" where
  "ValidateThemeUniqueNames ts = unique_keys (Code ''GOLC_THEME_DUPLICATE_NAME'') theme_Name {} ts"

section \<open>programmer.go\<close>

type_synonym AttributeSource = string

record TouchedAttribute =
  touched_InstanceID :: uuid
  touched_Capability :: CapabilityType
  touched_Value :: f64
  touched_Source :: AttributeSource

record ProgrammerState =
  ps_Attributes :: "TouchedAttribute list"

definition NewProgrammerState :: ProgrammerState where
  "NewProgrammerState = \<lparr>ps_Attributes = []\<rparr>"

definition indexOf :: "ProgrammerState \<Rightarrow> uuid \<Rightarrow> CapabilityType \<Rightarrow> nat option" where
  "indexOf ps instanceID capType =
     index_of (\<lambda>t. touched_InstanceID t = instanceID \<and> touched_Capability t = capType) (ps_Attributes ps)"

definition validateAttribute :: "CapabilityType \<Rightarrow> f64 \<Rightarrow> golc_error option" where
  "validateAttribute capType value =
     (if \<not> supportedCapabilityTypes capType then Some (Code ''GOLC_PROGRAMMER_CAPABILITY_UNSUPPORTED'')
      else if value < Fin 0 \<or> Fin 1 < value then Some (Code ''GOLC_PROGRAMMER_VALUE_OUT_OF_RANGE'')
      else None)"

definition SetAttribute ::
  "ProgrammerState \<Rightarrow> uuid \<Rightarrow> CapabilityType \<Rightarrow> f64 \<Rightarrow> AttributeSource \<Rightarrow> golc_error option \<times> ProgrammerState" where
  "SetAttribute ps instanceID capType value source =
     (case validateAttribute capType value of
        Some e \<Rightarrow> (Some e, ps)
      | None \<Rightarrow>
          let entry = \<lparr>touched_InstanceID = instanceID, touched_Capability = capType,
                       touched_Value = value, touched_Source = source\<rparr> in
          (None, ps\<lparr>ps_Attributes :=
             (case indexOf ps instanceID capType of
                Some i \<Rightarrow> (ps_Attributes ps)[i := entry]
              | None \<Rightarrow> ps_Attributes ps @ [entry])\<rparr>))"

definition Clear :: "ProgrammerState \<Rightarrow> ProgrammerState" where
  "Clear ps = ps\<lparr>ps_Attributes := []\<rparr>"

definition Touched :: "ProgrammerState \<Rightarrow> TouchedAttribute list" where
  "Touched ps = ps_Attributes ps"

definition ValidateProgrammer :: "ProgrammerState \<Rightarrow> golc_error option" where
  "ValidateProgrammer ps =
     first_err (\<lambda>t. validateAttribute (touched_Capability t) (touched_Value t)) (ps_Attributes ps)"

section \<open>preset.go\<close>

type_synonym PresetKind = string

abbreviation PresetIntensity :: PresetKind where "PresetIntensity \<equiv> ''intensity''"
abbreviation PresetColor :: PresetKind where "PresetColor \<equiv> ''color''"
abbreviation PresetPosition :: PresetKind where "PresetPosition \<equiv> ''position''"
abbreviation PresetBeam :: PresetKind where "PresetBeam \<equiv> ''beam''"

definition presetKindCapabilities :: "PresetKind \<Rightarrow> CapabilityType set option" where
  "presetKindCapabilities =
     [PresetIntensity \<mapsto> {CapabilityIntensity},
      PresetColor \<mapsto> {CapabilityColor},
      PresetPosition \<mapsto> {CapabilityPan, CapabilityTilt},
      PresetBeam \<mapsto> {CapabilityZoom, CapabilityFocus, CapabilityGobo, CapabilityShutter, CapabilityStrobe}]"

record PresetAttribute =
  attr_InstanceID :: uuid
  attr_Capability :: CapabilityType
  attr_Value :: f64

record Preset =
  preset_ID :: uuid
  preset_Name :: string
  preset_Kind :: PresetKind
  preset_Attributes :: "PresetAttribute list"

definition validatePresetKind :: "PresetKind \<Rightarrow> golc_error option" where
  "validatePresetKind kind =
     (if presetKindCapabilities kind = None then Some (Code ''GOLC_PRESET_KIND_INVALID'') else None)"

definition NewPreset :: "uuid option \<Rightarrow> string \<Rightarrow> PresetKind \<Rightarrow> Preset result" where
  "NewPreset mint nm kind =
     (if trim_space nm = [] then Inl (Code ''GOLC_PRESET_NAME_EMPTY'')
      else guard_err (validatePresetKind kind)
        (case mint of
           None \<Rightarrow> Inl (Code ''GOLC_PRESET_ID_MINT_FAILED'')
         | Some i \<Rightarrow> Inr \<lparr>preset_ID = i, preset_Name = nm, preset_Kind = kind, preset_Attributes = []\<rparr>))"

definition RecordPresetFromProgrammer ::
  "uuid option \<Rightarrow> ProgrammerState \<Rightarrow> PresetKind \<Rightarrow> string \<Rightarrow> Preset result" where
  "RecordPresetFromProgrammer mint ps kind nm =
     bind_res (NewPreset mint nm kind) (\<lambda>preset.
       let allowed = (case presetKindCapabilities kind of None \<Rightarrow> {} | Some s \<Rightarrow> s) in
       Inr (preset\<lparr>preset_Attributes := preset_Attributes preset @
         map (\<lambda>t. \<lparr>attr_InstanceID = touched_InstanceID t, attr_Capability = touched_Capability t,
                   attr_Value = touched_Value t\<rparr>)
           (filter (\<lambda>t. touched_Capability t \<in> allowed) (Touched ps))\<rparr>))"

definition RenamePreset :: "Preset \<Rightarrow> string \<Rightarrow> Preset result" where
  "RenamePreset p newName =
     (if trim_space newName = [] then Inl (Code ''GOLC_PRESET_NAME_EMPTY'')
      else Inr (p\<lparr>preset_Name := newName\<rparr>))"

definition ValidatePresetUniqueNames :: "Preset list \<Rightarrow> golc_error option" where
  "ValidatePresetUniqueNames ps = unique_keys (Code ''GOLC_PRESET_DUPLICATE_NAME'') preset_Name {} ps"

definition ValidatePreset :: "Preset \<Rightarrow> golc_error option" where
  "ValidatePreset p =
     (if trim_space (preset_Name p) = [] then Some (Code ''GOLC_PRESET_NAME_EMPTY'')
      else case presetKindCapabilities (preset_Kind p) of
          None \<Rightarrow> Some (Code ''GOLC_PRESET_KIND_INVALID'')
        | Some allowed \<Rightarrow>
            first_err (\<lambda>a. if attr_Capability a \<notin> allowed then Some (Code ''GOLC_PRESET_OFF_KIND_ATTRIBUTE'')
                           else if attr_Value a < Fin 0 \<or> Fin 1 < attr_Value a
                           then Some (Code ''GOLC_PRESET_VALUE_OUT_OF_RANGE'')
                           else None) (preset_Attributes p))"

section \<open>chase.go\<close>

type_synonym StepUnit = string

abbreviation StepUnitBar :: StepUnit where "StepUnitBar \<equiv> ''bar''"
abbreviation StepUnitBeat :: StepUnit where "StepUnitBeat \<equiv> ''beat''"

definition maxChaseSteps :: nat where "maxChaseSteps = 256"

record ChaseStep =
  step_Attributes :: "PresetAttribute list"
  step_Selection :: "Selection option"

record Chase =
  chase_ID :: uuid
  chase_Name :: string
  chase_Steps :: "ChaseStep list"
  chase_StepUnit :: StepUnit
  chase_StepDuration :: f64

definition validateStepUnit :: "StepUnit \<Rightarrow> golc_error option" where
  "validateStepUnit u =
     (if u \<noteq> StepUnitBar \<and> u \<noteq> StepUnitBeat then Some (Code ''GOLC_CHASE_STEP_UNIT_INVALID'') else None)"

definition ValidateChase :: "Chase \<Rightarrow> golc_error option" where
  "ValidateChase c =
     (if trim_space (chase_Name c) = [] then Some (Code ''GOLC_CHASE_NAME_EMPTY'')
      else err_seq (validateStepUnit (chase_StepUnit c))
        (if chase_StepDuration c \<le> Fin 0 then Some (Code ''GOLC_CHASE_STEP_DURATION_INVALID'')
         else if length (chase_Steps c) > maxChaseSteps then Some (Code ''GOLC_CHASE_TOO_MANY_STEPS'')
         else None))"

definition NewChase :: "uuid option \<Rightarrow> string \<Rightarrow> ChaseStep list \<Rightarrow> StepUnit \<Rightarrow> f64 \<Rightarrow> Chase result" where
  "NewChase mint nm steps stepUnit stepDuration =
     (let chase = \<lparr>chase_ID = uuid_nil, chase_Name = nm, chase_Steps = steps,
                   chase_StepUnit = stepUnit, chase_StepDuration = stepDuration\<rparr> in
      guard_err (ValidateChase chase)
        (case mint of
           None \<Rightarrow> Inl (Code ''GOLC_CHASE_ID_MINT_FAILED'')
         | Some i \<Rightarrow> Inr (chase\<lparr>chase_ID := i\<rparr>)))"

definition RenameChase :: "Chase \<Rightarrow> string \<Rightarrow> Chase result" where
  "RenameChase c newName =
     (if trim_space newName = [] then Inl (Code ''GOLC_CHASE_NAME_EMPTY'')
      else Inr (c\<lparr>chase_Name := newName\<rparr>))"

definition ValidateChaseUniqueNames :: "Chase list \<Rightarrow> golc_error option" where
  "ValidateChaseUniqueNames cs = unique_keys (Code ''GOLC_CHASE_DUPLICATE_NAME'') chase_Name {} cs"

section \<open>motion.go\<close>

definition MotionScopedCapabilities :: "CapabilityType list" where
  "MotionScopedCapabilities = [CapabilityPan, CapabilityTilt, CapabilityZoom, CapabilityFocus]"

record MotionKeyframeValue =
  kv_Capability :: CapabilityType
  kv_Value :: f64

record MotionKeyframe =
  kf_Phase :: f64
  kf_Values :: "MotionKeyframeValue list"

record MotionPreset =
  motion_ID :: uuid
  motion_Name :: string
  motion_Keyframes :: "MotionKeyframe list"

definition motionScopedCapabilityTypes :: "CapabilityType \<Rightarrow> bool" where
  "motionScopedCapabilityTypes t = (t \<in> {CapabilityPan, CapabilityTilt, CapabilityZoom, CapabilityFocus})"

definition validateMotionKeyframe :: "MotionKeyframe \<Rightarrow> golc_error option" where
  "validateMotionKeyframe k =
     (if kf_Phase k < Fin 0 \<or> Fin 1 < kf_Phase k then Some (Code ''GOLC_MOTION_PRESET_PHASE_OUT_OF_RANGE'')
      else first_err (\<lambda>v. if \<not> motionScopedCapabilityTypes (kv_Capability v)
                          then Some (Code ''GOLC_MOTION_PRESET_CAPABILITY_OUT_OF_SCOPE'')
                          else if kv_Value v < Fin 0 \<or> Fin 1 < kv_Value v
                          then Some (Code ''GOLC_MOTION_PRESET_VALUE_OUT_OF_RANGE'')
                          else None) (kf_Values k))"

definition ValidateMotionPreset :: "MotionPreset \<Rightarrow> golc_error option" where
  "ValidateMotionPreset m =
     (if trim_space (motion_Name m) = [] then Some (Code ''GOLC_MOTION_PRESET_NAME_EMPTY'')
      else first_err validateMotionKeyframe (motion_Keyframes m))"

definition NewMotionPreset :: "uuid option \<Rightarrow> string \<Rightarrow> MotionKeyframe list \<Rightarrow> MotionPreset result" where
  "NewMotionPreset mint nm keyframes =
     (let preset = \<lparr>motion_ID = uuid_nil, motion_Name = nm, motion_Keyframes = keyframes\<rparr> in
      guard_err (ValidateMotionPreset preset)
        (case mint of
           None \<Rightarrow> Inl (Code ''GOLC_MOTION_PRESET_ID_MINT_FAILED'')
         | Some i \<Rightarrow> Inr (preset\<lparr>motion_ID := i\<rparr>)))"

definition RenameMotionPreset :: "MotionPreset \<Rightarrow> string \<Rightarrow> MotionPreset result" where
  "RenameMotionPreset m newName =
     (if trim_space newName = [] then Inl (Code ''GOLC_MOTION_PRESET_NAME_EMPTY'')
      else Inr (m\<lparr>motion_Name := newName\<rparr>))"

definition ValidateMotionPresetUniqueNames :: "MotionPreset list \<Rightarrow> golc_error option" where
  "ValidateMotionPresetUniqueNames ms =
     unique_keys (Code ''GOLC_MOTION_PRESET_DUPLICATE_NAME'') motion_Name {} ms"

section \<open>Contracts\<close>

interpretation theme: named_object theme_ID theme_Name RenameTheme ValidateThemeUniqueNames
  by unfold_locales (auto simp: RenameTheme_def ValidateThemeUniqueNames_def split: if_splits)

interpretation preset: named_object preset_ID preset_Name RenamePreset ValidatePresetUniqueNames
  by unfold_locales (auto simp: RenamePreset_def ValidatePresetUniqueNames_def split: if_splits)

interpretation chase: named_object chase_ID chase_Name RenameChase ValidateChaseUniqueNames
  by unfold_locales (auto simp: RenameChase_def ValidateChaseUniqueNames_def split: if_splits)

interpretation motion: named_object motion_ID motion_Name RenameMotionPreset ValidateMotionPresetUniqueNames
  by unfold_locales (auto simp: RenameMotionPreset_def ValidateMotionPresetUniqueNames_def split: if_splits)

section \<open>The programmer buffer refines a map\<close>

definition touched_key :: "TouchedAttribute \<Rightarrow> uuid \<times> CapabilityType" where
  "touched_key t = (touched_InstanceID t, touched_Capability t)"

lemma touched_key_entry [simp]:
  "touched_key \<lparr>touched_InstanceID = i, touched_Capability = c, touched_Value = v, touched_Source = src\<rparr> = (i, c)"
  by (simp add: touched_key_def)

text \<open>What the buffer stores, as a finite map from (instance, capability) to value and source.\<close>
definition programmer_map :: "ProgrammerState \<Rightarrow> uuid \<times> CapabilityType \<rightharpoonup> f64 \<times> AttributeSource" where
  "programmer_map ps =
     map_of (map (\<lambda>t. (touched_key t, (touched_Value t, touched_Source t))) (ps_Attributes ps))"

definition programmer_inv :: "ProgrammerState \<Rightarrow> bool" where
  "programmer_inv ps = (distinct (map touched_key (ps_Attributes ps)) \<and> ValidateProgrammer ps = None)"

text \<open>The buffers that a sequence of edits and clears can produce.\<close>
inductive programmer_reach :: "ProgrammerState \<Rightarrow> bool" where
  reach_new: "programmer_reach NewProgrammerState"
| reach_set: "programmer_reach ps \<Longrightarrow> programmer_reach (snd (SetAttribute ps i c v src))"
| reach_clear: "programmer_reach ps \<Longrightarrow> programmer_reach (Clear ps)"

lemma update_first_keys:
  "key e = k \<Longrightarrow> map key (update_first (\<lambda>t. key t = k) (\<lambda>_. e) xs) = map key xs"
  by (induction xs) auto

lemma update_first_set: "t \<in> set (update_first p (\<lambda>_. e) xs) \<Longrightarrow> t = e \<or> t \<in> set xs"
  by (induction xs) (auto split: if_splits)

lemma map_of_update_first:
  assumes "k \<in> key ` set xs" "key e = k"
  shows "map_of (map (\<lambda>t. (key t, f t)) (update_first (\<lambda>t. key t = k) (\<lambda>_. e) xs)) =
    (map_of (map (\<lambda>t. (key t, f t)) xs))(k \<mapsto> f e)"
  using assms by (induction xs) (auto simp: fun_upd_twist)

lemma map_of_append_new:
  "k \<notin> key ` set xs \<Longrightarrow> map_of (map (\<lambda>t. (key t, f t)) xs @ [(k, y)]) = (map_of (map (\<lambda>t. (key t, f t)) xs))(k \<mapsto> y)"
  by (induction xs) (auto simp: fun_upd_twist)

text \<open>A successful edit, with the index search replaced by its meaning.\<close>
lemma SetAttribute_ok:
  assumes "SetAttribute ps i c v src = (None, ps')"
  shows "validateAttribute c v = None"
    "ps_Attributes ps' =
      (let entry = \<lparr>touched_InstanceID = i, touched_Capability = c, touched_Value = v, touched_Source = src\<rparr> in
       if (i, c) \<in> touched_key ` set (ps_Attributes ps)
       then update_first (\<lambda>t. touched_key t = (i, c)) (\<lambda>_. entry) (ps_Attributes ps)
       else ps_Attributes ps @ [entry])"
proof -
  let ?e = "\<lparr>touched_InstanceID = i, touched_Capability = c, touched_Value = v, touched_Source = src\<rparr>"
  have v: "validateAttribute c v = None"
    and at: "ps_Attributes ps' = (case indexOf ps i c of Some n \<Rightarrow> (ps_Attributes ps)[n := ?e]
      | None \<Rightarrow> ps_Attributes ps @ [?e])"
    using assms by (auto simp: SetAttribute_def Let_def split: option.splits)
  show "validateAttribute c v = None" by (rule v)
  have ix: "indexOf ps i c = index_of (\<lambda>t. touched_key t = (i, c)) (ps_Attributes ps)"
    by (simp add: indexOf_def touched_key_def)
  show "ps_Attributes ps' = (let entry = ?e in
       if (i, c) \<in> touched_key ` set (ps_Attributes ps)
       then update_first (\<lambda>t. touched_key t = (i, c)) (\<lambda>_. entry) (ps_Attributes ps)
       else ps_Attributes ps @ [entry])"
  proof (cases "indexOf ps i c")
    case None
    then have "(i, c) \<notin> touched_key ` set (ps_Attributes ps)" by (auto simp: ix index_of_None_iff)
    then show ?thesis using at None by (simp add: Let_def)
  next
    case (Some n)
    note n = Some [unfolded ix]
    have "ps_Attributes ps ! n \<in> set (ps_Attributes ps)" "touched_key (ps_Attributes ps ! n) = (i, c)"
      using index_of_SomeD [OF n] by auto
    then have "(i, c) \<in> touched_key ` set (ps_Attributes ps)" by (metis imageI)
    then show ?thesis using at Some update_first_index [OF n, of "\<lambda>_. ?e"] by (simp add: Let_def)
  qed
qed

lemma SetAttribute_inv:
  assumes "programmer_inv ps"
  shows "programmer_inv (snd (SetAttribute ps i c v src))"
proof (cases "SetAttribute ps i c v src")
  case (Pair r ps')
  show ?thesis
  proof (cases r)
    case None
    note ok = SetAttribute_ok [OF Pair [unfolded None]]
    let ?xs = "ps_Attributes ps" and ?xs' = "ps_Attributes ps'"
    have "distinct (map touched_key ?xs')"
      using assms by (auto simp: programmer_inv_def ok(2) Let_def update_first_keys)
    moreover have "validateAttribute (touched_Capability t) (touched_Value t) = None" if "t \<in> set ?xs'" for t
      using that assms ok(1) update_first_set [of t]
      by (fastforce simp: programmer_inv_def ValidateProgrammer_def ok(2) Let_def split: if_splits)
    ultimately show ?thesis using Pair by (simp add: programmer_inv_def ValidateProgrammer_def)
  next
    case (Some e)
    then have "ps' = ps" using Pair by (auto simp: SetAttribute_def Let_def split: option.splits)
    then show ?thesis using assms Pair by simp
  qed
qed

text \<open>
  After any sequence of edits and clears the programmer buffer holds at most one entry per
  (instance, capability), and every entry passes the checks that loading a show repeats.
\<close>
theorem programmer_reach_inv: "programmer_reach ps \<Longrightarrow> programmer_inv ps"
proof (induction rule: programmer_reach.induct)
  case reach_new
  then show ?case by (simp add: NewProgrammerState_def programmer_inv_def ValidateProgrammer_def)
next
  case (reach_set ps i c v src)
  then show ?case by (simp add: SetAttribute_inv)
next
  case (reach_clear ps)
  then show ?case by (simp add: Clear_def programmer_inv_def ValidateProgrammer_def)
qed

text \<open>
  C33: \<open>SetAttribute\<close> is a map update.  An accepted edit maps its (instance, capability) to the new
  value and source and nothing else changes, the entries keep their first-set order with a new
  key appended at the end; a rejected edit leaves the buffer as it was.
\<close>
theorem SetAttribute_refines_update:
  "case SetAttribute ps i c v src of
     (None, ps') \<Rightarrow> programmer_map ps' = (programmer_map ps)((i, c) \<mapsto> (v, src)) \<and>
       map touched_key (Touched ps') =
         (if (i, c) \<in> touched_key ` set (Touched ps) then map touched_key (Touched ps)
          else map touched_key (Touched ps) @ [(i, c)])
   | (Some e, ps') \<Rightarrow> ps' = ps \<and> validateAttribute c v = Some e"
proof (cases "SetAttribute ps i c v src")
  case (Pair r ps')
  show ?thesis
  proof (cases r)
    case None
    let ?e = "\<lparr>touched_InstanceID = i, touched_Capability = c, touched_Value = v, touched_Source = src\<rparr>"
    note at = SetAttribute_ok(2) [OF Pair [unfolded None], unfolded Let_def]
    have "map touched_key (update_first (\<lambda>t. touched_key t = (i, c)) (\<lambda>_. ?e) xs) = map touched_key xs" for xs
      by (rule update_first_keys) simp
    moreover have "programmer_map ps' = (programmer_map ps)((i, c) \<mapsto> (v, src))"
      using map_of_update_first [of "(i, c)" touched_key "ps_Attributes ps" ?e "\<lambda>t. (touched_Value t, touched_Source t)"]
        map_of_append_new [of "(i, c)" touched_key "ps_Attributes ps" "\<lambda>t. (touched_Value t, touched_Source t)"]
      by (simp add: programmer_map_def at)
    ultimately show ?thesis using Pair None by (simp add: Touched_def at)
  next
    case (Some e)
    then show ?thesis using Pair by (auto simp: SetAttribute_def Let_def split: option.splits)
  qed
qed

section \<open>Recording presets\<close>

text \<open>
  A preset recorded from a buffer that passes validation is itself valid, and holds exactly
  the touched attributes of its kind, in touch order; recording fails only for a blank name, an
  unknown kind, or when no identity could be minted.
\<close>
theorem RecordPreset_valid:
  assumes "ValidateProgrammer ps = None"
  shows "case RecordPresetFromProgrammer mint ps kind nm of
      Inr p \<Rightarrow> ValidatePreset p = None \<and> mint = Some (preset_ID p) \<and>
        (\<exists>allowed. presetKindCapabilities kind = Some allowed \<and>
          map (\<lambda>a. (attr_InstanceID a, attr_Capability a, attr_Value a)) (preset_Attributes p) =
          map (\<lambda>t. (touched_InstanceID t, touched_Capability t, touched_Value t))
            (filter (\<lambda>t. touched_Capability t \<in> allowed) (Touched ps)))
    | Inl e \<Rightarrow> trim_space nm = [] \<or> presetKindCapabilities kind = None \<or> mint = None"
proof (cases "RecordPresetFromProgrammer mint ps kind nm")
  case (Inl e)
  then show ?thesis
    by (auto simp: RecordPresetFromProgrammer_def NewPreset_def validatePresetKind_def
        split: if_splits option.splits)
next
  case (Inr p)
  then obtain i allowed where
    "trim_space nm \<noteq> []" "mint = Some i" "presetKindCapabilities kind = Some allowed"
    "p = \<lparr>preset_ID = i, preset_Name = nm, preset_Kind = kind, preset_Attributes =
       map (\<lambda>t. \<lparr>attr_InstanceID = touched_InstanceID t, attr_Capability = touched_Capability t,
                 attr_Value = touched_Value t\<rparr>)
         (filter (\<lambda>t. touched_Capability t \<in> allowed) (Touched ps))\<rparr>"
    by (auto simp: RecordPresetFromProgrammer_def NewPreset_def validatePresetKind_def
        bind_res_Inr_iff split: if_splits option.splits)
  then show ?thesis using Inr assms
    by (auto simp: ValidatePreset_def ValidateProgrammer_def Touched_def validateAttribute_def
        comp_def split: if_splits)
qed

text \<open>
  No preset kind captures the colour-mixing channels: a touched red, green, blue or white
  value never ends up in a recorded preset, whatever its kind.
\<close>
theorem RecordPreset_drops_color_mix:
  "RecordPresetFromProgrammer mint ps kind nm = Inr p \<Longrightarrow> a \<in> set (preset_Attributes p) \<Longrightarrow>
   attr_Capability a \<notin> {CapabilityColorRed, CapabilityColorGreen, CapabilityColorBlue, CapabilityColorWhite}"
  by (auto simp: RecordPresetFromProgrammer_def NewPreset_def validatePresetKind_def
      presetKindCapabilities_def bind_res_Inr_iff split: if_splits option.splits)

definition demo_programmer :: ProgrammerState where
  "demo_programmer =
     snd (SetAttribute (snd (SetAttribute NewProgrammerState 1 CapabilityIntensity (Fin (1 / 2)) ''manual''))
       1 CapabilityColorRed (Fin 1) ''manual'')"

theorem programmer_reach_inv_witness: "programmer_inv demo_programmer"
  unfolding demo_programmer_def
  by (rule programmer_reach_inv) (intro programmer_reach.intros)

theorem RecordPreset_valid_witness:
  "\<exists>p. RecordPresetFromProgrammer (Some 9) demo_programmer PresetIntensity ''half'' = Inr p \<and> ValidatePreset p = None"
proof -
  have v: "ValidateProgrammer demo_programmer = None" by code_simp
  have "is_ok (RecordPresetFromProgrammer (Some 9) demo_programmer PresetIntensity ''half'')" by code_simp
  then obtain p where "RecordPresetFromProgrammer (Some 9) demo_programmer PresetIntensity ''half'' = Inr p"
    by (cases "RecordPresetFromProgrammer (Some 9) demo_programmer PresetIntensity ''half''") auto
  then show ?thesis using RecordPreset_valid [OF v, where mint = "Some 9" and kind = PresetIntensity and nm = "''half''"] by simp
qed

theorem RecordPreset_drops_color_mix_witness:
  "\<exists>p a. RecordPresetFromProgrammer (Some 9) demo_programmer PresetIntensity ''half'' = Inr p \<and>
     preset_Attributes p = [a] \<and> attr_Capability a \<noteq> CapabilityColorRed"
proof -
  let ?a = "\<lparr>attr_InstanceID = 1, attr_Capability = CapabilityIntensity, attr_Value = Fin (1 / 2)\<rparr> :: PresetAttribute"
  let ?p = "\<lparr>preset_ID = 9, preset_Name = ''half'', preset_Kind = PresetIntensity, preset_Attributes = [?a]\<rparr> :: Preset"
  have r: "RecordPresetFromProgrammer (Some 9) demo_programmer PresetIntensity ''half'' = Inr ?p" by code_simp
  have "attr_Capability ?a \<noteq> CapabilityColorRed" using RecordPreset_drops_color_mix [OF r, of ?a] by simp
  then show ?thesis using r by (intro exI [of _ ?p] exI [of _ ?a]) simp
qed

end
