(* ===== verification/Scene.thy ===== *)
theory Scene
  imports Programming
begin

text \<open>
  \<open>src/internal/scene\<close>: scenes with their four fixed layer slots (\<open>scene.go\<close>), the layer reduction
  (\<open>layer.go\<close>), blend presets (\<open>blend.go\<close>) and the scrubbing of dangling references
  (\<open>scrub.go\<close>).  The Go array \<open>[4]Layer\<close> is a list; \<open>layers_wf\<close> is the shape every scene built by
  the package has.
\<close>

section \<open>scene.go\<close>

type_synonym LayerKind = string

abbreviation BaseLook :: LayerKind where "BaseLook \<equiv> ''base_look''"
abbreviation ColorThemeLayer :: LayerKind where "ColorThemeLayer \<equiv> ''color_theme''"
abbreviation ChaseLayer :: LayerKind where "ChaseLayer \<equiv> ''chase''"
abbreviation MotionLayer :: LayerKind where "MotionLayer \<equiv> ''motion''"

definition layerPriority :: "LayerKind list" where
  "layerPriority = [BaseLook, ColorThemeLayer, ChaseLayer, MotionLayer]"

definition maxBarsPerLoop :: int where "maxBarsPerLoop = 1024"

record Layer =
  layer_Kind :: LayerKind
  layer_Enabled :: bool
  layer_Selection :: Selection
  layer_Ref :: uuid

record Scene =
  scene_ID :: uuid
  scene_Name :: string
  scene_Active :: bool
  scene_BarsPerLoop :: int
  scene_PreservePosition :: bool
  scene_Layers :: "Layer list"

definition emptySelection :: Selection where
  "emptySelection = \<lparr>sel_PoolIDs = [], sel_GroupIDs = [], sel_InstanceIDs = [], sel_FixtureRefs = []\<rparr>"

definition newLayers :: "Layer list" where
  "newLayers =
     map (\<lambda>kind. \<lparr>layer_Kind = kind, layer_Enabled = False, layer_Selection = emptySelection, layer_Ref = uuid_nil\<rparr>)
       layerPriority"

definition validateLayerKind :: "LayerKind \<Rightarrow> golc_error option" where
  "validateLayerKind kind =
     (if kind \<in> set layerPriority then None else Some (Code ''GOLC_SCENE_LAYER_KIND_INVALID''))"

definition LayerByKind :: "Scene \<Rightarrow> LayerKind \<Rightarrow> Layer option" where
  "LayerByKind s kind = find_by layer_Kind kind (scene_Layers s)"

definition SetLayer :: "Scene \<Rightarrow> Layer \<Rightarrow> Scene result" where
  "SetLayer s layer =
     guard_err (validateLayerKind (layer_Kind layer))
       (case index_of (\<lambda>l. layer_Kind l = layer_Kind layer) (scene_Layers s) of
          None \<Rightarrow> Inl (Code ''GOLC_SCENE_LAYER_KIND_INVALID'')
        | Some i \<Rightarrow> Inr (s\<lparr>scene_Layers := (scene_Layers s)[i := layer]\<rparr>))"

definition validateBarsPerLoop :: "int \<Rightarrow> golc_error option" where
  "validateBarsPerLoop n =
     (if n < 1 then Some (Code ''GOLC_SCENE_BARS_INVALID'')
      else if n > maxBarsPerLoop then Some (Code ''GOLC_SCENE_BARS_INVALID'')
      else None)"

definition NewScene :: "uuid option \<Rightarrow> string \<Rightarrow> int \<Rightarrow> Scene result" where
  "NewScene mint nm barsPerLoop =
     (if trim_space nm = [] then Inl (Code ''GOLC_SCENE_NAME_EMPTY'')
      else guard_err (validateBarsPerLoop barsPerLoop)
        (case mint of
           None \<Rightarrow> Inl (Code ''GOLC_SCENE_ID_MINT_FAILED'')
         | Some i \<Rightarrow> Inr \<lparr>scene_ID = i, scene_Name = nm, scene_Active = False, scene_BarsPerLoop = barsPerLoop,
                          scene_PreservePosition = False, scene_Layers = newLayers\<rparr>))"

definition RenameScene :: "Scene \<Rightarrow> string \<Rightarrow> Scene result" where
  "RenameScene s newName =
     (if trim_space newName = [] then Inl (Code ''GOLC_SCENE_NAME_EMPTY'')
      else Inr (s\<lparr>scene_Name := newName\<rparr>))"

definition ValidateScene :: "Scene \<Rightarrow> golc_error option" where
  "ValidateScene s =
     (if trim_space (scene_Name s) = [] then Some (Code ''GOLC_SCENE_NAME_EMPTY'')
      else err_seq (validateBarsPerLoop (scene_BarsPerLoop s))
        (first_err (\<lambda>l. validateLayerKind (layer_Kind l)) (scene_Layers s)))"

definition ValidateSceneUniqueNames :: "Scene list \<Rightarrow> golc_error option" where
  "ValidateSceneUniqueNames ss = unique_keys (Code ''GOLC_SCENE_DUPLICATE_NAME'') scene_Name {} ss"

definition ValidateSingleActiveScene :: "Scene list \<Rightarrow> golc_error option" where
  "ValidateSingleActiveScene ss =
     (if count_active scene_Active ss > 1 then Some (Code ''GOLC_SCENE_MULTIPLE_ACTIVE'') else None)"

definition ActivateScene :: "Scene list \<Rightarrow> string \<Rightarrow> Scene list result" where
  "ActivateScene ss nm =
     (let activated = map (\<lambda>s. s\<lparr>scene_Active := (scene_Name s = nm)\<rparr>) ss in
      if \<exists>s\<in>set activated. scene_Active s then Inr activated
      else Inl (Code ''GOLC_SCENE_NOT_FOUND''))"

definition checkLayerReference ::
  "Theme list \<Rightarrow> Preset list \<Rightarrow> Chase list \<Rightarrow> MotionPreset list \<Rightarrow> Layer \<Rightarrow> golc_error option" where
  "checkLayerReference themes presets chases motions l =
     (let dangle = Some (Code ''GOLC_SCENE_LAYER_DANGLING_REFERENCE'') in
      if layer_Ref l = uuid_nil then None
      else if layer_Kind l = BaseLook then
        (if layer_Ref l \<in> preset_ID ` set presets then None else dangle)
      else if layer_Kind l = ColorThemeLayer then
        (if layer_Ref l \<in> theme_ID ` set themes then None else dangle)
      else if layer_Kind l = ChaseLayer then
        (if layer_Ref l \<in> chase_ID ` set chases then None else dangle)
      else if layer_Kind l = MotionLayer then
        (if layer_Ref l \<in> motion_ID ` set motions then None else dangle)
      else None)"

definition ValidateLayerReferences ::
  "Scene list \<Rightarrow> Theme list \<Rightarrow> Preset list \<Rightarrow> Chase list \<Rightarrow> MotionPreset list \<Rightarrow> golc_error option" where
  "ValidateLayerReferences scenes themes presets chases motions =
     first_err (\<lambda>s. first_err (checkLayerReference themes presets chases motions) (scene_Layers s)) scenes"

section \<open>layer.go\<close>

text \<open>\<open>AttributeSet.Values\<close>; a nil map and an empty map are the same.\<close>
type_synonym AttributeSet = "CapabilityType \<rightharpoonup> f64"

definition Overlay :: "AttributeSet \<Rightarrow> AttributeSet \<Rightarrow> AttributeSet" where
  "Overlay a b = (\<lambda>c. case b c of Some v \<Rightarrow> Some v | None \<Rightarrow> a c)"

record LayerContribution =
  lc_Kind :: LayerKind
  lc_Enabled :: bool
  lc_Attributes :: AttributeSet

definition ReduceLayers :: "LayerContribution list \<Rightarrow> AttributeSet" where
  "ReduceLayers contributions =
     fold (\<lambda>kind acc.
        case find_by lc_Kind kind (rev contributions) of
          None \<Rightarrow> acc
        | Some c \<Rightarrow> if lc_Enabled c then Overlay acc (lc_Attributes c) else acc)
       layerPriority Map.empty"

section \<open>blend.go\<close>

definition supportedBlendCurves :: "string \<Rightarrow> bool" where
  "supportedBlendCurves c = (c \<in> {''linear'', ''ease_in'', ''ease_out''})"

record BlendPreset =
  blend_ID :: uuid
  blend_Name :: string
  blend_DurationBars :: f64
  blend_Curve :: string

definition validateBlendCurve :: "string \<Rightarrow> golc_error option" where
  "validateBlendCurve c =
     (if supportedBlendCurves c then None else Some (Code ''GOLC_BLEND_PRESET_INVALID''))"

definition ValidateBlendPreset :: "BlendPreset \<Rightarrow> golc_error option" where
  "ValidateBlendPreset b =
     (if trim_space (blend_Name b) = [] then Some (Code ''GOLC_BLEND_PRESET_NAME_EMPTY'')
      else if blend_DurationBars b < Fin 0 then Some (Code ''GOLC_BLEND_PRESET_INVALID'')
      else validateBlendCurve (blend_Curve b))"

definition NewBlendPreset :: "uuid option \<Rightarrow> string \<Rightarrow> f64 \<Rightarrow> string \<Rightarrow> BlendPreset result" where
  "NewBlendPreset mint nm durationBars curve =
     (let preset = \<lparr>blend_ID = uuid_nil, blend_Name = nm, blend_DurationBars = durationBars, blend_Curve = curve\<rparr> in
      guard_err (ValidateBlendPreset preset)
        (case mint of
           None \<Rightarrow> Inl (Code ''GOLC_BLEND_PRESET_ID_MINT_FAILED'')
         | Some i \<Rightarrow> Inr (preset\<lparr>blend_ID := i\<rparr>)))"

definition RenameBlendPreset :: "BlendPreset \<Rightarrow> string \<Rightarrow> BlendPreset result" where
  "RenameBlendPreset b newName =
     (if trim_space newName = [] then Inl (Code ''GOLC_BLEND_PRESET_NAME_EMPTY'')
      else Inr (b\<lparr>blend_Name := newName\<rparr>))"

definition ValidateBlendPresetUniqueNames :: "BlendPreset list \<Rightarrow> golc_error option" where
  "ValidateBlendPresetUniqueNames bs =
     unique_keys (Code ''GOLC_BLEND_PRESET_DUPLICATE_NAME'') blend_Name {} bs"

section \<open>scrub.go\<close>

definition ScrubDanglingSelections ::
  "Scene list \<Rightarrow> Pool list \<Rightarrow> Group list \<Rightarrow> Deployment list \<Rightarrow> Scene list" where
  "ScrubDanglingSelections scenes pools groups deployments =
     map (\<lambda>s. s\<lparr>scene_Layers :=
            map (\<lambda>l. l\<lparr>layer_Selection := ScrubDangling (layer_Selection l) pools groups deployments\<rparr>)
              (scene_Layers s)\<rparr>) scenes"

definition scrubLayerSlot :: "LayerKind \<Rightarrow> uuid \<Rightarrow> Layer \<Rightarrow> Layer" where
  "scrubLayerSlot kind i l =
     (if layer_Kind l = kind \<and> layer_Ref l = i then l\<lparr>layer_Ref := uuid_nil, layer_Enabled := False\<rparr> else l)"

definition ScrubLayerRef :: "Scene list \<Rightarrow> LayerKind \<Rightarrow> uuid \<Rightarrow> Scene list" where
  "ScrubLayerRef scenes kind i =
     map (\<lambda>s. s\<lparr>scene_Layers := map (scrubLayerSlot kind i) (scene_Layers s)\<rparr>) scenes"

section \<open>Contracts\<close>

interpretation scene: named_object scene_ID scene_Name RenameScene ValidateSceneUniqueNames
  by unfold_locales (auto simp: RenameScene_def ValidateSceneUniqueNames_def split: if_splits)

interpretation blend: named_object blend_ID blend_Name RenameBlendPreset ValidateBlendPresetUniqueNames
  by unfold_locales (auto simp: RenameBlendPreset_def ValidateBlendPresetUniqueNames_def split: if_splits)

interpretation scene_act: single_active scene_Name scene_Active "\<lambda>b. scene_Active_update (\<lambda>_. b)"
  ValidateSingleActiveScene ActivateScene
  by unfold_locales (auto simp: ValidateSingleActiveScene_def ActivateScene_def Let_def)

section \<open>Layer slots\<close>

text \<open>One layer per kind, in priority order: the shape \<open>newLayers\<close> creates.\<close>
definition layers_wf :: "Scene \<Rightarrow> bool" where
  "layers_wf s = (map layer_Kind (scene_Layers s) = layerPriority)"

lemma NewScene_wf: "NewScene mint nm n = Inr s \<Longrightarrow> layers_wf s \<and> ValidateScene s = None"
  by (auto simp: NewScene_def layers_wf_def newLayers_def ValidateScene_def validateLayerKind_def comp_def
      split: if_splits option.splits)

lemma scrubLayerSlot_kind [simp]: "layer_Kind (scrubLayerSlot k i l) = layer_Kind l"
  by (simp add: scrubLayerSlot_def)

lemma ScrubLayerRef_wf: "(\<forall>s\<in>set ss. layers_wf s) \<Longrightarrow> (\<forall>s\<in>set (ScrubLayerRef ss k i). layers_wf s)"
  by (auto simp: ScrubLayerRef_def layers_wf_def comp_def)

lemma ScrubDanglingSelections_wf:
  "(\<forall>s\<in>set ss. layers_wf s) \<Longrightarrow> (\<forall>s\<in>set (ScrubDanglingSelections ss ps gs ds). layers_wf s)"
  by (auto simp: ScrubDanglingSelections_def layers_wf_def comp_def)

text \<open>
  On a scene with the four fixed slots, \<open>SetLayer\<close> replaces exactly the slot of the layer's
  kind: the slots stay one per kind in priority order, that slot now holds the new layer, every
  other slot and every other field is unchanged, and the only error is an unknown kind.
\<close>
theorem SetLayer_replaces_slot:
  assumes wf: "layers_wf s"
  shows "case SetLayer s l of
      Inr s' \<Rightarrow> layers_wf s' \<and> LayerByKind s' (layer_Kind l) = Some l \<and>
        (\<forall>k. k \<noteq> layer_Kind l \<longrightarrow> LayerByKind s' k = LayerByKind s k) \<and>
        s'\<lparr>scene_Layers := scene_Layers s\<rparr> = s
    | Inl e \<Rightarrow> e = Code ''GOLC_SCENE_LAYER_KIND_INVALID'' \<and> layer_Kind l \<notin> set layerPriority"
proof (cases "layer_Kind l \<in> set layerPriority")
  case False
  then show ?thesis by (simp add: SetLayer_def validateLayerKind_def)
next
  case True
  then have ex: "layer_Kind l \<in> layer_Kind ` set (scene_Layers s)"
    using wf by (metis layers_wf_def set_map)
  then obtain i where i: "index_of (\<lambda>x. layer_Kind x = layer_Kind l) (scene_Layers s) = Some i"
    by (cases "index_of (\<lambda>x. layer_Kind x = layer_Kind l) (scene_Layers s)") (auto simp: index_of_None_iff)
  let ?ls = "update_first (\<lambda>x. layer_Kind x = layer_Kind l) (\<lambda>_. l) (scene_Layers s)"
  have "SetLayer s l = Inr (s\<lparr>scene_Layers := ?ls\<rparr>)"
    using True i update_first_index [OF i, of "\<lambda>_. l"] by (simp add: SetLayer_def validateLayerKind_def)
  moreover have "find_by layer_Kind (layer_Kind l) (update_first (\<lambda>x. layer_Kind x = layer_Kind l) (\<lambda>_. l) xs) = Some l"
    if "layer_Kind l \<in> layer_Kind ` set xs" for xs
    using that by (induction xs) auto
  moreover have "find_by layer_Kind k (update_first (\<lambda>x. layer_Kind x = layer_Kind l) (\<lambda>_. l) xs) = find_by layer_Kind k xs"
    if "k \<noteq> layer_Kind l" for k xs
    using that by (induction xs) auto
  ultimately show ?thesis using wf ex by (simp add: layers_wf_def LayerByKind_def update_first_keys)
qed

definition demo_scene :: Scene where
  "demo_scene = \<lparr>scene_ID = 1, scene_Name = ''intro'', scene_Active = True, scene_BarsPerLoop = 4,
     scene_PreservePosition = False, scene_Layers = newLayers\<rparr>"

theorem SetLayer_replaces_slot_witness:
  "\<exists>s'. SetLayer demo_scene (\<lparr>layer_Kind = ChaseLayer, layer_Enabled = True, layer_Selection = emptySelection, layer_Ref = 3\<rparr>) = Inr s' \<and>
     layers_wf s' \<and> LayerByKind s' MotionLayer = LayerByKind demo_scene MotionLayer"
proof -
  let ?l = "\<lparr>layer_Kind = ChaseLayer, layer_Enabled = True, layer_Selection = emptySelection, layer_Ref = 3\<rparr> :: Layer"
  have wf: "layers_wf demo_scene" by code_simp
  have "is_ok (SetLayer demo_scene ?l)" by code_simp
  then obtain s' where "SetLayer demo_scene ?l = Inr s'" by (cases "SetLayer demo_scene ?l") auto
  then show ?thesis using SetLayer_replaces_slot [OF wf, of ?l] by simp
qed

section \<open>References\<close>

text \<open>
  Deleting a programming object together with scrubbing the layers that play it keeps every
  layer reference resolved, for each of the four layer kinds (presets for base looks, themes,
  chases and motion presets); layers that do not play the object are not touched.
\<close>
theorem delete_and_scrub_keeps_references:
  assumes "ValidateLayerReferences ss ts ps cs ms = None"
  shows "ValidateLayerReferences (ScrubLayerRef ss BaseLook i) ts (filter (\<lambda>p. preset_ID p \<noteq> i) ps) cs ms = None \<and>
    ValidateLayerReferences (ScrubLayerRef ss ColorThemeLayer i) (filter (\<lambda>t. theme_ID t \<noteq> i) ts) ps cs ms = None \<and>
    ValidateLayerReferences (ScrubLayerRef ss ChaseLayer i) ts ps (filter (\<lambda>c. chase_ID c \<noteq> i) cs) ms = None \<and>
    ValidateLayerReferences (ScrubLayerRef ss MotionLayer i) ts ps cs (filter (\<lambda>m. motion_ID m \<noteq> i) ms) = None \<and>
    (\<forall>k s. s \<in> set ss \<and> (\<forall>l\<in>set (scene_Layers s). layer_Kind l \<noteq> k \<or> layer_Ref l \<noteq> i) \<longrightarrow> s \<in> set (ScrubLayerRef ss k i))"
proof -
  have old: "checkLayerReference ts ps cs ms l = None" if "s \<in> set ss" "l \<in> set (scene_Layers s)" for s l
    using assms that by (simp add: ValidateLayerReferences_def)
  have "checkLayerReference ts (filter (\<lambda>p. preset_ID p \<noteq> i) ps) cs ms (scrubLayerSlot BaseLook i l) = None"
    "checkLayerReference (filter (\<lambda>t. theme_ID t \<noteq> i) ts) ps cs ms (scrubLayerSlot ColorThemeLayer i l) = None"
    "checkLayerReference ts ps (filter (\<lambda>c. chase_ID c \<noteq> i) cs) ms (scrubLayerSlot ChaseLayer i l) = None"
    "checkLayerReference ts ps cs (filter (\<lambda>m. motion_ID m \<noteq> i) ms) (scrubLayerSlot MotionLayer i l) = None"
    if "checkLayerReference ts ps cs ms l = None" for l
    using that by (auto simp: scrubLayerSlot_def checkLayerReference_def Let_def image_iff split: if_splits)
  note slots = this [OF old]
  have "ValidateLayerReferences (ScrubLayerRef ss BaseLook i) ts (filter (\<lambda>p. preset_ID p \<noteq> i) ps) cs ms = None"
    "ValidateLayerReferences (ScrubLayerRef ss ColorThemeLayer i) (filter (\<lambda>t. theme_ID t \<noteq> i) ts) ps cs ms = None"
    "ValidateLayerReferences (ScrubLayerRef ss ChaseLayer i) ts ps (filter (\<lambda>c. chase_ID c \<noteq> i) cs) ms = None"
    "ValidateLayerReferences (ScrubLayerRef ss MotionLayer i) ts ps cs (filter (\<lambda>m. motion_ID m \<noteq> i) ms) = None"
    by (simp_all add: ValidateLayerReferences_def ScrubLayerRef_def slots)
  moreover have "s \<in> set (ScrubLayerRef ss k i)"
    if "s \<in> set ss" "\<forall>l\<in>set (scene_Layers s). layer_Kind l \<noteq> k \<or> layer_Ref l \<noteq> i" for k s
  proof -
    have "map (scrubLayerSlot k i) (scene_Layers s) = scene_Layers s"
      using that(2) by (intro map_idI) (auto simp: scrubLayerSlot_def)
    then have "s\<lparr>scene_Layers := map (scrubLayerSlot k i) (scene_Layers s)\<rparr> = s" by simp
    then show ?thesis using that(1) by (auto simp: ScrubLayerRef_def intro!: rev_image_eqI)
  qed
  ultimately show ?thesis by blast
qed

definition demo_themes :: "Theme list" where
  "demo_themes = [\<lparr>theme_ID = 8, theme_Name = ''red'', theme_Colors = []\<rparr>]"

definition demo_themed_scene :: Scene where
  "demo_themed_scene = demo_scene\<lparr>scene_Layers :=
     (newLayers)[1 := \<lparr>layer_Kind = ColorThemeLayer, layer_Enabled = True, layer_Selection = emptySelection, layer_Ref = 8\<rparr>]\<rparr>"

theorem delete_and_scrub_keeps_references_witness:
  "ValidateLayerReferences [demo_themed_scene] demo_themes [] [] [] = None \<and>
   ValidateLayerReferences (ScrubLayerRef [demo_themed_scene] ColorThemeLayer 8)
     (filter (\<lambda>t. theme_ID t \<noteq> 8) demo_themes) [] [] [] = None"
proof -
  have v: "ValidateLayerReferences [demo_themed_scene] demo_themes [] [] [] = None" by code_simp
  then show ?thesis using delete_and_scrub_keeps_references [OF v, of 8] by blast
qed

text \<open>
  Activating a scene by name, in a show whose scene names are unique, leaves exactly that
  scene active and changes nothing else about any scene; an unknown name is an error, and
  activating a second scene afterwards is the same as activating it directly.
\<close>
theorem ActivateScene_single_active:
  assumes "ValidateSceneUniqueNames ss = None" "ActivateScene ss nm = Inr ss'"
  shows "ValidateSingleActiveScene ss' = None \<and> (\<exists>!s. s \<in> set ss' \<and> scene_Active s) \<and>
    (\<forall>s\<in>set ss'. scene_Active s \<longleftrightarrow> scene_Name s = nm) \<and>
    map (\<lambda>s. s\<lparr>scene_Active := False\<rparr>) ss' = map (\<lambda>s. s\<lparr>scene_Active := False\<rparr>) ss \<and>
    (\<forall>m ss''. ActivateScene ss' m = Inr ss'' \<longrightarrow> ActivateScene ss m = Inr ss'')"
proof -
  have "distinct (map scene_Name ss)" using assms(1) scene.unique_iff by blast
  moreover have "ss' = map (\<lambda>s. s\<lparr>scene_Active := (scene_Name s = nm)\<rparr>) ss"
    using scene_act.activate_InrD [OF assms(2)] by simp
  ultimately show ?thesis
    using scene_act.activate_single [OF _ assms(2)] scene_act.activate_again [OF assms(2)] by auto
qed

theorem ActivateScene_single_active_witness:
  "\<exists>ss'. ActivateScene [demo_scene, demo_themed_scene\<lparr>scene_Name := ''drop''\<rparr>] ''drop'' = Inr ss' \<and>
     (\<exists>!s. s \<in> set ss' \<and> scene_Active s)"
proof -
  let ?ss = "[demo_scene, demo_themed_scene\<lparr>scene_Name := ''drop''\<rparr>]"
  have u: "ValidateSceneUniqueNames ?ss = None" by code_simp
  have "is_ok (ActivateScene ?ss ''drop'')" by code_simp
  then obtain ss' where "ActivateScene ?ss ''drop'' = Inr ss'" by (cases "ActivateScene ?ss ''drop''") auto
  then show ?thesis using ActivateScene_single_active [OF u] by blast
qed

section \<open>Layer precedence\<close>

text \<open>What one layer kind contributes to one capability: nothing when absent or disabled.\<close>
definition layer_touch :: "LayerContribution list \<Rightarrow> LayerKind \<Rightarrow> AttributeSet" where
  "layer_touch cs kind c =
     (case find_by lc_Kind kind (rev cs) of
        None \<Rightarrow> None
      | Some l \<Rightarrow> if lc_Enabled l then lc_Attributes l c else None)"

lemma Overlay_simps [simp]: "Overlay a Map.empty = a" "Overlay Map.empty a = a"
  by (auto simp: Overlay_def fun_eq_iff split: option.splits)

lemma Overlay_assoc: "Overlay (Overlay a b) c = Overlay a (Overlay b c)"
  by (auto simp: Overlay_def fun_eq_iff split: option.splits)

lemma ReduceLayers_fold:
  "ReduceLayers cs = fold (\<lambda>kind acc. Overlay acc (layer_touch cs kind)) layerPriority Map.empty"
proof -
  have "(case find_by lc_Kind kind (rev cs) of None \<Rightarrow> acc
      | Some c \<Rightarrow> if lc_Enabled c then Overlay acc (lc_Attributes c) else acc) =
    Overlay acc (layer_touch cs kind)" for kind acc
    by (auto simp: layer_touch_def [abs_def] Overlay_def fun_eq_iff split: option.splits)
  then show ?thesis by (simp add: ReduceLayers_def)
qed

text \<open>
  Layer precedence is the fixed order and nothing else.  \<open>ReduceLayers\<close> gives a capability
  the value of the highest-priority enabled layer that touches it (motion over chase over
  colour theme over base look), whatever the values are; a disabled or absent layer
  contributes nothing.
\<close>
theorem ReduceLayers_precedence:
  "ReduceLayers cs c =
     (case layer_touch cs MotionLayer c of Some v \<Rightarrow> Some v | None \<Rightarrow>
      case layer_touch cs ChaseLayer c of Some v \<Rightarrow> Some v | None \<Rightarrow>
      case layer_touch cs ColorThemeLayer c of Some v \<Rightarrow> Some v | None \<Rightarrow>
      layer_touch cs BaseLook c)"
  by (simp add: ReduceLayers_fold layerPriority_def Overlay_def split: option.splits)

end
