(* ===== verification/OperatorSurface.thy ===== *)
theory OperatorSurface
  imports Scene
begin

text \<open>
  \<open>src/internal/operatorsurface\<close> (constrained operator surfaces: \<open>model.go\<close>, \<open>validate.go\<close>,
  \<open>scrub.go\<close>) and \<open>src/internal/deskmidi\<close> (show-global MIDI mappings onto desk faders).  The
  assignment sets share the contract \<open>assignment_set\<close>, the two MIDI mapping collections the
  contract \<open>binding_set\<close>.
\<close>

section \<open>operatorsurface/model.go\<close>

type_synonym MasterKind = string
abbreviation GrandMaster :: MasterKind where "GrandMaster \<equiv> ''grand_master''"
abbreviation GroupMaster :: MasterKind where "GroupMaster \<equiv> ''group_master''"

type_synonym SafetyControl = string
type_synonym MidiMessageKind = string

record LayerRef =
  lref_SceneID :: uuid
  lref_Kind :: LayerKind

record MasterRef =
  mref_Kind :: MasterKind
  mref_GroupID :: uuid

type_synonym ControlKind = string
abbreviation ControlScene :: ControlKind where "ControlScene \<equiv> ''scene''"
abbreviation ControlLayer :: ControlKind where "ControlLayer \<equiv> ''layer''"
abbreviation ControlMaster :: ControlKind where "ControlMaster \<equiv> ''master''"
abbreviation ControlSafety :: ControlKind where "ControlSafety \<equiv> ''safety''"

record ControlRef =
  ctl_Kind :: ControlKind
  ctl_Scene :: uuid
  ctl_Layer :: LayerRef
  ctl_Master :: MasterRef
  ctl_Safety :: SafetyControl

definition zeroControl :: ControlRef where
  "zeroControl = \<lparr>ctl_Kind = [], ctl_Scene = uuid_nil, ctl_Layer = \<lparr>lref_SceneID = uuid_nil, lref_Kind = []\<rparr>,
     ctl_Master = \<lparr>mref_Kind = [], mref_GroupID = uuid_nil\<rparr>, ctl_Safety = []\<rparr>"

definition SceneControlRef :: "uuid \<Rightarrow> ControlRef" where
  "SceneControlRef i = zeroControl\<lparr>ctl_Kind := ControlScene, ctl_Scene := i\<rparr>"

definition LayerControlRef :: "LayerRef \<Rightarrow> ControlRef" where
  "LayerControlRef r = zeroControl\<lparr>ctl_Kind := ControlLayer, ctl_Layer := r\<rparr>"

definition MasterControlRef :: "MasterRef \<Rightarrow> ControlRef" where
  "MasterControlRef r = zeroControl\<lparr>ctl_Kind := ControlMaster, ctl_Master := r\<rparr>"

definition SafetyControlRef :: "SafetyControl \<Rightarrow> ControlRef" where
  "SafetyControlRef s = zeroControl\<lparr>ctl_Kind := ControlSafety, ctl_Safety := s\<rparr>"

definition layerRefEqual :: "LayerRef \<Rightarrow> LayerRef \<Rightarrow> bool" where
  "layerRefEqual a b = (lref_SceneID a = lref_SceneID b \<and> lref_Kind a = lref_Kind b)"

definition masterRefEqual :: "MasterRef \<Rightarrow> MasterRef \<Rightarrow> bool" where
  "masterRefEqual a b = (mref_Kind a = mref_Kind b \<and> mref_GroupID a = mref_GroupID b)"

definition ControlRefEqual :: "ControlRef \<Rightarrow> ControlRef \<Rightarrow> bool" where
  "ControlRefEqual a b =
     (if ctl_Kind a \<noteq> ctl_Kind b then False
      else if ctl_Kind a = ControlScene then ctl_Scene a = ctl_Scene b
      else if ctl_Kind a = ControlLayer then layerRefEqual (ctl_Layer a) (ctl_Layer b)
      else if ctl_Kind a = ControlMaster then masterRefEqual (ctl_Master a) (ctl_Master b)
      else if ctl_Kind a = ControlSafety then ctl_Safety a = ctl_Safety b
      else False)"

record MidiMapping =
  midi_ID :: uuid
  midi_Channel :: int
  midi_Kind :: MidiMessageKind
  midi_Number :: int
  midi_Target :: ControlRef

record Surface =
  surf_ID :: uuid
  surf_Name :: string
  surf_SceneRefs :: "uuid list"
  surf_LayerRefs :: "LayerRef list"
  surf_MasterRefs :: "MasterRef list"
  surf_SafetyRefs :: "SafetyControl list"
  surf_MidiMappings :: "MidiMapping list"

definition NewSurface :: "uuid option \<Rightarrow> string \<Rightarrow> Surface result" where
  "NewSurface mint nm =
     (if trim_space nm = [] then Inl (Code ''GOLC_OPERATORSURFACE_NAME_EMPTY'')
      else case mint of
          None \<Rightarrow> Inl (Code ''GOLC_OPERATORSURFACE_ID_MINT_FAILED'')
        | Some i \<Rightarrow> Inr \<lparr>surf_ID = i, surf_Name = nm, surf_SceneRefs = [], surf_LayerRefs = [],
                         surf_MasterRefs = [], surf_SafetyRefs = [], surf_MidiMappings = []\<rparr>)"

definition RenameSurface :: "Surface \<Rightarrow> string \<Rightarrow> Surface result" where
  "RenameSurface s newName =
     (if trim_space newName = [] then Inl (Code ''GOLC_OPERATORSURFACE_NAME_EMPTY'')
      else Inr (s\<lparr>surf_Name := newName\<rparr>))"

definition AssignScene :: "Surface \<Rightarrow> uuid \<Rightarrow> Surface" where
  "AssignScene s i =
     (if i \<in> set (surf_SceneRefs s) then s else s\<lparr>surf_SceneRefs := surf_SceneRefs s @ [i]\<rparr>)"

definition UnassignScene :: "Surface \<Rightarrow> uuid \<Rightarrow> Surface" where
  "UnassignScene s i = s\<lparr>surf_SceneRefs := filter (\<lambda>x. x \<noteq> i) (surf_SceneRefs s)\<rparr>"

definition AssignLayer :: "Surface \<Rightarrow> LayerRef \<Rightarrow> Surface" where
  "AssignLayer s r =
     (if \<exists>x\<in>set (surf_LayerRefs s). layerRefEqual x r then s
      else s\<lparr>surf_LayerRefs := surf_LayerRefs s @ [r]\<rparr>)"

definition UnassignLayer :: "Surface \<Rightarrow> LayerRef \<Rightarrow> Surface" where
  "UnassignLayer s r = s\<lparr>surf_LayerRefs := filter (\<lambda>x. \<not> layerRefEqual x r) (surf_LayerRefs s)\<rparr>"

definition AssignMaster :: "Surface \<Rightarrow> MasterRef \<Rightarrow> Surface" where
  "AssignMaster s r =
     (if \<exists>x\<in>set (surf_MasterRefs s). masterRefEqual x r then s
      else s\<lparr>surf_MasterRefs := surf_MasterRefs s @ [r]\<rparr>)"

definition UnassignMaster :: "Surface \<Rightarrow> MasterRef \<Rightarrow> Surface" where
  "UnassignMaster s r = s\<lparr>surf_MasterRefs := filter (\<lambda>x. \<not> masterRefEqual x r) (surf_MasterRefs s)\<rparr>"

definition AssignSafety :: "Surface \<Rightarrow> SafetyControl \<Rightarrow> Surface" where
  "AssignSafety s c =
     (if c \<in> set (surf_SafetyRefs s) then s else s\<lparr>surf_SafetyRefs := surf_SafetyRefs s @ [c]\<rparr>)"

definition UnassignSafety :: "Surface \<Rightarrow> SafetyControl \<Rightarrow> Surface" where
  "UnassignSafety s c = s\<lparr>surf_SafetyRefs := filter (\<lambda>x. x \<noteq> c) (surf_SafetyRefs s)\<rparr>"

definition AddMidiMapping :: "uuid option \<Rightarrow> Surface \<Rightarrow> MidiMapping \<Rightarrow> Surface result" where
  "AddMidiMapping mint s candidate =
     (if \<exists>x\<in>set (surf_MidiMappings s). midi_Channel x = midi_Channel candidate \<and>
           midi_Kind x = midi_Kind candidate \<and> midi_Number x = midi_Number candidate
      then Inl (Code ''GOLC_OPERATORSURFACE_MIDI_CONFLICT'')
      else case mint of
          None \<Rightarrow> Inl (Code ''GOLC_OPERATORSURFACE_ID_MINT_FAILED'')
        | Some i \<Rightarrow> Inr (s\<lparr>surf_MidiMappings := surf_MidiMappings s @ [candidate\<lparr>midi_ID := i\<rparr>]\<rparr>))"

definition RemoveMidiMapping :: "Surface \<Rightarrow> uuid \<Rightarrow> Surface" where
  "RemoveMidiMapping s i = s\<lparr>surf_MidiMappings := filter (\<lambda>m. midi_ID m \<noteq> i) (surf_MidiMappings s)\<rparr>"

definition IsAssigned :: "Surface \<Rightarrow> ControlRef \<Rightarrow> bool" where
  "IsAssigned s ref =
     (if ctl_Kind ref = ControlScene then ctl_Scene ref \<in> set (surf_SceneRefs s)
      else if ctl_Kind ref = ControlLayer then \<exists>x\<in>set (surf_LayerRefs s). layerRefEqual x (ctl_Layer ref)
      else if ctl_Kind ref = ControlMaster then \<exists>x\<in>set (surf_MasterRefs s). masterRefEqual x (ctl_Master ref)
      else if ctl_Kind ref = ControlSafety then ctl_Safety ref \<in> set (surf_SafetyRefs s)
      else False)"

definition ValidateUniqueSurfaceNames :: "Surface list \<Rightarrow> golc_error option" where
  "ValidateUniqueSurfaceNames ss =
     unique_keys (Code ''GOLC_OPERATORSURFACE_DUPLICATE_NAME'') surf_Name {} ss"

section \<open>operatorsurface/validate.go and scrub.go\<close>

text \<open>The \<open>sceneLayerKinds\<close> lookup; a later scene with the same identity overwrites.\<close>
definition sceneLayerKinds :: "Scene list \<Rightarrow> uuid \<Rightarrow> LayerKind set option" where
  "sceneLayerKinds scenes i =
     map_option (\<lambda>s. layer_Kind ` set (scene_Layers s)) (find_by scene_ID i (rev scenes))"

definition checkSurface :: "Scene list \<Rightarrow> Group list \<Rightarrow> Surface \<Rightarrow> golc_error option" where
  "checkSurface scenes groups s =
     (let dangle = Some (Code ''GOLC_OPERATORSURFACE_DANGLING_REFERENCE'') in
      err_seq (first_err (\<lambda>i. if i \<in> scene_ID ` set scenes then None else dangle) (surf_SceneRefs s))
     (err_seq (first_err (\<lambda>r. case sceneLayerKinds scenes (lref_SceneID r) of
                    None \<Rightarrow> dangle
                  | Some kinds \<Rightarrow> if lref_Kind r \<in> kinds then None else dangle) (surf_LayerRefs s))
        (first_err (\<lambda>r. if mref_Kind r = GroupMaster \<and> mref_GroupID r \<notin> group_ID ` set groups
                        then dangle else None) (surf_MasterRefs s))))"

definition ValidateSurfaces :: "Surface list \<Rightarrow> Scene list \<Rightarrow> Group list \<Rightarrow> golc_error option" where
  "ValidateSurfaces surfaces scenes groups =
     err_seq (ValidateUniqueSurfaceNames surfaces) (first_err (checkSurface scenes groups) surfaces)"

definition ScrubSceneReferences :: "Surface list \<Rightarrow> uuid \<Rightarrow> Surface list" where
  "ScrubSceneReferences surfaces sceneID =
     map (\<lambda>s. let s' = UnassignScene s sceneID in
              s'\<lparr>surf_LayerRefs := filter (\<lambda>r. lref_SceneID r \<noteq> sceneID) (surf_LayerRefs s')\<rparr>) surfaces"

section \<open>deskmidi\<close>

record Mapping =
  map_ID :: uuid
  map_Channel :: int
  map_Kind :: MidiMessageKind
  map_Number :: int
  map_InstanceID :: string
  map_Capability :: string

definition AddMapping :: "uuid option \<Rightarrow> Mapping list \<Rightarrow> Mapping \<Rightarrow> Mapping list result" where
  "AddMapping mint existing candidate =
     (if \<exists>m\<in>set existing. map_Channel m = map_Channel candidate \<and> map_Kind m = map_Kind candidate \<and>
           map_Number m = map_Number candidate
      then Inl (Code ''GOLC_DESKMIDI_MAPPING_CONFLICT'')
      else case mint of
          None \<Rightarrow> Inl (Code ''GOLC_DESKMIDI_ID_MINT_FAILED'')
        | Some i \<Rightarrow> Inr (existing @ [candidate\<lparr>map_ID := i\<rparr>]))"

definition RemoveMapping :: "Mapping list \<Rightarrow> uuid \<Rightarrow> Mapping list" where
  "RemoveMapping existing i = filter (\<lambda>m. map_ID m \<noteq> i) existing"

text \<open>\<open>uuid.UUID.String\<close> is an argument: instance identities are compared in their text form.\<close>
definition ScrubDanglingMappings :: "(uuid \<Rightarrow> string) \<Rightarrow> Mapping list \<Rightarrow> Deployment list \<Rightarrow> Mapping list" where
  "ScrubDanglingMappings uuid_str mappings deployments =
     filter (\<lambda>m. \<exists>d\<in>set deployments. \<exists>i\<in>set (dep_Instances d). uuid_str (inst_ID i) = map_InstanceID m) mappings"

definition ValidateMappings ::
  "(uuid \<Rightarrow> string) \<Rightarrow> (string \<Rightarrow> bool) \<Rightarrow> Mapping list \<Rightarrow> Deployment list \<Rightarrow> golc_error option" where
  "ValidateMappings uuid_str uuid_ok mappings deployments =
     err_seq (unique_keys (Code ''GOLC_DESKMIDI_DUPLICATE_MAPPING'')
                (\<lambda>m. (map_Channel m, map_Kind m, map_Number m)) {} mappings)
       (first_err (\<lambda>m.
          if \<not> uuid_ok (map_InstanceID m) then Some (Code ''GOLC_DESKMIDI_INSTANCE_ID_INVALID'')
          else if \<exists>d\<in>set deployments. \<exists>i\<in>set (dep_Instances d). uuid_str (inst_ID i) = map_InstanceID m
          then None
          else Some (Code ''GOLC_DESKMIDI_DANGLING_REFERENCE'')) mappings)"

section \<open>The contract of an assignment set\<close>

locale assignment_set =
  fixes refs :: "'s \<Rightarrow> 'r list"
    and set_refs :: "'r list \<Rightarrow> 's \<Rightarrow> 's"
    and assign unassign :: "'s \<Rightarrow> 'r \<Rightarrow> 's"
  assumes refs_set [simp]: "refs (set_refs rs s) = rs"
    and set_refs_same: "set_refs (refs s) s = s"
    and assign_def: "assign s r = (if r \<in> set (refs s) then s else set_refs (refs s @ [r]) s)"
    and unassign_def: "unassign s r = set_refs (filter (\<lambda>x. x \<noteq> r) (refs s)) s"
begin

lemma member_assign: "x \<in> set (refs (assign s r)) \<longleftrightarrow> x = r \<or> x \<in> set (refs s)"
  by (auto simp: assign_def)

lemma member_unassign: "x \<in> set (refs (unassign s r)) \<longleftrightarrow> x \<noteq> r \<and> x \<in> set (refs s)"
  by (auto simp: unassign_def)

lemma assign_idem: "assign (assign s r) r = assign s r"
  by (simp add: assign_def)

lemma assign_distinct: "distinct (refs s) \<Longrightarrow> distinct (refs (assign s r))"
  by (simp add: assign_def)

lemma unassign_absent:
  assumes "r \<notin> set (refs s)"
  shows "unassign s r = s"
proof -
  have "filter (\<lambda>x. x \<noteq> r) (refs s) = refs s" using assms by (auto simp: filter_id_conv)
  then show ?thesis by (simp add: unassign_def set_refs_same)
qed

end

lemma layerRefEqual_iff [simp]: "layerRefEqual a b \<longleftrightarrow> a = b"
  by (cases a; cases b) (auto simp: layerRefEqual_def)

lemma masterRefEqual_iff [simp]: "masterRefEqual a b \<longleftrightarrow> a = b"
  by (cases a; cases b) (auto simp: masterRefEqual_def)

interpretation scene_refs: assignment_set surf_SceneRefs "\<lambda>rs. surf_SceneRefs_update (\<lambda>_. rs)" AssignScene UnassignScene
  by unfold_locales (auto simp: AssignScene_def UnassignScene_def)

interpretation layer_refs: assignment_set surf_LayerRefs "\<lambda>rs. surf_LayerRefs_update (\<lambda>_. rs)" AssignLayer UnassignLayer
  by unfold_locales (auto simp: AssignLayer_def UnassignLayer_def)

interpretation master_refs: assignment_set surf_MasterRefs "\<lambda>rs. surf_MasterRefs_update (\<lambda>_. rs)" AssignMaster UnassignMaster
  by unfold_locales (auto simp: AssignMaster_def UnassignMaster_def)

interpretation safety_refs: assignment_set surf_SafetyRefs "\<lambda>rs. surf_SafetyRefs_update (\<lambda>_. rs)" AssignSafety UnassignSafety
  by unfold_locales (auto simp: AssignSafety_def UnassignSafety_def)

interpretation surface: named_object surf_ID surf_Name RenameSurface ValidateUniqueSurfaceNames
  by unfold_locales (auto simp: RenameSurface_def ValidateUniqueSurfaceNames_def split: if_splits)

lemma assign_frames [simp]:
  "surf_LayerRefs (AssignScene s i) = surf_LayerRefs s" "surf_MasterRefs (AssignScene s i) = surf_MasterRefs s"
  "surf_SafetyRefs (AssignScene s i) = surf_SafetyRefs s"
  "surf_SceneRefs (AssignLayer s l) = surf_SceneRefs s" "surf_MasterRefs (AssignLayer s l) = surf_MasterRefs s"
  "surf_SafetyRefs (AssignLayer s l) = surf_SafetyRefs s"
  "surf_SceneRefs (AssignMaster s m) = surf_SceneRefs s" "surf_LayerRefs (AssignMaster s m) = surf_LayerRefs s"
  "surf_SafetyRefs (AssignMaster s m) = surf_SafetyRefs s"
  "surf_SceneRefs (AssignSafety s c) = surf_SceneRefs s" "surf_LayerRefs (AssignSafety s c) = surf_LayerRefs s"
  "surf_MasterRefs (AssignSafety s c) = surf_MasterRefs s"
  by (simp_all add: AssignScene_def AssignLayer_def AssignMaster_def AssignSafety_def)

lemma unassign_frames [simp]:
  "surf_LayerRefs (UnassignScene s i) = surf_LayerRefs s" "surf_MasterRefs (UnassignScene s i) = surf_MasterRefs s"
  "surf_SafetyRefs (UnassignScene s i) = surf_SafetyRefs s"
  "surf_SceneRefs (UnassignLayer s l) = surf_SceneRefs s" "surf_MasterRefs (UnassignLayer s l) = surf_MasterRefs s"
  "surf_SafetyRefs (UnassignLayer s l) = surf_SafetyRefs s"
  "surf_SceneRefs (UnassignMaster s m) = surf_SceneRefs s" "surf_LayerRefs (UnassignMaster s m) = surf_LayerRefs s"
  "surf_SafetyRefs (UnassignMaster s m) = surf_SafetyRefs s"
  "surf_SceneRefs (UnassignSafety s c) = surf_SceneRefs s" "surf_LayerRefs (UnassignSafety s c) = surf_LayerRefs s"
  "surf_MasterRefs (UnassignSafety s c) = surf_MasterRefs s"
  by (simp_all add: UnassignScene_def UnassignLayer_def UnassignMaster_def UnassignSafety_def)

lemmas control_defs = IsAssigned_def ControlRefEqual_def SceneControlRef_def LayerControlRef_def
  MasterControlRef_def SafetyControlRef_def zeroControl_def

lemmas member_assigns =
  scene_refs.member_assign layer_refs.member_assign master_refs.member_assign safety_refs.member_assign
  scene_refs.member_unassign layer_refs.member_unassign master_refs.member_unassign safety_refs.member_unassign

text \<open>
  The server-side lock is exact.  After any assign or unassign, the set of controls a surface
  may drive changes by exactly the named control and by no other control of any kind.
\<close>
theorem IsAssigned_tracks_assignments:
  "(IsAssigned (AssignScene s i) c \<longleftrightarrow> IsAssigned s c \<or> ControlRefEqual c (SceneControlRef i)) \<and>
   (IsAssigned (AssignLayer s l) c \<longleftrightarrow> IsAssigned s c \<or> ControlRefEqual c (LayerControlRef l)) \<and>
   (IsAssigned (AssignMaster s m) c \<longleftrightarrow> IsAssigned s c \<or> ControlRefEqual c (MasterControlRef m)) \<and>
   (IsAssigned (AssignSafety s f) c \<longleftrightarrow> IsAssigned s c \<or> ControlRefEqual c (SafetyControlRef f)) \<and>
   (IsAssigned (UnassignScene s i) c \<longleftrightarrow> IsAssigned s c \<and> \<not> ControlRefEqual c (SceneControlRef i)) \<and>
   (IsAssigned (UnassignLayer s l) c \<longleftrightarrow> IsAssigned s c \<and> \<not> ControlRefEqual c (LayerControlRef l)) \<and>
   (IsAssigned (UnassignMaster s m) c \<longleftrightarrow> IsAssigned s c \<and> \<not> ControlRefEqual c (MasterControlRef m)) \<and>
   (IsAssigned (UnassignSafety s f) c \<longleftrightarrow> IsAssigned s c \<and> \<not> ControlRefEqual c (SafetyControlRef f))"
  by (auto simp: control_defs member_assigns)

section \<open>The contract of a set of MIDI bindings\<close>

locale binding_set =
  fixes bindings :: "'c \<Rightarrow> 'b list"
    and key :: "'b \<Rightarrow> 'k"
    and ident :: "'b \<Rightarrow> uuid"
    and set_ident :: "uuid \<Rightarrow> 'b \<Rightarrow> 'b"
    and add :: "uuid option \<Rightarrow> 'c \<Rightarrow> 'b \<Rightarrow> 'c result"
    and remove :: "'c \<Rightarrow> uuid \<Rightarrow> 'c"
  assumes key_ident: "key (set_ident i b) = key b"
    and ident_ident: "ident (set_ident i b) = i"
    and add_conflict: "key b \<in> key ` set (bindings c) \<Longrightarrow> \<not> is_ok (add mint c b)"
    and add_no_mint: "\<not> is_ok (add None c b)"
    and add_fresh: "key b \<notin> key ` set (bindings c) \<Longrightarrow>
      \<exists>c'. add (Some i) c b = Inr c' \<and> bindings c' = bindings c @ [set_ident i b]"
    and bindings_remove: "bindings (remove c i) = filter (\<lambda>b. ident b \<noteq> i) (bindings c)"
begin

lemma add_InrD:
  assumes "add mint c b = Inr c'"
  obtains i where "mint = Some i" "key b \<notin> key ` set (bindings c)" "bindings c' = bindings c @ [set_ident i b]"
proof -
  obtain i where i: "mint = Some i" using assms add_no_mint [of c b] by (cases mint) auto
  moreover have new: "key b \<notin> key ` set (bindings c)" using assms add_conflict [of b c mint] by auto
  moreover have "bindings c' = bindings c @ [set_ident i b]" using add_fresh [OF new, of i] assms i by auto
  ultimately show ?thesis using that by blast
qed

lemma add_keeps_unique:
  assumes "distinct (map key (bindings c))" "add mint c b = Inr c'"
  shows "distinct (map key (bindings c'))"
  by (rule add_InrD [OF assms(2)]) (use assms(1) in \<open>auto simp: key_ident\<close>)

lemma add_keeps_old: "add mint c b = Inr c' \<Longrightarrow> set (bindings c) \<subseteq> set (bindings c')"
  by (erule add_InrD) auto

lemma remove_keeps_unique: "distinct (map key (bindings c)) \<Longrightarrow> distinct (map key (bindings (remove c i)))"
  by (simp add: bindings_remove distinct_map_filter)

lemma remove_undoes_add:
  assumes "add (Some i) c b = Inr c'" "i \<notin> ident ` set (bindings c)"
  shows "bindings (remove c' i) = bindings c"
proof (rule add_InrD [OF assms(1)])
  fix j assume "Some i = Some j" "bindings c' = bindings c @ [set_ident j b]"
  moreover have "filter (\<lambda>b. ident b \<noteq> i) (bindings c) = bindings c"
    using assms(2) by (auto simp: filter_id_conv)
  ultimately show ?thesis by (simp add: bindings_remove ident_ident)
qed

end

definition midi_key :: "MidiMapping \<Rightarrow> int \<times> MidiMessageKind \<times> int" where
  "midi_key m = (midi_Channel m, midi_Kind m, midi_Number m)"

definition map_key :: "Mapping \<Rightarrow> int \<times> MidiMessageKind \<times> int" where
  "map_key m = (map_Channel m, map_Kind m, map_Number m)"

lemma midi_conflict_iff:
  "(\<exists>x\<in>set xs. midi_Channel x = midi_Channel c \<and> midi_Kind x = midi_Kind c \<and> midi_Number x = midi_Number c) \<longleftrightarrow>
   midi_key c \<in> midi_key ` set xs"
  by (simp add: midi_key_def image_iff Bex_def) metis

lemma map_conflict_iff:
  "(\<exists>x\<in>set xs. map_Channel x = map_Channel c \<and> map_Kind x = map_Kind c \<and> map_Number x = map_Number c) \<longleftrightarrow>
   map_key c \<in> map_key ` set xs"
  by (simp add: map_key_def image_iff Bex_def) metis

lemmas add_mapping_defs = AddMidiMapping_def [unfolded midi_conflict_iff] AddMapping_def [unfolded map_conflict_iff]

interpretation surface_midi: binding_set surf_MidiMappings midi_key midi_ID "\<lambda>i. midi_ID_update (\<lambda>_. i)"
  AddMidiMapping RemoveMidiMapping
proof (unfold_locales, goal_cases)
  case (1 i b)
  show ?case by (simp add: midi_key_def)
qed (simp_all add: add_mapping_defs RemoveMidiMapping_def)

interpretation desk_midi: binding_set "\<lambda>ms. ms" map_key map_ID "\<lambda>i. map_ID_update (\<lambda>_. i)"
  AddMapping RemoveMapping
proof (unfold_locales, goal_cases)
  case (1 i b)
  show ?case by (simp add: map_key_def)
qed (simp_all add: add_mapping_defs RemoveMapping_def)

text \<open>
  MIDI learn never overwrites.  On a surface and in the show-global desk mappings alike,
  adding a mapping keeps the (channel, kind, number) triples pairwise different and keeps every
  existing mapping, and removing the mapping that was just added (its identity being fresh)
  restores the mappings exactly.
\<close>
theorem midi_mappings_unique:
  "(distinct (map midi_key (surf_MidiMappings s)) \<and> AddMidiMapping mint s b = Inr s' \<longrightarrow>
     distinct (map midi_key (surf_MidiMappings s')) \<and> set (surf_MidiMappings s) \<subseteq> set (surf_MidiMappings s')) \<and>
   (distinct (map map_key ms) \<and> AddMapping mint ms d = Inr ms' \<longrightarrow>
     distinct (map map_key ms') \<and> set ms \<subseteq> set ms') \<and>
   (AddMidiMapping (Some i) s b = Inr s' \<and> i \<notin> midi_ID ` set (surf_MidiMappings s) \<longrightarrow>
     surf_MidiMappings (RemoveMidiMapping s' i) = surf_MidiMappings s) \<and>
   (AddMapping (Some i) ms d = Inr ms' \<and> i \<notin> map_ID ` set ms \<longrightarrow> RemoveMapping ms' i = ms)"
  by (intro conjI impI; (elim conjE)?)
     (rule surface_midi.add_keeps_unique surface_midi.add_keeps_old surface_midi.remove_undoes_add
        desk_midi.add_keeps_unique desk_midi.add_keeps_old desk_midi.remove_undoes_add; assumption)+

definition demo_mapping :: Mapping where
  "demo_mapping = \<lparr>map_ID = 0, map_Channel = 1, map_Kind = ''control_change'', map_Number = 74,
     map_InstanceID = ''a'', map_Capability = ''intensity''\<rparr>"

theorem midi_mappings_unique_witness:
  "\<exists>ms. AddMapping (Some 5) [] demo_mapping = Inr ms \<and> distinct (map map_key ms) \<and> RemoveMapping ms 5 = []"
proof -
  have r: "AddMapping (Some 5) [] demo_mapping = Inr [demo_mapping\<lparr>map_ID := 5\<rparr>]" by code_simp
  then show ?thesis
    using midi_mappings_unique [of undefined "Some 5" undefined undefined "[]" demo_mapping "[demo_mapping\<lparr>map_ID := 5\<rparr>]" 5]
    by simp
qed

section \<open>References from surfaces\<close>

lemma sceneLayerKinds_filter:
  "j \<noteq> i \<Longrightarrow> sceneLayerKinds (filter (\<lambda>s. scene_ID s \<noteq> i) scenes) j = sceneLayerKinds scenes j"
  by (simp add: sceneLayerKinds_def rev_filter find_by_filter_other)

text \<open>
  Deleting a scene together with scrubbing the surfaces that expose it keeps every surface
  valid: names stay unique and no scene, layer or group-master reference dangles.
\<close>
theorem delete_scene_keeps_surfaces:
  assumes "ValidateSurfaces surfaces scenes groups = None"
  shows "ValidateSurfaces (ScrubSceneReferences surfaces i) (filter (\<lambda>s. scene_ID s \<noteq> i) scenes) groups = None"
proof -
  have "map surf_Name (ScrubSceneReferences surfaces i) = map surf_Name surfaces"
    by (simp add: ScrubSceneReferences_def UnassignScene_def Let_def comp_def)
  moreover have "checkSurface (filter (\<lambda>s. scene_ID s \<noteq> i) scenes) groups
      ((UnassignScene s i)\<lparr>surf_LayerRefs := filter (\<lambda>r. lref_SceneID r \<noteq> i) (surf_LayerRefs s)\<rparr>) = None"
    if "checkSurface scenes groups s = None" for s
    using that by (auto simp: checkSurface_def Let_def UnassignScene_def sceneLayerKinds_filter
        split: option.splits if_splits)
  then have "first_err (checkSurface (filter (\<lambda>s. scene_ID s \<noteq> i) scenes) groups) (ScrubSceneReferences surfaces i) = None"
    using assms by (auto simp: ValidateSurfaces_def ScrubSceneReferences_def Let_def)
  ultimately show ?thesis using assms
    by (simp add: ValidateSurfaces_def ValidateUniqueSurfaceNames_def)
qed

definition demo_surface :: Surface where
  "demo_surface = \<lparr>surf_ID = 2, surf_Name = ''left'', surf_SceneRefs = [1],
     surf_LayerRefs = [\<lparr>lref_SceneID = 1, lref_Kind = ChaseLayer\<rparr>], surf_MasterRefs = [], surf_SafetyRefs = [],
     surf_MidiMappings = [\<lparr>midi_ID = 3, midi_Channel = 1, midi_Kind = ''note'', midi_Number = 36, midi_Target = SceneControlRef 1\<rparr>]\<rparr>"

theorem delete_scene_keeps_surfaces_witness:
  "ValidateSurfaces [demo_surface] [demo_scene] [] = None \<and>
   ValidateSurfaces (ScrubSceneReferences [demo_surface] 1) (filter (\<lambda>s. scene_ID s \<noteq> 1) [demo_scene]) [] = None"
proof -
  have v: "ValidateSurfaces [demo_surface] [demo_scene] [] = None" by code_simp
  then show ?thesis using delete_scene_keeps_surfaces [OF v] by blast
qed

text \<open>
  A surface's MIDI mappings do refer to scenes through their targets, and deleting the scene
  leaves such a mapping behind: after the scrub the surface still validates while a mapping
  targets a scene that no longer exists.
\<close>
theorem midi_target_survives_scene_delete:
  "\<exists>s m. ScrubSceneReferences [demo_surface] 1 = [s] \<and> m \<in> set (surf_MidiMappings s) \<and>
     midi_Target m = SceneControlRef 1 \<and> ValidateSurfaces [s] (filter (\<lambda>x. scene_ID x \<noteq> 1) [demo_scene]) [] = None"
proof -
  let ?s = "demo_surface\<lparr>surf_SceneRefs := [], surf_LayerRefs := []\<rparr>"
  have "ScrubSceneReferences [demo_surface] 1 = [?s]"
    by (simp add: ScrubSceneReferences_def UnassignScene_def demo_surface_def)
  moreover have "ValidateSurfaces [?s] (filter (\<lambda>x. scene_ID x \<noteq> 1) [demo_scene]) [] = None" by code_simp
  ultimately show ?thesis by (intro exI [of _ ?s]) (simp add: demo_surface_def)
qed

end
