(* ===== verification/ShowState.thy ===== *)
theory ShowState
  imports OperatorSurface
begin

text \<open>
  \<open>src/internal/show\<close>, the document: scripts with their capability profiles (\<open>scripts.go\<close>), notes
  (\<open>notes.go\<close>), the \<open>State\<close> container and its whole-document check \<open>validate\<close> (\<open>state.go\<close>).
  \<open>uuid.UUID.String\<close> and \<open>uuid.Parse\<close> (used by the desk MIDI mappings) are the arguments \<open>uuid_str\<close>
  and \<open>uuid_ok\<close>.
\<close>

section \<open>scripts.go\<close>

type_synonym APIKeyScope = string
type_synonym ScriptRunStatus = string
type_synonym ResourcePreset = string

definition validAPIKeyScopes :: "APIKeyScope \<Rightarrow> bool" where
  "validAPIKeyScopes scope = (scope \<in> {''playback'', ''authoring'', ''admin''})"

abbreviation ResourcePresetQuickAction :: ResourcePreset where
  "ResourcePresetQuickAction \<equiv> ''quick-action''"
abbreviation ResourcePresetLongRunning :: ResourcePreset where
  "ResourcePresetLongRunning \<equiv> ''long-running-automation''"
abbreviation ResourcePresetAdvanced :: ResourcePreset where
  "ResourcePresetAdvanced \<equiv> ''advanced''"

definition validResourcePresets :: "ResourcePreset \<Rightarrow> bool" where
  "validResourcePresets p =
     (p \<in> {ResourcePresetQuickAction, ResourcePresetLongRunning, ResourcePresetAdvanced})"

definition defaultScriptDeadlineSeconds :: int where "defaultScriptDeadlineSeconds = 30"
definition defaultScriptRatePerSecond :: int where "defaultScriptRatePerSecond = 20"
definition defaultScriptMemoryLimitMB :: int where "defaultScriptMemoryLimitMB = 256"
definition defaultScriptCPUCapPercent :: int where "defaultScriptCPUCapPercent = 25"

definition longRunningDeadlineSeconds :: int where "longRunningDeadlineSeconds = 3600"
definition longRunningRatePerSecond :: int where "longRunningRatePerSecond = 5"
definition longRunningMemoryLimitMB :: int where "longRunningMemoryLimitMB = 512"
definition longRunningCPUCapPercent :: int where "longRunningCPUCapPercent = 25"

definition maxScriptDeadlineSeconds :: int where "maxScriptDeadlineSeconds = 86400"
definition maxScriptRatePerSecond :: int where "maxScriptRatePerSecond = 1000"
definition maxScriptMemoryLimitMB :: int where "maxScriptMemoryLimitMB = 8192"
definition maxScriptCPUCapPercent :: int where "maxScriptCPUCapPercent = 100"

record CapabilityProfile =
  cp_Scope :: APIKeyScope
  cp_Preset :: ResourcePreset
  cp_DeadlineSeconds :: int
  cp_RatePerSecond :: int
  cp_MemoryLimitMB :: int
  cp_CPUCapPercent :: int

record Script =
  script_ID :: uuid
  script_Name :: string
  script_Source :: string
  script_CapabilityProfile :: CapabilityProfile
  script_LastRunStatus :: ScriptRunStatus
  script_LastRunReason :: string
  script_LastRunAt :: string

text \<open>\<open>Deadline\<close> is a \<open>time.Duration\<close>: nanoseconds in 64 bits.\<close>
record ResolvedLimits =
  rl_Deadline :: int
  rl_RatePerSecond :: int
  rl_MemoryLimitMB :: int
  rl_CPUCapPercent :: int

definition resolvePositiveOrDefault :: "int \<Rightarrow> int \<Rightarrow> int" where
  "resolvePositiveOrDefault val fallback = (if val \<le> 0 then fallback else val)"

definition NewScript :: "uuid option \<Rightarrow> string \<Rightarrow> Script result" where
  "NewScript mint nm =
     (if trim_space nm = [] then Inl (Code ''GOLC_SCRIPT_NAME_EMPTY'')
      else case mint of
          None \<Rightarrow> Inl (Code ''GOLC_SCRIPT_ID_MINT_FAILED'')
        | Some i \<Rightarrow> Inr \<lparr>script_ID = i, script_Name = nm, script_Source = [],
            script_CapabilityProfile = \<lparr>cp_Scope = ''playback'', cp_Preset = ResourcePresetQuickAction,
              cp_DeadlineSeconds = 0, cp_RatePerSecond = 0, cp_MemoryLimitMB = 0, cp_CPUCapPercent = 0\<rparr>,
            script_LastRunStatus = ''never_run'', script_LastRunReason = [], script_LastRunAt = []\<rparr>)"

definition validateCapabilityProfile :: "CapabilityProfile \<Rightarrow> golc_error option" where
  "validateCapabilityProfile p =
     (if \<not> validAPIKeyScopes (cp_Scope p) then Some (Code ''GOLC_SCRIPT_SCOPE_INVALID'')
      else if \<not> validResourcePresets (cp_Preset p) then Some (Code ''GOLC_SCRIPT_PRESET_INVALID'')
      else if cp_DeadlineSeconds p > maxScriptDeadlineSeconds then Some (Code ''GOLC_SCRIPT_LIMIT_INVALID'')
      else if cp_RatePerSecond p > maxScriptRatePerSecond then Some (Code ''GOLC_SCRIPT_LIMIT_INVALID'')
      else if cp_MemoryLimitMB p > maxScriptMemoryLimitMB then Some (Code ''GOLC_SCRIPT_LIMIT_INVALID'')
      else if cp_CPUCapPercent p > maxScriptCPUCapPercent then Some (Code ''GOLC_SCRIPT_LIMIT_INVALID'')
      else None)"

definition ValidateScript :: "Script \<Rightarrow> golc_error option" where
  "ValidateScript s =
     (if trim_space (script_Name s) = [] then Some (Code ''GOLC_SCRIPT_NAME_EMPTY'')
      else validateCapabilityProfile (script_CapabilityProfile s))"

definition ValidateScriptUniqueNames :: "Script list \<Rightarrow> golc_error option" where
  "ValidateScriptUniqueNames ss = unique_keys (Code ''GOLC_SCRIPT_NAME_DUPLICATE'') script_Name {} ss"

definition second_ns :: int where "second_ns = 1000000000"

definition ResolveResourceLimits :: "CapabilityProfile \<Rightarrow> ResolvedLimits" where
  "ResolveResourceLimits p =
     (if cp_Preset p = ResourcePresetLongRunning then
        \<lparr>rl_Deadline = wrap64 (longRunningDeadlineSeconds * second_ns),
         rl_RatePerSecond = longRunningRatePerSecond,
         rl_MemoryLimitMB = longRunningMemoryLimitMB,
         rl_CPUCapPercent = longRunningCPUCapPercent\<rparr>
      else if cp_Preset p = ResourcePresetAdvanced then
        \<lparr>rl_Deadline = wrap64 (resolvePositiveOrDefault (cp_DeadlineSeconds p) defaultScriptDeadlineSeconds * second_ns),
         rl_RatePerSecond = resolvePositiveOrDefault (cp_RatePerSecond p) defaultScriptRatePerSecond,
         rl_MemoryLimitMB = resolvePositiveOrDefault (cp_MemoryLimitMB p) defaultScriptMemoryLimitMB,
         rl_CPUCapPercent = resolvePositiveOrDefault (cp_CPUCapPercent p) defaultScriptCPUCapPercent\<rparr>
      else
        \<lparr>rl_Deadline = wrap64 (defaultScriptDeadlineSeconds * second_ns),
         rl_RatePerSecond = defaultScriptRatePerSecond,
         rl_MemoryLimitMB = defaultScriptMemoryLimitMB,
         rl_CPUCapPercent = defaultScriptCPUCapPercent\<rparr>)"

section \<open>notes.go\<close>

record Note =
  note_ID :: uuid
  note_Title :: string
  note_Body :: string
  note_CreatedAt :: string
  note_UpdatedAt :: string

text \<open>\<open>now\<close> is the formatted current time.\<close>
definition NewNote :: "uuid option \<Rightarrow> string \<Rightarrow> string \<Rightarrow> Note result" where
  "NewNote mint now title =
     (if trim_space title = [] then Inl (Code ''GOLC_NOTE_TITLE_EMPTY'')
      else case mint of
          None \<Rightarrow> Inl (Code ''GOLC_NOTE_ID_MINT_FAILED'')
        | Some i \<Rightarrow> Inr \<lparr>note_ID = i, note_Title = title, note_Body = [], note_CreatedAt = now, note_UpdatedAt = now\<rparr>)"

definition ValidateNote :: "Note \<Rightarrow> golc_error option" where
  "ValidateNote n = (if trim_space (note_Title n) = [] then Some (Code ''GOLC_NOTE_TITLE_EMPTY'') else None)"

definition ValidateNoteUniqueTitles :: "Note list \<Rightarrow> golc_error option" where
  "ValidateNoteUniqueTitles ns = unique_keys (Code ''GOLC_NOTE_TITLE_DUPLICATE'') note_Title {} ns"

section \<open>state.go\<close>

definition SchemaVersion :: int where "SchemaVersion = 2"

record Tempo =
  tempo_BPM :: f64

definition DefaultBPM :: f64 where "DefaultBPM = Fin 120"

record State =
  st_SchemaVersion :: int
  st_Revision :: int
  st_Pools :: "Pool list"
  st_Deployments :: "Deployment list"
  st_Groups :: "Group list"
  st_Programmer :: "ProgrammerState option"
  st_Themes :: "Theme list"
  st_Presets :: "Preset list"
  st_Chases :: "Chase list"
  st_MotionPresets :: "MotionPreset list"
  st_Scenes :: "Scene list"
  st_BlendPresets :: "BlendPreset list"
  st_Tempo :: Tempo
  st_OperatorSurfaces :: "Surface list"
  st_Scripts :: "Script list"
  st_Notes :: "Note list"
  st_DeskMidiMappings :: "Mapping list"

text \<open>\<open>State{SchemaVersion: SchemaVersion, Tempo: Tempo{BPM: DefaultBPM}}\<close>\<close>
definition freshState :: State where
  "freshState =
     \<lparr>st_SchemaVersion = SchemaVersion, st_Revision = 0, st_Pools = [], st_Deployments = [], st_Groups = [],
      st_Programmer = None, st_Themes = [], st_Presets = [], st_Chases = [], st_MotionPresets = [],
      st_Scenes = [], st_BlendPresets = [], st_Tempo = \<lparr>tempo_BPM = DefaultBPM\<rparr>, st_OperatorSurfaces = [],
      st_Scripts = [], st_Notes = [], st_DeskMidiMappings = []\<rparr>"

definition validate :: "(uuid \<Rightarrow> string) \<Rightarrow> (string \<Rightarrow> bool) \<Rightarrow> State \<Rightarrow> golc_error option" where
  "validate uuid_str uuid_ok s =
     err_seq (first_err ValidatePool (st_Pools s))
    (err_seq (ValidateUniquePoolNames (st_Pools s))
    (err_seq (ValidateUniqueDeploymentNames (st_Deployments s))
    (err_seq (ValidateSingleActive (st_Deployments s))
    (err_seq (first_err (\<lambda>d. first_err ValidateInstanceAddress (dep_Instances d)) (st_Deployments s))
    (err_seq (ValidateUniqueGroupNames (st_Groups s))
    (err_seq (ValidateGroupReferences (st_Pools s) (st_Groups s))
    (err_seq (case st_Programmer s of None \<Rightarrow> None | Some p \<Rightarrow> ValidateProgrammer p)
    (err_seq (first_err ValidatePreset (st_Presets s))
    (err_seq (ValidateThemeUniqueNames (st_Themes s))
    (err_seq (ValidatePresetUniqueNames (st_Presets s))
    (err_seq (first_err ValidateChase (st_Chases s))
    (err_seq (ValidateChaseUniqueNames (st_Chases s))
    (err_seq (first_err ValidateMotionPreset (st_MotionPresets s))
    (err_seq (ValidateMotionPresetUniqueNames (st_MotionPresets s))
    (err_seq (first_err ValidateScene (st_Scenes s))
    (err_seq (ValidateSceneUniqueNames (st_Scenes s))
    (err_seq (ValidateSingleActiveScene (st_Scenes s))
    (err_seq (first_err ValidateBlendPreset (st_BlendPresets s))
    (err_seq (ValidateBlendPresetUniqueNames (st_BlendPresets s))
    (err_seq (ValidateLayerReferences (st_Scenes s) (st_Themes s) (st_Presets s) (st_Chases s) (st_MotionPresets s))
    (err_seq (ValidateSurfaces (st_OperatorSurfaces s) (st_Scenes s) (st_Groups s))
    (err_seq (first_err ValidateScript (st_Scripts s))
    (err_seq (ValidateScriptUniqueNames (st_Scripts s))
    (err_seq (first_err ValidateNote (st_Notes s))
    (err_seq (ValidateNoteUniqueTitles (st_Notes s))
    (ValidateMappings uuid_str uuid_ok (st_DeskMidiMappings s) (st_Deployments s)))))))))))))))))))))))))))"

section \<open>Properties\<close>

lemmas script_consts =
  defaultScriptDeadlineSeconds_def defaultScriptRatePerSecond_def defaultScriptMemoryLimitMB_def
  defaultScriptCPUCapPercent_def longRunningDeadlineSeconds_def longRunningRatePerSecond_def
  longRunningMemoryLimitMB_def longRunningCPUCapPercent_def maxScriptDeadlineSeconds_def
  maxScriptRatePerSecond_def maxScriptMemoryLimitMB_def maxScriptCPUCapPercent_def second_ns_def

text \<open>The limits a run may be given: never zero, never above the package ceilings.\<close>
definition limits_bounded :: "ResolvedLimits \<Rightarrow> bool" where
  "limits_bounded l \<longleftrightarrow>
     0 < rl_Deadline l \<and> rl_Deadline l \<le> maxScriptDeadlineSeconds * second_ns \<and>
     0 < rl_RatePerSecond l \<and> rl_RatePerSecond l \<le> maxScriptRatePerSecond \<and>
     0 < rl_MemoryLimitMB l \<and> rl_MemoryLimitMB l \<le> maxScriptMemoryLimitMB \<and>
     0 < rl_CPUCapPercent l \<and> rl_CPUCapPercent l \<le> maxScriptCPUCapPercent"

lemma resolvePositive_bounds:
  "\<lbrakk>0 < d; d \<le> m; v \<le> m\<rbrakk> \<Longrightarrow> 0 < resolvePositiveOrDefault v d \<and> resolvePositiveOrDefault v d \<le> m"
  by (simp add: resolvePositiveOrDefault_def)

text \<open>
  No script ever runs unlimited.  For every profile that \<open>validateCapabilityProfile\<close> accepts,
  whatever its preset and whatever zero, negative or huge custom numbers it carries, the
  resolved deadline, rate, memory and CPU limits are positive and within the ceilings, with no
  wrap-around of the 64-bit deadline in nanoseconds.
\<close>
theorem ResolveResourceLimits_bounded:
  assumes "validateCapabilityProfile p = None"
  shows "limits_bounded (ResolveResourceLimits p)"
proof (cases "cp_Preset p = ResourcePresetAdvanced")
  case True
  have b: "cp_DeadlineSeconds p \<le> 86400" "cp_RatePerSecond p \<le> 1000" "cp_MemoryLimitMB p \<le> 8192"
    "cp_CPUCapPercent p \<le> 100"
    using assms by (auto simp: validateCapabilityProfile_def script_consts split: if_splits)
  let ?d = "resolvePositiveOrDefault (cp_DeadlineSeconds p) 30"
  have d: "0 < ?d" "?d \<le> 86400" using resolvePositive_bounds [OF _ _ b(1), of 30] by simp_all
  then have "is_int64 (?d * 1000000000)" by (simp add: is_int64_def min_int64_def max_int64_def)
  then have "wrap64 (?d * 1000000000) = ?d * 1000000000" by (rule wrap64_id)
  then show ?thesis
    using True d resolvePositive_bounds [OF _ _ b(2), of 20] resolvePositive_bounds [OF _ _ b(3), of 256]
      resolvePositive_bounds [OF _ _ b(4), of 25]
    by (simp add: limits_bounded_def ResolveResourceLimits_def script_consts)
next
  case False
  then show ?thesis
    by (simp add: limits_bounded_def ResolveResourceLimits_def script_consts wrap64_id is_int64_def
        min_int64_def max_int64_def)
qed

definition demo_profile :: CapabilityProfile where
  "demo_profile = \<lparr>cp_Scope = ''authoring'', cp_Preset = ResourcePresetAdvanced, cp_DeadlineSeconds = 86400,
     cp_RatePerSecond = -3, cp_MemoryLimitMB = 0, cp_CPUCapPercent = 100\<rparr>"

theorem ResolveResourceLimits_bounded_witness: "limits_bounded (ResolveResourceLimits demo_profile)"
  by (rule ResolveResourceLimits_bounded)
     (simp add: validateCapabilityProfile_def demo_profile_def validAPIKeyScopes_def validResourcePresets_def script_consts)

text \<open>What a validated document guarantees, for the components that read it.\<close>
lemma validate_parts:
  assumes "validate uuid_str uuid_ok s = None"
  shows "\<forall>c\<in>set (st_Chases s). ValidateChase c = None" "\<forall>p\<in>set (st_Presets s). ValidatePreset p = None"
    "\<forall>m\<in>set (st_MotionPresets s). ValidateMotionPreset m = None" "\<forall>c\<in>set (st_Scenes s). ValidateScene c = None"
    "ValidateSingleActiveScene (st_Scenes s) = None" "ValidateSingleActive (st_Deployments s) = None"
    "ValidateLayerReferences (st_Scenes s) (st_Themes s) (st_Presets s) (st_Chases s) (st_MotionPresets s) = None"
    "ValidateGroupReferences (st_Pools s) (st_Groups s) = None"
    "\<forall>d\<in>set (st_Deployments s). \<forall>i\<in>set (dep_Instances d). ValidateInstanceAddress i = None"
    "ValidateMappings uuid_str uuid_ok (st_DeskMidiMappings s) (st_Deployments s) = None"
  using assms unfolding validate_def err_seq_None_iff first_err_None_iff by blast+

end
