(* ===== verification/ApiKeys.thy ===== *)
theory ApiKeys
  imports GoStrings ShowState
begin

text \<open>
  \<open>src/internal/show/apikeys.go\<close> and \<open>src/internal/api/auth.go\<close>: the keys of the HTTP interface, which are kept
  as a lookup prefix and a hash, their authentication on every request, and their scopes.

  A time is the number of nanoseconds since Go's zero time.  The text form of a time
  (\<open>time.RFC3339\<close>, whole seconds), the hash, base64 and the random source are fields of a \<open>KeyEnv\<close>.
\<close>

section \<open>apikeys.go\<close>

type_synonym time = int

record KeyEnv =
  ke_format :: "time \<Rightarrow> string"
  ke_parse :: "string \<Rightarrow> time option"
  ke_sha256Hex :: "string \<Rightarrow> string"
  ke_base64 :: "8 word list \<Rightarrow> string"

definition apiKeyRawTokenBytes :: nat where "apiKeyRawTokenBytes = 32"
definition apiKeyPrefixLength :: nat where "apiKeyPrefixLength = 8"

definition ValidateAPIKeyScopes :: "APIKeyScope list \<Rightarrow> golc_error option" where
  "ValidateAPIKeyScopes scopes =
     (if scopes = [] then Some (Code ''GOLC_APIKEY_SCOPE_INVALID'')
      else first_err (\<lambda>s. if validAPIKeyScopes s then None else Some (Code ''GOLC_APIKEY_SCOPE_INVALID'')) scopes)"

definition joinAPIKeyScopes :: "APIKeyScope list \<Rightarrow> string" where
  "joinAPIKeyScopes scopes = Join '','' scopes"

definition splitAPIKeyScopes :: "string \<Rightarrow> APIKeyScope list" where
  "splitAPIKeyScopes raw = (if raw = [] then [] else filter (\<lambda>s. s \<noteq> []) (map trim_space (Split CHR '','' raw)))"

definition HashAPIKeyToken :: "KeyEnv \<Rightarrow> string \<Rightarrow> string" where
  "HashAPIKeyToken ke token = ke_sha256Hex ke token"

text \<open>The constant-time comparison has the value of the plain one.\<close>
definition CompareAPIKeyHash :: "KeyEnv \<Rightarrow> string \<Rightarrow> string \<Rightarrow> bool" where
  "CompareAPIKeyHash ke token hash = (HashAPIKeyToken ke token = hash)"

record GeneratedAPIKey =
  gk_RawToken :: string
  gk_Prefix :: string
  gk_Hash :: string

definition APIKeyPrefixFromToken :: "string \<Rightarrow> string" where
  "APIKeyPrefixFromToken token = (if length token > apiKeyPrefixLength then take apiKeyPrefixLength token else token)"

text \<open>\<open>raw\<close>: the bytes read from the random source, unless reading failed.\<close>
definition GenerateAPIKey :: "KeyEnv \<Rightarrow> 8 word list option \<Rightarrow> GeneratedAPIKey result" where
  "GenerateAPIKey ke raw =
     (case raw of
        None \<Rightarrow> Inl (Code ''GOLC_APIKEY_GENERATE_FAILED'')
      | Some bytes \<Rightarrow>
          let token = ke_base64 ke bytes in
          Inr \<lparr>gk_RawToken = token, gk_Prefix = APIKeyPrefixFromToken token, gk_Hash = HashAPIKeyToken ke token\<rparr>)"

record APIKey =
  ak_ID :: int
  ak_KeyID :: string
  ak_Prefix :: string
  ak_Scopes :: "APIKeyScope list"
  ak_CreatedAt :: time
  ak_ExpiresAt :: time
  ak_RevokedAt :: time

record APIKeyRecord = APIKey +
  ak_Hash :: string

definition IsAPIKeyValid :: "APIKeyRecord \<Rightarrow> time \<Rightarrow> bool" where
  "IsAPIKeyValid rec now \<longleftrightarrow> ak_RevokedAt rec = 0 \<and> now < ak_ExpiresAt rec"

definition formatAPIKeyTime :: "KeyEnv \<Rightarrow> time \<Rightarrow> string" where
  "formatAPIKeyTime ke t = ke_format ke t"

definition parseAPIKeyTime :: "KeyEnv \<Rightarrow> string \<Rightarrow> time" where
  "parseAPIKeyTime ke raw = (if raw = [] then 0 else case ke_parse ke raw of Some t \<Rightarrow> t | None \<Rightarrow> 0)"

text \<open>The table \<open>api_keys\<close>: its rows in insertion order, and the \<open>AUTOINCREMENT\<close> counter.\<close>
record KeyRow =
  kr_id :: int
  kr_key_id :: string
  kr_prefix :: string
  kr_hash :: string
  kr_scopes :: string
  kr_created_at :: string
  kr_expires_at :: string
  kr_revoked_at :: string

record KeyTable =
  kt_rows :: "KeyRow list"
  kt_seq :: int

text \<open>\<open>keyID\<close>: the minted UUID; \<open>exec_ok\<close>: the statement succeeds.\<close>
definition InsertAPIKey ::
  "KeyEnv \<Rightarrow> string option \<Rightarrow> time \<Rightarrow> bool \<Rightarrow> KeyTable \<Rightarrow> GeneratedAPIKey \<Rightarrow> APIKeyScope list \<Rightarrow> time \<Rightarrow> KeyTable \<times> APIKey result" where
  "InsertAPIKey ke mint now exec_ok tbl generated scopes expiresAt =
     (case ValidateAPIKeyScopes scopes of
        Some e \<Rightarrow> (tbl, Inl e)
      | None \<Rightarrow>
          (case mint of
             None \<Rightarrow> (tbl, Inl (Code ''GOLC_APIKEY_INSERT_FAILED''))
           | Some keyID \<Rightarrow>
               if \<not> exec_ok then (tbl, Inl (Code ''GOLC_APIKEY_INSERT_FAILED''))
               else
                 (\<lparr>kt_rows = kt_rows tbl @ [\<lparr>kr_id = kt_seq tbl + 1, kr_key_id = keyID, kr_prefix = gk_Prefix generated,
                     kr_hash = gk_Hash generated, kr_scopes = joinAPIKeyScopes scopes, kr_created_at = formatAPIKeyTime ke now,
                     kr_expires_at = formatAPIKeyTime ke expiresAt, kr_revoked_at = []\<rparr>],
                   kt_seq = kt_seq tbl + 1\<rparr>,
                  Inr \<lparr>ak_ID = 0, ak_KeyID = keyID, ak_Prefix = gk_Prefix generated, ak_Scopes = scopes, ak_CreatedAt = now,
                       ak_ExpiresAt = expiresAt, ak_RevokedAt = 0\<rparr>)))"

definition scanAPIKeyRow :: "KeyEnv \<Rightarrow> KeyRow \<Rightarrow> APIKey" where
  "scanAPIKeyRow ke row =
     \<lparr>ak_ID = kr_id row, ak_KeyID = kr_key_id row, ak_Prefix = kr_prefix row, ak_Scopes = splitAPIKeyScopes (kr_scopes row),
      ak_CreatedAt = parseAPIKeyTime ke (kr_created_at row), ak_ExpiresAt = parseAPIKeyTime ke (kr_expires_at row),
      ak_RevokedAt = parseAPIKeyTime ke (kr_revoked_at row)\<rparr>"

text \<open>\<open>ORDER BY id ASC LIMIT 1\<close>; rows are inserted in the order of their ids.\<close>
definition LookupAPIKeyByPrefix :: "KeyEnv \<Rightarrow> KeyTable \<Rightarrow> string \<Rightarrow> APIKeyRecord option" where
  "LookupAPIKeyByPrefix ke tbl pre =
     map_option (\<lambda>row. APIKey.extend (scanAPIKeyRow ke row) \<lparr>ak_Hash = kr_hash row\<rparr>) (find_by kr_prefix pre (kt_rows tbl))"

definition ListAPIKeys :: "KeyEnv \<Rightarrow> KeyTable \<Rightarrow> APIKey list" where
  "ListAPIKeys ke tbl = map (scanAPIKeyRow ke) (kt_rows tbl)"

definition RevokeAPIKey :: "KeyEnv \<Rightarrow> time \<Rightarrow> bool \<Rightarrow> KeyTable \<Rightarrow> string \<Rightarrow> KeyTable \<times> golc_error option" where
  "RevokeAPIKey ke now exec_ok tbl keyID =
     (if \<not> exec_ok then (tbl, Some (Code ''GOLC_APIKEY_REVOKE_FAILED''))
      else
        let hit = (\<lambda>row. kr_key_id row = keyID \<and> kr_revoked_at row = []) in
        (tbl\<lparr>kt_rows := map (\<lambda>row. if hit row then row\<lparr>kr_revoked_at := formatAPIKeyTime ke now\<rparr> else row) (kt_rows tbl)\<rparr>,
         if \<exists>row\<in>set (kt_rows tbl). hit row then None else Some (Code ''GOLC_APIKEY_NOT_FOUND'')))"

section \<open>auth.go\<close>

record apiKeyContext =
  kc_KeyID :: string
  kc_Scopes :: "APIKeyScope list"

text \<open>The identity attached to a request, if any.\<close>
definition KeyIDFromContext :: "apiKeyContext option \<Rightarrow> string option" where
  "KeyIDFromContext ctx = map_option kc_KeyID ctx"

definition ScopesFromContext :: "apiKeyContext option \<Rightarrow> APIKeyScope list option" where
  "ScopesFromContext ctx = map_option kc_Scopes ctx"

definition HasScope :: "apiKeyContext option \<Rightarrow> APIKeyScope \<Rightarrow> bool" where
  "HasScope ctx scope = (case ScopesFromContext ctx of None \<Rightarrow> False | Some scopes \<Rightarrow> scope \<in> set scopes)"

text \<open>An HTTP error: its status and its diagnostic.\<close>
datatype http_error = HttpError (he_status: int) (he_code: string)

definition RequireScope :: "apiKeyContext option \<Rightarrow> APIKeyScope \<Rightarrow> http_error option" where
  "RequireScope ctx scope = (if HasScope ctx scope then None else Some (HttpError 403 ''GOLC_API_SCOPE_REQUIRED''))"

definition bearerToken :: "string \<Rightarrow> string option" where
  "bearerToken header =
     (if \<not> HasPrefix header ''Bearer '' then None
      else let token = trim_space (TrimPrefix header ''Bearer '') in if token = [] then None else Some token)"

definition authFailure :: http_error where "authFailure = HttpError 401 ''GOLC_API_UNAUTHORIZED''"

text \<open>\<open>lookup_ok\<close>: the lookup did not fail.  The result is the context the request goes on with.\<close>
definition AuthMiddleware :: "KeyEnv \<Rightarrow> time \<Rightarrow> bool \<Rightarrow> KeyTable \<Rightarrow> string \<Rightarrow> http_error + apiKeyContext" where
  "AuthMiddleware ke now lookup_ok tbl header =
     (case bearerToken header of
        None \<Rightarrow> Inl authFailure
      | Some token \<Rightarrow>
          (case (if lookup_ok then LookupAPIKeyByPrefix ke tbl (APIKeyPrefixFromToken token) else None) of
             None \<Rightarrow> Inl authFailure
           | Some rec \<Rightarrow>
               if \<not> CompareAPIKeyHash ke token (ak_Hash rec) then Inl authFailure
               else if \<not> IsAPIKeyValid rec now then Inl authFailure
               else Inr \<lparr>kc_KeyID = ak_KeyID rec, kc_Scopes = ak_Scopes rec\<rparr>))"

section \<open>Scopes survive storage\<close>

lemma valid_scope_text:
  assumes "validAPIKeyScopes s"
  shows "s \<noteq> []" "trim_space s = s" "CHR '','' \<notin> set s"
  using assms by (auto simp: validAPIKeyScopes_def trim_space_def is_space_def)

lemma scopes_round_trip:
  assumes "ValidateAPIKeyScopes scopes = None"
  shows "splitAPIKeyScopes (joinAPIKeyScopes scopes) = scopes"
proof -
  have v: "scopes \<noteq> []" "\<forall>s\<in>set scopes. validAPIKeyScopes s"
    using assms by (auto simp: ValidateAPIKeyScopes_def split: if_splits)
  have "Split CHR '','' (Join '','' scopes) = scopes"
    using v valid_scope_text(3) by (intro Split_Join) auto
  moreover have "map trim_space scopes = scopes" using v valid_scope_text(2) by (intro map_idI) auto
  moreover have "Join '','' scopes \<noteq> []" using v valid_scope_text(1) by (cases scopes) (auto simp: Join_Cons, metis Join.simps(2) Join_Cons append_is_Nil_conv)
  ultimately show ?thesis
    using v valid_scope_text(1) by (simp add: splitAPIKeyScopes_def joinAPIKeyScopes_def filter_id_conv)
qed

section \<open>Who is let in\<close>

text \<open>A row that is still good at a time.\<close>
definition live :: "KeyEnv \<Rightarrow> time \<Rightarrow> KeyRow \<Rightarrow> bool" where
  "live ke now row \<longleftrightarrow> parseAPIKeyTime ke (kr_revoked_at row) = 0 \<and> now < parseAPIKeyTime ke (kr_expires_at row)"

lemma AuthMiddleware_iff:
  "AuthMiddleware ke now lookup_ok tbl header = Inr ctx \<longleftrightarrow>
   (\<exists>token row. bearerToken header = Some token \<and> lookup_ok \<and>
      find_by kr_prefix (APIKeyPrefixFromToken token) (kt_rows tbl) = Some row \<and>
      ke_sha256Hex ke token = kr_hash row \<and> live ke now row \<and>
      ctx = \<lparr>kc_KeyID = kr_key_id row, kc_Scopes = splitAPIKeyScopes (kr_scopes row)\<rparr>)"
  by (auto simp: AuthMiddleware_def LookupAPIKeyByPrefix_def CompareAPIKeyHash_def HashAPIKeyToken_def IsAPIKeyValid_def
      live_def scanAPIKeyRow_def APIKey.defs split: option.splits if_splits)


section \<open>The life of a key\<close>

lemma find_by_snoc: "i \<notin> k ` set xs \<Longrightarrow> find_by k i (xs @ [x]) = (if k x = i then Some x else None)"
  by (induction xs) auto

text \<open>
  The text form of a time: whole seconds, for the years 1 to 9999, never empty.  Tokens are not
  empty and contain no white space, as base64url text of 32 bytes.
\<close>
definition second :: int where "second = 1000000000"
definition year_10000 :: time where "year_10000 = 315537897600 * second"

definition key_env_ok :: "KeyEnv \<Rightarrow> bool" where
  "key_env_ok ke \<longleftrightarrow>
     (\<forall>t. second \<le> t \<and> t < year_10000 \<longrightarrow> ke_format ke t \<noteq> [] \<and> ke_parse ke (ke_format ke t) = Some (t - t mod second)) \<and>
     (\<forall>bytes. length bytes = apiKeyRawTokenBytes \<longrightarrow> ke_base64 ke bytes \<noteq> [] \<and> (\<forall>c\<in>set (ke_base64 ke bytes). \<not> is_space c))"

lemma parse_format:
  assumes "key_env_ok ke" "second \<le> t" "t < year_10000"
  shows "parseAPIKeyTime ke (formatAPIKeyTime ke t) = t - t mod second" "formatAPIKeyTime ke t \<noteq> []"
  using assms by (auto simp: key_env_ok_def parseAPIKeyTime_def formatAPIKeyTime_def)

lemma bearer_of_token: "\<lbrakk>token \<noteq> []; \<forall>c\<in>set token. \<not> is_space c\<rbrakk> \<Longrightarrow> bearerToken (''Bearer '' @ token) = Some token"
proof -
  assume t: "token \<noteq> []" "\<forall>c\<in>set token. \<not> is_space c"
  have d: "dropWhile is_space xs = xs" if "\<forall>c\<in>set xs. \<not> is_space c" for xs using that by (cases xs) auto
  have "trim_space token = token" using d [of token] d [of "rev token"] t by (simp add: trim_space_def)
  then show ?thesis
    using t TrimPrefix_append [of "''Bearer ''" token] HasPrefix_append [of "''Bearer ''" token] by (simp add: bearerToken_def del: append.simps)
qed

text \<open>
  A minted key works. The token of a newly generated and inserted key is let in with exactly the
  scopes it was given, at every time before the whole second of its expiry, as long as no older key
  has the same prefix.
\<close>
theorem minted_key_authenticates:
  assumes "key_env_ok ke" and "GenerateAPIKey ke (Some bytes) = Inr generated" and "length bytes = apiKeyRawTokenBytes"
    and "InsertAPIKey ke mint created True tbl generated scopes expiresAt = (tbl', Inr key)"
    and "gk_Prefix generated \<notin> kr_prefix ` set (kt_rows tbl)"
    and "second \<le> expiresAt" and "expiresAt < year_10000" and "now < expiresAt - expiresAt mod second"
  shows "AuthMiddleware ke now True tbl' (''Bearer '' @ gk_RawToken generated) = Inr \<lparr>kc_KeyID = ak_KeyID key, kc_Scopes = scopes\<rparr>"
proof -
  let ?t = "ke_base64 ke bytes"
  have g: "generated = \<lparr>gk_RawToken = ?t, gk_Prefix = APIKeyPrefixFromToken ?t, gk_Hash = HashAPIKeyToken ke ?t\<rparr>"
    using assms(2) by (simp add: GenerateAPIKey_def Let_def)
  have t: "?t \<noteq> []" "\<forall>c\<in>set ?t. \<not> is_space c" using assms(1,3) by (auto simp: key_env_ok_def)
  obtain keyID where k: "ValidateAPIKeyScopes scopes = None" "ak_KeyID key = keyID"
    "kt_rows tbl' = kt_rows tbl @ [\<lparr>kr_id = kt_seq tbl + 1, kr_key_id = keyID, kr_prefix = gk_Prefix generated,
        kr_hash = gk_Hash generated, kr_scopes = joinAPIKeyScopes scopes, kr_created_at = formatAPIKeyTime ke created,
        kr_expires_at = formatAPIKeyTime ke expiresAt, kr_revoked_at = []\<rparr>]"
    using assms(4) by (auto simp: InsertAPIKey_def split: option.splits)
  have f: "find_by kr_prefix (gk_Prefix generated) (kt_rows tbl') = Some (last (kt_rows tbl'))"
    using find_by_snoc [OF assms(5)] by (simp add: k(3))
  show ?thesis
    unfolding AuthMiddleware_iff
    using f k g bearer_of_token [OF t] parse_format(1) [OF assms(1,6,7)] assms(8) scopes_round_trip [OF k(1)]
    by (intro exI [of _ ?t] exI [of _ "last (kt_rows tbl')"]) (simp add: live_def parseAPIKeyTime_def HashAPIKeyToken_def)
qed

text \<open>The later histories of a table: keys are inserted with fresh ids, and revoked.\<close>
inductive key_step :: "KeyEnv \<Rightarrow> KeyTable \<Rightarrow> KeyTable \<Rightarrow> bool" for ke where
  insert: "\<lbrakk>InsertAPIKey ke mint now ok tbl generated scopes expiresAt = (tbl', r); \<forall>k. mint = Some k \<longrightarrow> k \<notin> kr_key_id ` set (kt_rows tbl)\<rbrakk>
     \<Longrightarrow> key_step ke tbl tbl'"
| revoke: "RevokeAPIKey ke now ok tbl keyID = (tbl', e) \<Longrightarrow> key_step ke tbl tbl'"

definition is_revoked :: "KeyEnv \<Rightarrow> string \<Rightarrow> KeyTable \<Rightarrow> bool" where
  "is_revoked ke keyID tbl \<longleftrightarrow> keyID \<in> kr_key_id ` set (kt_rows tbl) \<and>
     (\<forall>row\<in>set (kt_rows tbl). kr_key_id row = keyID \<longrightarrow> parseAPIKeyTime ke (kr_revoked_at row) \<noteq> 0)"

lemma revoked_text: "parseAPIKeyTime ke (kr_revoked_at row) \<noteq> 0 \<Longrightarrow> kr_revoked_at row \<noteq> []"
  by (auto simp: parseAPIKeyTime_def)

lemma revoked_step: "\<lbrakk>key_step ke tbl tbl'; is_revoked ke keyID tbl\<rbrakk> \<Longrightarrow> is_revoked ke keyID tbl'"
proof (induction rule: key_step.induct)
  case (insert mint now ok tbl generated scopes expiresAt tbl' r)
  then show ?case by (auto simp: InsertAPIKey_def is_revoked_def split: option.splits if_splits)
next
  case (revoke now ok tbl k tbl' e)
  let ?g = "\<lambda>row. if kr_key_id row = k \<and> kr_revoked_at row = [] then row\<lparr>kr_revoked_at := formatAPIKeyTime ke now\<rparr> else row"
  have g: "kr_key_id (?g row) = kr_key_id row" for row by simp
  have kept: "?g row = row" if "parseAPIKeyTime ke (kr_revoked_at row) \<noteq> 0" for row using revoked_text [OF that] by simp
  have "kt_rows tbl' = kt_rows tbl \<or> kt_rows tbl' = map ?g (kt_rows tbl)"
    using revoke(1) by (auto simp: RevokeAPIKey_def Let_def split: if_splits)
  then show ?case
  proof
    assume "kt_rows tbl' = map ?g (kt_rows tbl)"
    then have r: "set (kt_rows tbl') = ?g ` set (kt_rows tbl)" by simp
    have "keyID \<in> kr_key_id ` set (kt_rows tbl')" using revoke(2) unfolding is_revoked_def r image_image g by blast
    moreover have "parseAPIKeyTime ke (kr_revoked_at row) \<noteq> 0" if row: "row \<in> set (kt_rows tbl')" "kr_key_id row = keyID" for row
    proof -
      obtain row0 where 0: "row0 \<in> set (kt_rows tbl)" "row = ?g row0" using row(1) unfolding r by blast
      have "kr_key_id row0 = keyID" using row(2) g [of row0] unfolding 0(2) by metis
      then have "parseAPIKeyTime ke (kr_revoked_at row0) \<noteq> 0" using revoke(2) 0(1) by (simp add: is_revoked_def)
      then show ?thesis using kept 0(2) by metis
    qed
    ultimately show ?thesis by (simp add: is_revoked_def)
  qed (use revoke(2) in \<open>simp add: is_revoked_def\<close>)
qed

lemma revoked_forever: "\<lbrakk>(key_step ke)\<^sup>*\<^sup>* tbl tbl'; is_revoked ke keyID tbl\<rbrakk> \<Longrightarrow> is_revoked ke keyID tbl'"
  by (induction rule: rtranclp_induct) (auto intro: revoked_step)

text \<open>
  C23: Revocation is final. After a successful revocation, whatever keys are minted or revoked later and
  at whatever time, no request is ever let in under the revoked key's id again.
\<close>
theorem revocation_is_final:
  assumes "key_env_ok ke" and "second \<le> now" and "now < year_10000" and "distinct (map kr_key_id (kt_rows tbl))"
    and "RevokeAPIKey ke now ok tbl keyID = (tbl1, None)"
    and "(key_step ke)\<^sup>*\<^sup>* tbl1 tbl2" and "AuthMiddleware ke later lookup_ok tbl2 header = Inr ctx"
  shows "kc_KeyID ctx \<noteq> keyID"
proof -
  have n: "parseAPIKeyTime ke (formatAPIKeyTime ke now) \<noteq> 0"
    using parse_format(1) [OF assms(1-3)] assms(2) pos_mod_bound [of second now] by (auto simp: second_def)
  obtain hit where hit: "hit \<in> set (kt_rows tbl)" "kr_key_id hit = keyID" "kr_revoked_at hit = []"
    "kt_rows tbl1 = map (\<lambda>row. if kr_key_id row = keyID \<and> kr_revoked_at row = [] then row\<lparr>kr_revoked_at := formatAPIKeyTime ke now\<rparr> else row) (kt_rows tbl)"
    using assms(5) by (auto simp: RevokeAPIKey_def Let_def split: if_splits)
  let ?g = "\<lambda>row. if kr_key_id row = keyID \<and> kr_revoked_at row = [] then row\<lparr>kr_revoked_at := formatAPIKeyTime ke now\<rparr> else row"
  have "parseAPIKeyTime ke (kr_revoked_at row) \<noteq> 0" if row: "row \<in> set (kt_rows tbl1)" "kr_key_id row = keyID" for row
  proof -
    obtain row0 where 0: "row0 \<in> set (kt_rows tbl)" "row = ?g row0" using row(1) unfolding hit(4) set_map by blast
    have "kr_key_id (?g row0) = kr_key_id row0" by simp
    then have "kr_key_id row0 = keyID" using row(2) unfolding 0(2) by metis
    then have "row0 = hit" using assms(4) hit(1,2) 0(1) by (metis distinct_map inj_on_def)
    then show ?thesis using n hit(2,3) 0(2) by simp
  qed
  moreover have "map kr_key_id (kt_rows tbl1) = map kr_key_id (kt_rows tbl)" unfolding hit(4) by simp
  then have "keyID \<in> kr_key_id ` set (kt_rows tbl1)" using hit(1,2) by (metis image_eqI set_map)
  ultimately have "is_revoked ke keyID tbl1" by (simp add: is_revoked_def)
  then have "is_revoked ke keyID tbl2" using revoked_forever assms(6) by blast
  then show ?thesis using assms(7) by (auto simp: AuthMiddleware_iff is_revoked_def live_def dest: find_by_SomeD)
qed

section \<open>A concrete environment\<close>

definition demo_key_env :: KeyEnv where
  "demo_key_env = \<lparr>ke_format = (\<lambda>t. itoa (t div second)), ke_parse = (\<lambda>s. map_option (\<lambda>n. n * second) (ParseInt s)),
     ke_sha256Hex = rev, ke_base64 = (\<lambda>bytes. ''secret_token'')\<rparr>"

lemma demo_key_env_ok: "key_env_ok demo_key_env"
proof -
  have "itoa n \<noteq> []" for n using nat_text_digits by (simp add: itoa_def)
  moreover have "ParseInt (itoa (t div second)) = Some (t div second)" if "second \<le> t" "t < year_10000" for t
  proof (rule ParseInt_itoa)
    have "0 \<le> t div second" using that by (simp add: second_def pos_imp_zdiv_nonneg_iff)
    moreover have "t div second < 315537897600" using that(2) by (simp add: second_def year_10000_def)
    ultimately show "is_int64 (t div second)" by (simp add: is_int64_def min_int64_def max_int64_def)
  qed
  moreover have "t div second * second = t - t mod second" for t by (simp add: minus_mod_eq_div_mult)
  ultimately show ?thesis by (simp add: key_env_ok_def demo_key_env_def is_space_def)
qed

definition demo_generated :: GeneratedAPIKey where
  "demo_generated = \<lparr>gk_RawToken = ''secret_token'', gk_Prefix = ''secret_t'', gk_Hash = rev ''secret_token''\<rparr>"

lemma demo_generate: "GenerateAPIKey demo_key_env (Some (replicate 32 0)) = Inr demo_generated"
  by (simp add: GenerateAPIKey_def demo_key_env_def demo_generated_def APIKeyPrefixFromToken_def apiKeyPrefixLength_def HashAPIKeyToken_def)

definition demo_row :: KeyRow where
  "demo_row = \<lparr>kr_id = 1, kr_key_id = ''k1'', kr_prefix = ''secret_t'', kr_hash = rev ''secret_token'', kr_scopes = ''playback,admin'',
     kr_created_at = ''5'', kr_expires_at = ''100'', kr_revoked_at = []\<rparr>"

lemma demo_insert: "\<exists>key. InsertAPIKey demo_key_env (Some ''k1'') (5 * second) True \<lparr>kt_rows = [], kt_seq = 0\<rparr> demo_generated [''playback'', ''admin''] (100 * second) =
  (\<lparr>kt_rows = [demo_row], kt_seq = 1\<rparr>, Inr key) \<and> ak_KeyID key = ''k1''"
proof -
  have "itoa 5 = ''5''" "itoa 100 = ''100''" by code_simp+
  then show ?thesis
    by (simp add: InsertAPIKey_def ValidateAPIKeyScopes_def validAPIKeyScopes_def demo_row_def demo_key_env_def formatAPIKeyTime_def
        joinAPIKeyScopes_def demo_generated_def second_def)
qed

theorem minted_key_authenticates_witness:
  "AuthMiddleware demo_key_env (99 * second) True \<lparr>kt_rows = [demo_row], kt_seq = 1\<rparr> (''Bearer '' @ gk_RawToken demo_generated) =
     Inr \<lparr>kc_KeyID = ''k1'', kc_Scopes = [''playback'', ''admin'']\<rparr>"
proof -
  obtain key where k: "InsertAPIKey demo_key_env (Some ''k1'') (5 * second) True \<lparr>kt_rows = [], kt_seq = 0\<rparr> demo_generated [''playback'', ''admin''] (100 * second) =
    (\<lparr>kt_rows = [demo_row], kt_seq = 1\<rparr>, Inr key)" "ak_KeyID key = ''k1''" using demo_insert by blast
  show ?thesis
    unfolding k(2) [symmetric]
    by (rule minted_key_authenticates [OF demo_key_env_ok demo_generate _ k(1)]) (simp_all add: apiKeyRawTokenBytes_def second_def year_10000_def)
qed

theorem revocation_is_final_witness:
  "\<exists>tbl1. RevokeAPIKey demo_key_env (50 * second) True \<lparr>kt_rows = [demo_row], kt_seq = 1\<rparr> ''k1'' = (tbl1, None) \<and>
     (\<forall>ctx. AuthMiddleware demo_key_env (60 * second) True tbl1 ''Bearer secret_token'' = Inr ctx \<longrightarrow> kc_KeyID ctx \<noteq> ''k1'')"
proof -
  obtain tbl1 where t: "RevokeAPIKey demo_key_env (50 * second) True \<lparr>kt_rows = [demo_row], kt_seq = 1\<rparr> ''k1'' = (tbl1, None)"
    by (simp add: RevokeAPIKey_def demo_row_def)
  have b: "second \<le> 50 * second" "50 * second < year_10000" by (simp_all add: second_def year_10000_def)
  have d: "distinct (map kr_key_id (kt_rows \<lparr>kt_rows = [demo_row], kt_seq = 1\<rparr>))" by simp
  show ?thesis using t revocation_is_final [OF demo_key_env_ok b d t rtranclp.rtrancl_refl] by blast
qed


end
