(* ===== verification/Command.thy ===== *)
theory Command
  imports GoStrings "HOL-Library.Multiset"
begin

text \<open>
  \<open>src/internal/command/router.go\<close>: the registry of command routes, to which every command file adds its
  own, and the dispatch of an invocation to the longest route its words match; with the adapter of
  \<open>artnet.go\<close> through which the HTTP interface runs a command, and the flag loop that all argument
  parsers of the package share.

  A handler maps a request and the state of the outside world (\<open>'w\<close>) to a result and the world
  afterwards.  The two maps of a registry are association lists with distinct keys.
\<close>

section \<open>Requests, results, registrations\<close>

record Request =
  rq_Route :: string
  rq_Args :: "string list"
  rq_Root :: string

record Result =
  res_ExitCode :: int
  res_Stdout :: string
  res_Stderr :: string

type_synonym 'w CommandHandler = "Request \<Rightarrow> 'w \<Rightarrow> Result \<times> 'w"

record 'w CommandRegistration =
  cr_Route :: string
  cr_Summary :: string
  cr_Handler :: "'w CommandHandler option"

record ScopeRegistration =
  sr_Scope :: string
  sr_Summary :: string

record 'w CommandRegistry =
  reg_routes :: "(string \<times> 'w CommandRegistration) list"
  reg_scopes :: "(string \<times> ScopeRegistration) list"

definition newline :: string where "newline = [CHR 0x0A]"

section \<open>Keys\<close>

definition wordStart :: "char \<Rightarrow> bool" where
  "wordStart c = (let n = of_char c :: nat in (97 \<le> n \<and> n \<le> 122) \<or> (48 \<le> n \<and> n \<le> 57))"

definition routeWordPattern :: "string \<Rightarrow> bool" where
  "routeWordPattern w = (case w of [] \<Rightarrow> False | c # r \<Rightarrow> wordStart c \<and> list_all (\<lambda>x. wordStart x \<or> x = CHR ''-'') r)"

definition normalizeKey :: "string \<Rightarrow> string result" where
  "normalizeKey name =
     (let words = Fields (ToLower name) in
      if words = [] then Inl (Code ''name is empty'')
      else guard_err (first_err (\<lambda>w. if routeWordPattern w then None else Some (Code ''not a valid route word'')) words)
        (Inr (Join '' '' words)))"

section \<open>The registry\<close>

definition NewCommandRegistry :: "'w CommandRegistry" where
  "NewCommandRegistry = \<lparr>reg_routes = [], reg_scopes = []\<rparr>"

definition RegisterScope :: "'w CommandRegistry \<Rightarrow> ScopeRegistration \<Rightarrow> 'w CommandRegistry result" where
  "RegisterScope r registration =
     (case normalizeKey (sr_Scope registration) of
        Inl e \<Rightarrow> Inl (Wrap ''GOLC_SCOPE_INVALID'' e)
      | Inr key \<Rightarrow>
          if Contains key '' '' then Inl (Code ''GOLC_SCOPE_INVALID'')
          else if map_of (reg_scopes r) key \<noteq> None then Inl (Code ''GOLC_SCOPE_DUPLICATE'')
          else Inr (r\<lparr>reg_scopes := (key, registration\<lparr>sr_Scope := key\<rparr>) # reg_scopes r\<rparr>))"

definition routeScope :: "string \<Rightarrow> string" where
  "routeScope key = (case SplitN CHR '' '' 2 key of s # _ \<Rightarrow> s | [] \<Rightarrow> [])"

definition RegisterRoute :: "'w CommandRegistry \<Rightarrow> 'w CommandRegistration \<Rightarrow> 'w CommandRegistry result" where
  "RegisterRoute r registration =
     (case normalizeKey (cr_Route registration) of
        Inl e \<Rightarrow> Inl (Wrap ''GOLC_ROUTE_INVALID'' e)
      | Inr key \<Rightarrow>
          if cr_Handler registration = None then Inl (Code ''GOLC_ROUTE_INVALID'')
          else if map_of (reg_scopes r) (routeScope key) = None then Inl (Code ''GOLC_ROUTE_SCOPE_UNDECLARED'')
          else if map_of (reg_routes r) key \<noteq> None then Inl (Code ''GOLC_ROUTE_DUPLICATE'')
          else Inr (r\<lparr>reg_routes := (key, registration\<lparr>cr_Route := key\<rparr>) # reg_routes r\<rparr>))"

text \<open>The loop of \<open>Lookup\<close>, from the given number of words down to one.\<close>
fun lookupFrom ::
  "'w CommandRegistry \<Rightarrow> string list \<Rightarrow> nat \<Rightarrow> ('w CommandRegistration \<times> string list) option" where
  "lookupFrom r words 0 = None"
| "lookupFrom r words (Suc n) =
     (case normalizeKey (Join '' '' (take (Suc n) words)) of
        Inl _ \<Rightarrow> lookupFrom r words n
      | Inr key \<Rightarrow>
          (case map_of (reg_routes r) key of
             Some registration \<Rightarrow> Some (registration, drop (Suc n) words)
           | None \<Rightarrow> lookupFrom r words n))"

definition Lookup :: "'w CommandRegistry \<Rightarrow> string list \<Rightarrow> ('w CommandRegistration \<times> string list) option" where
  "Lookup r words = lookupFrom r words (length words)"

definition Routes :: "'w CommandRegistry \<Rightarrow> 'w CommandRegistration list" where
  "Routes r = map snd (sort_key fst (reg_routes r))"

definition Scopes :: "'w CommandRegistry \<Rightarrow> ScopeRegistration list" where
  "Scopes r = map snd (sort_key fst (reg_scopes r))"

text \<open>\<open>%-20s\<close>\<close>
definition pad20 :: "string \<Rightarrow> string" where
  "pad20 s = s @ replicate (20 - length s) CHR '' ''"

definition usage :: "'w CommandRegistry \<Rightarrow> string" where
  "usage r =
     ''GOLC_ROUTE_MISSING: no route given; usage: golc-project <route> [args...]'' @ newline @ newline @
     ''Available routes:'' @ newline @
     concat (map (\<lambda>reg. ''  '' @ pad20 (cr_Route reg) @ '' '' @ cr_Summary reg @ newline) (Routes r))"

text \<open>\<open>unknown\<close> renders the diagnostic of an unroutable invocation.  A registration without a handler is a nil
  function; a registry never holds one.\<close>
definition Execute ::
  "(string \<Rightarrow> string) \<Rightarrow> 'w CommandRegistry \<Rightarrow> Request \<Rightarrow> 'w \<Rightarrow> (Result \<times> 'w) option" where
  "Execute unknown r request w =
     (if rq_Args request = [] then Some (\<lparr>res_ExitCode = 2, res_Stdout = [], res_Stderr = usage r\<rparr>, w)
      else case Lookup r (rq_Args request) of
          None \<Rightarrow> Some (\<lparr>res_ExitCode = 2, res_Stdout = [], res_Stderr = unknown (Join '' '' (rq_Args request))\<rparr>, w)
        | Some (registration, rest) \<Rightarrow>
            map_option (\<lambda>h. h \<lparr>rq_Route = cr_Route registration, rq_Args = rest, rq_Root = rq_Root request\<rparr> w)
              (cr_Handler registration))"

text \<open>Whether the two writes succeed is given.\<close>
definition WriteResult :: "bool \<Rightarrow> bool \<Rightarrow> Result \<Rightarrow> int" where
  "WriteResult stdout_ok stderr_ok result =
     (let e1 = (if res_Stdout result \<noteq> [] \<and> \<not> stdout_ok \<and> res_ExitCode result = 0 then 1 else res_ExitCode result)
      in if res_Stderr result \<noteq> [] \<and> \<not> stderr_ok \<and> e1 = 0 then 1 else e1)"

section \<open>Self-registration\<close>

text \<open>A panic is an error; otherwise the declaration joins the package's list.\<close>
definition MustDeclareRoute ::
  "'w CommandRegistration list \<Rightarrow> 'w CommandRegistration \<Rightarrow> 'w CommandRegistration list result" where
  "MustDeclareRoute declaredRoutes registration =
     (case normalizeKey (cr_Route registration) of
        Inl e \<Rightarrow> Inl (Wrap ''GOLC_ROUTE_INVALID'' e)
      | Inr key \<Rightarrow>
          if cr_Handler registration = None then Inl (Code ''GOLC_ROUTE_INVALID'')
          else Inr (declaredRoutes @ [registration\<lparr>cr_Route := key\<rparr>]))"

definition MustDeclareScope :: "ScopeRegistration list \<Rightarrow> ScopeRegistration \<Rightarrow> ScopeRegistration list result" where
  "MustDeclareScope declaredScopes registration =
     (case normalizeKey (sr_Scope registration) of
        Inl e \<Rightarrow> Inl (Wrap ''GOLC_SCOPE_INVALID'' e)
      | Inr key \<Rightarrow>
          if Contains key '' '' then Inl (Code ''GOLC_SCOPE_INVALID'')
          else Inr (declaredScopes @ [registration\<lparr>sr_Scope := key\<rparr>]))"

fun register_all :: "('r \<Rightarrow> 'a \<Rightarrow> 'r result) \<Rightarrow> 'r \<Rightarrow> 'a list \<Rightarrow> 'r result" where
  "register_all f r [] = Inr r"
| "register_all f r (x # xs) = bind_res (f r x) (\<lambda>r'. register_all f r' xs)"

definition NewDefaultCommandRegistry ::
  "ScopeRegistration list \<Rightarrow> 'w CommandRegistration list \<Rightarrow> 'w CommandRegistry result" where
  "NewDefaultCommandRegistry declaredScopes declaredRoutes =
     bind_res (register_all RegisterScope NewCommandRegistry (sort_key sr_Scope declaredScopes))
       (\<lambda>r. register_all RegisterRoute r (sort_key cr_Route declaredRoutes))"

section \<open>The executor of the HTTP interface\<close>

definition apiExecute ::
  "(string \<Rightarrow> string) \<Rightarrow> 'w CommandRegistry \<Rightarrow> string \<Rightarrow> string list \<Rightarrow> string \<Rightarrow> 'w \<Rightarrow> (Result \<times> 'w) option" where
  "apiExecute unknown r route args root w =
     (case Lookup r (Fields route) of
        Some (registration, []) \<Rightarrow>
          map_option (\<lambda>h. h \<lparr>rq_Route = cr_Route registration, rq_Args = args, rq_Root = root\<rparr> w) (cr_Handler registration)
      | _ \<Rightarrow> Some (\<lparr>res_ExitCode = 2, res_Stdout = [], res_Stderr = unknown route\<rparr>, w))"

section \<open>Flags\<close>

text \<open>
  The loop of every argument parser: \<open>--flag value\<close> and \<open>--flag=value\<close> for the flags of \<open>valued\<close>, bare \<open>switches\<close>, and
  a usage error for anything else or a missing value.  No flag of the package contains an equals
  sign, so the two prefix tests of a flag decide on the text before the first one.
\<close>
fun parse_flags ::
  "golc_error \<Rightarrow> (string \<Rightarrow> (string \<Rightarrow> 'a \<Rightarrow> 'a result) option) \<Rightarrow> (string \<Rightarrow> ('a \<Rightarrow> 'a) option) \<Rightarrow> string list \<Rightarrow> 'a \<Rightarrow> 'a result" where
  "parse_flags err valued switches [] acc = Inr acc"
| "parse_flags err valued switches (a # rest) acc =
     (case valued a of
        Some f \<Rightarrow>
          (case rest of
             [] \<Rightarrow> Inl err
           | v # rest' \<Rightarrow> bind_res (f v acc) (parse_flags err valued switches rest'))
      | None \<Rightarrow>
          (case switches a of
             Some g \<Rightarrow> parse_flags err valued switches rest (g acc)
           | None \<Rightarrow>
               (case SplitN CHR ''='' 2 a of
                  [flag, v] \<Rightarrow>
                    (case valued flag of
                       Some f \<Rightarrow> bind_res (f v acc) (parse_flags err valued switches rest)
                     | None \<Rightarrow> Inl err)
                | _ \<Rightarrow> Inl err)))"

abbreviation no_switches :: "string \<Rightarrow> ('a \<Rightarrow> 'a) option" where "no_switches \<equiv> (\<lambda>_. None)"

section \<open>Normal keys\<close>

lemma wordStart_lower: "wordStart c \<Longrightarrow> lower_char c = c"
  by (auto simp: wordStart_def lower_char_def Let_def)

lemma wordStart_space: "wordStart c \<Longrightarrow> \<not> is_space c"
  by (auto simp: wordStart_def is_space_def Let_def)

lemma routeWord_chars:
  assumes "routeWordPattern w"
  shows "w \<noteq> []" "ToLower w = w" "\<forall>c\<in>set w. \<not> is_space c"
proof -
  obtain c r where w: "w = c # r" "wordStart c" "\<forall>x\<in>set r. wordStart x \<or> x = CHR ''-''"
    using assms by (cases w) (auto simp: routeWordPattern_def list_all_iff)
  have d: "lower_char CHR ''-'' = CHR ''-''" "\<not> is_space CHR ''-''" by (simp_all add: lower_char_def is_space_def)
  show "w \<noteq> []" using w by simp
  have "map lower_char r = r" using w d wordStart_lower by (intro map_idI) auto
  then show "ToLower w = w" using w by (simp add: ToLower_def wordStart_lower)
  show "\<forall>c\<in>set w. \<not> is_space c" using w d by (auto simp: wordStart_space)
qed

lemma normalizeKey_Inr_iff:
  "normalizeKey name = Inr key \<longleftrightarrow>
   (\<exists>ws. ws = Fields (ToLower name) \<and> ws \<noteq> [] \<and> (\<forall>w\<in>set ws. routeWordPattern w) \<and> key = Join '' '' ws)"
proof -
  let ?err = "first_err (\<lambda>w. if routeWordPattern w then None else Some (Code ''not a valid route word'')) (Fields (ToLower name))"
  have "?err = None \<longleftrightarrow> (\<forall>w\<in>set (Fields (ToLower name)). routeWordPattern w)" by auto
  then show ?thesis
    by (cases ?err) (auto simp: normalizeKey_def Let_def guard_err_def simp del: first_err_None_iff)
qed

lemma ToLower_append [simp]: "ToLower (s @ t) = ToLower s @ ToLower t" by (simp add: ToLower_def)

lemma ToLower_Join: "ToLower (Join '' '' ws) = Join '' '' (map ToLower ws)"
  by (induction ws rule: induct_list012) (auto simp: ToLower_def lower_char_def)

lemma normal_words:
  assumes "ws \<noteq> []" "\<forall>w\<in>set ws. routeWordPattern w"
  shows "normalizeKey (Join '' '' ws) = Inr (Join '' '' ws)" "Fields (Join '' '' ws) = ws"
proof -
  have m: "map ToLower ws = ws" using assms by (intro map_idI) (auto simp: routeWord_chars)
  show f: "Fields (Join '' '' ws) = ws" using assms routeWord_chars by (intro Fields_Join) auto
  show "normalizeKey (Join '' '' ws) = Inr (Join '' '' ws)"
    using assms f by (simp add: normalizeKey_Inr_iff ToLower_Join m)
qed

lemma normalizeKey_idem: "normalizeKey name = Inr key \<Longrightarrow> normalizeKey key = Inr key"
  using normal_words by (auto simp: normalizeKey_Inr_iff)

lemma normalizeKey_Fields: "normalizeKey name = Inr key \<Longrightarrow> Join '' '' (Fields key) = key"
  using normal_words by (auto simp: normalizeKey_Inr_iff)

section \<open>What the registry holds\<close>

definition registry_ok :: "'w CommandRegistry \<Rightarrow> bool" where
  "registry_ok r \<longleftrightarrow> distinct (map fst (reg_routes r)) \<and> distinct (map fst (reg_scopes r)) \<and>
     (\<forall>(key, reg)\<in>set (reg_routes r). normalizeKey key = Inr key \<and> cr_Route reg = key \<and> cr_Handler reg \<noteq> None \<and>
        routeScope key \<in> fst ` set (reg_scopes r))"

lemma registry_ok_empty: "registry_ok NewCommandRegistry" by (simp add: registry_ok_def NewCommandRegistry_def)

lemma RegisterScope_ok: "\<lbrakk>registry_ok r; RegisterScope r x = Inr r'\<rbrakk> \<Longrightarrow> registry_ok r'"
  by (auto simp: registry_ok_def RegisterScope_def map_of_eq_None_iff split: sum.splits if_splits)

lemma RegisterRoute_Inr:
  assumes "RegisterRoute r x = Inr r'"
  obtains key where "normalizeKey (cr_Route x) = Inr key" "cr_Handler x \<noteq> None" "routeScope key \<in> fst ` set (reg_scopes r)"
    "key \<notin> fst ` set (reg_routes r)" "r' = r\<lparr>reg_routes := (key, x\<lparr>cr_Route := key\<rparr>) # reg_routes r\<rparr>"
proof -
  obtain key where k: "normalizeKey (cr_Route x) = Inr key" using assms by (cases "normalizeKey (cr_Route x)") (auto simp: RegisterRoute_def)
  show ?thesis
  proof (rule that [OF k])
    show "cr_Handler x \<noteq> None" "routeScope key \<in> fst ` set (reg_scopes r)" "key \<notin> fst ` set (reg_routes r)"
      "r' = r\<lparr>reg_routes := (key, x\<lparr>cr_Route := key\<rparr>) # reg_routes r\<rparr>"
      using assms k unfolding RegisterRoute_def by (simp_all add: map_of_eq_None_iff split: if_splits)
  qed
qed

lemma RegisterRoute_ok:
  assumes "registry_ok r" "RegisterRoute r x = Inr r'"
  shows "registry_ok r'"
proof -
  from assms(2) obtain key where k: "normalizeKey (cr_Route x) = Inr key" "cr_Handler x \<noteq> None" "routeScope key \<in> fst ` set (reg_scopes r)"
    "key \<notin> fst ` set (reg_routes r)" "r' = r\<lparr>reg_routes := (key, x\<lparr>cr_Route := key\<rparr>) # reg_routes r\<rparr>"
    by (rule RegisterRoute_Inr)
  show ?thesis using assms(1) k normalizeKey_idem [OF k(1)] unfolding registry_ok_def by simp
qed

lemma register_all_induct:
  assumes "register_all f r xs = Inr r'" "P r" "\<And>r x r'. \<lbrakk>P r; f r x = Inr r'\<rbrakk> \<Longrightarrow> P r'"
  shows "P r'"
  using assms by (induction xs arbitrary: r) (auto simp: bind_res_def split: sum.splits)

lemma NewDefault_ok:
  assumes "NewDefaultCommandRegistry ss rs = Inr r"
  shows "registry_ok r"
proof -
  obtain r0 where r0: "register_all RegisterScope NewCommandRegistry (sort_key sr_Scope ss) = Inr r0"
    and r: "register_all RegisterRoute r0 (sort_key cr_Route rs) = Inr r"
    using assms by (auto simp: NewDefaultCommandRegistry_def bind_res_def split: sum.splits)
  have "registry_ok r0" by (rule register_all_induct [where P = registry_ok, OF r0 registry_ok_empty RegisterScope_ok])
  then show ?thesis by (rule register_all_induct [where P = registry_ok, OF r _ RegisterRoute_ok])
qed

section \<open>Dispatch\<close>

text \<open>The route declared under the first \<open>n\<close> words, if any.\<close>
definition route_at :: "'w CommandRegistry \<Rightarrow> string list \<Rightarrow> nat \<Rightarrow> 'w CommandRegistration option" where
  "route_at r words n =
     (case normalizeKey (Join '' '' (take n words)) of Inl _ \<Rightarrow> None | Inr key \<Rightarrow> map_of (reg_routes r) key)"

lemma lookupFrom_Suc:
  "lookupFrom r words (Suc n) =
     (case route_at r words (Suc n) of Some reg \<Rightarrow> Some (reg, drop (Suc n) words) | None \<Rightarrow> lookupFrom r words n)"
  by (auto simp: route_at_def split: sum.split option.split)

declare lookupFrom.simps(2) [simp del]

lemma lookupFrom_Some_iff:
  "lookupFrom r words n = Some (reg, rest) \<longleftrightarrow>
   (\<exists>k\<in>{1..n}. route_at r words k = Some reg \<and> rest = drop k words \<and> (\<forall>j\<in>{k<..n}. route_at r words j = None))"
proof (induction n)
  case (Suc n)
  show ?case
  proof (cases "route_at r words (Suc n)")
    case None
    have "{1..Suc n} = insert (Suc n) {1..n}" "\<And>k. k \<le> n \<Longrightarrow> {k<..Suc n} = insert (Suc n) {k<..n}" by auto
    then show ?thesis using None Suc by (auto simp: lookupFrom_Suc)
  next
    case (Some reg')
    have uniq: "k = Suc n" if "k \<in> {1..Suc n}" "\<forall>j\<in>{k<..Suc n}. route_at r words j = None" for k
      using that Some by (metis atLeastAtMost_iff greaterThanAtMost_iff le_refl le_neq_implies_less option.distinct(1))
    show ?thesis unfolding lookupFrom_Suc Some option.case
    proof
      assume "Some (reg', drop (Suc n) words) = Some (reg, rest)"
      then show "\<exists>k\<in>{1..Suc n}. route_at r words k = Some reg \<and> rest = drop k words \<and> (\<forall>j\<in>{k<..Suc n}. route_at r words j = None)"
        using Some by (intro bexI [of _ "Suc n"]) auto
    next
      assume "\<exists>k\<in>{1..Suc n}. route_at r words k = Some reg \<and> rest = drop k words \<and> (\<forall>j\<in>{k<..Suc n}. route_at r words j = None)"
      then obtain k where k: "k \<in> {1..Suc n}" "route_at r words k = Some reg" "rest = drop k words"
        "\<forall>j\<in>{k<..Suc n}. route_at r words j = None" by blast
      have "k = Suc n" by (rule uniq [OF k(1) k(4)])
      then show "Some (reg', drop (Suc n) words) = Some (reg, rest)" using k Some by simp
    qed
  qed
qed simp

lemma lookupFrom_None_iff: "lookupFrom r words n = None \<longleftrightarrow> (\<forall>k\<in>{1..n}. route_at r words k = None)"
proof (induction n)
  case (Suc n)
  have "{1..Suc n} = insert (Suc n) {1..n}" by auto
  then show ?case using Suc by (auto simp: lookupFrom_Suc split: option.split)
qed simp

text \<open>
  The longest route wins. \<open>Lookup\<close> finds a registration exactly when some number of leading words,
  put in normal form, is a declared route and no larger number is; the remaining words are the
  arguments. It finds nothing exactly when no prefix of the words is a declared route.
\<close>
theorem Lookup_longest:
  "(Lookup r words = Some (reg, rest) \<longleftrightarrow>
     (\<exists>k\<in>{1..length words}. route_at r words k = Some reg \<and> rest = drop k words \<and>
        (\<forall>j\<in>{k<..length words}. route_at r words j = None))) \<and>
   (Lookup r words = None \<longleftrightarrow> (\<forall>k\<in>{1..length words}. route_at r words k = None))"
  by (simp add: Lookup_def lookupFrom_Some_iff lookupFrom_None_iff)

text \<open>Registering many declarations: every one that succeeds stays.\<close>
lemma register_all_routes:
  assumes "register_all RegisterRoute r xs = Inr r'"
  shows "reg_scopes r' = reg_scopes r \<and> set (reg_routes r) \<subseteq> set (reg_routes r') \<and>
    (\<forall>x\<in>set xs. \<exists>key. normalizeKey (cr_Route x) = Inr key \<and> (key, x\<lparr>cr_Route := key\<rparr>) \<in> set (reg_routes r'))"
  using assms
proof (induction xs arbitrary: r)
  case (Cons x xs)
  obtain r1 where r1: "RegisterRoute r x = Inr r1" "register_all RegisterRoute r1 xs = Inr r'"
    using Cons.prems by (cases "RegisterRoute r x") (auto simp: bind_res_def)
  obtain key where k: "normalizeKey (cr_Route x) = Inr key" "r1 = r\<lparr>reg_routes := (key, x\<lparr>cr_Route := key\<rparr>) # reg_routes r\<rparr>"
    using RegisterRoute_Inr [OF r1(1)] by metis
  show ?case using Cons.IH [OF r1(2)] k by auto
qed simp

lemma Lookup_key:
  assumes "registry_ok r" "(key, reg) \<in> set (reg_routes r)"
  shows "Lookup r (Fields key) = Some (reg, [])"
proof -
  have k: "normalizeKey key = Inr key" using assms by (auto simp: registry_ok_def)
  have "Fields key \<noteq> []" using k normal_words(2) unfolding normalizeKey_Inr_iff by metis
  then obtain n where n: "length (Fields key) = Suc n" by (cases "Fields key") auto
  have "route_at r (Fields key) (Suc n) = Some reg"
    using assms k n by (simp add: route_at_def normalizeKey_Fields map_of_eq_Some_iff registry_ok_def)
  then show ?thesis by (simp add: Lookup_def n lookupFrom_Suc)
qed

lemma declared_dispatch:
  assumes "NewDefaultCommandRegistry declaredScopes declaredRoutes = Inr r"
    and "reg \<in> set declaredRoutes" and "cr_Handler reg = Some h"
  shows "\<exists>key. normalizeKey (cr_Route reg) = Inr key \<and>
    apiExecute unknown r key args root w = Some (h \<lparr>rq_Route = key, rq_Args = args, rq_Root = root\<rparr> w)"
proof -
  obtain r0 where "register_all RegisterRoute r0 (sort_key cr_Route declaredRoutes) = Inr r"
    using assms(1) by (auto simp: NewDefaultCommandRegistry_def bind_res_def split: sum.splits)
  then obtain key where key: "normalizeKey (cr_Route reg) = Inr key" "(key, reg\<lparr>cr_Route := key\<rparr>) \<in> set (reg_routes r)"
    using register_all_routes assms(2) by fastforce
  then have "Lookup r (Fields key) = Some (reg\<lparr>cr_Route := key\<rparr>, [])"
    using Lookup_key NewDefault_ok assms(1) by blast
  then show ?thesis using key assms(3) by (simp add: apiExecute_def)
qed


section \<open>Independence of the declaration order\<close>

text \<open>
  A registry to which declarations are added: a declaration that succeeds adds its key, and whether
  it succeeds, and with which error it fails, depends on its key and the keys present only.
\<close>
locale keyed_registry =
  fixes register :: "'r \<Rightarrow> 'a \<Rightarrow> 'r result" and key :: "'a \<Rightarrow> string" and keys :: "'r \<Rightarrow> string list"
    and ctx :: "'r \<Rightarrow> 'c" and declared :: "'a \<Rightarrow> bool"
  assumes register_key: "\<lbrakk>declared x; register r x = Inr r'\<rbrakk> \<Longrightarrow> keys r' = key x # keys r \<and> key x \<notin> set (keys r) \<and> ctx r' = ctx r"
    and register_error: "\<lbrakk>declared x; declared y; key x = key y; keys r = keys s; ctx r = ctx s; register r x = Inl e\<rbrakk> \<Longrightarrow> register s y = Inl e"
begin

lemma success_distinct:
  "\<lbrakk>register_all register r xs = Inr r'; \<forall>x\<in>set xs. declared x; distinct (keys r)\<rbrakk> \<Longrightarrow> distinct (map key xs)"
proof -
  have "register_all register r xs = Inr r' \<Longrightarrow> \<forall>x\<in>set xs. declared x \<Longrightarrow> distinct (keys r) \<Longrightarrow>
    distinct (map key xs) \<and> set (map key xs) \<inter> set (keys r) = {}"
  proof (induction xs arbitrary: r)
    case (Cons x xs)
    obtain r1 where r1: "register r x = Inr r1" "register_all register r1 xs = Inr r'"
      using Cons.prems(1) by (cases "register r x") (auto simp: bind_res_def)
    have k: "keys r1 = key x # keys r" "key x \<notin> set (keys r)" using register_key [OF _ r1(1)] Cons.prems(2) by auto
    show ?case using Cons.IH [OF r1(2)] Cons.prems k by auto
  qed simp
  then show "\<lbrakk>register_all register r xs = Inr r'; \<forall>x\<in>set xs. declared x; distinct (keys r)\<rbrakk> \<Longrightarrow> distinct (map key xs)" by blast
qed

lemma error_by_keys:
  "\<lbrakk>register_all register r xs = Inl e; map key xs = map key ys; \<forall>x\<in>set xs \<union> set ys. declared x; keys r = keys s; ctx r = ctx s\<rbrakk> \<Longrightarrow>
   register_all register s ys = Inl e"
proof (induction xs arbitrary: ys r s)
  case (Cons x xs)
  then obtain y ys' where ys: "ys = y # ys'" "key x = key y" "map key xs = map key ys'" by auto
  have d: "declared x" "declared y" using Cons.prems(3) ys by auto
  show ?case
  proof (cases "register r x")
    case (Inl e')
    then show ?thesis using Cons.prems register_error [OF d ys(2)] ys by (simp add: bind_res_def)
  next
    case (Inr r1)
    obtain s1 where s1: "register s y = Inr s1"
      using register_error [OF d(2,1) ys(2) [symmetric]] Cons.prems(4,5) Inr by (cases "register s y") force+
    have "register_all register s1 ys' = Inl e"
      by (rule Cons.IH [of r1]) (use Cons.prems ys Inr s1 d register_key in \<open>auto simp: bind_res_def\<close>)
    then show ?thesis by (simp add: ys s1 bind_res_def)
  qed
qed simp

lemma order_independent:
  assumes "mset xs = mset ys" "\<forall>x\<in>set xs. declared x" "distinct (keys r)"
  shows "register_all register r (sort_key key xs) = register_all register r (sort_key key ys)"
proof (cases "distinct (map key xs)")
  case True
  have "sort_key key xs = sort_key key ys"
    by (rule sort_key_inj_key_eq) (use assms(1) True in \<open>auto simp: distinct_map mset_sort\<close>)
  then show ?thesis by simp
next
  case False
  have s: "set xs = set ys" using assms(1) mset_eq_setD by blast
  have "mset (map key (sort_key key xs)) = mset (map key (sort_key key ys))" using assms(1) by (simp add: mset_map)
  then have "map key (sort_key key xs) = map key (sort_key key ys)"
    by (metis properties_for_sort sorted_sort_key)
  moreover have "\<not> distinct (map key (sort_key key xs))"
    using False by (metis distinct_sort mset_map mset_eq_imp_distinct_iff mset_sort)
  then obtain e where "register_all register r (sort_key key xs) = Inl e"
    using success_distinct [of r "sort_key key xs"] assms by (cases "register_all register r (sort_key key xs)") auto
  ultimately show ?thesis using error_by_keys [of r "sort_key key xs" e "sort_key key ys" r] assms(2) s by auto
qed

end

definition declared_scope :: "ScopeRegistration \<Rightarrow> bool" where
  "declared_scope x \<longleftrightarrow> normalizeKey (sr_Scope x) = Inr (sr_Scope x)"

definition declared_route :: "'w CommandRegistration \<Rightarrow> bool" where
  "declared_route x \<longleftrightarrow> normalizeKey (cr_Route x) = Inr (cr_Route x) \<and> cr_Handler x \<noteq> None"

interpretation scope_registry: keyed_registry RegisterScope sr_Scope "\<lambda>r. map fst (reg_scopes r)" "\<lambda>_. ()" declared_scope
  by unfold_locales
     (auto simp: RegisterScope_def declared_scope_def map_of_eq_None_iff simp flip: set_map split: if_splits)

interpretation route_registry: keyed_registry RegisterRoute cr_Route "\<lambda>r. map fst (reg_routes r)"
  "\<lambda>r. fst ` set (reg_scopes r)" declared_route
  by unfold_locales
     (auto simp: RegisterRoute_def declared_route_def map_of_eq_None_iff simp flip: set_map split: if_splits)

text \<open>
  Declaration order does not matter. For declarations as the package collects them (in normal form,
  with a handler), any two orders of the scope and route declarations across files build the same
  registry, or fail with the same diagnostic.
\<close>
theorem declaration_order_irrelevant:
  assumes "mset scopes = mset scopes'" and "mset routes = mset routes'"
    and "\<forall>s\<in>set scopes. declared_scope s" and "\<forall>x\<in>set routes. declared_route x"
  shows "NewDefaultCommandRegistry scopes routes = NewDefaultCommandRegistry scopes' routes'"
proof -
  have s: "register_all RegisterScope NewCommandRegistry (sort_key sr_Scope scopes) =
      register_all RegisterScope (NewCommandRegistry :: 'a CommandRegistry) (sort_key sr_Scope scopes')"
    by (rule scope_registry.order_independent) (use assms in \<open>auto simp: NewCommandRegistry_def\<close>)
  have r: "reg_routes r = []" if "register_all RegisterScope NewCommandRegistry xs = Inr r" for xs and r :: "'a CommandRegistry"
    using that
    by (rule register_all_induct [where P = "\<lambda>r. reg_routes r = []"])
       (auto simp: NewCommandRegistry_def RegisterScope_def split: sum.splits if_splits)
  have "register_all RegisterRoute r (sort_key cr_Route routes) = register_all RegisterRoute r (sort_key cr_Route routes')"
    if "reg_routes r = []" for r
    by (rule route_registry.order_independent) (use assms that in auto)
  then show ?thesis
    unfolding NewDefaultCommandRegistry_def s
    by (auto simp: bind_res_def dest: r split: sum.split)
qed

section \<open>Arguments after the route\<close>

text \<open>A blank argument right after the words of a route is taken into the route: the key of the longer
  prefix is the same, so the handler never sees the argument.\<close>
theorem blank_argument_swallowed:
  assumes "registry_ok r" "(key, reg) \<in> set (reg_routes r)" "\<forall>c\<in>set blank. is_space c"
  shows "Lookup r (Fields key @ [blank]) = Some (reg, [])"
proof -
  have k: "normalizeKey key = Inr key" using assms by (auto simp: registry_ok_def)
  obtain ws where ws: "key = Join '' '' ws" "ws \<noteq> []" "\<forall>w\<in>set ws. routeWordPattern w" using k by (auto simp: normalizeKey_Inr_iff)
  have f: "Fields key = ws" using ws normal_words(2) by simp
  have low: "\<forall>c\<in>set (ToLower blank). is_space c"
    using assms(3) by (auto simp: ToLower_def lower_char_def is_space_def Let_def)
  have tail: "Fields (w @ CHR '' '' # ToLower blank) = [w]" if "routeWordPattern w" for w
    using routeWord_chars [OF that] Fields_blank [OF low] by (simp add: Fields_word)
  have "Fields (Join '' '' (ws @ [ToLower blank])) = ws" using ws(2,3)
  proof (induction ws)
    case (Cons w ws)
    show ?case
    proof (cases "ws = []")
      case True
      then show ?thesis using tail Cons.prems by simp
    next
      case False
      then show ?thesis using Cons routeWord_chars [of w] by (simp add: Join_Cons Fields_word)
    qed
  qed simp
  moreover have "map ToLower ws = ws" using ws(3) by (intro map_idI) (auto simp: routeWord_chars)
  ultimately have n: "normalizeKey (Join '' '' (ws @ [blank])) = Inr key"
    using ws by (simp add: normalizeKey_Inr_iff ToLower_Join)
  have "route_at r (ws @ [blank]) (Suc (length ws)) = Some reg"
    using assms n by (simp add: route_at_def map_of_eq_Some_iff registry_ok_def)
  then show ?thesis by (simp add: Lookup_def f lookupFrom_Suc)
qed

section \<open>A concrete registry\<close>

definition echo :: "unit CommandHandler" where
  "echo request w = (\<lparr>res_ExitCode = 0, res_Stdout = Join '','' (rq_Args request), res_Stderr = []\<rparr>, w)"

definition demo_scopes :: "ScopeRegistration list" where
  "demo_scopes = [\<lparr>sr_Scope = ''pool'', sr_Summary = ''Pools.''\<rparr>]"

definition demo_routes :: "unit CommandRegistration list" where
  "demo_routes = [\<lparr>cr_Route = ''pool rename'', cr_Summary = ''Rename.'', cr_Handler = Some echo\<rparr>,
     \<lparr>cr_Route = ''pool create'', cr_Summary = ''Create.'', cr_Handler = Some echo\<rparr>]"

definition demo_registry :: "unit CommandRegistry" where
  "demo_registry = \<lparr>reg_routes = map (\<lambda>x. (cr_Route x, x)) demo_routes, reg_scopes = map (\<lambda>x. (sr_Scope x, x)) demo_scopes\<rparr>"

lemma demo_keys:
  "normalizeKey ''pool'' = Inr ''pool''" "normalizeKey ''pool create'' = Inr ''pool create''"
  "normalizeKey ''pool rename'' = Inr ''pool rename''" "normalizeKey ''pool create --show'' = Inl (Code ''not a valid route word'')"
  by code_simp+

lemma demo_scope: "routeScope ''pool create'' = ''pool''" "routeScope ''pool rename'' = ''pool''" "Contains ''pool'' '' '' = False"
  "''pool rename'' \<le> ''pool create'' = False" "''pool create'' \<le> ''pool rename''"
  by code_simp+

lemma demo_built: "NewDefaultCommandRegistry demo_scopes demo_routes = Inr demo_registry"
  by (simp add: NewDefaultCommandRegistry_def demo_scopes_def demo_routes_def demo_registry_def demo_scope demo_keys bind_res_def
      RegisterScope_def RegisterRoute_def NewCommandRegistry_def)


theorem declaration_order_irrelevant_witness:
  "NewDefaultCommandRegistry demo_scopes demo_routes = NewDefaultCommandRegistry demo_scopes (rev demo_routes)"
  by (rule declaration_order_irrelevant)
     (simp_all add: demo_scopes_def demo_routes_def declared_scope_def declared_route_def demo_keys)

theorem Lookup_longest_witness:
  "Lookup demo_registry [''pool'', ''create'', ''--show''] = Some (demo_routes ! 1, [''--show''])"
proof -
  have r: "route_at demo_registry [''pool'', ''create'', ''--show''] 2 = Some (demo_routes ! 1)"
    "route_at demo_registry [''pool'', ''create'', ''--show''] 3 = None"
    by (simp_all add: route_at_def demo_registry_def demo_routes_def demo_keys numeral_3_eq_3 numeral_2_eq_2)
  have "{2<..Suc (Suc (Suc 0))} = {3}" by auto
  then show ?thesis
    using r by (intro Lookup_longest [THEN conjunct1, THEN iffD2] bexI [of _ 2]) simp_all
qed

end
