(* ===== verification/PoolPlan.thy ===== *)
theory PoolPlan
  imports Pool
begin

text \<open>
  Correctness of the reviewed pool change: a plan that was just built passes both gates, a plan
  is refused once the show revision has moved, applying a plan keeps every reference resolved,
  and the addresses a plan proposes never collide.
\<close>

section \<open>The two gates\<close>

lemmas plan_defs = planBody.defs

lemma BuildImpactPlan_InrD:
  assumes "BuildImpactPlan encode digest pools deployments groups rv req = Inr plan"
  obtains pr addOps where
    "proposeAdds req deployments 0 (req_Add req) (initialProposed deployments) = Inr (pr, addOps)"
    "plan_Operations plan = addOps @ removeInstanceOps req deployments @ removeGroupOps req groups"
    "planRequest plan = req" "plan_ExpectedRevision plan = rv" "plan_SchemaVersion plan = ImpactSchemaVersion"
    "plan_Warnings plan = []" "plan_Errors plan = []"
    "computePlanID encode digest (bodyOf plan) = Inr (plan_PlanID plan)"
    "\<exists>p. findPool pools (req_PoolID req) = Some p \<and> set (req_Remove req) \<subseteq> mem_ID ` set (pool_Members p)"
  using assms
  by (auto simp: BuildImpactPlan_def bind_res_Inr_iff Let_def planRequest_def bodyOf_def plan_defs
      subset_iff split: option.splits if_splits)

text \<open>
  A plan that was just built is accepted by both gates against the state it was built from:
  its own hash matches and rebuilding it reproduces its identity, whatever the encoder and the
  digest are.
\<close>
theorem built_plan_passes_gates:
  assumes "BuildImpactPlan encode digest pools deployments groups rv req = Inr plan"
  shows "ValidatePlanIntegrity encode digest plan = None \<and>
    ValidatePlanFreshness encode digest plan pools deployments groups rv = None"
  using BuildImpactPlan_InrD [OF assms]
proof cases
  case 1
  have "plan\<lparr>plan_Warnings := plan_Warnings plan, plan_Errors := plan_Errors plan\<rparr> = plan" by simp
  then have same: "plan\<lparr>plan_Warnings := [], plan_Errors := []\<rparr> = plan" by (simp only: 1(6,7))
  show ?thesis using 1 assms by (simp add: ValidatePlanIntegrity_def ValidatePlanFreshness_def same)
qed

lemma stale_plan_gate:
  assumes coll: "\<And>b c x y. encode b = Inr x \<Longrightarrow> encode c = Inr y \<Longrightarrow> digest x = digest y \<Longrightarrow> b = c"
    and ok: "ValidatePlanIntegrity encode digest plan = None"
    and rv: "rv \<noteq> plan_ExpectedRevision plan"
  shows "ValidatePlanFreshness encode digest plan pools deployments groups rv \<noteq> None"
proof
  assume "ValidatePlanFreshness encode digest plan pools deployments groups rv = None"
  then obtain fresh where
    b: "BuildImpactPlan encode digest pools deployments groups rv (planRequest plan) = Inr fresh"
    and same: "computePlanID encode digest
      (bodyOf (fresh\<lparr>plan_Warnings := plan_Warnings plan, plan_Errors := plan_Errors plan\<rparr>)) =
      Inr (plan_PlanID plan)"
    by (auto simp: ValidatePlanFreshness_def split: sum.splits if_splits)
  have "computePlanID encode digest (bodyOf plan) = Inr (plan_PlanID plan)"
    using ok by (auto simp: ValidatePlanIntegrity_def split: sum.splits if_splits)
  then have "bodyOf (fresh\<lparr>plan_Warnings := plan_Warnings plan, plan_Errors := plan_Errors plan\<rparr>) = bodyOf plan"
    using same coll by (auto simp: computePlanID_def split: sum.splits)
  then have "plan_ExpectedRevision fresh = plan_ExpectedRevision plan"
    by (simp add: bodyOf_def plan_defs)
  then show False using BuildImpactPlan_InrD [OF b] rv by metis
qed

text \<open>
  Plans are single use.  If the digest of the canonical encoding identifies a plan body
  (SHA-256 over an injective encoding), a plan whose own hash is intact is refused by the
  freshness gate in every show state whose revision is not the reviewed one, in particular
  after its own successful apply, which bumps the revision.
\<close>
theorem stale_plan_refused:
  assumes coll: "\<And>b c x y. encode b = Inr x \<Longrightarrow> encode c = Inr y \<Longrightarrow> digest x = digest y \<Longrightarrow> b = c"
    and ok: "ValidatePlanIntegrity encode digest plan = None"
    and rv: "rv \<noteq> plan_ExpectedRevision plan"
  shows "ValidatePlanFreshness encode digest plan pools deployments groups rv \<noteq> None"
  using stale_plan_gate [OF assms] .

section \<open>References after an apply\<close>

definition refs_resolve :: "Pool list \<Rightarrow> Deployment list \<Rightarrow> Group list \<Rightarrow> bool" where
  "refs_resolve pools deployments groups =
     (ValidateGroupReferences pools groups = None \<and>
      (\<forall>d\<in>set deployments. \<forall>i\<in>set (dep_Instances d).
         \<exists>ms. membersByPool pools (inst_PoolID i) = Some ms \<and> inst_PoolMemberID i \<in> ms))"

lemma mintMembers_length: "mintMembers mint n specs = Inr ms \<Longrightarrow> length ms = length specs"
  by (induction specs arbitrary: n ms) (auto simp: bind_res_Inr_iff)

lemma addInstances_members:
  "addInstances mint plan ms d n ops = Inr (is, n') \<Longrightarrow> i \<in> set is \<Longrightarrow>
   inst_PoolID i = plan_PoolID plan \<and> inst_PoolMemberID i \<in> mem_ID ` set ms"
  by (induction ops arbitrary: n "is" n')
     (auto simp: bind_res_Inr_iff Let_def split: if_splits option.splits)

lemma applyDeployments_instances:
  assumes "applyDeployments mint plan ms n ds = Inr ds'" "d' \<in> set ds'" "i \<in> set (dep_Instances d')"
  shows "(\<exists>d\<in>set ds. i \<in> set (dep_Instances d) \<and> \<not> refersRemoved plan (inst_PoolID i) (inst_PoolMemberID i)) \<or>
    (inst_PoolID i = plan_PoolID plan \<and> inst_PoolMemberID i \<in> mem_ID ` set ms)"
  using assms
proof (induction ds arbitrary: n ds')
  case (Cons d ds)
  from Cons.prems(1) obtain added n' ds'' where *:
    "addInstances mint plan ms d n (plan_Operations plan) = Inr (added, n')"
    "applyDeployments mint plan ms n' ds = Inr ds''"
    "ds' = d\<lparr>dep_Instances :=
       filter (\<lambda>i. \<not> refersRemoved plan (inst_PoolID i) (inst_PoolMemberID i)) (dep_Instances d) @ added\<rparr> # ds''"
    by (auto simp: bind_res_Inr_iff)
  show ?case
  proof (cases "d' \<in> set ds''")
    case True
    then show ?thesis using Cons.IH [OF *(2)] Cons.prems(3) by auto
  next
    case False
    then show ?thesis using Cons.prems * addInstances_members [OF *(1)] by auto
  qed
qed simp

text \<open>The target pool after an apply, as a lookup.\<close>
lemma Apply_members:
  assumes d: "distinct (map pool_ID pools)"
    and n: "index_of (\<lambda>p. pool_ID p = plan_PoolID plan) pools = Some n"
  shows "membersByPool (pools[n := (pools ! n)\<lparr>pool_Members := ms\<rparr>]) i =
    (if i = plan_PoolID plan then Some (mem_ID ` set ms) else membersByPool pools i)"
proof -
  let ?f = "\<lambda>p. p\<lparr>pool_Members := ms\<rparr>"
  let ?u = "update_first (\<lambda>p. pool_ID p = plan_PoolID plan) ?f pools"
  have upd: "pools[n := ?f (pools ! n)] = ?u" by (rule update_first_index [OF n])
  have d': "distinct (map pool_ID ?u)" using d by (simp add: update_first_map)
  have "find_by pool_ID (plan_PoolID plan) pools \<noteq> None"
    using index_of_SomeD [OF n] by (auto simp: find_by_None_iff intro!: rev_image_eqI [of "pools ! n"])
  then show ?thesis
    unfolding upd membersByPool_find [OF d'] membersByPool_find [OF d]
    by (cases "i = plan_PoolID plan")
       (auto simp: find_by_update_first_same find_by_update_first_other)
qed

text \<open>
  Applying a plan never leaves a dangling reference.  If every group reference and every
  deployment instance resolves to an existing pool member before, they all do afterwards:
  removed members disappear from every deployment and group in the same step, and every
  instance that is added points at a member minted by the same apply.
\<close>
theorem Apply_refs_resolve:
  assumes d: "distinct (map pool_ID pools)" and ok: "refs_resolve pools deployments groups"
    and a: "Apply mint pools deployments groups plan = Inr (pools', deployments', groups')"
  shows "refs_resolve pools' deployments' groups'"
proof -
  obtain n ms where n: "index_of (\<lambda>p. pool_ID p = plan_PoolID plan) pools = Some n"
    and ms: "mintMembers mint 0 (plan_Add plan) = Inr ms"
    and ds: "applyDeployments mint plan ms (length (plan_Add plan)) deployments = Inr deployments'"
    and p: "pools' = pools[n := (pools ! n)\<lparr>pool_Members :=
       filter (\<lambda>m. mem_ID m \<notin> set (plan_Remove plan)) (pool_Members (pools ! n)) @ ms\<rparr>]"
    and g: "groups' = map (keepMemberRefs plan) groups"
    using a by (auto simp: Apply_def Let_def bind_res_Inr_iff split: if_splits option.splits)
  have at_n: "membersByPool pools (plan_PoolID plan) = Some (mem_ID ` set (pool_Members (pools ! n)))"
  proof -
    have "find_by pool_ID (plan_PoolID plan) pools = Some (pools ! n)"
      using index_of_SomeD [OF n] d by (simp add: find_by_Some_iff)
    then show ?thesis using d by (simp add: membersByPool_find)
  qed
  have keep: "\<exists>ms'. membersByPool pools' q = Some ms' \<and> m \<in> ms'"
    if "membersByPool pools q = Some ms0" "m \<in> ms0" "\<not> refersRemoved plan q m" for q m ms0
    using that at_n unfolding p Apply_members [OF d n] by (auto simp: refersRemoved_def)
  have new: "\<exists>ms'. membersByPool pools' (plan_PoolID plan) = Some ms' \<and> m \<in> ms'" if "m \<in> mem_ID ` set ms" for m
    using that unfolding p Apply_members [OF d n] by auto
  have "\<exists>ms0. membersByPool pools (ref_PoolID r) = Some ms0 \<and> ref_PoolMemberID r \<in> ms0"
    if "h \<in> set groups" "r \<in> set (group_MemberRefs h)" for h r
    using ok that by (auto simp: refs_resolve_def ValidateGroupReferences_def)
  then have "ValidateGroupReferences pools' groups' = None"
    by (simp add: ValidateGroupReferences_def g keepMemberRefs_def) (metis keep)
  moreover have "\<exists>ms'. membersByPool pools' (inst_PoolID i) = Some ms' \<and> inst_PoolMemberID i \<in> ms'"
    if "d' \<in> set deployments'" "i \<in> set (dep_Instances d')" for d' i
    using applyDeployments_instances [OF ds that] ok keep new unfolding refs_resolve_def by metis
  ultimately show ?thesis by (simp add: refs_resolve_def)
qed

section \<open>Proposed addresses\<close>

text \<open>The slots a list of operations adds to one deployment, in order.\<close>
definition slots_for :: "uuid \<Rightarrow> ImpactOp list \<Rightarrow> (int \<times> int) list" where
  "slots_for i ops =
     map (\<lambda>op. (op_ProposedUniverse op, op_ProposedAddress op))
       (filter (\<lambda>op. op_DependentKind op = ''deployment_instance'' \<and> op_Action op = ''add'' \<and>
                     op_DependentID op = i) ops)"

lemma slots_for_append [simp]: "slots_for i (a @ b) = slots_for i a @ slots_for i b"
  by (simp add: slots_for_def)

lemma slots_for_removals [simp]:
  "slots_for i (removeInstanceOps req ds) = []" "slots_for i (removeGroupOps req gs) = []"
  by (auto simp: slots_for_def removeInstanceOps_def removeGroupOps_def removeOp_def filter_empty_conv)

lemma slots_for_addOp [simp]:
  "slots_for i (addOp d k slot # ops) = (if dep_ID d = i then [slot] else []) @ slots_for i ops"
  by (simp add: slots_for_def addOp_def)

lemma pseudoInstance_slot [simp]:
  "inst_Universe (pseudoInstance s) = fst s" "inst_Address (pseudoInstance s) = snd s"
  by (simp_all add: pseudoInstance_def)

lemma proposeInstances_slots:
  assumes "req_StartAddress req \<le> 512"
    and "proposeInstances req k c ds proposed = Inr (proposed', ops)"
  shows "proposed' i = proposed i @ map pseudoInstance (slots_for i ops) \<and>
    (patch_ok (proposed i) \<longrightarrow> patch_ok (proposed' i))"
  using assms(2)
proof (induction ds arbitrary: proposed ops)
  case Nil
  then show ?case by (simp add: slots_for_def)
next
  case (Cons d ds)
  show ?case
  proof (cases "\<not> deploymentUsesPool d (req_PoolID req) \<and> dep_ID d \<notin> set (req_AttachDeployments req)")
    case True
    then have "proposeInstances req k c ds proposed = Inr (proposed', ops)" using Cons.prems by simp
    then show ?thesis by (rule Cons.IH)
  next
    case False
    then obtain slot ops' where
      s: "NextFreeAddressFrom (proposed (dep_ID d)) c (req_StartUniverse req) (req_StartAddress req) = Inr slot"
      and rec: "proposeInstances req k c ds
        (proposed(dep_ID d := proposed (dep_ID d) @ [pseudoInstance slot])) = Inr (proposed', ops')"
      and ops: "ops = addOp d k slot # ops'"
      using Cons.prems by (auto simp: bind_res_Inr_iff split: sum.splits)
    have "patch_ok (proposed (dep_ID d)) \<Longrightarrow> patch_ok (proposed (dep_ID d) @ [pseudoInstance slot])"
      using patch_ok_append [of "proposed (dep_ID d)", OF _ assms(1)] s by (cases slot) simp
    then show ?thesis using Cons.IH [OF rec] by (auto simp: ops)
  qed
qed

lemma proposeAdds_slots:
  assumes "req_StartAddress req \<le> 512"
    and "proposeAdds req ds k specs proposed = Inr (proposed', ops)"
  shows "proposed' i = proposed i @ map pseudoInstance (slots_for i ops) \<and>
    (patch_ok (proposed i) \<longrightarrow> patch_ok (proposed' i))"
  using assms(2)
proof (induction specs arbitrary: k proposed ops)
  case Nil
  then show ?case by (simp add: slots_for_def)
next
  case (Cons spec specs)
  then obtain pr ops1 ops2 c where
    1: "proposeInstances req k c ds proposed = Inr (pr, ops1)"
    and 2: "proposeAdds req ds (Suc k) specs pr = Inr (proposed', ops2)" "ops = ops1 @ ops2"
    by (auto simp: bind_res_Inr_iff Let_def)
  show ?case using proposeInstances_slots [OF assms(1) 1, of i] Cons.IH [OF 2(1)] 2(2) by auto
qed

lemma addInstances_slots:
  "addInstances mint plan ms d n ops = Inr (is, n') \<Longrightarrow>
   map (\<lambda>i. (inst_Universe i, inst_Address i)) is = slots_for (dep_ID d) ops"
proof (induction ops arbitrary: n "is" n')
  case (Cons op ops)
  then show ?case
    by (cases "op_DependentKind op \<noteq> ''deployment_instance'' \<or> op_Action op \<noteq> ''add'' \<or> op_DependentID op \<noteq> dep_ID d")
       (auto simp: slots_for_def bind_res_Inr_iff Let_def split: if_splits option.splits)
qed (simp add: slots_for_def)

lemma applyDeployments_slots:
  assumes "applyDeployments mint plan ms n ds = Inr ds'" "d' \<in> set ds'"
  obtains d added where "d \<in> set ds" "dep_ID d' = dep_ID d"
    "dep_Instances d' =
       filter (\<lambda>i. \<not> refersRemoved plan (inst_PoolID i) (inst_PoolMemberID i)) (dep_Instances d) @ added"
    "map (\<lambda>i. (inst_Universe i, inst_Address i)) added = slots_for (dep_ID d) (plan_Operations plan)"
  using assms
proof (induction ds arbitrary: n ds' thesis)
  case (Cons d ds)
  from Cons.prems(2) obtain added n' ds'' where *:
    "addInstances mint plan ms d n (plan_Operations plan) = Inr (added, n')"
    "applyDeployments mint plan ms n' ds = Inr ds''"
    "ds' = d\<lparr>dep_Instances :=
       filter (\<lambda>i. \<not> refersRemoved plan (inst_PoolID i) (inst_PoolMemberID i)) (dep_Instances d) @ added\<rparr> # ds''"
    by (auto simp: bind_res_Inr_iff)
  show ?case
  proof (cases "d' \<in> set ds''")
    case True
    show ?thesis by (rule Cons.IH [OF _ *(2) True]) (use Cons.prems(1) in auto)
  next
    case False
    then have "d' = d\<lparr>dep_Instances :=
       filter (\<lambda>i. \<not> refersRemoved plan (inst_PoolID i) (inst_PoolMemberID i)) (dep_Instances d) @ added\<rparr>"
      using Cons.prems(3) * by simp
    then show ?thesis
      using addInstances_slots [OF *(1)] by (intro Cons.prems(1) [of d added]) simp_all
  qed
qed simp


section \<open>A concrete change\<close>

text \<open>One pool with one patched member; the request replaces that member by two new ones.\<close>
definition demo_pools :: "Pool list" where
  "demo_pools = [\<lparr>pool_ID = 7, pool_Name = ''wash'', pool_RequiredCapabilities = [],
     pool_Members = [\<lparr>mem_ID = 11, mem_FixtureStableKey = ''a'', mem_FixtureContentHash = ''h''\<rparr>]\<rparr>]"

definition demo_deployments :: "Deployment list" where
  "demo_deployments = [\<lparr>dep_ID = 3, dep_Name = ''club'', dep_Active = True,
     dep_Instances = [\<lparr>inst_ID = 21, inst_PoolID = 7, inst_PoolMemberID = 11, inst_Mode = ''m'',
       inst_Universe = 1, inst_Address = 1\<rparr>]\<rparr>]"

definition demo_groups :: "Group list" where
  "demo_groups = [\<lparr>group_ID = 5, group_Name = ''g'', group_MemberRefs = [\<lparr>ref_PoolID = 7, ref_PoolMemberID = 11\<rparr>]\<rparr>]"

definition demo_request :: ImpactRequest where
  "demo_request =
     (let spec = \<lparr>spec_FixtureStableKey = ''b'', spec_FixtureContentHash = ''k'', spec_Mode = ''m'', spec_ChannelCount = 4\<rparr> in
      \<lparr>req_PoolID = 7, req_Add = [spec, spec], req_Remove = [11], req_AttachDeployments = [],
       req_StartUniverse = 0, req_StartAddress = 0, req_Propagate = ''preview''\<rparr>)"

definition demo_body :: "int \<Rightarrow> planBody" where
  "demo_body rv =
     \<lparr>plan_SchemaVersion = 1, plan_PoolID = 7, plan_Add = req_Add demo_request, plan_Remove = [11],
      plan_AttachDeployments = [], plan_StartUniverse = 0, plan_StartAddress = 0, plan_Propagate = ''preview'',
      plan_ExpectedRevision = rv,
      plan_Operations =
        [addOp (hd demo_deployments) 0 (1, 5), addOp (hd demo_deployments) 1 (1, 9),
         removeOp ''deployment_instance'' ''club'' 3 11, removeOp ''group_member'' ''g'' 5 11],
      plan_Warnings = [], plan_Errors = []\<rparr>"

text \<open>An encoder that knows the two revisions of this plan body, and fails on anything else.\<close>
definition demo_encode :: "planBody \<Rightarrow> string result" where
  "demo_encode b = (if b = demo_body 4 then Inr ''r4'' else if b = demo_body 5 then Inr ''r5''
                    else Inl (Code ''unsupported''))"

definition demo_plan :: ImpactPlan where
  "demo_plan = planBody.extend (demo_body 4) \<lparr>plan_PlanID = ''r4''\<rparr>"

definition demo_mint :: "nat \<Rightarrow> uuid option" where "demo_mint n = Some (100 + of_nat n)"

lemma demo_build: "BuildImpactPlan demo_encode id demo_pools demo_deployments demo_groups 4 demo_request = Inr demo_plan"
  by code_simp

theorem built_plan_passes_gates_witness:
  "ValidatePlanIntegrity demo_encode id demo_plan = None \<and>
   ValidatePlanFreshness demo_encode id demo_plan demo_pools demo_deployments demo_groups 4 = None"
  by (rule built_plan_passes_gates [OF demo_build])

lemma demo_encode_inj:
  "demo_encode b = Inr x \<Longrightarrow> demo_encode c = Inr y \<Longrightarrow> id x = id y \<Longrightarrow> b = c"
  by (auto simp: demo_encode_def split: if_splits)

theorem stale_plan_refused_witness:
  "ValidatePlanFreshness demo_encode id demo_plan demo_pools demo_deployments demo_groups 5 \<noteq> None"
proof (rule stale_plan_refused)
  show "ValidatePlanIntegrity demo_encode id demo_plan = None" by code_simp
  show "5 \<noteq> plan_ExpectedRevision demo_plan" by code_simp
qed (rule demo_encode_inj)

lemma demo_apply:
  obtains ps ds gs where "Apply demo_mint demo_pools demo_deployments demo_groups demo_plan = Inr (ps, ds, gs)"
proof -
  have "is_ok (Apply demo_mint demo_pools demo_deployments demo_groups demo_plan)" by code_simp
  then show ?thesis using that
    by (cases "Apply demo_mint demo_pools demo_deployments demo_groups demo_plan") auto
qed

theorem Apply_refs_resolve_witness:
  "\<exists>ps ds gs. Apply demo_mint demo_pools demo_deployments demo_groups demo_plan = Inr (ps, ds, gs) \<and>
    refs_resolve ps ds gs"
proof -
  obtain ps ds gs where a: "Apply demo_mint demo_pools demo_deployments demo_groups demo_plan = Inr (ps, ds, gs)"
    by (rule demo_apply)
  have "distinct (map pool_ID demo_pools)" by code_simp
  moreover have "refs_resolve demo_pools demo_deployments demo_groups"
    by (simp add: refs_resolve_def ValidateGroupReferences_def membersByPool_def demo_pools_def
        demo_deployments_def demo_groups_def)
  ultimately show ?thesis using Apply_refs_resolve [OF _ _ a] a by blast
qed


theorem DeletePool_cascade_witness:
  "\<exists>ps ds gs. DeletePool demo_pools demo_deployments demo_groups 7 = Inr (ps, ds, gs) \<and>
    (\<forall>d\<in>set ds. \<forall>i\<in>set (dep_Instances d). inst_PoolID i \<noteq> 7)"
proof -
  have "is_ok (DeletePool demo_pools demo_deployments demo_groups 7)" by code_simp
  then obtain ps ds gs where a: "DeletePool demo_pools demo_deployments demo_groups 7 = Inr (ps, ds, gs)"
    by (cases "DeletePool demo_pools demo_deployments demo_groups 7") auto
  then show ?thesis using DeletePool_cascade [OF a] by blast
qed

end
