(* ===== verification/Substitution.thy ===== *)
theory Substitution
  imports PoolPlan ShowState
begin

text \<open>
  \<open>src/internal/substitution/plan.go\<close>: replacing the fixtures of a pool by another model.  The
  capability difference of the two definitions becomes the warnings of an ordinary impact plan,
  and an invalid target its blocking error.  The human-readable text of a warning or error
  (\<open>fmt.Sprintf\<close>) is an argument; the codes are written out.

  The theorems: the range test of the difference is exactly set inclusion of the covered values; a
  substitution plan passes both gates of the pool package, replaces one for one, and can be
  applied only when the target fixture is valid.
\<close>

section \<open>Capability difference\<close>

datatype CapabilityGapSeverity = SeverityMissing | SeverityIncompatible | SeverityUnsupported

record CapabilityGap =
  gap_Severity :: CapabilityGapSeverity
  gap_CapabilityType :: CapabilityType
  gap_Detail :: string

record SubstitutionRequest =
  sub_PoolID :: uuid
  sub_FromFixtureRef :: string
  sub_ToFixtureRef :: string

fun capabilityWarningCode :: "CapabilityGapSeverity \<Rightarrow> string" where
  "capabilityWarningCode SeverityMissing = ''GOLC_SUBSTITUTION_CAPABILITY_MISSING''"
| "capabilityWarningCode SeverityIncompatible = ''GOLC_SUBSTITUTION_CAPABILITY_INCOMPATIBLE''"
| "capabilityWarningCode SeverityUnsupported = ''GOLC_SUBSTITUTION_CAPABILITY_UNSUPPORTED''"

text \<open>An absent key reads as the nil slice; a key is present exactly when its slice is not empty.\<close>
definition groupRangesByType :: "Capability list \<Rightarrow> CapabilityType \<Rightarrow> (f64 \<times> f64) list" where
  "groupRangesByType caps t = map cap_Range (filter (\<lambda>c. cap_Type c = t) caps)"

text \<open>One turn of the merging loop.\<close>
definition mergeStep :: "f64 \<times> f64 \<Rightarrow> (f64 \<times> f64) list \<Rightarrow> (f64 \<times> f64) list" where
  "mergeStep r merged =
     (if merged \<noteq> [] \<and> fst r \<le> snd (last merged)
      then if snd r > snd (last merged) then merged[length merged - 1 := (fst (last merged), snd r)] else merged
      else merged @ [r])"

definition mergeRanges :: "(f64 \<times> f64) list \<Rightarrow> (f64 \<times> f64) list" where
  "mergeRanges ranges = fold mergeStep (sort_slice (\<lambda>a b. fst a < fst b) ranges) []"

definition containedInMerged :: "f64 \<times> f64 \<Rightarrow> (f64 \<times> f64) list \<Rightarrow> bool" where
  "containedInMerged r merged = (\<exists>m\<in>set merged. fst r \<ge> fst m \<and> snd r \<le> snd m)"

definition rangesCovered :: "(f64 \<times> f64) list \<Rightarrow> (f64 \<times> f64) list \<Rightarrow> bool" where
  "rangesCovered fromRanges toRanges =
     (let mergedTo = mergeRanges toRanges in \<forall>r\<in>set fromRanges. containedInMerged r mergedTo)"

text \<open>\<open>detail\<close> renders the text of a gap.\<close>
definition diffCapabilities ::
  "(CapabilityGapSeverity \<Rightarrow> CapabilityType \<Rightarrow> string) \<Rightarrow> FixtureDefinition \<Rightarrow> FixtureDefinition \<Rightarrow> CapabilityGap list" where
  "diffCapabilities detail from to =
     (let fromByType = groupRangesByType (def_Capabilities from);
          toByType = groupRangesByType (def_Capabilities to);
          gap = (\<lambda>sev t. \<lparr>gap_Severity = sev, gap_CapabilityType = t, gap_Detail = detail sev t\<rparr>) in
      concat (map (\<lambda>t.
        if fromByType t = [] then []
        else if toByType t = [] then [gap SeverityMissing t]
        else if \<not> rangesCovered (fromByType t) (toByType t) then [gap SeverityIncompatible t]
        else if length (fromByType t) > length (toByType t) then [gap SeverityUnsupported t]
        else []) SupportedCapabilityTypes))"

section \<open>The plan\<close>

definition poolByID :: "Pool list \<Rightarrow> uuid \<Rightarrow> Pool option" where
  "poolByID pools i = find_by pool_ID i pools"

definition modeFor :: "FixtureDefinition \<Rightarrow> string" where
  "modeFor def = (case def_Modes def of m # _ \<Rightarrow> mode_Name m | [] \<Rightarrow> [])"

definition BuildSubstitutionPlan ::
  "(FixtureDefinition \<Rightarrow> string result) \<Rightarrow> (string \<Rightarrow> string) \<Rightarrow> (planBody \<Rightarrow> string result) \<Rightarrow> (string \<Rightarrow> string) \<Rightarrow>
   (CapabilityGapSeverity \<Rightarrow> CapabilityType \<Rightarrow> string) \<Rightarrow> (golc_error \<Rightarrow> string) \<Rightarrow>
   State \<Rightarrow> FixtureDefinition \<Rightarrow> FixtureDefinition \<Rightarrow> SubstitutionRequest \<Rightarrow> ImpactPlan result" where
  "BuildSubstitutionPlan fix_encode sha encode digest detail err_text state from to req =
     (case poolByID (st_Pools state) (sub_PoolID req) of
        None \<Rightarrow> Inl (Code ''GOLC_SUBSTITUTION_POOL_NOT_FOUND'')
      | Some targetPool \<Rightarrow>
          let removeIDs = map mem_ID (filter (\<lambda>m. mem_FixtureStableKey m = sub_FromFixtureRef req) (pool_Members targetPool)) in
          if removeIDs = [] then Inl (Code ''GOLC_SUBSTITUTION_SOURCE_NOT_FOUND'')
          else case Pin fix_encode sha to of
              Inl e \<Rightarrow> Inl (Wrap ''GOLC_SUBSTITUTION_TARGET_INVALID'' e)
            | Inr toIdentity \<Rightarrow>
                let adds = replicate (length removeIDs)
                      \<lparr>spec_FixtureStableKey = id_StableKey toIdentity, spec_FixtureContentHash = id_ContentHash toIdentity,
                       spec_Mode = modeFor to, spec_ChannelCount = 0\<rparr>;
                    implReq = \<lparr>req_PoolID = sub_PoolID req, req_Add = adds, req_Remove = removeIDs,
                       req_AttachDeployments = [], req_StartUniverse = 0, req_StartAddress = 0, req_Propagate = ''preview''\<rparr> in
                bind_res (BuildImpactPlan encode digest (st_Pools state) (st_Deployments state) (st_Groups state) (st_Revision state) implReq)
                  (\<lambda>plan.
                    let warnings = map (\<lambda>g. \<lparr>note_Code = capabilityWarningCode (gap_Severity g), note_Message = gap_CapabilityType g @ '': '' @ gap_Detail g\<rparr>)
                                     (diffCapabilities detail from to);
                        errs = (case validate_fixture to of
                                  Some e \<Rightarrow> [\<lparr>note_Code = ''GOLC_SUBSTITUTION_TARGET_INVALID'', note_Message = err_text e\<rparr>]
                                | None \<Rightarrow> []);
                        plan1 = plan\<lparr>plan_Warnings := warnings, plan_Errors := errs\<rparr> in
                    bind_res (RecomputePlanID encode digest plan1) (\<lambda>planID. Inr (plan1\<lparr>plan_PlanID := planID\<rparr>))))"

section \<open>The range test is set inclusion\<close>

definition lo :: "f64 \<times> f64 \<Rightarrow> rat" where "lo r = (case fst r of Fin a \<Rightarrow> a | _ \<Rightarrow> 0)"
definition hi :: "f64 \<times> f64 \<Rightarrow> rat" where "hi r = (case snd r of Fin b \<Rightarrow> b | _ \<Rightarrow> 0)"

text \<open>A range with finite ends in order, and the values it covers.\<close>
definition proper :: "f64 \<times> f64 \<Rightarrow> bool" where
  "proper r = (r = (Fin (lo r), Fin (hi r)) \<and> lo r \<le> hi r)"

definition vals :: "f64 \<times> f64 \<Rightarrow> rat set" where "vals r = {lo r..hi r}"

definition cover :: "(f64 \<times> f64) list \<Rightarrow> rat set" where "cover rs = (\<Union>r\<in>set rs. vals r)"

lemma lo_hi [simp]: "lo (Fin a, y) = a" "hi (x, Fin b) = b" by (simp_all add: lo_def hi_def)

lemma proper_ends: "proper r \<Longrightarrow> fst r = Fin (lo r) \<and> snd r = Fin (hi r) \<and> lo r \<le> hi r"
  unfolding proper_def by (metis fst_conv snd_conv)

text \<open>Merged spans: proper, apart from each other and in order.\<close>
definition separated :: "(f64 \<times> f64) list \<Rightarrow> bool" where
  "separated ms = ((\<forall>m\<in>set ms. proper m) \<and> sorted_wrt (\<lambda>a b. hi a < lo b) ms)"

lemma cover_simps [simp]: "cover [] = {}" "cover (r # rs) = vals r \<union> cover rs" "cover (rs @ ss) = cover rs \<union> cover ss"
  by (simp_all add: cover_def)

lemma mergeStep_separated:
  assumes ms: "separated ms" "\<forall>m\<in>set ms. lo m \<le> lo r" and r: "proper r"
  shows "separated (mergeStep r ms) \<and> cover (mergeStep r ms) = cover ms \<union> vals r \<and> (\<forall>m\<in>set (mergeStep r ms). lo m \<le> lo r)"
proof (cases "ms = []")
  case True
  then show ?thesis using r by (simp add: mergeStep_def separated_def)
next
  case False
  then obtain ns l where ms_eq: "ms = ns @ [l]" by (metis append_butlast_last_id)
  have l: "proper l" "lo l \<le> lo r" "\<forall>n\<in>set ns. hi n < lo l" "separated ns"
    using ms by (auto simp: ms_eq separated_def sorted_wrt_append)
  note e = proper_ends [OF r] proper_ends [OF l(1)]
  show ?thesis
  proof (cases "lo r \<le> hi l")
    case True
    show ?thesis
    proof (cases "hi l < hi r")
      case t2: True
      let ?m = "(fst l, snd r)"
      have m: "proper ?m" "lo ?m = lo l" "hi ?m = hi r" using e l(2) by (auto simp: proper_def)
      have step: "mergeStep r ms = ns @ [?m]" using True t2 e by (simp add: mergeStep_def ms_eq)
      have "vals ?m = vals l \<union> vals r" using True t2 e l(2) m by (auto simp: vals_def)
      then show ?thesis unfolding step using l m ms(2) by (auto simp: ms_eq separated_def sorted_wrt_append)
    next
      case False
      then have step: "mergeStep r ms = ms" using True e by (simp add: mergeStep_def ms_eq)
      have "vals r \<subseteq> vals l" using False l(2) by (auto simp: vals_def)
      then show ?thesis unfolding step using ms by (auto simp: ms_eq)
    qed
  next
    case False
    then have step: "mergeStep r ms = ms @ [r]" using e by (simp add: mergeStep_def ms_eq)
    have "\<forall>m\<in>set ms. hi m < lo r" using False l(2,3) e by (auto simp: ms_eq)
    then show ?thesis unfolding step using ms r by (auto simp: separated_def sorted_wrt_append)
  qed
qed

lemma fold_mergeStep:
  assumes "separated ms" "\<forall>m\<in>set ms. \<forall>r\<in>set rs. lo m \<le> lo r" "\<forall>r\<in>set rs. proper r" "sorted_wrt (\<lambda>a b. lo a \<le> lo b) rs"
  shows "separated (fold mergeStep rs ms) \<and> cover (fold mergeStep rs ms) = cover ms \<union> cover rs"
  using assms
proof (induction rs arbitrary: ms)
  case (Cons r rs)
  from mergeStep_separated [of ms r] Cons.prems have s: "separated (mergeStep r ms)"
    "cover (mergeStep r ms) = cover ms \<union> vals r" "\<forall>m\<in>set (mergeStep r ms). lo m \<le> lo r" by auto
  have "\<forall>m\<in>set (mergeStep r ms). \<forall>x\<in>set rs. lo m \<le> lo x"
    using s(3) Cons.prems(4) by (auto intro: order_trans)
  from Cons.IH [OF s(1) this] Cons.prems s(2) show ?case by auto
qed simp

lemma mergeRanges_separated:
  assumes "\<forall>r\<in>set rs. proper r"
  shows "separated (mergeRanges rs) \<and> cover (mergeRanges rs) = cover rs"
proof -
  let ?s = "sort_slice (\<lambda>a b. fst a < fst b) rs"
  have set: "set ?s = set rs" by simp
  have "\<forall>r\<in>set rs. range_no_nan r" using assms proper_ends by (fastforce simp: range_no_nan_def)
  from range_sort.sort_slice_sorted [OF this] have "sorted_wrt (\<lambda>a b. \<not> fst b < fst a) ?s" .
  then have "sorted_wrt (\<lambda>a b. lo a \<le> lo b) ?s"
  proof (rule sorted_wrt_mono_rel [rotated])
    fix x y
    assume xy: "x \<in> set ?s" "y \<in> set ?s" "\<not> fst y < fst x"
    then have "proper x" "proper y" using assms set by auto
    then show "lo x \<le> lo y" using xy(3) proper_ends [of x] proper_ends [of y] by simp
  qed
  then show ?thesis
    using fold_mergeStep [of "[]" ?s] assms by (simp add: mergeRanges_def separated_def cover_def)
qed

text \<open>An interval inside a union of separated spans lies in one of them.\<close>
lemma separated_contains:
  assumes ms: "separated ms" and r: "proper r" "vals r \<subseteq> cover ms"
  shows "\<exists>m\<in>set ms. lo m \<le> lo r \<and> hi r \<le> hi m"
proof -
  have "lo r \<in> vals r" using proper_ends [OF r(1)] by (simp add: vals_def)
  then obtain m where m: "m \<in> set ms" "lo m \<le> lo r" "lo r \<le> hi m" using r(2) by (auto simp: cover_def vals_def)
  have "hi r \<le> hi m"
  proof (rule ccontr)
    assume "\<not> hi r \<le> hi m"
    let ?S = "insert (hi r) (lo ` {n \<in> set ms. hi m < lo n})"
    have fin: "finite ?S" by simp
    have "hi m < Min ?S" using \<open>\<not> hi r \<le> hi m\<close> fin by (subst Min_gr_iff) auto
    then obtain y where y: "hi m < y" "y < Min ?S" using dense by blast
    have lt: "y < x" if "x \<in> ?S" for x by (rule order_less_le_trans [OF y(2) Min_le [OF fin that]])
    have "y \<in> vals r" using m(3) y(1) lt [of "hi r"] by (simp add: vals_def)
    then obtain n where n: "n \<in> set ms" "lo n \<le> y" "y \<le> hi n" using r(2) by (auto simp: cover_def vals_def)
    have "lo n \<le> hi m" using lt [of "lo n"] n by (cases "hi m < lo n") auto
    moreover have "hi m < hi n" using y n by simp
    moreover have "n = m \<or> hi n < lo m \<or> hi m < lo n"
      using ms m(1) n(1) by (auto simp: separated_def in_set_conv_nth sorted_wrt_iff_nth_less) (metis linorder_neqE_nat)
    ultimately show False using m(2,3) ms m(1) proper_ends by (auto simp: separated_def)
  qed
  then show ?thesis using m by blast
qed

text \<open>
  The range test of the capability difference is exact. For ranges with finite, ordered ends,
  the target's ranges cover the source's by the merging test exactly when every value of every
  source range lies in some target range.
\<close>
theorem rangesCovered_iff_inclusion:
  assumes "\<forall>r\<in>set fromRanges. proper r" and "\<forall>r\<in>set toRanges. proper r"
  shows "rangesCovered fromRanges toRanges \<longleftrightarrow> cover fromRanges \<subseteq> cover toRanges"
proof -
  have m: "separated (mergeRanges toRanges)" "cover (mergeRanges toRanges) = cover toRanges"
    using mergeRanges_separated [OF assms(2)] by auto
  have "containedInMerged r (mergeRanges toRanges) \<longleftrightarrow> vals r \<subseteq> cover toRanges" if "r \<in> set fromRanges" for r
  proof -
    have r: "proper r" using assms(1) that by blast
    have p: "proper x" if "x \<in> set (mergeRanges toRanges)" for x using m(1) that by (simp add: separated_def)
    have "containedInMerged r (mergeRanges toRanges) \<longleftrightarrow> (\<exists>x\<in>set (mergeRanges toRanges). lo x \<le> lo r \<and> hi r \<le> hi x)"
      unfolding containedInMerged_def using proper_ends [OF r] p proper_ends by (intro bex_cong) auto
    moreover have "lo x \<le> lo r \<Longrightarrow> hi r \<le> hi x \<Longrightarrow> x \<in> set (mergeRanges toRanges) \<Longrightarrow> vals r \<subseteq> cover toRanges" for x
    proof -
      assume x: "lo x \<le> lo r" "hi r \<le> hi x" "x \<in> set (mergeRanges toRanges)"
      then have "vals r \<subseteq> vals x" by (auto simp: vals_def)
      also have "vals x \<subseteq> cover (mergeRanges toRanges)" using x(3) by (auto simp: cover_def)
      finally show ?thesis by (simp only: m(2))
    qed
    ultimately show ?thesis using separated_contains [OF m(1) r] m(2) by auto
  qed
  then show ?thesis by (auto simp: rangesCovered_def Let_def cover_def [of fromRanges])
qed

theorem rangesCovered_iff_inclusion_witness:
  "rangesCovered [(Fin (1 / 4), Fin (3 / 4))] [(Fin (1 / 2), Fin 1), (Fin 0, Fin (1 / 2))] \<and>
   cover [(Fin (1 / 4), Fin (3 / 4))] \<subseteq> cover [(Fin (1 / 2), Fin 1), (Fin 0, Fin (1 / 2))]"
proof -
  have "rangesCovered [(Fin (1 / 4), Fin (3 / 4))] [(Fin (1 / 2), Fin 1), (Fin 0, Fin (1 / 2))]" by code_simp
  then show ?thesis
    using rangesCovered_iff_inclusion [of "[(Fin (1 / 4), Fin (3 / 4))]" "[(Fin (1 / 2), Fin 1), (Fin 0, Fin (1 / 2))]"]
    by (simp add: proper_def del: cover_simps)
qed

section \<open>Substitution plans\<close>

definition replaced :: "State \<Rightarrow> SubstitutionRequest \<Rightarrow> PoolMember list" where
  "replaced state req = (case poolByID (st_Pools state) (sub_PoolID req) of
     Some p \<Rightarrow> filter (\<lambda>m. mem_FixtureStableKey m = sub_FromFixtureRef req) (pool_Members p) | None \<Rightarrow> [])"

lemma BuildSubstitutionPlan_InrD:
  assumes "BuildSubstitutionPlan fix_encode sha encode digest detail err_text state from to req = Inr plan"
  obtains plan0 ident where
    "BuildImpactPlan encode digest (st_Pools state) (st_Deployments state) (st_Groups state) (st_Revision state) (planRequest plan) = Inr plan0"
    "plan = plan0\<lparr>plan_Warnings := plan_Warnings plan, plan_Errors := plan_Errors plan, plan_PlanID := plan_PlanID plan\<rparr>"
    "computePlanID encode digest (bodyOf plan) = Inr (plan_PlanID plan)"
    "Pin fix_encode sha to = Inr ident" "plan_PoolID plan = sub_PoolID req"
    "plan_Remove plan = map mem_ID (replaced state req)" "replaced state req \<noteq> []"
    "plan_Add plan = replicate (length (replaced state req))
       \<lparr>spec_FixtureStableKey = id_StableKey ident, spec_FixtureContentHash = id_ContentHash ident, spec_Mode = modeFor to, spec_ChannelCount = 0\<rparr>"
    "plan_Errors plan = [] \<longleftrightarrow> validate_fixture to = None"
    "map note_Code (plan_Warnings plan) = map (capabilityWarningCode \<circ> gap_Severity) (diffCapabilities detail from to)"
proof -
  let ?rm = "map mem_ID (replaced state req)"
  let ?add = "\<lambda>ident. replicate (length (replaced state req)) \<lparr>spec_FixtureStableKey = id_StableKey ident,
      spec_FixtureContentHash = id_ContentHash ident, spec_Mode = modeFor to, spec_ChannelCount = 0\<rparr>"
  let ?req = "\<lambda>ident. \<lparr>req_PoolID = sub_PoolID req, req_Add = ?add ident, req_Remove = ?rm, req_AttachDeployments = [],
      req_StartUniverse = 0, req_StartAddress = 0, req_Propagate = ''preview''\<rparr>"
  let ?w = "map (\<lambda>g. \<lparr>note_Code = capabilityWarningCode (gap_Severity g), note_Message = gap_CapabilityType g @ '': '' @ gap_Detail g\<rparr>)
      (diffCapabilities detail from to)"
  let ?e = "case validate_fixture to of Some e \<Rightarrow> [\<lparr>note_Code = ''GOLC_SUBSTITUTION_TARGET_INVALID'', note_Message = err_text e\<rparr>]
      | None \<Rightarrow> []"
  from assms obtain p where p: "poolByID (st_Pools state) (sub_PoolID req) = Some p"
    by (auto simp: BuildSubstitutionPlan_def split: option.splits)
  then have rp: "replaced state req = filter (\<lambda>m. mem_FixtureStableKey m = sub_FromFixtureRef req) (pool_Members p)"
    by (simp add: replaced_def)
  have ne: "replaced state req \<noteq> []"
    using assms by (auto simp: BuildSubstitutionPlan_def p rp Let_def)
  obtain ident where ident: "Pin fix_encode sha to = Inr ident"
    using assms ne by (cases "Pin fix_encode sha to") (simp_all add: BuildSubstitutionPlan_def p rp Let_def)
  from assms ne obtain plan0 pid where
    b: "BuildImpactPlan encode digest (st_Pools state) (st_Deployments state) (st_Groups state) (st_Revision state) (?req ident) = Inr plan0"
    and pid: "computePlanID encode digest (bodyOf (plan0\<lparr>plan_Warnings := ?w, plan_Errors := ?e\<rparr>)) = Inr pid"
    and plan: "plan = plan0\<lparr>plan_Warnings := ?w, plan_Errors := ?e, plan_PlanID := pid\<rparr>"
    by (auto simp: BuildSubstitutionPlan_def p rp [symmetric] ident Let_def bind_res_Inr_iff RecomputePlanID_def)
  have q0: "planRequest plan0 = ?req ident" using b by (rule BuildImpactPlan_InrD) simp
  have q: "planRequest plan = ?req ident" using q0 by (simp add: plan planRequest_def)
  have f: "plan_PoolID plan = sub_PoolID req" "plan_Add plan = ?add ident" "plan_Remove plan = ?rm"
    using q by (simp_all add: planRequest_def)
  show ?thesis
  proof (rule that)
    show "BuildImpactPlan encode digest (st_Pools state) (st_Deployments state) (st_Groups state) (st_Revision state) (planRequest plan) = Inr plan0"
      by (simp only: q b)
    show "plan = plan0\<lparr>plan_Warnings := plan_Warnings plan, plan_Errors := plan_Errors plan, plan_PlanID := plan_PlanID plan\<rparr>"
      by (simp add: plan)
    show "computePlanID encode digest (bodyOf plan) = Inr (plan_PlanID plan)"
      using pid by (simp add: plan bodyOf_def plan_defs)
    show "plan_Errors plan = [] \<longleftrightarrow> validate_fixture to = None" by (simp add: plan split: option.split)
    show "map note_Code (plan_Warnings plan) = map (capabilityWarningCode \<circ> gap_Severity) (diffCapabilities detail from to)"
      by (simp add: plan)
  qed (fact ident f ne)+
qed

text \<open>
  C40: Substitution plans. A plan that is built passes both gates of the pool package against the
  state it was built from, its warnings notwithstanding; it removes exactly the members of the
  pool that use the source fixture and adds as many members of the target's own identity; its
  warnings are the capability gaps in order; and it carries an error, which makes \<open>Apply\<close> refuse
  it, exactly when the target fixture is invalid.
\<close>
theorem BuildSubstitutionPlan_sound:
  assumes "BuildSubstitutionPlan fix_encode sha encode digest detail err_text state from to req = Inr plan"
  shows "ValidatePlanIntegrity encode digest plan = None \<and>
    ValidatePlanFreshness encode digest plan (st_Pools state) (st_Deployments state) (st_Groups state) (st_Revision state) = None \<and>
    plan_Remove plan = map mem_ID (replaced state req) \<and> plan_Remove plan \<noteq> [] \<and>
    (\<exists>ident. Pin fix_encode sha to = Inr ident \<and> plan_Add plan = replicate (length (plan_Remove plan))
       \<lparr>spec_FixtureStableKey = id_StableKey ident, spec_FixtureContentHash = id_ContentHash ident, spec_Mode = modeFor to, spec_ChannelCount = 0\<rparr>) \<and>
    map note_Code (plan_Warnings plan) = map (capabilityWarningCode \<circ> gap_Severity) (diffCapabilities detail from to) \<and>
    (if validate_fixture to = None then plan_Errors plan = []
     else Apply mint (st_Pools state) (st_Deployments state) (st_Groups state) plan = Inl (Code ''GOLC_POOL_APPLY_PLAN_ERRORS''))"
  using BuildSubstitutionPlan_InrD [OF assms]
proof cases
  case (1 plan0 ident)
  have schema: "plan_SchemaVersion plan = ImpactSchemaVersion"
    using 1(1) by (rule BuildImpactPlan_InrD) (subst 1(2), simp)
  have body: "bodyOf (plan0\<lparr>plan_Warnings := plan_Warnings plan, plan_Errors := plan_Errors plan\<rparr>) = bodyOf plan"
    by (subst (3) 1(2)) (simp add: bodyOf_def plan_defs)
  have "ValidatePlanIntegrity encode digest plan = None" using 1(3) schema by (simp add: ValidatePlanIntegrity_def)
  moreover have "ValidatePlanFreshness encode digest plan (st_Pools state) (st_Deployments state) (st_Groups state) (st_Revision state) = None"
    using 1(1,3) by (simp add: ValidatePlanFreshness_def body)
  moreover have "validate_fixture to \<noteq> None \<Longrightarrow>
      Apply mint (st_Pools state) (st_Deployments state) (st_Groups state) plan = Inl (Code ''GOLC_POOL_APPLY_PLAN_ERRORS'')"
    using 1(9) by (simp add: Apply_def)
  ultimately show ?thesis using 1(4-) by simp
qed

definition swap_state :: State where
  "swap_state = freshState\<lparr>st_Pools := [\<lparr>pool_ID = 1, pool_Name = ''front'', pool_RequiredCapabilities = [], pool_Members =
     [\<lparr>mem_ID = 2, mem_FixtureStableKey = ''Acme/Old'', mem_FixtureContentHash = ''h''\<rparr>]\<rparr>]\<rparr>"

definition swap_request :: SubstitutionRequest where
  "swap_request = \<lparr>sub_PoolID = 1, sub_FromFixtureRef = ''Acme/Old'', sub_ToFixtureRef = ''Acme/PAR''\<rparr>"

theorem BuildSubstitutionPlan_sound_witness:
  "\<exists>plan. BuildSubstitutionPlan (\<lambda>_. Inr ''f'') id (\<lambda>_. Inr ''b'') id (\<lambda>_ _. []) (\<lambda>_. []) swap_state par_fixture par_fixture swap_request = Inr plan \<and>
     ValidatePlanIntegrity (\<lambda>_. Inr ''b'') id plan = None \<and> plan_Remove plan \<noteq> []"
proof -
  let ?b = "BuildSubstitutionPlan (\<lambda>_. Inr ''f'') id (\<lambda>_. Inr ''b'') id (\<lambda>_ _. []) (\<lambda>_. []) swap_state par_fixture par_fixture swap_request"
  have "is_ok ?b"
    by (simp add: is_ok_def BuildSubstitutionPlan_def poolByID_def swap_state_def swap_request_def Pin_def BuildImpactPlan_def
        findPool_def computePlanID_def RecomputePlanID_def bind_res_def freshState_def Let_def)
  then obtain plan where "?b = Inr plan" by (cases ?b) (simp_all add: is_ok_def)
  from BuildSubstitutionPlan_sound [OF this] this show ?thesis by blast
qed

end
