(* ===== verification/ShowStore.thy ===== *)
theory ShowStore
  imports ShowState
begin

text \<open>
  \<open>src/internal/show\<close>, the durable store: opening and seeding a \<open>.golc\<close> file (\<open>schema.go\<close>), loading and
  saving (\<open>store.go\<close>), recovery points (\<open>recovery.go\<close>), verified backups (\<open>backup.go\<close>) and schema
  migration (\<open>migrate.go\<close>).

  A file is the contents of its tables; a file that does not exist is \<open>None\<close>.  SQLite commits a
  transaction wholly or not at all, so every operation is a sequence of transactions, and a
  transaction that does not commit (an I/O error, or the process dying before it) leaves the
  tables as they were: \<open>stage_ok\<close>, \<open>promote_ok\<close> and \<open>vacuum_ok\<close> say which of them commit.  The JSON codec,
  SHA-256 and the text form of UUIDs are the fields of an \<open>Env\<close>.
\<close>

section \<open>schema.go\<close>

type_synonym bytes = "8 word list"

record storeMeta =
  sm_SchemaVersion :: int
  sm_Revision :: int
  sm_Checksum :: string

record RecoveryRow =
  rp_id :: int
  rp_created_at :: string
  rp_revision :: int
  rp_blob :: bytes

text \<open>
  The tables of the store: the \<open>show_meta\<close> singleton with its \<open>updated_at\<close> column, the \<open>show_state\<close>
  singleton, \<open>recovery_points\<close> in row order, and the \<open>AUTOINCREMENT\<close> counter of the latter.
\<close>
record Store =
  db_application_id :: int
  db_show_meta :: "(storeMeta \<times> string) option"
  db_show_state :: "bytes option"
  db_recovery_points :: "RecoveryRow list"
  db_recovery_seq :: int

record Env =
  env_encode :: "State \<Rightarrow> bytes result"
  env_decode :: "bytes \<Rightarrow> State result"
  env_sha256Hex :: "bytes \<Rightarrow> string"
  env_uuid_str :: "uuid \<Rightarrow> string"
  env_uuid_ok :: "string \<Rightarrow> bool"

abbreviation state_invalid :: string where "state_invalid \<equiv> ''GOLC_SHOW_STATE_INVALID''"

definition applicationID :: int where "applicationID = 1196574019"

definition emptyFile :: Store where
  "emptyFile = \<lparr>db_application_id = 0, db_show_meta = None, db_show_state = None, db_recovery_points = [],
     db_recovery_seq = 0\<rparr>"

definition seedRows :: "Store \<Rightarrow> Store" where
  "seedRows db = db\<lparr>
     db_show_meta := (case db_show_meta db of Some r \<Rightarrow> Some r
        | None \<Rightarrow> Some (\<lparr>sm_SchemaVersion = 0, sm_Revision = 0, sm_Checksum = []\<rparr>, [])),
     db_show_state := (case db_show_state db of Some b \<Rightarrow> Some b | None \<Rightarrow> Some [])\<rparr>"

definition openStore :: "Store option \<Rightarrow> Store result" where
  "openStore file =
     (let db = (case file of None \<Rightarrow> emptyFile | Some d \<Rightarrow> d) in
      if db_application_id db = 0 then Inr (seedRows (db\<lparr>db_application_id := applicationID\<rparr>))
      else if db_application_id db = applicationID then Inr (seedRows db)
      else Inl (Code ''GOLC_SHOW_NOT_GOLC_FORMAT''))"

section \<open>store.go\<close>

definition readMeta :: "Store \<Rightarrow> storeMeta option" where
  "readMeta db =
     (case (db_show_meta db, db_show_state db) of
        (Some (meta, _), Some blob) \<Rightarrow> if sm_SchemaVersion meta = 0 \<and> length blob = 0 then None else Some meta
      | _ \<Rightarrow> None)"

definition decodeAndValidate :: "Env \<Rightarrow> Store \<Rightarrow> string \<Rightarrow> State result" where
  "decodeAndValidate env db expectedChecksum =
     (case db_show_state db of
        None \<Rightarrow> Inl (Code state_invalid)
      | Some blob \<Rightarrow>
          if env_sha256Hex env blob \<noteq> expectedChecksum then Inl (Code state_invalid)
          else case env_decode env blob of
              Inl e \<Rightarrow> Inl (Wrap state_invalid e)
            | Inr state \<Rightarrow>
                (case validate (env_uuid_str env) (env_uuid_ok env) state of
                   Some e \<Rightarrow> Inl (Wrap state_invalid e)
                 | None \<Rightarrow> Inr state))"

definition loadFrom :: "Env \<Rightarrow> Store \<Rightarrow> State result" where
  "loadFrom env db =
     (case readMeta db of
        None \<Rightarrow> Inr freshState
      | Some meta \<Rightarrow>
          if sm_SchemaVersion meta > SchemaVersion then Inl (Code ''GOLC_SHOW_SCHEMA_TOO_NEW'')
          else if sm_SchemaVersion meta < SchemaVersion then Inl (Code ''GOLC_SHOW_SCHEMA_MIGRATION_REQUIRED'')
          else decodeAndValidate env db (sm_Checksum meta))"

text \<open>The first component is the file afterwards: \<open>openStore\<close> may have created or seeded it.\<close>
definition Load :: "Env \<Rightarrow> Store option \<Rightarrow> Store option \<times> State result" where
  "Load env file =
     (case openStore file of Inl e \<Rightarrow> (file, Inl e) | Inr db \<Rightarrow> (Some db, loadFrom env db))"

definition LoadForRead :: "Env \<Rightarrow> Store option \<Rightarrow> Store option \<times> State result" where
  "LoadForRead env file =
     (case openStore file of
        Inl e \<Rightarrow> (file, Inl e)
      | Inr db \<Rightarrow> (Some db,
          case readMeta db of
            None \<Rightarrow> Inr freshState
          | Some meta \<Rightarrow>
              if sm_SchemaVersion meta < SchemaVersion then Inl (Code ''GOLC_SHOW_SCHEMA_MIGRATION_REQUIRED'')
              else decodeAndValidate env db (sm_Checksum meta)))"

text \<open>\<open>DELETE ... WHERE id NOT IN (SELECT id ... ORDER BY id DESC LIMIT 5)\<close>\<close>
definition pruneRecovery :: "RecoveryRow list \<Rightarrow> RecoveryRow list" where
  "pruneRecovery rows = filter (\<lambda>r. rp_id r \<in> set (take 5 (rev (sort (map rp_id rows))))) rows"

definition stageRecoveryPoint :: "bool \<Rightarrow> Store \<Rightarrow> string \<Rightarrow> int \<Rightarrow> bytes \<Rightarrow> Store \<times> golc_error option" where
  "stageRecoveryPoint commits db now revision payload =
     (if \<not> commits then (db, Some (Code state_invalid))
      else
        let i = db_recovery_seq db + 1;
            row = \<lparr>rp_id = i, rp_created_at = now, rp_revision = revision, rp_blob = payload\<rparr>
        in (db\<lparr>db_recovery_points := pruneRecovery (db_recovery_points db @ [row]), db_recovery_seq := i\<rparr>, None))"

definition promoteState ::
  "bool \<Rightarrow> Store \<Rightarrow> int \<Rightarrow> int \<Rightarrow> string \<Rightarrow> bytes \<Rightarrow> string \<Rightarrow> Store \<times> golc_error option" where
  "promoteState commits db schemaVersion revision checksum payload now =
     (if \<not> commits then (db, Some (Code state_invalid))
      else
        (db\<lparr>db_show_meta := map_option (\<lambda>_. (\<lparr>sm_SchemaVersion = schemaVersion, sm_Revision = revision,
               sm_Checksum = checksum\<rparr>, now)) (db_show_meta db),
            db_show_state := map_option (\<lambda>_. payload) (db_show_state db)\<rparr>, None))"

definition scrubState :: "Env \<Rightarrow> State \<Rightarrow> State" where
  "scrubState env s =
     (let s1 = s\<lparr>st_Scenes := ScrubDanglingSelections (st_Scenes s) (st_Pools s) (st_Groups s) (st_Deployments s)\<rparr>
      in s1\<lparr>st_DeskMidiMappings := ScrubDanglingMappings (env_uuid_str env) (st_DeskMidiMappings s1) (st_Deployments s1)\<rparr>)"

definition stampState :: "State \<Rightarrow> State" where
  "stampState s = s\<lparr>st_SchemaVersion := SchemaVersion, st_Revision := wrap64 (st_Revision s + 1)\<rparr>"

definition Save ::
  "Env \<Rightarrow> string \<Rightarrow> bool \<Rightarrow> bool \<Rightarrow> Store option \<Rightarrow> State \<Rightarrow> Store option \<times> golc_error option" where
  "Save env now stage_ok promote_ok file s0 =
     (let s1 = scrubState env s0 in
      case validate (env_uuid_str env) (env_uuid_ok env) s1 of
        Some e \<Rightarrow> (file, Some (Wrap state_invalid e))
      | None \<Rightarrow>
          let s = stampState s1 in
          case env_encode env s of
            Inl e \<Rightarrow> (file, Some (Wrap state_invalid e))
          | Inr payload \<Rightarrow>
              (case openStore file of
                 Inl e \<Rightarrow> (file, Some e)
               | Inr db \<Rightarrow>
                   (case stageRecoveryPoint stage_ok db now (st_Revision s) payload of
                      (db1, Some e) \<Rightarrow> (Some db1, Some e)
                    | (db1, None) \<Rightarrow>
                        apfst Some (promoteState promote_ok db1 (st_SchemaVersion s) (st_Revision s)
                          (env_sha256Hex env payload) payload now))))"

definition metaRevision :: "Store \<Rightarrow> int" where
  "metaRevision db = (case readMeta db of None \<Rightarrow> 0 | Some meta \<Rightarrow> sm_Revision meta)"

definition CurrentRevision :: "Store option \<Rightarrow> Store option \<times> int result" where
  "CurrentRevision file =
     (case openStore file of Inl e \<Rightarrow> (file, Inl e) | Inr db \<Rightarrow> (Some db, Inr (metaRevision db)))"

section \<open>recovery.go\<close>

record RecoveryPoint =
  rpt_ID :: int
  rpt_CreatedAt :: string
  rpt_Revision :: int

definition offeredRecoveryRevision :: "Store \<Rightarrow> int" where
  "offeredRecoveryRevision db = (case readMeta db of None \<Rightarrow> 0 | Some meta \<Rightarrow> sm_Revision meta)"

definition pointOf :: "RecoveryRow \<Rightarrow> RecoveryPoint" where
  "pointOf r = \<lparr>rpt_ID = rp_id r, rpt_CreatedAt = rp_created_at r, rpt_Revision = rp_revision r\<rparr>"

definition DetectRecoveryPoints :: "Store option \<Rightarrow> Store option \<times> RecoveryPoint list result" where
  "DetectRecoveryPoints file =
     (case openStore file of
        Inl e \<Rightarrow> (file, Inl e)
      | Inr db \<Rightarrow> (Some db, Inr (map pointOf (rev (sort_key rp_id
            (filter (\<lambda>r. rp_revision r > offeredRecoveryRevision db) (db_recovery_points db)))))))"

definition DiscardRecoveryPoints :: "Store option \<Rightarrow> Store option \<times> golc_error option" where
  "DiscardRecoveryPoints file =
     (case openStore file of
        Inl e \<Rightarrow> (file, Some e)
      | Inr db \<Rightarrow> (Some (db\<lparr>db_recovery_points :=
            filter (\<lambda>r. \<not> rp_revision r > offeredRecoveryRevision db) (db_recovery_points db)\<rparr>), None))"

definition AcceptRecoveryPoint ::
  "Env \<Rightarrow> string \<Rightarrow> bool \<Rightarrow> bool \<Rightarrow> Store option \<Rightarrow> int \<Rightarrow> Store option \<times> golc_error option" where
  "AcceptRecoveryPoint env now stage_ok promote_ok file i =
     (case openStore file of
        Inl e \<Rightarrow> (file, Some e)
      | Inr db \<Rightarrow>
          (case find_by rp_id i (db_recovery_points db) of
             None \<Rightarrow> (Some db, Some (Code ''GOLC_SHOW_RECOVERY_NOT_FOUND''))
           | Some row \<Rightarrow>
               if rp_revision row \<le> offeredRecoveryRevision db
               then (Some db, Some (Code ''GOLC_SHOW_RECOVERY_NOT_FOUND''))
               else case env_decode env (rp_blob row) of
                   Inl e \<Rightarrow> (Some db, Some (Wrap state_invalid e))
                 | Inr recovered \<Rightarrow>
                     (case validate (env_uuid_str env) (env_uuid_ok env) recovered of
                        Some e \<Rightarrow> (Some db, Some (Wrap state_invalid e))
                      | None \<Rightarrow> Save env now stage_ok promote_ok (Some db) recovered)))"

section \<open>backup.go\<close>

definition verifyBackupReadBack :: "Env \<Rightarrow> Store \<Rightarrow> golc_error option" where
  "verifyBackupReadBack env backup =
     (let unverifiable = ''GOLC_SHOW_BACKUP_UNVERIFIABLE'' in
      case openStore (Some backup) of
        Inl e \<Rightarrow> Some (Wrap unverifiable e)
      | Inr db \<Rightarrow>
          (case (readMeta db, db_show_state db) of
             (None, _) \<Rightarrow> None
           | (Some _, None) \<Rightarrow> Some (Code unverifiable)
           | (Some _, Some blob) \<Rightarrow>
               (case env_decode env blob of
                  Inl e \<Rightarrow> Some (Wrap unverifiable e)
                | Inr state \<Rightarrow> map_option (Wrap unverifiable) (validate (env_uuid_str env) (env_uuid_ok env) state))))"

text \<open>\<open>VACUUM INTO\<close> copies every table.  The result is the backup file's contents.\<close>
definition verifiedBackup :: "Env \<Rightarrow> bool \<Rightarrow> Store option \<Rightarrow> Store result" where
  "verifiedBackup env vacuum_ok file =
     bind_res (openStore file) (\<lambda>db.
       if \<not> vacuum_ok then Inl (Code ''GOLC_SHOW_BACKUP_FAILED'')
       else guard_err (verifyBackupReadBack env db) (Inr db))"

section \<open>migrate.go\<close>

type_synonym registry = "int \<Rightarrow> (bytes \<Rightarrow> bytes result) option"

definition migrateOperatorSurfacesAdditive :: "bytes \<Rightarrow> bytes result" where
  "migrateOperatorSurfacesAdditive blob = Inr blob"

definition migrations :: registry where
  "migrations = (\<lambda>v. if v = 1 then Some migrateOperatorSurfacesAdditive else None)"

function runMigrations :: "registry \<Rightarrow> int \<Rightarrow> bytes \<Rightarrow> bytes result" where
  "runMigrations reg v blob =
     (if v < SchemaVersion then
        case reg v of
          None \<Rightarrow> Inl (Code state_invalid)
        | Some fn \<Rightarrow>
            (case fn blob of
               Inl e \<Rightarrow> Inl (Wrap state_invalid e)
             | Inr nxt \<Rightarrow> runMigrations reg (v + 1) nxt)
      else Inr blob)"
  by pat_completeness auto
termination
  by (relation "measure (\<lambda>(reg, v, blob). nat (SchemaVersion - v))") auto

declare runMigrations.simps [simp del]

definition migrateTemp :: "Env \<Rightarrow> registry \<Rightarrow> string \<Rightarrow> Store \<Rightarrow> int \<Rightarrow> Store result" where
  "migrateTemp env reg now temp fromVersion =
     bind_res (openStore (Some temp)) (\<lambda>db.
       case db_show_state db of
         None \<Rightarrow> Inl (Code state_invalid)
       | Some blob \<Rightarrow>
           bind_res (runMigrations reg fromVersion blob) (\<lambda>migratedBlob.
             case env_decode env migratedBlob of
               Inl e \<Rightarrow> Inl (Wrap state_invalid e)
             | Inr decoded \<Rightarrow>
                 let migrated = decoded\<lparr>st_SchemaVersion := SchemaVersion\<rparr> in
                 (case validate (env_uuid_str env) (env_uuid_ok env) migrated of
                    Some e \<Rightarrow> Inl (Wrap state_invalid e)
                  | None \<Rightarrow>
                      (case env_encode env migrated of
                         Inl e \<Rightarrow> Inl (Wrap state_invalid e)
                       | Inr finalBlob \<Rightarrow>
                           Inr (db\<lparr>db_show_meta := map_option (\<lambda>(meta, _). (meta\<lparr>sm_SchemaVersion := SchemaVersion,
                                      sm_Checksum := env_sha256Hex env finalBlob\<rparr>, now)) (db_show_meta db),
                                   db_show_state := map_option (\<lambda>_. finalBlob) (db_show_state db)\<rparr>)))))"

text \<open>The file afterwards, the backup it left (if any), and the error.  \<open>swap_ok\<close>: the final rename
  succeeds.\<close>
definition Migrate ::
  "Env \<Rightarrow> registry \<Rightarrow> string \<Rightarrow> bool \<Rightarrow> bool \<Rightarrow> Store option \<Rightarrow> Store option \<times> Store option \<times> golc_error option" where
  "Migrate env reg now vacuum_ok swap_ok file =
     (case openStore file of
        Inl e \<Rightarrow> (file, None, Some e)
      | Inr db \<Rightarrow>
          (case (db_show_meta db, db_show_state db) of
             (Some (meta, _), Some blob) \<Rightarrow>
               let version = sm_SchemaVersion meta in
               if length blob = 0 then (Some db, None, None)
               else if version > SchemaVersion then (Some db, None, Some (Code ''GOLC_SHOW_SCHEMA_TOO_NEW''))
               else if version = SchemaVersion then (Some db, None, None)
               else if version < 0 then (Some db, None, Some (Code state_invalid))
               else
                 (case verifiedBackup env vacuum_ok (Some db) of
                    Inl e \<Rightarrow> (Some db, None, Some e)
                  | Inr backup \<Rightarrow>
                      (case migrateTemp env reg now backup version of
                         Inl e \<Rightarrow> (Some db, Some backup, Some e)
                       | Inr temp \<Rightarrow>
                           if \<not> swap_ok then (Some db, Some backup, Some (Code ''GOLC_SHOW_MIGRATE_SWAP_FAILED''))
                           else (Some temp, Some backup, None)))
           | _ \<Rightarrow> (Some db, None, Some (Code state_invalid))))"

section \<open>Opening a store\<close>

text \<open>A store as \<open>openStore\<close> returns it: stamped, with both singleton rows.\<close>
definition opened :: "Store \<Rightarrow> bool" where
  "opened db \<longleftrightarrow> db_application_id db = applicationID \<and> db_show_meta db \<noteq> None \<and> db_show_state db \<noteq> None"

lemma openStore_opened: "openStore file = Inr db \<Longrightarrow> opened db"
  by (auto simp: openStore_def opened_def seedRows_def Let_def applicationID_def split: if_splits option.splits)

lemma open_opened: "opened db \<Longrightarrow> openStore (Some db) = Inr db"
  by (cases db) (auto simp: openStore_def opened_def seedRows_def applicationID_def split: option.splits)

lemma Load_opened: "opened db \<Longrightarrow> Load env (Some db) = (Some db, loadFrom env db)"
  by (simp add: Load_def open_opened)

lemma CurrentRevision_opened: "opened db \<Longrightarrow> CurrentRevision (Some db) = (Some db, Inr (metaRevision db))"
  by (simp add: CurrentRevision_def open_opened)

lemma offered_metaRevision: "offeredRecoveryRevision db = metaRevision db"
  by (simp add: offeredRecoveryRevision_def metaRevision_def)

section \<open>The scrub before a save\<close>

lemma ScrubDanglingSelections_views:
  "map scene_Name (ScrubDanglingSelections ss ps gs ds) = map scene_Name ss"
  "count_active scene_Active (ScrubDanglingSelections ss ps gs ds) = count_active scene_Active ss"
  by (simp_all add: ScrubDanglingSelections_def count_active_def comp_def filter_map)

lemma ScrubDanglingSelections_valid:
  "first_err ValidateScene (ScrubDanglingSelections ss ps gs ds) = None \<longleftrightarrow> first_err ValidateScene ss = None"
  by (simp add: ScrubDanglingSelections_def ValidateScene_def)

lemma ScrubDanglingSelections_refs:
  "ValidateLayerReferences (ScrubDanglingSelections ss ps gs ds) ts prs cs ms = None \<longleftrightarrow>
   ValidateLayerReferences ss ts prs cs ms = None"
  by (simp add: ScrubDanglingSelections_def ValidateLayerReferences_def checkLayerReference_def Let_def)

lemma find_by_map:
  "(\<And>x. k (f x) = k x) \<Longrightarrow> find_by k i (map f xs) = map_option f (find_by k i xs)"
  by (induction xs) auto

lemma ScrubDanglingSelections_kinds:
  "sceneLayerKinds (ScrubDanglingSelections ss ps gs ds) = sceneLayerKinds ss"
proof
  fix i
  show "sceneLayerKinds (ScrubDanglingSelections ss ps gs ds) i = sceneLayerKinds ss i"
    by (simp add: sceneLayerKinds_def ScrubDanglingSelections_def rev_map find_by_map option.map_comp comp_def
        image_image)
qed

lemma ScrubDanglingSelections_surfaces:
  "ValidateSurfaces us (ScrubDanglingSelections ss ps gs ds) gs' = ValidateSurfaces us ss gs'"
proof -
  have "scene_ID ` set (ScrubDanglingSelections ss ps gs ds) = scene_ID ` set ss"
    by (simp add: ScrubDanglingSelections_def image_image)
  then show ?thesis
    by (simp add: ValidateSurfaces_def checkSurface_def [abs_def] ScrubDanglingSelections_kinds)
qed

lemma ScrubDanglingMappings_valid:
  "ValidateMappings f ok ms ds = None \<Longrightarrow> ValidateMappings f ok (ScrubDanglingMappings f ms ds) ds = None"
  by (auto simp: ValidateMappings_def ScrubDanglingMappings_def distinct_map_filter split: if_splits)

lemma validate_stampState [simp]: "validate f ok (stampState s) = validate f ok s"
  by (simp add: validate_def stampState_def)

lemma validate_schema [simp]: "validate f ok (s\<lparr>st_SchemaVersion := v\<rparr>) = validate f ok s"
  by (simp add: validate_def)

text \<open>
  The scrub that \<open>Save\<close> runs first never turns an acceptable document into a rejected one, and
  after it every layer selection of every scene resolves against the pools, groups and
  deployments that are saved with it.
\<close>
theorem scrubState_keeps_validity:
  "(validate (env_uuid_str env) (env_uuid_ok env) s = None \<longrightarrow>
      validate (env_uuid_str env) (env_uuid_ok env) (scrubState env s) = None) \<and>
   (\<forall>sc\<in>set (st_Scenes (scrubState env s)). \<forall>l\<in>set (scene_Layers sc).
      is_ok (Resolve (st_Pools s) (st_Groups s) (st_Deployments s) (layer_Selection l)))"
proof
  show "validate (env_uuid_str env) (env_uuid_ok env) s = None \<longrightarrow>
      validate (env_uuid_str env) (env_uuid_ok env) (scrubState env s) = None"
    by (simp add: validate_def scrubState_def Let_def ScrubDanglingSelections_valid ScrubDanglingSelections_refs
        ScrubDanglingSelections_surfaces ScrubDanglingMappings_valid ValidateSceneUniqueNames_def
        ValidateSingleActiveScene_def ScrubDanglingSelections_views del: first_err_None_iff)
  show "\<forall>sc\<in>set (st_Scenes (scrubState env s)). \<forall>l\<in>set (scene_Layers sc).
      is_ok (Resolve (st_Pools s) (st_Groups s) (st_Deployments s) (layer_Selection l))"
    by (auto simp: scrubState_def ScrubDanglingSelections_def Resolve_def
        checkSelectors_None [THEN iffD2, OF ScrubDangling_exist])
qed

lemma scrubState_idem: "scrubState env (scrubState env s) = scrubState env s"
  by (cases s)
     (simp add: scrubState_def ScrubDanglingSelections_def ScrubDanglingMappings_def comp_def ScrubDangling_id
        [OF ScrubDangling_exist])

lemma scrub_stamp: "scrubState env (stampState s) = stampState (scrubState env s)"
  by (simp add: scrubState_def stampState_def)

lemma scrub_stamp_scrub: "scrubState env (stampState (scrubState env s)) = stampState (scrubState env s)"
  by (simp add: scrub_stamp scrubState_idem)

section \<open>Saving and loading\<close>

text \<open>The codec writes this document and reads the same document back.\<close>
definition codec_on :: "Env \<Rightarrow> State \<Rightarrow> bool" where
  "codec_on env s \<longleftrightarrow> (\<exists>b. env_encode env s = Inr b \<and> env_decode env b = Inr s)"

text \<open>What a committed save leaves in the tables.\<close>
lemma Save_committed:
  assumes "validate (env_uuid_str env) (env_uuid_ok env) (scrubState env s) = None"
    and "env_encode env (stampState (scrubState env s)) = Inr b" and "openStore file = Inr db"
  shows "Save env now True True file s =
     (Some (db\<lparr>db_show_meta := Some (\<lparr>sm_SchemaVersion = SchemaVersion, sm_Revision = wrap64 (st_Revision s + 1),
                 sm_Checksum = env_sha256Hex env b\<rparr>, now),
               db_show_state := Some b,
               db_recovery_points := pruneRecovery (db_recovery_points db @
                 [\<lparr>rp_id = db_recovery_seq db + 1, rp_created_at = now, rp_revision = wrap64 (st_Revision s + 1), rp_blob = b\<rparr>]),
               db_recovery_seq := db_recovery_seq db + 1\<rparr>), None)"
proof -
  obtain m t where m: "db_show_meta db = Some m" "db_show_state db = Some t"
    using openStore_opened [OF assms(3)] by (auto simp: opened_def)
  have r: "st_SchemaVersion (stampState (scrubState env s)) = SchemaVersion"
    "st_Revision (stampState (scrubState env s)) = wrap64 (st_Revision s + 1)"
    by (simp_all add: stampState_def scrubState_def)
  show ?thesis
    unfolding Save_def Let_def assms option.case sum.case r
    by (simp add: m stageRecoveryPoint_def promoteState_def Let_def)
qed

text \<open>Every other outcome keeps both singleton rows.\<close>
lemma Save_failed_rows:
  assumes "Save env now st pr file s = (file', Some e)"
  shows "file' = file \<or> (\<exists>db db'. openStore file = Inr db \<and> file' = Some db' \<and> opened db' \<and>
     db_show_meta db' = db_show_meta db \<and> db_show_state db' = db_show_state db)"
  using assms openStore_opened [of "file"]
  by (auto simp: Save_def Let_def stageRecoveryPoint_def promoteState_def opened_def
      split: option.splits sum.splits if_splits)

lemma same_rows:
  assumes "db_show_meta db' = db_show_meta db" "db_show_state db' = db_show_state db"
  shows "readMeta db' = readMeta db" "loadFrom env db' = loadFrom env db" "metaRevision db' = metaRevision db"
proof -
  show r: "readMeta db' = readMeta db" using assms by (simp add: readMeta_def)
  have "decodeAndValidate env db' = decodeAndValidate env db"
    using assms by (simp add: decodeAndValidate_def fun_eq_iff)
  then show "loadFrom env db' = loadFrom env db" using r by (simp add: loadFrom_def split: option.split)
  show "metaRevision db' = metaRevision db" by (simp add: metaRevision_def r)
qed

lemma Save_success:
  assumes "Save env now st pr file s = (file', None)"
  obtains db b where "openStore file = Inr db" "env_encode env (stampState (scrubState env s)) = Inr b"
    "validate (env_uuid_str env) (env_uuid_ok env) (scrubState env s) = None" "st" "pr"
  using assms
  by (auto simp: Save_def Let_def stageRecoveryPoint_def promoteState_def split: option.splits sum.splits if_splits)

lemma Save_Load_committed:
  assumes "Save env now stage_ok promote_ok file s = (file', None)" and "codec_on env (stampState (scrubState env s))"
  shows "Load env file' = (file', Inr (stampState (scrubState env s))) \<and>
         CurrentRevision file' = (file', Inr (wrap64 (st_Revision s + 1))) \<and>
         validate (env_uuid_str env) (env_uuid_ok env) (stampState (scrubState env s)) = None"
proof -
  obtain db b where *: "openStore file = Inr db" "env_encode env (stampState (scrubState env s)) = Inr b"
    "validate (env_uuid_str env) (env_uuid_ok env) (scrubState env s) = None" "stage_ok" "promote_ok"
    using Save_success [OF assms(1)] by metis
  have d: "env_decode env b = Inr (stampState (scrubState env s))"
    using assms(2) *(2) by (auto simp: codec_on_def)
  obtain db' where f: "file' = Some db'" and
    rows: "db_show_meta db' = Some (\<lparr>sm_SchemaVersion = SchemaVersion, sm_Revision = wrap64 (st_Revision s + 1),
      sm_Checksum = env_sha256Hex env b\<rparr>, now)" "db_show_state db' = Some b" and o: "opened db'"
    using assms(1) Save_committed [OF *(3,2,1), of now] *(4,5) openStore_opened [OF *(1)]
    by (auto simp: opened_def)
  show ?thesis
    using d *(3) rows
    by (simp add: f Load_opened [OF o] CurrentRevision_opened [OF o] loadFrom_def metaRevision_def readMeta_def
        SchemaVersion_def decodeAndValidate_def)
qed

text \<open>
  C1: what is saved is what is loaded.  When \<open>Save\<close> reports success and the JSON codec reads back
  what it wrote, the next \<open>Load\<close> of the file returns exactly the saved document, scrubbed, stamped
  with the current schema version and with its revision one higher, it passed the whole-document
  check, and \<open>CurrentRevision\<close> reports that revision.
\<close>
theorem Save_then_Load:
  assumes "Save env now stage_ok promote_ok file s = (file', None)" and "codec_on env (stampState (scrubState env s))"
  shows "Load env file' = (file', Inr (stampState (scrubState env s))) \<and>
         CurrentRevision file' = (file', Inr (wrap64 (st_Revision s + 1))) \<and>
         validate (env_uuid_str env) (env_uuid_ok env) (stampState (scrubState env s)) = None"
  using Save_Load_committed [OF assms] .

lemma Save_failed_load:
  assumes "Save env now stage_ok promote_ok file s = (file', Some e)"
  shows "snd (Load env file') = snd (Load env file) \<and> snd (CurrentRevision file') = snd (CurrentRevision file)"
  using Save_failed_rows [OF assms]
proof (elim disjE exE conjE)
  fix db db'
  assume *: "openStore file = Inr db" "file' = Some db'" "opened db'" "db_show_meta db' = db_show_meta db"
    "db_show_state db' = db_show_state db"
  show ?thesis
    using same_rows [OF *(4,5)]
    unfolding *(2) Load_opened [OF *(3)] CurrentRevision_opened [OF *(3)]
    by (simp add: Load_def CurrentRevision_def *(1))
qed simp


text \<open>
  C17: nothing from disk is trusted unchecked.  \<open>Load\<close> returns a document only in two cases: the file
  was never saved and the document is the fresh one, or the stored blob has exactly the recorded
  checksum, exactly the supported schema version, decodes to that document, and the document
  passes the whole-document check.  So a file from a newer build, an unmigrated one or one whose
  bytes were altered is refused, and \<open>Load\<close> itself never changes an opened file.
\<close>
theorem Load_trusts_only_checked:
  "openStore file = Inr db \<Longrightarrow>
   fst (Load env file) = Some db \<and>
   (snd (Load env file) = Inr s \<longleftrightarrow>
     (readMeta db = None \<and> s = freshState) \<or>
     (\<exists>meta blob. readMeta db = Some meta \<and> db_show_state db = Some blob \<and>
        sm_SchemaVersion meta = SchemaVersion \<and> env_sha256Hex env blob = sm_Checksum meta \<and>
        env_decode env blob = Inr s \<and> validate (env_uuid_str env) (env_uuid_ok env) s = None))"
  by (auto simp: Load_def loadFrom_def decodeAndValidate_def split: option.splits sum.splits if_splits)

section \<open>Recovery points\<close>

lemma filter_drop_keys:
  assumes "distinct (map f xs)"
  shows "filter (\<lambda>x. f x \<in> set (drop k (map f xs))) xs = drop k xs"
proof -
  have "set (map f (take k xs)) \<inter> set (map f (drop k xs)) = {}"
    using assms by (metis append_take_drop_id distinct_append map_append)
  then have "filter (\<lambda>x. f x \<in> f ` set (drop k xs)) (take k xs) = []"
    by (auto simp: filter_empty_conv)
  moreover have "filter (\<lambda>x. f x \<in> f ` set (drop k xs)) (drop k xs) = drop k xs"
    by (simp add: filter_id_conv)
  ultimately have "filter (\<lambda>x. f x \<in> f ` set (drop k xs)) (take k xs @ drop k xs) = drop k xs"
    by (simp only: filter_append append_Nil)
  then show ?thesis by (simp add: drop_map)
qed

lemma strict_ids: "sorted_wrt (<) (map rp_id rows) \<Longrightarrow> sorted (map rp_id rows) \<and> distinct (map rp_id rows)"
  by (simp add: strict_sorted_iff)

lemma pruneRecovery_drop:
  assumes "sorted_wrt (<) (map rp_id rows)"
  shows "pruneRecovery rows = drop (length rows - 5) rows"
proof -
  have "take 5 (rev (sort (map rp_id rows))) = rev (drop (length rows - 5) (map rp_id rows))"
    using strict_ids [OF assms] by (simp add: sorted_sort_id take_rev)
  then show ?thesis
    using filter_drop_keys [of rp_id rows "length rows - 5"] strict_ids [OF assms]
    by (simp add: pruneRecovery_def)
qed

text \<open>The shape of the recovery table: rows in the order of their increasing ids, none reused,
  at most five.\<close>
definition rows_wf :: "Store \<Rightarrow> bool" where
  "rows_wf db \<longleftrightarrow> sorted_wrt (<) (map rp_id (db_recovery_points db)) \<and>
     (\<forall>r\<in>set (db_recovery_points db). rp_id r \<le> db_recovery_seq db) \<and> length (db_recovery_points db) \<le> 5"

lemma prune_append:
  assumes "rows_wf db" and "rp_id row = db_recovery_seq db + 1"
  shows "\<exists>k. pruneRecovery (db_recovery_points db @ [row]) = drop k (db_recovery_points db) @ [row] \<and>
     length (drop k (db_recovery_points db)) \<le> 4"
proof -
  let ?rs = "db_recovery_points db"
  have "sorted_wrt (<) (map rp_id (?rs @ [row]))"
    using assms by (force simp: rows_wf_def sorted_wrt_append)
  then have "pruneRecovery (?rs @ [row]) = drop (length ?rs - 4) (?rs @ [row])"
    using pruneRecovery_drop by fastforce
  also have "\<dots> = drop (length ?rs - 4) ?rs @ [row]" using assms by (simp add: rows_wf_def)
  finally show ?thesis using assms by (intro exI [of _ "length ?rs - 4"]) (simp add: rows_wf_def)
qed

lemma rows_wf_stage:
  assumes "rows_wf db" "stageRecoveryPoint c db now r b = (db', e)"
  shows "rows_wf db'"
proof (cases c)
  case True
  define row where "row = \<lparr>rp_id = db_recovery_seq db + 1, rp_created_at = now, rp_revision = r, rp_blob = b\<rparr>"
  then obtain k where k: "pruneRecovery (db_recovery_points db @ [row]) = drop k (db_recovery_points db) @ [row]"
    "length (drop k (db_recovery_points db)) \<le> 4"
    using prune_append [OF assms(1), of row] by auto
  have "db' = db\<lparr>db_recovery_points := drop k (db_recovery_points db) @ [row], db_recovery_seq := db_recovery_seq db + 1\<rparr>"
    using True assms(2) k(1) by (simp add: stageRecoveryPoint_def Let_def row_def)
  moreover have "sorted_wrt (<) (drop k (map rp_id (db_recovery_points db)))"
    using assms(1) sorted_wrt_drop by (auto simp: rows_wf_def)
  ultimately show ?thesis
    using assms(1) k(2) by (auto simp: rows_wf_def sorted_wrt_append row_def drop_map dest!: in_set_dropD)
next
  case False
  then show ?thesis using assms by (simp add: stageRecoveryPoint_def)
qed

text \<open>
  The life of a file: commands that load it, save an edit of the revision they loaded (with either
  transaction possibly not committing), discard the offered recovery points, or accept one of
  them.  An accept whose own save is cut short is not a step.
\<close>
inductive session :: "Env \<Rightarrow> Store option \<Rightarrow> bool" for env where
  start: "session env None"
| load: "session env f \<Longrightarrow> session env (fst (Load env f))"
| save: "\<lbrakk>session env f; snd (CurrentRevision f) = Inr (st_Revision s); st_Revision s < max_int64\<rbrakk>
    \<Longrightarrow> session env (fst (Save env now stage_ok promote_ok f s))"
| discard: "session env f \<Longrightarrow> session env (fst (DiscardRecoveryPoints f))"
| accept: "\<lbrakk>session env f; snd (CurrentRevision f) = Inr r; r + 2 \<le> max_int64\<rbrakk>
    \<Longrightarrow> session env (fst (AcceptRecoveryPoint env now True True f i))"

text \<open>Decoding an encoded document gives back at least its revision number.\<close>
definition keeps_revision :: "Env \<Rightarrow> bool" where
  "keeps_revision env \<longleftrightarrow> (\<forall>s b s'. env_encode env s = Inr b \<longrightarrow> env_decode env b = Inr s' \<longrightarrow> st_Revision s' = st_Revision s)"

definition row_ok :: "Env \<Rightarrow> Store \<Rightarrow> RecoveryRow \<Rightarrow> bool" where
  "row_ok env db r \<longleftrightarrow> rp_revision r \<le> metaRevision db + 1 \<and>
     (\<forall>s. env_decode env (rp_blob r) = Inr s \<longrightarrow> st_Revision s = rp_revision r)"

definition session_inv :: "Env \<Rightarrow> Store \<Rightarrow> bool" where
  "session_inv env db \<longleftrightarrow> opened db \<and> rows_wf db \<and> 0 \<le> metaRevision db \<and>
     (\<forall>r\<in>set (db_recovery_points db). row_ok env db r)"

abbreviation file_inv :: "Env \<Rightarrow> Store option \<Rightarrow> bool" where
  "file_inv env f \<equiv> (case f of None \<Rightarrow> True | Some db \<Rightarrow> session_inv env db)"

lemma fresh_inv: "openStore None = Inr db \<Longrightarrow> session_inv env db"
  by (auto simp: openStore_def emptyFile_def seedRows_def applicationID_def session_inv_def opened_def rows_wf_def
      metaRevision_def readMeta_def)

lemma file_inv_open:
  assumes "file_inv env f"
  obtains db where "openStore f = Inr db" "session_inv env db"
proof (cases f)
  case None
  then obtain db where "openStore f = Inr db" by (simp add: openStore_def emptyFile_def)
  then show ?thesis using None fresh_inv that by blast
next
  case (Some db)
  then show ?thesis using assms that open_opened by (auto simp: session_inv_def)
qed

text \<open>The rows a staging transaction leaves: some of the old ones, then the new one.\<close>
lemma stage_rows:
  assumes "rows_wf db" "stageRecoveryPoint True db now r b = (db', e)"
  shows "\<exists>old. set old \<subseteq> set (db_recovery_points db) \<and> db_recovery_points db' = old @
     [\<lparr>rp_id = db_recovery_seq db + 1, rp_created_at = now, rp_revision = r, rp_blob = b\<rparr>]"
    and "db_show_meta db' = db_show_meta db" "db_show_state db' = db_show_state db"
    "db_application_id db' = db_application_id db" "e = None"
proof -
  let ?row = "\<lparr>rp_id = db_recovery_seq db + 1, rp_created_at = now, rp_revision = r, rp_blob = b\<rparr>"
  obtain k where "pruneRecovery (db_recovery_points db @ [?row]) = drop k (db_recovery_points db) @ [?row]"
    using prune_append [OF assms(1), of ?row] by auto
  then show "\<exists>old. set old \<subseteq> set (db_recovery_points db) \<and> db_recovery_points db' = old @ [?row]"
    using assms(2) by (auto simp: stageRecoveryPoint_def Let_def dest: in_set_dropD)
qed (use assms(2) in \<open>auto simp: stageRecoveryPoint_def Let_def\<close>)

lemma readMeta_promoted:
  assumes "promoteState True db SchemaVersion rv c b now = (db', e)" "opened db"
  shows "metaRevision db' = rv" "opened db'" "db_recovery_points db' = db_recovery_points db"
    "db_recovery_seq db' = db_recovery_seq db" "e = None"
  using assms by (auto simp: promoteState_def opened_def metaRevision_def readMeta_def SchemaVersion_def)

text \<open>A save whose staging transaction commits: what it leaves, whether or not it is promoted.\<close>
lemma Save_staged:
  assumes db: "opened db" "rows_wf db"
    and v: "validate (env_uuid_str env) (env_uuid_ok env) (scrubState env s) = None"
    and b: "env_encode env (stampState (scrubState env s)) = Inr b"
  obtains db2 e old where "Save env now True promote_ok (Some db) s = (Some db2, e)" "opened db2" "rows_wf db2"
    "set old \<subseteq> set (db_recovery_points db)"
    "db_recovery_points db2 = old @ [\<lparr>rp_id = db_recovery_seq db + 1, rp_created_at = now,
       rp_revision = wrap64 (st_Revision s + 1), rp_blob = b\<rparr>]"
    "metaRevision db2 = (if promote_ok then wrap64 (st_Revision s + 1) else metaRevision db)"
    "promote_ok \<longleftrightarrow> e = None"
proof -
  let ?r = "wrap64 (st_Revision s + 1)"
  have r: "st_Revision (stampState (scrubState env s)) = ?r"
    "st_SchemaVersion (stampState (scrubState env s)) = SchemaVersion"
    by (simp_all add: stampState_def scrubState_def)
  obtain db1 e1 where st: "stageRecoveryPoint True db now ?r b = (db1, e1)" by fastforce
  note sr = stage_rows [OF db(2) st] same_rows [OF stage_rows(2,3) [OF db(2) st]]
  obtain db2 e where pr: "promoteState promote_ok db1 SchemaVersion ?r (env_sha256Hex env b) b now = (db2, e)"
    by fastforce
  have sv: "Save env now True promote_ok (Some db) s = (Some db2, e)"
    using v b st pr sr(5) r by (auto simp: Save_def Let_def open_opened [OF db(1)])
  have o1: "opened db1" and w1: "rows_wf db1"
    using db(1) sr(2-4) rows_wf_stage [OF db(2) st] by (auto simp: opened_def)
  have pt: "metaRevision db2 = ?r \<and> opened db2 \<and> db_recovery_points db2 = db_recovery_points db1 \<and>
      db_recovery_seq db2 = db_recovery_seq db1 \<and> e = None" if promote_ok
    using readMeta_promoted [OF _ o1] pr that by simp
  have pf: "db2 = db1 \<and> e \<noteq> None" if "\<not> promote_ok" using pr that by (simp add: promoteState_def) blast
  have m2: "opened db2" "db_recovery_points db2 = db_recovery_points db1" "promote_ok \<longleftrightarrow> e = None"
    using pt pf o1 by blast+
  have w2: "rows_wf db2" using pt pf w1 by (cases promote_ok) (simp_all add: rows_wf_def)
  have "metaRevision db2 = (if promote_ok then ?r else metaRevision db)"
    using pt pf sr(8) by simp
  with sv m2 w2 sr(1) that show ?thesis by metis
qed

lemma wrap64_succ: "\<lbrakk>0 \<le> r; r < max_int64\<rbrakk> \<Longrightarrow> wrap64 (r + 1) = r + 1"
  by (rule wrap64_id) (simp add: is_int64_def min_int64_def max_int64_def)

text \<open>A save keeps the invariant, however far it gets.\<close>
lemma Save_inv:
  assumes env: "keeps_revision env" and inv: "session_inv env db"
    and rv: "st_Revision s < max_int64" "metaRevision db \<le> st_Revision s" "st_Revision s \<le> metaRevision db \<or> promote_ok"
  shows "file_inv env (fst (Save env now stage_ok promote_ok (Some db) s))"
proof (cases "validate (env_uuid_str env) (env_uuid_ok env) (scrubState env s) = None \<and>
    is_ok (env_encode env (stampState (scrubState env s))) \<and> stage_ok")
  case True
  let ?s = "stampState (scrubState env s)"
  obtain b where b: "env_encode env ?s = Inr b" using True by (cases "env_encode env ?s") auto
  have v: "validate (env_uuid_str env) (env_uuid_ok env) (scrubState env s) = None" using True by blast
  have db: "opened db" "rows_wf db" "0 \<le> metaRevision db" using inv by (auto simp: session_inv_def)
  have w: "wrap64 (st_Revision s + 1) = st_Revision s + 1" using rv db(3) by (simp add: wrap64_succ)
  obtain db2 e old where s: "Save env now True promote_ok (Some db) s = (Some db2, e)" "opened db2" "rows_wf db2"
    "set old \<subseteq> set (db_recovery_points db)"
    "db_recovery_points db2 = old @ [\<lparr>rp_id = db_recovery_seq db + 1, rp_created_at = now,
       rp_revision = st_Revision s + 1, rp_blob = b\<rparr>]"
    "metaRevision db2 = (if promote_ok then st_Revision s + 1 else metaRevision db)" "promote_ok \<longleftrightarrow> e = None"
    by (rule Save_staged [OF db(1,2) v b, of now promote_ok, unfolded w])
  have new: "st_Revision st = st_Revision s + 1" if "env_decode env b = Inr st" for st
  proof -
    have "st_Revision st = st_Revision ?s" using env b that unfolding keeps_revision_def by blast
    then show ?thesis using w by (simp add: stampState_def scrubState_def)
  qed
  have "row_ok env db2 row" if "row \<in> set (db_recovery_points db2)" for row
  proof (cases "row \<in> set (db_recovery_points db)")
    case True
    then have "row_ok env db row" using inv by (simp add: session_inv_def)
    then show ?thesis using rv s(6) by (auto simp: row_ok_def)
  next
    case False
    then have "row = \<lparr>rp_id = db_recovery_seq db + 1, rp_created_at = now, rp_revision = st_Revision s + 1, rp_blob = b\<rparr>"
      using that s(4,5) by auto
    then show ?thesis using new rv s(6) by (auto simp: row_ok_def)
  qed
  then show ?thesis using True s rv db by (simp add: session_inv_def)
next
  case False
  moreover have "opened db" using inv by (simp add: session_inv_def)
  ultimately show ?thesis
    using inv by (auto simp: Save_def Let_def open_opened stageRecoveryPoint_def is_ok_def split: option.splits sum.splits)
qed

lemma session_inv_step:
  assumes "session env f" "keeps_revision env"
  shows "file_inv env f"
  using assms(1)
proof induction
  case start
  then show ?case by simp
next
  case (load f)
  obtain db where "openStore f = Inr db" "session_inv env db" using file_inv_open [OF load.IH] .
  then show ?case by (simp add: Load_def)
next
  case (save f s now stage_ok promote_ok)
  obtain db where db: "openStore f = Inr db" "session_inv env db" using file_inv_open [OF save.IH] .
  have "Save env now stage_ok promote_ok f s = Save env now stage_ok promote_ok (Some db) s \<or>
      fst (Save env now stage_ok promote_ok f s) = f"
    using db open_opened [of db]
    by (auto simp: Save_def Let_def session_inv_def split: option.splits sum.splits)
  moreover have "st_Revision s = metaRevision db" using save.hyps(2) db(1) by (simp add: CurrentRevision_def)
  ultimately show ?case using Save_inv [OF assms(2) db(2) save.hyps(3)] save.IH by auto
next
  case (discard f)
  obtain db where db: "openStore f = Inr db" "session_inv env db" using file_inv_open [OF discard.IH] .
  let ?db = "db\<lparr>db_recovery_points := filter (\<lambda>r. \<not> rp_revision r > offeredRecoveryRevision db) (db_recovery_points db)\<rparr>"
  have "metaRevision ?db = metaRevision db" by (rule same_rows(3)) simp_all
  moreover have "rows_wf ?db"
    using db(2) sorted_wrt_filter [of "(<)" "map rp_id (db_recovery_points db)"] le_trans [OF length_filter_le]
    by (auto simp: rows_wf_def session_inv_def sorted_wrt_map sorted_wrt_filter)
  ultimately have "session_inv env ?db" using db(2) by (auto simp: session_inv_def opened_def row_ok_def)
  then show ?case using db(1) by (simp add: DiscardRecoveryPoints_def)
next
  case (accept f r now i)
  obtain db where db: "openStore f = Inr db" "session_inv env db" using file_inv_open [OF accept.IH] .
  have r: "r = metaRevision db" using accept.hyps(2) db(1) by (simp add: CurrentRevision_def)
  show ?case
  proof (cases "AcceptRecoveryPoint env now True True f i = (Some db, snd (AcceptRecoveryPoint env now True True f i))")
    case True
    then show ?thesis using db(2) by (metis fst_conv option.simps(5))
  next
    case False
    then obtain row st where row: "find_by rp_id i (db_recovery_points db) = Some row"
      "rp_revision row > metaRevision db" "env_decode env (rp_blob row) = Inr st"
      "AcceptRecoveryPoint env now True True f i = Save env now True True (Some db) st"
      using db(1) by (auto simp: AcceptRecoveryPoint_def offered_metaRevision split: option.splits sum.splits if_splits)
    have "row_ok env db row" using find_by_SomeD [OF row(1)] db(2) by (simp add: session_inv_def)
    then have "st_Revision st = metaRevision db + 1" using row by (fastforce simp: row_ok_def)
    then show ?thesis using Save_inv [OF assms(2) db(2), of st True] accept.hyps(3) r row(4) by simp
  qed
qed

lemma Detect_opened:
  "opened db \<Longrightarrow> DetectRecoveryPoints (Some db) = (Some db, Inr (map pointOf (rev (sort_key rp_id
     (filter (\<lambda>r. rp_revision r > metaRevision db) (db_recovery_points db))))))"
  by (simp add: DetectRecoveryPoints_def open_opened offered_metaRevision)

lemma sort_key_sorted: "sorted (map f xs) \<Longrightarrow> sort_key f xs = xs"
  by (induction xs) (simp_all add: insort_is_Cons)

lemma rows_wf_sort: "rows_wf db \<Longrightarrow> sort_key rp_id (filter P (db_recovery_points db)) = filter P (db_recovery_points db)"
  by (rule sort_key_sorted) (auto simp: rows_wf_def dest!: strict_ids intro: sorted_filter)

text \<open>Accepting an offered point whose blob decodes to a valid document is a save of that document.\<close>
lemma Accept_offered:
  assumes "opened db" "rows_wf db" "row \<in> set (db_recovery_points db)" "rp_revision row > metaRevision db"
    "env_decode env (rp_blob row) = Inr st" "validate (env_uuid_str env) (env_uuid_ok env) st = None"
  shows "AcceptRecoveryPoint env now stage_ok promote_ok (Some db) (rp_id row) = Save env now stage_ok promote_ok (Some db) st"
proof -
  have "find_by rp_id (rp_id row) (db_recovery_points db) = Some row"
    using assms(2,3) strict_ids by (subst find_by_Some_iff) (auto simp: rows_wf_def)
  then show ?thesis
    using assms(1,4-6) by (simp add: AcceptRecoveryPoint_def open_opened offered_metaRevision)
qed


text \<open>
  A clean save offers nothing to recover.  After any such history, once a save of the revision
  that was loaded reports success, \<open>DetectRecoveryPoints\<close> finds no recovery point, whatever
  interrupted saves the history contains.
\<close>
theorem clean_save_offers_nothing:
  assumes "session env f" and "keeps_revision env" and "snd (CurrentRevision f) = Inr (st_Revision s)"
    and "st_Revision s < max_int64" and "Save env now stage_ok promote_ok f s = (f', None)"
  shows "DetectRecoveryPoints f' = (f', Inr [])"
proof -
  obtain db where db: "openStore f = Inr db" "session_inv env db"
    using file_inv_open [OF session_inv_step [OF assms(1,2)]] .
  obtain b where b: "env_encode env (stampState (scrubState env s)) = Inr b"
    "validate (env_uuid_str env) (env_uuid_ok env) (scrubState env s) = None" stage_ok promote_ok
    using Save_success [OF assms(5)] by metis
  have o: "opened db" "rows_wf db" using db(2) by (simp_all add: session_inv_def)
  have r: "metaRevision db = st_Revision s" "0 \<le> st_Revision s"
    using assms(3) db by (auto simp: CurrentRevision_def session_inv_def)
  have w: "wrap64 (st_Revision s + 1) = st_Revision s + 1" using assms(4) r(2) by (simp add: wrap64_succ)
  obtain db2 e old where s: "Save env now True True (Some db) s = (Some db2, e)" "opened db2" "rows_wf db2"
    "set old \<subseteq> set (db_recovery_points db)"
    "db_recovery_points db2 = old @ [\<lparr>rp_id = db_recovery_seq db + 1, rp_created_at = now,
       rp_revision = st_Revision s + 1, rp_blob = b\<rparr>]"
    "metaRevision db2 = (if True then st_Revision s + 1 else metaRevision db)" "True \<longleftrightarrow> e = None"
    by (rule Save_staged [OF o b(2,1), of now True, unfolded w])
  have "f' = Some db2"
    using assms(5) s(1) b(3,4) Save_committed [OF b(2,1) db(1), of now] Save_committed [OF b(2,1) open_opened [OF o(1)], of now]
    by simp
  moreover have "rp_revision x \<le> st_Revision s + 1" if "x \<in> set (db_recovery_points db2)" for x
    using that s(4,5) db(2) r(1) by (auto simp: session_inv_def row_ok_def)
  then have "filter (\<lambda>x. rp_revision x > metaRevision db2) (db_recovery_points db2) = []"
    using s(6) by (force simp: filter_empty_conv)
  ultimately show ?thesis using Detect_opened [OF s(2)] by simp
qed

text \<open>
  C2: an interrupted save is not lost.  When a save of the loaded revision commits its recovery point
  and dies before promoting it, the file still loads as before, the staged point is offered
  first, and accepting it (with the codec reading back what it writes) makes \<open>Load\<close> return the very
  document that was being saved, with its revision advanced once more.
\<close>
theorem interrupted_save_recoverable:
  assumes "session env f" and "keeps_revision env" and "snd (CurrentRevision f) = Inr (st_Revision s)"
    and "st_Revision s < max_int64" and "validate (env_uuid_str env) (env_uuid_ok env) (scrubState env s) = None"
    and "codec_on env (stampState (scrubState env s))" and "codec_on env (stampState (stampState (scrubState env s)))"
    and "Save env now True False f s = (f', e)"
  shows "snd (Load env f') = snd (Load env f) \<and>
    (\<exists>i rest f''. DetectRecoveryPoints f' =
         (f', Inr (\<lparr>rpt_ID = i, rpt_CreatedAt = now, rpt_Revision = st_Revision s + 1\<rparr> # rest)) \<and>
       AcceptRecoveryPoint env now' True True f' i = (f'', None) \<and>
       Load env f'' = (f'', Inr (stampState (stampState (scrubState env s)))))"
proof -
  let ?s = "stampState (scrubState env s)"
  obtain db where db: "openStore f = Inr db" "session_inv env db"
    using file_inv_open [OF session_inv_step [OF assms(1,2)]] .
  obtain b where b: "env_encode env ?s = Inr b" "env_decode env b = Inr ?s"
    using assms(6) by (auto simp: codec_on_def)
  obtain b2 where b2: "env_encode env (stampState ?s) = Inr b2" "env_decode env b2 = Inr (stampState ?s)"
    using assms(7) by (auto simp: codec_on_def)
  have o: "opened db" "rows_wf db" using db(2) by (simp_all add: session_inv_def)
  have r: "metaRevision db = st_Revision s" "0 \<le> st_Revision s"
    using assms(3) db by (auto simp: CurrentRevision_def session_inv_def)
  have w: "wrap64 (st_Revision s + 1) = st_Revision s + 1" using assms(4) r(2) by (simp add: wrap64_succ)
  let ?i = "db_recovery_seq db + 1"
  let ?row = "\<lparr>rp_id = ?i, rp_created_at = now, rp_revision = st_Revision s + 1, rp_blob = b\<rparr>"
  obtain db2 e2 old where s: "Save env now True False (Some db) s = (Some db2, e2)" "opened db2" "rows_wf db2"
    "set old \<subseteq> set (db_recovery_points db)" "db_recovery_points db2 = old @ [?row]"
    "metaRevision db2 = (if False then st_Revision s + 1 else metaRevision db)" "False \<longleftrightarrow> e2 = None"
    by (rule Save_staged [OF o assms(5) b(1), of now False, unfolded w])
  have same: "Save env now True False f s = Save env now True False (Some db) s"
    using b(1) assms(5) by (simp add: Save_def Let_def db(1) open_opened [OF o(1)])
  then have f': "f' = Some db2" using assms(8) s(1) by simp
  have ld: "snd (Load env f') = snd (Load env f)"
    using Save_failed_load [of env now True False f s f' "the e2"] same s(1,7) f' by (cases e2) auto
  have dt: "DetectRecoveryPoints f' = (f', Inr (pointOf ?row # map pointOf (rev (filter (\<lambda>x. rp_revision x > metaRevision db2) old))))"
    using r(1) s(6) by (simp add: f' Detect_opened [OF s(2)] rows_wf_sort [OF s(3)]) (simp add: s(5))
  have ac: "AcceptRecoveryPoint env now' True True f' ?i = Save env now' True True f' ?s"
    using Accept_offered [OF s(2,3), of ?row] s(5,6) r(1) b(2) assms(5) by (simp add: f')
  have sc: "scrubState env ?s = ?s" by (rule scrub_stamp_scrub)
  obtain f'' where f'': "Save env now' True True f' ?s = (f'', None)"
    using Save_committed [of env ?s b2 f' db2 now'] sc assms(5) b2(1) open_opened [OF s(2)] by (simp add: f')
  then have "Load env f'' = (f'', Inr (stampState ?s))"
    using Save_Load_committed [OF f''] assms(7) sc by simp
  then show ?thesis using ld dt ac f'' by (auto simp: pointOf_def)
qed

section \<open>Migration\<close>

lemma runMigrations_production:
  assumes "0 \<le> v" "v < SchemaVersion"
  shows "runMigrations migrations v blob = (if v = 1 then Inr blob else Inl (Code state_invalid))"
proof -
  have reg: "migrations 0 = None" "migrations 1 = Some migrateOperatorSurfacesAdditive"
    by (simp_all add: migrations_def)
  have "v = 0 \<or> v = 1" using assms by (auto simp: SchemaVersion_def)
  then show ?thesis
    using runMigrations.simps [of migrations 0 blob] runMigrations.simps [of migrations 1 blob]
      runMigrations.simps [of migrations 2 blob]
    by (auto simp: reg migrateOperatorSurfacesAdditive_def SchemaVersion_def)
qed

text \<open>A migrated copy loads as the decoded document with the new version stamp.\<close>
lemma migrateTemp_Load:
  assumes "migrateTemp env reg now db v = Inr temp" "opened db"
  shows "\<exists>blob mb st. db_show_state db = Some blob \<and> runMigrations reg v blob = Inr mb \<and> env_decode env mb = Inr st \<and>
     opened temp \<and> metaRevision temp = sm_Revision (fst (the (db_show_meta db))) \<and>
     db_recovery_points temp = db_recovery_points db \<and>
     (codec_on env (st\<lparr>st_SchemaVersion := SchemaVersion\<rparr>) \<longrightarrow>
        Load env (Some temp) = (Some temp, Inr (st\<lparr>st_SchemaVersion := SchemaVersion\<rparr>)))"
proof -
  obtain meta u blob where m: "db_show_meta db = Some (meta, u)" "db_show_state db = Some blob"
    using assms(2) by (auto simp: opened_def)
  note mt = assms(1) [unfolded migrateTemp_def open_opened [OF assms(2)] bind_res_simps m option.case Let_def]
  obtain mb where *: "runMigrations reg v blob = Inr mb"
    using mt by (cases "runMigrations reg v blob") auto
  obtain st where st: "env_decode env mb = Inr st"
    using mt by (cases "env_decode env mb") (auto simp: *)
  have v: "validate (env_uuid_str env) (env_uuid_ok env) st = None"
    using mt by (cases "validate (env_uuid_str env) (env_uuid_ok env) st") (auto simp: * st)
  obtain fb where fb: "env_encode env (st\<lparr>st_SchemaVersion := SchemaVersion\<rparr>) = Inr fb"
    using mt by (cases "env_encode env (st\<lparr>st_SchemaVersion := SchemaVersion\<rparr>)") (auto simp: * st v)
  have tmp: "temp = db\<lparr>db_show_meta := Some (meta\<lparr>sm_SchemaVersion := SchemaVersion, sm_Checksum := env_sha256Hex env fb\<rparr>, now),
       db_show_state := Some fb\<rparr>"
    using mt by (simp add: * st v fb)
  have o: "opened temp" using assms(2) tmp by (simp add: opened_def)
  have "Load env (Some temp) = (Some temp, Inr (st\<lparr>st_SchemaVersion := SchemaVersion\<rparr>))"
    if "codec_on env (st\<lparr>st_SchemaVersion := SchemaVersion\<rparr>)"
    using that v fb unfolding Load_opened [OF o] codec_on_def
    by (auto simp: loadFrom_def readMeta_def decodeAndValidate_def tmp SchemaVersion_def)
  moreover have "metaRevision temp = sm_Revision meta" by (simp add: tmp metaRevision_def readMeta_def SchemaVersion_def)
  ultimately show ?thesis using m * st o by (auto simp: tmp)
qed

text \<open>
  C38: a migration never damages the file.  Whatever goes wrong (a failed or unverifiable backup, a
  version without a registered transform, a transform that yields an invalid document, a failed
  rename), the file keeps its contents.  When migration reports success either nothing had to be done, or the file was
  at version 1, the backup has its complete old contents, the revision and the recovery points
  are unchanged, and the file now loads as the old document with the new version stamp.
\<close>
theorem Migrate_safe:
  assumes "openStore file = Inr db" and "Migrate env migrations now vacuum_ok swap_ok file = (file', backup, err)"
  shows "(err \<noteq> None \<longrightarrow> file' = Some db) \<and>
    (err = None \<longrightarrow> file' = Some db \<and> backup = None \<or>
       (\<exists>temp meta blob st. file' = Some temp \<and> backup = Some db \<and> readMeta db = Some meta \<and> sm_SchemaVersion meta = 1 \<and>
          db_show_state db = Some blob \<and> env_decode env blob = Inr st \<and> metaRevision temp = metaRevision db \<and>
          db_recovery_points temp = db_recovery_points db \<and>
          (codec_on env (st\<lparr>st_SchemaVersion := SchemaVersion\<rparr>) \<longrightarrow>
             Load env file' = (file', Inr (st\<lparr>st_SchemaVersion := SchemaVersion\<rparr>)))))"
proof -
  have o: "opened db" by (rule openStore_opened [OF assms(1)])
  obtain meta u blob where m: "db_show_meta db = Some (meta, u)" "db_show_state db = Some blob"
    using o by (auto simp: opened_def)
  consider "file' = Some db" "err \<noteq> None \<or> backup = None"
    | temp where "file' = Some temp" "backup = Some db" "err = None" "length blob \<noteq> 0"
      "0 \<le> sm_SchemaVersion meta" "sm_SchemaVersion meta < SchemaVersion"
      "migrateTemp env migrations now db (sm_SchemaVersion meta) = Inr temp"
    using assms(2) m
    by (auto simp: Migrate_def assms(1) Let_def verifiedBackup_def bind_res_Inr_iff open_opened [OF o]
        split: if_splits sum.splits)
  then show ?thesis
  proof cases
    case (2 temp)
    note t = migrateTemp_Load [OF 2(7) o]
    have v: "sm_SchemaVersion meta = 1"
      using t runMigrations_production [OF 2(5,6)] by (auto split: if_splits)
    have "metaRevision temp = metaRevision db"
      using t 2(4) m v by (auto simp: metaRevision_def [of db] readMeta_def)
    then show ?thesis using 2 t m v runMigrations_production [OF 2(5,6)]
      by (auto simp: readMeta_def)
  qed auto
qed

section \<open>A concrete environment\<close>

text \<open>A codec for empty shows of revision 0 to 255: one byte.\<close>
definition demo_env :: Env where
  "demo_env = \<lparr>
     env_encode = (\<lambda>s. if s = freshState\<lparr>st_Revision := st_Revision s\<rparr> \<and> 0 \<le> st_Revision s \<and> st_Revision s < 256
        then Inr [word_of_int (st_Revision s)] else Inl (Code ''STRICTJSON_ENCODE'')),
     env_decode = (\<lambda>b. if length b = 1 then Inr (freshState\<lparr>st_Revision := uint (hd b)\<rparr>) else Inl (Code ''STRICTJSON_DECODE'')),
     env_sha256Hex = map (\<lambda>w. char_of (unat w)),
     env_uuid_str = (\<lambda>i. []), env_uuid_ok = (\<lambda>s. True)\<rparr>"

lemma demo_codec:
  assumes "s = freshState\<lparr>st_Revision := r\<rparr>" "0 \<le> r" "r < 256"
  shows "env_encode demo_env s = Inr [word_of_int r]" "codec_on demo_env s"
  using assms by (simp_all add: demo_env_def codec_on_def uint_word_of_int take_bit_int_eq_self)

lemma demo_keeps_revision: "keeps_revision demo_env"
  by (auto simp: keeps_revision_def demo_env_def uint_word_of_int take_bit_int_eq_self split: if_splits)

lemma demo_valid: "validate f ok (freshState\<lparr>st_Revision := r\<rparr>) = None"
  by (simp add: validate_def freshState_def ValidateUniquePoolNames_def ValidateUniqueDeploymentNames_def
      ValidateSingleActive_def count_active_def ValidateUniqueGroupNames_def ValidateGroupReferences_def
      ValidateThemeUniqueNames_def ValidatePresetUniqueNames_def ValidateChaseUniqueNames_def
      ValidateMotionPresetUniqueNames_def ValidateSceneUniqueNames_def ValidateSingleActiveScene_def
      ValidateBlendPresetUniqueNames_def ValidateLayerReferences_def ValidateSurfaces_def ValidateUniqueSurfaceNames_def
      ValidateScriptUniqueNames_def ValidateNoteUniqueTitles_def ValidateMappings_def)

lemma demo_prepared:
  "scrubState demo_env (freshState\<lparr>st_Revision := r\<rparr>) = freshState\<lparr>st_Revision := r\<rparr>"
  "stampState (freshState\<lparr>st_Revision := r\<rparr>) = freshState\<lparr>st_Revision := wrap64 (r + 1)\<rparr>"
  by (simp_all add: scrubState_def stampState_def freshState_def ScrubDanglingSelections_def ScrubDanglingMappings_def)

lemma demo_wrap: "wrap64 1 = 1" "wrap64 2 = 2" by (simp_all add: wrap64_def)

lemmas demo_eval = demo_prepared [of 0] demo_prepared [of 1] demo_wrap

lemma freshState_rev: "freshState\<lparr>st_Revision := 0\<rparr> = freshState" by (simp add: freshState_def)

lemma demo_save: "\<exists>f'. Save demo_env ''t'' True True None (freshState\<lparr>st_Revision := 0\<rparr>) = (Some f', None)"
proof -
  obtain db where "openStore None = Inr db" by (simp add: openStore_def emptyFile_def)
  then show ?thesis
    using Save_committed [of demo_env "freshState\<lparr>st_Revision := 0\<rparr>" "[word_of_int 1]" None db "''t''"]
      demo_valid demo_codec(1) [of "freshState\<lparr>st_Revision := 1\<rparr>" 1]
    by (simp add: demo_eval)
qed

lemma demo_current: "snd (CurrentRevision None) = Inr (st_Revision (freshState\<lparr>st_Revision := 0\<rparr>))"
  by (simp add: CurrentRevision_def openStore_def emptyFile_def seedRows_def metaRevision_def readMeta_def applicationID_def)

theorem Save_then_Load_witness:
  "\<exists>f. Load demo_env f = (f, Inr (freshState\<lparr>st_Revision := 1\<rparr>)) \<and> CurrentRevision f = (f, Inr 1)"
proof -
  obtain f where "Save demo_env ''t'' True True None (freshState\<lparr>st_Revision := 0\<rparr>) = (Some f, None)"
    using demo_save by blast
  from Save_then_Load [OF this] show ?thesis
    using demo_codec(2) [of _ 1] by (auto simp: demo_eval)
qed


theorem scrubState_keeps_validity_witness:
  "validate (env_uuid_str demo_env) (env_uuid_ok demo_env) (scrubState demo_env freshState) = None"
  using scrubState_keeps_validity [of demo_env freshState] demo_valid [of _ _ 0] by (simp add: freshState_rev)

theorem Load_trusts_only_checked_witness:
  "\<exists>db. openStore None = Inr db \<and> snd (Load demo_env None) = Inr freshState"
proof -
  obtain db where "openStore None = Inr db" "readMeta db = None"
    by (simp add: openStore_def emptyFile_def seedRows_def readMeta_def applicationID_def)
  then show ?thesis using Load_trusts_only_checked [of None db demo_env freshState] by blast
qed


theorem clean_save_offers_nothing_witness:
  "\<exists>f. fst (Save demo_env ''t'' True True None (freshState\<lparr>st_Revision := 0\<rparr>)) = f \<and> DetectRecoveryPoints f = (f, Inr [])"
proof -
  obtain f where f: "Save demo_env ''t'' True True None (freshState\<lparr>st_Revision := 0\<rparr>) = (Some f, None)"
    using demo_save by blast
  from clean_save_offers_nothing [OF session.start demo_keeps_revision demo_current _ f] show ?thesis
    by (simp add: f max_int64_def)
qed

theorem interrupted_save_recoverable_witness:
  "\<exists>f f'' i. fst (Save demo_env ''t'' True False None (freshState\<lparr>st_Revision := 0\<rparr>)) = f \<and>
     AcceptRecoveryPoint demo_env ''u'' True True f i = (f'', None) \<and>
     Load demo_env f'' = (f'', Inr (freshState\<lparr>st_Revision := 2\<rparr>))"
proof -
  let ?s = "freshState\<lparr>st_Revision := 0\<rparr>"
  obtain f e where f: "Save demo_env ''t'' True False None ?s = (f, e)" by fastforce
  have c: "codec_on demo_env (stampState (scrubState demo_env ?s))" "codec_on demo_env (stampState (stampState (scrubState demo_env ?s)))"
    using demo_codec(2) [of _ 1] demo_codec(2) [of _ 2] by (simp_all add: demo_eval)
  have v: "validate (env_uuid_str demo_env) (env_uuid_ok demo_env) (scrubState demo_env ?s) = None"
    using demo_valid by (simp add: demo_eval)
  from interrupted_save_recoverable [OF session.start demo_keeps_revision demo_current _ v c f, of "''u''"] show ?thesis
    by (auto simp: f demo_eval max_int64_def)
qed

definition demo_v1 :: Store where
  "demo_v1 = \<lparr>db_application_id = applicationID,
     db_show_meta = Some (\<lparr>sm_SchemaVersion = 1, sm_Revision = 7, sm_Checksum = []\<rparr>, []),
     db_show_state = Some [7], db_recovery_points = [], db_recovery_seq = 0\<rparr>"

theorem Migrate_safe_witness:
  "\<exists>f'. Migrate demo_env migrations ''t'' True True (Some demo_v1) = (f', Some demo_v1, None) \<and>
     Load demo_env f' = (f', Inr (freshState\<lparr>st_Revision := 7\<rparr>))"
proof -
  have o: "openStore (Some demo_v1) = Inr demo_v1" by (rule open_opened) (simp add: opened_def demo_v1_def)
  have d: "env_decode demo_env [7] = Inr (freshState\<lparr>st_Revision := 7\<rparr>)" by (simp add: demo_env_def)
  have s: "freshState\<lparr>st_Revision := r, st_SchemaVersion := SchemaVersion\<rparr> = freshState\<lparr>st_Revision := r\<rparr>" for r
    by (simp add: freshState_def)
  have rm: "runMigrations migrations 1 [7] = Inr [7]"
    using runMigrations_production [of 1] by (simp add: SchemaVersion_def)
  have v1: "db_show_state demo_v1 = Some [7]" by (simp add: demo_v1_def)
  have bk: "verifiedBackup demo_env True (Some demo_v1) = Inr demo_v1"
    using d demo_valid by (simp add: verifiedBackup_def verifyBackupReadBack_def o Let_def readMeta_def)
       (simp add: demo_v1_def)
  have "\<exists>temp. migrateTemp demo_env migrations ''t'' demo_v1 1 = Inr temp"
    using d demo_valid rm demo_codec(1) [of _ 7]
    by (simp add: migrateTemp_def o v1 s Let_def)
  then obtain temp where t: "migrateTemp demo_env migrations ''t'' demo_v1 1 = Inr temp" ..
  have m: "Migrate demo_env migrations ''t'' True True (Some demo_v1) = (Some temp, Some demo_v1, None)"
    using t bk by (simp add: Migrate_def o Let_def) (simp add: demo_v1_def SchemaVersion_def)
  show ?thesis
    using Migrate_safe [OF o m] d demo_codec(2) [of _ 7] m by (auto simp: demo_v1_def s)
qed

end
