(* ===== verification/CommandShow.thy ===== *)
theory CommandShow
  imports Command Substitution ShowStore
begin

text \<open>
  What the command handlers of \<open>src/internal/command\<close> share: the files they read and write, the outside
  code they call, and the shape of every editing command, which loads the show named by \<open>--show\<close>,
  applies one operation of a domain package and saves.

  A \<open>World\<close> is the show files and the other files by resolved path.  A \<open>Host\<close> gives, for one run of a
  command, the codecs, the text of errors, the clock, the UUIDs it mints and which writes succeed.
\<close>

record World =
  w_Shows :: "string \<Rightarrow> Store option"
  w_Files :: "string \<Rightarrow> string option"

record Host =
  host_env :: Env
  host_resolve :: "string \<Rightarrow> string \<Rightarrow> string"
  host_now :: string
  host_stage_ok :: bool
  host_promote_ok :: bool
  host_write_ok :: bool
  host_mint :: "nat \<Rightarrow> uuid option"
  host_text :: "golc_error \<Rightarrow> string"
  host_uuid_parse :: "string \<Rightarrow> uuid option"
  host_plan_encode :: "planBody \<Rightarrow> string result"
  host_digest :: "string \<Rightarrow> string"
  host_plan_json :: "ImpactPlan \<Rightarrow> string result"
  host_plan_read :: "string \<Rightarrow> ImpactPlan result"
  host_yaml :: "string \<Rightarrow> FixtureDefinition result"
  host_fix_encode :: "FixtureDefinition \<Rightarrow> string result"
  host_detail :: "CapabilityGapSeverity \<Rightarrow> CapabilityType \<Rightarrow> string"
  host_pool_update_review :: "string \<Rightarrow> string result"
  host_parse_float :: "string \<Rightarrow> f64 option"
  host_float_text :: "f64 \<Rightarrow> string"
  host_parse_time :: "string \<Rightarrow> int option"

section \<open>Results\<close>

definition succeed :: "string \<Rightarrow> World \<Rightarrow> Result \<times> World" where
  "succeed out w = (\<lparr>res_ExitCode = 0, res_Stdout = out, res_Stderr = []\<rparr>, w)"

text \<open>A command that failed, and an invocation that was malformed.\<close>
definition fail :: "Host \<Rightarrow> golc_error \<Rightarrow> World \<Rightarrow> Result \<times> World" where
  "fail h e w = (\<lparr>res_ExitCode = 1, res_Stdout = [], res_Stderr = host_text h e @ newline\<rparr>, w)"

definition malformed :: "Host \<Rightarrow> golc_error \<Rightarrow> World \<Rightarrow> Result \<times> World" where
  "malformed h e w = (\<lparr>res_ExitCode = 2, res_Stdout = [], res_Stderr = host_text h e @ newline\<rparr>, w)"

lemma outcome_simps [simp]:
  "res_ExitCode (fst (succeed out w)) = 0" "snd (succeed out w) = w" "res_Stdout (fst (succeed out w)) = out"
  "res_ExitCode (fst (fail h e w)) = 1" "snd (fail h e w) = w"
  "res_ExitCode (fst (malformed h e w)) = 2" "snd (malformed h e w) = w"
  by (simp_all add: succeed_def fail_def malformed_def)

section \<open>Loading and saving\<close>

definition load_show :: "Host \<Rightarrow> string \<Rightarrow> string \<Rightarrow> World \<Rightarrow> State result \<times> World" where
  "load_show h dir path w =
     (let p = host_resolve h dir path; (f, r) = Load (host_env h) (w_Shows w p) in (r, w\<lparr>w_Shows := (w_Shows w)(p := f)\<rparr>))"

definition save_show :: "Host \<Rightarrow> string \<Rightarrow> string \<Rightarrow> State \<Rightarrow> World \<Rightarrow> golc_error option \<times> World" where
  "save_show h dir path s w =
     (let p = host_resolve h dir path;
          (f, e) = Save (host_env h) (host_now h) (host_stage_ok h) (host_promote_ok h) (w_Shows w p) s
      in (e, w\<lparr>w_Shows := (w_Shows w)(p := f)\<rparr>))"

text \<open>A command that only reads the show.\<close>
definition read_show :: "Host \<Rightarrow> string \<Rightarrow> string \<Rightarrow> (State \<Rightarrow> World \<Rightarrow> Result \<times> World) \<Rightarrow> World \<Rightarrow> Result \<times> World" where
  "read_show h dir path f w =
     (case load_show h dir path w of
        (Inl e, w1) \<Rightarrow> fail h e w1
      | (Inr state, w1) \<Rightarrow> f state w1)"

definition save_result :: "Host \<Rightarrow> string \<Rightarrow> string \<Rightarrow> State \<Rightarrow> string \<Rightarrow> World \<Rightarrow> Result \<times> World" where
  "save_result h dir path state out w =
     (case save_show h dir path state w of
        (Some e, w1) \<Rightarrow> fail h e w1
      | (None, w1) \<Rightarrow> succeed out w1)"

text \<open>A command that edits it: the operation gives the new document and the confirmation line.\<close>
definition edit_show ::
  "Host \<Rightarrow> string \<Rightarrow> string \<Rightarrow> (State \<Rightarrow> (State \<times> string) result) \<Rightarrow> World \<Rightarrow> Result \<times> World" where
  "edit_show h dir path f =
     read_show h dir path (\<lambda>state w1.
       case f state of
         Inl e \<Rightarrow> fail h e w1
       | Inr (state', out) \<Rightarrow> save_result h dir path state' out w1)"

section \<open>Arguments every command file parses\<close>

definition showFlag :: "string \<Rightarrow> (string \<Rightarrow> string \<Rightarrow> string result) option" where
  "showFlag flag = (if flag = ''--show'' then Some (\<lambda>v _. Inr v) else None)"

text \<open>\<open>--show <path>\<close> and nothing else.\<close>
definition parseShowOnlyArgs :: "string \<Rightarrow> string list \<Rightarrow> string result" where
  "parseShowOnlyArgs errCode args =
     bind_res (parse_flags (Code errCode) showFlag no_switches args [])
       (\<lambda>showPath. if showPath = [] then Inl (Code errCode) else Inr showPath)"

definition parseDomainNameShowArgs :: "string \<Rightarrow> string list \<Rightarrow> (string \<times> string) result" where
  "parseDomainNameShowArgs errCode args =
     (case args of
        [] \<Rightarrow> Inl (Code errCode)
      | name # rest \<Rightarrow>
          if HasPrefix name ''-'' then Inl (Code errCode)
          else bind_res (parseShowOnlyArgs errCode rest) (\<lambda>showPath. Inr (name, showPath)))"

definition parseDomainRenameArgs :: "string \<Rightarrow> string list \<Rightarrow> (string \<times> string \<times> string) result" where
  "parseDomainRenameArgs errCode args =
     (case args of
        oldName # newName # rest \<Rightarrow>
          if HasPrefix oldName ''-'' \<or> HasPrefix newName ''-'' then Inl (Code errCode)
          else bind_res (parseShowOnlyArgs errCode rest) (\<lambda>showPath. Inr (oldName, newName, showPath))
      | _ \<Rightarrow> Inl (Code errCode))"

text \<open>\<open>strconv.Atoi\<close>, at least 1.\<close>
definition parsePositiveInt :: "string \<Rightarrow> int option" where
  "parsePositiveInt raw = (case ParseInt raw of Some v \<Rightarrow> if v < 1 then None else Some v | None \<Rightarrow> None)"

definition positiveFlag :: "golc_error \<Rightarrow> (int \<Rightarrow> 'a \<Rightarrow> 'a) \<Rightarrow> string \<Rightarrow> 'a \<Rightarrow> 'a result" where
  "positiveFlag err f v acc = (case parsePositiveInt v of None \<Rightarrow> Inl err | Some n \<Rightarrow> Inr (f n acc))"

definition uuidFlag :: "golc_error \<Rightarrow> Host \<Rightarrow> (uuid \<Rightarrow> 'a \<Rightarrow> 'a) \<Rightarrow> string \<Rightarrow> 'a \<Rightarrow> 'a result" where
  "uuidFlag err h f v acc = (case host_uuid_parse h v of None \<Rightarrow> Inl err | Some i \<Rightarrow> Inr (f i acc))"

definition floatFlag :: "golc_error \<Rightarrow> Host \<Rightarrow> (f64 \<Rightarrow> 'a \<Rightarrow> 'a) \<Rightarrow> string \<Rightarrow> 'a \<Rightarrow> 'a result" where
  "floatFlag err h f v acc = (case host_parse_float h v of None \<Rightarrow> Inl err | Some x \<Rightarrow> Inr (f x acc))"

text \<open>The comma-separated indices of \<open>--order\<close>.\<close>
fun parseOrder :: "golc_error \<Rightarrow> string list \<Rightarrow> int list result" where
  "parseOrder err [] = Inr []"
| "parseOrder err (part # parts) =
     (let trimmed = trim_space part in
      if trimmed = [] then parseOrder err parts
      else case ParseInt trimmed of
          None \<Rightarrow> Inl err
        | Some index \<Rightarrow> bind_res (parseOrder err parts) (\<lambda>order. Inr (index # order)))"

text \<open>The loop of \<open>reorderScenes\<close> and \<open>reorderChaseSteps\<close>.\<close>
fun pickAll :: "golc_error \<Rightarrow> 'a list \<Rightarrow> int set \<Rightarrow> int list \<Rightarrow> 'a list result" where
  "pickAll err xs seen [] = Inr []"
| "pickAll err xs seen (index # order) =
     (if index < 0 \<or> index \<ge> int (length xs) then Inl err
      else if index \<in> seen then Inl err
      else bind_res (pickAll err xs (insert index seen) order) (\<lambda>ys. Inr (xs ! nat index # ys)))"

definition reorder :: "golc_error \<Rightarrow> 'a list \<Rightarrow> int list \<Rightarrow> 'a list result" where
  "reorder err xs order = (if length order \<noteq> length xs then Inl err else pickAll err xs {} order)"

section \<open>What an edit does to the files\<close>

text \<open>What a show file loads as, which is all that opening it leaves unchanged.\<close>
definition content :: "Env \<Rightarrow> Store option \<Rightarrow> State result \<times> int result" where
  "content env f = (snd (Load env f), snd (CurrentRevision f))"

lemma content_Load [simp]: "content env (fst (Load env f)) = content env f"
proof (cases "openStore f")
  case (Inl e)
  then show ?thesis by (simp add: Load_def)
next
  case (Inr db)
  then show ?thesis
    by (simp add: content_def Load_def CurrentRevision_def open_opened [OF openStore_opened [OF Inr]])
qed

lemma content_Save_failed:
  "Save env now st pr f s = (f', Some e) \<Longrightarrow> content env f' = content env f"
  using Save_failed_load by (simp add: content_def)

text \<open>The files other than the shows, and the shows at other paths, are untouched.\<close>
definition only_at :: "string \<Rightarrow> World \<Rightarrow> World \<Rightarrow> bool" where
  "only_at p w w' \<longleftrightarrow> w_Files w' = w_Files w \<and> (\<forall>q. q \<noteq> p \<longrightarrow> w_Shows w' q = w_Shows w q)"

text \<open>Nothing changed: every show loads as before.\<close>
definition unchanged :: "Env \<Rightarrow> string \<Rightarrow> World \<Rightarrow> World \<Rightarrow> bool" where
  "unchanged env p w w' \<longleftrightarrow> only_at p w w' \<and> content env (w_Shows w' p) = content env (w_Shows w p)"

lemma only_at_refl [simp]: "only_at p w w" by (simp add: only_at_def)
lemma unchanged_refl [simp]: "unchanged env p w w" by (simp add: unchanged_def)

lemma unchanged_trans: "\<lbrakk>unchanged env p w w1; unchanged env p w1 w2\<rbrakk> \<Longrightarrow> unchanged env p w w2"
  by (auto simp: unchanged_def only_at_def)

lemma load_show_unchanged:
  assumes "load_show h dir path w = (r, w1)"
  shows "unchanged (host_env h) (host_resolve h dir path) w w1"
    "r = snd (Load (host_env h) (w_Shows w (host_resolve h dir path)))"
  using assms by (auto simp: load_show_def Let_def unchanged_def only_at_def split: prod.splits)
    (metis content_Load fst_conv)+

lemma save_show_failed:
  assumes "save_show h dir path s w = (Some e, w1)"
  shows "unchanged (host_env h) (host_resolve h dir path) w w1"
  using assms by (auto simp: save_show_def Let_def unchanged_def only_at_def dest: content_Save_failed split: prod.splits)

lemma save_show_committed:
  assumes "save_show h dir path s w = (None, w1)" and "codec_on (host_env h) (stampState (scrubState (host_env h) s))"
  shows "only_at (host_resolve h dir path) w w1 \<and>
    content (host_env h) (w_Shows w1 (host_resolve h dir path)) =
      (Inr (stampState (scrubState (host_env h) s)), Inr (wrap64 (st_Revision s + 1))) \<and>
    validate (env_uuid_str (host_env h)) (env_uuid_ok (host_env h)) (scrubState (host_env h) s) = None"
  using assms Save_Load_committed [OF _ assms(2)]
  by (auto simp: save_show_def Let_def only_at_def content_def split: prod.splits)

text \<open>The codec reads back whatever it writes.\<close>
definition round_trips :: "Env \<Rightarrow> bool" where
  "round_trips env \<longleftrightarrow> (\<forall>s b. env_encode env s = Inr b \<longrightarrow> env_decode env b = Inr s)"

lemma save_show_round_trip:
  assumes "save_show h dir path s w = (None, w1)" and "round_trips (host_env h)"
  shows "only_at (host_resolve h dir path) w w1 \<and>
    content (host_env h) (w_Shows w1 (host_resolve h dir path)) =
      (Inr (stampState (scrubState (host_env h) s)), Inr (wrap64 (st_Revision s + 1))) \<and>
    validate (env_uuid_str (host_env h)) (env_uuid_ok (host_env h)) (scrubState (host_env h) s) = None"
proof (rule save_show_committed [OF assms(1)])
  obtain f' where "Save (host_env h) (host_now h) (host_stage_ok h) (host_promote_ok h) (w_Shows w (host_resolve h dir path)) s = (f', None)"
    using assms(1) by (auto simp: save_show_def Let_def split: prod.splits)
  then show "codec_on (host_env h) (stampState (scrubState (host_env h) s))"
    using assms(2) by (elim Save_success) (auto simp: codec_on_def round_trips_def)
qed

lemma read_show_cases:
  obtains (failed) e w1 where "read_show h dir path f w = fail h e w1" "unchanged (host_env h) (host_resolve h dir path) w w1"
      "snd (Load (host_env h) (w_Shows w (host_resolve h dir path))) = Inl e"
  | (loaded) state w1 where "read_show h dir path f w = f state w1" "unchanged (host_env h) (host_resolve h dir path) w w1"
      "snd (Load (host_env h) (w_Shows w (host_resolve h dir path))) = Inr state"
proof -
  obtain r w1 where l: "load_show h dir path w = (r, w1)" by force
  show ?thesis
  proof (cases r)
    case (Inl e)
    then show ?thesis using failed l load_show_unchanged [OF l] by (simp add: read_show_def)
  next
    case (Inr state)
    then show ?thesis using loaded l load_show_unchanged [OF l] by (simp add: read_show_def)
  qed
qed

text \<open>An edit fails and changes nothing, or succeeds with the operation's document saved.\<close>
lemma edit_show_cases:
  assumes "edit_show h dir path f w = (res, w')"
  obtains (failed) "res_ExitCode res = 1" "unchanged (host_env h) (host_resolve h dir path) w w'"
  | (saved) state state' out w1 where "res_ExitCode res = 0" "res_Stdout res = out"
      "snd (Load (host_env h) (w_Shows w (host_resolve h dir path))) = Inr state" "f state = Inr (state', out)"
      "unchanged (host_env h) (host_resolve h dir path) w w1" "save_show h dir path state' w1 = (None, w')"
proof (cases rule: read_show_cases [of h dir path "\<lambda>state w1.
       case f state of Inl e \<Rightarrow> fail h e w1
       | Inr (state', out) \<Rightarrow> save_result h dir path state' out w1" w])
  case (failed e w1)
  then show ?thesis using assms that(1) by (simp add: edit_show_def) (metis fst_conv outcome_simps(4,5) snd_conv)
next
  case (loaded state w1)
  show ?thesis
  proof (cases "f state")
    case (Inl e)
    then show ?thesis using loaded assms that(1) by (simp add: edit_show_def) (metis fst_conv outcome_simps(4,5) snd_conv)
  next
    case (Inr p)
    obtain state' out where p: "p = (state', out)" by force
    obtain e w2 where s: "save_show h dir path state' w1 = (e, w2)" by force
    show ?thesis
    proof (cases e)
      case None
      then have "(res, w') = succeed out w2" using assms loaded Inr p s by (simp add: edit_show_def save_result_def)
      then show ?thesis using that(2) [of out state state' w1] loaded Inr p s None by (simp add: succeed_def)
    next
      case (Some err)
      then have "(res, w') = fail h err w2" using assms loaded Inr p s by (simp add: edit_show_def save_result_def)
      then show ?thesis
        using that(1) loaded(2) unchanged_trans save_show_failed [of h dir path state' w1 err w2] s Some by (simp add: fail_def)
    qed
  qed
qed

text \<open>The law of every editing command.\<close>
lemma edit_show_atomic:
  assumes "edit_show h dir path f w = (res, w')"
    and "round_trips (host_env h)"
  shows "(res_ExitCode res = 1 \<and> unchanged (host_env h) (host_resolve h dir path) w w') \<or>
    (\<exists>state state'. res_ExitCode res = 0 \<and> snd (Load (host_env h) (w_Shows w (host_resolve h dir path))) = Inr state \<and>
       f state = Inr (state', res_Stdout res) \<and> only_at (host_resolve h dir path) w w' \<and>
       content (host_env h) (w_Shows w' (host_resolve h dir path)) =
         (Inr (stampState (scrubState (host_env h) state')), Inr (wrap64 (st_Revision state' + 1))) \<and>
       validate (env_uuid_str (host_env h)) (env_uuid_ok (host_env h)) (scrubState (host_env h) state') = None)"
  using assms(1)
proof (cases rule: edit_show_cases)
  case (saved state state' out w1)
  have "only_at (host_resolve h dir path) w w'"
    using saved(5,6) save_show_round_trip [OF saved(6) assms(2)] by (auto simp: unchanged_def only_at_def)
  then show ?thesis using saved save_show_round_trip [OF saved(6) assms(2)] by blast
qed blast

text \<open>An edit that nothing stops does succeed.\<close>
lemma edit_show_runs:
  assumes "p = host_resolve h dir path" "openStore (w_Shows w p) = Inr db" "loadFrom (host_env h) db = Inr state"
    and "f state = Inr (state', out)" "validate (env_uuid_str (host_env h)) (env_uuid_ok (host_env h)) (scrubState (host_env h) state') = None"
    and "env_encode (host_env h) (stampState (scrubState (host_env h) state')) = Inr b" "host_stage_ok h" "host_promote_ok h"
  shows "edit_show h dir path f w =
    succeed out (w\<lparr>w_Shows := (w_Shows w)(p := fst (Save (host_env h) (host_now h) True True (Some db) state'))\<rparr>)"
proof -
  have "openStore (Some db) = Inr db" using open_opened [OF openStore_opened [OF assms(2)]] .
  then obtain f' where s: "Save (host_env h) (host_now h) True True (Some db) state' = (f', None)"
    using Save_committed [OF assms(5,6)] by metis
  have "load_show h dir path w = (Inr state, w\<lparr>w_Shows := (w_Shows w)(p \<mapsto> db)\<rparr>)"
    using assms(1-3) by (simp add: load_show_def Load_def)
  then show ?thesis using assms(1,4,7,8) s by (simp add: edit_show_def read_show_def save_result_def save_show_def)
qed

section \<open>One edit at most\<close>

text \<open>Every show loads as before.\<close>
definition shows_kept :: "Env \<Rightarrow> World \<Rightarrow> World \<Rightarrow> bool" where
  "shows_kept env w w' \<longleftrightarrow> (\<forall>q. content env (w_Shows w' q) = content env (w_Shows w q))"

lemma shows_kept_refl [simp]: "shows_kept env w w" by (simp add: shows_kept_def)

lemma unchanged_shows_kept: "unchanged env p w w' \<Longrightarrow> shows_kept env w w'"
  by (auto simp: unchanged_def only_at_def shows_kept_def)

lemma shows_kept_trans: "\<lbrakk>shows_kept env w w1; shows_kept env w1 w2\<rbrakk> \<Longrightarrow> shows_kept env w w2"
  by (simp add: shows_kept_def)

lemma read_show_shows_kept:
  assumes "\<And>state w1. shows_kept (host_env h) w1 (snd (f state w1))"
  shows "shows_kept (host_env h) w (snd (read_show h dir path f w))"
proof (cases rule: read_show_cases [of h dir path f w])
  case (failed e w1)
  then show ?thesis using unchanged_shows_kept by simp
next
  case (loaded state w1)
  then show ?thesis using unchanged_shows_kept shows_kept_trans assms by metis
qed

text \<open>
  The law of every command: the shows load as before; or the command succeeded, exactly one show
  changed, and it now holds a valid document at the revision after the one it was loaded at.
\<close>
definition one_edit :: "Env \<Rightarrow> World \<Rightarrow> Result \<times> World \<Rightarrow> bool" where
  "one_edit env w out \<longleftrightarrow> shows_kept env w (snd out) \<or>
     (res_ExitCode (fst out) = 0 \<and>
      (\<exists>p state state'. only_at p w (snd out) \<and> snd (Load env (w_Shows w p)) = Inr state \<and>
         content env (w_Shows (snd out) p) = (Inr state', Inr (wrap64 (st_Revision state + 1))) \<and>
         st_Revision state' = wrap64 (st_Revision state + 1) \<and> validate (env_uuid_str env) (env_uuid_ok env) state' = None))"

named_theorems edits \<open>commands that obey the law\<close>

lemma one_edit_kept: "shows_kept env w (snd out) \<Longrightarrow> one_edit env w out" by (simp add: one_edit_def)

lemma one_edit_reports [simp, edits]: "one_edit env w (malformed h e w)" "one_edit env w (fail h e w)" "one_edit env w (succeed out w)"
  by (simp_all add: one_edit_def)

lemma stamped_revision [simp]: "st_Revision (stampState (scrubState env s)) = wrap64 (st_Revision s + 1)"
  by (simp add: stampState_def scrubState_def Let_def)

lemma one_edit_save_result:
  assumes "round_trips (host_env h)" "unchanged (host_env h) (host_resolve h dir path) w w1"
    and "snd (Load (host_env h) (w_Shows w (host_resolve h dir path))) = Inr state" "st_Revision state' = st_Revision state"
  shows "one_edit (host_env h) w (save_result h dir path state' out w1)"
proof -
  obtain e w2 where s: "save_show h dir path state' w1 = (e, w2)" by force
  show ?thesis
  proof (cases e)
    case (Some err)
    then have "unchanged (host_env h) (host_resolve h dir path) w1 w2" using save_show_failed s by blast
    then show ?thesis
      using s Some assms(2) unchanged_trans unchanged_shows_kept by (auto intro!: one_edit_kept simp: save_result_def) blast
  next
    case None
    note c = save_show_round_trip [OF s [unfolded None] assms(1)]
    have "only_at (host_resolve h dir path) w w2" using c assms(2) by (auto simp: unchanged_def only_at_def)
    moreover have "validate (env_uuid_str (host_env h)) (env_uuid_ok (host_env h)) (stampState (scrubState (host_env h) state')) = None"
      using c validate_stampState by simp
    ultimately show ?thesis using s None c assms(3,4) by (auto simp: one_edit_def save_result_def)
  qed
qed

text \<open>After loading, a command saves or reports.\<close>
inductive saves_or_reports :: "Host \<Rightarrow> string \<Rightarrow> string \<Rightarrow> State \<Rightarrow> World \<Rightarrow> Result \<times> World \<Rightarrow> bool"
  for h dir path state w where
  saves: "st_Revision state' = st_Revision state \<Longrightarrow> saves_or_reports h dir path state w (save_result h dir path state' out w)"
| reports: "shows_kept (host_env h) w (snd out) \<Longrightarrow> saves_or_reports h dir path state w out"

lemma saves_or_reports_intros [intro!]:
  "saves_or_reports h dir path state w (fail h' e w)" "saves_or_reports h dir path state w (malformed h' e w)"
  "saves_or_reports h dir path state w (succeed out w)"
  by (simp_all add: saves_or_reports.reports)

lemma one_edit_read_show:
  assumes "round_trips (host_env h)" "\<And>state w1. saves_or_reports h dir path state w1 (f state w1)"
  shows "one_edit (host_env h) w (read_show h dir path f w)"
proof (cases rule: read_show_cases [of h dir path f w])
  case (failed e w1)
  then show ?thesis using unchanged_shows_kept by (auto intro: one_edit_kept)
next
  case (loaded state w1)
  from assms(2) [of state w1] show ?thesis
  proof cases
    case (saves state' out)
    then show ?thesis using loaded one_edit_save_result [OF assms(1) loaded(2,3)] by simp
  next
    case reports
    then show ?thesis using loaded unchanged_shows_kept shows_kept_trans one_edit_kept by metis
  qed
qed

lemma one_edit_edit_show:
  assumes "round_trips (host_env h)" "\<And>state state' out. f state = Inr (state', out) \<Longrightarrow> st_Revision state' = st_Revision state"
  shows "one_edit (host_env h) w (edit_show h dir path f w)"
  unfolding edit_show_def
  by (rule one_edit_read_show [OF assms(1)]) (auto intro: saves_or_reports.saves assms(2) split: sum.split)

section \<open>Reordering\<close>

lemma pickAll_Inr: "pickAll err xs seen order = Inr ys \<longleftrightarrow>
  set order \<subseteq> {0..<int (length xs)} - seen \<and> distinct order \<and> ys = map (\<lambda>i. xs ! nat i) order"
  by (induction order arbitrary: seen ys) (auto simp: bind_res_Inr_iff)

text \<open>Exactly the permutations are accepted, and nothing is lost or duplicated.\<close>
lemma reorder_permutes:
  "(\<exists>ys. reorder err xs order = Inr ys) \<longleftrightarrow> mset order = mset (map int [0..<length xs])"
  "reorder err xs order = Inr ys \<Longrightarrow> mset ys = mset xs \<and> length ys = length xs \<and> (\<forall>i<length ys. ys ! i = xs ! nat (order ! i))"
proof -
  have perm: "mset order = mset (map int [0..<length xs])"
    if "set order \<subseteq> {0..<int (length xs)}" "distinct order" "length order = length xs"
  proof -
    have "card (set order) = card {0..<int (length xs)}" using that(2,3) by (simp add: distinct_card)
    then have "set order = {0..<int (length xs)}" using that(1) by (intro card_subset_eq) auto
    also have "\<dots> = set (map int [0..<length xs])" by (simp add: image_int_atLeastLessThan)
    finally show ?thesis using that(2) by (intro set_eq_iff_mset_eq_distinct [THEN iffD1]) (auto simp: distinct_map)
  qed
  have conv: "set order \<subseteq> {0..<int (length xs)} \<and> distinct order \<and> length order = length xs"
    if "mset order = mset (map int [0..<length xs])"
    using mset_eq_setD [OF that] mset_eq_imp_distinct_iff [OF that] mset_eq_length [OF that] by (auto simp: distinct_map)
  have iff: "reorder err xs order = Inr ys \<longleftrightarrow> mset order = mset (map int [0..<length xs]) \<and> ys = map (\<lambda>i. xs ! nat i) order" for ys
    using perm conv by (auto simp: reorder_def pickAll_Inr)
  show "(\<exists>ys. reorder err xs order = Inr ys) \<longleftrightarrow> mset order = mset (map int [0..<length xs])" by (simp add: iff)
  assume "reorder err xs order = Inr ys"
  then have m: "mset order = mset (map int [0..<length xs])" and ys: "ys = map (\<lambda>i. xs ! nat i) order" by (simp_all add: iff)
  have "mset ys = image_mset (\<lambda>i. xs ! nat i) (mset (map int [0..<length xs]))" using m ys by (simp flip: m)
  also have "\<dots> = mset (map ((!) xs) [0..<length xs])" by (simp add: image_mset.compositionality o_def)
  finally have "mset ys = mset xs" by (simp add: map_nth)
  then show "mset ys = mset xs \<and> length ys = length xs \<and> (\<forall>i<length ys. ys ! i = xs ! nat (order ! i))"
    using ys mset_eq_length by fastforce
qed

section \<open>A concrete host\<close>

text \<open>A codec for the documents of a table: one byte, the position.\<close>
definition table_env :: "State list \<Rightarrow> Env" where
  "table_env tbl = \<lparr>
     env_encode = (\<lambda>s. case index_of (\<lambda>t. t = s) tbl of Some i \<Rightarrow> Inr [word_of_nat i] | None \<Rightarrow> Inl (Code ''STRICTJSON_ENCODE'')),
     env_decode = (\<lambda>b. if length b = 1 \<and> unat (hd b) < length tbl then Inr (tbl ! unat (hd b)) else Inl (Code ''STRICTJSON_DECODE'')),
     env_sha256Hex = map (\<lambda>w. char_of (unat w)),
     env_uuid_str = (\<lambda>i. []), env_uuid_ok = (\<lambda>s. True)\<rparr>"

lemma index_of_nth: "index_of p xs = Some i \<Longrightarrow> i < length xs \<and> p (xs ! i)"
  by (induction xs arbitrary: i) (auto split: if_splits option.splits)

lemma table_env_round_trips: "length tbl \<le> 256 \<Longrightarrow> round_trips (table_env tbl)"
  by (auto simp: round_trips_def table_env_def unat_of_nat split: option.splits dest!: index_of_nth)

text \<open>A host over a table of documents: paths as they are, all writes succeed, the identity as the hash.\<close>
definition table_host :: "State list \<Rightarrow> Host" where
  "table_host tbl = \<lparr>host_env = table_env tbl, host_resolve = (\<lambda>dir path. path), host_now = ''t'', host_stage_ok = True,
     host_promote_ok = True, host_write_ok = True, host_mint = demo_mint, host_text = (\<lambda>e. ''error''),
     host_uuid_parse = (\<lambda>s. None), host_plan_encode = demo_encode, host_digest = id,
     host_plan_json = (\<lambda>plan. if plan = demo_plan then Inr ''plan'' else Inl (Code ''STRICTJSON_ENCODE'')),
     host_plan_read = (\<lambda>data. if data = ''plan'' then Inr demo_plan else Inl (Code ''STRICTJSON_DECODE'')),
     host_yaml = (\<lambda>data. Inl (Code ''YAML'')), host_fix_encode = (\<lambda>d. Inl (Code ''STRICTJSON_ENCODE'')), host_detail = (\<lambda>s t. []),
     host_pool_update_review = (\<lambda>dir. Inr ''preview''), host_parse_float = (\<lambda>s. map_option f_of_int (ParseInt s)),
     host_float_text = (\<lambda>x. []), host_parse_time = ParseInt\<rparr>"

lemma table_host_simps [simp]:
  "host_env (table_host tbl) = table_env tbl" "host_resolve (table_host tbl) dir path = path" "host_now (table_host tbl) = ''t''"
  "host_stage_ok (table_host tbl)" "host_promote_ok (table_host tbl)" "host_mint (table_host tbl) = demo_mint"
  "host_plan_encode (table_host tbl) = demo_encode" "host_digest (table_host tbl) = id"
  "host_plan_read (table_host tbl) ''plan'' = Inr demo_plan"
  "env_uuid_str (table_env tbl) i = []" "env_uuid_ok (table_env tbl) t"
  by (simp_all add: table_host_def table_env_def)

lemma table_encode: "index_of (\<lambda>t. t = s) tbl = Some i \<Longrightarrow> env_encode (table_env tbl) s = Inr [word_of_nat i]"
  by (simp add: table_env_def)

lemma open_fresh: "\<exists>db. openStore None = Inr db \<and> (\<forall>env. loadFrom env db = Inr freshState)"
  by (simp add: openStore_def emptyFile_def seedRows_def loadFrom_def readMeta_def applicationID_def)

definition empty_world :: World where
  "empty_world = \<lparr>w_Shows = (\<lambda>p. None), w_Files = (\<lambda>p. None)\<rparr>"

end
