(* ===== verification/CommandPool.thy ===== *)
theory CommandPool
  imports CommandShow
begin

text \<open>
  \<open>src/internal/command/pool.go\<close>: the \<open>pool\<close> commands with their argument parsers.  \<open>pool create\<close>, \<open>rename\<close> and
  \<open>delete\<close> edit the show; \<open>pool update\<close> and \<open>pool substitute\<close> only compute a plan; \<open>pool apply\<close> passes a reviewed
  plan through both gates, applies it and saves.
\<close>

section \<open>Arguments\<close>

abbreviation pool_usage :: golc_error where "pool_usage \<equiv> Code ''GOLC_POOL_USAGE''"
abbreviation apply_usage :: golc_error where "apply_usage \<equiv> Code ''GOLC_POOL_APPLY_USAGE''"
abbreviation substitution_usage :: golc_error where "substitution_usage \<equiv> Code ''GOLC_SUBSTITUTION_USAGE''"

definition parseCapabilityList :: "string \<Rightarrow> CapabilityType list" where
  "parseCapabilityList raw = filter (\<lambda>t. t \<noteq> []) (map trim_space (Split CHR '','' raw))"

text \<open>The parsed arguments: show path and required capabilities.\<close>
definition poolCreateFlag :: "string \<Rightarrow> (string \<Rightarrow> string \<times> CapabilityType list \<Rightarrow> (string \<times> CapabilityType list) result) option" where
  "poolCreateFlag flag =
     (if flag = ''--requires'' then Some (\<lambda>v (showPath, _). Inr (showPath, parseCapabilityList v))
      else if flag = ''--show'' then Some (\<lambda>v (_, requires). Inr (v, requires))
      else None)"

definition parsePoolCreateArgs :: "string list \<Rightarrow> (string \<times> string \<times> CapabilityType list) result" where
  "parsePoolCreateArgs args =
     (case args of
        [] \<Rightarrow> Inl pool_usage
      | name # rest \<Rightarrow>
          if HasPrefix name ''-'' then Inl pool_usage
          else bind_res (parse_flags pool_usage poolCreateFlag no_switches rest ([], []))
            (\<lambda>(showPath, requires). if showPath = [] then Inl pool_usage else Inr (name, showPath, requires)))"

definition poolByName :: "Pool list \<Rightarrow> string \<Rightarrow> Pool option" where
  "poolByName pools name = find_by pool_Name name pools"

definition parsePoolRenameArgs :: "string list \<Rightarrow> (string \<times> string \<times> string) result" where
  "parsePoolRenameArgs = parseDomainRenameArgs ''GOLC_POOL_USAGE''"

definition parsePoolNameShowArgs :: "string list \<Rightarrow> (string \<times> string) result" where
  "parsePoolNameShowArgs = parseDomainNameShowArgs ''GOLC_POOL_USAGE''"

section \<open>pool create, rename and delete\<close>

definition runPoolCreate :: "Host \<Rightarrow> World CommandHandler" where
  "runPoolCreate h request w =
     (case parsePoolCreateArgs (rq_Args request) of
        Inl e \<Rightarrow> malformed h e w
      | Inr (name, showPath, requires) \<Rightarrow>
          edit_show h (rq_Root request) showPath (\<lambda>state.
            bind_res (NewPool (host_mint h 0) name requires) (\<lambda>newPool.
              Inr (state\<lparr>st_Pools := st_Pools state @ [newPool]\<rparr>,
                   ''GOLC_POOL_CREATED: '' @ pool_Name newPool @ '' ('' @ env_uuid_str (host_env h) (pool_ID newPool) @ '')'' @ newline))) w)"

definition runPoolRename :: "Host \<Rightarrow> World CommandHandler" where
  "runPoolRename h request w =
     (case parsePoolRenameArgs (rq_Args request) of
        Inl e \<Rightarrow> malformed h e w
      | Inr (oldName, newName, showPath) \<Rightarrow>
          edit_show h (rq_Root request) showPath (\<lambda>state.
            case poolByName (st_Pools state) oldName of
              None \<Rightarrow> Inl (Code ''GOLC_POOL_NOT_FOUND'')
            | Some targetPool \<Rightarrow>
                bind_res (RenamePool targetPool newName) (\<lambda>renamed.
                  Inr (state\<lparr>st_Pools := update_first (\<lambda>p. pool_ID p = pool_ID renamed) (\<lambda>_. renamed) (st_Pools state)\<rparr>,
                       ''GOLC_POOL_RENAMED: '' @ oldName @ '' -> '' @ pool_Name renamed @ '' ('' @
                       env_uuid_str (host_env h) (pool_ID renamed) @ '')'' @ newline))) w)"

definition runPoolDelete :: "Host \<Rightarrow> World CommandHandler" where
  "runPoolDelete h request w =
     (case parsePoolNameShowArgs (rq_Args request) of
        Inl e \<Rightarrow> malformed h e w
      | Inr (name, showPath) \<Rightarrow>
          edit_show h (rq_Root request) showPath (\<lambda>state.
            case poolByName (st_Pools state) name of
              None \<Rightarrow> Inl (Code ''GOLC_POOL_NOT_FOUND'')
            | Some targetPool \<Rightarrow>
                bind_res (DeletePool (st_Pools state) (st_Deployments state) (st_Groups state) (pool_ID targetPool))
                  (\<lambda>(newPools, newDeployments, newGroups).
                    Inr (state\<lparr>st_Pools := newPools, st_Deployments := newDeployments, st_Groups := newGroups\<rparr>,
                         ''GOLC_POOL_DELETED: '' @ name @ '' ('' @ env_uuid_str (host_env h) (pool_ID targetPool) @ '')'' @ newline))) w)"

section \<open>pool update\<close>

record poolUpdateArgs =
  pu_poolName :: string
  pu_add :: "PoolMemberSpec list"
  pu_remove :: "uuid list"
  pu_attachDeployments :: "uuid list"
  pu_startUniverse :: int
  pu_startAddress :: int
  pu_propagateOverride :: string
  pu_outPath :: string
  pu_json :: bool
  pu_showPath :: string

definition parsePoolMemberSpec :: "string \<Rightarrow> PoolMemberSpec result" where
  "parsePoolMemberSpec raw =
     (case SplitN CHR ''|'' 4 raw of
        key # hash # mode # further \<Rightarrow>
          if key = [] \<or> hash = [] \<or> mode = [] then Inl apply_usage
          else
            let spec = \<lparr>spec_FixtureStableKey = key, spec_FixtureContentHash = hash, spec_Mode = mode, spec_ChannelCount = 0\<rparr> in
            (case further of
               channels # _ \<Rightarrow>
                 if channels = [] then Inr spec
                 else (case parsePositiveInt channels of None \<Rightarrow> Inl apply_usage | Some n \<Rightarrow> Inr (spec\<lparr>spec_ChannelCount := n\<rparr>))
             | [] \<Rightarrow> Inr spec)
      | _ \<Rightarrow> Inl apply_usage)"

definition poolUpdateFlag :: "Host \<Rightarrow> string \<Rightarrow> (string \<Rightarrow> poolUpdateArgs \<Rightarrow> poolUpdateArgs result) option" where
  "poolUpdateFlag h flag =
     (if flag = ''--add'' then Some (\<lambda>v a. bind_res (parsePoolMemberSpec v) (\<lambda>spec. Inr (a\<lparr>pu_add := pu_add a @ [spec]\<rparr>)))
      else if flag = ''--remove'' then Some (uuidFlag apply_usage h (\<lambda>i a. a\<lparr>pu_remove := pu_remove a @ [i]\<rparr>))
      else if flag = ''--attach-deployment'' then Some (uuidFlag apply_usage h (\<lambda>i a. a\<lparr>pu_attachDeployments := pu_attachDeployments a @ [i]\<rparr>))
      else if flag = ''--start-universe'' then Some (positiveFlag apply_usage (\<lambda>n a. a\<lparr>pu_startUniverse := n\<rparr>))
      else if flag = ''--start-address'' then Some (positiveFlag apply_usage (\<lambda>n a. a\<lparr>pu_startAddress := n\<rparr>))
      else if flag = ''--propagate'' then Some (\<lambda>v a. Inr (a\<lparr>pu_propagateOverride := v\<rparr>))
      else if flag = ''--out'' then Some (\<lambda>v a. Inr (a\<lparr>pu_outPath := v\<rparr>))
      else if flag = ''--show'' then Some (\<lambda>v a. Inr (a\<lparr>pu_showPath := v\<rparr>))
      else None)"

definition poolUpdateSwitch :: "string \<Rightarrow> (poolUpdateArgs \<Rightarrow> poolUpdateArgs) option" where
  "poolUpdateSwitch flag = (if flag = ''--json'' then Some (\<lambda>a. a\<lparr>pu_json := True\<rparr>) else None)"

definition parsePoolUpdateArgs :: "Host \<Rightarrow> string list \<Rightarrow> poolUpdateArgs result" where
  "parsePoolUpdateArgs h args =
     (case args of
        [] \<Rightarrow> Inl apply_usage
      | name # rest \<Rightarrow>
          if HasPrefix name ''-'' then Inl apply_usage
          else bind_res (parse_flags apply_usage (poolUpdateFlag h) poolUpdateSwitch rest
              \<lparr>pu_poolName = name, pu_add = [], pu_remove = [], pu_attachDeployments = [], pu_startUniverse = 0,
               pu_startAddress = 0, pu_propagateOverride = [], pu_outPath = [], pu_json = False, pu_showPath = []\<rparr>)
            (\<lambda>parsed.
              if pu_showPath parsed = [] then Inl apply_usage
              else if pu_propagateOverride parsed \<notin> {[], ''immediate'', ''preview''} then Inl apply_usage
              else Inr parsed))"

text \<open>The committed default is read through the project configuration: \<open>host_pool_update_review\<close>.\<close>
definition resolvePoolUpdateReview :: "Host \<Rightarrow> string \<Rightarrow> string \<Rightarrow> string result" where
  "resolvePoolUpdateReview h dir override =
     (if override \<noteq> [] then Inr override
      else case host_pool_update_review h dir of
          Inl e \<Rightarrow> Inl (Wrap ''GOLC_POOL_APPLY_USAGE'' e)
        | Inr v \<Rightarrow> if v \<noteq> ''immediate'' \<and> v \<noteq> ''preview'' then Inr ''preview'' else Inr v)"

definition writeImpactPlan :: "Host \<Rightarrow> string \<Rightarrow> string \<Rightarrow> ImpactPlan \<Rightarrow> World \<Rightarrow> Result \<times> World" where
  "writeImpactPlan h dir outPath plan w =
     (case host_plan_json h plan of
        Inl e \<Rightarrow> fail h (Wrap ''GOLC_POOL_PLAN_ENCODE_FAILED'' e) w
      | Inr payload \<Rightarrow>
          let destination = host_resolve h dir outPath in
          if \<not> host_write_ok h then fail h (Code ''GOLC_POOL_PLAN_WRITE_FAILED'') w
          else succeed (''GOLC_POOL_PLAN: wrote '' @ destination @ newline)
                 (w\<lparr>w_Files := (w_Files w)(destination \<mapsto> payload)\<rparr>))"

definition printPlan :: "Host \<Rightarrow> ImpactPlan \<Rightarrow> World \<Rightarrow> Result \<times> World" where
  "printPlan h plan w =
     (case host_plan_json h plan of
        Inl e \<Rightarrow> fail h (Wrap ''GOLC_POOL_PLAN_ENCODE_FAILED'' e) w
      | Inr payload \<Rightarrow> succeed payload w)"

definition runPoolUpdate :: "Host \<Rightarrow> World CommandHandler" where
  "runPoolUpdate h request w =
     (case parsePoolUpdateArgs h (rq_Args request) of
        Inl e \<Rightarrow> malformed h e w
      | Inr parsed \<Rightarrow>
          read_show h (rq_Root request) (pu_showPath parsed) (\<lambda>state w1.
            case poolByName (st_Pools state) (pu_poolName parsed) of
              None \<Rightarrow> fail h (Code ''GOLC_POOL_NOT_FOUND'') w1
            | Some targetPool \<Rightarrow>
                (case resolvePoolUpdateReview h (rq_Root request) (pu_propagateOverride parsed) of
                   Inl e \<Rightarrow> fail h e w1
                 | Inr propagate \<Rightarrow>
                     let req = \<lparr>req_PoolID = pool_ID targetPool, req_Add = pu_add parsed, req_Remove = pu_remove parsed,
                                req_AttachDeployments = pu_attachDeployments parsed, req_StartUniverse = pu_startUniverse parsed,
                                req_StartAddress = pu_startAddress parsed, req_Propagate = propagate\<rparr> in
                     (case BuildImpactPlan (host_plan_encode h) (host_digest h) (st_Pools state) (st_Deployments state)
                        (st_Groups state) (st_Revision state) req of
                        Inl e \<Rightarrow> fail h e w1
                      | Inr plan \<Rightarrow>
                          if pu_outPath parsed \<noteq> [] then writeImpactPlan h (rq_Root request) (pu_outPath parsed) plan w1
                          else if pu_json parsed then printPlan h plan w1
                          else succeed (''GOLC_POOL_PLAN: pool='' @ pool_Name targetPool @ '' operations='' @
                                 itoa (int (length (plan_Operations plan))) @ '' plan_id='' @ plan_PlanID plan @
                                 '' propagate='' @ plan_Propagate plan @ newline) w1))) w)"

section \<open>pool apply\<close>

definition poolApplyFlag :: "string \<Rightarrow> (string \<Rightarrow> string \<times> string \<Rightarrow> (string \<times> string) result) option" where
  "poolApplyFlag flag =
     (if flag = ''--plan-id'' then Some (\<lambda>v (_, showPath). Inr (v, showPath))
      else if flag = ''--show'' then Some (\<lambda>v (planID, _). Inr (planID, v))
      else None)"

definition parsePoolApplyArgs :: "string list \<Rightarrow> (string \<times> string \<times> string) result" where
  "parsePoolApplyArgs args =
     (case args of
        [] \<Rightarrow> Inl apply_usage
      | planFile # rest \<Rightarrow>
          if HasPrefix planFile ''--'' then Inl apply_usage
          else bind_res (parse_flags apply_usage poolApplyFlag no_switches rest ([], []))
            (\<lambda>(planID, showPath).
              if planFile = [] \<or> planID = [] \<or> showPath = [] then Inl apply_usage else Inr (planFile, planID, showPath)))"

definition applyPlan :: "Host \<Rightarrow> ImpactPlan \<Rightarrow> State \<Rightarrow> (State \<times> string) result" where
  "applyPlan h plan state =
     guard_err (ValidatePlanFreshness (host_plan_encode h) (host_digest h) plan (st_Pools state) (st_Deployments state)
                  (st_Groups state) (st_Revision state))
       (bind_res (Apply (host_mint h) (st_Pools state) (st_Deployments state) (st_Groups state) plan)
          (\<lambda>(newPools, newDeployments, newGroups).
            Inr (state\<lparr>st_Pools := newPools, st_Deployments := newDeployments, st_Groups := newGroups\<rparr>,
                 ''GOLC_POOL_APPLY: applied '' @ plan_PlanID plan @ '' ('' @ itoa (int (length (plan_Operations plan))) @
                 '' operations)'' @ newline)))"

definition runPoolApply :: "Host \<Rightarrow> World CommandHandler" where
  "runPoolApply h request w =
     (case parsePoolApplyArgs (rq_Args request) of
        Inl e \<Rightarrow> malformed h e w
      | Inr (planFile, planIDValue, showPath) \<Rightarrow>
          (case w_Files w (host_resolve h (rq_Root request) planFile) of
             None \<Rightarrow> fail h (Code ''GOLC_POOL_APPLY_PLAN_READ'') w
           | Some data \<Rightarrow>
               (case host_plan_read h data of
                  Inl e \<Rightarrow> fail h (Wrap ''GOLC_POOL_APPLY_PLAN_DECODE'' e) w
                | Inr plan \<Rightarrow>
                    (case ValidatePlanIntegrity (host_plan_encode h) (host_digest h) plan of
                       Some e \<Rightarrow> fail h e w
                     | None \<Rightarrow>
                         if plan_PlanID plan \<noteq> planIDValue then fail h (Code ''GOLC_POOL_APPLY_PLAN_ID_MISMATCH'') w
                         else edit_show h (rq_Root request) showPath (applyPlan h plan) w))))"

section \<open>pool substitute\<close>

record poolSubstituteArgs =
  ps_poolName :: string
  ps_fromPath :: string
  ps_toPath :: string
  ps_outPath :: string
  ps_json :: bool
  ps_showPath :: string

definition poolSubstituteFlag :: "string \<Rightarrow> (string \<Rightarrow> poolSubstituteArgs \<Rightarrow> poolSubstituteArgs result) option" where
  "poolSubstituteFlag flag =
     (if flag = ''--from'' then Some (\<lambda>v a. Inr (a\<lparr>ps_fromPath := v\<rparr>))
      else if flag = ''--to'' then Some (\<lambda>v a. Inr (a\<lparr>ps_toPath := v\<rparr>))
      else if flag = ''--out'' then Some (\<lambda>v a. Inr (a\<lparr>ps_outPath := v\<rparr>))
      else if flag = ''--show'' then Some (\<lambda>v a. Inr (a\<lparr>ps_showPath := v\<rparr>))
      else None)"

definition poolSubstituteSwitch :: "string \<Rightarrow> (poolSubstituteArgs \<Rightarrow> poolSubstituteArgs) option" where
  "poolSubstituteSwitch flag = (if flag = ''--json'' then Some (\<lambda>a. a\<lparr>ps_json := True\<rparr>) else None)"

definition parsePoolSubstituteArgs :: "string list \<Rightarrow> poolSubstituteArgs result" where
  "parsePoolSubstituteArgs args =
     (case args of
        [] \<Rightarrow> Inl substitution_usage
      | name # rest \<Rightarrow>
          if HasPrefix name ''-'' then Inl substitution_usage
          else bind_res (parse_flags substitution_usage poolSubstituteFlag poolSubstituteSwitch rest
              \<lparr>ps_poolName = name, ps_fromPath = [], ps_toPath = [], ps_outPath = [], ps_json = False, ps_showPath = []\<rparr>)
            (\<lambda>parsed.
              if ps_fromPath parsed = [] \<or> ps_toPath parsed = [] \<or> ps_showPath parsed = [] then Inl substitution_usage
              else Inr parsed))"

text \<open>Reading and decoding one of the two fixture files; \<open>wrap\<close> is the prefix of a decode error.\<close>
definition readFixture :: "Host \<Rightarrow> (golc_error \<Rightarrow> golc_error) \<Rightarrow> string \<Rightarrow> string \<Rightarrow> World \<Rightarrow> FixtureDefinition result" where
  "readFixture h wrap dir path w =
     (case w_Files w (host_resolve h dir path) of
        None \<Rightarrow> Inl (Code ''GOLC_FIXTURE_READ_FAILED'')
      | Some data \<Rightarrow> (case Decode (host_yaml h) data of Inl e \<Rightarrow> Inl (wrap e) | Inr d \<Rightarrow> Inr d))"

definition substitutionPlan :: "Host \<Rightarrow> string \<Rightarrow> poolSubstituteArgs \<Rightarrow> State \<Rightarrow> Pool \<Rightarrow> World \<Rightarrow> ImpactPlan result" where
  "substitutionPlan h dir parsed state targetPool w =
     bind_res (readFixture h (\<lambda>e. e) dir (ps_fromPath parsed) w) (\<lambda>from.
     bind_res (readFixture h (Wrap ''GOLC_SUBSTITUTION_TARGET_INVALID'') dir (ps_toPath parsed) w) (\<lambda>to.
     bind_res (Pin (host_fix_encode h) (host_digest h) from) (\<lambda>fromIdentity.
     bind_res (Pin (host_fix_encode h) (host_digest h) to) (\<lambda>toIdentity.
       BuildSubstitutionPlan (host_fix_encode h) (host_digest h) (host_plan_encode h) (host_digest h) (host_detail h) (host_text h)
         state from to \<lparr>sub_PoolID = pool_ID targetPool, sub_FromFixtureRef = id_StableKey fromIdentity,
           sub_ToFixtureRef = id_StableKey toIdentity\<rparr>))))"

definition runPoolSubstitute :: "Host \<Rightarrow> World CommandHandler" where
  "runPoolSubstitute h request w =
     (case parsePoolSubstituteArgs (rq_Args request) of
        Inl e \<Rightarrow> malformed h e w
      | Inr parsed \<Rightarrow>
          read_show h (rq_Root request) (ps_showPath parsed) (\<lambda>state w1.
            case poolByName (st_Pools state) (ps_poolName parsed) of
              None \<Rightarrow> fail h (Code ''GOLC_POOL_NOT_FOUND'') w1
            | Some targetPool \<Rightarrow>
                (case substitutionPlan h (rq_Root request) parsed state targetPool w1 of
                   Inl e \<Rightarrow> fail h e w1
                 | Inr plan \<Rightarrow>
                     if ps_outPath parsed \<noteq> [] then writeImpactPlan h (rq_Root request) (ps_outPath parsed) plan w1
                     else if ps_json parsed then printPlan h plan w1
                     else succeed (''GOLC_POOL_PLAN: pool='' @ pool_Name targetPool @ '' operations='' @
                            itoa (int (length (plan_Operations plan))) @ '' warnings='' @ itoa (int (length (plan_Warnings plan))) @
                            '' errors='' @ itoa (int (length (plan_Errors plan))) @ '' plan_id='' @ plan_PlanID plan @ newline) w1)) w)"

section \<open>The declarations\<close>

text \<open>The scope and the routes that the file declares; \<open>summary\<close> is the help text of a route.\<close>
definition poolScopes :: "ScopeRegistration list" where
  "poolScopes = [\<lparr>sr_Scope = ''pool'', sr_Summary = ''Logical fixture pool definitions, independent of concrete count/address/hardware.''\<rparr>]"

definition poolRoutes :: "(string \<Rightarrow> string) \<Rightarrow> Host \<Rightarrow> World CommandRegistration list" where
  "poolRoutes summary h = map (\<lambda>(route, handler). \<lparr>cr_Route = route, cr_Summary = summary route, cr_Handler = Some handler\<rparr>)
     [(''pool create'', runPoolCreate h), (''pool update'', runPoolUpdate h), (''pool apply'', runPoolApply h),
      (''pool substitute'', runPoolSubstitute h), (''pool rename'', runPoolRename h), (''pool delete'', runPoolDelete h)]"

lemma pool_keys:
  "normalizeKey ''pool'' = Inr ''pool''" "normalizeKey ''pool create'' = Inr ''pool create''" "normalizeKey ''pool update'' = Inr ''pool update''"
  "normalizeKey ''pool apply'' = Inr ''pool apply''" "normalizeKey ''pool substitute'' = Inr ''pool substitute''"
  "normalizeKey ''pool rename'' = Inr ''pool rename''" "normalizeKey ''pool delete'' = Inr ''pool delete''"
  by code_simp+

lemma pool_scopes: "routeScope ''pool create'' = ''pool''" "routeScope ''pool update'' = ''pool''" "routeScope ''pool apply'' = ''pool''"
  "routeScope ''pool substitute'' = ''pool''" "routeScope ''pool rename'' = ''pool''" "routeScope ''pool delete'' = ''pool''"
  "Contains ''pool'' '' '' = False"
  by code_simp+

lemma pool_less:
  "''pool create'' \<le> ''pool update''" "\<not> ''pool create'' \<le> ''pool apply''" "''pool create'' \<le> ''pool substitute''"
  "''pool create'' \<le> ''pool rename''" "''pool create'' \<le> ''pool delete''" "\<not> ''pool update'' \<le> ''pool apply''"
  "\<not> ''pool update'' \<le> ''pool substitute''" "\<not> ''pool update'' \<le> ''pool rename''" "\<not> ''pool update'' \<le> ''pool delete''"
  "''pool apply'' \<le> ''pool substitute''" "''pool apply'' \<le> ''pool rename''" "''pool apply'' \<le> ''pool delete''"
  "\<not> ''pool substitute'' \<le> ''pool rename''" "\<not> ''pool substitute'' \<le> ''pool delete''" "\<not> ''pool rename'' \<le> ''pool delete''"
  by code_simp+

lemma pool_registry: "\<exists>r. NewDefaultCommandRegistry poolScopes (poolRoutes summary h) = Inr r"
  by (simp add: NewDefaultCommandRegistry_def poolScopes_def poolRoutes_def pool_keys pool_scopes pool_less bind_res_def
      RegisterScope_def RegisterRoute_def NewCommandRegistry_def)

section \<open>What the commands do\<close>

lemma validate_unique_pools: "validate f ok s = None \<Longrightarrow> distinct (map pool_Name (st_Pools s))"
  by (simp add: validate_def ValidateUniquePoolNames_def)

lemma scrub_pools [simp]: "st_Pools (scrubState env s) = st_Pools s" by (simp add: scrubState_def)

lemma runPoolCreate_outcome:
  assumes "round_trips (host_env h)" and "runPoolCreate h request w = (res, w')"
  shows "case parsePoolCreateArgs (rq_Args request) of
      Inl _ \<Rightarrow> res_ExitCode res = 2 \<and> w' = w
    | Inr (name, showPath, requires) \<Rightarrow>
        let p = host_resolve h (rq_Root request) showPath in
        (res_ExitCode res = 1 \<and> unchanged (host_env h) p w w') \<or>
        (\<exists>state i. res_ExitCode res = 0 \<and> only_at p w w' \<and> host_mint h 0 = Some i \<and> trim_space name \<noteq> [] \<and>
           snd (Load (host_env h) (w_Shows w p)) = Inr state \<and> name \<notin> pool_Name ` set (st_Pools state) \<and>
           content (host_env h) (w_Shows w' p) =
             (Inr (stampState (scrubState (host_env h) (state\<lparr>st_Pools := st_Pools state @
                [\<lparr>pool_ID = i, pool_Name = name, pool_RequiredCapabilities = requires, pool_Members = []\<rparr>]\<rparr>))),
              Inr (wrap64 (st_Revision state + 1))))"
proof (cases "parsePoolCreateArgs (rq_Args request)")
  case (Inl e)
  then show ?thesis using assms(2) by (auto simp: runPoolCreate_def malformed_def)
next
  case (Inr a)
  obtain name showPath requires where a: "a = (name, showPath, requires)" by (cases a)
  let ?p = "host_resolve h (rq_Root request) showPath"
  note run = assms(2) [unfolded runPoolCreate_def Inr a sum.case prod.case]
  from edit_show_atomic [OF run assms(1)] show ?thesis
  proof
    assume "res_ExitCode res = 1 \<and> unchanged (host_env h) ?p w w'"
    then show ?thesis by (simp add: Inr a Let_def)
  next
    assume "\<exists>state state'. res_ExitCode res = 0 \<and> snd (Load (host_env h) (w_Shows w ?p)) = Inr state \<and>
       bind_res (NewPool (host_mint h 0) name requires) (\<lambda>newPool. Inr (state\<lparr>st_Pools := st_Pools state @ [newPool]\<rparr>,
          ''GOLC_POOL_CREATED: '' @ pool_Name newPool @ '' ('' @ env_uuid_str (host_env h) (pool_ID newPool) @ '')'' @ newline)) =
         Inr (state', res_Stdout res) \<and> only_at ?p w w' \<and>
       content (host_env h) (w_Shows w' ?p) =
         (Inr (stampState (scrubState (host_env h) state')), Inr (wrap64 (st_Revision state' + 1))) \<and>
       validate (env_uuid_str (host_env h)) (env_uuid_ok (host_env h)) (scrubState (host_env h) state') = None"
    then obtain state newPool where s: "res_ExitCode res = 0" "snd (Load (host_env h) (w_Shows w ?p)) = Inr state"
      "NewPool (host_mint h 0) name requires = Inr newPool" "only_at ?p w w'"
      "content (host_env h) (w_Shows w' ?p) = (Inr (stampState (scrubState (host_env h) (state\<lparr>st_Pools := st_Pools state @ [newPool]\<rparr>))),
         Inr (wrap64 (st_Revision state + 1)))"
      "validate (env_uuid_str (host_env h)) (env_uuid_ok (host_env h)) (scrubState (host_env h) (state\<lparr>st_Pools := st_Pools state @ [newPool]\<rparr>)) = None"
      by (auto simp: bind_res_Inr_iff)
    obtain i where i: "host_mint h 0 = Some i" "trim_space name \<noteq> []"
      "newPool = \<lparr>pool_ID = i, pool_Name = name, pool_RequiredCapabilities = requires, pool_Members = []\<rparr>"
      using s(3) by (auto simp: NewPool_def guard_err_def split: if_splits option.splits)
    have "name \<notin> pool_Name ` set (st_Pools state)" using validate_unique_pools [OF s(6)] by (simp add: i)
    then show ?thesis using s i by (simp add: Inr a Let_def)
  qed
qed

text \<open>
  C21: \<open>pool create\<close>. A well-formed invocation either fails and leaves every file loading as before, or
  appends one pool of the given name and requirements, with a new identity and no members, to the
  loaded document and saves it under the next revision; then no pool had that name, and nothing but
  the named show file is touched. A malformed invocation touches nothing.
\<close>
theorem runPoolCreate_effect:
  assumes "round_trips (host_env h)" and "runPoolCreate h request w = (res, w')"
  shows "case parsePoolCreateArgs (rq_Args request) of
      Inl _ \<Rightarrow> res_ExitCode res = 2 \<and> w' = w
    | Inr (name, showPath, requires) \<Rightarrow>
        let p = host_resolve h (rq_Root request) showPath in
        (res_ExitCode res = 1 \<and> unchanged (host_env h) p w w') \<or>
        (\<exists>state i. res_ExitCode res = 0 \<and> only_at p w w' \<and> host_mint h 0 = Some i \<and> trim_space name \<noteq> [] \<and>
           snd (Load (host_env h) (w_Shows w p)) = Inr state \<and> name \<notin> pool_Name ` set (st_Pools state) \<and>
           content (host_env h) (w_Shows w' p) =
             (Inr (stampState (scrubState (host_env h) (state\<lparr>st_Pools := st_Pools state @
                [\<lparr>pool_ID = i, pool_Name = name, pool_RequiredCapabilities = requires, pool_Members = []\<rparr>]\<rparr>))),
              Inr (wrap64 (st_Revision state + 1))))"
  using runPoolCreate_outcome [OF assms] .

lemma outputs_shows_kept [simp]:
  "shows_kept env w (snd (writeImpactPlan h dir out plan w))" "shows_kept env w (snd (printPlan h plan w))"
  by (auto simp: writeImpactPlan_def printPlan_def shows_kept_def Let_def split: sum.split)

text \<open>
  Planning changes no show. Whatever its arguments, \<open>pool update\<close> and \<open>pool substitute\<close> leave every show
  file loading exactly as before, with the same revision; at most a plan file is written.
\<close>
theorem planning_changes_no_show:
  "shows_kept (host_env h) w (snd (runPoolUpdate h request w)) \<and>
   shows_kept (host_env h) w (snd (runPoolSubstitute h request w))"
  unfolding runPoolUpdate_def runPoolSubstitute_def
  by (auto simp: Let_def intro!: read_show_shows_kept split: sum.split option.split)

section \<open>A reviewed plan is applied once\<close>

text \<open>The digest of the canonical encoding identifies a plan body.\<close>
definition plan_ids_unique :: "Host \<Rightarrow> bool" where
  "plan_ids_unique h \<longleftrightarrow> (\<forall>b c x y. host_plan_encode h b = Inr x \<longrightarrow> host_plan_encode h c = Inr y \<longrightarrow>
     host_digest h x = host_digest h y \<longrightarrow> b = c)"

lemma wrap64_succ_neq: "wrap64 (r + 1) \<noteq> r"
proof
  assume e: "wrap64 (r + 1) = r"
  then have r: "is_int64 r" using wrap64_range by metis
  show False
  proof (cases "r = max_int64")
    case True
    then show ?thesis using e by (simp add: wrap64_def max_int64_def)
  next
    case False
    then have "is_int64 (r + 1)" using r by (simp add: is_int64_def)
    then show ?thesis using e by simp
  qed
qed

lemma applyPlan_fresh:
  assumes "plan_ids_unique h" "ValidatePlanIntegrity (host_plan_encode h) (host_digest h) plan = None"
    and "st_Revision state \<noteq> plan_ExpectedRevision plan"
  shows "\<exists>e. applyPlan h plan state = Inl e"
proof -
  have "ValidatePlanFreshness (host_plan_encode h) (host_digest h) plan (st_Pools state) (st_Deployments state)
      (st_Groups state) (st_Revision state) \<noteq> None"
    by (rule stale_plan_gate) (use assms in \<open>auto simp: plan_ids_unique_def\<close>)
  then show ?thesis by (auto simp: applyPlan_def guard_err_def)
qed

lemma runPoolApply_success:
  assumes "runPoolApply h request w = (res, w')" "res_ExitCode res = 0"
  obtains planFile planID showPath data plan where
    "parsePoolApplyArgs (rq_Args request) = Inr (planFile, planID, showPath)"
    "w_Files w (host_resolve h (rq_Root request) planFile) = Some data" "host_plan_read h data = Inr plan"
    "ValidatePlanIntegrity (host_plan_encode h) (host_digest h) plan = None" "plan_PlanID plan = planID"
    "edit_show h (rq_Root request) showPath (applyPlan h plan) w = (res, w')"
  using assms
  by (auto simp: runPoolApply_def malformed_def fail_def split: sum.splits prod.splits option.splits if_splits)

text \<open>
  C28: A reviewed plan is applied at most once. After a successful \<open>pool apply\<close>, running it again with the
  same arguments, at any later time and with any newly minted identities, fails and changes nothing;
  provided plan identities are collision free and the two runs use the same codecs.
\<close>
theorem plan_applies_once:
  assumes "runPoolApply h request w = (res, w')" and "res_ExitCode res = 0"
    and "round_trips (host_env h)" and "plan_ids_unique h"
    and "h' = h\<lparr>host_now := now, host_mint := mint, host_stage_ok := st, host_promote_ok := pr\<rparr>"
  shows "res_ExitCode (fst (runPoolApply h' request w')) = 1 \<and>
    shows_kept (host_env h) w' (snd (runPoolApply h' request w'))"
proof -
  obtain planFile planID showPath data plan where
    p: "parsePoolApplyArgs (rq_Args request) = Inr (planFile, planID, showPath)"
    "w_Files w (host_resolve h (rq_Root request) planFile) = Some data" "host_plan_read h data = Inr plan"
    "ValidatePlanIntegrity (host_plan_encode h) (host_digest h) plan = None" "plan_PlanID plan = planID"
    "edit_show h (rq_Root request) showPath (applyPlan h plan) w = (res, w')"
    using runPoolApply_success [OF assms(1,2)] by metis
  let ?p = "host_resolve h (rq_Root request) showPath"
  obtain state state' where s: "snd (Load (host_env h) (w_Shows w ?p)) = Inr state" "applyPlan h plan state = Inr (state', res_Stdout res)"
    "only_at ?p w w'" "content (host_env h) (w_Shows w' ?p) =
         (Inr (stampState (scrubState (host_env h) state')), Inr (wrap64 (st_Revision state' + 1)))"
    using edit_show_atomic [OF p(6) assms(3)] assms(2) by auto
  have rev: "st_Revision state = plan_ExpectedRevision plan" using applyPlan_fresh [OF assms(4) p(4)] s(2) by fastforce
  have "st_Revision state' = st_Revision state"
    using s(2) by (auto simp: applyPlan_def guard_err_def bind_res_Inr_iff split: option.splits)
  then have "st_Revision (stampState (scrubState (host_env h) state')) \<noteq> plan_ExpectedRevision plan"
    using rev wrap64_succ_neq by (simp add: stampState_def scrubState_def)
  moreover have u: "plan_ids_unique h'" "host_env h' = host_env h" using assms(4,5) by (simp_all add: plan_ids_unique_def)
  ultimately obtain e where e: "applyPlan h' plan (stampState (scrubState (host_env h) state')) = Inl e"
    using applyPlan_fresh [of h' plan "stampState (scrubState (host_env h) state')"] p(4) assms(5) by auto
  have ld: "snd (Load (host_env h') (w_Shows w' (host_resolve h' (rq_Root request) showPath))) = Inr (stampState (scrubState (host_env h) state'))"
    using s(4) assms(5) by (simp add: content_def)
  have run: "runPoolApply h' request w' = edit_show h' (rq_Root request) showPath (applyPlan h' plan) w'"
    using p s(3) assms(5) by (simp add: runPoolApply_def only_at_def)
  obtain res2 w2 where r2: "edit_show h' (rq_Root request) showPath (applyPlan h' plan) w' = (res2, w2)" by force
  then show ?thesis
  proof (cases rule: edit_show_cases)
    case failed
    then show ?thesis using run r2 u unchanged_shows_kept by simp
  next
    case (saved st1 st2 out w1)
    then show ?thesis using ld e by simp
  qed
qed

section \<open>A concrete show\<close>

definition wash_state :: "int \<Rightarrow> State" where
  "wash_state r = freshState\<lparr>st_SchemaVersion := 2, st_Revision := r,
     st_Pools := [\<lparr>pool_ID = 100, pool_Name = ''Wash'', pool_RequiredCapabilities = [''intensity''], pool_Members = []\<rparr>]\<rparr>"

definition create_request :: Request where
  "create_request = \<lparr>rq_Route = ''pool create'', rq_Args = [''Wash'', ''--requires'', ''intensity'', ''--show=a.golc''], rq_Root = ''/''\<rparr>"

lemma wash_valid: "validate f ok (scrubState env (wash_state r)) = None" "stampState (scrubState env (wash_state 0)) = wash_state 1"
proof -
  have sc: "scrubState env (wash_state r) = wash_state r" for r
    by (simp add: wash_state_def scrubState_def freshState_def ScrubDanglingSelections_def ScrubDanglingMappings_def)
  show "validate f ok (scrubState env (wash_state r)) = None" unfolding sc
    by (simp add: wash_state_def validate_def freshState_def ValidatePool_def validateRequiredCapabilities_def
      supportedCapabilityTypes_def SupportedCapabilityTypes_def trim_space_def is_space_def
      ValidateUniquePoolNames_def ValidateUniqueDeploymentNames_def
      ValidateSingleActive_def count_active_def ValidateUniqueGroupNames_def ValidateGroupReferences_def
      ValidateThemeUniqueNames_def ValidatePresetUniqueNames_def ValidateChaseUniqueNames_def
      ValidateMotionPresetUniqueNames_def ValidateSceneUniqueNames_def ValidateSingleActiveScene_def
      ValidateBlendPresetUniqueNames_def ValidateLayerReferences_def ValidateSurfaces_def ValidateUniqueSurfaceNames_def
      ValidateScriptUniqueNames_def ValidateNoteUniqueTitles_def ValidateMappings_def)
  show "stampState (scrubState env (wash_state 0)) = wash_state 1" unfolding sc
    by (simp add: wash_state_def stampState_def SchemaVersion_def wrap64_def)
qed

lemma create_args: "parsePoolCreateArgs (rq_Args create_request) = Inr (''Wash'', ''a.golc'', [''intensity''])"
  by code_simp

lemma create_runs:
  assumes "parsePoolCreateArgs (rq_Args rq) = Inr (''Wash'', path, [''intensity''])" "openStore (w_Shows w path) = Inr db"
    and "loadFrom (table_env [wash_state 1]) db = Inr freshState"
  shows "runPoolCreate (table_host [wash_state 1]) rq w = succeed (''GOLC_POOL_CREATED: Wash ()'' @ newline)
    (w\<lparr>w_Shows := (w_Shows w)(path := fst (Save (table_env [wash_state 1]) ''t'' True True (Some db) (wash_state 0)))\<rparr>)"
proof -
  let ?h = "table_host [wash_state 1]"
  let ?pool = "\<lparr>pool_ID = 100, pool_Name = ''Wash'', pool_RequiredCapabilities = [''intensity''], pool_Members = []\<rparr>"
  let ?f = "\<lambda>state. bind_res (NewPool (host_mint ?h 0) ''Wash'' [''intensity'']) (\<lambda>newPool.
      Inr (state\<lparr>st_Pools := st_Pools state @ [newPool]\<rparr>, ''GOLC_POOL_CREATED: '' @ pool_Name newPool @ '' ('' @
        env_uuid_str (host_env ?h) (pool_ID newPool) @ '')'' @ newline))"
  have "NewPool (Some 100) ''Wash'' [''intensity''] = Inr ?pool" by code_simp
  then have f: "?f freshState = Inr (wash_state 0, ''GOLC_POOL_CREATED: Wash ()'' @ newline)"
    by (simp add: demo_mint_def bind_res_def wash_state_def freshState_def SchemaVersion_def)
  have e: "env_encode (host_env ?h) (stampState (scrubState (host_env ?h) (wash_state 0))) = Inr [0]"
    by (simp add: wash_valid table_env_def)
  show ?thesis
    unfolding runPoolCreate_def assms(1) sum.case prod.case
    using edit_show_runs [where h = ?h and f = ?f and path = path and dir = "rq_Root rq" and w = w and p = path, OF _ assms(2) _ f _ e] assms(3)
    by (simp add: wash_valid del: append.simps)
qed

lemma create_demo: "\<exists>w'. runPoolCreate (table_host [wash_state 1]) create_request empty_world =
  succeed (''GOLC_POOL_CREATED: Wash ()'' @ newline) w'"
proof -
  obtain db where db: "openStore None = Inr db" "\<And>env. loadFrom env db = Inr freshState" using open_fresh by blast
  have "openStore (w_Shows empty_world ''a.golc'') = Inr db" by (simp add: empty_world_def db)
  from create_runs [OF create_args this db(2)] show ?thesis by blast
qed

theorem runPoolCreate_effect_witness:
  "\<exists>res w'. runPoolCreate (table_host [wash_state 1]) create_request empty_world = (res, w') \<and> res_ExitCode res = 0 \<and>
     (\<exists>state i. snd (Load (table_env [wash_state 1]) None) = Inr state \<and> ''Wash'' \<notin> pool_Name ` set (st_Pools state) \<and>
        content (table_env [wash_state 1]) (w_Shows w' ''a.golc'') =
          (Inr (stampState (scrubState (table_env [wash_state 1]) (state\<lparr>st_Pools := st_Pools state @
             [\<lparr>pool_ID = i, pool_Name = ''Wash'', pool_RequiredCapabilities = [''intensity''], pool_Members = []\<rparr>]\<rparr>))),
           Inr (wrap64 (st_Revision state + 1))))"
proof -
  obtain res w' where r: "runPoolCreate (table_host [wash_state 1]) create_request empty_world = (res, w')" "res_ExitCode res = 0"
    using create_demo by (auto simp: succeed_def)
  have "round_trips (host_env (table_host [wash_state 1]))" by (simp add: table_env_round_trips)
  from runPoolCreate_effect [OF this r(1)] r show ?thesis
    by (auto simp: create_args Let_def empty_world_def)
qed

definition planned_state :: "int \<Rightarrow> Pool list \<times> Deployment list \<times> Group list \<Rightarrow> State" where
  "planned_state r x = (case x of (ps, ds, gs) \<Rightarrow>
     freshState\<lparr>st_Revision := r, st_Pools := ps, st_Deployments := ds, st_Groups := gs\<rparr>)"

definition reviewed :: "Pool list \<times> Deployment list \<times> Group list" where
  "reviewed = (demo_pools, demo_deployments, demo_groups)"

definition applied :: "Pool list \<times> Deployment list \<times> Group list" where
  "applied = projr (Apply demo_mint demo_pools demo_deployments demo_groups demo_plan)"

definition plan_store :: Store where
  "plan_store = \<lparr>db_application_id = applicationID, db_show_meta = Some (\<lparr>sm_SchemaVersion = SchemaVersion, sm_Revision = 4,
     sm_Checksum = [CHR 0x00]\<rparr>, ''t''), db_show_state = Some [0], db_recovery_points = [], db_recovery_seq = 0\<rparr>"

definition plan_world :: World where
  "plan_world = \<lparr>w_Shows = [''a.golc'' \<mapsto> plan_store], w_Files = [''p'' \<mapsto> ''plan'']\<rparr>"

definition apply_request :: Request where
  "apply_request = \<lparr>rq_Route = ''pool apply'', rq_Args = [''p'', ''--plan-id'', ''r4'', ''--show'', ''a.golc''], rq_Root = ''/''\<rparr>"

abbreviation plan_host :: Host where
  "plan_host \<equiv> table_host [planned_state 4 reviewed, planned_state 5 applied]"

lemma planned_valid:
  "validate f ok (planned_state 4 reviewed) = None" "validate f ok (planned_state 4 applied) = None"
  "scrubState env (planned_state 4 applied) = planned_state 4 applied" "planned_state 4 reviewed \<noteq> planned_state 5 applied"
  "Apply demo_mint demo_pools demo_deployments demo_groups demo_plan = Inr applied"
  "stampState (planned_state 4 applied) = planned_state 5 applied"
  by code_simp+

lemma plan_opens: "openStore (Some plan_store) = Inr plan_store"
  by (rule open_opened) (simp add: opened_def plan_store_def)

lemma plan_loads: "loadFrom (table_env [planned_state 4 reviewed, planned_state 5 applied]) plan_store = Inr (planned_state 4 reviewed)"
proof -
  have "char_of (0::nat) = CHR 0x00" by code_simp
  then show ?thesis
    by (simp add: loadFrom_def readMeta_def decodeAndValidate_def plan_store_def table_env_def SchemaVersion_def planned_valid)
qed

lemma plan_fresh: "applyPlan plan_host demo_plan (planned_state 4 reviewed) =
  Inr (planned_state 4 applied, ''GOLC_POOL_APPLY: applied r4 (4 operations)'' @ newline)"
  "ValidatePlanIntegrity demo_encode id demo_plan = None" "plan_PlanID demo_plan = ''r4''"
proof -
  have f: "ValidatePlanFreshness demo_encode id demo_plan demo_pools demo_deployments demo_groups 4 = None" by code_simp
  have t: "plan_PlanID demo_plan = ''r4''" "itoa (int (length (plan_Operations demo_plan))) = ''4''" by code_simp+
  show "applyPlan plan_host demo_plan (planned_state 4 reviewed) =
    Inr (planned_state 4 applied, ''GOLC_POOL_APPLY: applied r4 (4 operations)'' @ newline)"
  proof -
    obtain ps ds gs where a: "applied = (ps, ds, gs)" by (cases applied)
    have ap: "Apply demo_mint demo_pools demo_deployments demo_groups demo_plan = Inr (ps, ds, gs)" using planned_valid(5) a by simp
    have st: "st_Pools (planned_state 4 reviewed) = demo_pools" "st_Deployments (planned_state 4 reviewed) = demo_deployments"
      "st_Groups (planned_state 4 reviewed) = demo_groups" "st_Revision (planned_state 4 reviewed) = 4"
      by (simp_all add: planned_state_def reviewed_def)
    show ?thesis
      unfolding applyPlan_def st table_host_simps f ap guard_err_def bind_res_def t option.case sum.case prod.case
      by (simp add: planned_state_def reviewed_def a freshState_def)
  qed
  show "ValidatePlanIntegrity demo_encode id demo_plan = None" "plan_PlanID demo_plan = ''r4''" by code_simp+
qed

lemma apply_args: "parsePoolApplyArgs (rq_Args apply_request) = Inr (''p'', ''r4'', ''a.golc'')" by code_simp

lemma apply_demo: "\<exists>w'. runPoolApply plan_host apply_request plan_world =
  succeed (''GOLC_POOL_APPLY: applied r4 (4 operations)'' @ newline) w'"
proof -
  have e: "env_encode (host_env plan_host) (stampState (scrubState (host_env plan_host) (planned_state 4 applied))) = Inr [1]"
    by (simp add: planned_valid table_env_def)
  have l: "loadFrom (host_env plan_host) plan_store = Inr (planned_state 4 reviewed)" by (simp add: plan_loads)
  have v: "validate f ok (scrubState (host_env plan_host) (planned_state 4 applied)) = None" for f ok by (simp add: planned_valid)
  have o: "openStore (w_Shows plan_world ''a.golc'') = Inr plan_store" by (simp add: plan_world_def plan_opens)
  have p: "''a.golc'' = host_resolve plan_host ''/'' ''a.golc''" by simp
  have "\<exists>w'. edit_show plan_host ''/'' ''a.golc'' (applyPlan plan_host demo_plan) plan_world =
    succeed (''GOLC_POOL_APPLY: applied r4 (4 operations)'' @ newline) w'"
    using edit_show_runs [where f = "applyPlan plan_host demo_plan", OF p o l plan_fresh(1) v e] by (simp del: append.simps) blast
  then show ?thesis
    unfolding runPoolApply_def apply_args sum.case prod.case
    by (simp add: apply_request_def plan_world_def plan_fresh)
qed

theorem plan_applies_once_witness:
  "\<exists>res w'. runPoolApply plan_host apply_request plan_world = (res, w') \<and> res_ExitCode res = 0 \<and>
     res_ExitCode (fst (runPoolApply (plan_host\<lparr>host_now := ''later''\<rparr>) apply_request w')) = 1"
proof -
  obtain w' where r: "runPoolApply plan_host apply_request plan_world = succeed (''GOLC_POOL_APPLY: applied r4 (4 operations)'' @ newline) w'"
    using apply_demo by blast
  have u: "plan_ids_unique plan_host" using demo_encode_inj by (auto simp: plan_ids_unique_def)
  have t: "round_trips (host_env plan_host)" by (simp add: table_env_round_trips)
  have h: "plan_host\<lparr>host_now := ''later''\<rparr> =
      plan_host\<lparr>host_now := ''later'', host_mint := demo_mint, host_stage_ok := True, host_promote_ok := True\<rparr>"
    by (simp add: table_host_def)
  show ?thesis
    using plan_applies_once [OF r [unfolded succeed_def] _ t u h] r by (simp add: succeed_def del: append.simps)
qed

end
