(* ===== verification/Api.thy ===== *)
theory Api
  imports ApiKeys CommandPool
begin

text \<open>
  \<open>src/internal/api\<close>: the mutating requests of the HTTP interface.  \<open>mutate\<close> is the pipeline every single
  request goes through: scope, dry run, idempotent replay, revision precondition, execution of one
  routed command, event.  \<open>runBatch\<close> applies an ordered list of commands to a throwaway copy of the show
  and commits the outcome with one save, or nothing.

  Commands run through an \<open>Executor\<close>, the interface the package is given.  The mutex makes requests
  sequential, so each is one function on the state of the server: the files, the stored responses
  and the events fired so far.  What the clock and the disk do during a request is a \<open>Run\<close>.
\<close>

section \<open>observer.go\<close>

record MutationEvent =
  me_Route :: string
  me_Args :: "string list"
  me_Actor :: string
  me_Source :: string
  me_CorrelationID :: string
  me_ExpectedRevision :: "int option"
  me_ResultingRevision :: "int option"
  me_Outcome :: string
  me_StatusCode :: int

record mutationResult =
  mu_Result :: string
  mu_Revision :: "int option"

record idempotencyStore =
  is_entries :: "(string \<times> string \<times> string) \<Rightarrow> (mutationResult \<times> time) option"
  is_ttl :: time

record ApiState =
  api_World :: World
  api_Idem :: idempotencyStore
  api_Events :: "MutationEvent list"

text \<open>The observers see the events in the order in which they are fired.\<close>
definition fireMutationObservers :: "MutationEvent \<Rightarrow> ApiState \<Rightarrow> ApiState" where
  "fireMutationObservers ev s = s\<lparr>api_Events := api_Events s @ [ev]\<rparr>"

section \<open>translate.go\<close>

type_synonym Executor = "string \<Rightarrow> string list \<Rightarrow> string \<Rightarrow> World \<Rightarrow> (int \<times> string \<times> string) \<times> World"

text \<open>The stable code an error begins with.\<close>
fun error_code :: "golc_error \<Rightarrow> string" where
  "error_code (Code c) = c"
| "error_code (Wrap c e) = c"

definition diagnosticMessage :: "string \<Rightarrow> string" where
  "diagnosticMessage stderr =
     (let message = trim_space stderr in
      if message = [] then ''GOLC_API_UNKNOWN_FAILURE: the routed command failed with no diagnostic'' else message)"

definition translateResult :: "int \<Rightarrow> string \<Rightarrow> string \<Rightarrow> http_error + string" where
  "translateResult exitCode stdout stderr =
     (if exitCode = 0 then Inr stdout
      else if exitCode = 2 then Inl (HttpError 400 (diagnosticMessage stderr))
      else Inl (HttpError 500 (diagnosticMessage stderr)))"

section \<open>idempotency.go\<close>

definition defaultIdempotencyTTL :: time where "defaultIdempotencyTTL = 24 * 3600 * second"

definition newIdempotencyStore :: "time \<Rightarrow> idempotencyStore" where
  "newIdempotencyStore ttl = \<lparr>is_entries = (\<lambda>_. None), is_ttl = (if ttl \<le> 0 then defaultIdempotencyTTL else ttl)\<rparr>"

definition idem_lookup :: "idempotencyStore \<Rightarrow> time \<Rightarrow> string \<Rightarrow> string \<Rightarrow> string \<Rightarrow> idempotencyStore \<times> mutationResult option" where
  "idem_lookup st now actor route key =
     (case is_entries st (actor, route, key) of
        None \<Rightarrow> (st, None)
      | Some (result, expiresAt) \<Rightarrow>
          if now > expiresAt then (st\<lparr>is_entries := (is_entries st)((actor, route, key) := None)\<rparr>, None)
          else (st, Some result))"

definition idem_store :: "idempotencyStore \<Rightarrow> time \<Rightarrow> string \<Rightarrow> string \<Rightarrow> string \<Rightarrow> mutationResult \<Rightarrow> idempotencyStore" where
  "idem_store st now actor route key result =
     st\<lparr>is_entries := (is_entries st)((actor, route, key) \<mapsto> (result, now + is_ttl st))\<rparr>"

section \<open>revision.go\<close>

definition parseIfMatch :: "string \<Rightarrow> http_error + int option" where
  "parseIfMatch header =
     (let trimmed = trim_space header in
      if trimmed = [] then Inr None
      else case ParseInt (Trim CHR 0x22 trimmed) of
          None \<Rightarrow> Inl (HttpError 400 ''GOLC_API_IF_MATCH_INVALID'')
        | Some v \<Rightarrow> Inr (Some v))"

record Server =
  srv_env :: Env
  srv_resolve :: "string \<Rightarrow> string \<Rightarrow> string"
  srv_root :: string
  srv_showPath :: string

abbreviation real_path :: "Server \<Rightarrow> string" where "real_path srv \<equiv> srv_resolve srv (srv_root srv) (srv_showPath srv)"

definition current_revision :: "Server \<Rightarrow> World \<Rightarrow> int result \<times> World" where
  "current_revision srv w =
     (let (f, r) = CurrentRevision (w_Shows w (real_path srv)) in (r, w\<lparr>w_Shows := (w_Shows w)(real_path srv := f)\<rparr>))"

text \<open>The parsed expectation, the error if any, and the files afterwards.\<close>
definition checkRevision :: "Server \<Rightarrow> World \<Rightarrow> string \<Rightarrow> int option \<times> http_error option \<times> World" where
  "checkRevision srv w ifMatch =
     (case parseIfMatch ifMatch of
        Inl e \<Rightarrow> (None, Some e, w)
      | Inr None \<Rightarrow> (None, None, w)
      | Inr (Some revision) \<Rightarrow>
          (case current_revision srv w of
             (Inl e, w1) \<Rightarrow> (Some revision, Some (HttpError 500 (error_code e)), w1)
           | (Inr current, w1) \<Rightarrow>
               (Some revision, if revision \<noteq> current then Some (HttpError 412 ''GOLC_API_REVISION_MISMATCH'') else None, w1)))"

section \<open>mutate.go and dryrun.go\<close>

definition domainScope :: "string \<Rightarrow> APIKeyScope option" where
  "domainScope = map_of
     ([(d, ''authoring''). d \<leftarrow> [''pool'', ''fixture'', ''deployment'', ''scene'', ''blend'', ''chase'', ''motion'', ''theme'',
          ''preset'', ''programmer'', ''operatorsurface'', ''show'']] @
      [(''playback'', ''playback''), (''artnet'', ''playback''), (''config'', ''admin''), (''api-key'', ''admin'')])"

definition requiredScopeForRoute :: "string \<Rightarrow> http_error + APIKeyScope" where
  "requiredScopeForRoute route =
     (case domainScope (takeWhile (\<lambda>c. c \<noteq> CHR '' '') route) of
        None \<Rightarrow> Inl (HttpError 500 ''GOLC_API_DOMAIN_SCOPE_UNDECLARED'')
      | Some scope \<Rightarrow> Inr scope)"

definition validateListValues :: "string list \<Rightarrow> http_error option" where
  "validateListValues values =
     (if \<exists>v\<in>set values. Contains v '','' then Some (HttpError 400 ''GOLC_API_LIST_VALUE_INVALID'') else None)"

record mutateRequest =
  mr_Route :: string
  mr_Args :: "string list"
  mr_IfMatch :: string
  mr_DryRun :: bool
  mr_IdempotencyKey :: string
  mr_Actor :: string
  mr_CorrelationID :: string

text \<open>The arguments of \<open>POST /v1/pools\<close>, single or in a batch.\<close>
definition createPoolArgs :: "string \<Rightarrow> string list \<Rightarrow> string list" where
  "createPoolArgs name requires = name # (if requires \<noteq> [] then [''--requires'', Join '','' requires] else [])"

definition buildMutationArgs :: "string list \<Rightarrow> string \<Rightarrow> string list" where
  "buildMutationArgs args showPath = args @ [''--show'', showPath]"

definition eventOf :: "mutateRequest \<Rightarrow> int option \<Rightarrow> int option \<Rightarrow> string \<Rightarrow> int \<Rightarrow> MutationEvent" where
  "eventOf req expected resulting outcome status =
     \<lparr>me_Route = mr_Route req, me_Args = mr_Args req, me_Actor = mr_Actor req, me_Source = ''http'',
      me_CorrelationID = mr_CorrelationID req, me_ExpectedRevision = expected, me_ResultingRevision = resulting,
      me_Outcome = outcome, me_StatusCode = status\<rparr>"

text \<open>The clock, the timestamp in the name of a copy, and which writes succeed, during one request.\<close>
record Run =
  run_now :: time
  run_now_text :: string
  run_stamp :: string
  run_vacuum_ok :: bool
  run_stage_ok :: bool
  run_promote_ok :: bool

definition temp_name :: "Server \<Rightarrow> Run \<Rightarrow> string" where
  "temp_name srv run = srv_showPath srv @ ''.backup-'' @ run_stamp run"

abbreviation temp_path :: "Server \<Rightarrow> Run \<Rightarrow> string" where
  "temp_path srv run \<equiv> srv_resolve srv (srv_root srv) (temp_name srv run)"

text \<open>\<open>show.NewTempCopy\<close>: the name of the copy.  \<open>VACUUM INTO\<close> refuses a file that exists.\<close>
definition NewTempCopy :: "Server \<Rightarrow> Run \<Rightarrow> World \<Rightarrow> string result \<times> World" where
  "NewTempCopy srv run w =
     (case openStore (w_Shows w (real_path srv)) of
        Inl e \<Rightarrow> (Inl e, w)
      | Inr db \<Rightarrow>
          let w1 = w\<lparr>w_Shows := (w_Shows w)(real_path srv \<mapsto> db)\<rparr> in
          if \<not> run_vacuum_ok run \<or> w_Shows w1 (temp_path srv run) \<noteq> None then (Inl (Code ''GOLC_SHOW_BACKUP_FAILED''), w1)
          else
            let w2 = w1\<lparr>w_Shows := (w_Shows w1)(temp_path srv run \<mapsto> db)\<rparr> in
            (case verifyBackupReadBack (srv_env srv) db of
               Some e \<Rightarrow> (Inl e, w2)
             | None \<Rightarrow> (Inr (temp_name srv run), w2)))"

definition remove_copy :: "Server \<Rightarrow> Run \<Rightarrow> World \<Rightarrow> World" where
  "remove_copy srv run w = w\<lparr>w_Shows := (w_Shows w)(temp_path srv run := None)\<rparr>"

definition dryRunMutate :: "Executor \<Rightarrow> Server \<Rightarrow> Run \<Rightarrow> mutateRequest \<Rightarrow> ApiState \<Rightarrow> (http_error + mutationResult) \<times> ApiState" where
  "dryRunMutate execute srv run req s =
     (case NewTempCopy srv run (api_World s) of
        (Inl e, w1) \<Rightarrow>
          (Inl (HttpError 500 (error_code e)), fireMutationObservers (eventOf req None None ''dry_run'' 500) (s\<lparr>api_World := w1\<rparr>))
      | (Inr tempShowPath, w1) \<Rightarrow>
          let ((exitCode, stdout, stderr), w2) = execute (mr_Route req) (buildMutationArgs (mr_Args req) tempShowPath) (srv_root srv) w1;
              s1 = s\<lparr>api_World := remove_copy srv run w2\<rparr> in
          (case translateResult exitCode stdout stderr of
             Inl e \<Rightarrow> (Inl e, fireMutationObservers (eventOf req None None ''dry_run'' (he_status e)) s1)
           | Inr body \<Rightarrow> (Inr \<lparr>mu_Result = trim_space body, mu_Revision = None\<rparr>,
                fireMutationObservers (eventOf req None None ''dry_run'' 200) s1)))"

text \<open>From the revision check on.\<close>
definition applyMutation :: "Executor \<Rightarrow> Server \<Rightarrow> Run \<Rightarrow> mutateRequest \<Rightarrow> ApiState \<Rightarrow> (http_error + mutationResult) \<times> ApiState" where
  "applyMutation execute srv run req s =
     (case checkRevision srv (api_World s) (mr_IfMatch req) of
        (expected, Some e, w1) \<Rightarrow>
          (Inl e, fireMutationObservers (eventOf req expected None ''failure'' (he_status e)) (s\<lparr>api_World := w1\<rparr>))
      | (expected, None, w1) \<Rightarrow>
          let ((exitCode, stdout, stderr), w2) = execute (mr_Route req) (buildMutationArgs (mr_Args req) (srv_showPath srv)) (srv_root srv) w1 in
          (case translateResult exitCode stdout stderr of
             Inl e \<Rightarrow> (Inl e, fireMutationObservers (eventOf req expected None ''failure'' (he_status e)) (s\<lparr>api_World := w2\<rparr>))
           | Inr body \<Rightarrow>
               let (current, w3) = current_revision srv w2;
                   resulting = (case current of Inr r \<Rightarrow> Some r | Inl _ \<Rightarrow> None);
                   result = \<lparr>mu_Result = trim_space body, mu_Revision = resulting\<rparr>;
                   s1 = fireMutationObservers (eventOf req expected resulting ''success'' 200) (s\<lparr>api_World := w3\<rparr>)
               in (Inr result,
                   if mr_IdempotencyKey req \<noteq> []
                   then s1\<lparr>api_Idem := idem_store (api_Idem s1) (run_now run) (mr_Actor req) (mr_Route req) (mr_IdempotencyKey req) result\<rparr>
                   else s1)))"

definition mutate ::
  "Executor \<Rightarrow> Server \<Rightarrow> Run \<Rightarrow> apiKeyContext option \<Rightarrow> mutateRequest \<Rightarrow> ApiState \<Rightarrow> (http_error + mutationResult) \<times> ApiState" where
  "mutate execute srv run ctx req s =
     (case requiredScopeForRoute (mr_Route req) of
        Inl e \<Rightarrow> (Inl e, fireMutationObservers (eventOf req None None ''failure'' 500) s)
      | Inr requiredScope \<Rightarrow>
          (case RequireScope ctx requiredScope of
             Some e \<Rightarrow> (Inl e, fireMutationObservers (eventOf req None None ''failure'' 403) s)
           | None \<Rightarrow>
               if mr_DryRun req then dryRunMutate execute srv run req s
               else
                 (case (if mr_IdempotencyKey req \<noteq> [] then idem_lookup (api_Idem s) (run_now run) (mr_Actor req) (mr_Route req) (mr_IdempotencyKey req)
                        else (api_Idem s, None)) of
                    (idem, Some cached) \<Rightarrow>
                      (Inr cached, fireMutationObservers (eventOf req None (mu_Revision cached) ''idempotent_replay'' 200) (s\<lparr>api_Idem := idem\<rparr>))
                  | (idem, None) \<Rightarrow> applyMutation execute srv run req (s\<lparr>api_Idem := idem\<rparr>))))"

definition actorFromContext :: "apiKeyContext option \<Rightarrow> string" where
  "actorFromContext ctx = (case KeyIDFromContext ctx of Some k \<Rightarrow> k | None \<Rightarrow> [])"

text \<open>The handler of \<open>POST /v1/pools\<close>.\<close>
definition createPool ::
  "Executor \<Rightarrow> Server \<Rightarrow> Run \<Rightarrow> apiKeyContext option \<Rightarrow> string \<Rightarrow> string list \<Rightarrow> string \<Rightarrow> bool \<Rightarrow> string \<Rightarrow> string \<Rightarrow>
   ApiState \<Rightarrow> (http_error + mutationResult) \<times> ApiState" where
  "createPool execute srv run ctx name requires ifMatch dryRun key correlationID s =
     (case validateListValues requires of
        Some e \<Rightarrow> (Inl e, s)
      | None \<Rightarrow>
          mutate execute srv run ctx \<lparr>mr_Route = ''pool create'', mr_Args = createPoolArgs name requires, mr_IfMatch = ifMatch,
            mr_DryRun = dryRun, mr_IdempotencyKey = key, mr_Actor = actorFromContext ctx, mr_CorrelationID = correlationID\<rparr> s)"

section \<open>batch.go\<close>

record batchSubRequest =
  bs_Method :: string
  bs_Resource :: string
  bs_Body :: string

text \<open>\<open>decode\<close>: the JSON body of a pool, its name and requirements.\<close>
definition translateBatchCreatePool :: "(string \<Rightarrow> (string \<times> string list) result) \<Rightarrow> string \<Rightarrow> http_error + string \<times> string list" where
  "translateBatchCreatePool decode body =
     (let invalid = HttpError 400 ''GOLC_API_BATCH_SUBREQUEST_BODY_INVALID'' in
      case (if body \<noteq> [] then decode body else Inr ([], [])) of
        Inl _ \<Rightarrow> Inl invalid
      | Inr (name, requires) \<Rightarrow>
          if name = [] then Inl invalid
          else case validateListValues requires of
              Some e \<Rightarrow> Inl e
            | None \<Rightarrow> Inr (''pool create'', createPoolArgs name requires))"

definition translateBatchSubRequest :: "(string \<Rightarrow> (string \<times> string list) result) \<Rightarrow> batchSubRequest \<Rightarrow> http_error + string \<times> string list" where
  "translateBatchSubRequest decode sub =
     (if bs_Method sub @ '' '' @ bs_Resource sub = ''POST /v1/pools'' then translateBatchCreatePool decode (bs_Body sub)
      else Inl (HttpError 400 ''GOLC_API_BATCH_SUBREQUEST_UNSUPPORTED''))"

definition batchSubRequestError :: "http_error \<Rightarrow> http_error" where
  "batchSubRequestError e = HttpError (he_status e) ''GOLC_API_BATCH_SUBREQUEST_FAILED''"

definition batchEvent ::
  "apiKeyContext option \<Rightarrow> string \<Rightarrow> int option \<Rightarrow> int option \<Rightarrow> string \<Rightarrow> int \<Rightarrow> string \<times> string list \<Rightarrow> MutationEvent" where
  "batchEvent ctx correlationID expected resulting outcome status cmd =
     \<lparr>me_Route = fst cmd, me_Args = snd cmd, me_Actor = actorFromContext ctx, me_Source = ''http'', me_CorrelationID = correlationID,
      me_ExpectedRevision = expected, me_ResultingRevision = resulting, me_Outcome = outcome, me_StatusCode = status\<rparr>"

text \<open>One turn of the loop that translates the sub-requests and checks their scopes: the command, or the
  event to fire and the error.\<close>
definition preflightOne ::
  "(string \<Rightarrow> (string \<times> string list) result) \<Rightarrow> apiKeyContext option \<Rightarrow> string \<Rightarrow> batchSubRequest \<Rightarrow>
   (MutationEvent \<times> http_error) + string \<times> string list" where
  "preflightOne decode ctx correlationID req =
     (case translateBatchSubRequest decode req of
        Inl e \<Rightarrow> Inl (batchEvent ctx correlationID None None ''failure'' (he_status e) (bs_Method req @ '' '' @ bs_Resource req, []),
                     batchSubRequestError e)
      | Inr (route, args) \<Rightarrow>
          (case requiredScopeForRoute route of
             Inl e \<Rightarrow> Inl (batchEvent ctx correlationID None None ''failure'' 500 (route, args), batchSubRequestError e)
           | Inr requiredScope \<Rightarrow>
               (case RequireScope ctx requiredScope of
                  Some e \<Rightarrow> Inl (batchEvent ctx correlationID None None ''failure'' (he_status e) (route, args), batchSubRequestError e)
                | None \<Rightarrow> Inr (route, args))))"

fun preflight ::
  "(string \<Rightarrow> (string \<times> string list) result) \<Rightarrow> apiKeyContext option \<Rightarrow> string \<Rightarrow> batchSubRequest list \<Rightarrow>
   (MutationEvent \<times> http_error) + (string \<times> string list) list" where
  "preflight decode ctx correlationID [] = Inr []"
| "preflight decode ctx correlationID (req # reqs) =
     (case preflightOne decode ctx correlationID req of
        Inl e \<Rightarrow> Inl e
      | Inr cmd \<Rightarrow>
          (case preflight decode ctx correlationID reqs of
             Inl e \<Rightarrow> Inl e
           | Inr cmds \<Rightarrow> Inr (cmd # cmds)))"

text \<open>The execution loop on the copy: the results, or the failing command with its error.\<close>
fun executeAll ::
  "(nat \<Rightarrow> Executor) \<Rightarrow> string \<Rightarrow> string \<Rightarrow> nat \<Rightarrow> (string \<times> string list) list \<Rightarrow> World \<Rightarrow>
   (((string \<times> string list) \<times> http_error) + string list) \<times> World" where
  "executeAll execute dir tempShowPath i [] w = (Inr [], w)"
| "executeAll execute dir tempShowPath i (cmd # cmds) w =
     (let ((exitCode, stdout, stderr), w1) = execute i (fst cmd) (buildMutationArgs (snd cmd) tempShowPath) dir w in
      case translateResult exitCode stdout stderr of
        Inl e \<Rightarrow> (Inl (cmd, e), w1)
      | Inr body \<Rightarrow>
          (case executeAll execute dir tempShowPath (Suc i) cmds w1 of
             (Inl x, w2) \<Rightarrow> (Inl x, w2)
           | (Inr results, w2) \<Rightarrow> (Inr (trim_space body # results), w2)))"

text \<open>
  The locked section after the copy is made, up to its outcome: an error with the commands that get
  a failure event, or the results.  \<open>hook\<close> is what other processes do to the files before the last
  revision check.
\<close>
definition applyBatch ::
  "(nat \<Rightarrow> Executor) \<Rightarrow> Server \<Rightarrow> Run \<Rightarrow> (World \<Rightarrow> World) \<Rightarrow> int \<Rightarrow> (string \<times> string list) list \<Rightarrow> string \<Rightarrow> World \<Rightarrow>
   (((string \<times> string list) list \<times> http_error) + string list) \<times> World" where
  "applyBatch execute srv run hook baseRevision cmds tempShowPath w =
     (case executeAll execute (srv_root srv) tempShowPath 0 cmds w of
        (Inl (cmd, e), w1) \<Rightarrow> (Inl ([cmd], batchSubRequestError e), w1)
      | (Inr results, w1) \<Rightarrow>
          (case Load (srv_env srv) (w_Shows w1 (temp_path srv run)) of
             (f, Inl e) \<Rightarrow> (Inl (cmds, HttpError 500 (error_code e)), w1\<lparr>w_Shows := (w_Shows w1)(temp_path srv run := f)\<rparr>)
           | (f, Inr finalState) \<Rightarrow>
               let w2 = hook (w1\<lparr>w_Shows := (w_Shows w1)(temp_path srv run := f)\<rparr>) in
               (case current_revision srv w2 of
                  (Inl e, w3) \<Rightarrow> (Inl (cmds, HttpError 500 (error_code e)), w3)
                | (Inr raceRevision, w3) \<Rightarrow>
                    if raceRevision \<noteq> baseRevision then (Inl (cmds, HttpError 412 ''GOLC_API_REVISION_MISMATCH''), w3)
                    else
                      (case Save (srv_env srv) (run_now_text run) (run_stage_ok run) (run_promote_ok run) (w_Shows w3 (real_path srv))
                          (finalState\<lparr>st_Revision := baseRevision\<rparr>) of
                         (f', Some e) \<Rightarrow> (Inl (cmds, HttpError 500 (error_code e)), w3\<lparr>w_Shows := (w_Shows w3)(real_path srv := f')\<rparr>)
                       | (f', None) \<Rightarrow> (Inr results, w3\<lparr>w_Shows := (w_Shows w3)(real_path srv := f')\<rparr>)))))"

definition fireAll :: "(string \<times> string list \<Rightarrow> MutationEvent) \<Rightarrow> (string \<times> string list) list \<Rightarrow> ApiState \<Rightarrow> ApiState" where
  "fireAll ev cmds s = fold (\<lambda>cmd. fireMutationObservers (ev cmd)) cmds s"

record batchOutput =
  bo_Results :: "string list"
  bo_Revision :: int

definition runBatch ::
  "(nat \<Rightarrow> Executor) \<Rightarrow> Server \<Rightarrow> Run \<Rightarrow> (World \<Rightarrow> World) \<Rightarrow> (string \<Rightarrow> (string \<times> string list) result) \<Rightarrow>
   apiKeyContext option \<Rightarrow> string \<Rightarrow> string \<Rightarrow> batchSubRequest list \<Rightarrow> ApiState \<Rightarrow> (http_error + batchOutput) \<times> ApiState" where
  "runBatch execute srv run hook decode ctx correlationID ifMatch requests s =
     (if requests = [] then (Inl (HttpError 400 ''GOLC_API_BATCH_EMPTY''), s)
      else case preflight decode ctx correlationID requests of
        Inl (ev, e) \<Rightarrow> (Inl e, fireMutationObservers ev s)
      | Inr cmds \<Rightarrow>
          let failing = (\<lambda>expected failed e w. (Inl e, fireAll (batchEvent ctx correlationID expected None ''failure'' (he_status e)) failed (s\<lparr>api_World := w\<rparr>))) in
          (case current_revision srv (api_World s) of
             (Inl e, w1) \<Rightarrow> failing None cmds (HttpError 500 (error_code e)) w1
           | (Inr baseRevision, w1) \<Rightarrow>
               (case parseIfMatch ifMatch of
                  Inl e \<Rightarrow> failing None cmds e w1
                | Inr expected \<Rightarrow>
                    if expected \<noteq> None \<and> expected \<noteq> Some baseRevision
                    then failing expected cmds (HttpError 412 ''GOLC_API_REVISION_MISMATCH'') w1
                    else
                      (case NewTempCopy srv run w1 of
                         (Inl e, w2) \<Rightarrow> failing expected cmds (HttpError 500 (error_code e)) w2
                       | (Inr tempShowPath, w2) \<Rightarrow>
                           (case applyBatch execute srv run hook baseRevision cmds tempShowPath w2 of
                              (Inl (failed, e), w3) \<Rightarrow> failing expected failed e (remove_copy srv run w3)
                            | (Inr results, w3) \<Rightarrow>
                                let resultingRevision = wrap64 (baseRevision + 1) in
                                (Inr \<lparr>bo_Results = results, bo_Revision = resultingRevision\<rparr>,
                                 fireAll (batchEvent ctx correlationID expected (Some resultingRevision) ''success'' 200) cmds
                                   (s\<lparr>api_World := remove_copy srv run w3\<rparr>)))))))"

section \<open>The gates of the pipeline\<close>

lemma fire_simps [simp]:
  "api_World (fireMutationObservers ev s) = api_World s" "api_Idem (fireMutationObservers ev s) = api_Idem s"
  "api_Events (fireMutationObservers ev s) = api_Events s @ [ev]"
  by (simp_all add: fireMutationObservers_def)

lemma eventOf_simps [simp]:
  "me_Outcome (eventOf req x y out st) = out" "me_StatusCode (eventOf req x y out st) = st" "me_ResultingRevision (eventOf req x y out st) = y"
  "me_Route (eventOf req x y out st) = mr_Route req" "me_Actor (eventOf req x y out st) = mr_Actor req"
  by (simp_all add: eventOf_def)

text \<open>What an event says of the outcome of a request.\<close>
definition truthful :: "mutateRequest \<Rightarrow> http_error + mutationResult \<Rightarrow> MutationEvent \<Rightarrow> bool" where
  "truthful req res ev \<longleftrightarrow> me_Route ev = mr_Route req \<and> me_Actor ev = mr_Actor req \<and>
     (case res of
        Inl e \<Rightarrow> me_StatusCode ev = he_status e \<and> me_Outcome ev \<in> {''failure'', ''dry_run''} \<and> me_ResultingRevision ev = None
      | Inr r \<Rightarrow> me_StatusCode ev = 200 \<and> me_Outcome ev \<in> {''success'', ''dry_run'', ''idempotent_replay''} \<and> me_ResultingRevision ev = mu_Revision r)"

lemma dryRun_event:
  "dryRunMutate execute srv run req s = (res, s') \<Longrightarrow> \<exists>ev. api_Events s' = api_Events s @ [ev] \<and> truthful req res ev"
  by (auto simp: dryRunMutate_def truthful_def Let_def split: prod.splits sum.splits)

lemma applyMutation_event:
  "applyMutation execute srv run req s = (res, s') \<Longrightarrow> \<exists>ev. api_Events s' = api_Events s @ [ev] \<and> truthful req res ev"
  by (auto simp: applyMutation_def truthful_def Let_def split: prod.splits sum.splits option.splits if_splits)

lemma requiredScope_status: "requiredScopeForRoute route = Inl e \<Longrightarrow> he_status e = 500"
  by (auto simp: requiredScopeForRoute_def split: option.splits)

lemma RequireScope_status: "RequireScope ctx scope = Some e \<Longrightarrow> he_status e = 403"
  by (auto simp: RequireScope_def split: if_splits)



section \<open>Idempotent retries\<close>

lemma applyMutation_stores:
  assumes "applyMutation execute srv run req s = (Inr result, s')" "mr_IdempotencyKey req \<noteq> []"
  shows "api_Idem s' = idem_store (api_Idem s) (run_now run) (mr_Actor req) (mr_Route req) (mr_IdempotencyKey req) result"
  using assms by (auto simp: applyMutation_def Let_def split: prod.splits sum.splits option.splits)

lemma idem_lookup_ttl: "is_ttl (fst (idem_lookup st now a r k)) = is_ttl st"
  by (auto simp: idem_lookup_def split: option.splits)

lemma mutate_allowed:
  assumes "requiredScopeForRoute (mr_Route req) = Inr scope" "HasScope ctx scope" "\<not> mr_DryRun req" "mr_IdempotencyKey req \<noteq> []"
  shows "mutate execute srv run ctx req s =
    (case idem_lookup (api_Idem s) (run_now run) (mr_Actor req) (mr_Route req) (mr_IdempotencyKey req) of
       (idem, Some cached) \<Rightarrow>
         (Inr cached, fireMutationObservers (eventOf req None (mu_Revision cached) ''idempotent_replay'' 200) (s\<lparr>api_Idem := idem\<rparr>))
     | (idem, None) \<Rightarrow> applyMutation execute srv run req (s\<lparr>api_Idem := idem\<rparr>))"
  using assms by (simp add: mutate_def RequireScope_def)

lemma mutate_Inr_scope:
  assumes "mutate execute srv run ctx req s = (Inr result, s1)"
  obtains scope where "requiredScopeForRoute (mr_Route req) = Inr scope" "HasScope ctx scope"
  using assms by (auto simp: mutate_def RequireScope_def split: sum.splits option.splits if_splits)

text \<open>The entry that a successful keyed request leaves.\<close>
lemma keyed_success_stored:
  assumes "mutate execute srv run ctx req s = (Inr result, s1)" "\<not> mr_DryRun req" "mr_IdempotencyKey req \<noteq> []" "0 < is_ttl (api_Idem s)"
  shows "\<exists>E. is_entries (api_Idem s1) (mr_Actor req, mr_Route req, mr_IdempotencyKey req) = Some (result, E) \<and> run_now run \<le> E \<and>
    (is_entries (api_Idem s) (mr_Actor req, mr_Route req, mr_IdempotencyKey req) = None \<longrightarrow> E = run_now run + is_ttl (api_Idem s))"
proof -
  obtain scope where sc: "requiredScopeForRoute (mr_Route req) = Inr scope" "HasScope ctx scope" using mutate_Inr_scope [OF assms(1)] .
  obtain idem c where l: "idem_lookup (api_Idem s) (run_now run) (mr_Actor req) (mr_Route req) (mr_IdempotencyKey req) = (idem, c)" by force
  have ttl: "is_ttl idem = is_ttl (api_Idem s)" using idem_lookup_ttl [of "api_Idem s"] l by (metis fst_conv)
  note m = assms(1) [unfolded mutate_allowed [OF sc assms(2,3)] l prod.case]
  show ?thesis
  proof (cases c)
    case (Some cached)
    then have "result = cached" "api_Idem s1 = idem" using m by auto
    then show ?thesis using l Some by (auto simp: idem_lookup_def split: option.splits if_splits)
  next
    case None
    then have "api_Idem s1 = idem_store idem (run_now run) (mr_Actor req) (mr_Route req) (mr_IdempotencyKey req) result"
      using applyMutation_stores [of execute srv run req "s\<lparr>api_Idem := idem\<rparr>"] m assms(3) by simp
    then show ?thesis using ttl assms(4) by (simp add: idem_store_def)
  qed
qed


section \<open>Optimistic concurrency\<close>

lemma current_revision_keeps:
  assumes "current_revision srv w = (r, w1)"
  shows "r = snd (CurrentRevision (w_Shows w (real_path srv)))" "unchanged (srv_env srv) (real_path srv) w w1"
proof -
  let ?f = "w_Shows w (real_path srv)"
  have w1: "w1 = w\<lparr>w_Shows := (w_Shows w)(real_path srv := fst (CurrentRevision ?f))\<rparr>" and r: "r = snd (CurrentRevision ?f)"
    using assms by (auto simp: current_revision_def split: prod.splits)
  show "r = snd (CurrentRevision ?f)" by (rule r)
  have "fst (CurrentRevision ?f) = fst (Load (srv_env srv) ?f)" by (simp add: CurrentRevision_def Load_def split: sum.split)
  then show "unchanged (srv_env srv) (real_path srv) w w1" by (simp add: w1 unchanged_def only_at_def)
qed


section \<open>Concrete requests\<close>

definition demo_server :: Server where
  "demo_server = \<lparr>srv_env = table_env [], srv_resolve = (\<lambda>dir path. path), srv_root = ''/'', srv_showPath = ''a.golc''\<rparr>"

definition demo_run :: Run where
  "demo_run = \<lparr>run_now = 100, run_now_text = ''t'', run_stamp = ''1'', run_vacuum_ok = True, run_stage_ok = True, run_promote_ok = True\<rparr>"

definition demo_state :: ApiState where
  "demo_state = \<lparr>api_World = empty_world, api_Idem = newIdempotencyStore 0, api_Events = []\<rparr>"

definition demo_executor :: Executor where
  "demo_executor route args dir w = ((0, ''done'' @ newline, []), w)"

definition demo_author :: "apiKeyContext option" where
  "demo_author = Some \<lparr>kc_KeyID = ''key'', kc_Scopes = [''authoring'']\<rparr>"

definition demo_mutation :: mutateRequest where
  "demo_mutation = \<lparr>mr_Route = ''pool create'', mr_Args = [''Wash''], mr_IfMatch = [], mr_DryRun = False, mr_IdempotencyKey = ''k1'',
     mr_Actor = ''key'', mr_CorrelationID = ''c''\<rparr>"

lemma demo_gates: "requiredScopeForRoute ''pool create'' = Inr ''authoring''" "HasScope demo_author ''authoring''"
  "requiredScopeForRoute ''playback start'' = Inr ''playback''" "\<not> HasScope demo_author ''playback''"
  "parseIfMatch [] = Inr None" "parseIfMatch ''5'' = Inr (Some 5)" "trim_space (''done'' @ newline) = ''done''"
  by code_simp+

lemma demo_revision: "snd (CurrentRevision None) = Inr 0"
  by (simp add: CurrentRevision_def openStore_def emptyFile_def seedRows_def readMeta_def metaRevision_def applicationID_def)




end
