(* ===== verification/ApiBatch.thy ===== *)
theory ApiBatch
  imports Api
begin

text \<open>
  What a dry run and a batch do to the show, given that a command touches only the file its \<open>--show\<close>
  argument names: the contract \<open>show_executor\<close>, which the executor of the command registry meets for
  the commands the interface issues.
\<close>

locale show_executor =
  fixes execute :: "nat \<Rightarrow> Executor" and srv :: Server and issued :: "string \<Rightarrow> string list \<Rightarrow> bool"
  assumes confined: "\<lbrakk>issued route args; execute i route (buildMutationArgs args path) (srv_root srv) w = (r, w')\<rbrakk> \<Longrightarrow>
    only_at (srv_resolve srv (srv_root srv) path) w w'"
    and issues: "issued ''pool create'' (createPoolArgs name requires)"
begin

lemma executeAll_confined:
  assumes "\<forall>cmd\<in>set cmds. issued (fst cmd) (snd cmd)" "executeAll execute (srv_root srv) path i cmds w = (r, w')"
  shows "only_at (srv_resolve srv (srv_root srv) path) w w'"
  using assms
proof (induction cmds arbitrary: i w r w')
  case (Cons cmd cmds)
  obtain c out err w1 where e: "execute i (fst cmd) (buildMutationArgs (snd cmd) path) (srv_root srv) w = ((c, out, err), w1)"
    by (metis prod_cases3 surj_pair)
  have w1: "only_at (srv_resolve srv (srv_root srv) path) w w1" using confined [OF _ e] Cons.prems(1) by simp
  show ?case
  proof (cases "translateResult c out err")
    case (Inl x)
    then show ?thesis using Cons.prems(2) e w1 by (simp add: Let_def)
  next
    case (Inr body)
    obtain r2 w2 where r2: "executeAll execute (srv_root srv) path (Suc i) cmds w1 = (r2, w2)" by force
    then have "w' = w2" using Cons.prems(2) e Inr by (cases r2) (auto simp: Let_def)
    then show ?thesis using Cons.IH [OF _ r2] Cons.prems(1) w1 by (auto simp: only_at_def)
  qed
qed simp

end

section \<open>Copies\<close>

lemma content_open: "openStore f = Inr db \<Longrightarrow> content env (Some db) = content env f"
  using content_Load [of env f] by (simp add: Load_def)

text \<open>Making a copy leaves every other file as it was, and the copy is the show.\<close>
lemma NewTempCopy_keeps:
  assumes "NewTempCopy srv run w = (r, w1)" "temp_path srv run \<noteq> real_path srv"
  shows "w_Files w1 = w_Files w" "content (srv_env srv) (w_Shows w1 (real_path srv)) = content (srv_env srv) (w_Shows w (real_path srv))"
    "\<lbrakk>q \<noteq> temp_path srv run; q \<noteq> real_path srv\<rbrakk> \<Longrightarrow> w_Shows w1 q = w_Shows w q"
    "r = Inr name \<Longrightarrow> name = temp_name srv run \<and> w_Shows w (temp_path srv run) = None \<and>
       content (srv_env srv) (w_Shows w1 (temp_path srv run)) = content (srv_env srv) (w_Shows w (real_path srv))"
proof -
  have "w_Files w1 = w_Files w \<and> content (srv_env srv) (w_Shows w1 (real_path srv)) = content (srv_env srv) (w_Shows w (real_path srv)) \<and>
    (q \<noteq> temp_path srv run \<longrightarrow> q \<noteq> real_path srv \<longrightarrow> w_Shows w1 q = w_Shows w q) \<and>
    (r = Inr name \<longrightarrow> name = temp_name srv run \<and> w_Shows w (temp_path srv run) = None \<and>
       content (srv_env srv) (w_Shows w1 (temp_path srv run)) = content (srv_env srv) (w_Shows w (real_path srv)))"
  proof (cases "openStore (w_Shows w (real_path srv))")
    case (Inl e)
    then show ?thesis using assms by (auto simp: NewTempCopy_def)
  next
    case (Inr db)
    note c = content_open [OF Inr, of "srv_env srv"]
    show ?thesis
      using assms Inr c by (auto simp: NewTempCopy_def Let_def split: if_splits option.splits)
  qed
  then show "w_Files w1 = w_Files w" "content (srv_env srv) (w_Shows w1 (real_path srv)) = content (srv_env srv) (w_Shows w (real_path srv))"
    "\<lbrakk>q \<noteq> temp_path srv run; q \<noteq> real_path srv\<rbrakk> \<Longrightarrow> w_Shows w1 q = w_Shows w q"
    "r = Inr name \<Longrightarrow> name = temp_name srv run \<and> w_Shows w (temp_path srv run) = None \<and>
       content (srv_env srv) (w_Shows w1 (temp_path srv run)) = content (srv_env srv) (w_Shows w (real_path srv))"
    by blast+
qed

text \<open>The show loads as before and no other file but the copy differs.\<close>
definition show_kept :: "Server \<Rightarrow> Run \<Rightarrow> World \<Rightarrow> World \<Rightarrow> bool" where
  "show_kept srv run w w' \<longleftrightarrow> w_Files w' = w_Files w \<and>
     content (srv_env srv) (w_Shows w' (real_path srv)) = content (srv_env srv) (w_Shows w (real_path srv)) \<and>
     (\<forall>q. q \<noteq> temp_path srv run \<and> q \<noteq> real_path srv \<longrightarrow> w_Shows w' q = w_Shows w q)"

lemma show_kept_refl [simp]: "show_kept srv run w w" by (simp add: show_kept_def)

lemma show_kept_trans: "\<lbrakk>show_kept srv run w w1; show_kept srv run w1 w2\<rbrakk> \<Longrightarrow> show_kept srv run w w2"
  by (auto simp: show_kept_def)

lemma show_kept_intros:
  "unchanged (srv_env srv) (real_path srv) w w1 \<Longrightarrow> show_kept srv run w w1"
  "\<lbrakk>only_at (temp_path srv run) w w1; temp_path srv run \<noteq> real_path srv\<rbrakk> \<Longrightarrow> show_kept srv run w w1"
  "temp_path srv run \<noteq> real_path srv \<Longrightarrow> show_kept srv run w (remove_copy srv run w)"
  "\<lbrakk>NewTempCopy srv run w = (r, w1); temp_path srv run \<noteq> real_path srv\<rbrakk> \<Longrightarrow> show_kept srv run w w1"
  using NewTempCopy_keeps [of srv run w r w1] by (auto simp: show_kept_def unchanged_def only_at_def remove_copy_def)

lemma fireAll_world [simp]: "api_World (fireAll ev cmds s) = api_World s"
  unfolding fireAll_def by (induction cmds arbitrary: s) auto

lemma preflight_creates:
  "preflight decode ctx cid reqs = Inr cmds \<Longrightarrow> \<forall>cmd\<in>set cmds. \<exists>name requires. cmd = (''pool create'', createPoolArgs name requires)"
proof (induction reqs arbitrary: cmds)
  case (Cons req reqs)
  then obtain cmd cmds' where c: "preflightOne decode ctx cid req = Inr cmd" "preflight decode ctx cid reqs = Inr cmds'" "cmds = cmd # cmds'"
    by (auto split: sum.splits)
  have "translateBatchSubRequest decode req = Inr cmd"
    using c(1) by (auto simp: preflightOne_def split: sum.splits option.splits)
  then have "\<exists>name requires. cmd = (''pool create'', createPoolArgs name requires)"
    by (auto simp: translateBatchSubRequest_def translateBatchCreatePool_def Let_def split: sum.splits option.splits if_splits) blast+
  then show ?case using Cons.IH [OF c(2)] c(3) by auto
qed simp

text \<open>What other processes do to the show file between the copy and the last check.\<close>
definition others_write :: "Server \<Rightarrow> (Store option \<Rightarrow> Store option) \<Rightarrow> World \<Rightarrow> World" where
  "others_write srv g w = w\<lparr>w_Shows := (w_Shows w)(real_path srv := g (w_Shows w (real_path srv)))\<rparr>"

context show_executor
begin

lemma dry_run_keeps:
  assumes "issued (mr_Route req) (mr_Args req)" "temp_path srv run \<noteq> real_path srv"
    and "dryRunMutate (execute i) srv run req s = (res, s')"
  shows "show_kept srv run (api_World s) (api_World s') \<and> api_Idem s' = api_Idem s \<and>
    (\<forall>r. res = Inr r \<longrightarrow> mu_Revision r = None \<and> w_Shows (api_World s') (temp_path srv run) = None)"
proof -
  obtain c w1 where c: "NewTempCopy srv run (api_World s) = (c, w1)" by force
  note k1 = show_kept_intros(4) [OF c assms(2)]
  show ?thesis
  proof (cases c)
    case (Inl e)
    then show ?thesis using assms(3) c k1 by (auto simp: dryRunMutate_def)
  next
    case (Inr name)
    have n: "name = temp_name srv run" using NewTempCopy_keeps(4) [OF c assms(2) Inr] by simp
    obtain code out err w2 where e: "execute i (mr_Route req) (buildMutationArgs (mr_Args req) name) (srv_root srv) w1 = ((code, out, err), w2)"
      by (metis prod_cases3 surj_pair)
    have "show_kept srv run w1 w2" using confined [OF assms(1) e] assms(2) n show_kept_intros(2) by simp
    then have k: "show_kept srv run (api_World s) (remove_copy srv run w2)"
      using k1 show_kept_trans show_kept_intros(3) assms(2) by metis
    show ?thesis using assms(3) c Inr e k by (auto simp: dryRunMutate_def Let_def remove_copy_def split: sum.splits)
  qed
qed

text \<open>Other processes may write the show itself while the batch runs.\<close>
lemma applyBatch_cases:
  assumes "\<forall>cmd\<in>set cmds. issued (fst cmd) (snd cmd)" "temp_path srv run \<noteq> real_path srv"
    and "applyBatch execute srv run (\<lambda>w. w\<lparr>w_Shows := (w_Shows w)(real_path srv := g (w_Shows w (real_path srv)))\<rparr>) base cmds (temp_name srv run) w = (r, w')"
  obtains (failed) x where "r = Inl x" "w_Files w' = w_Files w" "\<forall>q. q \<noteq> temp_path srv run \<and> q \<noteq> real_path srv \<longrightarrow> w_Shows w' q = w_Shows w q"
      "content (srv_env srv) (w_Shows w' (real_path srv)) \<in>
         {content (srv_env srv) (w_Shows w (real_path srv)), content (srv_env srv) (g (w_Shows w (real_path srv)))}"
  | (committed) results w1 final f0 f' where "r = Inr results"
      "executeAll execute (srv_root srv) (temp_name srv run) 0 cmds w = (Inr results, w1)"
      "snd (Load (srv_env srv) (w_Shows w1 (temp_path srv run))) = Inr final"
      "content (srv_env srv) f0 = content (srv_env srv) (g (w_Shows w (real_path srv)))" "snd (CurrentRevision f0) = Inr base"
      "Save (srv_env srv) (run_now_text run) (run_stage_ok run) (run_promote_ok run) f0 (final\<lparr>st_Revision := base\<rparr>) = (f', None)"
      "w_Shows w' (real_path srv) = f'" "w_Files w' = w_Files w"
      "\<forall>q. q \<noteq> temp_path srv run \<and> q \<noteq> real_path srv \<longrightarrow> w_Shows w' q = w_Shows w q"
proof -
  let ?hook = "\<lambda>w. w\<lparr>w_Shows := (w_Shows w)(real_path srv := g (w_Shows w (real_path srv)))\<rparr>"
  obtain x w1 where x: "executeAll execute (srv_root srv) (temp_name srv run) 0 cmds w = (x, w1)" by force
  have o: "only_at (temp_path srv run) w w1" by (rule executeAll_confined [OF assms(1) x])
  have real1: "w_Shows w1 (real_path srv) = w_Shows w (real_path srv)" using o assms(2) by (auto simp: only_at_def)
  show ?thesis
  proof (cases x)
    case (Inl y)
    then show ?thesis
      using assms(3) x o real1 failed [of "([fst y], batchSubRequestError (snd y))"]
      by (auto simp: applyBatch_def only_at_def split: prod.splits)
  next
    case (Inr results)
    obtain f ld where l: "Load (srv_env srv) (w_Shows w1 (temp_path srv run)) = (f, ld)" by force
    let ?w1 = "w1\<lparr>w_Shows := (w_Shows w1)(temp_path srv run := f)\<rparr>"
    show ?thesis
    proof (cases ld)
      case (Inl e)
      then show ?thesis
        using assms(2,3) x Inr l o real1 failed [of "(cmds, HttpError 500 (error_code e))"]
        by (auto simp: applyBatch_def only_at_def)
    next
      case ld: (Inr final)
      obtain cr w3 where cr: "current_revision srv (?hook ?w1) = (cr, w3)" by force
      note k = current_revision_keeps [OF cr]
      have g: "w_Shows (?hook ?w1) (real_path srv) = g (w_Shows w (real_path srv))" using real1 assms(2) by simp
      have w3: "w_Files w3 = w_Files w" "\<forall>q. q \<noteq> temp_path srv run \<and> q \<noteq> real_path srv \<longrightarrow> w_Shows w3 q = w_Shows w q"
        "content (srv_env srv) (w_Shows w3 (real_path srv)) = content (srv_env srv) (g (w_Shows w (real_path srv)))"
        using k(2) o g unfolding unchanged_def only_at_def by auto
      have rv: "snd (CurrentRevision (w_Shows w3 (real_path srv))) = cr"
        using k g by (auto simp: unchanged_def content_def)
      consider e where "cr = Inl e" | rr where "cr = Inr rr" "rr \<noteq> base" | "cr = Inr base" by (cases cr) auto
      then show ?thesis
      proof cases
        case (1 e)
        then show ?thesis
          using failed [of "(cmds, HttpError 500 (error_code e))"] assms(3) x Inr l ld cr w3 by (auto simp: applyBatch_def Let_def)
      next
        case (2 rr)
        then show ?thesis
          using failed [of "(cmds, HttpError 412 ''GOLC_API_REVISION_MISMATCH'')"] assms(3) x Inr l ld cr w3
          by (auto simp: applyBatch_def Let_def)
      next
        case 3
        obtain f' se where sv: "Save (srv_env srv) (run_now_text run) (run_stage_ok run) (run_promote_ok run)
            (w_Shows w3 (real_path srv)) (final\<lparr>st_Revision := base\<rparr>) = (f', se)" by force
        have run: "(r, w') = (case se of Some e \<Rightarrow> Inl (cmds, HttpError 500 (error_code e)) | None \<Rightarrow> Inr results,
            w3\<lparr>w_Shows := (w_Shows w3)(real_path srv := f')\<rparr>)"
          using assms(3) x Inr l ld cr 3 sv by (simp add: applyBatch_def Let_def split: option.splits)
        show ?thesis
        proof (cases se)
          case (Some e)
          show ?thesis
            by (rule failed [of "(cmds, HttpError 500 (error_code e))"]) (use run Some w3 content_Save_failed [OF sv [unfolded Some]] assms(2) in auto)
        next
          case None
          show ?thesis
            by (rule committed [of results w1 final "w_Shows w3 (real_path srv)" f'])
               (use run None w3 rv 3 sv x Inr l ld assms(2) in auto)
        qed
      qed
    qed
  qed
qed

lemma preflight_issued: "preflight decode ctx cid reqs = Inr cmds \<Longrightarrow> \<forall>cmd\<in>set cmds. issued (fst cmd) (snd cmd)"
proof -
  assume "preflight decode ctx cid reqs = Inr cmds"
  then have "\<forall>cmd\<in>set cmds. \<exists>name requires. cmd = (''pool create'', createPoolArgs name requires)" by (rule preflight_creates)
  then show ?thesis using issues by fastforce
qed

text \<open>The show around a batch: it fails and leaves the show to the other processes, or commits once.\<close>
lemma runBatch_cases:
  assumes "temp_path srv run \<noteq> real_path srv" and "runBatch execute srv run (others_write srv g) decode ctx cid ifMatch requests s = (res, s')"
  obtains (failed) e where "res = Inl e"
      "\<exists>f. content (srv_env srv) f = content (srv_env srv) (w_Shows (api_World s) (real_path srv)) \<and>
         content (srv_env srv) (w_Shows (api_World s') (real_path srv)) \<in>
           {content (srv_env srv) (w_Shows (api_World s) (real_path srv)), content (srv_env srv) (g f)}"
  | (committed) base cmds w w1 results final f f0 where "res = Inr \<lparr>bo_Results = results, bo_Revision = wrap64 (base + 1)\<rparr>"
      "preflight decode ctx cid requests = Inr cmds"
      "content (srv_env srv) (w_Shows w (temp_path srv run)) = content (srv_env srv) (w_Shows (api_World s) (real_path srv))"
      "executeAll execute (srv_root srv) (temp_name srv run) 0 cmds w = (Inr results, w1)"
      "snd (Load (srv_env srv) (w_Shows w1 (temp_path srv run))) = Inr final"
      "snd (CurrentRevision (w_Shows (api_World s) (real_path srv))) = Inr base"
      "content (srv_env srv) f = content (srv_env srv) (w_Shows (api_World s) (real_path srv))"
      "content (srv_env srv) f0 = content (srv_env srv) (g f)" "snd (CurrentRevision f0) = Inr base"
      "Save (srv_env srv) (run_now_text run) (run_stage_ok run) (run_promote_ok run) f0 (final\<lparr>st_Revision := base\<rparr>) =
         (w_Shows (api_World s') (real_path srv), None)"
proof -
  let ?c = "content (srv_env srv)" and ?real = "w_Shows (api_World s) (real_path srv)"
  have same: thesis if "res = Inl e" "?c (w_Shows (api_World s') (real_path srv)) = ?c ?real" for e
    using failed [OF that(1)] that(2) by blast
  show ?thesis
  proof (cases "requests = []")
    case True
    then show ?thesis using same assms(2) by (auto simp: runBatch_def Let_def)
  next
    case False
    show ?thesis
    proof (cases "preflight decode ctx cid requests")
      case (Inl x)
      then show ?thesis using same assms(2) False by (cases x) (auto simp: runBatch_def Let_def)
    next
      case pf: (Inr cmds)
      obtain cr w1 where cr: "current_revision srv (api_World s) = (cr, w1)" by force
      note k1 = current_revision_keeps [OF cr]
      have c1: "?c (w_Shows w1 (real_path srv)) = ?c ?real" using k1(2) by (simp add: unchanged_def)
      consider (early) e where "res = Inl e" "w_Shows (api_World s') (real_path srv) = w_Shows w1 (real_path srv)"
        | (go) base expected where "cr = Inr base" "parseIfMatch ifMatch = Inr expected" "expected = None \<or> expected = Some base"
        using assms(2) False pf cr
        by (cases cr; cases "parseIfMatch ifMatch") (auto simp: runBatch_def Let_def split: if_splits)
      then show ?thesis
      proof cases
        case early
        then show ?thesis using same c1 by simp
      next
        case go
        obtain t w2 where t: "NewTempCopy srv run w1 = (t, w2)" by force
        note k2 = NewTempCopy_keeps [OF t assms(1)]
        show ?thesis
        proof (cases t)
          case (Inl e)
          then show ?thesis using same assms(2) False pf cr go t k2(2) c1 by (auto simp: runBatch_def Let_def)
        next
          case (Inr name)
          have n: "name = temp_name srv run" "?c (w_Shows w2 (temp_path srv run)) = ?c ?real"
            using k2(4) [OF Inr] c1 by auto
          obtain r w3 where ab: "applyBatch execute srv run (others_write srv g) base cmds (temp_name srv run) w2 = (r, w3)" by force
          have rm: "w_Shows (remove_copy srv run w3) (real_path srv) = w_Shows w3 (real_path srv)" using assms(1) by (simp add: remove_copy_def)
          from preflight_issued [OF pf] assms(1) ab [unfolded others_write_def] show ?thesis
          proof (cases rule: applyBatch_cases)
            case (failed x)
            then have "\<exists>e. res = Inl e \<and> w_Shows (api_World s') (real_path srv) = w_Shows w3 (real_path srv)"
              using assms(2) False pf cr go t Inr n ab rm by (cases x) (auto simp: runBatch_def Let_def)
            then show ?thesis
              using that(1) failed(4) k2(2) c1 by (metis (no_types, lifting))
          next
            case (committed results w4 final f0 f')
            then have "res = Inr \<lparr>bo_Results = results, bo_Revision = wrap64 (base + 1)\<rparr>" "w_Shows (api_World s') (real_path srv) = f'"
              using assms(2) False pf cr go t Inr n ab rm by (auto simp: runBatch_def Let_def)
            then show ?thesis
              using that(2) [OF _ pf n(2) committed(2,3) _ _ committed(4,5)] committed(6) k1(1) go(1) k2(2) c1 by metis
          qed
        qed
      qed
    qed
  qed
qed

end

end
