(* ===== verification/ApiPool.thy ===== *)
theory ApiPool
  imports ApiBatch
begin

text \<open>
  The HTTP interface on the command registry with the \<open>pool\<close> commands: the executor of a server that
  runs in process, what a dry run leaves, and that a batch is all or nothing.
\<close>

section \<open>The executor\<close>

text \<open>What the clock, the UUID generator and the disk do while one command runs.\<close>
record Turn =
  turn_now :: string
  turn_mint :: "nat \<Rightarrow> uuid option"
  turn_stage_ok :: bool
  turn_promote_ok :: bool

definition host_at :: "Host \<Rightarrow> Turn \<Rightarrow> Host" where
  "host_at h t = h\<lparr>host_now := turn_now t, host_mint := turn_mint t, host_stage_ok := turn_stage_ok t, host_promote_ok := turn_promote_ok t\<rparr>"

lemma host_at_simps [simp]:
  "host_env (host_at h t) = host_env h" "host_resolve (host_at h t) = host_resolve h" "host_mint (host_at h t) = turn_mint t"
  "host_now (host_at h t) = turn_now t" "host_stage_ok (host_at h t) = turn_stage_ok t" "host_promote_ok (host_at h t) = turn_promote_ok t"
  by (simp_all add: host_at_def)

definition serverOf :: "Host \<Rightarrow> string \<Rightarrow> string \<Rightarrow> Server" where
  "serverOf h dir path = \<lparr>srv_env = host_env h, srv_resolve = host_resolve h, srv_root = dir, srv_showPath = path\<rparr>"

lemma serverOf_simps [simp]:
  "srv_env (serverOf h dir path) = host_env h" "srv_resolve (serverOf h dir path) = host_resolve h"
  "srv_root (serverOf h dir path) = dir" "srv_showPath (serverOf h dir path) = path"
  by (simp_all add: serverOf_def)

text \<open>\<open>apiCommandExecutor\<close> on the registry of the pool commands; command \<open>i\<close> runs in turn \<open>turns i\<close>.\<close>
definition poolExecutor :: "(string \<Rightarrow> string) \<Rightarrow> (string \<Rightarrow> string) \<Rightarrow> Host \<Rightarrow> (nat \<Rightarrow> Turn) \<Rightarrow> nat \<Rightarrow> Executor" where
  "poolExecutor summary unknown h turns i route args dir w =
     (case NewDefaultCommandRegistry poolScopes (poolRoutes summary (host_at h (turns i))) of
        Inl _ \<Rightarrow> ((2, [], []), w)
      | Inr r \<Rightarrow>
          (case apiExecute unknown r route args dir w of
             None \<Rightarrow> ((2, [], []), w)
           | Some (res, w') \<Rightarrow> ((res_ExitCode res, res_Stdout res, res_Stderr res), w')))"

lemma poolExecutor_create:
  assumes "runPoolCreate (host_at h (turns i)) \<lparr>rq_Route = ''pool create'', rq_Args = args, rq_Root = dir\<rparr> w = (res, w')"
  shows "poolExecutor summary unknown h turns i ''pool create'' args dir w = ((res_ExitCode res, res_Stdout res, res_Stderr res), w')"
proof -
  obtain r where r: "NewDefaultCommandRegistry poolScopes (poolRoutes summary (host_at h (turns i))) = Inr r" using pool_registry by blast
  have "\<lparr>cr_Route = ''pool create'', cr_Summary = summary ''pool create'', cr_Handler = Some (runPoolCreate (host_at h (turns i)))\<rparr> \<in>
    set (poolRoutes summary (host_at h (turns i)))" by (simp add: poolRoutes_def)
  from declared_dispatch [OF r this, of "runPoolCreate (host_at h (turns i))" unknown args dir w]
  have "apiExecute unknown r ''pool create'' args dir w =
      Some (runPoolCreate (host_at h (turns i)) \<lparr>rq_Route = ''pool create'', rq_Args = args, rq_Root = dir\<rparr> w)"
    by (simp add: pool_keys)
  then show ?thesis using r assms by (simp add: poolExecutor_def)
qed

text \<open>The arguments the interface builds parse back, unless the name reads as a flag.\<close>
lemma created_args:
  "parsePoolCreateArgs (buildMutationArgs (createPoolArgs name requires) path) =
     (if HasPrefix name ''-'' \<or> path = [] then Inl pool_usage
      else Inr (name, path, if requires = [] then [] else parseCapabilityList (Join '','' requires)))"
  by (simp add: parsePoolCreateArgs_def buildMutationArgs_def createPoolArgs_def poolCreateFlag_def bind_res_def)

lemma save_show_only_at: "save_show h dir path s w = (e, w1) \<Longrightarrow> only_at (host_resolve h dir path) w w1"
  by (auto simp: save_show_def only_at_def Let_def split: prod.splits)

lemma edit_show_only_at:
  assumes "edit_show h dir path f w = (res, w')"
  shows "only_at (host_resolve h dir path) w w'"
  using assms
proof (cases rule: edit_show_cases)
  case failed
  then show ?thesis by (simp add: unchanged_def)
next
  case (saved state state' out w1)
  then show ?thesis using save_show_only_at [OF saved(6)] by (auto simp: unchanged_def only_at_def)
qed

lemma runPoolCreate_only_at:
  assumes "runPoolCreate h \<lparr>rq_Route = route, rq_Args = buildMutationArgs (createPoolArgs name requires) path, rq_Root = dir\<rparr> w = (res, w')"
  shows "only_at (host_resolve h dir path) w w'"
  using assms by (auto simp: runPoolCreate_def created_args malformed_def split: if_splits dest: edit_show_only_at)

interpretation pool_executor: show_executor "poolExecutor summary unknown h turns" "serverOf h dir path"
    "\<lambda>route args. route = ''pool create'' \<and> (\<exists>name requires. args = createPoolArgs name requires)"
  for summary unknown h turns dir path
proof unfold_locales
  fix route args i path' w r w'
  assume a: "route = ''pool create'' \<and> (\<exists>name requires. args = createPoolArgs name requires)"
    and e: "poolExecutor summary unknown h turns i route (buildMutationArgs args path') (srv_root (serverOf h dir path)) w = (r, w')"
  obtain name requires where n: "args = createPoolArgs name requires" using a by blast
  obtain res w1 where run: "runPoolCreate (host_at h (turns i)) \<lparr>rq_Route = ''pool create'', rq_Args = buildMutationArgs args path', rq_Root = dir\<rparr> w = (res, w1)"
    by force
  have "w' = w1" using poolExecutor_create [where summary = summary and unknown = unknown and turns = turns, OF run] e a by simp
  then show "only_at (srv_resolve (serverOf h dir path) (srv_root (serverOf h dir path)) path') w w'"
    using runPoolCreate_only_at [OF run [unfolded n]] by simp
qed blast

section \<open>Dry runs\<close>

lemma createPool_dry_run:
  assumes "temp_path (serverOf h dir path) run \<noteq> real_path (serverOf h dir path)"
    and "createPool (poolExecutor summary unknown h turns i) (serverOf h dir path) run ctx name requires ifMatch True key cid s = (res, s')"
  shows "show_kept (serverOf h dir path) run (api_World s) (api_World s') \<and> api_Idem s' = api_Idem s"
proof -
  let ?req = "\<lparr>mr_Route = ''pool create'', mr_Args = createPoolArgs name requires, mr_IfMatch = ifMatch,
            mr_DryRun = True, mr_IdempotencyKey = key, mr_Actor = actorFromContext ctx, mr_CorrelationID = cid\<rparr>"
  consider (refused) "api_World s' = api_World s" "api_Idem s' = api_Idem s"
    | (dry) "dryRunMutate (poolExecutor summary unknown h turns i) (serverOf h dir path) run ?req s = (res, s')"
    using assms(2) by (auto simp: createPool_def mutate_def split: option.splits sum.splits)
  then show ?thesis
  proof cases
    case dry
    then show ?thesis using pool_executor.dry_run_keeps [OF _ assms(1) dry] by auto
  qed simp
qed


section \<open>Batches\<close>

text \<open>The parts of a document that no save rewrites: all but the version stamps and the scrubbed lists.\<close>
definition stable_part :: "State \<Rightarrow> State" where
  "stable_part s = s\<lparr>st_SchemaVersion := 0, st_Revision := 0, st_Scenes := [], st_DeskMidiMappings := []\<rparr>"

lemma stable_saved [simp]: "stable_part (stampState (scrubState env s)) = stable_part s" "stable_part (s\<lparr>st_Revision := r\<rparr>) = stable_part s"
  by (simp_all add: stable_part_def stampState_def scrubState_def Let_def)

lemma stable_pools: "stable_part s = stable_part s' \<Longrightarrow> stable_part (s\<lparr>st_Pools := f (st_Pools s)\<rparr>) = stable_part (s'\<lparr>st_Pools := f (st_Pools s')\<rparr>)"
  by (cases s; cases s') (simp add: stable_part_def)

lemma Save_round_trip:
  assumes "Save env now st pr f s = (f', None)" "round_trips env"
  shows "content env f' = (Inr (stampState (scrubState env s)), Inr (wrap64 (st_Revision s + 1)))"
proof -
  have "codec_on env (stampState (scrubState env s))"
    using assms by (elim Save_success) (auto simp: codec_on_def round_trips_def)
  then show ?thesis using Save_Load_committed [OF assms(1)] by (simp add: content_def)
qed

text \<open>A run of creating commands that all succeed appends their pools, in order.\<close>
lemma executeAll_creates:
  assumes "round_trips (host_env h)"
    and "executeAll (poolExecutor summary unknown h turns) dir path i (map (\<lambda>(n, rq). (''pool create'', createPoolArgs n rq)) nrs) w = (Inr results, w')"
    and "snd (Load (host_env h) (w_Shows w' (host_resolve h dir path))) = Inr final"
  shows "length results = length nrs \<and> (\<exists>news state. snd (Load (host_env h) (w_Shows w (host_resolve h dir path))) = Inr state \<and>
    stable_part final = stable_part (state\<lparr>st_Pools := st_Pools state @ news\<rparr>) \<and> map pool_Name news = map fst nrs)"
  using assms(2)
proof (induction nrs arbitrary: i w results)
  case Nil
  then show ?case using assms(3) by (auto intro!: exI [of _ "[]"] simp: stable_part_def)
next
  case (Cons nr nrs)
  obtain n rq where nr: "nr = (n, rq)" by force
  let ?req = "\<lparr>rq_Route = ''pool create'', rq_Args = buildMutationArgs (createPoolArgs n rq) path, rq_Root = dir\<rparr>"
  obtain res w1 where run: "runPoolCreate (host_at h (turns i)) ?req w = (res, w1)" by force
  note ex = poolExecutor_create [where summary = summary and unknown = unknown and turns = turns, OF run]
  have ok: "res_ExitCode res = 0"
    using Cons.prems(1) ex by (auto simp: nr Let_def translateResult_def split: if_splits)
  obtain rest where rest: "executeAll (poolExecutor summary unknown h turns) dir path (Suc i)
      (map (\<lambda>(n, rq). (''pool create'', createPoolArgs n rq)) nrs) w1 = (Inr rest, w')" "length results = Suc (length rest)"
    using Cons.prems(1) ex ok by (auto simp: nr Let_def translateResult_def split: sum.splits prod.splits)
  from runPoolCreate_outcome [OF _ run] assms(1) ok
  obtain state pl where k: "snd (Load (host_env h) (w_Shows w (host_resolve h dir path))) = Inr state" "pool_Name pl = n"
    "content (host_env h) (w_Shows w1 (host_resolve h dir path)) =
      (Inr (stampState (scrubState (host_env h) (state\<lparr>st_Pools := st_Pools state @ [pl]\<rparr>))), Inr (wrap64 (st_Revision state + 1)))"
    by (force simp: created_args Let_def split: if_splits)
  let ?s = "stampState (scrubState (host_env h) (state\<lparr>st_Pools := st_Pools state @ [pl]\<rparr>))"
  have "snd (Load (host_env h) (w_Shows w1 (host_resolve h dir path))) = Inr ?s" using k(3) by (simp add: content_def)
  then obtain news where
    s: "map pool_Name news = map fst nrs" "stable_part final = stable_part (?s\<lparr>st_Pools := st_Pools ?s @ news\<rparr>)" "length rest = length nrs"
    using Cons.IH [OF rest(1)] by auto
  have "stable_part (?s\<lparr>st_Pools := st_Pools ?s @ news\<rparr>) = stable_part (state\<lparr>st_Pools := st_Pools state @ (pl # news)\<rparr>)"
    using stable_pools [of ?s "state\<lparr>st_Pools := st_Pools state @ [pl]\<rparr>" "\<lambda>ps. ps @ news"] by simp
  then show ?case using s rest(2) nr k by (intro conjI exI [of _ "pl # news"] exI [of _ state]) auto
qed

text \<open>The commands of an accepted batch are those its bodies decode to.\<close>
lemma preflight_decoded:
  assumes "preflight decode ctx cid requests = Inr cmds"
  shows "\<exists>nrs. map (\<lambda>req. decode (bs_Body req)) requests = map Inr nrs \<and> cmds = map (\<lambda>(n, rq). (''pool create'', createPoolArgs n rq)) nrs"
  using assms
proof (induction requests arbitrary: cmds)
  case (Cons req reqs)
  then obtain cmd cmds' where c: "preflightOne decode ctx cid req = Inr cmd" "preflight decode ctx cid reqs = Inr cmds'" "cmds = cmd # cmds'"
    by (auto split: sum.splits)
  have "translateBatchSubRequest decode req = Inr cmd"
    using c(1) by (auto simp: preflightOne_def split: sum.splits option.splits)
  then obtain n rq where "decode (bs_Body req) = Inr (n, rq)" "cmd = (''pool create'', createPoolArgs n rq)"
    by (auto simp: translateBatchSubRequest_def translateBatchCreatePool_def Let_def split: sum.splits option.splits if_splits)
  moreover obtain nrs where "map (\<lambda>req. decode (bs_Body req)) reqs = map Inr nrs" "cmds' = map (\<lambda>(n, rq). (''pool create'', createPoolArgs n rq)) nrs"
    using Cons.IH [OF c(2)] by blast
  ultimately show ?case using c(3) by (intro exI [of _ "(n, rq) # nrs"]) simp
qed simp

text \<open>The outcome of a batch on the show, when other processes turn the show file \<open>f\<close> into \<open>g f\<close> meanwhile.\<close>
definition batch_outcome ::
  "Env \<Rightarrow> (string \<Rightarrow> (string \<times> string list) result) \<Rightarrow> (Store option \<Rightarrow> Store option) \<Rightarrow> batchSubRequest list \<Rightarrow> Store option \<Rightarrow>
   http_error + batchOutput \<Rightarrow> Store option \<Rightarrow> bool" where
  "batch_outcome env decode g requests before res after \<longleftrightarrow>
     (case res of
        Inl _ \<Rightarrow> \<exists>f. content env f = content env before \<and> content env after \<in> {content env before, content env (g f)}
      | Inr out \<Rightarrow> \<exists>f state base nrs news state'.
          content env f = content env before \<and> content env before = (Inr state, Inr base) \<and> snd (CurrentRevision (g f)) = Inr base \<and>
          map (\<lambda>req. decode (bs_Body req)) requests = map Inr nrs \<and> length (bo_Results out) = length requests \<and>
          bo_Revision out = wrap64 (base + 1) \<and> content env after = (Inr state', Inr (wrap64 (base + 1))) \<and>
          stable_part state' = stable_part (state\<lparr>st_Pools := st_Pools state @ news\<rparr>) \<and> map pool_Name news = map fst nrs)"

lemma batch_result:
  assumes "round_trips (host_env h)" and "temp_path (serverOf h dir path) run \<noteq> real_path (serverOf h dir path)"
    and "runBatch (poolExecutor summary unknown h turns) (serverOf h dir path) run (others_write (serverOf h dir path) g)
      decode ctx cid ifMatch requests s = (res, s')"
  shows "batch_outcome (host_env h) decode g requests (w_Shows (api_World s) (real_path (serverOf h dir path))) res
    (w_Shows (api_World s') (real_path (serverOf h dir path)))"
  using assms(2,3)
proof (cases rule: pool_executor.runBatch_cases)
  case (failed e)
  then show ?thesis by (simp add: batch_outcome_def)
next
  case (committed base cmds w w1 results final f f0)
  obtain nrs where nrs: "map (\<lambda>req. decode (bs_Body req)) requests = map Inr nrs" "cmds = map (\<lambda>(n, rq). (''pool create'', createPoolArgs n rq)) nrs"
    using preflight_decoded [OF committed(2)] by blast
  have len: "length nrs = length requests" using nrs(1) by (metis length_map)
  obtain news state where run: "length results = length nrs" "snd (Load (host_env h) (w_Shows w (temp_path (serverOf h dir path) run))) = Inr state"
      "stable_part final = stable_part (state\<lparr>st_Pools := st_Pools state @ news\<rparr>)" "map pool_Name news = map fst nrs"
    using executeAll_creates [OF assms(1) committed(4) [unfolded nrs(2) serverOf_simps]] committed(5) by (auto simp: temp_name_def)
  have before: "content (host_env h) (w_Shows (api_World s) (real_path (serverOf h dir path))) = (Inr state, Inr base)"
    using committed(3,6) run(2) by (simp add: content_def)
  have gf: "snd (CurrentRevision (g f)) = Inr base" using committed(8,9) by (simp add: content_def)
  have after: "content (host_env h) (w_Shows (api_World s') (real_path (serverOf h dir path))) =
      (Inr (stampState (scrubState (host_env h) (final\<lparr>st_Revision := base\<rparr>))), Inr (wrap64 (base + 1)))"
    using Save_round_trip [OF _ assms(1)] committed(10) by fastforce
  show ?thesis
    unfolding batch_outcome_def committed(1) sum.case
    by (rule exI [of _ f], rule exI [of _ state], rule exI [of _ base], rule exI [of _ nrs], rule exI [of _ news],
        rule exI [of _ "stampState (scrubState (host_env h) (final\<lparr>st_Revision := base\<rparr>))"])
       (use committed(7) before gf nrs run len after in simp)
qed


section \<open>A batch and a dry run\<close>

abbreviation wash_host :: Host where "wash_host \<equiv> table_host [wash_state 1]"

definition wash_turns :: "nat \<Rightarrow> Turn" where
  "wash_turns i = \<lparr>turn_now = ''t'', turn_mint = demo_mint, turn_stage_ok = True, turn_promote_ok = True\<rparr>"

abbreviation wash_server :: Server where "wash_server \<equiv> serverOf wash_host ''/'' ''a.golc''"
abbreviation wash_executor :: "nat \<Rightarrow> Executor" where "wash_executor \<equiv> poolExecutor id id wash_host wash_turns"

definition wash_decode :: "string \<Rightarrow> (string \<times> string list) result" where
  "wash_decode body = Inr (''Wash'', [''intensity''])"

definition wash_batch :: "batchSubRequest list" where
  "wash_batch = [\<lparr>bs_Method = ''POST'', bs_Resource = ''/v1/pools'', bs_Body = ''x''\<rparr>]"

lemma wash_hosts: "host_at wash_host (wash_turns i) = wash_host"
  by (simp add: host_at_def wash_turns_def table_host_def)

lemma wash_paths: "temp_path wash_server demo_run = ''a.golc.backup-1''" "temp_name wash_server demo_run = ''a.golc.backup-1''"
  "real_path wash_server = ''a.golc''"
  by (simp_all add: temp_name_def demo_run_def)

lemma wash_save:
  assumes "openStore f = Inr db"
  shows "\<exists>f'. Save (table_env [wash_state 1]) ''t'' True True f (wash_state 0) = (f', None) \<and>
    Load (table_env [wash_state 1]) f' = (f', Inr (wash_state 1))"
proof -
  have "env_encode (table_env [wash_state 1]) (stampState (scrubState (table_env [wash_state 1]) (wash_state 0))) = Inr [0]"
    by (simp add: wash_valid table_env_def)
  then obtain f' where f': "Save (table_env [wash_state 1]) ''t'' True True f (wash_state 0) = (f', None)"
    using Save_committed [OF wash_valid(1)] assms by metis
  have "codec_on (table_env [wash_state 1]) (stampState (scrubState (table_env [wash_state 1]) (wash_state 0)))"
    by (simp add: wash_valid codec_on_def table_env_def)
  from Save_Load_committed [OF f' this] f' show ?thesis by (simp add: wash_valid)
qed

lemma wash_commands: "preflight wash_decode demo_author ''c'' wash_batch = Inr [(''pool create'', createPoolArgs ''Wash'' [''intensity''])]"
  by code_simp

lemma wash_args: "parsePoolCreateArgs (buildMutationArgs (createPoolArgs ''Wash'' [''intensity'']) path) =
  (if path = [] then Inl pool_usage else Inr (''Wash'', path, [''intensity'']))"
proof -
  have "HasPrefix ''Wash'' ''-'' = False" "parseCapabilityList (Join '','' [''intensity'']) = [''intensity'']" by code_simp+
  then show ?thesis by (simp add: created_args)
qed

text \<open>The copy of a fresh show.\<close>
lemma wash_copy:
  obtains db w1 where "openStore None = Inr db" "openStore (Some db) = Inr db" "loadFrom (table_env [wash_state 1]) db = Inr freshState"
    "current_revision wash_server empty_world = (Inr 0, w1)" "w_Shows w1 = (\<lambda>p. None)(''a.golc'' \<mapsto> db)"
    "NewTempCopy wash_server demo_run w1 =
       (Inr ''a.golc.backup-1'', w1\<lparr>w_Shows := (w_Shows w1)(''a.golc'' \<mapsto> db, ''a.golc.backup-1'' \<mapsto> db)\<rparr>)"
proof -
  obtain db where db: "openStore None = Inr db" "\<And>env. loadFrom env db = Inr freshState" "readMeta db = None"
    by (simp add: openStore_def emptyFile_def seedRows_def loadFrom_def readMeta_def applicationID_def)
  note o = open_opened [OF openStore_opened [OF db(1)]]
  obtain w1 where w1: "current_revision wash_server empty_world = (Inr 0, w1)" "w_Shows w1 = (\<lambda>p. None)(''a.golc'' \<mapsto> db)"
    using demo_revision db(1) by (auto simp: current_revision_def CurrentRevision_def empty_world_def split: prod.splits)
  have "verifyBackupReadBack (table_env [wash_state 1]) db = None" by (simp add: verifyBackupReadBack_def o db(3) Let_def)
  then have "NewTempCopy wash_server demo_run w1 =
      (Inr ''a.golc.backup-1'', w1\<lparr>w_Shows := (w_Shows w1)(''a.golc'' \<mapsto> db, ''a.golc.backup-1'' \<mapsto> db)\<rparr>)"
    using w1(2) o unfolding NewTempCopy_def wash_paths by (simp add: demo_run_def Let_def)
  then show ?thesis using that db o w1 by blast
qed

lemma batch_demo: "\<exists>out s'. runBatch wash_executor wash_server demo_run (others_write wash_server id) wash_decode demo_author ''c'' [] wash_batch demo_state
  = (Inr out, s')"
proof -
  obtain db w1 where c: "openStore None = Inr db" "openStore (Some db) = Inr db" "loadFrom (table_env [wash_state 1]) db = Inr freshState"
    "current_revision wash_server empty_world = (Inr 0, w1)" "w_Shows w1 = (\<lambda>p. None)(''a.golc'' \<mapsto> db)"
    "NewTempCopy wash_server demo_run w1 =
       (Inr ''a.golc.backup-1'', w1\<lparr>w_Shows := (w_Shows w1)(''a.golc'' \<mapsto> db, ''a.golc.backup-1'' \<mapsto> db)\<rparr>)"
    by (rule wash_copy)
  let ?w2 = "w1\<lparr>w_Shows := (w_Shows w1)(''a.golc'' \<mapsto> db, ''a.golc.backup-1'' \<mapsto> db)\<rparr>"
  obtain f' where f': "Save (table_env [wash_state 1]) ''t'' True True (Some db) (wash_state 0) = (f', None)"
    "Load (table_env [wash_state 1]) f' = (f', Inr (wash_state 1))" using wash_save [OF c(2)] by blast
  let ?w3 = "?w2\<lparr>w_Shows := (w_Shows ?w2)(''a.golc.backup-1'' := f')\<rparr>"
  have "runPoolCreate (host_at wash_host (wash_turns 0)) \<lparr>rq_Route = ''pool create'',
      rq_Args = buildMutationArgs (createPoolArgs ''Wash'' [''intensity'']) ''a.golc.backup-1'', rq_Root = ''/''\<rparr> ?w2 =
      succeed (''GOLC_POOL_CREATED: Wash ()'' @ newline) ?w3"
    unfolding wash_hosts using c f'(1)
    by (subst create_runs [where db = db and path = "''a.golc.backup-1''"]) (simp_all add: wash_args del: append.simps)
  from poolExecutor_create [where turns = wash_turns, OF this [unfolded succeed_def], where summary = id and unknown = id]
  have "\<exists>results. executeAll wash_executor ''/'' ''a.golc.backup-1'' 0 [(''pool create'', createPoolArgs ''Wash'' [''intensity''])] ?w2 = (Inr results, ?w3)"
    by (simp add: translateResult_def Let_def del: append.simps)
  moreover have "current_revision wash_server ?w3 = (Inr 0, ?w3)"
    using c(1,2) demo_revision by (simp add: current_revision_def CurrentRevision_def fun_upd_idem_iff fun_upd_twist)
  moreover have "(wash_state 1)\<lparr>st_Revision := 0\<rparr> = wash_state 0" by (simp add: wash_state_def)
  ultimately have "\<exists>r w. applyBatch wash_executor wash_server demo_run (others_write wash_server id) 0
      [(''pool create'', createPoolArgs ''Wash'' [''intensity''])] ''a.golc.backup-1'' ?w2 = (Inr r, w)"
    using f' unfolding applyBatch_def wash_paths others_write_def
    by (auto simp: demo_run_def Let_def fun_upd_idem)
  then show ?thesis
    using c(4,6) wash_commands demo_gates(5) unfolding runBatch_def
    by (auto simp: wash_batch_def demo_state_def Let_def)
qed



end
