(* ===== verification/CommandDeployment.thy ===== *)
theory CommandDeployment
  imports CommandShow
begin

text \<open>
  \<open>src/internal/command/deployment.go\<close>: the \<open>deployment\<close> commands and \<open>show inspect\<close>.
\<close>

section \<open>Arguments\<close>

abbreviation deployment_usage :: golc_error where "deployment_usage \<equiv> Code ''GOLC_DEPLOYMENT_USAGE''"

definition parseDeploymentNameShowArgs :: "string list \<Rightarrow> (string \<times> string) result" where
  "parseDeploymentNameShowArgs = parseDomainNameShowArgs ''GOLC_DEPLOYMENT_USAGE''"

definition parseDeploymentRenameArgs :: "string list \<Rightarrow> (string \<times> string \<times> string) result" where
  "parseDeploymentRenameArgs = parseDomainRenameArgs ''GOLC_DEPLOYMENT_USAGE''"

definition parseShowInspectArgs :: "string list \<Rightarrow> string result" where
  "parseShowInspectArgs = parseShowOnlyArgs ''GOLC_DEPLOYMENT_USAGE''"

definition deploymentByName :: "Deployment list \<Rightarrow> string \<Rightarrow> Deployment option" where
  "deploymentByName deployments name = find_by dep_Name name deployments"

record deploymentInstanceReassignArgs =
  dr_deploymentName :: string
  dr_instanceID :: uuid
  dr_mode :: string
  dr_universe :: int
  dr_address :: int
  dr_showPath :: string

definition reassignFlag :: "string \<Rightarrow> (string \<Rightarrow> deploymentInstanceReassignArgs \<Rightarrow> deploymentInstanceReassignArgs result) option" where
  "reassignFlag flag =
     (if flag = ''--mode'' then Some (\<lambda>v a. Inr (a\<lparr>dr_mode := v\<rparr>))
      else if flag = ''--universe'' then Some (positiveFlag deployment_usage (\<lambda>n a. a\<lparr>dr_universe := n\<rparr>))
      else if flag = ''--address'' then Some (positiveFlag deployment_usage (\<lambda>n a. a\<lparr>dr_address := n\<rparr>))
      else if flag = ''--show'' then Some (\<lambda>v a. Inr (a\<lparr>dr_showPath := v\<rparr>))
      else None)"

definition parseDeploymentInstanceReassignArgs :: "Host \<Rightarrow> string list \<Rightarrow> deploymentInstanceReassignArgs result" where
  "parseDeploymentInstanceReassignArgs h args =
     (case args of
        name # rawID # rest \<Rightarrow>
          if HasPrefix name ''-'' \<or> HasPrefix rawID ''-'' then Inl deployment_usage
          else
            (case host_uuid_parse h rawID of
               None \<Rightarrow> Inl deployment_usage
             | Some instanceID \<Rightarrow>
                 bind_res (parse_flags deployment_usage reassignFlag no_switches rest
                   \<lparr>dr_deploymentName = name, dr_instanceID = instanceID, dr_mode = [], dr_universe = 0, dr_address = 0, dr_showPath = []\<rparr>)
                   (\<lambda>parsed. if dr_showPath parsed = [] then Inl deployment_usage else Inr parsed))
      | _ \<Rightarrow> Inl deployment_usage)"

section \<open>Handlers\<close>

definition runDeploymentCreate :: "Host \<Rightarrow> World CommandHandler" where
  "runDeploymentCreate h request w =
     (case parseDeploymentNameShowArgs (rq_Args request) of
        Inl e \<Rightarrow> malformed h e w
      | Inr (name, showPath) \<Rightarrow>
          edit_show h (rq_Root request) showPath (\<lambda>state.
            bind_res (NewDeployment (host_mint h 0) name) (\<lambda>newDeployment.
              Inr (state\<lparr>st_Deployments := st_Deployments state @ [newDeployment]\<rparr>,
                   ''GOLC_DEPLOYMENT_CREATED: '' @ dep_Name newDeployment @ '' ('' @
                   env_uuid_str (host_env h) (dep_ID newDeployment) @ '')'' @ newline))) w)"

definition runDeploymentActivate :: "Host \<Rightarrow> World CommandHandler" where
  "runDeploymentActivate h request w =
     (case parseDeploymentNameShowArgs (rq_Args request) of
        Inl e \<Rightarrow> malformed h e w
      | Inr (name, showPath) \<Rightarrow>
          edit_show h (rq_Root request) showPath (\<lambda>state.
            bind_res (Activate (st_Deployments state) name) (\<lambda>activated.
              Inr (state\<lparr>st_Deployments := activated\<rparr>, ''GOLC_DEPLOYMENT_ACTIVATED: '' @ name @ newline))) w)"

definition runDeploymentRename :: "Host \<Rightarrow> World CommandHandler" where
  "runDeploymentRename h request w =
     (case parseDeploymentRenameArgs (rq_Args request) of
        Inl e \<Rightarrow> malformed h e w
      | Inr (oldName, newName, showPath) \<Rightarrow>
          edit_show h (rq_Root request) showPath (\<lambda>state.
            case deploymentByName (st_Deployments state) oldName of
              None \<Rightarrow> Inl (Code ''GOLC_DEPLOYMENT_NOT_FOUND'')
            | Some targetDeployment \<Rightarrow>
                bind_res (RenameDeployment targetDeployment newName) (\<lambda>renamed.
                  Inr (state\<lparr>st_Deployments := update_first (\<lambda>d. dep_ID d = dep_ID renamed) (\<lambda>_. renamed) (st_Deployments state)\<rparr>,
                       ''GOLC_DEPLOYMENT_RENAMED: '' @ oldName @ '' -> '' @ dep_Name renamed @ '' ('' @
                       env_uuid_str (host_env h) (dep_ID renamed) @ '')'' @ newline))) w)"

definition runDeploymentDelete :: "Host \<Rightarrow> World CommandHandler" where
  "runDeploymentDelete h request w =
     (case parseDeploymentNameShowArgs (rq_Args request) of
        Inl e \<Rightarrow> malformed h e w
      | Inr (name, showPath) \<Rightarrow>
          edit_show h (rq_Root request) showPath (\<lambda>state.
            case deploymentByName (st_Deployments state) name of
              None \<Rightarrow> Inl (Code ''GOLC_DEPLOYMENT_NOT_FOUND'')
            | Some targetDeployment \<Rightarrow>
                bind_res (DeleteDeployment (st_Deployments state) (dep_ID targetDeployment)) (\<lambda>newDeployments.
                  Inr (state\<lparr>st_Deployments := newDeployments\<rparr>,
                       ''GOLC_DEPLOYMENT_DELETED: '' @ name @ '' ('' @ env_uuid_str (host_env h) (dep_ID targetDeployment) @ '')'' @ newline))) w)"

text \<open>The operation of \<open>deployment instance reassign\<close>: what is omitted keeps the instance's value.\<close>
definition reassignInstance :: "Host \<Rightarrow> deploymentInstanceReassignArgs \<Rightarrow> State \<Rightarrow> (State \<times> string) result" where
  "reassignInstance h parsed state =
     (case deploymentByName (st_Deployments state) (dr_deploymentName parsed) of
        None \<Rightarrow> Inl (Code ''GOLC_DEPLOYMENT_NOT_FOUND'')
      | Some targetDeployment \<Rightarrow>
          (case find_by inst_ID (dr_instanceID parsed) (dep_Instances targetDeployment) of
             None \<Rightarrow> Inl (Code ''GOLC_DEPLOYMENT_INSTANCE_NOT_FOUND'')
           | Some current \<Rightarrow>
               let mode = (if dr_mode parsed \<noteq> [] then dr_mode parsed else inst_Mode current);
                   universe = (if dr_universe parsed > 0 then dr_universe parsed else inst_Universe current);
                   address = (if dr_address parsed > 0 then dr_address parsed else inst_Address current) in
               bind_res (Reassign (dep_Instances targetDeployment) (dr_instanceID parsed) mode universe address) (\<lambda>newInstances.
                 let updated = targetDeployment\<lparr>dep_Instances := newInstances\<rparr> in
                 Inr (state\<lparr>st_Deployments := update_first (\<lambda>d. dep_ID d = dep_ID updated) (\<lambda>_. updated) (st_Deployments state)\<rparr>,
                      ''GOLC_DEPLOYMENT_INSTANCE_REASSIGNED: '' @ env_uuid_str (host_env h) (dr_instanceID parsed) @ '' mode='' @ mode @
                      '' universe='' @ itoa universe @ '' address='' @ itoa address @ newline))))"

definition runDeploymentInstanceReassign :: "Host \<Rightarrow> World CommandHandler" where
  "runDeploymentInstanceReassign h request w =
     (case parseDeploymentInstanceReassignArgs h (rq_Args request) of
        Inl e \<Rightarrow> malformed h e w
      | Inr parsed \<Rightarrow> edit_show h (rq_Root request) (dr_showPath parsed) (reassignInstance h parsed) w)"

section \<open>show inspect\<close>

record showInspectPoolView =
  ip_ID :: string
  ip_Name :: string
  ip_RequiredCapabilities :: "string list"
  ip_MemberCount :: int

record showInspectDeploymentView =
  id_ID :: string
  id_Name :: string
  id_Active :: bool
  id_InstanceCount :: int

record showInspectView =
  iv_SchemaVersion :: int
  iv_Revision :: int
  iv_Pools :: "showInspectPoolView list"
  iv_Deployments :: "showInspectDeploymentView list"

definition buildShowInspectView :: "(uuid \<Rightarrow> string) \<Rightarrow> State \<Rightarrow> showInspectView" where
  "buildShowInspectView str state =
     \<lparr>iv_SchemaVersion = st_SchemaVersion state, iv_Revision = st_Revision state,
      iv_Pools = map (\<lambda>p. \<lparr>ip_ID = str (pool_ID p), ip_Name = pool_Name p, ip_RequiredCapabilities = pool_RequiredCapabilities p,
        ip_MemberCount = int (length (pool_Members p))\<rparr>) (st_Pools state),
      iv_Deployments = map (\<lambda>d. \<lparr>id_ID = str (dep_ID d), id_Name = dep_Name d, id_Active = dep_Active d,
        id_InstanceCount = int (length (dep_Instances d))\<rparr>) (st_Deployments state)\<rparr>"

text \<open>\<open>json\<close>: \<open>json.MarshalIndent\<close> of the view.\<close>
definition runShowInspect :: "(showInspectView \<Rightarrow> string result) \<Rightarrow> Host \<Rightarrow> World CommandHandler" where
  "runShowInspect json h request w =
     (case parseShowInspectArgs (rq_Args request) of
        Inl e \<Rightarrow> malformed h e w
      | Inr showPath \<Rightarrow>
          read_show h (rq_Root request) showPath (\<lambda>state w1.
            case json (buildShowInspectView (env_uuid_str (host_env h)) state) of
              Inl e \<Rightarrow> fail h (Wrap ''GOLC_DEPLOYMENT_INSPECT_ENCODE_FAILED'' e) w1
            | Inr payload \<Rightarrow> succeed (payload @ newline) w1) w)"

definition deploymentScopes :: "ScopeRegistration list" where
  "deploymentScopes = [\<lparr>sr_Scope = ''deployment'', sr_Summary = ''Named mappings of logical pools to concrete fixture instances, modes, universes, and addresses.''\<rparr>,
     \<lparr>sr_Scope = ''show'', sr_Summary = ''Inspection of a working ShowState document's logical pools and deployments.''\<rparr>]"

definition deploymentHandlers :: "(showInspectView \<Rightarrow> string result) \<Rightarrow> Host \<Rightarrow> (string \<times> World CommandHandler) list" where
  "deploymentHandlers json h =
     [(''deployment create'', runDeploymentCreate h), (''deployment activate'', runDeploymentActivate h),
      (''deployment rename'', runDeploymentRename h), (''deployment delete'', runDeploymentDelete h),
      (''deployment instance reassign'', runDeploymentInstanceReassign h), (''show inspect'', runShowInspect json h)]"

section \<open>What the commands do\<close>

lemma deployment_edits [edits]:
  assumes "round_trips (host_env h)"
  shows "one_edit (host_env h) w (runDeploymentCreate h request w)" "one_edit (host_env h) w (runDeploymentActivate h request w)"
    "one_edit (host_env h) w (runDeploymentRename h request w)" "one_edit (host_env h) w (runDeploymentDelete h request w)"
  unfolding runDeploymentCreate_def runDeploymentActivate_def runDeploymentRename_def runDeploymentDelete_def
  by (auto intro!: one_edit_edit_show [OF assms] simp: bind_res_Inr_iff split: sum.split option.splits)

lemma reassign_edits [edits]:
  assumes "round_trips (host_env h)"
  shows "one_edit (host_env h) w (runDeploymentInstanceReassign h request w)"
  unfolding runDeploymentInstanceReassign_def
  by (auto intro!: one_edit_edit_show [OF assms] simp: reassignInstance_def bind_res_Inr_iff Let_def split: sum.split option.splits)

lemma inspect_edits [edits]: "one_edit (host_env h) w (runShowInspect json h request w)"
  unfolding runShowInspect_def
  by (auto intro!: one_edit_kept read_show_shows_kept split: sum.split)

end
