(* ===== verification/CommandObjects.thy ===== *)
theory CommandObjects
  imports CommandShow
begin

text \<open>
  The shapes that the commands on named objects of a show share: create, rename, duplicate and
  delete, as \<open>command/programming.go\<close>, \<open>scene.go\<close> and \<open>operatorsurface.go\<close> repeat them for every kind of object.
  A kind is given by its accessors; the law \<open>one_edit\<close> is proved once for each shape.
\<close>

text \<open>A name lookup that also gives the index: \<open>themeByName\<close>, \<open>sceneByName\<close> and the others.\<close>
definition named_at :: "('a \<Rightarrow> string) \<Rightarrow> 'a list \<Rightarrow> string \<Rightarrow> ('a \<times> nat) option" where
  "named_at name_of xs name = map_option (\<lambda>i. (xs ! i, i)) (index_of (\<lambda>x. name_of x = name) xs)"

text \<open>The confirmation lines: \<open>VERB: name (id)\<close> and \<open>VERB: old -> new (id)\<close>.\<close>
definition told :: "Host \<Rightarrow> string \<Rightarrow> string \<Rightarrow> uuid \<Rightarrow> string" where
  "told h verb name i = verb @ '': '' @ name @ '' ('' @ env_uuid_str (host_env h) i @ '')'' @ newline"

definition told_from :: "Host \<Rightarrow> string \<Rightarrow> string \<Rightarrow> string \<Rightarrow> uuid \<Rightarrow> string" where
  "told_from h verb old name i = told h verb (old @ '' -> '' @ name) i"

record 'a Kind =
  kd_Name :: "'a \<Rightarrow> string"
  kd_ID :: "'a \<Rightarrow> uuid"
  kd_get :: "State \<Rightarrow> 'a list"
  kd_put :: "'a list \<Rightarrow> State \<Rightarrow> State"

definition createObject ::
  "Host \<Rightarrow> 'a Kind \<Rightarrow> (string list \<Rightarrow> (string \<times> string) result) \<Rightarrow> string \<Rightarrow> (string \<Rightarrow> 'a result) \<Rightarrow> World CommandHandler" where
  "createObject h k parse verb mk request w =
     (case parse (rq_Args request) of
        Inl e \<Rightarrow> malformed h e w
      | Inr (name, showPath) \<Rightarrow>
          edit_show h (rq_Root request) showPath (\<lambda>state.
            bind_res (mk name) (\<lambda>x. Inr (kd_put k (kd_get k state @ [x]) state, told h verb (kd_Name k x) (kd_ID k x)))) w)"

definition renameObject ::
  "Host \<Rightarrow> 'a Kind \<Rightarrow> string \<Rightarrow> string \<Rightarrow> string \<Rightarrow> ('a \<Rightarrow> string \<Rightarrow> 'a result) \<Rightarrow> World CommandHandler" where
  "renameObject h k errCode notFound verb rename request w =
     (case parseDomainRenameArgs errCode (rq_Args request) of
        Inl e \<Rightarrow> malformed h e w
      | Inr (oldName, newName, showPath) \<Rightarrow>
          edit_show h (rq_Root request) showPath (\<lambda>state.
            case named_at (kd_Name k) (kd_get k state) oldName of
              None \<Rightarrow> Inl (Code notFound)
            | Some (target, index) \<Rightarrow>
                bind_res (rename target newName) (\<lambda>renamed.
                  Inr (kd_put k ((kd_get k state)[index := renamed]) state,
                       told_from h verb oldName (kd_Name k renamed) (kd_ID k renamed)))) w)"

definition duplicateObject ::
  "Host \<Rightarrow> 'a Kind \<Rightarrow> string \<Rightarrow> string \<Rightarrow> string \<Rightarrow> (string \<Rightarrow> 'a \<Rightarrow> 'a result) \<Rightarrow> World CommandHandler" where
  "duplicateObject h k errCode notFound verb copy request w =
     (case parseDomainRenameArgs errCode (rq_Args request) of
        Inl e \<Rightarrow> malformed h e w
      | Inr (sourceName, newName, showPath) \<Rightarrow>
          edit_show h (rq_Root request) showPath (\<lambda>state.
            case named_at (kd_Name k) (kd_get k state) sourceName of
              None \<Rightarrow> Inl (Code notFound)
            | Some (source, _) \<Rightarrow>
                bind_res (copy newName source) (\<lambda>duplicate.
                  Inr (kd_put k (kd_get k state @ [duplicate]) state,
                       told_from h verb sourceName (kd_Name k duplicate) (kd_ID k duplicate)))) w)"

text \<open>\<open>detach\<close>: what happens to the references to the deleted object.\<close>
definition deleteObject ::
  "Host \<Rightarrow> 'a Kind \<Rightarrow> string \<Rightarrow> string \<Rightarrow> string \<Rightarrow> (uuid \<Rightarrow> State \<Rightarrow> State) \<Rightarrow> World CommandHandler" where
  "deleteObject h k errCode notFound verb detach request w =
     (case parseDomainNameShowArgs errCode (rq_Args request) of
        Inl e \<Rightarrow> malformed h e w
      | Inr (name, showPath) \<Rightarrow>
          edit_show h (rq_Root request) showPath (\<lambda>state.
            case named_at (kd_Name k) (kd_get k state) name of
              None \<Rightarrow> Inl (Code notFound)
            | Some (target, index) \<Rightarrow>
                Inr (detach (kd_ID k target) (kd_put k (remove_at index (kd_get k state)) state), verb @ '': '' @ name @ newline)) w)"

lemma object_edits:
  assumes "round_trips (host_env h)" "\<And>xs s. st_Revision (kd_put k xs s) = st_Revision s" "\<And>i s. st_Revision (detach i s) = st_Revision s"
  shows "one_edit (host_env h) w (createObject h k parse verb mk request w)"
    "one_edit (host_env h) w (renameObject h k errCode notFound verb rename request w)"
    "one_edit (host_env h) w (duplicateObject h k errCode notFound verb copy request w)"
    "one_edit (host_env h) w (deleteObject h k errCode notFound verb detach request w)"
  unfolding createObject_def renameObject_def duplicateObject_def deleteObject_def
  by (auto intro!: one_edit_edit_show [OF assms(1)] simp: bind_res_Inr_iff assms(2,3) split: sum.split option.splits)

lemma named_at_Some: "named_at name_of xs name = Some (x, i) \<Longrightarrow> i < length xs \<and> xs ! i = x \<and> name_of x = name \<and> x \<in> set xs"
  by (auto simp: named_at_def dest: index_of_nth)

lemma named_at_None: "named_at name_of xs name = None \<longleftrightarrow> name \<notin> name_of ` set xs"
  by (auto simp: named_at_def index_of_None_iff)

end
