(* ===== verification/CommandScene.thy ===== *)
theory CommandScene
  imports CommandObjects
begin

text \<open>
  \<open>src/internal/command/scene.go\<close>: the \<open>scene\<close> and \<open>blend\<close> commands.
\<close>

section \<open>Arguments\<close>

abbreviation scene_usage :: golc_error where "scene_usage \<equiv> Code ''GOLC_SCENE_USAGE''"
abbreviation blend_usage :: golc_error where "blend_usage \<equiv> Code ''GOLC_BLEND_USAGE''"
abbreviation programmer_usage :: golc_error where "programmer_usage \<equiv> Code ''GOLC_PROGRAMMER_USAGE''"
abbreviation selection_usage :: golc_error where "selection_usage \<equiv> Code ''GOLC_SELECTION_USAGE''"

definition parseFixtureRef :: "Host \<Rightarrow> string \<Rightarrow> FixtureRef result" where
  "parseFixtureRef h raw =
     (case SplitN CHR ''|'' 2 raw of
        [rawPool, rawMember] \<Rightarrow>
          if rawPool = [] \<or> rawMember = [] then Inl selection_usage
          else (case (host_uuid_parse h rawPool, host_uuid_parse h rawMember) of
              (Some poolID, Some poolMemberID) \<Rightarrow> Inr \<lparr>fref_PoolID = poolID, fref_PoolMemberID = poolMemberID\<rparr>
            | _ \<Rightarrow> Inl selection_usage)
      | _ \<Rightarrow> Inl selection_usage)"

definition fixtureFlag :: "Host \<Rightarrow> (FixtureRef \<Rightarrow> 'a \<Rightarrow> 'a) \<Rightarrow> string \<Rightarrow> 'a \<Rightarrow> 'a result" where
  "fixtureFlag h f v acc = bind_res (parseFixtureRef h v) (\<lambda>r. Inr (f r acc))"

text \<open>The parsed arguments: raw bars and show path.\<close>
definition sceneCreateFlag :: "string \<Rightarrow> (string \<Rightarrow> string \<times> string \<Rightarrow> (string \<times> string) result) option" where
  "sceneCreateFlag flag =
     (if flag = ''--bars'' then Some (\<lambda>v (_, showPath). Inr (v, showPath))
      else if flag = ''--show'' then Some (\<lambda>v (rawBars, _). Inr (rawBars, v))
      else None)"

definition parseSceneCreateArgs :: "string list \<Rightarrow> (string \<times> int \<times> string) result" where
  "parseSceneCreateArgs args =
     (case args of
        [] \<Rightarrow> Inl scene_usage
      | name # rest \<Rightarrow>
          if HasPrefix name ''-'' then Inl scene_usage
          else bind_res (parse_flags scene_usage sceneCreateFlag no_switches rest ([], [])) (\<lambda>(rawBars, showPath).
            if rawBars = [] \<or> showPath = [] then Inl scene_usage
            else (case ParseInt rawBars of None \<Rightarrow> Inl scene_usage | Some bars \<Rightarrow> Inr (name, bars, showPath))))"

definition parseSceneNameShowArgs :: "string list \<Rightarrow> (string \<times> string) result" where
  "parseSceneNameShowArgs = parseDomainNameShowArgs ''GOLC_SCENE_USAGE''"

record sceneLayerSetArgs =
  ls_sceneName :: string
  ls_kind :: string
  ls_ref :: uuid
  ls_instances :: "uuid list"
  ls_hasInstances :: bool
  ls_pools :: "uuid list"
  ls_hasPools :: bool
  ls_groups :: "uuid list"
  ls_hasGroups :: bool
  ls_fixtureRefs :: "FixtureRef list"
  ls_hasFixtures :: bool
  ls_disable :: bool
  ls_showPath :: string

definition sceneLayerSetFlag :: "Host \<Rightarrow> string \<Rightarrow> (string \<Rightarrow> sceneLayerSetArgs \<Rightarrow> sceneLayerSetArgs result) option" where
  "sceneLayerSetFlag h flag =
     (if flag = ''--kind'' then Some (\<lambda>v a. Inr (a\<lparr>ls_kind := v\<rparr>))
      else if flag = ''--ref'' then Some (uuidFlag programmer_usage h (\<lambda>i a. a\<lparr>ls_ref := i\<rparr>))
      else if flag = ''--instance'' then
        Some (uuidFlag programmer_usage h (\<lambda>i a. a\<lparr>ls_instances := ls_instances a @ [i], ls_hasInstances := True\<rparr>))
      else if flag = ''--pool'' then Some (uuidFlag programmer_usage h (\<lambda>i a. a\<lparr>ls_pools := ls_pools a @ [i], ls_hasPools := True\<rparr>))
      else if flag = ''--group'' then Some (uuidFlag programmer_usage h (\<lambda>i a. a\<lparr>ls_groups := ls_groups a @ [i], ls_hasGroups := True\<rparr>))
      else if flag = ''--fixture'' then Some (fixtureFlag h (\<lambda>r a. a\<lparr>ls_fixtureRefs := ls_fixtureRefs a @ [r], ls_hasFixtures := True\<rparr>))
      else if flag = ''--show'' then Some (\<lambda>v a. Inr (a\<lparr>ls_showPath := v\<rparr>))
      else None)"

definition sceneLayerSetSwitch :: "string \<Rightarrow> (sceneLayerSetArgs \<Rightarrow> sceneLayerSetArgs) option" where
  "sceneLayerSetSwitch flag = (if flag = ''--disable'' then Some (\<lambda>a. a\<lparr>ls_disable := True\<rparr>) else None)"

definition parseSceneLayerSetArgs :: "Host \<Rightarrow> string list \<Rightarrow> sceneLayerSetArgs result" where
  "parseSceneLayerSetArgs h args =
     (case args of
        [] \<Rightarrow> Inl scene_usage
      | name # rest \<Rightarrow>
          if HasPrefix name ''-'' then Inl scene_usage
          else bind_res (parse_flags scene_usage (sceneLayerSetFlag h) sceneLayerSetSwitch rest
              \<lparr>ls_sceneName = name, ls_kind = [], ls_ref = uuid_nil, ls_instances = [], ls_hasInstances = False, ls_pools = [],
               ls_hasPools = False, ls_groups = [], ls_hasGroups = False, ls_fixtureRefs = [], ls_hasFixtures = False,
               ls_disable = False, ls_showPath = []\<rparr>)
            (\<lambda>parsed. if ls_kind parsed = [] \<or> ls_showPath parsed = [] then Inl scene_usage else Inr parsed))"

definition orderFlag :: "string \<Rightarrow> (string \<Rightarrow> string \<times> string \<Rightarrow> (string \<times> string) result) option" where
  "orderFlag flag =
     (if flag = ''--order'' then Some (\<lambda>v (_, showPath). Inr (v, showPath))
      else if flag = ''--show'' then Some (\<lambda>v (rawOrder, _). Inr (rawOrder, v))
      else None)"

text \<open>\<open>--order\<close> and \<open>--show\<close>, both required, as \<open>scene reorder\<close> and \<open>chase reorder\<close> take them.\<close>
definition parseOrderArgs :: "golc_error \<Rightarrow> string list \<Rightarrow> (int list \<times> string) result" where
  "parseOrderArgs err args =
     bind_res (parse_flags err orderFlag no_switches args ([], [])) (\<lambda>(rawOrder, showPath).
       if rawOrder = [] \<or> showPath = [] then Inl err
       else bind_res (parseOrder err (Split CHR '','' rawOrder)) (\<lambda>order. Inr (order, showPath)))"

definition parseSceneReorderArgs :: "string list \<Rightarrow> (int list \<times> string) result" where
  "parseSceneReorderArgs = parseOrderArgs scene_usage"

text \<open>Raw duration, curve and show path.\<close>
definition blendCreateFlag :: "string \<Rightarrow> (string \<Rightarrow> string \<times> string \<times> string \<Rightarrow> (string \<times> string \<times> string) result) option" where
  "blendCreateFlag flag =
     (if flag = ''--duration-bars'' then Some (\<lambda>v (_, curve, showPath). Inr (v, curve, showPath))
      else if flag = ''--curve'' then Some (\<lambda>v (raw, _, showPath). Inr (raw, v, showPath))
      else if flag = ''--show'' then Some (\<lambda>v (raw, curve, _). Inr (raw, curve, v))
      else None)"

definition parseBlendCreateArgs :: "Host \<Rightarrow> string list \<Rightarrow> (string \<times> f64 \<times> string \<times> string) result" where
  "parseBlendCreateArgs h args =
     (case args of
        [] \<Rightarrow> Inl blend_usage
      | name # rest \<Rightarrow>
          if HasPrefix name ''-'' then Inl blend_usage
          else bind_res (parse_flags blend_usage blendCreateFlag no_switches rest ([], ''linear'', [])) (\<lambda>(raw, curve, showPath).
            if raw = [] \<or> showPath = [] then Inl blend_usage
            else (case host_parse_float h raw of None \<Rightarrow> Inl blend_usage | Some d \<Rightarrow> Inr (name, d, curve, showPath))))"

section \<open>Handlers\<close>

definition sceneByName :: "Scene list \<Rightarrow> string \<Rightarrow> (Scene \<times> nat) option" where
  "sceneByName = named_at scene_Name"

definition blendByName :: "BlendPreset list \<Rightarrow> string \<Rightarrow> (BlendPreset \<times> nat) option" where
  "blendByName = named_at blend_Name"

abbreviation sceneKind :: "Scene Kind" where
  "sceneKind \<equiv> \<lparr>kd_Name = scene_Name, kd_ID = scene_ID, kd_get = st_Scenes, kd_put = (\<lambda>xs s. s\<lparr>st_Scenes := xs\<rparr>)\<rparr>"

abbreviation blendKind :: "BlendPreset Kind" where
  "blendKind \<equiv> \<lparr>kd_Name = blend_Name, kd_ID = blend_ID, kd_get = st_BlendPresets, kd_put = (\<lambda>xs s. s\<lparr>st_BlendPresets := xs\<rparr>)\<rparr>"

definition runSceneCreate :: "Host \<Rightarrow> World CommandHandler" where
  "runSceneCreate h request w =
     (case parseSceneCreateArgs (rq_Args request) of
        Inl e \<Rightarrow> malformed h e w
      | Inr (name, bars, showPath) \<Rightarrow>
          edit_show h (rq_Root request) showPath (\<lambda>state.
            bind_res (NewScene (host_mint h 0) name bars) (\<lambda>newScene.
              Inr (state\<lparr>st_Scenes := st_Scenes state @ [newScene]\<rparr>,
                   told h ''GOLC_SCENE_CREATED'' (scene_Name newScene) (scene_ID newScene)))) w)"

definition runSceneActivate :: "Host \<Rightarrow> World CommandHandler" where
  "runSceneActivate h request w =
     (case parseSceneNameShowArgs (rq_Args request) of
        Inl e \<Rightarrow> malformed h e w
      | Inr (name, showPath) \<Rightarrow>
          edit_show h (rq_Root request) showPath (\<lambda>state.
            bind_res (ActivateScene (st_Scenes state) name) (\<lambda>activated.
              Inr (state\<lparr>st_Scenes := activated\<rparr>, ''GOLC_SCENE_ACTIVATED: '' @ name @ newline))) w)"

text \<open>A selector kind that the invocation does not mention keeps the value of the existing layer.\<close>
definition layerSelection :: "Scene \<Rightarrow> sceneLayerSetArgs \<Rightarrow> Selection" where
  "layerSelection target parsed =
     (case LayerByKind target (ls_kind parsed) of
        Some existing \<Rightarrow>
          \<lparr>sel_PoolIDs = if ls_hasPools parsed then ls_pools parsed else sel_PoolIDs (layer_Selection existing),
           sel_GroupIDs = if ls_hasGroups parsed then ls_groups parsed else sel_GroupIDs (layer_Selection existing),
           sel_InstanceIDs = if ls_hasInstances parsed then ls_instances parsed else sel_InstanceIDs (layer_Selection existing),
           sel_FixtureRefs = if ls_hasFixtures parsed then ls_fixtureRefs parsed else sel_FixtureRefs (layer_Selection existing)\<rparr>
      | None \<Rightarrow> \<lparr>sel_PoolIDs = ls_pools parsed, sel_GroupIDs = ls_groups parsed, sel_InstanceIDs = ls_instances parsed,
                 sel_FixtureRefs = ls_fixtureRefs parsed\<rparr>)"

definition setSceneLayer :: "sceneLayerSetArgs \<Rightarrow> State \<Rightarrow> (State \<times> string) result" where
  "setSceneLayer parsed state =
     (case sceneByName (st_Scenes state) (ls_sceneName parsed) of
        None \<Rightarrow> Inl (Code ''GOLC_SCENE_NOT_FOUND'')
      | Some (targetScene, index) \<Rightarrow>
          let layer = \<lparr>layer_Kind = ls_kind parsed, layer_Enabled = \<not> ls_disable parsed,
                       layer_Selection = layerSelection targetScene parsed, layer_Ref = ls_ref parsed\<rparr> in
          bind_res (SetLayer targetScene layer) (\<lambda>updatedScene.
            Inr (state\<lparr>st_Scenes := (st_Scenes state)[index := updatedScene]\<rparr>,
                 ''GOLC_SCENE_LAYER_SET: scene='' @ scene_Name updatedScene @ '' kind='' @ layer_Kind layer @ '' enabled='' @
                 (if layer_Enabled layer then ''true'' else ''false'') @ newline)))"

definition runSceneLayerSet :: "Host \<Rightarrow> World CommandHandler" where
  "runSceneLayerSet h request w =
     (case parseSceneLayerSetArgs h (rq_Args request) of
        Inl e \<Rightarrow> malformed h e w
      | Inr parsed \<Rightarrow> edit_show h (rq_Root request) (ls_showPath parsed) (setSceneLayer parsed) w)"

definition reorderScenes :: "Scene list \<Rightarrow> int list \<Rightarrow> Scene list result" where
  "reorderScenes = reorder scene_usage"

text \<open>An order that is no permutation is a usage error, found only after the show is loaded.\<close>
definition runSceneReorder :: "Host \<Rightarrow> World CommandHandler" where
  "runSceneReorder h request w =
     (case parseSceneReorderArgs (rq_Args request) of
        Inl e \<Rightarrow> malformed h e w
      | Inr (order, showPath) \<Rightarrow>
          read_show h (rq_Root request) showPath (\<lambda>state w1.
            case reorderScenes (st_Scenes state) order of
              Inl e \<Rightarrow> malformed h e w1
            | Inr reordered \<Rightarrow>
                save_result h (rq_Root request) showPath (state\<lparr>st_Scenes := reordered\<rparr>)
                  (''GOLC_SCENE_REORDERED: '' @ itoa (int (length reordered)) @ '' scene(s)'' @ newline) w1) w)"

definition runBlendCreate :: "Host \<Rightarrow> World CommandHandler" where
  "runBlendCreate h request w =
     (case parseBlendCreateArgs h (rq_Args request) of
        Inl e \<Rightarrow> malformed h e w
      | Inr (name, durationBars, curve, showPath) \<Rightarrow>
          edit_show h (rq_Root request) showPath (\<lambda>state.
            bind_res (NewBlendPreset (host_mint h 0) name durationBars curve) (\<lambda>newBlend.
              Inr (state\<lparr>st_BlendPresets := st_BlendPresets state @ [newBlend]\<rparr>,
                   told h ''GOLC_BLEND_PRESET_CREATED'' (blend_Name newBlend) (blend_ID newBlend)))) w)"

definition runBlendRename :: "Host \<Rightarrow> World CommandHandler" where
  "runBlendRename h = renameObject h blendKind ''GOLC_BLEND_USAGE'' ''GOLC_BLEND_PRESET_NOT_FOUND'' ''GOLC_BLEND_PRESET_RENAMED'' RenameBlendPreset"

definition runBlendDelete :: "Host \<Rightarrow> World CommandHandler" where
  "runBlendDelete h = deleteObject h blendKind ''GOLC_BLEND_USAGE'' ''GOLC_BLEND_PRESET_NOT_FOUND'' ''GOLC_BLEND_PRESET_DELETED'' (\<lambda>_ s. s)"

definition sceneScopes :: "ScopeRegistration list" where
  "sceneScopes =
     [\<lparr>sr_Scope = ''scene'', sr_Summary = ''Bar-loop scenes combining independently enabled base-look/color-theme/chase/motion layers by fixed priority (SCEN-01/SCEN-04/SCEN-05).''\<rparr>,
      \<lparr>sr_Scope = ''blend'', sr_Summary = ''Reusable blend presets describing transitions between scene/layer states (SCEN-07).''\<rparr>]"

definition sceneHandlers :: "Host \<Rightarrow> (string \<times> World CommandHandler) list" where
  "sceneHandlers h =
     [(''scene create'', runSceneCreate h), (''scene activate'', runSceneActivate h), (''scene layer set'', runSceneLayerSet h),
      (''scene reorder'', runSceneReorder h), (''blend create'', runBlendCreate h), (''blend rename'', runBlendRename h),
      (''blend delete'', runBlendDelete h)]"

section \<open>What the commands do\<close>

lemma scene_edits [edits]:
  assumes "round_trips (host_env h)"
  shows "one_edit (host_env h) w (runSceneCreate h request w)" "one_edit (host_env h) w (runSceneActivate h request w)"
    "one_edit (host_env h) w (runSceneLayerSet h request w)" "one_edit (host_env h) w (runBlendCreate h request w)"
    "one_edit (host_env h) w (runBlendRename h request w)" "one_edit (host_env h) w (runBlendDelete h request w)"
  unfolding runSceneCreate_def runSceneActivate_def runSceneLayerSet_def runBlendCreate_def runBlendRename_def runBlendDelete_def
  by (auto intro!: one_edit_edit_show [OF assms] object_edits [OF assms] simp: bind_res_Inr_iff setSceneLayer_def Let_def
      split: sum.split option.splits)

lemma reorder_edits [edits]:
  assumes "round_trips (host_env h)"
  shows "one_edit (host_env h) w (runSceneReorder h request w)"
  unfolding runSceneReorder_def
  by (auto intro!: one_edit_read_show [OF assms] saves_or_reports.saves split: sum.split)

end
