(* ===== verification/CommandProgramming.thy ===== *)
theory CommandProgramming
  imports CommandScene
begin

text \<open>
  \<open>src/internal/command/programming.go\<close>: the commands on the programmer buffer and on themes, presets, chases,
  motion presets and scenes.
\<close>

section \<open>programmer\<close>

abbreviation SourceManual :: AttributeSource where "SourceManual \<equiv> ''manual''"

record attrAssignment =
  aa_Capability :: CapabilityType
  aa_Value :: f64

record programmerSetArgs =
  pg_instances :: "uuid list"
  pg_pools :: "uuid list"
  pg_groups :: "uuid list"
  pg_fixtureRefs :: "FixtureRef list"
  pg_attrs :: "attrAssignment list"
  pg_showPath :: string

definition parseAttrAssignment :: "Host \<Rightarrow> string \<Rightarrow> attrAssignment result" where
  "parseAttrAssignment h raw =
     (case SplitN CHR ''='' 2 raw of
        [capability, rawValue] \<Rightarrow>
          if capability = [] \<or> rawValue = [] then Inl programmer_usage
          else (case host_parse_float h rawValue of
              None \<Rightarrow> Inl programmer_usage
            | Some v \<Rightarrow> Inr \<lparr>aa_Capability = capability, aa_Value = v\<rparr>)
      | _ \<Rightarrow> Inl programmer_usage)"

definition programmerSetFlag :: "Host \<Rightarrow> string \<Rightarrow> (string \<Rightarrow> programmerSetArgs \<Rightarrow> programmerSetArgs result) option" where
  "programmerSetFlag h flag =
     (if flag = ''--instance'' then Some (uuidFlag programmer_usage h (\<lambda>i a. a\<lparr>pg_instances := pg_instances a @ [i]\<rparr>))
      else if flag = ''--pool'' then Some (uuidFlag programmer_usage h (\<lambda>i a. a\<lparr>pg_pools := pg_pools a @ [i]\<rparr>))
      else if flag = ''--group'' then Some (uuidFlag programmer_usage h (\<lambda>i a. a\<lparr>pg_groups := pg_groups a @ [i]\<rparr>))
      else if flag = ''--fixture'' then Some (fixtureFlag h (\<lambda>r a. a\<lparr>pg_fixtureRefs := pg_fixtureRefs a @ [r]\<rparr>))
      else if flag = ''--attr'' then
        Some (\<lambda>v a. bind_res (parseAttrAssignment h v) (\<lambda>attr. Inr (a\<lparr>pg_attrs := pg_attrs a @ [attr]\<rparr>)))
      else if flag = ''--show'' then Some (\<lambda>v a. Inr (a\<lparr>pg_showPath := v\<rparr>))
      else None)"

definition parseProgrammerSetArgs :: "Host \<Rightarrow> string list \<Rightarrow> programmerSetArgs result" where
  "parseProgrammerSetArgs h args =
     bind_res (parse_flags programmer_usage (programmerSetFlag h) no_switches args
         \<lparr>pg_instances = [], pg_pools = [], pg_groups = [], pg_fixtureRefs = [], pg_attrs = [], pg_showPath = []\<rparr>)
       (\<lambda>parsed. if pg_showPath parsed = [] \<or> pg_attrs parsed = [] then Inl programmer_usage else Inr parsed)"

definition parseProgrammerShowOnlyArgs :: "string list \<Rightarrow> string result" where
  "parseProgrammerShowOnlyArgs = parseShowOnlyArgs ''GOLC_PROGRAMMER_USAGE''"

text \<open>The two nested loops, instance by instance and attribute by attribute.\<close>
fun setAttributes :: "(uuid \<times> attrAssignment) list \<Rightarrow> ProgrammerState \<Rightarrow> ProgrammerState result" where
  "setAttributes [] ps = Inr ps"
| "setAttributes ((instanceID, attr) # rest) ps =
     (case SetAttribute ps instanceID (aa_Capability attr) (aa_Value attr) SourceManual of
        (Some e, _) \<Rightarrow> Inl e
      | (None, ps') \<Rightarrow> setAttributes rest ps')"

definition setProgrammer :: "programmerSetArgs \<Rightarrow> State \<Rightarrow> (State \<times> string) result" where
  "setProgrammer parsed state =
     bind_res (Resolve (st_Pools state) (st_Groups state) (st_Deployments state)
         \<lparr>sel_PoolIDs = pg_pools parsed, sel_GroupIDs = pg_groups parsed, sel_InstanceIDs = pg_instances parsed,
          sel_FixtureRefs = pg_fixtureRefs parsed\<rparr>)
       (\<lambda>resolved.
         let ps = (case st_Programmer state of None \<Rightarrow> NewProgrammerState | Some ps \<Rightarrow> ps) in
         bind_res (setAttributes [(res_InstanceID r, attr). r \<leftarrow> resolved, attr \<leftarrow> pg_attrs parsed] ps) (\<lambda>ps'.
           Inr (state\<lparr>st_Programmer := Some ps'\<rparr>,
                ''GOLC_PROGRAMMER_SET: instances='' @ itoa (int (length resolved)) @ '' attributes='' @
                itoa (int (length (pg_attrs parsed))) @ newline)))"

definition runProgrammerSet :: "Host \<Rightarrow> World CommandHandler" where
  "runProgrammerSet h request w =
     (case parseProgrammerSetArgs h (rq_Args request) of
        Inl e \<Rightarrow> malformed h e w
      | Inr parsed \<Rightarrow> edit_show h (rq_Root request) (pg_showPath parsed) (setProgrammer parsed) w)"

definition touchedLine :: "Host \<Rightarrow> TouchedAttribute \<Rightarrow> string" where
  "touchedLine h t =
     ''GOLC_PROGRAMMER_TOUCHED: instance='' @ env_uuid_str (host_env h) (touched_InstanceID t) @ '' capability='' @ touched_Capability t @
     '' value='' @ host_float_text h (touched_Value t) @ '' source='' @ touched_Source t @ newline"

definition runProgrammerInspect :: "Host \<Rightarrow> World CommandHandler" where
  "runProgrammerInspect h request w =
     (case parseProgrammerShowOnlyArgs (rq_Args request) of
        Inl e \<Rightarrow> malformed h e w
      | Inr showPath \<Rightarrow>
          read_show h (rq_Root request) showPath (\<lambda>state w1.
            succeed (concat (map (touchedLine h) (case st_Programmer state of None \<Rightarrow> [] | Some ps \<Rightarrow> Touched ps))) w1) w)"

definition runProgrammerClear :: "Host \<Rightarrow> World CommandHandler" where
  "runProgrammerClear h request w =
     (case parseProgrammerShowOnlyArgs (rq_Args request) of
        Inl e \<Rightarrow> malformed h e w
      | Inr showPath \<Rightarrow>
          edit_show h (rq_Root request) showPath (\<lambda>state.
            Inr (state\<lparr>st_Programmer := Some (case st_Programmer state of None \<Rightarrow> NewProgrammerState | Some ps \<Rightarrow> Clear ps)\<rparr>,
                 ''GOLC_PROGRAMMER_CLEARED'' @ newline)) w)"

section \<open>Themes, presets and motion presets\<close>

abbreviation themeKind :: "Theme Kind" where
  "themeKind \<equiv> \<lparr>kd_Name = theme_Name, kd_ID = theme_ID, kd_get = st_Themes, kd_put = (\<lambda>xs s. s\<lparr>st_Themes := xs\<rparr>)\<rparr>"
abbreviation presetKind :: "Preset Kind" where
  "presetKind \<equiv> \<lparr>kd_Name = preset_Name, kd_ID = preset_ID, kd_get = st_Presets, kd_put = (\<lambda>xs s. s\<lparr>st_Presets := xs\<rparr>)\<rparr>"
abbreviation chaseKind :: "Chase Kind" where
  "chaseKind \<equiv> \<lparr>kd_Name = chase_Name, kd_ID = chase_ID, kd_get = st_Chases, kd_put = (\<lambda>xs s. s\<lparr>st_Chases := xs\<rparr>)\<rparr>"
abbreviation motionKind :: "MotionPreset Kind" where
  "motionKind \<equiv> \<lparr>kd_Name = motion_Name, kd_ID = motion_ID, kd_get = st_MotionPresets, kd_put = (\<lambda>xs s. s\<lparr>st_MotionPresets := xs\<rparr>)\<rparr>"

definition themeByName :: "Theme list \<Rightarrow> string \<Rightarrow> (Theme \<times> nat) option" where "themeByName = named_at theme_Name"
definition presetByName :: "Preset list \<Rightarrow> string \<Rightarrow> (Preset \<times> nat) option" where "presetByName = named_at preset_Name"
definition chaseByName :: "Chase list \<Rightarrow> string \<Rightarrow> (Chase \<times> nat) option" where "chaseByName = named_at chase_Name"
definition motionByName :: "MotionPreset list \<Rightarrow> string \<Rightarrow> (MotionPreset \<times> nat) option" where "motionByName = named_at motion_Name"

text \<open>A deleted object is detached from the layers that play it.\<close>
definition detachLayers :: "LayerKind \<Rightarrow> uuid \<Rightarrow> State \<Rightarrow> State" where
  "detachLayers kind i state = state\<lparr>st_Scenes := ScrubLayerRef (st_Scenes state) kind i\<rparr>"

definition parseThemeCreateArgs :: "string list \<Rightarrow> (string \<times> string) result" where
  "parseThemeCreateArgs = parseDomainNameShowArgs ''GOLC_THEME_USAGE''"

definition runThemeCreate :: "Host \<Rightarrow> World CommandHandler" where
  "runThemeCreate h = createObject h themeKind parseThemeCreateArgs ''GOLC_THEME_CREATED'' (NewTheme (host_mint h 0))"

definition runThemeRename :: "Host \<Rightarrow> World CommandHandler" where
  "runThemeRename h = renameObject h themeKind ''GOLC_THEME_USAGE'' ''GOLC_THEME_NOT_FOUND'' ''GOLC_THEME_RENAMED'' RenameTheme"

definition runThemeDelete :: "Host \<Rightarrow> World CommandHandler" where
  "runThemeDelete h = deleteObject h themeKind ''GOLC_THEME_USAGE'' ''GOLC_THEME_NOT_FOUND'' ''GOLC_THEME_DELETED'' (detachLayers ColorThemeLayer)"

text \<open>Raw kind and show path.\<close>
definition presetRecordFlag :: "string \<Rightarrow> (string \<Rightarrow> string \<times> string \<Rightarrow> (string \<times> string) result) option" where
  "presetRecordFlag flag =
     (if flag = ''--kind'' then Some (\<lambda>v (_, showPath). Inr (v, showPath))
      else if flag = ''--show'' then Some (\<lambda>v (rawKind, _). Inr (rawKind, v))
      else None)"

definition parsePresetRecordArgs :: "string list \<Rightarrow> (string \<times> PresetKind \<times> string) result" where
  "parsePresetRecordArgs args =
     (let err = Code ''GOLC_PRESET_USAGE'' in
      case args of
        [] \<Rightarrow> Inl err
      | name # rest \<Rightarrow>
          if HasPrefix name ''-'' then Inl err
          else bind_res (parse_flags err presetRecordFlag no_switches rest ([], [])) (\<lambda>(rawKind, showPath).
            if rawKind = [] \<or> showPath = [] then Inl err else Inr (name, rawKind, showPath)))"

definition runPresetRecord :: "Host \<Rightarrow> World CommandHandler" where
  "runPresetRecord h request w =
     (case parsePresetRecordArgs (rq_Args request) of
        Inl e \<Rightarrow> malformed h e w
      | Inr (name, kind, showPath) \<Rightarrow>
          edit_show h (rq_Root request) showPath (\<lambda>state.
            let ps = (case st_Programmer state of None \<Rightarrow> \<lparr>ps_Attributes = []\<rparr> | Some ps \<Rightarrow> ps) in
            bind_res (RecordPresetFromProgrammer (host_mint h 0) ps kind name) (\<lambda>newPreset.
              Inr (state\<lparr>st_Presets := st_Presets state @ [newPreset]\<rparr>,
                   ''GOLC_PRESET_RECORDED: '' @ preset_Name newPreset @ '' ('' @ env_uuid_str (host_env h) (preset_ID newPreset) @ '') kind='' @
                   preset_Kind newPreset @ '' attributes='' @ itoa (int (length (preset_Attributes newPreset))) @ newline))) w)"

definition runPresetRename :: "Host \<Rightarrow> World CommandHandler" where
  "runPresetRename h = renameObject h presetKind ''GOLC_PRESET_USAGE'' ''GOLC_PRESET_NOT_FOUND'' ''GOLC_PRESET_RENAMED'' RenamePreset"

definition runPresetDelete :: "Host \<Rightarrow> World CommandHandler" where
  "runPresetDelete h = deleteObject h presetKind ''GOLC_PRESET_USAGE'' ''GOLC_PRESET_NOT_FOUND'' ''GOLC_PRESET_DELETED'' (detachLayers BaseLook)"

definition parseMotionCreateArgs :: "string list \<Rightarrow> (string \<times> string) result" where
  "parseMotionCreateArgs = parseDomainNameShowArgs ''GOLC_MOTION_USAGE''"

definition runMotionCreate :: "Host \<Rightarrow> World CommandHandler" where
  "runMotionCreate h = createObject h motionKind parseMotionCreateArgs ''GOLC_MOTION_PRESET_CREATED'' (\<lambda>name. NewMotionPreset (host_mint h 0) name [])"

definition runMotionRename :: "Host \<Rightarrow> World CommandHandler" where
  "runMotionRename h = renameObject h motionKind ''GOLC_MOTION_USAGE'' ''GOLC_MOTION_PRESET_NOT_FOUND'' ''GOLC_MOTION_PRESET_RENAMED'' RenameMotionPreset"

definition runMotionDuplicate :: "Host \<Rightarrow> World CommandHandler" where
  "runMotionDuplicate h = duplicateObject h motionKind ''GOLC_MOTION_USAGE'' ''GOLC_MOTION_PRESET_NOT_FOUND'' ''GOLC_MOTION_PRESET_DUPLICATED''
     (\<lambda>newName source. NewMotionPreset (host_mint h 0) newName (motion_Keyframes source))"

definition runMotionDelete :: "Host \<Rightarrow> World CommandHandler" where
  "runMotionDelete h = deleteObject h motionKind ''GOLC_MOTION_USAGE'' ''GOLC_MOTION_PRESET_NOT_FOUND'' ''GOLC_MOTION_PRESET_DELETED'' (detachLayers MotionLayer)"

section \<open>Chases\<close>

abbreviation chase_usage :: golc_error where "chase_usage \<equiv> Code ''GOLC_CHASE_USAGE''"

text \<open>Raw unit, raw step duration and show path.\<close>
definition chaseCreateFlag :: "string \<Rightarrow> (string \<Rightarrow> string \<times> string \<times> string \<Rightarrow> (string \<times> string \<times> string) result) option" where
  "chaseCreateFlag flag =
     (if flag = ''--unit'' then Some (\<lambda>v (_, d, showPath). Inr (v, d, showPath))
      else if flag = ''--step-duration'' then Some (\<lambda>v (u, _, showPath). Inr (u, v, showPath))
      else if flag = ''--show'' then Some (\<lambda>v (u, d, _). Inr (u, d, v))
      else None)"

definition parseChaseCreateArgs :: "Host \<Rightarrow> string list \<Rightarrow> (string \<times> StepUnit \<times> f64 \<times> string) result" where
  "parseChaseCreateArgs h args =
     (case args of
        [] \<Rightarrow> Inl chase_usage
      | name # rest \<Rightarrow>
          if HasPrefix name ''-'' then Inl chase_usage
          else bind_res (parse_flags chase_usage chaseCreateFlag no_switches rest ([], [], [])) (\<lambda>(rawUnit, rawDuration, showPath).
            if rawUnit = [] \<or> rawDuration = [] \<or> showPath = [] then Inl chase_usage
            else (case host_parse_float h rawDuration of
                None \<Rightarrow> Inl chase_usage
              | Some stepDuration \<Rightarrow> Inr (name, rawUnit, stepDuration, showPath))))"

definition runChaseCreate :: "Host \<Rightarrow> World CommandHandler" where
  "runChaseCreate h request w =
     (case parseChaseCreateArgs h (rq_Args request) of
        Inl e \<Rightarrow> malformed h e w
      | Inr (name, unit, stepDuration, showPath) \<Rightarrow>
          edit_show h (rq_Root request) showPath (\<lambda>state.
            bind_res (NewChase (host_mint h 0) name [] unit stepDuration) (\<lambda>newChase.
              Inr (state\<lparr>st_Chases := st_Chases state @ [newChase]\<rparr>,
                   told h ''GOLC_CHASE_CREATED'' (chase_Name newChase) (chase_ID newChase)))) w)"

record chaseUpdateArgs =
  cu_chaseName :: string
  cu_newName :: string
  cu_unit :: "StepUnit option"
  cu_stepDuration :: "f64 option"
  cu_showPath :: string

definition chaseUpdateFlag :: "Host \<Rightarrow> string \<Rightarrow> (string \<Rightarrow> chaseUpdateArgs \<Rightarrow> chaseUpdateArgs result) option" where
  "chaseUpdateFlag h flag =
     (if flag = ''--name'' then Some (\<lambda>v a. Inr (a\<lparr>cu_newName := v\<rparr>))
      else if flag = ''--unit'' then Some (\<lambda>v a. Inr (a\<lparr>cu_unit := Some v\<rparr>))
      else if flag = ''--step-duration'' then Some (floatFlag chase_usage h (\<lambda>x a. a\<lparr>cu_stepDuration := Some x\<rparr>))
      else if flag = ''--show'' then Some (\<lambda>v a. Inr (a\<lparr>cu_showPath := v\<rparr>))
      else None)"

definition parseChaseUpdateArgs :: "Host \<Rightarrow> string list \<Rightarrow> chaseUpdateArgs result" where
  "parseChaseUpdateArgs h args =
     (case args of
        [] \<Rightarrow> Inl chase_usage
      | name # rest \<Rightarrow>
          if HasPrefix name ''-'' then Inl chase_usage
          else bind_res (parse_flags chase_usage (chaseUpdateFlag h) no_switches rest
              \<lparr>cu_chaseName = name, cu_newName = [], cu_unit = None, cu_stepDuration = None, cu_showPath = []\<rparr>)
            (\<lambda>parsed.
              if cu_showPath parsed = [] then Inl chase_usage
              else if cu_newName parsed = [] \<and> cu_unit parsed = None \<and> cu_stepDuration parsed = None then Inl chase_usage
              else Inr parsed))"

definition updateChase :: "Host \<Rightarrow> chaseUpdateArgs \<Rightarrow> State \<Rightarrow> (State \<times> string) result" where
  "updateChase h parsed state =
     (case chaseByName (st_Chases state) (cu_chaseName parsed) of
        None \<Rightarrow> Inl (Code ''GOLC_CHASE_NOT_FOUND'')
      | Some (target, index) \<Rightarrow>
          bind_res (if cu_newName parsed \<noteq> [] then RenameChase target (cu_newName parsed) else Inr target) (\<lambda>renamed.
            let u1 = (case cu_unit parsed of None \<Rightarrow> renamed | Some u \<Rightarrow> renamed\<lparr>chase_StepUnit := u\<rparr>);
                updated = (case cu_stepDuration parsed of None \<Rightarrow> u1 | Some d \<Rightarrow> u1\<lparr>chase_StepDuration := d\<rparr>) in
            guard_err (ValidateChase updated)
              (Inr (state\<lparr>st_Chases := (st_Chases state)[index := updated]\<rparr>,
                    told h ''GOLC_CHASE_UPDATED'' (chase_Name updated) (chase_ID updated)))))"

definition runChaseUpdate :: "Host \<Rightarrow> World CommandHandler" where
  "runChaseUpdate h request w =
     (case parseChaseUpdateArgs h (rq_Args request) of
        Inl e \<Rightarrow> malformed h e w
      | Inr parsed \<Rightarrow> edit_show h (rq_Root request) (cu_showPath parsed) (updateChase h parsed) w)"

definition parseChaseReorderArgs :: "string list \<Rightarrow> (string \<times> int list \<times> string) result" where
  "parseChaseReorderArgs args =
     (case args of
        [] \<Rightarrow> Inl chase_usage
      | name # rest \<Rightarrow>
          if HasPrefix name ''-'' then Inl chase_usage
          else bind_res (parseOrderArgs chase_usage rest) (\<lambda>(order, showPath). Inr (name, order, showPath)))"

definition reorderChaseSteps :: "Chase \<Rightarrow> int list \<Rightarrow> Chase result" where
  "reorderChaseSteps c order = bind_res (reorder chase_usage (chase_Steps c) order) (\<lambda>reordered. Inr (c\<lparr>chase_Steps := reordered\<rparr>))"

definition runChaseReorder :: "Host \<Rightarrow> World CommandHandler" where
  "runChaseReorder h request w =
     (case parseChaseReorderArgs (rq_Args request) of
        Inl e \<Rightarrow> malformed h e w
      | Inr (name, order, showPath) \<Rightarrow>
          read_show h (rq_Root request) showPath (\<lambda>state w1.
            case chaseByName (st_Chases state) name of
              None \<Rightarrow> fail h (Code ''GOLC_CHASE_NOT_FOUND'') w1
            | Some (target, index) \<Rightarrow>
                (case reorderChaseSteps target order of
                   Inl e \<Rightarrow> malformed h e w1
                 | Inr reordered \<Rightarrow>
                     save_result h (rq_Root request) showPath (state\<lparr>st_Chases := (st_Chases state)[index := reordered]\<rparr>)
                       (''GOLC_CHASE_REORDERED: '' @ chase_Name reordered @ '' ('' @ env_uuid_str (host_env h) (chase_ID reordered) @
                        '') steps='' @ itoa (int (length (chase_Steps reordered))) @ newline) w1)) w)"

definition runChaseDuplicate :: "Host \<Rightarrow> World CommandHandler" where
  "runChaseDuplicate h = duplicateObject h chaseKind ''GOLC_CHASE_USAGE'' ''GOLC_CHASE_NOT_FOUND'' ''GOLC_CHASE_DUPLICATED''
     (\<lambda>newName source. NewChase (host_mint h 0) newName (chase_Steps source) (chase_StepUnit source) (chase_StepDuration source))"

definition runChaseDelete :: "Host \<Rightarrow> World CommandHandler" where
  "runChaseDelete h = deleteObject h chaseKind ''GOLC_CHASE_USAGE'' ''GOLC_CHASE_NOT_FOUND'' ''GOLC_CHASE_DELETED'' (detachLayers ChaseLayer)"

section \<open>Scenes\<close>

definition runSceneRename :: "Host \<Rightarrow> World CommandHandler" where
  "runSceneRename h = renameObject h sceneKind ''GOLC_SCENE_USAGE'' ''GOLC_SCENE_NOT_FOUND'' ''GOLC_SCENE_RENAMED'' RenameScene"

text \<open>The copy is inactive, whatever the source is.\<close>
definition runSceneDuplicate :: "Host \<Rightarrow> World CommandHandler" where
  "runSceneDuplicate h = duplicateObject h sceneKind ''GOLC_SCENE_USAGE'' ''GOLC_SCENE_NOT_FOUND'' ''GOLC_SCENE_DUPLICATED''
     (\<lambda>newName source. bind_res (NewScene (host_mint h 0) newName (scene_BarsPerLoop source)) (\<lambda>duplicate.
        Inr (duplicate\<lparr>scene_PreservePosition := scene_PreservePosition source, scene_Layers := scene_Layers source\<rparr>)))"

definition runSceneDelete :: "Host \<Rightarrow> World CommandHandler" where
  "runSceneDelete h = deleteObject h sceneKind ''GOLC_SCENE_USAGE'' ''GOLC_SCENE_NOT_FOUND'' ''GOLC_SCENE_DELETED''
     (\<lambda>i state. state\<lparr>st_OperatorSurfaces := ScrubSceneReferences (st_OperatorSurfaces state) i\<rparr>)"

definition programmingScopes :: "ScopeRegistration list" where
  "programmingScopes = map (\<lambda>(scope, summary). \<lparr>sr_Scope = scope, sr_Summary = summary\<rparr>)
     [(''programmer'', ''Fixture selection, semantic attribute editing, and touched-attribute inspection on a ShowState document's Programmer buffer.''),
      (''theme'', ''Reusable named color themes captured from a show author's programming (PROG-04).''),
      (''preset'', ''Reusable intensity/color/position/beam presets recorded from the Programmer buffer (PROG-04).''),
      (''chase'', ''Reusable chases with ordered, tempo-relative steps (PROG-05).''),
      (''motion'', ''Reusable motion presets scoped strictly to position/beam semantic capabilities (PROG-06, D-04).'')]"

definition programmingHandlers :: "Host \<Rightarrow> (string \<times> World CommandHandler) list" where
  "programmingHandlers h =
     [(''programmer set'', runProgrammerSet h), (''programmer inspect'', runProgrammerInspect h), (''programmer clear'', runProgrammerClear h),
      (''theme create'', runThemeCreate h), (''preset record'', runPresetRecord h), (''chase create'', runChaseCreate h),
      (''motion create'', runMotionCreate h), (''theme rename'', runThemeRename h), (''theme delete'', runThemeDelete h),
      (''preset rename'', runPresetRename h), (''preset delete'', runPresetDelete h), (''chase update'', runChaseUpdate h),
      (''chase reorder'', runChaseReorder h), (''chase duplicate'', runChaseDuplicate h), (''chase delete'', runChaseDelete h),
      (''motion rename'', runMotionRename h), (''motion duplicate'', runMotionDuplicate h), (''motion delete'', runMotionDelete h),
      (''scene rename'', runSceneRename h), (''scene duplicate'', runSceneDuplicate h), (''scene delete'', runSceneDelete h)]"

section \<open>What the commands do\<close>

lemma detachLayers_revision [simp]: "st_Revision (detachLayers kind i s) = st_Revision s" by (simp add: detachLayers_def)

lemma programmer_edits [edits]:
  assumes "round_trips (host_env h)"
  shows "one_edit (host_env h) w (runProgrammerSet h request w)" "one_edit (host_env h) w (runProgrammerClear h request w)"
    "one_edit (host_env h) w (runProgrammerInspect h request w)" "one_edit (host_env h) w (runPresetRecord h request w)"
  unfolding runProgrammerSet_def runProgrammerClear_def runProgrammerInspect_def runPresetRecord_def
  by (auto intro!: one_edit_edit_show [OF assms] one_edit_read_show [OF assms] simp: bind_res_Inr_iff setProgrammer_def Let_def
      split: sum.split)

lemma object_command_edits [edits]:
  assumes "round_trips (host_env h)"
  shows "one_edit (host_env h) w (runThemeCreate h request w)" "one_edit (host_env h) w (runThemeRename h request w)"
    "one_edit (host_env h) w (runThemeDelete h request w)" "one_edit (host_env h) w (runPresetRename h request w)"
    "one_edit (host_env h) w (runPresetDelete h request w)" "one_edit (host_env h) w (runMotionCreate h request w)"
    "one_edit (host_env h) w (runMotionRename h request w)" "one_edit (host_env h) w (runMotionDuplicate h request w)"
    "one_edit (host_env h) w (runMotionDelete h request w)" "one_edit (host_env h) w (runChaseDuplicate h request w)"
    "one_edit (host_env h) w (runChaseDelete h request w)" "one_edit (host_env h) w (runSceneRename h request w)"
    "one_edit (host_env h) w (runSceneDuplicate h request w)" "one_edit (host_env h) w (runSceneDelete h request w)"
  unfolding runThemeCreate_def runThemeRename_def runThemeDelete_def runPresetRename_def runPresetDelete_def runMotionCreate_def
    runMotionRename_def runMotionDuplicate_def runMotionDelete_def runChaseDuplicate_def runChaseDelete_def runSceneRename_def
    runSceneDuplicate_def runSceneDelete_def
  by (rule object_edits [OF assms]; simp)+

lemma chase_edits [edits]:
  assumes "round_trips (host_env h)"
  shows "one_edit (host_env h) w (runChaseCreate h request w)" "one_edit (host_env h) w (runChaseUpdate h request w)"
    "one_edit (host_env h) w (runChaseReorder h request w)"
  unfolding runChaseCreate_def runChaseUpdate_def runChaseReorder_def
  by (auto intro!: one_edit_edit_show [OF assms] one_edit_read_show [OF assms] saves_or_reports.saves
      simp: bind_res_Inr_iff updateChase_def guard_err_Inr_iff Let_def split: sum.split option.splits)

end
