(* ===== verification/CommandSurface.thy ===== *)
theory CommandSurface
  imports CommandScene
begin

text \<open>
  \<open>src/internal/command/operatorsurface.go\<close>: the \<open>operatorsurface\<close> commands, and \<open>Authorize\<close>, the check that locks a
  surface to its assigned controls.
\<close>

abbreviation surface_usage :: golc_error where "surface_usage \<equiv> Code ''GOLC_OPERATORSURFACE_USAGE''"

definition Authorize :: "Surface \<Rightarrow> ControlRef \<Rightarrow> golc_error option" where
  "Authorize surface control =
     (if \<not> IsAssigned surface control then Some (Code ''GOLC_OPERATORSURFACE_LOCKED'') else None)"

definition operatorSurfaceByName :: "Surface list \<Rightarrow> string \<Rightarrow> Surface option" where
  "operatorSurfaceByName surfaces name = find_by surf_Name name surfaces"

definition replaceOperatorSurface :: "Surface list \<Rightarrow> Surface \<Rightarrow> Surface list" where
  "replaceOperatorSurface surfaces updated = map (\<lambda>s. if surf_ID s = surf_ID updated then updated else s) surfaces"

definition groupByName :: "Group list \<Rightarrow> string \<Rightarrow> Group option" where
  "groupByName groups name = find_by group_Name name groups"

section \<open>Selectors\<close>

text \<open>The selector record of the code, with the fields each of its kinds uses.\<close>
datatype operatorSurfaceSelector =
  SelectScene (sceneName: string)
| SelectLayer (sceneName: string) (layerKind: string)
| SelectGrand
| SelectGroup (groupName: string)
| SelectSafety (safetyName: string)

text \<open>\<open>strings.Cut\<close> at the first colon.\<close>
definition splitLayerSelector :: "string \<Rightarrow> (string \<times> string) result" where
  "splitLayerSelector raw =
     (case SplitN CHR '':'' 2 raw of
        [scene, kind] \<Rightarrow> if scene = [] \<or> kind = [] then Inl surface_usage else Inr (scene, kind)
      | _ \<Rightarrow> Inl surface_usage)"

text \<open>\<open>Some\<close> the name of a group, \<open>None\<close> for the grand master.\<close>
definition splitMasterSelector :: "string \<Rightarrow> string option result" where
  "splitMasterSelector raw =
     (if raw = ''grand'' then Inr None
      else case CutPrefix raw ''group:'' of
          Some name \<Rightarrow> if name \<noteq> [] then Inr (Some name) else Inl surface_usage
        | None \<Rightarrow> Inl surface_usage)"

definition parseSelectorValue :: "string \<Rightarrow> string \<Rightarrow> operatorSurfaceSelector result" where
  "parseSelectorValue flag v =
     (if flag = ''--scene'' then Inr (SelectScene v)
      else if flag = ''--layer'' then bind_res (splitLayerSelector v) (\<lambda>(scene, kind). Inr (SelectLayer scene kind))
      else if flag = ''--master'' then
        bind_res (splitMasterSelector v) (\<lambda>m. Inr (case m of None \<Rightarrow> SelectGrand | Some name \<Rightarrow> SelectGroup name))
      else if flag = ''--safety'' then Inr (SelectSafety v)
      else Inl surface_usage)"

text \<open>Surface name, selector seen so far, and show path.  A second selector is refused.\<close>
definition surfaceSelectorFlag ::
  "string \<Rightarrow> (string \<Rightarrow> string \<times> operatorSurfaceSelector option \<times> string \<Rightarrow> (string \<times> operatorSurfaceSelector option \<times> string) result) option" where
  "surfaceSelectorFlag flag =
     (if flag = ''--surface'' then Some (\<lambda>v (_, sel, showPath). Inr (v, sel, showPath))
      else if flag \<in> {''--scene'', ''--layer'', ''--master'', ''--safety''} then
        Some (\<lambda>v (surface, sel, showPath).
          if sel \<noteq> None then Inl surface_usage
          else bind_res (parseSelectorValue flag v) (\<lambda>parsed. Inr (surface, Some parsed, showPath)))
      else if flag = ''--show'' then Some (\<lambda>v (surface, sel, _). Inr (surface, sel, v))
      else None)"

definition parseOperatorSurfaceSelectorArgs :: "string list \<Rightarrow> (string \<times> operatorSurfaceSelector \<times> string) result" where
  "parseOperatorSurfaceSelectorArgs args =
     bind_res (parse_flags surface_usage surfaceSelectorFlag no_switches args ([], None, [])) (\<lambda>(surface, sel, showPath).
       if surface = [] then Inl surface_usage
       else case sel of
           None \<Rightarrow> Inl surface_usage
         | Some selector \<Rightarrow> if showPath = [] then Inl surface_usage else Inr (surface, selector, showPath))"

fun resolveControlRef :: "State \<Rightarrow> operatorSurfaceSelector \<Rightarrow> ControlRef result" where
  "resolveControlRef state (SelectScene name) =
     (case sceneByName (st_Scenes state) name of
        None \<Rightarrow> Inl (Code ''GOLC_OPERATORSURFACE_SCENE_NOT_FOUND'')
      | Some (sc, _) \<Rightarrow> Inr (SceneControlRef (scene_ID sc)))"
| "resolveControlRef state (SelectLayer name kind) =
     (case sceneByName (st_Scenes state) name of
        None \<Rightarrow> Inl (Code ''GOLC_OPERATORSURFACE_SCENE_NOT_FOUND'')
      | Some (sc, _) \<Rightarrow>
          (case LayerByKind sc kind of
             None \<Rightarrow> Inl (Code ''GOLC_OPERATORSURFACE_LAYER_NOT_FOUND'')
           | Some _ \<Rightarrow> Inr (LayerControlRef \<lparr>lref_SceneID = scene_ID sc, lref_Kind = kind\<rparr>)))"
| "resolveControlRef state SelectGrand = Inr (MasterControlRef \<lparr>mref_Kind = GrandMaster, mref_GroupID = uuid_nil\<rparr>)"
| "resolveControlRef state (SelectGroup name) =
     (case groupByName (st_Groups state) name of
        None \<Rightarrow> Inl (Code ''GOLC_OPERATORSURFACE_GROUP_NOT_FOUND'')
      | Some g \<Rightarrow> Inr (MasterControlRef \<lparr>mref_Kind = GroupMaster, mref_GroupID = group_ID g\<rparr>))"
| "resolveControlRef state (SelectSafety name) =
     (if name \<in> {''blackout'', ''stop_release_all'', ''revoke_automation''} then Inr (SafetyControlRef name)
      else Inl (Code ''GOLC_OPERATORSURFACE_SAFETY_INVALID''))"

definition applyControlRef :: "Surface \<Rightarrow> ControlRef \<Rightarrow> bool \<Rightarrow> Surface" where
  "applyControlRef s ref assign =
     (if ctl_Kind ref = ControlScene then (if assign then AssignScene s (ctl_Scene ref) else UnassignScene s (ctl_Scene ref))
      else if ctl_Kind ref = ControlLayer then (if assign then AssignLayer s (ctl_Layer ref) else UnassignLayer s (ctl_Layer ref))
      else if ctl_Kind ref = ControlMaster then (if assign then AssignMaster s (ctl_Master ref) else UnassignMaster s (ctl_Master ref))
      else if ctl_Kind ref = ControlSafety then (if assign then AssignSafety s (ctl_Safety ref) else UnassignSafety s (ctl_Safety ref))
      else s)"

section \<open>Handlers\<close>

definition parseOperatorSurfaceCreateArgs :: "string list \<Rightarrow> (string \<times> string) result" where
  "parseOperatorSurfaceCreateArgs = parseDomainNameShowArgs ''GOLC_OPERATORSURFACE_USAGE''"

definition parseOperatorSurfaceShowOnlyArgs :: "string list \<Rightarrow> string result" where
  "parseOperatorSurfaceShowOnlyArgs = parseShowOnlyArgs ''GOLC_OPERATORSURFACE_USAGE''"

definition surfaceNameFlag :: "string \<Rightarrow> (string \<Rightarrow> string \<times> string \<Rightarrow> (string \<times> string) result) option" where
  "surfaceNameFlag flag =
     (if flag = ''--surface'' then Some (\<lambda>v (_, showPath). Inr (v, showPath))
      else if flag = ''--show'' then Some (\<lambda>v (surface, _). Inr (surface, v))
      else None)"

definition parseOperatorSurfaceNameShowArgs :: "string list \<Rightarrow> (string \<times> string) result" where
  "parseOperatorSurfaceNameShowArgs args =
     bind_res (parse_flags surface_usage surfaceNameFlag no_switches args ([], [])) (\<lambda>(surface, showPath).
       if surface = [] \<or> showPath = [] then Inl surface_usage else Inr (surface, showPath))"

abbreviation surfaceKind :: "Surface Kind" where
  "surfaceKind \<equiv> \<lparr>kd_Name = surf_Name, kd_ID = surf_ID, kd_get = st_OperatorSurfaces, kd_put = (\<lambda>xs s. s\<lparr>st_OperatorSurfaces := xs\<rparr>)\<rparr>"

definition runOperatorSurfaceCreate :: "Host \<Rightarrow> World CommandHandler" where
  "runOperatorSurfaceCreate h = createObject h surfaceKind parseOperatorSurfaceCreateArgs ''GOLC_OPERATORSURFACE_CREATED'' (NewSurface (host_mint h 0))"

definition runOperatorSurfaceList :: "Host \<Rightarrow> World CommandHandler" where
  "runOperatorSurfaceList h request w =
     (case parseOperatorSurfaceShowOnlyArgs (rq_Args request) of
        Inl e \<Rightarrow> malformed h e w
      | Inr showPath \<Rightarrow>
          read_show h (rq_Root request) showPath (\<lambda>state w1.
            succeed (''GOLC_OPERATORSURFACE_LIST: '' @ itoa (int (length (st_OperatorSurfaces state))) @ '' surface(s)'' @ newline @
              concat (map (\<lambda>s. ''  '' @ surf_Name s @ '' ('' @ env_uuid_str (host_env h) (surf_ID s) @ '')'' @ newline) (st_OperatorSurfaces state))) w1) w)"

definition assignControl :: "bool \<Rightarrow> string \<Rightarrow> operatorSurfaceSelector \<Rightarrow> State \<Rightarrow> (State \<times> string) result" where
  "assignControl assign surfaceName selector state =
     (case operatorSurfaceByName (st_OperatorSurfaces state) surfaceName of
        None \<Rightarrow> Inl (Code ''GOLC_OPERATORSURFACE_NOT_FOUND'')
      | Some target \<Rightarrow>
          bind_res (resolveControlRef state selector) (\<lambda>ref.
            Inr (state\<lparr>st_OperatorSurfaces := replaceOperatorSurface (st_OperatorSurfaces state) (applyControlRef target ref assign)\<rparr>,
                 (if assign then ''GOLC_OPERATORSURFACE_ASSIGNED'' else ''GOLC_OPERATORSURFACE_UNASSIGNED'') @ '': '' @ surfaceName @ newline)))"

definition runOperatorSurfaceAssignment :: "Host \<Rightarrow> bool \<Rightarrow> World CommandHandler" where
  "runOperatorSurfaceAssignment h assign request w =
     (case parseOperatorSurfaceSelectorArgs (rq_Args request) of
        Inl e \<Rightarrow> malformed h e w
      | Inr (surfaceName, selector, showPath) \<Rightarrow> edit_show h (rq_Root request) showPath (assignControl assign surfaceName selector) w)"

definition runOperatorSurfaceAssign :: "Host \<Rightarrow> World CommandHandler" where
  "runOperatorSurfaceAssign h = runOperatorSurfaceAssignment h True"

definition runOperatorSurfaceUnassign :: "Host \<Rightarrow> World CommandHandler" where
  "runOperatorSurfaceUnassign h = runOperatorSurfaceAssignment h False"

definition section_lines :: "string \<Rightarrow> ('a \<Rightarrow> string) \<Rightarrow> 'a list \<Rightarrow> string" where
  "section_lines title line xs =
     ''  '' @ title @ '': '' @ itoa (int (length xs)) @ newline @ concat (map (\<lambda>x. ''    - '' @ line x @ newline) xs)"

definition surfaceText :: "Host \<Rightarrow> Surface \<Rightarrow> string" where
  "surfaceText h s =
     (let str = env_uuid_str (host_env h) in
      told h ''GOLC_OPERATORSURFACE_SHOW'' (surf_Name s) (surf_ID s) @
      section_lines ''scenes'' str (surf_SceneRefs s) @
      section_lines ''layers'' (\<lambda>r. str (lref_SceneID r) @ '':'' @ lref_Kind r) (surf_LayerRefs s) @
      section_lines ''masters'' (\<lambda>r. if mref_Kind r = GrandMaster then ''grand'' else ''group:'' @ str (mref_GroupID r)) (surf_MasterRefs s) @
      section_lines ''safety'' (\<lambda>c. c) (surf_SafetyRefs s) @
      section_lines ''midi_mappings''
        (\<lambda>m. ''channel='' @ itoa (midi_Channel m) @ '' kind='' @ midi_Kind m @ '' number='' @ itoa (midi_Number m)) (surf_MidiMappings s))"

definition runOperatorSurfaceShow :: "Host \<Rightarrow> World CommandHandler" where
  "runOperatorSurfaceShow h request w =
     (case parseOperatorSurfaceNameShowArgs (rq_Args request) of
        Inl e \<Rightarrow> malformed h e w
      | Inr (surfaceName, showPath) \<Rightarrow>
          read_show h (rq_Root request) showPath (\<lambda>state w1.
            case operatorSurfaceByName (st_OperatorSurfaces state) surfaceName of
              None \<Rightarrow> fail h (Code ''GOLC_OPERATORSURFACE_NOT_FOUND'') w1
            | Some target \<Rightarrow> succeed (surfaceText h target) w1) w)"

definition runOperatorSurfaceRemove :: "Host \<Rightarrow> World CommandHandler" where
  "runOperatorSurfaceRemove h request w =
     (case parseOperatorSurfaceNameShowArgs (rq_Args request) of
        Inl e \<Rightarrow> malformed h e w
      | Inr (surfaceName, showPath) \<Rightarrow>
          edit_show h (rq_Root request) showPath (\<lambda>state.
            case operatorSurfaceByName (st_OperatorSurfaces state) surfaceName of
              None \<Rightarrow> Inl (Code ''GOLC_OPERATORSURFACE_NOT_FOUND'')
            | Some _ \<Rightarrow>
                Inr (state\<lparr>st_OperatorSurfaces := filter (\<lambda>s. surf_Name s \<noteq> surfaceName) (st_OperatorSurfaces state)\<rparr>,
                     ''GOLC_OPERATORSURFACE_REMOVED: '' @ surfaceName @ newline)) w)"

definition surfaceScopes :: "ScopeRegistration list" where
  "surfaceScopes = [\<lparr>sr_Scope = ''operatorsurface'',
     sr_Summary = ''Named, individually-assigned constrained operator playback surfaces (PLAY-03) with per-surface MIDI mappings (D-07).''\<rparr>]"

definition surfaceHandlers :: "Host \<Rightarrow> (string \<times> World CommandHandler) list" where
  "surfaceHandlers h =
     [(''operatorsurface create'', runOperatorSurfaceCreate h), (''operatorsurface list'', runOperatorSurfaceList h),
      (''operatorsurface assign'', runOperatorSurfaceAssign h), (''operatorsurface unassign'', runOperatorSurfaceUnassign h),
      (''operatorsurface show'', runOperatorSurfaceShow h), (''operatorsurface remove'', runOperatorSurfaceRemove h)]"

section \<open>What the commands do\<close>

lemma surface_edits [edits]:
  assumes "round_trips (host_env h)"
  shows "one_edit (host_env h) w (runOperatorSurfaceCreate h request w)" "one_edit (host_env h) w (runOperatorSurfaceList h request w)"
    "one_edit (host_env h) w (runOperatorSurfaceAssign h request w)" "one_edit (host_env h) w (runOperatorSurfaceUnassign h request w)"
    "one_edit (host_env h) w (runOperatorSurfaceShow h request w)" "one_edit (host_env h) w (runOperatorSurfaceRemove h request w)"
proof -
  show "one_edit (host_env h) w (runOperatorSurfaceCreate h request w)"
    unfolding runOperatorSurfaceCreate_def by (rule object_edits [OF assms]) simp_all
  have "one_edit (host_env h) w (runOperatorSurfaceAssignment h b request w)" for b
    unfolding runOperatorSurfaceAssignment_def
    by (auto intro!: one_edit_edit_show [OF assms] simp: assignControl_def bind_res_Inr_iff split: sum.split option.splits)
  then show "one_edit (host_env h) w (runOperatorSurfaceAssign h request w)" "one_edit (host_env h) w (runOperatorSurfaceUnassign h request w)"
    by (simp_all add: runOperatorSurfaceAssign_def runOperatorSurfaceUnassign_def)
  show "one_edit (host_env h) w (runOperatorSurfaceList h request w)"
    "one_edit (host_env h) w (runOperatorSurfaceShow h request w)" "one_edit (host_env h) w (runOperatorSurfaceRemove h request w)"
    unfolding runOperatorSurfaceList_def runOperatorSurfaceShow_def runOperatorSurfaceRemove_def
    by (auto intro!: one_edit_read_show [OF assms] one_edit_edit_show [OF assms] split: sum.split option.splits)
qed

end
