(* ===== verification/Clock.thy ===== *)
theory Clock
  imports F64
begin

text \<open>
  \<open>src/internal/playback/clock.go\<close>: the musical clock.  A \<open>time.Time\<close> is its monotonic reading in
  nanoseconds; \<open>Sub\<close> saturates at the 64-bit range as in the Go library and \<open>Seconds\<close> is the
  library's sum of a whole and a fractional part, both rounded.
\<close>

section \<open>time.Time and time.Duration\<close>

definition timeSub :: "int \<Rightarrow> int \<Rightarrow> int" where
  "timeSub t u = max min_int64 (min max_int64 (t - u))"

definition durationSeconds :: "int \<Rightarrow> f64" where
  "durationSeconds d = f_of_int (go_quot d 1000000000) + f_of_int (go_rem d 1000000000) / Fin 1000000000"

section \<open>clock.go\<close>

definition beatsPerBar :: f64 where "beatsPerBar = Fin 4"
definition maxBPM :: f64 where "maxBPM = Fin 999"

record MusicalPosition =
  pos_BarIndex :: int
  pos_BeatFraction :: f64

definition secondsPerBar :: "f64 \<Rightarrow> f64" where
  "secondsPerBar bpm = (let secondsPerBeat = Fin 60 / bpm in secondsPerBeat * beatsPerBar)"

text \<open>The unwrapped number of bars since the epoch.\<close>
definition barsElapsed :: "int \<Rightarrow> f64 \<Rightarrow> int \<Rightarrow> f64" where
  "barsElapsed now bpm loopStart = durationSeconds (timeSub now loopStart) / secondsPerBar bpm"

definition Position :: "int \<Rightarrow> f64 \<Rightarrow> int \<Rightarrow> int \<Rightarrow> MusicalPosition" where
  "Position now bpm barsPerLoop loopStart =
     (let bars = (if barsPerLoop \<le> 0 then 1 else barsPerLoop);
          elapsed = barsElapsed now bpm loopStart;
          wholeBarsElapsed = f_to_int elapsed in
      \<lparr>pos_BarIndex = go_rem wholeBarsElapsed bars,
       pos_BeatFraction = elapsed - f_of_int wholeBarsElapsed\<rparr>)"

definition CrossedBarBoundary :: "int \<Rightarrow> int \<Rightarrow> bool" where
  "CrossedBarBoundary lastBarIndex currentBarIndex = (currentBarIndex \<noteq> lastBarIndex)"

definition ValidateBPM :: "f64 \<Rightarrow> golc_error option" where
  "ValidateBPM bpm =
     (if f_is_nan bpm \<or> f_is_inf bpm then Some (Code ''GOLC_PLAYBACK_BPM_INVALID'')
      else if bpm \<le> Fin 0 then Some (Code ''GOLC_PLAYBACK_BPM_INVALID'')
      else if maxBPM < bpm then Some (Code ''GOLC_PLAYBACK_BPM_INVALID'')
      else None)"

text \<open>The loop over consecutive taps: the sum of the intervals, or failure at the first one that
  is not positive.\<close>
fun tapIntervals :: "f64 \<Rightarrow> int list \<Rightarrow> f64 result" where
  "tapIntervals tot (t # u # taps) =
     (let interval = durationSeconds (timeSub u t) in
      if interval \<le> Fin 0 then Inl (Code ''GOLC_PLAYBACK_TAP_INVALID'')
      else tapIntervals (tot + interval) (u # taps))"
| "tapIntervals tot _ = Inr tot"

definition TapTempo :: "int list \<Rightarrow> f64 result" where
  "TapTempo taps =
     (if length taps < 2 then Inl (Code ''GOLC_PLAYBACK_TAP_INVALID'')
      else bind_res (tapIntervals (Fin 0) taps) (\<lambda>totalSeconds.
        let averageInterval = totalSeconds / f_of_int (int (length taps) - 1);
            bpm = Fin 60 / averageInterval in
        guard_err (ValidateBPM bpm) (Inr bpm)))"

definition RecomputeEpoch :: "bool \<Rightarrow> f64 \<Rightarrow> f64 \<Rightarrow> int \<Rightarrow> int \<Rightarrow> int \<Rightarrow> int" where
  "RecomputeEpoch preserve oldBPM newBPM barsPerLoop loopStart now =
     (if \<not> preserve then now
      else
        let elapsedNew = barsElapsed now oldBPM loopStart * secondsPerBar newBPM in
        now + wrap64 (- f_to_int (elapsedNew * Fin 1000000000)))"

section \<open>Rounding of the clock's arithmetic\<close>

lemma ValidateBPM_None: "ValidateBPM bpm = None \<longleftrightarrow> (\<exists>q. bpm = Fin q \<and> 0 < q \<and> q \<le> 999)"
  by (cases bpm) (auto simp: ValidateBPM_def f_is_nan_def f_is_inf_def maxBPM_def)

lemma f_of_int_exact: "\<bar>n\<bar> < 2 ^ 53 \<Longrightarrow> f_of_int n = Fin (of_int n)"
  by (simp add: f_of_int_def round64_rep is_rep_int)

lemma is_rep_eighth: "is_rep (1 / 8)"
  by code_simp

lemma is_rep_32nd: "is_rep (1 / 32)"
  by code_simp

text \<open>Seconds of a non-negative duration.\<close>
lemma durationSeconds_nonneg:
  assumes "0 \<le> d" "d \<le> max_int64"
  shows "durationSeconds d =
      Fin (rnd (of_int (d div 1000000000) + rnd (of_int (d mod 1000000000) / 1000000000)))"
    and "0 \<le> rnd (of_int (d div 1000000000) + rnd (of_int (d mod 1000000000) / 1000000000))"
    and "rnd (of_int (d div 1000000000) + rnd (of_int (d mod 1000000000) / 1000000000)) \<le> 9223372037"
proof -
  define s where "s = d div 1000000000"
  define n where "n = d mod 1000000000"
  have s: "0 \<le> s" "s \<le> 9223372036" using assms by (auto simp: s_def max_int64_def)
  have n: "0 \<le> n" "n < 1000000000" by (simp_all add: n_def)
  have fs: "f_of_int s = Fin (of_int s)" and fn: "f_of_int n = Fin (of_int n)"
    using s n by (auto intro!: f_of_int_exact)
  have q: "(0::rat) \<le> of_int n / 1000000000" "(of_int n :: rat) / 1000000000 \<le> 1"
    using n by (simp_all add: divide_le_eq)
  note r = round64_between [OF is_rep_0 is_rep_1 q]
  have s': "(0::rat) \<le> of_int s" "(of_int s :: rat) \<le> 9223372036" using s by simp_all
  have "is_rep 9223372037" by (rule is_rep_numeral) simp
  note t = round64_between [OF is_rep_0 this, of "of_int s + rnd (of_int n / 1000000000)"]
  have t': "round64 (of_int s + rnd (of_int n / 1000000000)) = Fin (rnd (of_int s + rnd (of_int n / 1000000000)))"
    "0 \<le> rnd (of_int s + rnd (of_int n / 1000000000))" "rnd (of_int s + rnd (of_int n / 1000000000)) \<le> 9223372037"
    using t r s' by auto
  have "durationSeconds d = f_of_int s + f_of_int n / Fin 1000000000"
    using assms by (simp add: durationSeconds_def go_quot_nonneg go_rem_nonneg s_def n_def)
  then show "durationSeconds d = Fin (rnd (of_int (d div 1000000000) + rnd (of_int (d mod 1000000000) / 1000000000)))"
    using fs fn r t' by (simp flip: s_def n_def)
  show "0 \<le> rnd (of_int (d div 1000000000) + rnd (of_int (d mod 1000000000) / 1000000000))"
    "rnd (of_int (d div 1000000000) + rnd (of_int (d mod 1000000000) / 1000000000)) \<le> 9223372037"
    using t' by (simp_all flip: s_def n_def)
qed

text \<open>A bar lasts at least an eighth of a second at every legal tempo; at an extremely slow one
  the quotient overflows and a bar is infinitely long.\<close>
lemma secondsPerBar_cases:
  assumes "ValidateBPM bpm = None"
  shows "secondsPerBar bpm = F_PInf \<or> (\<exists>p. secondsPerBar bpm = Fin p \<and> 1 / 8 \<le> p)"
proof -
  obtain q where q: "bpm = Fin q" "0 < q" "q \<le> 999" using assms ValidateBPM_None by auto
  have "(1::rat) / 32 \<le> 60 / q" using q by (simp add: le_divide_eq)
  then have "round64 (1 / 32) \<le> round64 (60 / q)" by (rule round64_mono)
  then have lo: "Fin (1 / 32) \<le> round64 (60 / q)" by (simp add: round64_rep [OF is_rep_32nd])
  show ?thesis
  proof (cases "round64 (60 / q)")
    case (Fin b)
    then have "1 / 32 \<le> b" using lo by simp
    then have "round64 (1 / 8) \<le> round64 (b * 4)" by (intro round64_mono) simp
    then have "Fin (1 / 8) \<le> round64 (b * 4)" by (simp add: round64_rep [OF is_rep_eighth])
    then show ?thesis using q Fin
      by (cases "round64 (b * 4)") (auto simp: secondsPerBar_def beatsPerBar_def)
  qed (use lo q in \<open>auto simp: secondsPerBar_def beatsPerBar_def f_inf_def f_sign_def\<close>)
qed

lemma timeSub_forward: "loopStart \<le> now \<Longrightarrow> 0 \<le> timeSub now loopStart \<and> timeSub now loopStart \<le> max_int64"
  by (auto simp: timeSub_def min_int64_def max_int64_def)

lemma barsElapsed_rep:
  assumes "ValidateBPM bpm = None" "loopStart \<le> now"
  obtains b where "barsElapsed now bpm loopStart = Fin b" "is_rep b" "0 \<le> b" "b \<le> 73786976296"
proof -
  define d where "d = timeSub now loopStart"
  have d: "0 \<le> d" "d \<le> max_int64" using timeSub_forward [OF assms(2)] by (simp_all add: d_def)
  define e where "e = rnd (of_int (d div 1000000000) + rnd (of_int (d mod 1000000000) / 1000000000))"
  have e: "durationSeconds d = Fin e" "0 \<le> e" "e \<le> 9223372037"
    using durationSeconds_nonneg [OF d] by (simp_all add: e_def)
  consider "secondsPerBar bpm = F_PInf" | p where "secondsPerBar bpm = Fin p" "1 / 8 \<le> p"
    using secondsPerBar_cases [OF assms(1)] by blast
  then show ?thesis
  proof cases
    case 1
    then show ?thesis using e that [of 0] by (simp add: barsElapsed_def flip: d_def)
  next
    case 2
    have "is_rep 73786976296" by (rule is_rep_numeral) simp
    moreover have "0 \<le> e / p" "e / p \<le> 73786976296"
      using e 2 by (simp_all add: divide_le_eq mult_le_cancel_left)
    ultimately have "round64 (e / p) = Fin (rnd (e / p)) \<and> 0 \<le> rnd (e / p) \<and>
        rnd (e / p) \<le> 73786976296 \<and> is_rep (rnd (e / p))"
      by (intro round64_between) auto
    then show ?thesis using e 2 that [of "rnd (e / p)"] by (simp add: barsElapsed_def flip: d_def)
  qed
qed

lemma f_to_int_floor: "0 \<le> b \<Longrightarrow> b \<le> 73786976296 \<Longrightarrow> f_to_int (Fin b) = \<lfloor>b\<rfloor>"
proof -
  assume b: "0 \<le> b" "b \<le> 73786976296"
  have "0 \<le> \<lfloor>b\<rfloor>" using b by simp
  moreover have "\<lfloor>b\<rfloor> \<le> 73786976296" using b by (metis floor_le_iff floor_numeral floor_mono)
  ultimately show ?thesis using b
    by (simp add: f_to_int_def rat_trunc_def is_int64_def min_int64_def max_int64_def)
qed

text \<open>The clock without rounding noise: both parts of the position come from one exact number.\<close>
lemma Position_exact:
  assumes "0 \<le> b" "b \<le> 73786976296" "is_rep b" "barsElapsed now bpm loopStart = Fin b"
  shows "Position now bpm n loopStart =
    \<lparr>pos_BarIndex = \<lfloor>b\<rfloor> mod (if n \<le> 0 then 1 else n), pos_BeatFraction = Fin (b - of_int \<lfloor>b\<rfloor>)\<rparr>"
proof -
  have f: "f_to_int (Fin b) = \<lfloor>b\<rfloor>" using assms by (simp add: f_to_int_floor)
  have "f_of_int \<lfloor>b\<rfloor> = Fin (of_int \<lfloor>b\<rfloor>)" "Fin b - Fin (of_int \<lfloor>b\<rfloor>) = Fin (b - of_int \<lfloor>b\<rfloor>)"
    using rep_split [OF assms(3,1)] by (simp_all add: f_of_int_def round64_rep)
  then show ?thesis using assms f by (simp add: Position_def Let_def go_rem_nonneg)
qed

text \<open>
  At every legal tempo and every instant at or after the epoch, the musical position is
  inside the loop: the bar index lies in [0, bars per loop) and the beat fraction is a number
  in [0, 1), for all 64-bit durations and with every rounding of the float arithmetic.
\<close>
theorem Position_in_loop:
  assumes "ValidateBPM bpm = None" "loopStart \<le> now" "1 \<le> barsPerLoop"
  shows "0 \<le> pos_BarIndex (Position now bpm barsPerLoop loopStart) \<and>
    pos_BarIndex (Position now bpm barsPerLoop loopStart) < barsPerLoop \<and>
    Fin 0 \<le> pos_BeatFraction (Position now bpm barsPerLoop loopStart) \<and>
    pos_BeatFraction (Position now bpm barsPerLoop loopStart) < Fin 1"
proof -
  obtain b where b: "barsElapsed now bpm loopStart = Fin b" "is_rep b" "0 \<le> b" "b \<le> 73786976296"
    using barsElapsed_rep [OF assms(1,2)] .
  have "0 \<le> b - of_int \<lfloor>b\<rfloor>" "b - of_int \<lfloor>b\<rfloor> < 1" by linarith+
  then show ?thesis using Position_exact [OF b(3,4,2,1), of barsPerLoop] assms(3) by simp
qed

theorem Position_in_loop_witness:
  "0 \<le> pos_BarIndex (Position 5000000000 (Fin 120) 4 1000000000) \<and>
   pos_BarIndex (Position 5000000000 (Fin 120) 4 1000000000) < 4 \<and>
   pos_BeatFraction (Position 5000000000 (Fin 120) 4 1000000000) < Fin 1"
proof -
  have "ValidateBPM (Fin 120) = None" by code_simp
  then show ?thesis using Position_in_loop [of "Fin 120" 1000000000 5000000000 4] by simp
qed

lemma durationSeconds_mono:
  assumes "0 \<le> d" "d \<le> d'" "d' \<le> max_int64"
  shows "durationSeconds d \<le> durationSeconds d'"
proof -
  let ?f = "\<lambda>d. rnd (of_int (d div 1000000000) + rnd (of_int (d mod 1000000000) / 1000000000))"
  have u: "0 \<le> rnd (of_int (x mod 1000000000) / 1000000000)" "rnd (of_int (x mod 1000000000) / 1000000000) \<le> 1" for x
  proof -
    have "(of_int (x mod 1000000000) :: rat) \<le> of_int 1000000000" by simp
    then show "0 \<le> rnd (of_int (x mod 1000000000) / 1000000000)" "rnd (of_int (x mod 1000000000) / 1000000000) \<le> 1"
      using rd.between [of 0 1 "of_int (x mod 1000000000) / 1000000000"] is_rep_1 by (auto simp: is_rep_iff divide_le_eq)
  qed
  have "?f d \<le> ?f d'"
  proof (cases "d div 1000000000 = d' div 1000000000")
    case True
    then have "d mod 1000000000 \<le> d' mod 1000000000" using assms(2) by (simp flip: minus_div_mult_eq_mod)
    then show ?thesis unfolding True by (intro rnd_mono add_left_mono divide_right_mono) auto
  next
    case False
    then have "d div 1000000000 + 1 \<le> d' div 1000000000" using zdiv_mono1 [OF assms(2), of 1000000000] by linarith
    then have "(of_int (d div 1000000000) :: rat) + 1 \<le> of_int (d' div 1000000000)"
      by (metis of_int_1 of_int_add of_int_le_iff)
    then show ?thesis using u [of d] u [of d'] by (intro rnd_mono) linarith
  qed
  then show ?thesis using durationSeconds_nonneg(1) [of d] durationSeconds_nonneg(1) [of d'] assms by simp
qed

text \<open>
  Musical time never runs backwards: at a fixed tempo and epoch, a later instant has an
  unwrapped bar count at least as large, whatever the roundings.
\<close>
theorem barsElapsed_mono:
  assumes "ValidateBPM bpm = None" "loopStart \<le> now" "now \<le> later"
  shows "barsElapsed now bpm loopStart \<le> barsElapsed later bpm loopStart"
proof -
  define d where "d = timeSub now loopStart"
  define d' where "d' = timeSub later loopStart"
  have d: "0 \<le> d" "d \<le> d'" "d' \<le> max_int64"
    using assms by (auto simp: d_def d'_def timeSub_def min_int64_def max_int64_def)
  have d2: "d \<le> max_int64" "0 \<le> d'" using d by simp_all
  obtain e where e: "durationSeconds d = Fin e" "0 \<le> e"
    using durationSeconds_nonneg(1,2) [OF d(1) d2(1)] by blast
  obtain e' where e': "durationSeconds d' = Fin e'"
    using durationSeconds_nonneg(1) [OF d2(2) d(3)] by blast
  have "e \<le> e'" using durationSeconds_mono [OF d] e e' by simp
  then show ?thesis
    using secondsPerBar_cases [OF assms(1)] e e'
    by (auto simp: barsElapsed_def intro!: round64_mono divide_right_mono simp flip: d_def d'_def)
qed

theorem barsElapsed_mono_witness:
  "barsElapsed 2000000000 (Fin 120) 0 \<le> barsElapsed 3000000000 (Fin 120) 0"
proof -
  have "ValidateBPM (Fin 120) = None" by code_simp
  then show ?thesis by (rule barsElapsed_mono) simp_all
qed

text \<open>
  A position sampled exactly on a bar boundary belongs to the new bar.  When the elapsed
  seconds are exactly \<open>k\<close> bar lengths, the bar index is \<open>k\<close> modulo the loop and the beat fraction
  is exactly zero.
\<close>
theorem Position_on_boundary:
  assumes "secondsPerBar bpm = Fin p" "0 < p" "1 \<le> barsPerLoop"
    and "durationSeconds (timeSub now loopStart) = Fin (of_int k * p)" "0 \<le> k" "k \<le> 73786976296"
  shows "Position now bpm barsPerLoop loopStart = \<lparr>pos_BarIndex = k mod barsPerLoop, pos_BeatFraction = Fin 0\<rparr>"
proof -
  have r: "is_rep (of_int k)" using assms by (intro is_rep_int) simp
  then have "barsElapsed now bpm loopStart = Fin (of_int k)"
    using assms by (simp add: barsElapsed_def round64_rep)
  moreover have "(0::rat) \<le> of_int k" "(of_int k :: rat) \<le> 73786976296" using assms by simp_all
  ultimately show ?thesis using Position_exact [of "of_int k" now bpm loopStart barsPerLoop] r assms(3) by simp
qed

theorem Position_on_boundary_witness:
  "Position 6000000000 (Fin 120) 2 0 = \<lparr>pos_BarIndex = 3 mod 2, pos_BeatFraction = Fin 0\<rparr>"
proof (rule Position_on_boundary)
  show "secondsPerBar (Fin 120) = Fin 2" by code_simp
  show "durationSeconds (timeSub 6000000000 0) = Fin (of_int 3 * 2)" by code_simp
qed simp_all

section \<open>Tap tempo\<close>

lemma is_rep_tiny: "is_rep (1 / 1073741824)"
  by code_simp

lemma durationSeconds_sign:
  assumes "is_int64 d"
  shows "durationSeconds d \<le> Fin 0 \<longleftrightarrow> d \<le> 0"
proof (cases "0 < d")
  case True
  have d: "0 \<le> d" "d \<le> max_int64" using True assms by (simp_all add: is_int64_def)
  let ?f = "of_int (d mod 1000000000) / 1000000000 :: rat" and ?s = "of_int (d div 1000000000) :: rat"
  have f0: "0 \<le> rnd ?f" using rnd_mono [of 0 ?f] by simp
  have s0: "0 \<le> ?s" using True by (simp add: pos_imp_zdiv_nonneg_iff)
  have tiny: "rnd (1 / 1073741824) = 1 / 1073741824" using is_rep_tiny by (simp add: is_rep_iff)
  have "1 / 1073741824 \<le> ?s + rnd ?f"
  proof (cases "d div 1000000000 = 0")
    case True
    then have "1 \<le> d mod 1000000000" using \<open>0 < d\<close> by (simp flip: minus_div_mult_eq_mod)
    then have "(1::rat) \<le> of_int (d mod 1000000000)" by simp
    then have "1 / 1073741824 \<le> ?f" by (simp add: le_divide_eq)
    then have "1 / 1073741824 \<le> rnd ?f" using rnd_mono tiny by metis
    then show ?thesis using s0 by simp
  next
    case False
    moreover have "0 \<le> d div 1000000000" using True by (simp add: pos_imp_zdiv_nonneg_iff)
    ultimately have "1 \<le> d div 1000000000" by linarith
    then have "1 \<le> ?s" by simp
    then show ?thesis using f0 by simp
  qed
  then have "1 / 1073741824 \<le> rnd (?s + rnd ?f)" using rnd_mono tiny by metis
  then have "\<not> durationSeconds d \<le> Fin 0" using durationSeconds_nonneg(1) [OF d] by simp
  then show ?thesis using True by simp
next
  case False
  define s where "s = go_quot d 1000000000"
  define n where "n = go_rem d 1000000000"
  have "- d \<le> 9223372036854775808" using assms by (simp add: is_int64_def min_int64_def)
  then have "(- d) div 1000000000 \<le> 9223372036"
    using zdiv_mono1 [of "- d" 9223372036854775808 1000000000] by simp
  then have s: "- 9223372036 \<le> s" "s \<le> 0" and n: "- 1000000000 \<le> n" "n \<le> 0"
    using False pos_mod_bound [of 1000000000 "- d"] pos_mod_sign [of 1000000000 "- d"]
    by (auto simp: s_def n_def go_rem_def go_quot_def sgn_if minus_div_mult_eq_mod [symmetric]
        pos_imp_zdiv_nonneg_iff)
  have q: "- 1 \<le> (of_int n :: rat) / 1000000000" "(of_int n :: rat) / 1000000000 \<le> 0"
    using n by (simp_all add: le_divide_eq divide_le_eq)
  have "is_rep (- 1)" using is_rep_int [of "- 1"] by simp
  note r = round64_between [OF this is_rep_0 q]
  have "is_rep (- 9223372037)" using is_rep_int [of "- 9223372037"] by simp
  then have t: "round64 (of_int s + rnd (of_int n / 1000000000)) = Fin (rnd (of_int s + rnd (of_int n / 1000000000))) \<and>
      - 9223372037 \<le> rnd (of_int s + rnd (of_int n / 1000000000)) \<and>
      rnd (of_int s + rnd (of_int n / 1000000000)) \<le> 0 \<and> is_rep (rnd (of_int s + rnd (of_int n / 1000000000)))"
    using r s by (intro round64_between is_rep_0) (auto simp: add_nonpos_nonpos intro: order_trans [OF _ add_mono])
  have "f_of_int s = Fin (of_int s)" "f_of_int n = Fin (of_int n)"
    using s n by (auto intro!: f_of_int_exact)
  then have "durationSeconds d \<le> Fin 0" using r t by (simp add: durationSeconds_def flip: s_def n_def)
  then show ?thesis using False by simp
qed

lemma timeSub_int64: "is_int64 (timeSub t u)"
  by (auto simp: timeSub_def is_int64_def min_int64_def max_int64_def)

lemma tapIntervals_sorted:
  "case tapIntervals tot taps of
     Inl e \<Rightarrow> e = Code ''GOLC_PLAYBACK_TAP_INVALID'' \<and> \<not> sorted_wrt (<) taps
   | Inr _ \<Rightarrow> sorted_wrt (<) taps"
proof (induction tot taps rule: tapIntervals.induct)
  case (1 tot t u taps)
  have le: "durationSeconds (timeSub u t) \<le> Fin 0 \<longleftrightarrow> u \<le> t"
    using durationSeconds_sign [OF timeSub_int64, of u t] by (auto simp: timeSub_def min_int64_def max_int64_def)
  show ?case
  proof (cases "u \<le> t")
    case True
    then show ?thesis using le by (simp add: Let_def)
  next
    case False
    then have eq: "tapIntervals tot (t # u # taps) = tapIntervals (tot + durationSeconds (timeSub u t)) (u # taps)"
      using le by (simp add: Let_def)
    have IH: "case tapIntervals (tot + durationSeconds (timeSub u t)) (u # taps) of
        Inl e \<Rightarrow> e = Code ''GOLC_PLAYBACK_TAP_INVALID'' \<and> \<not> sorted_wrt (<) (u # taps)
      | Inr _ \<Rightarrow> sorted_wrt (<) (u # taps)"
      using 1 [OF refl] False le by simp
    have tr: "sorted_wrt (<) (t # u # taps) \<longleftrightarrow> sorted_wrt (<) (u # taps)" using False by auto
    show ?thesis unfolding eq tr using IH .
  qed
qed auto

text \<open>
  A tempo is only ever learned from at least two strictly increasing taps, and it is always a
  legal tempo; too few taps or taps out of order are reported as such, and a tempo outside the
  legal range is refused.
\<close>
theorem TapTempo_sound:
  "case TapTempo taps of
     Inr bpm \<Rightarrow> 2 \<le> length taps \<and> sorted_wrt (<) taps \<and> ValidateBPM bpm = None
   | Inl e \<Rightarrow> e = Code (if 2 \<le> length taps \<and> sorted_wrt (<) taps then ''GOLC_PLAYBACK_BPM_INVALID''
                    else ''GOLC_PLAYBACK_TAP_INVALID'')"
proof -
  have bpm: "ValidateBPM b = None \<or> ValidateBPM b = Some (Code ''GOLC_PLAYBACK_BPM_INVALID'')" for b
    by (simp add: ValidateBPM_def)
  show ?thesis
    using tapIntervals_sorted [where tot = "Fin 0" and taps = taps] bpm
    by (cases "tapIntervals (Fin 0) taps")
       (auto simp: TapTempo_def Let_def guard_err_def split: option.splits sum.splits, (metis option.distinct(1) option.inject)+)
qed

text \<open>
  Preserving the position across a tempo change is not exact: the new epoch is truncated to
  whole nanoseconds, so a position exactly on a bar boundary can fall back into the previous
  bar (here bar 1 at 120 BPM becomes the end of bar 0 at 7 BPM).
\<close>
theorem RecomputeEpoch_can_lose_bar:
  "pos_BarIndex (Position 2000000000 (Fin 120) 4 0) = 1 \<and>
   pos_BarIndex (Position 2000000000 (Fin 7) 4 (RecomputeEpoch True (Fin 120) (Fin 7) 4 0 2000000000)) = 0"
  by code_simp

end
