(* ===== verification/Playback.thy ===== *)
theory Playback
  imports ShowStore Clock
begin

text \<open>
  \<open>src/internal/playback\<close>, the pure part: compiling the active scene of a show into an immutable
  plan (\<open>compile.go\<close>), evaluating a plan at a musical position (\<open>evaluate.go\<close>) into a frame
  (\<open>frame.go\<close>).  A Go map from instances to attribute sets is a partial function; a membership map
  \<open>map[uuid.UUID]bool\<close> that only ever stores \<open>true\<close> is a set.
\<close>

section \<open>compile.go\<close>

record CompiledChaseStep =
  cs_Attributes :: "PresetAttribute list"
  cs_Instances :: "uuid set"

record CompiledLayer =
  cl_Kind :: LayerKind
  cl_Enabled :: bool
  cl_Instances :: "uuid set"
  cl_Preset :: "Preset option"
  cl_Theme :: "Theme option"
  cl_Chase :: "Chase option"
  cl_ChaseSteps :: "CompiledChaseStep list"
  cl_MotionPreset :: "MotionPreset option"

record CompiledPlan =
  plan_SceneID :: uuid
  plan_BPM :: f64
  plan_BarsPerLoop :: int
  plan_PreserveOnBPMChange :: bool
  plan_Layers :: "LayerKind \<rightharpoonup> CompiledLayer"

abbreviation plan_invalid :: string where "plan_invalid \<equiv> ''GOLC_PLAYBACK_PLAN_INVALID''"

definition ErrNoActiveScene :: golc_error where
  "ErrNoActiveScene = Code ''GOLC_PLAYBACK_NO_ACTIVE_SCENE''"

definition instanceSet :: "ResolvedInstance list \<Rightarrow> uuid set" where
  "instanceSet resolved = set (map res_InstanceID resolved)"

definition findPreset :: "Preset list \<Rightarrow> uuid \<Rightarrow> Preset option" where
  "findPreset ps i = find_by preset_ID i ps"

definition findTheme :: "Theme list \<Rightarrow> uuid \<Rightarrow> Theme option" where
  "findTheme ts i = find_by theme_ID i ts"

definition findChase :: "Chase list \<Rightarrow> uuid \<Rightarrow> Chase option" where
  "findChase cs i = find_by chase_ID i cs"

definition findMotionPreset :: "MotionPreset list \<Rightarrow> uuid \<Rightarrow> MotionPreset option" where
  "findMotionPreset ms i = find_by motion_ID i ms"

definition resolveIn :: "State \<Rightarrow> Selection \<Rightarrow> ResolvedInstance list result" where
  "resolveIn state sel = Resolve (st_Pools state) (st_Groups state) (st_Deployments state) sel"

fun compileChaseSteps :: "State \<Rightarrow> ChaseStep list \<Rightarrow> uuid set \<Rightarrow> CompiledChaseStep list result" where
  "compileChaseSteps state [] layerInstances = Inr []"
| "compileChaseSteps state (step # steps) layerInstances =
     bind_res
       (case step_Selection step of
          None \<Rightarrow> Inr layerInstances
        | Some sel \<Rightarrow>
            (case resolveIn state sel of
               Inl e \<Rightarrow> Inl (Wrap plan_invalid e)
             | Inr resolved \<Rightarrow> Inr (instanceSet resolved)))
       (\<lambda>instances.
          bind_res (compileChaseSteps state steps layerInstances) (\<lambda>rest.
            Inr (\<lparr>cs_Attributes = step_Attributes step, cs_Instances = instances\<rparr> # rest)))"

text \<open>The \<open>switch layer.Kind\<close> of \<open>compileLayer\<close>: the object the layer refers to.\<close>
definition compileRef :: "State \<Rightarrow> Layer \<Rightarrow> CompiledLayer \<Rightarrow> CompiledLayer result" where
  "compileRef state layer compiled =
     (if layer_Kind layer = BaseLook then
        (case findPreset (st_Presets state) (layer_Ref layer) of
           None \<Rightarrow> Inl (Code plan_invalid)
         | Some preset \<Rightarrow>
             (case ValidatePreset preset of
                Some e \<Rightarrow> Inl (Wrap plan_invalid e)
              | None \<Rightarrow> Inr (compiled\<lparr>cl_Preset := Some preset\<rparr>)))
      else if layer_Kind layer = ColorThemeLayer then
        (case findTheme (st_Themes state) (layer_Ref layer) of
           None \<Rightarrow> Inl (Code plan_invalid)
         | Some theme \<Rightarrow> Inr (compiled\<lparr>cl_Theme := Some theme\<rparr>))
      else if layer_Kind layer = ChaseLayer then
        (case findChase (st_Chases state) (layer_Ref layer) of
           None \<Rightarrow> Inl (Code plan_invalid)
         | Some chase \<Rightarrow>
             (case ValidateChase chase of
                Some e \<Rightarrow> Inl (Wrap plan_invalid e)
              | None \<Rightarrow>
                  bind_res (compileChaseSteps state (chase_Steps chase) (cl_Instances compiled)) (\<lambda>steps.
                    Inr (compiled\<lparr>cl_Chase := Some chase, cl_ChaseSteps := steps\<rparr>))))
      else if layer_Kind layer = MotionLayer then
        (case findMotionPreset (st_MotionPresets state) (layer_Ref layer) of
           None \<Rightarrow> Inl (Code plan_invalid)
         | Some motionPreset \<Rightarrow>
             (case ValidateMotionPreset motionPreset of
                Some e \<Rightarrow> Inl (Wrap plan_invalid e)
              | None \<Rightarrow> Inr (compiled\<lparr>cl_MotionPreset := Some motionPreset\<rparr>)))
      else Inl (Code plan_invalid))"

definition compileLayer :: "State \<Rightarrow> Layer \<Rightarrow> CompiledLayer result" where
  "compileLayer state layer =
     (case resolveIn state (layer_Selection layer) of
        Inl e \<Rightarrow> Inl (Wrap plan_invalid e)
      | Inr resolved \<Rightarrow>
          let compiled = \<lparr>cl_Kind = layer_Kind layer, cl_Enabled = layer_Enabled layer,
                cl_Instances = instanceSet resolved, cl_Preset = None, cl_Theme = None, cl_Chase = None,
                cl_ChaseSteps = [], cl_MotionPreset = None\<rparr> in
          if layer_Ref layer = uuid_nil then Inr compiled
          else compileRef state layer compiled)"

definition findActiveScene :: "Scene list \<Rightarrow> Scene option" where
  "findActiveScene scenes = find scene_Active scenes"

fun compileLayers ::
  "State \<Rightarrow> Layer list \<Rightarrow> (LayerKind \<rightharpoonup> CompiledLayer) \<Rightarrow> (LayerKind \<rightharpoonup> CompiledLayer) result" where
  "compileLayers state [] layers = Inr layers"
| "compileLayers state (layer # rest) layers =
     bind_res (compileLayer state layer) (\<lambda>compiled.
       compileLayers state rest (layers(layer_Kind layer \<mapsto> compiled)))"

definition Compile :: "State \<Rightarrow> CompiledPlan result" where
  "Compile state =
     (case findActiveScene (st_Scenes state) of
        None \<Rightarrow> Inl ErrNoActiveScene
      | Some activeScene \<Rightarrow>
          (case ValidateBPM (tempo_BPM (st_Tempo state)) of
             Some e \<Rightarrow> Inl (Wrap plan_invalid e)
           | None \<Rightarrow>
               bind_res (compileLayers state (scene_Layers activeScene) Map.empty) (\<lambda>layers.
                 Inr \<lparr>plan_SceneID = scene_ID activeScene, plan_BPM = tempo_BPM (st_Tempo state),
                      plan_BarsPerLoop = scene_BarsPerLoop activeScene,
                      plan_PreserveOnBPMChange = scene_PreservePosition activeScene,
                      plan_Layers = layers\<rparr>)))"

section \<open>frame.go\<close>

type_synonym Frame = "uuid \<rightharpoonup> AttributeSet"

section \<open>evaluate.go\<close>

definition positionInBars :: "MusicalPosition \<Rightarrow> f64" where
  "positionInBars pos = f_of_int (pos_BarIndex pos) + pos_BeatFraction pos"

text \<open>A missing key reads as the zero \<open>AttributeSet\<close>, which has no values.\<close>
definition attrs_at :: "Frame \<Rightarrow> uuid \<Rightarrow> AttributeSet" where
  "attrs_at f i = (case f i of None \<Rightarrow> Map.empty | Some a \<Rightarrow> a)"

definition overlayAttribute :: "Frame \<Rightarrow> uuid \<Rightarrow> CapabilityType \<Rightarrow> f64 \<Rightarrow> Frame" where
  "overlayAttribute contributions i capability v =
     contributions(i \<mapsto> Overlay (attrs_at contributions i) [capability \<mapsto> v])"

definition overlayPresetAttributes :: "uuid set \<Rightarrow> PresetAttribute list \<Rightarrow> Frame" where
  "overlayPresetAttributes instances attrs =
     fold (\<lambda>attr contributions.
        if attr_InstanceID attr \<notin> instances then contributions
        else overlayAttribute contributions (attr_InstanceID attr) (attr_Capability attr) (attr_Value attr))
       attrs Map.empty"

definition resolveBaseLook :: "CompiledLayer \<Rightarrow> Frame" where
  "resolveBaseLook layer =
     (case cl_Preset layer of
        None \<Rightarrow> Map.empty
      | Some preset \<Rightarrow> overlayPresetAttributes (cl_Instances layer) (preset_Attributes preset))"

definition resolveColorTheme :: "CompiledLayer \<Rightarrow> Frame" where
  "resolveColorTheme layer =
     (case cl_Theme layer of
        None \<Rightarrow> Map.empty
      | Some theme \<Rightarrow>
          fold (\<lambda>assignment contributions.
             if color_InstanceID assignment \<notin> cl_Instances layer then contributions
             else overlayAttribute contributions (color_InstanceID assignment) CapabilityColor (color_Value assignment))
            (theme_Colors theme) Map.empty)"

definition chaseStepIndex :: "f64 \<Rightarrow> StepUnit \<Rightarrow> f64 \<Rightarrow> int \<Rightarrow> int" where
  "chaseStepIndex bars stepUnit stepDuration stepCount =
     (if stepCount = 0 \<or> stepDuration \<le> Fin 0 then 0
      else
        let unt = (if stepUnit = StepUnitBeat then bars * beatsPerBar else bars);
            step = go_rem (f_to_int (unt / stepDuration)) stepCount
        in if step < 0 then step + stepCount else step)"

definition resolveChase :: "CompiledLayer \<Rightarrow> MusicalPosition \<Rightarrow> Frame" where
  "resolveChase layer pos =
     (case cl_Chase layer of
        None \<Rightarrow> Map.empty
      | Some chase \<Rightarrow>
          if cl_ChaseSteps layer = [] then Map.empty
          else
            let index = chaseStepIndex (positionInBars pos) (chase_StepUnit chase) (chase_StepDuration chase)
                          (int (length (cl_ChaseSteps layer)));
                step = cl_ChaseSteps layer ! nat index
            in overlayPresetAttributes (cs_Instances step) (cs_Attributes step))"

definition motionPhase :: "f64 \<Rightarrow> int \<Rightarrow> f64" where
  "motionPhase bars barsPerLoop = (if barsPerLoop \<le> 0 then Fin 0 else bars / f_of_int barsPerLoop)"

definition activeMotionKeyframe :: "MotionKeyframe list \<Rightarrow> f64 \<Rightarrow> MotionKeyframe" where
  "activeMotionKeyframe keyframes phase =
     (let srt = sort_slice (\<lambda>a b. kf_Phase a < kf_Phase b) keyframes in
      fold (\<lambda>k active. if kf_Phase k \<le> phase then k else active) srt (last srt))"

definition keyframeValues :: "MotionKeyframeValue list \<Rightarrow> AttributeSet" where
  "keyframeValues vs = fold (\<lambda>v m. m(kv_Capability v \<mapsto> kv_Value v)) vs Map.empty"

definition resolveMotion :: "CompiledLayer \<Rightarrow> MusicalPosition \<Rightarrow> int \<Rightarrow> Frame" where
  "resolveMotion layer pos barsPerLoop =
     (case cl_MotionPreset layer of
        None \<Rightarrow> Map.empty
      | Some motionPreset \<Rightarrow>
          if motion_Keyframes motionPreset = [] then Map.empty
          else
            let keyframe = activeMotionKeyframe (motion_Keyframes motionPreset)
                             (motionPhase (positionInBars pos) barsPerLoop)
            in (\<lambda>i. if i \<in> cl_Instances layer then Some (keyframeValues (kf_Values keyframe)) else None))"

definition resolveLayerContribution :: "LayerKind \<Rightarrow> CompiledLayer \<Rightarrow> MusicalPosition \<Rightarrow> int \<Rightarrow> Frame" where
  "resolveLayerContribution kind layer pos barsPerLoop =
     (if kind = BaseLook then resolveBaseLook layer
      else if kind = ColorThemeLayer then resolveColorTheme layer
      else if kind = ChaseLayer then resolveChase layer pos
      else if kind = MotionLayer then resolveMotion layer pos barsPerLoop
      else Map.empty)"

definition overlayContribution :: "Frame \<Rightarrow> Frame \<Rightarrow> Frame" where
  "overlayContribution perInstance contribution =
     (\<lambda>i. case contribution i of
        None \<Rightarrow> perInstance i
      | Some attrs \<Rightarrow> Some (Overlay (attrs_at perInstance i) attrs))"

definition Evaluate :: "CompiledPlan \<Rightarrow> MusicalPosition \<Rightarrow> Frame" where
  "Evaluate plan pos =
     fold (\<lambda>kind perInstance.
        case plan_Layers plan kind of
          None \<Rightarrow> perInstance
        | Some layer \<Rightarrow>
            if \<not> cl_Enabled layer then perInstance
            else overlayContribution perInstance
                   (resolveLayerContribution kind layer pos (plan_BarsPerLoop plan)))
       layerPriority Map.empty"

section \<open>Chase steps and motion keyframes\<close>

lemma go_rem_bounds:
  assumes "0 < b"
  shows "- b < go_rem a b \<and> go_rem a b < b"
proof (cases "0 \<le> a")
  case True
  then have "go_rem a b = a mod b" using assms by (rule go_rem_nonneg)
  then show ?thesis using assms pos_mod_bound [OF assms, of a] pos_mod_sign [OF assms, of a] by linarith
next
  case False
  then have "go_rem a b = - ((- a) mod b)"
    using assms by (simp add: go_rem_def go_quot_def minus_div_mult_eq_mod [symmetric])
  then show ?thesis using assms pos_mod_bound [OF assms, of "- a"] pos_mod_sign [OF assms, of "- a"] by linarith
qed

lemma chaseStepIndex_bounds:
  assumes "0 < stepCount"
  shows "0 \<le> chaseStepIndex bars stepUnit stepDuration stepCount \<and>
         chaseStepIndex bars stepUnit stepDuration stepCount < stepCount"
proof -
  have "0 \<le> (if go_rem x stepCount < 0 then go_rem x stepCount + stepCount else go_rem x stepCount) \<and>
        (if go_rem x stepCount < 0 then go_rem x stepCount + stepCount else go_rem x stepCount) < stepCount" for x
    using go_rem_bounds [OF assms, of x] by auto
  then show ?thesis using assms unfolding chaseStepIndex_def Let_def by (cases "stepDuration \<le> Fin 0") auto
qed

text \<open>
  The step of a chase is always one of its steps.  Whatever the position, the step unit and the
  step duration (also not-a-number ones), a chase with at least one step gets an index within its
  steps, so the unchecked slice access of \<open>resolveChase\<close> cannot fail.
\<close>
theorem chaseStepIndex_in_range:
  assumes "0 < stepCount"
  shows "0 \<le> chaseStepIndex bars stepUnit stepDuration stepCount \<and>
         chaseStepIndex bars stepUnit stepDuration stepCount < stepCount"
  using chaseStepIndex_bounds [OF assms] .

theorem chaseStepIndex_in_range_witness:
  "chaseStepIndex F_NaN StepUnitBeat F_NaN 3 < 3"
  using chaseStepIndex_in_range [of 3 F_NaN StepUnitBeat F_NaN] by simp

lemma f64_less_asym: "x < y \<Longrightarrow> \<not> y < (x :: f64)"
  by (cases x; cases y) auto

lemma f64_not_less_trans:
  "\<lbrakk>x \<noteq> F_NaN; y \<noteq> F_NaN; z \<noteq> F_NaN; \<not> y < x; \<not> z < y\<rbrakk> \<Longrightarrow> \<not> z < (x :: f64)"
  by (cases x; cases y; cases z) auto

interpretation keyframe_sort: slice_order "\<lambda>k. kf_Phase k \<noteq> F_NaN" "\<lambda>a b. kf_Phase a < kf_Phase b"
  by unfold_locales (simp add: f64_less_asym, rule f64_not_less_trans)

lemma fold_last_match:
  "fold (\<lambda>k active. if P k then k else active) xs d = (if filter P xs = [] then d else last (filter P xs))"
  by (induction xs arbitrary: d) auto

lemma sorted_wrt_last: "sorted_wrt R xs \<Longrightarrow> x \<in> set xs \<Longrightarrow> x = last xs \<or> R x (last xs)"
  by (induction xs) auto

text \<open>
  Motion follows its keyframes as a step function.  For keyframes with proper phases, the active
  keyframe is one of the authored ones: a latest one whose phase has been reached, or, before
  every authored phase, one with the greatest phase of all.
\<close>
theorem activeMotionKeyframe_latest:
  assumes "keyframes \<noteq> []" and "\<forall>k\<in>set keyframes. kf_Phase k \<noteq> F_NaN"
  shows "activeMotionKeyframe keyframes phase \<in> set keyframes \<and>
    (if \<exists>k\<in>set keyframes. kf_Phase k \<le> phase
     then kf_Phase (activeMotionKeyframe keyframes phase) \<le> phase \<and>
       (\<forall>k\<in>set keyframes. kf_Phase k \<le> phase \<longrightarrow> \<not> kf_Phase (activeMotionKeyframe keyframes phase) < kf_Phase k)
     else \<forall>k\<in>set keyframes. \<not> kf_Phase (activeMotionKeyframe keyframes phase) < kf_Phase k)"
proof -
  let ?srt = "sort_slice (\<lambda>a b. kf_Phase a < kf_Phase b) keyframes"
  let ?due = "filter (\<lambda>k. kf_Phase k \<le> phase) ?srt"
  have srt: "sorted_wrt (\<lambda>a b. \<not> kf_Phase b < kf_Phase a) ?srt"
    using assms(2) by (rule keyframe_sort.sort_slice_sorted)
  then have due: "sorted_wrt (\<lambda>a b. \<not> kf_Phase b < kf_Phase a) ?due" by (rule sorted_wrt_filter)
  have irr: "\<not> x < x" for x :: f64 by (cases x) simp_all
  have ne: "?srt \<noteq> []" using assms(1) by (metis length_0_conv sort_slice_length)
  have act: "activeMotionKeyframe keyframes phase = (if ?due = [] then last ?srt else last ?due)"
    by (simp add: activeMotionKeyframe_def Let_def fold_last_match)
  show ?thesis
  proof (cases "?due = []")
    case True
    then have "\<not> (\<exists>k\<in>set keyframes. kf_Phase k \<le> phase)" by (simp add: filter_empty_conv)
    moreover have "last ?srt \<in> set keyframes" using last_in_set [OF ne] by simp
    moreover have "\<not> kf_Phase (last ?srt) < kf_Phase k" if "k \<in> set keyframes" for k
      using sorted_wrt_last [OF srt, of k] irr that by (metis sort_slice_set)
    ultimately show ?thesis using True act by simp
  next
    case False
    then have "last ?due \<in> set ?due" by (rule last_in_set)
    moreover have "\<not> kf_Phase (last ?due) < kf_Phase k" if "k \<in> set keyframes" "kf_Phase k \<le> phase" for k
      using sorted_wrt_last [OF due, of k] irr that by auto
    ultimately show ?thesis using False act by auto
  qed
qed

theorem activeMotionKeyframe_latest_witness:
  "kf_Phase (activeMotionKeyframe [\<lparr>kf_Phase = Fin (1/2), kf_Values = []\<rparr>, \<lparr>kf_Phase = Fin 0, kf_Values = []\<rparr>] (Fin (1/4))) \<le> Fin (1/4)"
  using activeMotionKeyframe_latest
    [of "[\<lparr>kf_Phase = Fin (1/2), kf_Values = []\<rparr>, \<lparr>kf_Phase = Fin 0, kf_Values = []\<rparr>]" "Fin (1/4)"] by simp

section \<open>Evaluation is the layer reduction\<close>

text \<open>What the compiled layers contribute to one instance, as the contributions of \<open>layer.go\<close>.\<close>
definition contributionsFor :: "CompiledPlan \<Rightarrow> MusicalPosition \<Rightarrow> uuid \<Rightarrow> LayerContribution list" where
  "contributionsFor plan pos i =
     List.map_filter (\<lambda>kind. map_option (\<lambda>layer.
         \<lparr>lc_Kind = kind, lc_Enabled = cl_Enabled layer,
          lc_Attributes = attrs_at (resolveLayerContribution kind layer pos (plan_BarsPerLoop plan)) i\<rparr>)
       (plan_Layers plan kind)) layerPriority"

lemma Overlay_empty [simp]: "Overlay a Map.empty = a"
  by (simp add: Overlay_def fun_eq_iff)

lemma attrs_overlayContribution:
  "attrs_at (overlayContribution f c) i = Overlay (attrs_at f i) (attrs_at c i)"
  by (simp add: attrs_at_def overlayContribution_def split: option.split)

lemma find_by_append:
  "find_by k i (xs @ ys) = (case find_by k i xs of None \<Rightarrow> find_by k i ys | Some v \<Rightarrow> Some v)"
  by (induction xs) auto

lemma find_by_rev_map_filter:
  assumes "\<And>k v. key (g k v) = k" "distinct ks"
  shows "find_by key k (rev (List.map_filter (\<lambda>k. map_option (g k) (L k)) ks)) =
    (if k \<in> set ks then map_option (g k) (L k) else None)"
  using assms(2)
proof (induction ks)
  case (Cons k' ks)
  then show ?case
    using assms(1) by (cases "L k'") (auto simp: List.map_filter_simps find_by_append split: option.split)
qed (simp add: List.map_filter_simps)

lemma find_contribution:
  assumes "kind \<in> set layerPriority"
  shows "find_by lc_Kind kind (rev (contributionsFor plan pos i)) = map_option (\<lambda>layer.
         \<lparr>lc_Kind = kind, lc_Enabled = cl_Enabled layer,
          lc_Attributes = attrs_at (resolveLayerContribution kind layer pos (plan_BarsPerLoop plan)) i\<rparr>)
       (plan_Layers plan kind)"
  unfolding contributionsFor_def
  by (subst find_by_rev_map_filter) (use assms in \<open>simp_all add: layerPriority_def\<close>)

text \<open>
  C19: the playback evaluator and the scene layer reduction agree.  For every plan, position and
  instance, the attributes \<open>Evaluate\<close> publishes are those \<open>ReduceLayers\<close> computes from the layers'
  contributions to that instance: the fixed order base look, colour theme, chase, motion decides,
  and a disabled or absent layer contributes nothing.
\<close>
theorem Evaluate_is_ReduceLayers:
  "attrs_at (Evaluate plan pos) i = ReduceLayers (contributionsFor plan pos i)"
proof -
  have "attrs_at (fold (\<lambda>kind perInstance.
        case plan_Layers plan kind of
          None \<Rightarrow> perInstance
        | Some layer \<Rightarrow>
            if \<not> cl_Enabled layer then perInstance
            else overlayContribution perInstance
                   (resolveLayerContribution kind layer pos (plan_BarsPerLoop plan))) kinds f) i =
     fold (\<lambda>kind acc.
        case find_by lc_Kind kind (rev (contributionsFor plan pos i)) of
          None \<Rightarrow> acc
        | Some c \<Rightarrow> if lc_Enabled c then Overlay acc (lc_Attributes c) else acc) kinds (attrs_at f i)"
    if "set kinds \<subseteq> set layerPriority" for kinds f
    using that
  proof (induction kinds arbitrary: f)
    case (Cons kind kinds)
    then show ?case
      by (cases "plan_Layers plan kind") (auto simp: find_contribution attrs_overlayContribution)
  qed simp
  from this [of layerPriority Map.empty] show ?thesis
    by (simp add: Evaluate_def ReduceLayers_def attrs_at_def)
qed

section \<open>Which instances a plan can reach\<close>

definition patched :: "State \<Rightarrow> uuid set" where
  "patched state = {inst_ID i |d i. d \<in> set (st_Deployments state) \<and> i \<in> set (dep_Instances d)}"

definition layer_reach :: "CompiledLayer \<Rightarrow> uuid set" where
  "layer_reach layer = cl_Instances layer \<union> (\<Union>step\<in>set (cl_ChaseSteps layer). cs_Instances step)"

lemma dom_overlayAttribute: "dom (overlayAttribute f i c v) = insert i (dom f)"
  by (simp add: overlayAttribute_def)

lemma dom_fold_overlay:
  assumes "\<And>x f. dom (g x f) \<subseteq> I \<union> dom f"
  shows "dom (fold g xs f) \<subseteq> I \<union> dom f"
proof (induction xs arbitrary: f)
  case (Cons x xs)
  have "dom (fold g xs (g x f)) \<subseteq> I \<union> dom (g x f)" by (rule Cons.IH)
  also have "\<dots> \<subseteq> I \<union> dom f" using assms [of x f] by blast
  finally show ?case by simp
qed simp

lemma dom_overlayPresetAttributes: "dom (overlayPresetAttributes I attrs) \<subseteq> I"
proof -
  have "dom (overlayPresetAttributes I attrs) \<subseteq> I \<union> dom (Map.empty :: Frame)"
    unfolding overlayPresetAttributes_def by (rule dom_fold_overlay) (simp add: dom_overlayAttribute subset_insertI2)
  then show ?thesis by simp
qed

lemma dom_resolveColorTheme: "dom (resolveColorTheme layer) \<subseteq> cl_Instances layer"
proof (cases "cl_Theme layer")
  case (Some theme)
  have "dom (resolveColorTheme layer) \<subseteq> cl_Instances layer \<union> dom (Map.empty :: Frame)"
    unfolding resolveColorTheme_def Some option.case
    by (rule dom_fold_overlay) (simp add: dom_overlayAttribute subset_insertI2)
  then show ?thesis by simp
qed (simp add: resolveColorTheme_def)

lemma dom_resolveChase: "dom (resolveChase layer pos) \<subseteq> layer_reach layer"
proof (cases "cl_Chase layer")
  case (Some chase)
  let ?n = "length (cl_ChaseSteps layer)"
  define ix where "ix = chaseStepIndex (positionInBars pos) (chase_StepUnit chase) (chase_StepDuration chase) (int ?n)"
  have "dom (overlayPresetAttributes (cs_Instances (cl_ChaseSteps layer ! nat ix)) (cs_Attributes (cl_ChaseSteps layer ! nat ix)))
      \<subseteq> layer_reach layer" if "cl_ChaseSteps layer \<noteq> []"
  proof -
    have "0 \<le> ix \<and> ix < int ?n"
      unfolding ix_def by (rule chaseStepIndex_bounds) (use that in simp)
    then have "cl_ChaseSteps layer ! nat ix \<in> set (cl_ChaseSteps layer)" by (intro nth_mem) (simp add: nat_less_iff)
    then show ?thesis using dom_overlayPresetAttributes by (fastforce simp: layer_reach_def)
  qed
  then show ?thesis using Some by (simp add: resolveChase_def Let_def flip: ix_def)
qed (simp add: resolveChase_def)

lemma dom_resolveLayerContribution: "dom (resolveLayerContribution kind layer pos n) \<subseteq> layer_reach layer"
proof -
  have sub: "cl_Instances layer \<subseteq> layer_reach layer" by (simp add: layer_reach_def)
  have 1: "dom (resolveBaseLook layer) \<subseteq> cl_Instances layer"
    using dom_overlayPresetAttributes [of "cl_Instances layer"]
    by (cases "cl_Preset layer") (simp_all add: resolveBaseLook_def)
  have 2: "dom (resolveMotion layer pos n) \<subseteq> cl_Instances layer"
    by (auto simp: resolveMotion_def Let_def split: option.splits if_splits)
  show ?thesis
    using subset_trans [OF 1 sub] subset_trans [OF 2 sub] subset_trans [OF dom_resolveColorTheme sub]
      dom_resolveChase [of layer pos]
    by (simp add: resolveLayerContribution_def)
qed

lemma dom_Evaluate:
  "i \<in> dom (Evaluate plan pos) \<Longrightarrow>
   \<exists>kind layer. plan_Layers plan kind = Some layer \<and> cl_Enabled layer \<and> i \<in> layer_reach layer"
proof -
  let ?I = "{i. \<exists>kind layer. plan_Layers plan kind = Some layer \<and> cl_Enabled layer \<and> i \<in> layer_reach layer}"
  have "dom (Evaluate plan pos) \<subseteq> ?I \<union> dom (Map.empty :: Frame)"
    unfolding Evaluate_def
  proof (rule dom_fold_overlay)
    fix kind and f :: Frame
    show "dom (case plan_Layers plan kind of None \<Rightarrow> f
        | Some layer \<Rightarrow> if \<not> cl_Enabled layer then f
            else overlayContribution f (resolveLayerContribution kind layer pos (plan_BarsPerLoop plan))) \<subseteq> ?I \<union> dom f"
      using dom_resolveLayerContribution
      by (fastforce simp: overlayContribution_def dom_def split: option.splits if_splits)
  qed
  then show "i \<in> dom (Evaluate plan pos) \<Longrightarrow> ?thesis" by auto
qed

lemma resolveIn_patched: "resolveIn state sel = Inr rs \<Longrightarrow> instanceSet rs \<subseteq> patched state"
  by (auto simp: resolveIn_def Resolve_Inr_iff instanceSet_def patched_def resolveWalk_ids declared_def)

lemma compileChaseSteps_patched:
  assumes "I \<subseteq> patched state" "compileChaseSteps state steps I = Inr cs"
  shows "(\<Union>c\<in>set cs. cs_Instances c) \<subseteq> patched state"
  using assms(2)
proof (induction steps arbitrary: cs)
  case (Cons step steps)
  obtain I' rest where c: "compileChaseSteps state steps I = Inr rest"
    "cs = \<lparr>cs_Attributes = step_Attributes step, cs_Instances = I'\<rparr> # rest" and
    I': "I' = I \<or> (\<exists>sel rs. resolveIn state sel = Inr rs \<and> I' = instanceSet rs)"
    using Cons.prems by (auto simp: bind_res_Inr_iff split: option.splits sum.splits)
  have "I' \<subseteq> patched state" using I' assms(1) by (auto dest: resolveIn_patched)
  then show ?case using Cons.IH [OF c(1)] c(2) by simp
qed simp

lemma compileLayer_reach:
  assumes "compileLayer state layer = Inr c"
  shows "layer_reach c \<subseteq> patched state" "cl_Kind c = layer_Kind layer" "cl_Enabled c = layer_Enabled layer"
proof -
  obtain rs where rs: "resolveIn state (layer_Selection layer) = Inr rs"
    using assms by (cases "resolveIn state (layer_Selection layer)") (auto simp: compileLayer_def)
  note p = resolveIn_patched [OF rs]
  have ref: "compileRef state layer k = Inr c \<Longrightarrow> cl_Kind c = cl_Kind k \<and> cl_Enabled c = cl_Enabled k \<and>
      cl_Instances c = cl_Instances k \<and> (cl_ChaseSteps c = cl_ChaseSteps k \<or>
        (\<exists>chase :: Chase. compileChaseSteps state (chase_Steps chase) (cl_Instances k) = Inr (cl_ChaseSteps c)))" for k
    by (auto simp: compileRef_def bind_res_Inr_iff split: if_splits option.splits)
  show "cl_Kind c = layer_Kind layer" "cl_Enabled c = layer_Enabled layer"
    using assms rs by (auto simp: compileLayer_def Let_def dest: ref split: if_splits)
  have "cl_Instances c = instanceSet rs \<and>
      (cl_ChaseSteps c = [] \<or> (\<exists>chase :: Chase. compileChaseSteps state (chase_Steps chase) (instanceSet rs) = Inr (cl_ChaseSteps c)))"
    using assms rs by (auto simp: compileLayer_def Let_def dest: ref split: if_splits)
  then show "layer_reach c \<subseteq> patched state"
  proof (elim conjE disjE exE)
    fix chase :: Chase
    assume c: "cl_Instances c = instanceSet rs"
      "compileChaseSteps state (chase_Steps chase) (instanceSet rs) = Inr (cl_ChaseSteps c)"
    show ?thesis using p compileChaseSteps_patched [OF p c(2)] by (simp add: layer_reach_def c(1))
  qed (use p in \<open>simp add: layer_reach_def\<close>)
qed

lemma compileLayers_Inr:
  assumes "compileLayers state layers m = Inr m'"
  shows "dom m' = dom m \<union> layer_Kind ` set layers \<and>
    (\<forall>kind c. m' kind = Some c \<longrightarrow> m kind = Some c \<or> (\<exists>l\<in>set layers. layer_Kind l = kind \<and> compileLayer state l = Inr c))"
  using assms
proof (induction layers arbitrary: m)
  case (Cons l layers)
  obtain c where c: "compileLayer state l = Inr c" "compileLayers state layers (m(layer_Kind l \<mapsto> c)) = Inr m'"
    using Cons.prems by (auto simp: bind_res_Inr_iff)
  show ?case using Cons.IH [OF c(2)] c(1) by (auto split: if_splits)
qed simp

text \<open>
  Playback only ever drives patched instances.  In the frame of a compiled plan every instance
  belongs to the selection of some enabled layer (or of a step of its chase) and is an instance
  of one of the show's deployments.
\<close>
theorem Evaluate_only_patched:
  assumes "Compile state = Inr plan" and "Evaluate plan pos i = Some attrs"
  shows "i \<in> patched state \<and>
    (\<exists>kind layer. plan_Layers plan kind = Some layer \<and> cl_Enabled layer \<and> i \<in> layer_reach layer)"
proof -
  obtain kind layer where l: "plan_Layers plan kind = Some layer" "cl_Enabled layer" "i \<in> layer_reach layer"
    using dom_Evaluate [of i plan pos] assms(2) by blast
  have "\<exists>sc :: Scene. compileLayers state (scene_Layers sc) Map.empty = Inr (plan_Layers plan)"
    using assms(1) by (auto simp: Compile_def bind_res_Inr_iff split: option.splits)
  then obtain sc :: Scene where "compileLayers state (scene_Layers sc) Map.empty = Inr (plan_Layers plan)" ..
  from compileLayers_Inr [OF this] obtain src where "compileLayer state src = Inr layer" using l(1) by force
  from compileLayer_reach(1) [OF this] show ?thesis using l by blast
qed

definition plan_error :: "golc_error \<Rightarrow> bool" where
  "plan_error e \<longleftrightarrow> e = Code plan_invalid \<or> (\<exists>e'. e = Wrap plan_invalid e')"

lemma compileChaseSteps_error: "compileChaseSteps state steps I = Inl e \<Longrightarrow> plan_error e"
proof (induction steps)
  case (Cons step steps)
  then show ?case
    by (auto simp: plan_error_def bind_res_def split: option.splits sum.splits)
qed simp

lemma plan_error_simps [simp]: "plan_error (Code plan_invalid)" "plan_error (Wrap plan_invalid e)"
  by (simp_all add: plan_error_def)

lemma compileRef_error: "compileRef state layer compiled = Inl e \<Longrightarrow> plan_error e"
proof -
  have chase: "case bind_res (compileChaseSteps state steps I) (\<lambda>cs. Inr (f cs)) of Inl e \<Rightarrow> plan_error e | Inr _ \<Rightarrow> True"
    for steps I and f :: "CompiledChaseStep list \<Rightarrow> CompiledLayer"
    using compileChaseSteps_error [of state steps I] by (cases "compileChaseSteps state steps I") simp_all
  have "case compileRef state layer compiled of Inl e \<Rightarrow> plan_error e | Inr _ \<Rightarrow> True"
    unfolding compileRef_def using chase by (simp split: option.split)
  then show "compileRef state layer compiled = Inl e \<Longrightarrow> ?thesis" by simp
qed

lemma compileLayer_error: "compileLayer state layer = Inl e \<Longrightarrow> plan_error e"
  by (auto simp: compileLayer_def Let_def dest: compileRef_error split: sum.split_asm if_split_asm)

lemma compileLayers_error: "compileLayers state layers m = Inl e \<Longrightarrow> plan_error e"
  by (induction layers arbitrary: m) (auto simp: bind_res_def dest: compileLayer_error split: sum.split_asm)

text \<open>
  Compiling is all or nothing.  \<open>Compile\<close> either fails, with the idle sentinel exactly when no scene
  is active and with the plan-invalid code otherwise, or yields a plan of the first active scene
  that has a compiled layer for every layer of the scene and no other, at a tempo that passes the
  tempo check.
\<close>
theorem Compile_all_or_nothing:
  "case Compile state of
     Inl e \<Rightarrow> if findActiveScene (st_Scenes state) = None then e = ErrNoActiveScene else plan_error e
   | Inr plan \<Rightarrow> (\<exists>sc. findActiveScene (st_Scenes state) = Some sc \<and> plan_SceneID plan = scene_ID sc \<and>
       plan_BarsPerLoop plan = scene_BarsPerLoop sc \<and> plan_BPM plan = tempo_BPM (st_Tempo state) \<and>
       ValidateBPM (plan_BPM plan) = None \<and> dom (plan_Layers plan) = layer_Kind ` set (scene_Layers sc))"
proof (cases "findActiveScene (st_Scenes state)")
  case (Some sc)
  show ?thesis
  proof (cases "ValidateBPM (tempo_BPM (st_Tempo state))")
    case None
    then show ?thesis
      using Some compileLayers_error [of state "scene_Layers sc" Map.empty] compileLayers_Inr [of state "scene_Layers sc" Map.empty]
      by (cases "compileLayers state (scene_Layers sc) Map.empty") (simp_all add: Compile_def)
  next
    case (Some e)
    with \<open>findActiveScene (st_Scenes state) = Some sc\<close> show ?thesis by (simp add: Compile_def plan_error_def)
  qed
qed (simp add: Compile_def)

section \<open>Compiling what was saved\<close>

lemma first_active: "findActiveScene scenes = Some sc \<Longrightarrow> sc \<in> set scenes"
  by (metis find_Some_iff findActiveScene_def nth_mem)

lemma resolveIn_ok: "is_ok (resolveIn state sel) \<longleftrightarrow> selectors_exist (st_Pools state) (st_Groups state) (st_Deployments state) sel"
  by (cases "checkSelectors (st_Pools state) (st_Groups state) (st_Deployments state) sel")
     (simp_all add: resolveIn_def Resolve_def flip: checkSelectors_None)

lemma compileChaseSteps_ok:
  assumes "\<forall>step\<in>set steps. \<forall>sel. step_Selection step = Some sel \<longrightarrow> is_ok (resolveIn state sel)"
  shows "is_ok (compileChaseSteps state steps I)"
  using assms
proof (induction steps)
  case (Cons step steps)
  then have "is_ok (compileChaseSteps state steps I)" by simp
  then show ?case
    using Cons.prems
    by (cases "compileChaseSteps state steps I"; cases "step_Selection step") (auto simp: is_ok_def split: sum.splits)
qed simp

definition chase_steps_resolve :: "State \<Rightarrow> bool" where
  "chase_steps_resolve state \<longleftrightarrow> (\<forall>chase\<in>set (st_Chases state). \<forall>step\<in>set (chase_Steps chase). \<forall>sel.
     step_Selection step = Some sel \<longrightarrow> is_ok (resolveIn state sel))"

lemma find_by_ex: "i \<in> k ` set xs \<Longrightarrow> \<exists>x. find_by k i xs = Some x \<and> x \<in> set xs"
  using find_by_None_iff [of k i xs] find_by_SomeD [of k i xs] by (cases "find_by k i xs") auto

lemma compileRef_ok:
  assumes v: "validate f ok state = None" and sc: "sc \<in> set (st_Scenes state)" and l: "l \<in> set (scene_Layers sc)"
    and ref: "layer_Ref l \<noteq> uuid_nil" and ch: "chase_steps_resolve state"
  shows "is_ok (compileRef state l compiled)"
proof -
  note parts = validate_parts [OF v]
  have "ValidateScene sc = None" using parts(4) sc by blast
  then have "validateLayerKind (layer_Kind l) = None"
    using l by (auto simp: ValidateScene_def split: if_splits)
  then have kind: "layer_Kind l \<in> set layerPriority" by (simp add: validateLayerKind_def split: if_splits)
  have c: "checkLayerReference (st_Themes state) (st_Presets state) (st_Chases state) (st_MotionPresets state) l = None"
    using parts(7) sc l by (simp add: ValidateLayerReferences_def)
  consider (base) "layer_Kind l = BaseLook" | (theme) "layer_Kind l = ColorThemeLayer"
    | (chase) "layer_Kind l = ChaseLayer" | (motion) "layer_Kind l = MotionLayer"
    using kind by (auto simp: layerPriority_def)
  then show ?thesis
  proof cases
    case base
    then have "layer_Ref l \<in> preset_ID ` set (st_Presets state)"
      using c ref by (auto simp: checkLayerReference_def Let_def split: if_splits)
    from find_by_ex [OF this] show ?thesis using base parts(2) by (auto simp: compileRef_def findPreset_def)
  next
    case theme
    then have "layer_Ref l \<in> theme_ID ` set (st_Themes state)"
      using c ref by (auto simp: checkLayerReference_def Let_def split: if_splits)
    from find_by_ex [OF this] show ?thesis using theme by (auto simp: compileRef_def findTheme_def)
  next
    case chase
    then have "layer_Ref l \<in> chase_ID ` set (st_Chases state)"
      using c ref by (auto simp: checkLayerReference_def Let_def split: if_splits)
    from find_by_ex [OF this] obtain x where x: "find_by chase_ID (layer_Ref l) (st_Chases state) = Some x" "x \<in> set (st_Chases state)"
      by blast
    have "is_ok (compileChaseSteps state (chase_Steps x) (cl_Instances compiled))"
      using ch x(2) by (intro compileChaseSteps_ok) (simp add: chase_steps_resolve_def)
    then show ?thesis
      using chase parts(1) x
      by (cases "compileChaseSteps state (chase_Steps x) (cl_Instances compiled)") (auto simp: compileRef_def findChase_def)
  next
    case motion
    then have "layer_Ref l \<in> motion_ID ` set (st_MotionPresets state)"
      using c ref by (auto simp: checkLayerReference_def Let_def split: if_splits)
    from find_by_ex [OF this] show ?thesis using motion parts(3) by (auto simp: compileRef_def findMotionPreset_def)
  qed
qed

lemma compileLayers_ok:
  assumes "\<forall>l\<in>set layers. is_ok (compileLayer state l)"
  shows "is_ok (compileLayers state layers m)"
  using assms
proof (induction layers arbitrary: m)
  case (Cons l layers)
  then show ?case by (cases "compileLayer state l") simp_all
qed simp

text \<open>
  C35: what was saved can be played.  A document that passed the checks of \<open>Save\<close> (scrub, then
  whole-document validation), has an active scene and a valid tempo, and whose chase steps have
  no dangling selection of their own, always compiles: no scene reference and no layer selection
  can fail at playback time.
\<close>
theorem saved_show_compiles:
  assumes "validate (env_uuid_str env) (env_uuid_ok env) (scrubState env s) = None"
    and "findActiveScene (st_Scenes s) \<noteq> None" and "ValidateBPM (tempo_BPM (st_Tempo s)) = None"
    and "chase_steps_resolve s"
  shows "is_ok (Compile (scrubState env s))"
proof -
  let ?s = "scrubState env s"
  have same: "st_Pools ?s = st_Pools s" "st_Groups ?s = st_Groups s" "st_Deployments ?s = st_Deployments s"
    "st_Chases ?s = st_Chases s" "st_Tempo ?s = st_Tempo s"
    "st_Scenes ?s = ScrubDanglingSelections (st_Scenes s) (st_Pools s) (st_Groups s) (st_Deployments s)"
    by (simp_all add: scrubState_def)
  obtain sc0 where "findActiveScene (st_Scenes s) = Some sc0" using assms(2) by blast
  then have "findActiveScene (st_Scenes ?s) \<noteq> None"
    by (auto simp: same findActiveScene_def ScrubDanglingSelections_def find_None_iff find_Some_iff)
  then obtain sc where sc: "findActiveScene (st_Scenes ?s) = Some sc" by blast
  have ch: "chase_steps_resolve ?s" using assms(4) by (simp add: chase_steps_resolve_def resolveIn_def same)
  have "is_ok (compileLayer ?s l)" if l: "l \<in> set (scene_Layers sc)" for l
  proof -
    have "is_ok (resolveIn ?s (layer_Selection l))"
      using first_active [OF sc] l by (auto simp: resolveIn_ok same ScrubDanglingSelections_def ScrubDangling_exist)
    then show ?thesis
      using compileRef_ok [OF assms(1) first_active [OF sc] l _ ch]
      by (cases "resolveIn ?s (layer_Selection l)") (simp_all add: compileLayer_def Let_def)
  qed
  then have "is_ok (compileLayers ?s (scene_Layers sc) Map.empty)" by (intro compileLayers_ok) blast
  then show ?thesis
    using sc assms(3) by (cases "compileLayers ?s (scene_Layers sc) Map.empty") (simp_all add: Compile_def same)
qed

section \<open>A concrete show\<close>

definition demo_deployment :: Deployment where
  "demo_deployment = \<lparr>dep_ID = 20, dep_Name = ''hall'', dep_Active = True,
     dep_Instances = [\<lparr>inst_ID = 7, inst_PoolID = 30, inst_PoolMemberID = 31, inst_Mode = ''m'', inst_Universe = 1, inst_Address = 1\<rparr>]\<rparr>"

definition demo_layer :: "LayerKind \<Rightarrow> uuid \<Rightarrow> Layer" where
  "demo_layer kind i = \<lparr>layer_Kind = kind, layer_Enabled = True,
     layer_Selection = emptySelection\<lparr>sel_InstanceIDs := [7]\<rparr>, layer_Ref = i\<rparr>"

text \<open>One active scene whose colour layer plays a theme with a colour of 5, and, in the second show,
  whose chase layer plays a chase with a step that selects a pool that does not exist.\<close>
definition demo_show :: State where
  "demo_show = freshState\<lparr>st_Deployments := [demo_deployment],
     st_Themes := [\<lparr>theme_ID = 8, theme_Name = ''hot'', theme_Colors = [\<lparr>color_InstanceID = 7, color_Value = Fin 5\<rparr>]\<rparr>],
     st_Scenes := [demo_scene\<lparr>scene_Layers := newLayers[1 := demo_layer ColorThemeLayer 8]\<rparr>]\<rparr>"

definition demo_chase_show :: State where
  "demo_chase_show = freshState\<lparr>st_Deployments := [demo_deployment],
     st_Chases := [\<lparr>chase_ID = 9, chase_Name = ''run'', chase_Steps =
        [\<lparr>step_Attributes = [], step_Selection = Some (emptySelection\<lparr>sel_PoolIDs := [44]\<rparr>)\<rparr>],
        chase_StepUnit = StepUnitBar, chase_StepDuration = Fin 1\<rparr>],
     st_Scenes := [demo_scene\<lparr>scene_Layers := newLayers[2 := demo_layer ChaseLayer 9]\<rparr>]\<rparr>"

definition demo_pos :: MusicalPosition where
  "demo_pos = \<lparr>pos_BarIndex = 0, pos_BeatFraction = Fin 0\<rparr>"

lemma demo_show_valid: "validate (env_uuid_str demo_env) (env_uuid_ok demo_env) (scrubState demo_env demo_show) = None"
  by code_simp

lemma demo_show_compiled:
  "case Compile demo_show of Inl _ \<Rightarrow> False | Inr plan \<Rightarrow> attrs_at (Evaluate plan demo_pos) 7 CapabilityColor = Some (Fin 5)"
  by code_simp

theorem Evaluate_only_patched_witness: "\<exists>plan. Compile demo_show = Inr plan \<and> Evaluate plan demo_pos 7 \<noteq> None \<and> 7 \<in> patched demo_show"
proof -
  obtain plan where p: "Compile demo_show = Inr plan" "attrs_at (Evaluate plan demo_pos) 7 CapabilityColor = Some (Fin 5)"
    using demo_show_compiled by (cases "Compile demo_show") auto
  then obtain a where "Evaluate plan demo_pos 7 = Some a" by (auto simp: attrs_at_def split: option.splits)
  with Evaluate_only_patched [OF p(1) this] p(1) show ?thesis by blast
qed

theorem saved_show_compiles_witness: "is_ok (Compile (scrubState demo_env demo_show))"
proof (rule saved_show_compiles)
  show "findActiveScene (st_Scenes demo_show) \<noteq> None" by (simp add: demo_show_def findActiveScene_def demo_scene_def)
  show "ValidateBPM (tempo_BPM (st_Tempo demo_show)) = None" by code_simp
  show "chase_steps_resolve demo_show" by (simp add: chase_steps_resolve_def demo_show_def freshState_def)
qed (rule demo_show_valid)

text \<open>
  The values of colour themes are never checked.  There is a document that passes the scrub and
  the whole-document check of \<open>Save\<close>, compiles, and plays a colour of 5, far outside the normalised
  range from 0 to 1, although \<open>Compile\<close> is documented to validate every resolved attribute value.
\<close>
theorem theme_values_unchecked:
  "validate (env_uuid_str demo_env) (env_uuid_ok demo_env) (scrubState demo_env demo_show) = None \<and>
   (case Compile demo_show of
      Inl _ \<Rightarrow> False
    | Inr plan \<Rightarrow> attrs_at (Evaluate plan demo_pos) 7 CapabilityColor = Some (Fin 5))"
  using demo_show_valid demo_show_compiled by blast

text \<open>
  The save-time scrub does not reach chase steps.  There is a document that \<open>Save\<close> scrubs, accepts and
  stamps, with a valid tempo and an active scene, that cannot be compiled, because a step of its
  chase selects a pool that does not exist: the dangling-reference failure at playback time that
  the scrub is meant to prevent.
\<close>
theorem chase_step_selection_not_scrubbed:
  "validate (env_uuid_str demo_env) (env_uuid_ok demo_env) (scrubState demo_env demo_chase_show) = None \<and>
   findActiveScene (st_Scenes demo_chase_show) \<noteq> None \<and> ValidateBPM (tempo_BPM (st_Tempo demo_chase_show)) = None \<and>
   Compile (scrubState demo_env demo_chase_show) = Inl (Wrap plan_invalid dangling)"
proof (intro conjI)
  show "validate (env_uuid_str demo_env) (env_uuid_ok demo_env) (scrubState demo_env demo_chase_show) = None" by code_simp
  show "findActiveScene (st_Scenes demo_chase_show) \<noteq> None" by (simp add: demo_chase_show_def findActiveScene_def demo_scene_def)
  show "ValidateBPM (tempo_BPM (st_Tempo demo_chase_show)) = None" by code_simp
  have "case Compile (scrubState demo_env demo_chase_show) of Inl e \<Rightarrow> e = Wrap plan_invalid dangling | Inr _ \<Rightarrow> False" by code_simp
  then show "Compile (scrubState demo_env demo_chase_show) = Inl (Wrap plan_invalid dangling)"
    by (cases "Compile (scrubState demo_env demo_chase_show)") simp_all
qed

end
