(* ===== verification/CommandPlayback.thy ===== *)
theory CommandPlayback
  imports CommandObjects Playback
begin

text \<open>
  \<open>src/internal/command/playback.go\<close>: the tempo commands, the offline evaluation of the active scene, and the
  scene switch.
\<close>

abbreviation playback_usage :: golc_error where "playback_usage \<equiv> Code ''GOLC_PLAYBACK_USAGE''"

section \<open>Tempo\<close>

definition parsePlaybackBPMSetArgs :: "string list \<Rightarrow> (string \<times> string) result" where
  "parsePlaybackBPMSetArgs = parseDomainNameShowArgs ''GOLC_PLAYBACK_USAGE''"

definition setTempo :: "f64 \<Rightarrow> State \<Rightarrow> State" where
  "setTempo bpm state = state\<lparr>st_Tempo := (st_Tempo state)\<lparr>tempo_BPM := bpm\<rparr>\<rparr>"

definition runPlaybackBPMSet :: "Host \<Rightarrow> World CommandHandler" where
  "runPlaybackBPMSet h request w =
     (case parsePlaybackBPMSetArgs (rq_Args request) of
        Inl e \<Rightarrow> malformed h e w
      | Inr (rawBPM, showPath) \<Rightarrow>
          (case host_parse_float h rawBPM of
             None \<Rightarrow> fail h (Code ''GOLC_PLAYBACK_BPM_INVALID'') w
           | Some bpm \<Rightarrow>
               (case ValidateBPM bpm of
                  Some e \<Rightarrow> fail h e w
                | None \<Rightarrow>
                    edit_show h (rq_Root request) showPath (\<lambda>state.
                      Inr (setTempo bpm state, ''GOLC_PLAYBACK_BPM_SET: '' @ host_float_text h bpm @ newline)) w)))"

definition parseTapTimestamp :: "Host \<Rightarrow> string \<Rightarrow> int result" where
  "parseTapTimestamp h v = (case host_parse_time h v of None \<Rightarrow> Inl playback_usage | Some t \<Rightarrow> Inr t)"

definition tapFlag :: "Host \<Rightarrow> string \<Rightarrow> (string \<Rightarrow> int list \<times> string \<Rightarrow> (int list \<times> string) result) option" where
  "tapFlag h flag =
     (if flag = ''--at'' then Some (\<lambda>v (taps, showPath). bind_res (parseTapTimestamp h v) (\<lambda>t. Inr (taps @ [t], showPath)))
      else if flag = ''--show'' then Some (\<lambda>v (taps, _). Inr (taps, v))
      else None)"

definition parsePlaybackBPMTapArgs :: "Host \<Rightarrow> string list \<Rightarrow> (int list \<times> string) result" where
  "parsePlaybackBPMTapArgs h args =
     bind_res (parse_flags playback_usage (tapFlag h) no_switches args ([], [])) (\<lambda>(taps, showPath).
       if showPath = [] then Inl playback_usage else Inr (taps, showPath))"

definition runPlaybackBPMTap :: "Host \<Rightarrow> World CommandHandler" where
  "runPlaybackBPMTap h request w =
     (case parsePlaybackBPMTapArgs h (rq_Args request) of
        Inl e \<Rightarrow> malformed h e w
      | Inr (taps, showPath) \<Rightarrow>
          (case TapTempo taps of
             Inl e \<Rightarrow> fail h e w
           | Inr bpm \<Rightarrow>
               edit_show h (rq_Root request) showPath (\<lambda>state.
                 Inr (setTempo bpm state, ''GOLC_PLAYBACK_BPM_TAP: '' @ host_float_text h bpm @ newline)) w))"

section \<open>Evaluation\<close>

record playbackEvaluateArgs =
  pe_at :: "f64 option"
  pe_json :: bool
  pe_showPath :: string

definition evaluateFlag :: "Host \<Rightarrow> string \<Rightarrow> (string \<Rightarrow> playbackEvaluateArgs \<Rightarrow> playbackEvaluateArgs result) option" where
  "evaluateFlag h flag =
     (if flag = ''--at'' then Some (floatFlag playback_usage h (\<lambda>x a. a\<lparr>pe_at := Some x\<rparr>))
      else if flag = ''--show'' then Some (\<lambda>v a. Inr (a\<lparr>pe_showPath := v\<rparr>))
      else None)"

definition evaluateSwitch :: "string \<Rightarrow> (playbackEvaluateArgs \<Rightarrow> playbackEvaluateArgs) option" where
  "evaluateSwitch flag = (if flag = ''--json'' then Some (\<lambda>a. a\<lparr>pe_json := True\<rparr>) else None)"

definition parsePlaybackEvaluateArgs :: "Host \<Rightarrow> string list \<Rightarrow> (f64 \<times> bool \<times> string) result" where
  "parsePlaybackEvaluateArgs h args =
     bind_res (parse_flags playback_usage (evaluateFlag h) evaluateSwitch args \<lparr>pe_at = None, pe_json = False, pe_showPath = []\<rparr>)
       (\<lambda>parsed.
         case pe_at parsed of
           None \<Rightarrow> Inl playback_usage
         | Some pos_at \<Rightarrow> if pe_showPath parsed = [] then Inl playback_usage else Inr (pos_at, pe_json parsed, pe_showPath parsed))"

text \<open>\<open>math.Floor\<close>\<close>
definition f_floor :: "f64 \<Rightarrow> f64" where
  "f_floor x = (case x of Fin q \<Rightarrow> Fin (of_int \<lfloor>q\<rfloor>) | _ \<Rightarrow> x)"

definition positionFromAt :: "f64 \<Rightarrow> int \<Rightarrow> MusicalPosition" where
  "positionFromAt pos_at barsPerLoop =
     (let bar = f_floor pos_at;
          beatFraction = pos_at - bar;
          wrapped = go_rem (f_to_int bar) barsPerLoop in
      \<lparr>pos_BarIndex = (if wrapped < 0 then wrapped + barsPerLoop else wrapped), pos_BeatFraction = beatFraction\<rparr>)"

text \<open>\<open>json\<close>: the canonical encoding of a frame.\<close>
definition runPlaybackEvaluate :: "(Frame \<Rightarrow> string result) \<Rightarrow> Host \<Rightarrow> World CommandHandler" where
  "runPlaybackEvaluate json h request w =
     (case parsePlaybackEvaluateArgs h (rq_Args request) of
        Inl e \<Rightarrow> malformed h e w
      | Inr (pos_at, as_json, showPath) \<Rightarrow>
          read_show h (rq_Root request) showPath (\<lambda>state w1.
            case Compile state of
              Inl e \<Rightarrow> fail h e w1
            | Inr plan \<Rightarrow>
                let pos = positionFromAt pos_at (plan_BarsPerLoop plan);
                    frame = Evaluate plan pos in
                if as_json then
                  (case json frame of
                     Inl e \<Rightarrow> fail h (Wrap ''GOLC_PLAYBACK_FRAME_ENCODE_FAILED'' e) w1
                   | Inr payload \<Rightarrow> succeed payload w1)
                else succeed (''GOLC_PLAYBACK_EVALUATE: bar='' @ itoa (pos_BarIndex pos) @ '' beat_fraction='' @
                  host_float_text h (pos_BeatFraction pos) @ '' instances='' @ itoa (int (card (dom frame))) @ newline) w1) w)"

section \<open>Switching scenes\<close>

definition parsePlaybackSwitchArgs :: "string list \<Rightarrow> (string \<times> string) result" where
  "parsePlaybackSwitchArgs = parseDomainNameShowArgs ''GOLC_PLAYBACK_USAGE''"

definition runPlaybackSwitch :: "Host \<Rightarrow> World CommandHandler" where
  "runPlaybackSwitch h request w =
     (case parsePlaybackSwitchArgs (rq_Args request) of
        Inl e \<Rightarrow> malformed h e w
      | Inr (sceneName, showPath) \<Rightarrow>
          edit_show h (rq_Root request) showPath (\<lambda>state.
            case ActivateScene (st_Scenes state) sceneName of
              Inl e \<Rightarrow> Inl (Wrap ''GOLC_PLAYBACK_SWITCH_UNKNOWN_SCENE'' e)
            | Inr activated \<Rightarrow> Inr (state\<lparr>st_Scenes := activated\<rparr>, ''GOLC_PLAYBACK_SWITCH: '' @ sceneName @ newline)) w)"

definition playbackScopes :: "ScopeRegistration list" where
  "playbackScopes = [\<lparr>sr_Scope = ''playback'',
     sr_Summary = ''Global musical clock control: numeric and tap-tempo BPM entry persisted on show.State.Tempo (SCEN-02/SCEN-03).''\<rparr>]"

definition playbackHandlers :: "(Frame \<Rightarrow> string result) \<Rightarrow> Host \<Rightarrow> (string \<times> World CommandHandler) list" where
  "playbackHandlers json h =
     [(''playback bpm set'', runPlaybackBPMSet h), (''playback bpm tap'', runPlaybackBPMTap h),
      (''playback evaluate'', runPlaybackEvaluate json h), (''playback switch'', runPlaybackSwitch h)]"

section \<open>What the commands do\<close>

lemma playback_edits [edits]:
  assumes "round_trips (host_env h)"
  shows "one_edit (host_env h) w (runPlaybackBPMSet h request w)" "one_edit (host_env h) w (runPlaybackBPMTap h request w)"
    "one_edit (host_env h) w (runPlaybackEvaluate json h request w)" "one_edit (host_env h) w (runPlaybackSwitch h request w)"
  unfolding runPlaybackBPMSet_def runPlaybackBPMTap_def runPlaybackEvaluate_def runPlaybackSwitch_def
  by (auto intro!: one_edit_edit_show [OF assms] one_edit_read_show [OF assms] simp: setTempo_def Let_def
      split: sum.split sum.splits option.split)

text \<open>
  A musical position given on the command line is wrapped into the loop. For every number and every
  loop of at least one bar, the bar index is a bar of the loop, negative positions included, and for
  a finite number the beat fraction lies between 0 and 1.
\<close>
theorem positionFromAt_in_loop:
  assumes "0 < barsPerLoop"
  shows "pos_BarIndex (positionFromAt pos_at barsPerLoop) \<in> {0..<barsPerLoop} \<and>
    (\<forall>q. pos_at = Fin q \<longrightarrow> (\<exists>b. pos_BeatFraction (positionFromAt pos_at barsPerLoop) = Fin b \<and> 0 \<le> b \<and> b \<le> 1))"
proof
  show "pos_BarIndex (positionFromAt pos_at barsPerLoop) \<in> {0..<barsPerLoop}"
    using assms go_rem_bounds [of barsPerLoop "f_to_int (f_floor pos_at)"] by (simp add: positionFromAt_def Let_def)
  show "\<forall>q. pos_at = Fin q \<longrightarrow> (\<exists>b. pos_BeatFraction (positionFromAt pos_at barsPerLoop) = Fin b \<and> 0 \<le> b \<and> b \<le> 1)"
  proof (intro allI impI)
    fix q assume q: "pos_at = Fin q"
    have "0 \<le> q - of_int \<lfloor>q\<rfloor>" "q - of_int \<lfloor>q\<rfloor> \<le> 1" by linarith+
    then show "\<exists>b. pos_BeatFraction (positionFromAt pos_at barsPerLoop) = Fin b \<and> 0 \<le> b \<and> b \<le> 1"
      using round64_between [OF is_rep_0 is_rep_1, of "q - of_int \<lfloor>q\<rfloor>"] by (simp add: positionFromAt_def f_floor_def q Let_def)
  qed
qed

theorem positionFromAt_in_loop_witness:
  "(0::int) < 4 \<and> pos_BarIndex (positionFromAt (Fin (- 5)) 4) \<in> {0..<4} \<and>
   positionFromAt (Fin (- 5)) 4 = \<lparr>pos_BarIndex = 3, pos_BeatFraction = Fin 0\<rparr>"
proof -
  have "positionFromAt (Fin (- 5)) 4 = \<lparr>pos_BarIndex = 3, pos_BeatFraction = Fin 0\<rparr>" by code_simp
  then show ?thesis using positionFromAt_in_loop [of 4 "Fin (- 5)"] by simp
qed

text \<open>
  The beat fraction is not always below 1: just below a bar line the subtraction rounds up to a whole beat,
  although the position is documented to carry a fraction in \<open>[0, 1)\<close>.
\<close>
lemma positionFromAt_whole_beat: "pos_BeatFraction (positionFromAt (Fin (- 1 / 2 ^ 60)) 4) = Fin 1"
  by code_simp

end
