(* ===== verification/CommandNote.thy ===== *)
theory CommandNote
  imports CommandObjects
begin

text \<open>
  \<open>src/internal/command/note.go\<close> and \<open>script.go\<close>: notes and scripts of a show.  Both files parse their flags into
  a map and answer with canonical JSON, whose encoder is the parameter \<open>Json\<close>.
\<close>

section \<open>Flag maps\<close>

text \<open>A Go map filled by the parser: the latest binding first.\<close>
type_synonym flag_map = "(string \<times> string) list"

text \<open>The loop that \<open>parseNoteFlags\<close>, \<open>parseNotePositionalArgs\<close> and their twins in \<open>script.go\<close> repeat.\<close>
fun flagMap :: "golc_error \<Rightarrow> string list \<Rightarrow> flag_map \<Rightarrow> flag_map result" where
  "flagMap err [] flags = Inr flags"
| "flagMap err (argument # rest) flags =
     (if \<not> HasPrefix argument ''--'' then Inl err
      else case SplitN CHR ''='' 2 argument of
          [flag, v] \<Rightarrow> flagMap err rest ((drop 2 flag, v) # flags)
        | _ \<Rightarrow> (case rest of [] \<Rightarrow> Inl err | v # rest' \<Rightarrow> flagMap err rest' ((TrimPrefix argument ''--'', v) # flags)))"

definition positionalFlagMap :: "golc_error \<Rightarrow> string list \<Rightarrow> (string \<times> flag_map) result" where
  "positionalFlagMap err args =
     (case args of
        [] \<Rightarrow> Inl err
      | name # rest \<Rightarrow> if HasPrefix name ''-'' then Inl err else bind_res (flagMap err rest []) (\<lambda>flags. Inr (name, flags)))"

definition rejectUnknown :: "golc_error \<Rightarrow> string list \<Rightarrow> flag_map \<Rightarrow> flag_map result" where
  "rejectUnknown err allowed flags = (if list_all (\<lambda>(name, _). name \<in> set allowed) flags then Inr flags else Inl err)"

definition requiredFlag :: "golc_error \<Rightarrow> string \<Rightarrow> flag_map \<Rightarrow> string result" where
  "requiredFlag err flag flags = (case map_of flags flag of None \<Rightarrow> Inl err | Some v \<Rightarrow> if v = [] then Inl err else Inr v)"

text \<open>Name, flags and show path of a command on one object.\<close>
definition targetArgs ::
  "(string list \<Rightarrow> (string \<times> flag_map) result) \<Rightarrow> (string list \<Rightarrow> flag_map \<Rightarrow> flag_map result) \<Rightarrow> golc_error \<Rightarrow>
   string list \<Rightarrow> string list \<Rightarrow> (string \<times> flag_map \<times> string) result" where
  "targetArgs positional reject err allowed args =
     bind_res (positional args) (\<lambda>(name, parsed).
     bind_res (reject allowed parsed) (\<lambda>flags.
     bind_res (requiredFlag err ''show'' flags) (\<lambda>showPath. Inr (name, flags, showPath))))"

definition listArgs ::
  "(string list \<Rightarrow> flag_map result) \<Rightarrow> (string list \<Rightarrow> flag_map \<Rightarrow> flag_map result) \<Rightarrow> golc_error \<Rightarrow> string list \<Rightarrow> string result" where
  "listArgs parse reject err args =
     bind_res (parse args) (\<lambda>parsed. bind_res (reject [''show''] parsed) (requiredFlag err ''show''))"

text \<open>A file of at most 1 MiB, verbatim: \<open>os.Stat\<close>, the size check, \<open>os.ReadFile\<close>.\<close>
definition readBounded :: "Host \<Rightarrow> golc_error \<Rightarrow> golc_error \<Rightarrow> string \<Rightarrow> string \<Rightarrow> World \<Rightarrow> string result" where
  "readBounded h unread tooLarge dir path w =
     (case w_Files w (host_resolve h dir path) of
        None \<Rightarrow> Inl unread
      | Some bytes \<Rightarrow> if 2 ^ 20 < length bytes then Inl tooLarge else Inr bytes)"

text \<open>Save, then answer with an encoded view.\<close>
definition save_reply :: "Host \<Rightarrow> string \<Rightarrow> string \<Rightarrow> State \<Rightarrow> string result \<Rightarrow> World \<Rightarrow> Result \<times> World" where
  "save_reply h dir path state reply w =
     (case save_show h dir path state w of
        (Some e, w1) \<Rightarrow> fail h e w1
      | (None, w1) \<Rightarrow> (case reply of Inl e \<Rightarrow> fail h e w1 | Inr out \<Rightarrow> succeed out w1))"

definition answer :: "Host \<Rightarrow> string result \<Rightarrow> World \<Rightarrow> Result \<times> World" where
  "answer h reply w = (case reply of Inl e \<Rightarrow> fail h e w | Inr out \<Rightarrow> succeed out w)"

section \<open>Views\<close>

record noteView =
  nv_ID :: string
  nv_Title :: string
  nv_Body :: string
  nv_CreatedAt :: string
  nv_UpdatedAt :: string

record noteListEntryView =
  nl_ID :: string
  nl_Title :: string
  nl_UpdatedAt :: string

record scriptCapabilityProfileView =
  pv_Scope :: string
  pv_Preset :: string
  pv_DeadlineSeconds :: int
  pv_RatePerSecond :: int
  pv_MemoryLimitMB :: int
  pv_CPUCapPercent :: int

record scriptView =
  sv_ID :: string
  sv_Name :: string
  sv_Source :: string
  sv_CapabilityProfile :: scriptCapabilityProfileView
  sv_LastRunStatus :: string
  sv_LastRunReason :: string
  sv_LastRunAt :: string

record scriptListEntryView =
  sl_ID :: string
  sl_Name :: string
  sl_LastRunStatus :: string
  sl_LastRunReason :: string
  sl_CapabilityProfile :: scriptCapabilityProfileView

text \<open>\<open>strictjson.CanonicalEncode\<close> at the view types.\<close>
record Json =
  js_note :: "noteView \<Rightarrow> string result"
  js_notes :: "noteListEntryView list \<Rightarrow> string result"
  js_script :: "scriptView \<Rightarrow> string result"
  js_scripts :: "scriptListEntryView list \<Rightarrow> string result"

definition toNoteView :: "Host \<Rightarrow> Note \<Rightarrow> noteView" where
  "toNoteView h n = \<lparr>nv_ID = env_uuid_str (host_env h) (note_ID n), nv_Title = note_Title n, nv_Body = note_Body n,
     nv_CreatedAt = note_CreatedAt n, nv_UpdatedAt = note_UpdatedAt n\<rparr>"

definition toNoteListEntryView :: "Host \<Rightarrow> Note \<Rightarrow> noteListEntryView" where
  "toNoteListEntryView h n = \<lparr>nl_ID = env_uuid_str (host_env h) (note_ID n), nl_Title = note_Title n, nl_UpdatedAt = note_UpdatedAt n\<rparr>"

definition toCapabilityProfileView :: "CapabilityProfile \<Rightarrow> scriptCapabilityProfileView" where
  "toCapabilityProfileView p = \<lparr>pv_Scope = cp_Scope p, pv_Preset = cp_Preset p, pv_DeadlineSeconds = cp_DeadlineSeconds p,
     pv_RatePerSecond = cp_RatePerSecond p, pv_MemoryLimitMB = cp_MemoryLimitMB p, pv_CPUCapPercent = cp_CPUCapPercent p\<rparr>"

definition toScriptView :: "Host \<Rightarrow> Script \<Rightarrow> scriptView" where
  "toScriptView h s = \<lparr>sv_ID = env_uuid_str (host_env h) (script_ID s), sv_Name = script_Name s, sv_Source = script_Source s,
     sv_CapabilityProfile = toCapabilityProfileView (script_CapabilityProfile s), sv_LastRunStatus = script_LastRunStatus s,
     sv_LastRunReason = script_LastRunReason s, sv_LastRunAt = script_LastRunAt s\<rparr>"

definition toScriptListEntryView :: "Host \<Rightarrow> Script \<Rightarrow> scriptListEntryView" where
  "toScriptListEntryView h s = \<lparr>sl_ID = env_uuid_str (host_env h) (script_ID s), sl_Name = script_Name s,
     sl_LastRunStatus = script_LastRunStatus s, sl_LastRunReason = script_LastRunReason s,
     sl_CapabilityProfile = toCapabilityProfileView (script_CapabilityProfile s)\<rparr>"

definition wrapEncode :: "string \<Rightarrow> string result \<Rightarrow> string result" where
  "wrapEncode code r = (case r of Inl e \<Rightarrow> Inl (Wrap code e) | Inr payload \<Rightarrow> Inr payload)"

definition encodeNoteResult :: "('v \<Rightarrow> string result) \<Rightarrow> 'v \<Rightarrow> string result" where
  "encodeNoteResult json view = wrapEncode ''GOLC_NOTE_ENCODE_FAILED'' (json view)"

definition encodeScriptResult :: "('v \<Rightarrow> string result) \<Rightarrow> 'v \<Rightarrow> string result" where
  "encodeScriptResult json view = wrapEncode ''GOLC_SCRIPT_ENCODE_FAILED'' (json view)"

section \<open>Notes\<close>

abbreviation note_usage :: golc_error where "note_usage \<equiv> Code ''GOLC_NOTE_USAGE''"

definition parseNotePositionalArgs :: "string list \<Rightarrow> (string \<times> flag_map) result" where
  "parseNotePositionalArgs = positionalFlagMap note_usage"

definition parseNoteFlags :: "string list \<Rightarrow> flag_map result" where
  "parseNoteFlags args = flagMap note_usage args []"

definition rejectUnknownNoteFlags :: "string list \<Rightarrow> flag_map \<Rightarrow> flag_map result" where
  "rejectUnknownNoteFlags = rejectUnknown note_usage"

abbreviation noteArgs :: "string list \<Rightarrow> string list \<Rightarrow> (string \<times> flag_map \<times> string) result" where
  "noteArgs \<equiv> targetArgs parseNotePositionalArgs rejectUnknownNoteFlags note_usage"

definition noteByTitle :: "Note list \<Rightarrow> string \<Rightarrow> (Note \<times> nat) option" where
  "noteByTitle = named_at note_Title"

definition runNoteCreate :: "Json \<Rightarrow> Host \<Rightarrow> World CommandHandler" where
  "runNoteCreate j h request w =
     (case noteArgs [''show''] (rq_Args request) of
        Inl e \<Rightarrow> malformed h e w
      | Inr (name, flags, showPath) \<Rightarrow>
          read_show h (rq_Root request) showPath (\<lambda>state w1.
            case NewNote (host_mint h 0) (host_now h) name of
              Inl e \<Rightarrow> fail h e w1
            | Inr newNote \<Rightarrow>
                save_reply h (rq_Root request) showPath (state\<lparr>st_Notes := st_Notes state @ [newNote]\<rparr>)
                  (encodeNoteResult (js_note j) (toNoteView h newNote)) w1) w)"

definition runNoteList :: "Json \<Rightarrow> Host \<Rightarrow> World CommandHandler" where
  "runNoteList j h request w =
     (case listArgs parseNoteFlags rejectUnknownNoteFlags note_usage (rq_Args request) of
        Inl e \<Rightarrow> malformed h e w
      | Inr showPath \<Rightarrow>
          read_show h (rq_Root request) showPath (\<lambda>state w1.
            answer h (encodeNoteResult (js_notes j) (map (toNoteListEntryView h) (st_Notes state))) w1) w)"

definition runNoteShow :: "Json \<Rightarrow> Host \<Rightarrow> World CommandHandler" where
  "runNoteShow j h request w =
     (case noteArgs [''show''] (rq_Args request) of
        Inl e \<Rightarrow> malformed h e w
      | Inr (name, flags, showPath) \<Rightarrow>
          read_show h (rq_Root request) showPath (\<lambda>state w1.
            case noteByTitle (st_Notes state) name of
              None \<Rightarrow> fail h (Code ''GOLC_NOTE_NOT_FOUND'') w1
            | Some (target, _) \<Rightarrow> answer h (encodeNoteResult (js_note j) (toNoteView h target)) w1) w)"

definition parseNoteEditArgs :: "string list \<Rightarrow> (string \<times> string option \<times> string option \<times> string) result" where
  "parseNoteEditArgs args =
     bind_res (noteArgs [''show'', ''title'', ''body-file''] args) (\<lambda>(name, flags, showPath).
       if map_of flags ''title'' = None \<and> map_of flags ''body-file'' = None then Inl note_usage
       else Inr (name, map_of flags ''title'', map_of flags ''body-file'', showPath))"

definition runNoteEdit :: "Json \<Rightarrow> Host \<Rightarrow> World CommandHandler" where
  "runNoteEdit j h request w =
     (case parseNoteEditArgs (rq_Args request) of
        Inl e \<Rightarrow> malformed h e w
      | Inr (name, newTitle, bodyFile, showPath) \<Rightarrow>
          read_show h (rq_Root request) showPath (\<lambda>state w1.
            case noteByTitle (st_Notes state) name of
              None \<Rightarrow> fail h (Code ''GOLC_NOTE_NOT_FOUND'') w1
            | Some (target, index) \<Rightarrow>
                let titled = (case newTitle of None \<Rightarrow> target | Some title \<Rightarrow> target\<lparr>note_Title := title\<rparr>);
                    body = (case bodyFile of
                              None \<Rightarrow> Inr (note_Body target)
                            | Some path \<Rightarrow> readBounded h (Code ''GOLC_NOTE_BODY_READ_FAILED'') (Code ''GOLC_NOTE_BODY_TOO_LARGE'')
                                             (rq_Root request) path w1) in
                case body of
                  Inl e \<Rightarrow> fail h e w1
                | Inr bytes \<Rightarrow>
                    let edited = titled\<lparr>note_Body := bytes, note_UpdatedAt := host_now h\<rparr> in
                    save_reply h (rq_Root request) showPath (state\<lparr>st_Notes := (st_Notes state)[index := edited]\<rparr>)
                      (encodeNoteResult (js_note j) (toNoteView h edited)) w1) w)"

definition runNoteDelete :: "Host \<Rightarrow> World CommandHandler" where
  "runNoteDelete h request w =
     (case noteArgs [''show''] (rq_Args request) of
        Inl e \<Rightarrow> malformed h e w
      | Inr (name, flags, showPath) \<Rightarrow>
          edit_show h (rq_Root request) showPath (\<lambda>state.
            case noteByTitle (st_Notes state) name of
              None \<Rightarrow> Inl (Code ''GOLC_NOTE_NOT_FOUND'')
            | Some (_, index) \<Rightarrow>
                Inr (state\<lparr>st_Notes := remove_at index (st_Notes state)\<rparr>, ''GOLC_NOTE_DELETED: '' @ name @ newline)) w)"

section \<open>Scripts\<close>

abbreviation script_usage :: golc_error where "script_usage \<equiv> Code ''GOLC_SCRIPT_USAGE''"

definition parseScriptPositionalArgs :: "string list \<Rightarrow> (string \<times> flag_map) result" where
  "parseScriptPositionalArgs = positionalFlagMap script_usage"

definition parseScriptFlags :: "string list \<Rightarrow> flag_map result" where
  "parseScriptFlags args = flagMap script_usage args []"

definition rejectUnknownScriptFlags :: "string list \<Rightarrow> flag_map \<Rightarrow> flag_map result" where
  "rejectUnknownScriptFlags = rejectUnknown script_usage"

abbreviation scriptArgs :: "string list \<Rightarrow> string list \<Rightarrow> (string \<times> flag_map \<times> string) result" where
  "scriptArgs \<equiv> targetArgs parseScriptPositionalArgs rejectUnknownScriptFlags script_usage"

definition scriptByName :: "Script list \<Rightarrow> string \<Rightarrow> (Script \<times> nat) option" where
  "scriptByName = named_at script_Name"

definition runScriptCreate :: "Json \<Rightarrow> Host \<Rightarrow> World CommandHandler" where
  "runScriptCreate j h request w =
     (case scriptArgs [''show''] (rq_Args request) of
        Inl e \<Rightarrow> malformed h e w
      | Inr (name, flags, showPath) \<Rightarrow>
          read_show h (rq_Root request) showPath (\<lambda>state w1.
            case NewScript (host_mint h 0) name of
              Inl e \<Rightarrow> fail h e w1
            | Inr newScript \<Rightarrow>
                save_reply h (rq_Root request) showPath (state\<lparr>st_Scripts := st_Scripts state @ [newScript]\<rparr>)
                  (encodeScriptResult (js_script j) (toScriptView h newScript)) w1) w)"

definition runScriptList :: "Json \<Rightarrow> Host \<Rightarrow> World CommandHandler" where
  "runScriptList j h request w =
     (case listArgs parseScriptFlags rejectUnknownScriptFlags script_usage (rq_Args request) of
        Inl e \<Rightarrow> malformed h e w
      | Inr showPath \<Rightarrow>
          read_show h (rq_Root request) showPath (\<lambda>state w1.
            answer h (encodeScriptResult (js_scripts j) (map (toScriptListEntryView h) (st_Scripts state))) w1) w)"

definition runScriptShow :: "Json \<Rightarrow> Host \<Rightarrow> World CommandHandler" where
  "runScriptShow j h request w =
     (case scriptArgs [''show''] (rq_Args request) of
        Inl e \<Rightarrow> malformed h e w
      | Inr (name, flags, showPath) \<Rightarrow>
          read_show h (rq_Root request) showPath (\<lambda>state w1.
            case scriptByName (st_Scripts state) name of
              None \<Rightarrow> fail h (Code ''GOLC_SCRIPT_NOT_FOUND'') w1
            | Some (target, _) \<Rightarrow> answer h (encodeScriptResult (js_script j) (toScriptView h target)) w1) w)"

definition parseScriptEditArgs :: "string list \<Rightarrow> (string \<times> string \<times> string) result" where
  "parseScriptEditArgs args =
     bind_res (parseScriptPositionalArgs args) (\<lambda>(name, parsed).
     bind_res (rejectUnknownScriptFlags [''show'', ''source-file''] parsed) (\<lambda>flags.
     bind_res (requiredFlag script_usage ''source-file'' flags) (\<lambda>sourceFile.
     bind_res (requiredFlag script_usage ''show'' flags) (\<lambda>showPath. Inr (name, sourceFile, showPath)))))"

definition runScriptEdit :: "Json \<Rightarrow> Host \<Rightarrow> World CommandHandler" where
  "runScriptEdit j h request w =
     (case parseScriptEditArgs (rq_Args request) of
        Inl e \<Rightarrow> malformed h e w
      | Inr (name, sourceFile, showPath) \<Rightarrow>
          read_show h (rq_Root request) showPath (\<lambda>state w1.
            case scriptByName (st_Scripts state) name of
              None \<Rightarrow> fail h (Code ''GOLC_SCRIPT_NOT_FOUND'') w1
            | Some (target, index) \<Rightarrow>
                (case readBounded h (Code ''GOLC_SCRIPT_SOURCE_READ_FAILED'') (Code ''GOLC_SCRIPT_SOURCE_TOO_LARGE'')
                        (rq_Root request) sourceFile w1 of
                   Inl e \<Rightarrow> fail h e w1
                 | Inr bytes \<Rightarrow>
                     let edited = target\<lparr>script_Source := bytes\<rparr> in
                     save_reply h (rq_Root request) showPath (state\<lparr>st_Scripts := (st_Scripts state)[index := edited]\<rparr>)
                       (encodeScriptResult (js_script j) (toScriptView h edited)) w1)) w)"

definition runScriptDelete :: "Host \<Rightarrow> World CommandHandler" where
  "runScriptDelete h request w =
     (case scriptArgs [''show''] (rq_Args request) of
        Inl e \<Rightarrow> malformed h e w
      | Inr (name, flags, showPath) \<Rightarrow>
          edit_show h (rq_Root request) showPath (\<lambda>state.
            case scriptByName (st_Scripts state) name of
              None \<Rightarrow> Inl (Code ''GOLC_SCRIPT_NOT_FOUND'')
            | Some (_, index) \<Rightarrow>
                Inr (state\<lparr>st_Scripts := remove_at index (st_Scripts state)\<rparr>, ''GOLC_SCRIPT_DELETED: '' @ name @ newline)) w)"

definition parseScriptLimitFlag :: "string \<Rightarrow> flag_map \<Rightarrow> int \<Rightarrow> int result" where
  "parseScriptLimitFlag flagName flags current =
     (case map_of flags flagName of
        None \<Rightarrow> Inr current
      | Some raw \<Rightarrow> (case ParseInt raw of None \<Rightarrow> Inl (Code ''GOLC_SCRIPT_LIMIT_INVALID'') | Some value \<Rightarrow> Inr value))"

text \<open>The flags that were given replace their fields; the others keep theirs.\<close>
definition editProfile :: "flag_map \<Rightarrow> CapabilityProfile \<Rightarrow> CapabilityProfile result" where
  "editProfile flags profile =
     bind_res (parseScriptLimitFlag ''deadline-seconds'' flags (cp_DeadlineSeconds profile)) (\<lambda>deadlineSeconds.
     bind_res (parseScriptLimitFlag ''rate-per-second'' flags (cp_RatePerSecond profile)) (\<lambda>ratePerSecond.
     bind_res (parseScriptLimitFlag ''memory-limit-mb'' flags (cp_MemoryLimitMB profile)) (\<lambda>memoryLimitMB.
     bind_res (parseScriptLimitFlag ''cpu-cap-percent'' flags (cp_CPUCapPercent profile)) (\<lambda>cpuCapPercent.
       Inr \<lparr>cp_Scope = (case map_of flags ''scope'' of None \<Rightarrow> cp_Scope profile | Some raw \<Rightarrow> raw),
            cp_Preset = (case map_of flags ''preset'' of None \<Rightarrow> cp_Preset profile | Some raw \<Rightarrow> raw),
            cp_DeadlineSeconds = deadlineSeconds, cp_RatePerSecond = ratePerSecond,
            cp_MemoryLimitMB = memoryLimitMB, cp_CPUCapPercent = cpuCapPercent\<rparr>))))"

definition runScriptProfileSet :: "Json \<Rightarrow> Host \<Rightarrow> World CommandHandler" where
  "runScriptProfileSet j h request w =
     (case scriptArgs [''show'', ''scope'', ''preset'', ''deadline-seconds'', ''rate-per-second'',
             ''memory-limit-mb'', ''cpu-cap-percent''] (rq_Args request) of
        Inl e \<Rightarrow> malformed h e w
      | Inr (name, flags, showPath) \<Rightarrow>
          read_show h (rq_Root request) showPath (\<lambda>state w1.
            case scriptByName (st_Scripts state) name of
              None \<Rightarrow> fail h (Code ''GOLC_SCRIPT_NOT_FOUND'') w1
            | Some (target, index) \<Rightarrow>
                (case editProfile flags (script_CapabilityProfile target) of
                   Inl e \<Rightarrow> malformed h e w1
                 | Inr profile \<Rightarrow>
                     let edited = target\<lparr>script_CapabilityProfile := profile\<rparr> in
                     save_reply h (rq_Root request) showPath (state\<lparr>st_Scripts := (st_Scripts state)[index := edited]\<rparr>)
                       (encodeScriptResult (js_script j) (toScriptView h edited)) w1)) w)"

definition noteScopes :: "ScopeRegistration list" where
  "noteScopes = [\<lparr>sr_Scope = ''note'',
     sr_Summary = ''Free-form rich-text notes saved inside a show, edited through a WYSIWYG editor and stored as HTML.''\<rparr>]"

definition noteHandlers :: "Json \<Rightarrow> Host \<Rightarrow> (string \<times> World CommandHandler) list" where
  "noteHandlers j h =
     [(''note create'', runNoteCreate j h), (''note list'', runNoteList j h), (''note show'', runNoteShow j h),
      (''note edit'', runNoteEdit j h), (''note delete'', runNoteDelete h)]"

definition scriptScopes :: "ScopeRegistration list" where
  "scriptScopes = [\<lparr>sr_Scope = ''script'',
     sr_Summary = ''Single-file TypeScript automation scripts saved inside a show, with per-script capability/resource-limit profiles (SCRP-01/SCRP-04, D-06/D-07/D-09/D-14/D-17).''\<rparr>]"

definition scriptHandlers :: "Json \<Rightarrow> Host \<Rightarrow> (string \<times> World CommandHandler) list" where
  "scriptHandlers j h =
     [(''script create'', runScriptCreate j h), (''script list'', runScriptList j h), (''script show'', runScriptShow j h),
      (''script edit'', runScriptEdit j h), (''script delete'', runScriptDelete h), (''script profile set'', runScriptProfileSet j h)]"

section \<open>What the commands do\<close>

text \<open>The encoder succeeds on every view: what the commands rely on, since they encode after the save.\<close>
definition encodes :: "Json \<Rightarrow> bool" where
  "encodes j \<longleftrightarrow> (\<forall>v. \<exists>t. js_note j v = Inr t) \<and> (\<forall>v. \<exists>t. js_notes j v = Inr t) \<and>
     (\<forall>v. \<exists>t. js_script j v = Inr t) \<and> (\<forall>v. \<exists>t. js_scripts j v = Inr t)"

lemma save_reply_Inr: "save_reply h dir path state (Inr out) w = save_result h dir path state out w"
  by (simp add: save_reply_def save_result_def split: prod.split option.split)

lemma saves_save_reply:
  assumes "reply = Inr out" "st_Revision state' = st_Revision state"
  shows "saves_or_reports h dir path state w (save_reply h dir path state' reply w)"
  using assms by (simp add: save_reply_Inr saves_or_reports.saves)

lemma encoded:
  assumes "encodes j"
  obtains f g f' g' where "js_note j = (\<lambda>v. Inr (f v))" "js_notes j = (\<lambda>v. Inr (g v))"
    "js_script j = (\<lambda>v. Inr (f' v))" "js_scripts j = (\<lambda>v. Inr (g' v))"
proof -
  have "\<exists>f. r = (\<lambda>v. Inr (f v))" if "\<forall>v. \<exists>t. r v = Inr t" for r :: "'v \<Rightarrow> string result"
    using that by (intro exI [of _ "\<lambda>v. projr (r v)"] ext) (metis sum.sel(2))
  note total = this
  from assms total [of "js_note j"] total [of "js_notes j"] total [of "js_script j"] total [of "js_scripts j"]
  show ?thesis using that unfolding encodes_def by blast
qed

lemma note_edits [edits]:
  assumes "round_trips (host_env h)" "encodes j"
  shows "one_edit (host_env h) w (runNoteCreate j h request w)" "one_edit (host_env h) w (runNoteList j h request w)"
    "one_edit (host_env h) w (runNoteShow j h request w)" "one_edit (host_env h) w (runNoteEdit j h request w)"
    "one_edit (host_env h) w (runNoteDelete h request w)"
proof -
  obtain f g f' g' where j: "js_note j = (\<lambda>v. Inr (f v))" "js_notes j = (\<lambda>v. Inr (g v))" using encoded [OF assms(2)] by metis
  show "one_edit (host_env h) w (runNoteCreate j h request w)" "one_edit (host_env h) w (runNoteList j h request w)"
    "one_edit (host_env h) w (runNoteShow j h request w)" "one_edit (host_env h) w (runNoteEdit j h request w)"
    "one_edit (host_env h) w (runNoteDelete h request w)"
    unfolding runNoteCreate_def runNoteList_def runNoteShow_def runNoteEdit_def runNoteDelete_def encodeNoteResult_def wrapEncode_def answer_def j
    by (auto intro!: one_edit_edit_show [OF assms(1)] one_edit_read_show [OF assms(1)] saves_save_reply
        simp: Let_def split: sum.split sum.splits option.split option.splits)
qed

lemma script_edits [edits]:
  assumes "round_trips (host_env h)" "encodes j"
  shows "one_edit (host_env h) w (runScriptCreate j h request w)" "one_edit (host_env h) w (runScriptList j h request w)"
    "one_edit (host_env h) w (runScriptShow j h request w)" "one_edit (host_env h) w (runScriptEdit j h request w)"
    "one_edit (host_env h) w (runScriptDelete h request w)" "one_edit (host_env h) w (runScriptProfileSet j h request w)"
proof -
  obtain f g f' g' where j: "js_script j = (\<lambda>v. Inr (f v))" "js_scripts j = (\<lambda>v. Inr (g v))" using encoded [OF assms(2)] by metis
  show "one_edit (host_env h) w (runScriptCreate j h request w)" "one_edit (host_env h) w (runScriptList j h request w)"
    "one_edit (host_env h) w (runScriptShow j h request w)" "one_edit (host_env h) w (runScriptEdit j h request w)"
    "one_edit (host_env h) w (runScriptDelete h request w)" "one_edit (host_env h) w (runScriptProfileSet j h request w)"
    unfolding runScriptCreate_def runScriptList_def runScriptShow_def runScriptEdit_def runScriptDelete_def runScriptProfileSet_def
      encodeScriptResult_def wrapEncode_def answer_def j
    by (auto intro!: one_edit_edit_show [OF assms(1)] one_edit_read_show [OF assms(1)] saves_save_reply
        simp: Let_def split: sum.split sum.splits option.split option.splits)
qed

lemma parseScriptLimitFlag_Inr:
  "parseScriptLimitFlag flag flags current = Inr v \<longleftrightarrow>
   (case map_of flags flag of None \<Rightarrow> v = current | Some raw \<Rightarrow> ParseInt raw = Some v)"
  by (auto simp: parseScriptLimitFlag_def split: option.splits)

text \<open>A profile edit replaces exactly the fields whose flags were given.\<close>
lemma editProfile_partial:
  assumes "editProfile flags profile = Inr p"
  shows "map_of flags ''scope'' = None \<Longrightarrow> cp_Scope p = cp_Scope profile"
    and "map_of flags ''preset'' = None \<Longrightarrow> cp_Preset p = cp_Preset profile"
    and "map_of flags ''deadline-seconds'' = None \<Longrightarrow> cp_DeadlineSeconds p = cp_DeadlineSeconds profile"
    and "map_of flags ''rate-per-second'' = None \<Longrightarrow> cp_RatePerSecond p = cp_RatePerSecond profile"
    and "map_of flags ''memory-limit-mb'' = None \<Longrightarrow> cp_MemoryLimitMB p = cp_MemoryLimitMB profile"
    and "map_of flags ''cpu-cap-percent'' = None \<Longrightarrow> cp_CPUCapPercent p = cp_CPUCapPercent profile"
  using assms by (auto simp: editProfile_def bind_res_Inr_iff parseScriptLimitFlag_Inr)

end
