(* ===== verification/CommandFile.thy ===== *)
theory CommandFile
  imports CommandShow
begin

text \<open>
  \<open>src/internal/command/show.go\<close> and \<open>show_diagnose.go\<close>: saving a show again or under another path, opening it with
  its recovery points and its migration, diagnosing and exporting it; with \<open>src/internal/show/diagnose.go\<close>.
\<close>

section \<open>Saving\<close>

definition parseShowSaveArgs :: "string list \<Rightarrow> string result" where
  "parseShowSaveArgs = parseShowOnlyArgs ''GOLC_SHOW_USAGE''"

definition runShowSave :: "Host \<Rightarrow> World CommandHandler" where
  "runShowSave h request w =
     (case parseShowSaveArgs (rq_Args request) of
        Inl e \<Rightarrow> malformed h e w
      | Inr showPath \<Rightarrow>
          read_show h (rq_Root request) showPath (\<lambda>state w1.
            case save_show h (rq_Root request) showPath state w1 of
              (Some e, w2) \<Rightarrow> fail h e w2
            | (None, w2) \<Rightarrow>
                read_show h (rq_Root request) showPath (\<lambda>saved w3.
                  succeed (''GOLC_SHOW_SAVED: '' @ showPath @ '' (revision '' @ itoa (st_Revision saved) @ '')'' @ newline) w3) w2) w)"

record showSaveAsArgs =
  sa_showPath :: string
  sa_toPath :: string

definition saveAsFlag :: "string \<Rightarrow> (string \<Rightarrow> showSaveAsArgs \<Rightarrow> showSaveAsArgs result) option" where
  "saveAsFlag flag =
     (if flag = ''--show'' then Some (\<lambda>v a. Inr (a\<lparr>sa_showPath := v\<rparr>))
      else if flag = ''--to'' then Some (\<lambda>v a. Inr (a\<lparr>sa_toPath := v\<rparr>))
      else None)"

definition parseShowSaveAsArgs :: "string list \<Rightarrow> showSaveAsArgs result" where
  "parseShowSaveAsArgs args =
     bind_res (parse_flags (Code ''GOLC_SHOW_USAGE'') saveAsFlag no_switches args \<lparr>sa_showPath = [], sa_toPath = []\<rparr>)
       (\<lambda>parsed. if sa_showPath parsed = [] \<or> sa_toPath parsed = [] then Inl (Code ''GOLC_SHOW_USAGE'') else Inr parsed)"

definition runShowSaveAs :: "Host \<Rightarrow> World CommandHandler" where
  "runShowSaveAs h request w =
     (case parseShowSaveAsArgs (rq_Args request) of
        Inl e \<Rightarrow> malformed h e w
      | Inr parsed \<Rightarrow>
          read_show h (rq_Root request) (sa_showPath parsed) (\<lambda>state w1.
            let destPath = host_resolve h (rq_Root request) (sa_toPath parsed) in
            save_result h (rq_Root request) destPath state
              (''GOLC_SHOW_SAVED_AS: '' @ sa_showPath parsed @ '' -> '' @ destPath @ newline) w1) w)"

section \<open>Opening\<close>

record showOpenArgs =
  so_showPath :: string
  so_acceptRecovery :: "int option"
  so_discardRecovery :: bool
  so_confirmMigration :: bool

definition openFlag :: "string \<Rightarrow> (string \<Rightarrow> showOpenArgs \<Rightarrow> showOpenArgs result) option" where
  "openFlag flag =
     (if flag = ''--show'' then Some (\<lambda>v a. Inr (a\<lparr>so_showPath := v\<rparr>))
      else if flag = ''--accept-recovery'' then Some (\<lambda>v a.
        case ParseInt v of None \<Rightarrow> Inl (Code ''GOLC_SHOW_USAGE'') | Some i \<Rightarrow> Inr (a\<lparr>so_acceptRecovery := Some i\<rparr>))
      else None)"

definition openSwitch :: "string \<Rightarrow> (showOpenArgs \<Rightarrow> showOpenArgs) option" where
  "openSwitch flag =
     (if flag = ''--discard-recovery'' then Some (\<lambda>a. a\<lparr>so_discardRecovery := True\<rparr>)
      else if flag = ''--confirm-migration'' then Some (\<lambda>a. a\<lparr>so_confirmMigration := True\<rparr>)
      else None)"

definition parseShowOpenArgs :: "string list \<Rightarrow> showOpenArgs result" where
  "parseShowOpenArgs args =
     bind_res (parse_flags (Code ''GOLC_SHOW_USAGE'') openFlag openSwitch args
         \<lparr>so_showPath = [], so_acceptRecovery = None, so_discardRecovery = False, so_confirmMigration = False\<rparr>)
       (\<lambda>parsed.
         if so_showPath parsed = [] then Inl (Code ''GOLC_SHOW_USAGE'')
         else if so_acceptRecovery parsed \<noteq> None \<and> so_discardRecovery parsed then Inl (Code ''GOLC_SHOW_USAGE'')
         else Inr parsed)"

definition recoveryOfferMessage :: "string \<Rightarrow> RecoveryPoint list \<Rightarrow> string" where
  "recoveryOfferMessage showPath points =
     ''GOLC_SHOW_RECOVERY_AVAILABLE: '' @ itoa (int (length points)) @ '' recovery point(s) found (revisions '' @
     Join '', '' (map (\<lambda>p. itoa (rpt_Revision p)) points) @ ''); inspect again with \"show open --show '' @ showPath @
     ''\", accept one with \"show open --show '' @ showPath @ '' --accept-recovery <id>\", or discard every offered point with \"show open --show '' @
     showPath @ '' --discard-recovery\"'' @ newline"

text \<open>What a migration needs of the machine: the copy and the final rename may fail; the name of the backup.\<close>
record Machine =
  mc_vacuum_ok :: bool
  mc_swap_ok :: bool
  mc_backup_path :: "string \<Rightarrow> string"

text \<open>An operation of the store on the show at a path.\<close>
definition at_show :: "Host \<Rightarrow> string \<Rightarrow> string \<Rightarrow> (Store option \<Rightarrow> Store option \<times> 'r) \<Rightarrow> World \<Rightarrow> 'r \<times> World" where
  "at_show h dir path f w =
     (let p = host_resolve h dir path; (f', r) = f (w_Shows w p) in (r, w\<lparr>w_Shows := (w_Shows w)(p := f')\<rparr>))"

definition migrate_show :: "Machine \<Rightarrow> Host \<Rightarrow> string \<Rightarrow> string \<Rightarrow> World \<Rightarrow> string result \<times> World" where
  "migrate_show mc h dir path w =
     (let p = host_resolve h dir path; q = mc_backup_path mc path in
      case Migrate (host_env h) migrations (host_now h) (mc_vacuum_ok mc) (mc_swap_ok mc) (w_Shows w p) of
        (f', backup, err) \<Rightarrow>
          let shows' = (w_Shows w)(p := f');
              w' = w\<lparr>w_Shows := (case backup of None \<Rightarrow> shows' | Some b \<Rightarrow> shows'(host_resolve h dir q := Some b))\<rparr> in
          (case err of Some e \<Rightarrow> Inl e | None \<Rightarrow> Inr (case backup of None \<Rightarrow> [] | Some _ \<Rightarrow> q), w'))"

abbreviation migration_required :: golc_error where
  "migration_required \<equiv> Code ''GOLC_SHOW_SCHEMA_MIGRATION_REQUIRED''"

text \<open>The first half of \<open>runShowOpen\<close>: load, and migrate when that is asked for and needed.\<close>
definition openForEdit :: "Machine \<Rightarrow> Host \<Rightarrow> string \<Rightarrow> showOpenArgs \<Rightarrow> World \<Rightarrow> (State \<times> string) result \<times> World" where
  "openForEdit mc h dir parsed w =
     (let path = so_showPath parsed in
      case load_show h dir path w of
        (Inr state, w1) \<Rightarrow> (Inr (state, []), w1)
      | (Inl e, w1) \<Rightarrow>
          if e = migration_required then
            if \<not> so_confirmMigration parsed then (Inl (Code ''GOLC_SHOW_MIGRATION_REQUIRED''), w1)
            else case migrate_show mc h dir path w1 of
                (Inl e', w2) \<Rightarrow> (Inl e', w2)
              | (Inr backupPath, w2) \<Rightarrow>
                  (case load_show h dir path w2 of
                     (Inl e', w3) \<Rightarrow> (Inl e', w3)
                   | (Inr state, w3) \<Rightarrow>
                       (Inr (state, ''GOLC_SHOW_MIGRATED: '' @ path @ '' migrated to schema_version '' @ itoa SchemaVersion @
                          '' (backup: '' @ backupPath @ '')'' @ newline), w3))
          else (Inl e, w1))"

text \<open>The second half: what is done with the points on offer.\<close>
definition settleRecovery ::
  "Host \<Rightarrow> string \<Rightarrow> showOpenArgs \<Rightarrow> RecoveryPoint list \<Rightarrow> State \<Rightarrow> string \<Rightarrow> World \<Rightarrow> (State \<times> string) result \<times> World" where
  "settleRecovery h dir parsed points state output w =
     (let path = so_showPath parsed in
      case so_acceptRecovery parsed of
        Some i \<Rightarrow>
          if i \<notin> rpt_ID ` set points then (Inl (Code ''GOLC_SHOW_RECOVERY_NOT_FOUND''), w)
          else (case at_show h dir path (\<lambda>f. AcceptRecoveryPoint (host_env h) (host_now h) (host_stage_ok h) (host_promote_ok h) f i) w of
                  (Some e, w1) \<Rightarrow> (Inl e, w1)
                | (None, w1) \<Rightarrow>
                    (case load_show h dir path w1 of
                       (Inl e, w2) \<Rightarrow> (Inl e, w2)
                     | (Inr recovered, w2) \<Rightarrow>
                         (Inr (recovered, output @ ''GOLC_SHOW_RECOVERY_ACCEPTED: recovery point '' @ itoa i @ '' applied'' @ newline), w2)))
      | None \<Rightarrow>
          if so_discardRecovery parsed then
            (case at_show h dir path DiscardRecoveryPoints w of
               (Some e, w1) \<Rightarrow> (Inl e, w1)
             | (None, w1) \<Rightarrow>
                 (Inr (state, output @ ''GOLC_SHOW_RECOVERY_DISCARDED: offered recovery point(s) removed'' @ newline), w1))
          else (Inr (state, output), w))"

definition runShowOpen :: "Machine \<Rightarrow> Host \<Rightarrow> World CommandHandler" where
  "runShowOpen mc h request w =
     (case parseShowOpenArgs (rq_Args request) of
        Inl e \<Rightarrow> malformed h e w
      | Inr parsed \<Rightarrow>
          (let dir = rq_Root request; path = so_showPath parsed in
           case openForEdit mc h dir parsed w of
             (Inl e, w1) \<Rightarrow> fail h e w1
           | (Inr (state, notice), w1) \<Rightarrow>
               (case at_show h dir path DetectRecoveryPoints w1 of
                  (Inl e, w2) \<Rightarrow> fail h e w2
                | (Inr points, w2) \<Rightarrow>
                    (case settleRecovery h dir parsed points state
                            (notice @ (if points = [] then [] else recoveryOfferMessage path points)) w2 of
                       (Inl e, w3) \<Rightarrow> fail h e w3
                     | (Inr (state', output), w3) \<Rightarrow>
                         succeed (output @ ''GOLC_SHOW_OPENED: '' @ path @ '' (schema_version '' @ itoa (st_SchemaVersion state') @
                           '', revision '' @ itoa (st_Revision state') @ '')'' @ newline) w3))))"

section \<open>Diagnosing and exporting\<close>

record DiagnosticReport =
  dr_FileLevelIssues :: "string list"
  dr_StructuralOK :: bool
  dr_StructuralError :: string
  dr_MigrationRequired :: bool
  dr_SchemaVersion :: int
  dr_Revision :: int

text \<open>\<open>integrity\<close>: the lines of \<open>PRAGMA integrity_check\<close>.\<close>
definition Diagnose ::
  "Env \<Rightarrow> (golc_error \<Rightarrow> string) \<Rightarrow> (Store \<Rightarrow> string list result) \<Rightarrow> Store option \<Rightarrow> Store option \<times> DiagnosticReport result" where
  "Diagnose env text integrity file =
     (case openStore file of
        Inl e \<Rightarrow> (file, Inl (Wrap ''GOLC_SHOW_DIAGNOSE_FAILED'' e))
      | Inr db \<Rightarrow>
          (case integrity db of
             Inl e \<Rightarrow> (Some db, Inl (Wrap ''GOLC_SHOW_DIAGNOSE_FAILED'' e))
           | Inr lines \<Rightarrow>
               (case LoadForRead env (Some db) of
                  (file', structural) \<Rightarrow>
                    (file', Inr \<lparr>
                       dr_FileLevelIssues = filter (\<lambda>line. line \<noteq> ''ok'') lines,
                       dr_StructuralOK = (case structural of Inr _ \<Rightarrow> True | Inl _ \<Rightarrow> False),
                       dr_StructuralError = (case structural of Inr _ \<Rightarrow> [] | Inl e \<Rightarrow> text e),
                       dr_MigrationRequired = (structural = Inl migration_required),
                       dr_SchemaVersion = (case readMeta db of Some meta \<Rightarrow> sm_SchemaVersion meta | None \<Rightarrow> SchemaVersion),
                       dr_Revision = (case readMeta db of Some meta \<Rightarrow> sm_Revision meta | None \<Rightarrow> 0)\<rparr>))))"

definition parseShowPathArg :: "string list \<Rightarrow> string result" where
  "parseShowPathArg = parseShowOnlyArgs ''GOLC_SHOW_DIAGNOSE_USAGE''"

text \<open>\<open>json\<close>: \<open>json.MarshalIndent\<close> of a report.\<close>
definition runShowDiagnose ::
  "(Store \<Rightarrow> string list result) \<Rightarrow> (DiagnosticReport \<Rightarrow> string result) \<Rightarrow> Host \<Rightarrow> World CommandHandler" where
  "runShowDiagnose integrity json h request w =
     (case parseShowPathArg (rq_Args request) of
        Inl e \<Rightarrow> malformed h e w
      | Inr showPath \<Rightarrow>
          (case at_show h (rq_Root request) showPath (Diagnose (host_env h) (host_text h) integrity) w of
             (Inl e, w1) \<Rightarrow> fail h e w1
           | (Inr report, w1) \<Rightarrow>
               (case json report of
                  Inl e \<Rightarrow> fail h (Wrap ''GOLC_SHOW_DIAGNOSE_FAILED'' e) w1
                | Inr payload \<Rightarrow>
                    if dr_FileLevelIssues report \<noteq> [] \<or> \<not> dr_StructuralOK report
                    then (\<lparr>res_ExitCode = 1, res_Stdout = payload @ newline, res_Stderr = []\<rparr>, w1)
                    else succeed (payload @ newline) w1)))"

definition runShowExport :: "(State \<Rightarrow> string result) \<Rightarrow> Host \<Rightarrow> World CommandHandler" where
  "runShowExport json h request w =
     (case parseShowPathArg (rq_Args request) of
        Inl e \<Rightarrow> malformed h e w
      | Inr showPath \<Rightarrow>
          (case at_show h (rq_Root request) showPath (LoadForRead (host_env h)) w of
             (Inl e, w1) \<Rightarrow> fail h e w1
           | (Inr state, w1) \<Rightarrow>
               (case json state of
                  Inl e \<Rightarrow> fail h (Wrap ''GOLC_SHOW_EXPORT_ENCODE_FAILED'' e) w1
                | Inr payload \<Rightarrow> succeed payload w1)))"

section \<open>Reading leaves a show as it was\<close>

text \<open>A file that was opened, and no more: seeded if it did not exist.\<close>
definition touched :: "Store option \<Rightarrow> Store option \<Rightarrow> bool" where
  "touched f f' \<longleftrightarrow> f' = f \<or> (\<exists>db. openStore f = Inr db \<and> f' = Some db)"

lemma touched_refl [simp]: "touched f f" by (simp add: touched_def)

lemma touched_open: "touched f f' \<Longrightarrow> openStore f' = openStore f"
  using open_opened openStore_opened by (auto simp: touched_def)

lemma touched_trans: "\<lbrakk>touched f f1; touched f1 f2\<rbrakk> \<Longrightarrow> touched f f2"
  using touched_open [of f f1] by (auto simp: touched_def)

text \<open>What the show loads as, and what it offers to recover.\<close>
lemma touched_same:
  assumes "touched f f'"
  shows "content env f' = content env f" "snd (DetectRecoveryPoints f') = snd (DetectRecoveryPoints f)"
  using touched_open [OF assms]
  by (simp_all add: content_def Load_def CurrentRevision_def DetectRecoveryPoints_def split: sum.split)

lemma reading_touches:
  "touched f (fst (Load env f))" "touched f (fst (LoadForRead env f))" "touched f (fst (DetectRecoveryPoints f))"
  "touched f (fst (Diagnose env text integrity f))"
proof -
  show "touched f (fst (Load env f))" "touched f (fst (LoadForRead env f))" "touched f (fst (DetectRecoveryPoints f))"
    by (simp_all add: touched_def Load_def LoadForRead_def DetectRecoveryPoints_def split: sum.split)
  show "touched f (fst (Diagnose env text integrity f))"
    using open_opened openStore_opened [of f]
    by (auto simp: touched_def Diagnose_def LoadForRead_def split: sum.split)
qed

definition all_touched :: "World \<Rightarrow> World \<Rightarrow> bool" where
  "all_touched w w' \<longleftrightarrow> w_Files w' = w_Files w \<and> (\<forall>q. touched (w_Shows w q) (w_Shows w' q))"

lemma all_touched_refl [simp]: "all_touched w w" by (simp add: all_touched_def)

lemma all_touched_trans: "\<lbrakk>all_touched w w1; all_touched w1 w2\<rbrakk> \<Longrightarrow> all_touched w w2"
  unfolding all_touched_def using touched_trans by metis

lemma load_show_touches: "load_show h dir path w = (r, w1) \<Longrightarrow> all_touched w w1"
  using reading_touches(1) [of "w_Shows w (host_resolve h dir path)" "host_env h"]
  by (auto simp: load_show_def Let_def all_touched_def split: prod.splits)

lemma at_show_touches:
  assumes "at_show h dir path f w = (r, w1)" "\<And>s. touched s (fst (f s))"
  shows "all_touched w w1"
  using assms(1) assms(2) [of "w_Shows w (host_resolve h dir path)"]
  by (auto simp: at_show_def Let_def all_touched_def split: prod.splits)

text \<open>Without the confirmation, opening reads.\<close>
lemma openForEdit_touches:
  assumes "openForEdit mc h dir parsed w = (r, w1)" "\<not> so_confirmMigration parsed"
  shows "all_touched w w1"
  using assms load_show_touches
  by (auto simp: openForEdit_def Let_def split: prod.splits sum.splits if_splits)

lemma settleRecovery_touches:
  assumes "settleRecovery h dir parsed points state output w = (r, w1)"
    and "so_acceptRecovery parsed = None" "\<not> so_discardRecovery parsed"
  shows "w1 = w"
  using assms by (simp add: settleRecovery_def Let_def)

lemma runShowOpen_touches:
  assumes "parseShowOpenArgs (rq_Args request) = Inr parsed"
    and "so_acceptRecovery parsed = None" "\<not> so_discardRecovery parsed" "\<not> so_confirmMigration parsed"
    and "runShowOpen mc h request w = (res, w')"
  shows "all_touched w w'"
proof -
  obtain r w1 where o: "openForEdit mc h (rq_Root request) parsed w = (r, w1)" by force
  note t1 = openForEdit_touches [OF o assms(4)]
  show ?thesis
  proof (cases r)
    case (Inl e)
    then show ?thesis using assms(1,5) o t1 by (auto simp: runShowOpen_def fail_def)
  next
    case (Inr sn)
    obtain state notice where sn: "sn = (state, notice)" by force
    obtain pts w2 where d: "at_show h (rq_Root request) (so_showPath parsed) DetectRecoveryPoints w1 = (pts, w2)" by force
    have t2: "all_touched w w2" using all_touched_trans [OF t1 at_show_touches [OF d reading_touches(3)]] .
    show ?thesis
    proof (cases pts)
      case (Inl e)
      then show ?thesis using assms(1,5) o Inr sn d t2 by (auto simp: runShowOpen_def Let_def fail_def)
    next
      case (Inr points)
      define told where "told = notice @ (if points = [] then [] else recoveryOfferMessage (so_showPath parsed) points)"
      obtain r' where "settleRecovery h (rq_Root request) parsed points state told w2 = (r', w2)"
        using settleRecovery_touches [OF _ assms(2,3)] by (metis surj_pair)
      then have "snd (runShowOpen mc h request w) = w2"
        using assms(1) o \<open>r = Inr sn\<close> sn d Inr told_def
        by (simp add: runShowOpen_def Let_def split: sum.split prod.split)
      then show ?thesis using assms(5) t2 by simp
    qed
  qed
qed

text \<open>
  C30: Nothing is recovered, discarded or migrated unasked. \<open>show open\<close> without \<open>--accept-recovery\<close>, \<open>--discard-recovery\<close> and
  \<open>--confirm-migration\<close>, and every \<open>show diagnose\<close> and \<open>show export\<close>, leave every show with the document, the
  revision and the recovery points it had, whatever the command reports, and no other file is written.
\<close>
theorem nothing_recovered_unasked:
  "(\<forall>parsed. parseShowOpenArgs (rq_Args request) = Inr parsed \<longrightarrow> so_acceptRecovery parsed = None \<longrightarrow>
      \<not> so_discardRecovery parsed \<longrightarrow> \<not> so_confirmMigration parsed \<longrightarrow>
      (let w' = snd (runShowOpen mc h request w) in w_Files w' = w_Files w \<and>
         (\<forall>q. content env (w_Shows w' q) = content env (w_Shows w q) \<and>
            snd (DetectRecoveryPoints (w_Shows w' q)) = snd (DetectRecoveryPoints (w_Shows w q))))) \<and>
   (\<forall>w'\<in>{snd (runShowDiagnose integrity report_json h request w), snd (runShowExport json h request w)}.
      w_Files w' = w_Files w \<and>
      (\<forall>q. content env (w_Shows w' q) = content env (w_Shows w q) \<and>
         snd (DetectRecoveryPoints (w_Shows w' q)) = snd (DetectRecoveryPoints (w_Shows w q))))"
proof -
  have "all_touched w (snd (runShowDiagnose integrity report_json h request w))"
    using at_show_touches [OF _ reading_touches(4)]
    by (auto simp: runShowDiagnose_def fail_def malformed_def succeed_def split: sum.split prod.split)
  moreover have "all_touched w (snd (runShowExport json h request w))"
    using at_show_touches [OF _ reading_touches(2)]
    by (auto simp: runShowExport_def fail_def malformed_def succeed_def split: sum.split prod.split)
  moreover have "all_touched w (snd (runShowOpen mc h request w))"
    if "parseShowOpenArgs (rq_Args request) = Inr parsed" "so_acceptRecovery parsed = None" "\<not> so_discardRecovery parsed"
      "\<not> so_confirmMigration parsed" for parsed
    using runShowOpen_touches [OF that] prod.collapse by metis
  ultimately show ?thesis by (auto simp: all_touched_def Let_def touched_same)
qed

text \<open>A report of health is earned: the file is sound and its document decodes and is valid.\<close>
lemma healthy_exit:
  assumes "res_ExitCode (fst (runShowDiagnose integrity json h request w)) = 0"
  shows "\<exists>showPath db lines state. parseShowPathArg (rq_Args request) = Inr showPath \<and>
    openStore (w_Shows w (host_resolve h (rq_Root request) showPath)) = Inr db \<and> integrity db = Inr lines \<and> set lines \<subseteq> {''ok''} \<and>
    snd (LoadForRead (host_env h) (Some db)) = Inr state"
  using assms
  by (auto simp: runShowDiagnose_def at_show_def Diagnose_def Let_def filter_empty_conv split: sum.splits prod.splits if_splits)

section \<open>Saving under another path\<close>

lemma save_show_absolute:
  assumes "host_resolve h dir destPath = destPath" "round_trips (host_env h)" "save_show h dir destPath state w = (None, w1)"
  shows "only_at destPath w w1 \<and> content (host_env h) (w_Shows w1 destPath) =
      (Inr (stampState (scrubState (host_env h) state)), Inr (wrap64 (st_Revision state + 1)))"
  using save_show_round_trip [OF assms(3,2)] assms(1) by simp

text \<open>
  Saving a show under another path copies it and touches nothing else. If the command succeeds, the
  destination holds the document of the source, at the next revision, and every show at any other path,
  the source included, loads as before; if it fails every show loads as before. Resolved paths are taken to be
  fixed by resolution.
\<close>
theorem save_as_copies:
  assumes "round_trips (host_env h)" and "\<And>p. host_resolve h (rq_Root request) (host_resolve h (rq_Root request) p) = host_resolve h (rq_Root request) p"
    and "parseShowSaveAsArgs (rq_Args request) = Inr parsed" and "runShowSaveAs h request w = (res, w')"
  shows "(res_ExitCode res \<noteq> 0 \<longrightarrow> shows_kept (host_env h) w w') \<and>
    (res_ExitCode res = 0 \<longrightarrow>
      (\<exists>state. snd (Load (host_env h) (w_Shows w (host_resolve h (rq_Root request) (sa_showPath parsed)))) = Inr state \<and>
         content (host_env h) (w_Shows w' (host_resolve h (rq_Root request) (sa_toPath parsed))) =
           (Inr (stampState (scrubState (host_env h) state)), Inr (wrap64 (st_Revision state + 1))) \<and>
         (\<forall>q. q \<noteq> host_resolve h (rq_Root request) (sa_toPath parsed) \<longrightarrow>
            content (host_env h) (w_Shows w' q) = content (host_env h) (w_Shows w q))))"
proof -
  let ?dest = "host_resolve h (rq_Root request) (sa_toPath parsed)"
  let ?out = "''GOLC_SHOW_SAVED_AS: '' @ sa_showPath parsed @ '' -> '' @ ?dest @ newline"
  have r: "read_show h (rq_Root request) (sa_showPath parsed) (\<lambda>state. save_result h (rq_Root request) ?dest state ?out) w = (res, w')"
    using assms(3,4) by (simp add: runShowSaveAs_def Let_def)
  show ?thesis
  proof (cases rule: read_show_cases [of h "rq_Root request" "sa_showPath parsed" "\<lambda>state. save_result h (rq_Root request) ?dest state ?out" w])
    case (failed e w1)
    then show ?thesis using r unchanged_shows_kept by (auto simp: fail_def)
  next
    case (loaded state w1)
    obtain e w2 where s: "save_show h (rq_Root request) ?dest state w1 = (e, w2)" by force
    have k: "shows_kept (host_env h) w w1" using loaded(2) unchanged_shows_kept by blast
    show ?thesis
    proof (cases e)
      case (Some err)
      then have "shows_kept (host_env h) w1 w2" using s save_show_failed unchanged_shows_kept by blast
      then show ?thesis using r loaded(1) s Some k shows_kept_trans by (auto simp: save_result_def fail_def)
    next
      case None
      note c = save_show_absolute [OF assms(2,1) s [unfolded None]]
      have "res_ExitCode res = 0 \<and> w' = w2" using r loaded(1) s None by (simp add: save_result_def succeed_def)
      moreover have "content (host_env h) (w_Shows w2 q) = content (host_env h) (w_Shows w q)" if "q \<noteq> ?dest" for q
        using c k that by (auto simp: only_at_def shows_kept_def)
      ultimately show ?thesis using c loaded(3) by auto
    qed
  qed
qed

text \<open>
  The recovery points of a show that is overwritten survive it: a point of the old document whose revision is
  greater than that of the copy is afterwards offered as the newer version of the copy.
\<close>
lemma overwritten_show_offers_old_points:
  assumes "opened db" "rows_wf db" "length (db_recovery_points db) < 5" "row \<in> set (db_recovery_points db)"
    and "rp_revision row > wrap64 (st_Revision state + 1)" "Save env now stage_ok promote_ok (Some db) state = (f', None)"
  shows "\<exists>points. DetectRecoveryPoints f' = (f', Inr points) \<and> pointOf row \<in> set points"
proof -
  obtain b where ok: "env_encode env (stampState (scrubState env state)) = Inr b"
    "validate (env_uuid_str env) (env_uuid_ok env) (scrubState env state) = None" stage_ok promote_ok
    using Save_success [OF assms(6)] by metis
  let ?new = "\<lparr>rp_id = db_recovery_seq db + 1, rp_created_at = now, rp_revision = wrap64 (st_Revision state + 1), rp_blob = b\<rparr>"
  have "sorted_wrt (<) (map rp_id (db_recovery_points db @ [?new]))" using assms(2) by (force simp: rows_wf_def sorted_wrt_append)
  then have "pruneRecovery (db_recovery_points db @ [?new]) = db_recovery_points db @ [?new]"
    using pruneRecovery_drop assms(3) by fastforce
  then have rows: "row \<in> set (pruneRecovery (db_recovery_points db @ [?new]))" using assms(4) by simp
  obtain db2 where f': "f' = Some db2" "row \<in> set (db_recovery_points db2)" "metaRevision db2 = wrap64 (st_Revision state + 1)" "opened db2"
    using Save_committed [OF ok(2,1) open_opened [OF assms(1)], of now] assms(1,6) ok(3,4) rows
    by (auto simp: metaRevision_def readMeta_def SchemaVersion_def opened_def)
  then show ?thesis using Detect_opened [OF f'(4)] assms(5) by auto
qed

section \<open>Witnesses\<close>

definition open_request :: Request where
  "open_request = \<lparr>rq_Route = ''show open'', rq_Args = [''--show'', ''a''], rq_Root = []\<rparr>"

definition save_as_request :: Request where
  "save_as_request = \<lparr>rq_Route = ''show save-as'', rq_Args = [''--show'', ''a'', ''--to=b''], rq_Root = []\<rparr>"

definition saved_once :: State where "saved_once = freshState\<lparr>st_Revision := 1\<rparr>"

definition demo_machine :: Machine where
  "demo_machine = \<lparr>mc_vacuum_ok = True, mc_swap_ok = True, mc_backup_path = (\<lambda>p. p @ ''.backup'')\<rparr>"

theorem nothing_recovered_unasked_witness:
  "content (table_env []) (w_Shows (snd (runShowOpen demo_machine (table_host []) open_request empty_world)) ''a'') =
   content (table_env []) None"
proof -
  have "parseShowOpenArgs (rq_Args open_request) =
      Inr \<lparr>so_showPath = ''a'', so_acceptRecovery = None, so_discardRecovery = False, so_confirmMigration = False\<rparr>" by code_simp
  then show ?thesis
    using nothing_recovered_unasked [where request = open_request and mc = demo_machine and h = "table_host []" and w = empty_world
        and env = "table_env []"] by (simp add: Let_def empty_world_def)
qed

lemma fresh_prepared: "scrubState (table_env tbl) freshState = freshState" "stampState freshState = saved_once"
  by (simp_all add: scrubState_def stampState_def freshState_def ScrubDanglingSelections_def ScrubDanglingMappings_def saved_once_def wrap64_def)

theorem save_as_copies_witness:
  "\<exists>res w'. runShowSaveAs (table_host [saved_once]) save_as_request empty_world = (res, w') \<and> res_ExitCode res = 0 \<and>
     content (table_env [saved_once]) (w_Shows w' ''b'') = (Inr saved_once, Inr 1)"
proof -
  let ?h = "table_host [saved_once]"
  have p: "parseShowSaveAsArgs (rq_Args save_as_request) = Inr \<lparr>sa_showPath = ''a'', sa_toPath = ''b''\<rparr>" by code_simp
  obtain db where db: "openStore None = Inr db" "\<And>env. loadFrom env db = Inr freshState" using open_fresh by blast
  have enc: "env_encode (table_env [saved_once]) (stampState (scrubState (table_env [saved_once]) freshState)) = Inr [0]"
    using table_encode [of saved_once "[saved_once]" 0] by (simp add: fresh_prepared)
  have valid: "validate (env_uuid_str (table_env [saved_once])) (env_uuid_ok (table_env [saved_once])) (scrubState (table_env [saved_once]) freshState) = None"
    using demo_valid [of _ _ 0] by (simp add: fresh_prepared freshState_rev)
  obtain f' where f': "Save (table_env [saved_once]) ''t'' True True None freshState = (f', None)"
    using Save_committed [OF valid enc db(1), of "''t''"] by blast
  obtain res w' where r: "runShowSaveAs ?h save_as_request empty_world = (res, w')" by force
  have load: "Load (table_env [saved_once]) None = (Some db, Inr freshState)" using db by (simp add: Load_def)
  have "res_ExitCode res = 0"
    using r p f' load
    by (auto simp: runShowSaveAs_def Let_def read_show_def load_show_def save_result_def save_show_def empty_world_def succeed_def)
  then show ?thesis
    using save_as_copies [OF _ _ p r] table_env_round_trips [of "[saved_once]"] r load
    by (auto simp: empty_world_def fresh_prepared) (simp_all add: freshState_def wrap64_def)
qed

end
