(* ===== verification/Commands.thy ===== *)
theory Commands
  imports CommandPool CommandDeployment CommandScene CommandProgramming CommandSurface CommandPlayback CommandNote CommandFile
begin

text \<open>
  The command line as a whole: the registry that \<open>NewDefaultCommandRegistry\<close> builds from what the command files
  declare, and the law that every authoring command obeys.
\<close>

section \<open>Building a registry\<close>

lemma register_scopes_ok:
  assumes "\<forall>s\<in>set xs. normalizeKey (sr_Scope s) = Inr (sr_Scope s) \<and> \<not> Contains (sr_Scope s) '' ''"
    and "distinct (map sr_Scope xs)" "fst ` set (reg_scopes r) \<inter> sr_Scope ` set xs = {}"
  shows "\<exists>r'. register_all RegisterScope r xs = Inr r' \<and> fst ` set (reg_scopes r') = fst ` set (reg_scopes r) \<union> sr_Scope ` set xs \<and>
    reg_routes r' = reg_routes r"
  using assms
proof (induction xs arbitrary: r)
  case (Cons x xs)
  let ?r = "r\<lparr>reg_scopes := (sr_Scope x, x) # reg_scopes r\<rparr>"
  have "RegisterScope r x = Inr ?r" using Cons.prems by (auto simp: RegisterScope_def map_of_eq_None_iff)
  moreover obtain r' where "register_all RegisterScope ?r xs = Inr r'"
    "fst ` set (reg_scopes r') = fst ` set (reg_scopes ?r) \<union> sr_Scope ` set xs" "reg_routes r' = reg_routes ?r"
    using Cons.IH [of ?r] Cons.prems by auto
  ultimately show ?case by (auto simp: bind_res_def)
qed simp

lemma register_routes_ok:
  assumes "\<forall>x\<in>set xs. normalizeKey (cr_Route x) = Inr (cr_Route x) \<and> cr_Handler x \<noteq> None \<and> routeScope (cr_Route x) \<in> fst ` set (reg_scopes r)"
    and "distinct (map cr_Route xs)" "fst ` set (reg_routes r) \<inter> cr_Route ` set xs = {}"
  shows "\<exists>r'. register_all RegisterRoute r xs = Inr r'"
  using assms
proof (induction xs arbitrary: r)
  case (Cons x xs)
  let ?r = "r\<lparr>reg_routes := (cr_Route x, x) # reg_routes r\<rparr>"
  have "map_of (reg_scopes r) (routeScope (cr_Route x)) \<noteq> None" "map_of (reg_routes r) (cr_Route x) = None"
    using Cons.prems by (auto simp: map_of_eq_None_iff)
  then have "RegisterRoute r x = Inr ?r" using Cons.prems by (simp add: RegisterRoute_def)
  moreover have "\<exists>r'. register_all RegisterRoute ?r xs = Inr r'" using Cons.IH [of ?r] Cons.prems by auto
  ultimately show ?case by (simp add: bind_res_def)
qed simp

lemma distinct_sort_key: "distinct (map f xs) \<Longrightarrow> distinct (map f (sort_key f xs))"
  by (metis mset_map mset_sort mset_eq_imp_distinct_iff)

text \<open>Declarations in normal form, without duplicates and within the declared scopes are accepted.\<close>
lemma default_registry_builds:
  assumes "\<forall>s\<in>set ss. normalizeKey (sr_Scope s) = Inr (sr_Scope s) \<and> \<not> Contains (sr_Scope s) '' ''" "distinct (map sr_Scope ss)"
    and "\<forall>x\<in>set rs. normalizeKey (cr_Route x) = Inr (cr_Route x) \<and> cr_Handler x \<noteq> None \<and> routeScope (cr_Route x) \<in> sr_Scope ` set ss"
    and "distinct (map cr_Route rs)"
  shows "\<exists>r :: 'a CommandRegistry. NewDefaultCommandRegistry ss rs = Inr r"
proof -
  obtain r0 :: "'a CommandRegistry" where r0: "register_all RegisterScope NewCommandRegistry (sort_key sr_Scope ss) = Inr r0"
    "fst ` set (reg_scopes r0) = sr_Scope ` set ss" "reg_routes r0 = []"
    using register_scopes_ok [of "sort_key sr_Scope ss" "NewCommandRegistry :: 'a CommandRegistry"] assms(1,2)
    by (auto simp: NewCommandRegistry_def distinct_sort_key)
  then show ?thesis
    using register_routes_ok [of "sort_key cr_Route rs" r0] assms(3,4)
    by (auto simp: NewDefaultCommandRegistry_def bind_res_def distinct_sort_key)
qed

lemma register_all_declared:
  assumes "register_all RegisterRoute r xs = Inr r'" "\<forall>(k, reg)\<in>set (reg_routes r). P (cr_Handler reg)" "\<forall>x\<in>set xs. P (cr_Handler x)"
  shows "\<forall>(k, reg)\<in>set (reg_routes r'). P (cr_Handler reg)"
  using assms
proof (induction xs arbitrary: r)
  case (Cons x xs)
  obtain r1 where r1: "RegisterRoute r x = Inr r1" "register_all RegisterRoute r1 xs = Inr r'"
    using Cons.prems(1) by (cases "RegisterRoute r x") (auto simp: bind_res_def)
  obtain key where "r1 = r\<lparr>reg_routes := (key, x\<lparr>cr_Route := key\<rparr>) # reg_routes r\<rparr>"
    using RegisterRoute_Inr [OF r1(1)] by metis
  then show ?case using Cons.IH [OF r1(2)] Cons.prems(2,3) by simp
qed simp

text \<open>Whatever \<open>Lookup\<close> finds was declared.\<close>
lemma Lookup_declared:
  assumes "NewDefaultCommandRegistry ss rs = Inr r" "Lookup r words = Some (reg, rest)" "\<forall>x\<in>set rs. P (cr_Handler x)"
  shows "P (cr_Handler reg)"
proof -
  obtain r0 where r0: "register_all RegisterScope NewCommandRegistry (sort_key sr_Scope ss) = Inr r0"
    "register_all RegisterRoute r0 (sort_key cr_Route rs) = Inr r"
    using assms(1) by (auto simp: NewDefaultCommandRegistry_def bind_res_def split: sum.splits)
  have "reg_routes r0 = []"
    using r0(1) by (rule register_all_induct [where P = "\<lambda>r. reg_routes r = []"])
      (auto simp: NewCommandRegistry_def RegisterScope_def split: sum.splits if_splits)
  then have all: "\<forall>(k, reg)\<in>set (reg_routes r). P (cr_Handler reg)"
    using register_all_declared [OF r0(2)] assms(3) by simp
  obtain k where "route_at r words k = Some reg" using assms(2) unfolding Lookup_def lookupFrom_Some_iff by blast
  then show ?thesis using all by (auto simp: route_at_def split: sum.splits dest!: map_of_SomeD)
qed

section \<open>The authoring commands\<close>

text \<open>The encoders of the replies and the integrity check.\<close>
record Encoders =
  en_inspect :: "showInspectView \<Rightarrow> string result"
  en_frame :: "Frame \<Rightarrow> string result"
  en_json :: Json
  en_report :: "DiagnosticReport \<Rightarrow> string result"
  en_state :: "State \<Rightarrow> string result"
  en_integrity :: "Store \<Rightarrow> string list result"

definition poolHandlers :: "Host \<Rightarrow> (string \<times> World CommandHandler) list" where
  "poolHandlers h =
     [(''pool create'', runPoolCreate h), (''pool update'', runPoolUpdate h), (''pool apply'', runPoolApply h),
      (''pool substitute'', runPoolSubstitute h), (''pool rename'', runPoolRename h), (''pool delete'', runPoolDelete h)]"

text \<open>The routes of \<open>show.go\<close> and \<open>show_diagnose.go\<close> on the scope that \<open>deployment.go\<close> declares, less \<open>show open\<close> and
  \<open>show save-as\<close>, which obey laws of their own.\<close>
definition showHandlers :: "Encoders \<Rightarrow> Host \<Rightarrow> (string \<times> World CommandHandler) list" where
  "showHandlers en h =
     [(''show save'', runShowSave h), (''show diagnose'', runShowDiagnose (en_integrity en) (en_report en) h),
      (''show export'', runShowExport (en_state en) h)]"

definition authoringHandlers :: "Encoders \<Rightarrow> Host \<Rightarrow> (string \<times> World CommandHandler) list" where
  "authoringHandlers en h =
     poolHandlers h @ deploymentHandlers (en_inspect en) h @ sceneHandlers h @ programmingHandlers h @ surfaceHandlers h @
     playbackHandlers (en_frame en) h @ noteHandlers (en_json en) h @ scriptHandlers (en_json en) h @ showHandlers en h"

definition authoringScopes :: "ScopeRegistration list" where
  "authoringScopes = poolScopes @ deploymentScopes @ sceneScopes @ programmingScopes @ surfaceScopes @ playbackScopes @ noteScopes @ scriptScopes"

definition authoringRoutes :: "(string \<Rightarrow> string) \<Rightarrow> Encoders \<Rightarrow> Host \<Rightarrow> World CommandRegistration list" where
  "authoringRoutes summary en h =
     map (\<lambda>(route, handler). \<lparr>cr_Route = route, cr_Summary = summary route, cr_Handler = Some handler\<rparr>) (authoringHandlers en h)"

lemmas handlers_defs = authoringHandlers_def poolHandlers_def deploymentHandlers_def sceneHandlers_def programmingHandlers_def
  surfaceHandlers_def playbackHandlers_def noteHandlers_def scriptHandlers_def showHandlers_def

lemmas scopes_defs = authoringScopes_def poolScopes_def deploymentScopes_def sceneScopes_def programmingScopes_def surfaceScopes_def
  playbackScopes_def noteScopes_def scriptScopes_def

definition scope_keys :: "string list" where
  "scope_keys = [''pool'', ''deployment'', ''show'', ''scene'', ''blend'', ''programmer'', ''theme'', ''preset'', ''chase'', ''motion'',
     ''operatorsurface'', ''playback'', ''note'', ''script'']"

definition route_words :: "string list list" where
  "route_words = [[''pool'', ''create''], [''pool'', ''update''], [''pool'', ''apply''], [''pool'', ''substitute''], [''pool'', ''rename''],
     [''pool'', ''delete''], [''deployment'', ''create''], [''deployment'', ''activate''], [''deployment'', ''rename''],
     [''deployment'', ''delete''], [''deployment'', ''instance'', ''reassign''], [''show'', ''inspect''], [''scene'', ''create''],
     [''scene'', ''activate''], [''scene'', ''layer'', ''set''], [''scene'', ''reorder''], [''blend'', ''create''],
     [''blend'', ''rename''], [''blend'', ''delete''], [''programmer'', ''set''], [''programmer'', ''inspect''],
     [''programmer'', ''clear''], [''theme'', ''create''], [''preset'', ''record''], [''chase'', ''create''],
     [''motion'', ''create''], [''theme'', ''rename''], [''theme'', ''delete''], [''preset'', ''rename''],
     [''preset'', ''delete''], [''chase'', ''update''], [''chase'', ''reorder''], [''chase'', ''duplicate''],
     [''chase'', ''delete''], [''motion'', ''rename''], [''motion'', ''duplicate''], [''motion'', ''delete''],
     [''scene'', ''rename''], [''scene'', ''duplicate''], [''scene'', ''delete''], [''operatorsurface'', ''create''],
     [''operatorsurface'', ''list''], [''operatorsurface'', ''assign''], [''operatorsurface'', ''unassign''],
     [''operatorsurface'', ''show''], [''operatorsurface'', ''remove''], [''playback'', ''bpm'', ''set''],
     [''playback'', ''bpm'', ''tap''], [''playback'', ''evaluate''], [''playback'', ''switch''], [''note'', ''create''],
     [''note'', ''list''], [''note'', ''show''], [''note'', ''edit''], [''note'', ''delete''], [''script'', ''create''],
     [''script'', ''list''], [''script'', ''show''], [''script'', ''edit''], [''script'', ''delete''],
     [''script'', ''profile'', ''set''], [''show'', ''save''], [''show'', ''diagnose''], [''show'', ''export'']]"

definition vocabulary :: "string list" where
  "vocabulary = [''activate'', ''apply'', ''assign'', ''blend'', ''bpm'', ''chase'', ''clear'', ''create'', ''delete'', ''deployment'',
     ''diagnose'', ''duplicate'', ''edit'', ''evaluate'', ''export'', ''inspect'', ''instance'', ''layer'', ''list'', ''motion'',
     ''note'', ''operatorsurface'', ''playback'', ''pool'', ''preset'', ''profile'', ''programmer'', ''reassign'', ''record'',
     ''remove'', ''rename'', ''reorder'', ''save'', ''scene'', ''script'', ''set'', ''show'', ''substitute'', ''switch'', ''tap'',
     ''theme'', ''unassign'', ''update'']"

lemma keys_declared: "map sr_Scope authoringScopes = scope_keys" "map fst (authoringHandlers en h) = map (Join '' '') route_words"
  unfolding scopes_defs scope_keys_def handlers_defs route_words_def by simp_all

lemma vocabulary_words: "list_all routeWordPattern vocabulary" by code_simp

lemma scope_vocabulary: "set scope_keys \<subseteq> set vocabulary" by (simp add: scope_keys_def vocabulary_def)

lemma route_vocabulary: "list_all (\<lambda>ws. ws \<noteq> [] \<and> set ws \<subseteq> set vocabulary \<and> hd ws \<in> set scope_keys) route_words"
  unfolding route_words_def vocabulary_def scope_keys_def by simp

lemma distinct_keys: "distinct scope_keys" "distinct (map (Join '' '') route_words)"
  unfolding scope_keys_def route_words_def by simp_all

lemma vocabulary_word: "w \<in> set vocabulary \<Longrightarrow> routeWordPattern w" using vocabulary_words by (simp add: list_all_iff)

lemma word_no_space: "routeWordPattern w \<Longrightarrow> CHR '' '' \<notin> set w"
proof -
  have "is_space CHR '' ''" by (simp add: is_space_def)
  then show "routeWordPattern w \<Longrightarrow> CHR '' '' \<notin> set w" using routeWord_chars(3) by blast
qed

lemma routeScope_Join:
  assumes "ws \<noteq> []" "\<forall>w\<in>set ws. routeWordPattern w"
  shows "routeScope (Join '' '' ws) = hd ws"
proof -
  obtain v vs where ws: "ws = v # vs" using assms(1) by (cases ws) auto
  have v: "CHR '' '' \<notin> set v" using assms(2) ws word_no_space by simp
  then have tw: "takeWhile (\<lambda>x. x \<noteq> CHR '' '') (v @ CHR '' '' # t) = v" "dropWhile (\<lambda>x. x \<noteq> CHR '' '') (v @ CHR '' '' # t) = CHR '' '' # t"
    "dropWhile (\<lambda>x. x \<noteq> CHR '' '') v = []" for t
    by (induction v) auto
  show ?thesis by (cases vs) (simp_all add: routeScope_def ws numeral_2_eq_2 tw)
qed

lemma keys_normal:
  "k \<in> set scope_keys \<Longrightarrow> normalizeKey k = Inr k \<and> \<not> Contains k '' ''"
  "ws \<in> set route_words \<Longrightarrow> normalizeKey (Join '' '' ws) = Inr (Join '' '' ws) \<and> routeScope (Join '' '' ws) \<in> set scope_keys"
proof -
  assume "k \<in> set scope_keys"
  then have "routeWordPattern k" using scope_vocabulary vocabulary_word by blast
  then show "normalizeKey k = Inr k \<and> \<not> Contains k '' ''"
    using normal_words(1) [of "[k]"] word_no_space [of k] set_mono_sublist by (fastforce simp: Contains_def)
next
  assume "ws \<in> set route_words"
  then have ws: "ws \<noteq> []" "\<forall>w\<in>set ws. routeWordPattern w" "hd ws \<in> set scope_keys"
    using route_vocabulary vocabulary_word by (auto simp: list_all_iff)
  then show "normalizeKey (Join '' '' ws) = Inr (Join '' '' ws) \<and> routeScope (Join '' '' ws) \<in> set scope_keys"
    using normal_words(1) routeScope_Join by metis
qed

lemma authoring_registry: "\<exists>r. NewDefaultCommandRegistry authoringScopes (authoringRoutes summary en h) = Inr r"
proof (rule default_registry_builds)
  have r: "map cr_Route (authoringRoutes summary en h) = map (Join '' '') route_words"
    unfolding keys_declared(2) [symmetric, of en h] by (simp add: authoringRoutes_def o_def case_prod_beta)
  have sc: "sr_Scope ` set authoringScopes = set scope_keys" unfolding keys_declared(1) [symmetric] by simp
  show "\<forall>s\<in>set authoringScopes. normalizeKey (sr_Scope s) = Inr (sr_Scope s) \<and> \<not> Contains (sr_Scope s) '' ''"
    using keys_normal(1) sc by blast
  show "distinct (map sr_Scope authoringScopes)" "distinct (map cr_Route (authoringRoutes summary en h))"
    using distinct_keys r keys_declared(1) by simp_all
  have "\<forall>x\<in>set (authoringRoutes summary en h). cr_Route x \<in> Join '' '' ` set route_words \<and> cr_Handler x \<noteq> None"
  proof
    fix x assume x: "x \<in> set (authoringRoutes summary en h)"
    then have "cr_Route x \<in> set (map cr_Route (authoringRoutes summary en h))" by simp
    then show "cr_Route x \<in> Join '' '' ` set route_words \<and> cr_Handler x \<noteq> None"
      using x unfolding r by (auto simp: authoringRoutes_def)
  qed
  then show "\<forall>x\<in>set (authoringRoutes summary en h). normalizeKey (cr_Route x) = Inr (cr_Route x) \<and> cr_Handler x \<noteq> None \<and>
      routeScope (cr_Route x) \<in> sr_Scope ` set authoringScopes"
    unfolding sc using keys_normal(2) by auto
qed

section \<open>The law of the authoring commands\<close>

lemma applyPlan_revision: "applyPlan h plan state = Inr (state', out) \<Longrightarrow> st_Revision state' = st_Revision state"
  by (auto simp: applyPlan_def guard_err_def Let_def bind_res_Inr_iff split: option.splits prod.splits sum.splits if_splits)

lemma pool_edits [edits]:
  assumes "round_trips (host_env h)"
  shows "one_edit (host_env h) w (runPoolCreate h request w)" "one_edit (host_env h) w (runPoolUpdate h request w)"
    "one_edit (host_env h) w (runPoolApply h request w)" "one_edit (host_env h) w (runPoolSubstitute h request w)"
    "one_edit (host_env h) w (runPoolRename h request w)" "one_edit (host_env h) w (runPoolDelete h request w)"
proof -
  show "one_edit (host_env h) w (runPoolUpdate h request w)" "one_edit (host_env h) w (runPoolSubstitute h request w)"
    using planning_changes_no_show one_edit_kept by blast+
  show "one_edit (host_env h) w (runPoolApply h request w)" unfolding runPoolApply_def
    by (auto intro!: one_edit_edit_show [OF assms] applyPlan_revision split: sum.split option.split)
  show "one_edit (host_env h) w (runPoolCreate h request w)" "one_edit (host_env h) w (runPoolRename h request w)"
    "one_edit (host_env h) w (runPoolDelete h request w)"
    unfolding runPoolCreate_def runPoolRename_def runPoolDelete_def
    by (auto intro!: one_edit_edit_show [OF assms] simp: bind_res_Inr_iff Let_def split: sum.split option.splits prod.splits)
qed

text \<open>Re-saving: the second load finds what was saved.\<close>
lemma one_edit_reread:
  assumes "round_trips (host_env h)" "unchanged (host_env h) (host_resolve h dir path) w w1"
    and "snd (Load (host_env h) (w_Shows w (host_resolve h dir path))) = Inr state" "save_show h dir path state w1 = (None, w2)"
  shows "one_edit (host_env h) w (read_show h dir path (\<lambda>saved. succeed (out saved)) w2)"
proof -
  let ?p = "host_resolve h dir path"
  let ?s = "stampState (scrubState (host_env h) state)"
  note c = save_show_round_trip [OF assms(4,1)]
  have l: "snd (Load (host_env h) (w_Shows w2 ?p)) = Inr ?s" using c by (simp add: content_def)
  obtain w3 where r: "read_show h dir path (\<lambda>saved. succeed (out saved)) w2 = succeed (out ?s) w3" "unchanged (host_env h) ?p w2 w3"
    using l by (cases rule: read_show_cases [of h dir path "\<lambda>saved. succeed (out saved)" w2]) auto
  have o: "only_at ?p w w3" using assms(2) c r(2) by (auto simp: unchanged_def only_at_def)
  have k: "content (host_env h) (w_Shows w3 ?p) = (Inr ?s, Inr (wrap64 (st_Revision state + 1)))" using c r(2) by (simp add: unchanged_def)
  have "validate (env_uuid_str (host_env h)) (env_uuid_ok (host_env h)) ?s = None" using c validate_stampState by simp
  then show ?thesis unfolding r(1) one_edit_def outcome_simps using o k assms(3) stamped_revision by blast
qed

lemma show_edits [edits]:
  assumes "round_trips (host_env h)"
  shows "one_edit (host_env h) w (runShowSave h request w)" "one_edit (host_env h) w (runShowDiagnose integrity report_json h request w)"
    "one_edit (host_env h) w (runShowExport json h request w)"
proof -
  have kept: "one_edit (host_env h) w out" if "all_touched w (snd out)" for out
    using that touched_same(1) by (intro one_edit_kept) (auto simp: all_touched_def shows_kept_def)
  show "one_edit (host_env h) w (runShowDiagnose integrity report_json h request w)"
    using at_show_touches [OF _ reading_touches(4)]
    by (intro kept) (auto simp: runShowDiagnose_def fail_def malformed_def succeed_def split: sum.split prod.split)
  show "one_edit (host_env h) w (runShowExport json h request w)"
    using at_show_touches [OF _ reading_touches(2)]
    by (intro kept) (auto simp: runShowExport_def fail_def malformed_def succeed_def split: sum.split prod.split)
  show "one_edit (host_env h) w (runShowSave h request w)"
  proof (cases "parseShowSaveArgs (rq_Args request)")
    case (Inl e)
    then show ?thesis by (simp add: runShowSave_def)
  next
    case (Inr path)
    let ?dir = "rq_Root request"
    let ?again = "\<lambda>saved. succeed (''GOLC_SHOW_SAVED: '' @ path @ '' (revision '' @ itoa (st_Revision saved) @ '')'' @ newline)"
    let ?f = "\<lambda>state w1. case save_show h ?dir path state w1 of (Some e, w2) \<Rightarrow> fail h e w2 | (None, w2) \<Rightarrow> read_show h ?dir path ?again w2"
    have run: "runShowSave h request w = read_show h ?dir path ?f w" by (simp add: runShowSave_def Inr)
    show ?thesis
    proof (cases rule: read_show_cases [of h ?dir path ?f w])
      case (failed e w1)
      then show ?thesis using run unchanged_shows_kept by (auto intro: one_edit_kept)
    next
      case (loaded state w1)
      obtain e w2 where s: "save_show h ?dir path state w1 = (e, w2)" by force
      show ?thesis
      proof (cases e)
        case None
        then show ?thesis using run loaded s one_edit_reread [OF assms loaded(2,3)] by simp
      next
        case (Some err)
        then have "unchanged (host_env h) (host_resolve h ?dir path) w1 w2" using s save_show_failed by blast
        then show ?thesis
          using run loaded s Some unchanged_trans unchanged_shows_kept by (auto intro!: one_edit_kept) blast
      qed
    qed
  qed
qed

lemma authoring_edits:
  assumes "round_trips (host_env h)" "encodes (en_json en)" "x \<in> set (authoringHandlers en h)"
  shows "one_edit (host_env h) w (snd x request w)"
  using assms(3) unfolding handlers_defs set_append set_simps
  by (elim UnE insertE emptyE) (simp_all only: snd_conv edits assms(1,2) note_edits [OF assms(1,2)] script_edits [OF assms(1,2)])


definition demo_encoders :: Encoders where
  "demo_encoders = \<lparr>en_inspect = (\<lambda>v. Inr []), en_frame = (\<lambda>v. Inr []),
     en_json = \<lparr>js_note = (\<lambda>v. Inr (nv_Title v)), js_notes = (\<lambda>v. Inr []), js_script = (\<lambda>v. Inr (sv_Name v)), js_scripts = (\<lambda>v. Inr [])\<rparr>,
     en_report = (\<lambda>v. Inr []), en_state = (\<lambda>v. Inr []), en_integrity = (\<lambda>db. Inr [''ok''])\<rparr>"


section \<open>Reordering loses nothing\<close>

text \<open>
  C26: \<open>scene reorder\<close> and \<open>chase reorder\<close> accept exactly the permutations of the indices. A list of indices is accepted if and
  only if it names every position exactly once; then the scenes (the steps of the chase) are the same ones, as often
  as before, in the given order, and nothing else of the chase changes.
\<close>
theorem reorder_accepts_permutations:
  "((\<exists>ys. reorderScenes scenes order = Inr ys) \<longleftrightarrow> mset order = mset (map int [0..<length scenes])) \<and>
   (reorderScenes scenes order = Inr ys \<longrightarrow> mset ys = mset scenes \<and> (\<forall>i<length ys. ys ! i = scenes ! nat (order ! i))) \<and>
   ((\<exists>c'. reorderChaseSteps c order = Inr c') \<longleftrightarrow> mset order = mset (map int [0..<length (chase_Steps c)])) \<and>
   (reorderChaseSteps c order = Inr c' \<longrightarrow> mset (chase_Steps c') = mset (chase_Steps c) \<and>
      (\<forall>i<length (chase_Steps c'). chase_Steps c' ! i = chase_Steps c ! nat (order ! i)) \<and> c'\<lparr>chase_Steps := chase_Steps c\<rparr> = c)"
proof (intro conjI impI)
  show "(\<exists>ys. reorderScenes scenes order = Inr ys) \<longleftrightarrow> mset order = mset (map int [0..<length scenes])"
    unfolding reorderScenes_def by (rule reorder_permutes(1))
  show "(\<exists>c'. reorderChaseSteps c order = Inr c') \<longleftrightarrow> mset order = mset (map int [0..<length (chase_Steps c)])"
    using reorder_permutes(1) [of chase_usage "chase_Steps c" order] by (auto simp: reorderChaseSteps_def bind_res_Inr_iff)
  show "mset ys = mset scenes" "\<forall>i<length ys. ys ! i = scenes ! nat (order ! i)" if "reorderScenes scenes order = Inr ys"
    using that reorder_permutes(2) unfolding reorderScenes_def by blast+
  assume "reorderChaseSteps c order = Inr c'"
  then obtain xs where xs: "reorder chase_usage (chase_Steps c) order = Inr xs" "c' = c\<lparr>chase_Steps := xs\<rparr>"
    by (auto simp: reorderChaseSteps_def bind_res_Inr_iff)
  then show "mset (chase_Steps c') = mset (chase_Steps c)" "\<forall>i<length (chase_Steps c'). chase_Steps c' ! i = chase_Steps c ! nat (order ! i)"
    "c'\<lparr>chase_Steps := chase_Steps c\<rparr> = c"
    using reorder_permutes(2) [OF xs(1)] by simp_all
qed

definition demo_scene_named :: "string \<Rightarrow> Scene" where
  "demo_scene_named name = demo_scene\<lparr>scene_Name := name\<rparr>"

theorem reorder_accepts_permutations_witness:
  "\<exists>ys. reorderScenes [demo_scene_named ''a'', demo_scene_named ''b''] [1, 0] = Inr ys \<and>
     mset ys = {#demo_scene_named ''a'', demo_scene_named ''b''#} \<and> ys ! 0 = demo_scene_named ''b''"
proof -
  let ?scenes = "[demo_scene_named ''a'', demo_scene_named ''b'']"
  have "mset [1, 0 :: int] = mset (map int [0..<length ?scenes])" by (simp add: numeral_2_eq_2 upt_rec)
  then obtain ys where ys: "reorderScenes ?scenes [1, 0] = Inr ys" using reorder_accepts_permutations [of ?scenes "[1, 0]"] by blast
  then have "mset ys = mset ?scenes" "\<forall>i<length ys. ys ! i = ?scenes ! nat ([1, 0] ! i)"
    using reorder_accepts_permutations [of ?scenes "[1, 0]" ys] by blast+
  moreover have "length ys = 2" using mset_eq_length [OF calculation(1)] by simp
  ultimately show ?thesis using ys by auto
qed

section \<open>Locked surfaces\<close>

lemma find_replaced:
  assumes "find_by name_of n xs = Some x" "name_of y = n" "ident_of y = ident_of x"
  shows "find_by name_of n (map (\<lambda>s. if ident_of s = ident_of y then y else s) xs) = Some y"
  using assms by (induction xs) (auto split: if_splits)

lemma applyControlRef_assigned:
  assumes "resolveControlRef state sel = Inr ref"
  shows "IsAssigned (applyControlRef s ref b) c \<longleftrightarrow>
      (if b then IsAssigned s c \<or> ControlRefEqual c ref else IsAssigned s c \<and> \<not> ControlRefEqual c ref)"
    and "surf_Name (applyControlRef s ref b) = surf_Name s" "surf_ID (applyControlRef s ref b) = surf_ID s"
proof -
  consider i where "ref = SceneControlRef i" | l where "ref = LayerControlRef l" | m where "ref = MasterControlRef m" | f where "ref = SafetyControlRef f"
    using assms by (cases "(state, sel)" rule: resolveControlRef.cases) (auto split: option.splits if_splits prod.splits)
  note refs = this
  have kinds: "ctl_Kind (SceneControlRef i) = ControlScene" "ctl_Scene (SceneControlRef i) = i" "ctl_Kind (LayerControlRef l) = ControlLayer"
    "ctl_Layer (LayerControlRef l) = l" "ctl_Kind (MasterControlRef m) = ControlMaster" "ctl_Master (MasterControlRef m) = m"
    "ctl_Kind (SafetyControlRef f) = ControlSafety" "ctl_Safety (SafetyControlRef f) = f" for i l m f
    by (simp_all add: SceneControlRef_def LayerControlRef_def MasterControlRef_def SafetyControlRef_def)
  show "IsAssigned (applyControlRef s ref b) c \<longleftrightarrow>
      (if b then IsAssigned s c \<or> ControlRefEqual c ref else IsAssigned s c \<and> \<not> ControlRefEqual c ref)"
    by (cases rule: refs) (simp_all add: applyControlRef_def kinds IsAssigned_tracks_assignments)
  show "surf_Name (applyControlRef s ref b) = surf_Name s" "surf_ID (applyControlRef s ref b) = surf_ID s"
    by (simp_all add: applyControlRef_def AssignScene_def AssignLayer_def AssignMaster_def AssignSafety_def UnassignScene_def
        UnassignLayer_def UnassignMaster_def UnassignSafety_def)
qed

text \<open>
  C31: A surface authorises exactly what was assigned to it. After \<open>operatorsurface assign\<close> (\<open>unassign\<close>) of a control to the
  surface of a given name, that surface authorises a control if and only if it authorised it before or the control is
  the assigned one (it authorised it before and the control is not the removed one), and every surface with another
  identity is as it was. The control is the one the selector names in the loaded document.
\<close>
theorem assignment_decides_authorization:
  assumes "assignControl assign surfaceName selector state = Inr (state', out)"
  shows "\<exists>target target' ref. operatorSurfaceByName (st_OperatorSurfaces state) surfaceName = Some target \<and>
    resolveControlRef state selector = Inr ref \<and> operatorSurfaceByName (st_OperatorSurfaces state') surfaceName = Some target' \<and>
    (\<forall>c. Authorize target' c = None \<longleftrightarrow>
       (if assign then Authorize target c = None \<or> ControlRefEqual c ref else Authorize target c = None \<and> \<not> ControlRefEqual c ref)) \<and>
    filter (\<lambda>s. surf_ID s \<noteq> surf_ID target) (st_OperatorSurfaces state') = filter (\<lambda>s. surf_ID s \<noteq> surf_ID target) (st_OperatorSurfaces state)"
proof -
  obtain target ref where t: "operatorSurfaceByName (st_OperatorSurfaces state) surfaceName = Some target"
    and r: "resolveControlRef state selector = Inr ref"
    and s': "st_OperatorSurfaces state' = replaceOperatorSurface (st_OperatorSurfaces state) (applyControlRef target ref assign)"
    using assms by (auto simp: assignControl_def bind_res_Inr_iff split: option.splits)
  note a = applyControlRef_assigned [OF r]
  have n: "surf_Name target = surfaceName" using t by (auto simp: operatorSurfaceByName_def dest: find_by_SomeD)
  have f: "operatorSurfaceByName (st_OperatorSurfaces state') surfaceName = Some (applyControlRef target ref assign)"
    using find_replaced [of surf_Name surfaceName "st_OperatorSurfaces state" target "applyControlRef target ref assign" surf_ID] t n a(2,3)
    by (simp add: operatorSurfaceByName_def s' replaceOperatorSurface_def)
  have "filter (\<lambda>s. surf_ID s \<noteq> surf_ID target) (replaceOperatorSurface xs (applyControlRef target ref assign)) =
      filter (\<lambda>s. surf_ID s \<noteq> surf_ID target) xs" for xs
    by (induction xs) (auto simp: replaceOperatorSurface_def a(3))
  then show ?thesis using t r f a(1) by (auto simp: Authorize_def s')
qed

definition surface_state :: State where
  "surface_state = freshState\<lparr>st_OperatorSurfaces := [demo_surface\<lparr>surf_Name := ''FOH'', surf_SafetyRefs := []\<rparr>]\<rparr>"

theorem assignment_decides_authorization_witness:
  "\<exists>state' out target'. assignControl True ''FOH'' (SelectSafety ''blackout'') surface_state = Inr (state', out) \<and>
     operatorSurfaceByName (st_OperatorSurfaces state') ''FOH'' = Some target' \<and> Authorize target' (SafetyControlRef ''blackout'') = None"
proof -
  obtain state' out where a: "assignControl True ''FOH'' (SelectSafety ''blackout'') surface_state = Inr (state', out)"
    by (simp add: assignControl_def surface_state_def operatorSurfaceByName_def)
  have "resolveControlRef surface_state (SelectSafety ''blackout'') = Inr (SafetyControlRef ''blackout'')" by simp
  moreover have "ControlRefEqual (SafetyControlRef ''blackout'') (SafetyControlRef ''blackout'')" by code_simp
  ultimately show ?thesis using assignment_decides_authorization [OF a] a by auto
qed

end
