(* ===== verification/Security.thy ===== *)
theory Security
  imports GoStrings
begin

text \<open>
  \<open>src/internal/security/redact.go\<close>: the scan for secret-shaped text, the redaction that every diagnostic passes
  through, and the one diagnostic shape that may carry named fields.

  A Go map of strings is an association list with distinct keys.
\<close>

definition CanaryToken :: string where
  "CanaryToken = ''GOLC_FAKE_SECRET_CANARY_4f9c2e6b1a7d3f809c21''"

definition forbiddenPatterns :: "string list" where
  "forbiddenPatterns = [CanaryToken, ''LINEAR_API_KEY='', ''Bearer '', ''sk-'', ''lin_api_'']"

text \<open>The first forbidden token found, or the empty string.\<close>
definition ScanCanary :: "string \<Rightarrow> string" where
  "ScanCanary text = (case find (Contains text) forbiddenPatterns of None \<Rightarrow> [] | Some token \<Rightarrow> token)"

record CanaryViolation =
  cv_Source :: string
  cv_Token :: string

definition ScanCanaryAll :: "(string \<times> string) list \<Rightarrow> CanaryViolation list" where
  "ScanCanaryAll sources =
     concat (map (\<lambda>(name, text). let token = ScanCanary text in
         if token \<noteq> [] then [\<lparr>cv_Source = name, cv_Token = token\<rparr>] else [])
       (sort_key fst sources))"

definition SetState :: "string \<Rightarrow> string" where
  "SetState val = (if trim_space val = [] then ''<unset>'' else ''<set>'')"

definition redactedMarker :: string where "redactedMarker = ''<redacted>''"

definition Redact :: "string \<Rightarrow> string" where
  "Redact val = (if ScanCanary val \<noteq> [] then redactedMarker else val)"

record SafeDiagnostic =
  sd_Code :: string
  sd_Message :: string
  sd_Fields :: "(string \<times> string) list"

definition SafeDiagnostic_String :: "SafeDiagnostic \<Rightarrow> string" where
  "SafeDiagnostic_String d =
     (let head = sd_Code d @ '': '' @ sd_Message d in
      if sd_Fields d = [] then head
      else head @ '' ('' @ Join '', '' (map (\<lambda>(name, val). name @ ''='' @ Redact val) (sort_key fst (sd_Fields d))) @ '')'')"

section \<open>What redaction guarantees\<close>

text \<open>No forbidden token occurs in the text.\<close>
definition clean :: "string \<Rightarrow> bool" where
  "clean text \<longleftrightarrow> (\<forall>token\<in>set forbiddenPatterns. \<not> Contains text token)"

lemma forbidden_not_Nil: "token \<in> set forbiddenPatterns \<Longrightarrow> token \<noteq> []"
  by (auto simp: forbiddenPatterns_def CanaryToken_def)

lemma ScanCanary_clean: "ScanCanary text = [] \<longleftrightarrow> clean text"
proof (cases "find (Contains text) forbiddenPatterns")
  case None
  then have "clean text" unfolding find_None_iff clean_def by blast
  then show ?thesis unfolding ScanCanary_def None by simp
next
  case (Some token)
  then have "token \<in> set forbiddenPatterns" "Contains text token" by (auto simp: find_Some_iff)
  then show ?thesis unfolding ScanCanary_def clean_def Some option.case using forbidden_not_Nil by blast
qed

lemma sublist_letters: "sublist t s \<Longrightarrow> set t \<subseteq> set s"
  by (auto simp: sublist_def)

lemma marker_clean: "clean redactedMarker"
proof -
  have "list_all (\<lambda>token. list_ex (\<lambda>c. c \<notin> set redactedMarker) token) forbiddenPatterns" by code_simp
  then show ?thesis unfolding clean_def Contains_def list_all_iff list_ex_iff using sublist_letters by blast
qed

lemma Redact_cases: "Redact val = val \<and> clean val \<or> Redact val = redactedMarker \<and> \<not> clean val"
  by (simp add: Redact_def ScanCanary_clean)

lemma Redact_clean [simp]: "clean (Redact val)"
  using Redact_cases marker_clean by metis

lemma Redact_id: "clean val \<Longrightarrow> Redact val = val"
  using Redact_cases by blast

lemma Redact_idem [simp]: "Redact (Redact val) = Redact val"
  by (simp add: Redact_id)

lemma ScanCanaryAll_iff:
  "\<lparr>cv_Source = name, cv_Token = token\<rparr> \<in> set (ScanCanaryAll sources) \<longleftrightarrow>
    (\<exists>text. (name, text) \<in> set sources \<and> token = ScanCanary text \<and> \<not> clean text)"
  by (force simp: ScanCanaryAll_def Let_def ScanCanary_clean split: if_splits)

lemma ScanCanaryAll_clean: "ScanCanaryAll sources = [] \<longleftrightarrow> (\<forall>(name, text)\<in>set sources. clean text)"
  by (force simp: ScanCanaryAll_def Let_def ScanCanary_clean split: if_splits)

text \<open>A field named after the credential itself makes the rendered line one that the scan rejects.\<close>
lemma credential_field_flagged:
  "\<not> clean (SafeDiagnostic_String \<lparr>sd_Code = c, sd_Message = m, sd_Fields = [(''LINEAR_API_KEY'', val)]\<rparr>)"
proof -
  have "sublist ''LINEAR_API_KEY='' (a @ ''LINEAR_API_KEY='' @ b)" for a b by (simp add: sublist_def) blast
  from this [of "c @ '': '' @ m @ '' (''" "Redact val @ '')''"] show ?thesis
    by (auto simp: clean_def Contains_def SafeDiagnostic_String_def Let_def forbiddenPatterns_def)
qed

end
