(* ===== verification/EventStream.thy ===== *)
theory EventStream
  imports Api Security
begin

text \<open>
  \<open>src/internal/api/events.go\<close> and \<open>src/internal/api/audit.go\<close>, the two observers of the mutations: the stream of
  numbered events with its bounded ring buffer, from which a client that reconnects is replayed what it missed or
  told to fetch everything again, and the audit record with its redacted arguments.

  A bus holds the ring buffer, the last number given out, and the open channels, each with the events waiting in it; a
  channel is known by the number under which it was opened.  The ring's laws are a locale, so that the stream of script
  events, which the code builds again beside this one, obeys the same lemmas.
\<close>

section \<open>A ring of numbered events\<close>

record 'e bus =
  bus_buffer :: "'e list"
  bus_subscribers :: "(nat \<times> 'e list) list"
  bus_nextSeq :: int
  bus_opened :: nat

definition empty_bus :: "'e bus" where
  "empty_bus = \<lparr>bus_buffer = [], bus_subscribers = [], bus_nextSeq = 0, bus_opened = 0\<rparr>"

text \<open>The last \<open>n\<close> entries.\<close>
definition keep_last :: "nat \<Rightarrow> 'a list \<Rightarrow> 'a list" where
  "keep_last n xs = drop (length xs - n) xs"

text \<open>A send that does not block: a full channel misses the event.\<close>
definition offer :: "nat \<Rightarrow> 'e \<Rightarrow> nat \<times> 'e list \<Rightarrow> nat \<times> 'e list" where
  "offer capacity ev = (\<lambda>(ch, pending). (ch, if length pending < capacity then pending @ [ev] else pending))"

text \<open>A fresh channel.\<close>
definition open_channel :: "'e bus \<Rightarrow> nat \<times> 'e bus" where
  "open_channel b = (bus_opened b, b\<lparr>bus_subscribers := (bus_opened b, []) # bus_subscribers b, bus_opened := Suc (bus_opened b)\<rparr>)"

definition unsubscribe :: "nat \<Rightarrow> 'e bus \<Rightarrow> 'e bus" where
  "unsubscribe ch b = b\<lparr>bus_subscribers := filter (\<lambda>s. fst s \<noteq> ch) (bus_subscribers b)\<rparr>"

lemma keep_last_simps [simp]:
  "length (keep_last n xs) = min n (length xs)" "length xs \<le> n \<Longrightarrow> keep_last n xs = xs"
  by (simp_all add: keep_last_def)

lemma set_keep_last: "set (keep_last n xs) \<subseteq> set xs" by (simp add: keep_last_def set_drop_subset)

section \<open>events.go\<close>

definition EventRingBufferCapacity :: nat where "EventRingBufferCapacity = 256"

record domainEventPayload =
  dp_Type :: string
  dp_Route :: string
  dp_Revision :: int
  dp_Actor :: string

record scriptEventPayload =
  sp_RunID :: string
  sp_ScriptName :: string
  sp_Status :: string
  sp_Reason :: string

datatype event_payload = StatePayload domainEventPayload | ScriptPayload scriptEventPayload

record ringEvent =
  re_Seq :: int
  re_Revision :: int
  re_Payload :: event_payload

type_synonym eventBroadcaster = "ringEvent bus"

definition newEventBroadcaster :: eventBroadcaster where "newEventBroadcaster = empty_bus"

definition publish :: "ringEvent \<Rightarrow> eventBroadcaster \<Rightarrow> eventBroadcaster" where
  "publish ev b =
     (let n = wrap64 (bus_nextSeq b + 1); ev' = ev\<lparr>re_Seq := n\<rparr>; buffer = bus_buffer b @ [ev'] in
      b\<lparr>bus_buffer := (if length buffer > EventRingBufferCapacity then drop (length buffer - EventRingBufferCapacity) buffer else buffer),
        bus_subscribers := map (offer EventRingBufferCapacity ev') (bus_subscribers b), bus_nextSeq := n\<rparr>)"

text \<open>The replay, whether a resync is due, the channel, and the bus afterwards.\<close>
definition subscribe :: "string \<Rightarrow> eventBroadcaster \<Rightarrow> ringEvent list \<times> bool \<times> nat \<times> eventBroadcaster" where
  "subscribe lastEventID b =
     (let (ch, b') = open_channel b in
      if lastEventID = [] then ([], False, ch, b')
      else case ParseInt lastEventID of
          None \<Rightarrow> ([], False, ch, b')
        | Some lastID \<Rightarrow>
            if bus_buffer b = [] then ([], lastID > 0, ch, b')
            else
              let oldest = re_Seq (hd (bus_buffer b)); latest = re_Seq (last (bus_buffer b)) in
              if lastID < oldest - 1 then ([], True, ch, b')
              else if lastID = latest then ([], False, ch, b')
              else if lastID > latest then ([], True, ch, b')
              else (filter (\<lambda>bufEv. re_Seq bufEv > lastID) (bus_buffer b), False, ch, b'))"

definition reset :: "eventBroadcaster \<Rightarrow> eventBroadcaster" where
  "reset b = b\<lparr>bus_buffer := [], bus_subscribers := [], bus_nextSeq := 0\<rparr>"

definition domainFromRoute :: "string \<Rightarrow> string" where
  "domainFromRoute route = takeWhile (\<lambda>c. c \<noteq> CHR '' '') route"

definition publishMutationEvent :: "MutationEvent \<Rightarrow> eventBroadcaster \<Rightarrow> eventBroadcaster" where
  "publishMutationEvent ev b =
     (case me_ResultingRevision ev of
        None \<Rightarrow> b
      | Some revision \<Rightarrow>
          if me_Outcome ev \<noteq> ''success'' then b
          else publish \<lparr>re_Seq = 0, re_Revision = revision,
            re_Payload = StatePayload \<lparr>dp_Type = domainFromRoute (me_Route ev), dp_Route = me_Route ev, dp_Revision = revision,
              dp_Actor = me_Actor ev\<rparr>\<rparr> b)"

definition PublishScriptLifecycleEvent :: "string \<Rightarrow> string \<Rightarrow> string \<Rightarrow> string \<Rightarrow> eventBroadcaster \<Rightarrow> eventBroadcaster" where
  "PublishScriptLifecycleEvent runID scriptName status reason =
     publish \<lparr>re_Seq = 0, re_Revision = 0,
       re_Payload = ScriptPayload \<lparr>sp_RunID = runID, sp_ScriptName = scriptName, sp_Status = status, sp_Reason = reason\<rparr>\<rparr>"

text \<open>\<open>keys\<close>: what \<open>ListAPIKeys\<close> returns, unless it fails.\<close>
definition apiKeyStillValid :: "APIKey list option \<Rightarrow> time \<Rightarrow> string \<Rightarrow> bool" where
  "apiKeyStillValid keys now keyID =
     (if keyID = [] then False
      else case keys of
          None \<Rightarrow> False
        | Some ks \<Rightarrow> (case find_by ak_KeyID keyID ks of
              None \<Rightarrow> False
            | Some key \<Rightarrow> ak_RevokedAt key = 0 \<and> now < ak_ExpiresAt key))"

text \<open>What the loop of an open stream wakes up for: the client is gone, an event arrives on the channel (and is sent,
  successfully or not), or the ticker fires, when the keys are read at a given time.\<close>
datatype wake = ClientGone | Live ringEvent bool | KeyTick "APIKey list option" time

datatype sse_message = ResyncMessage string | EventMessage int event_payload

fun streamLoop :: "string \<Rightarrow> wake list \<Rightarrow> sse_message list" where
  "streamLoop keyID [] = []"
| "streamLoop keyID (ClientGone # ws) = []"
| "streamLoop keyID (Live ev ok # ws) = EventMessage (re_Seq ev) (re_Payload ev) # (if ok then streamLoop keyID ws else [])"
| "streamLoop keyID (KeyTick keys now # ws) = (if apiKeyStillValid keys now keyID then streamLoop keyID ws else [])"

text \<open>The messages of the connection; \<open>sent\<close>: how many messages of the replay (or the resync) go out before a send
  fails, if one does.\<close>
definition handleEventStream :: "apiKeyContext option \<Rightarrow> string \<Rightarrow> nat option \<Rightarrow> wake list \<Rightarrow> eventBroadcaster \<Rightarrow> sse_message list" where
  "handleEventStream ctx lastEventID sent wakes b =
     (let keyID = (case KeyIDFromContext ctx of None \<Rightarrow> [] | Some k \<Rightarrow> k);
          (replay, resync, ch, b') = subscribe lastEventID b;
          first = (if resync then [ResyncMessage ''buffer_overflow''] else map (\<lambda>ev. EventMessage (re_Seq ev) (re_Payload ev)) replay) in
      case sent of
        Some n \<Rightarrow> take n first
      | None \<Rightarrow> first @ streamLoop keyID wakes)"

section \<open>audit.go\<close>

definition redactedPlaceholder :: string where "redactedPlaceholder = ''<redacted>''"

definition sensitiveFlagSubstrings :: "string list" where
  "sensitiveFlagSubstrings = [''key'', ''token'', ''secret'', ''password'']"

definition isSensitiveFlagName :: "string \<Rightarrow> bool" where
  "isSensitiveFlagName name = (let lower = ToLower name in \<exists>substr\<in>set sensitiveFlagSubstrings. Contains lower substr)"

definition sensitiveFlag :: "string \<Rightarrow> bool" where
  "sensitiveFlag arg = (case CutPrefix arg ''--'' of None \<Rightarrow> False | Some flag \<Rightarrow> isSensitiveFlagName flag)"

text \<open>The two loops of the code: every argument is scanned, then the value after a sensitive flag is replaced.\<close>
definition redactArgs :: "string list \<Rightarrow> string list" where
  "redactArgs args =
     fold (\<lambda>i redacted. if sensitiveFlag (args ! i) \<and> i + 1 < length redacted then redacted[i + 1 := redactedPlaceholder] else redacted)
       [0..<length args] (map Redact args)"

record auditDetails =
  ad_Route :: string
  ad_Args :: "string list"

record AuditRecord =
  ar_OccurredAt :: string
  ar_Actor :: string
  ar_Source :: string
  ar_CorrelationID :: string
  ar_Route :: string
  ar_ExpectedRevision :: "int option"
  ar_ResultingRevision :: "int option"
  ar_Outcome :: string
  ar_StatusCode :: int
  ar_RedactedDetails :: string

definition buildRedactedDetails :: "(auditDetails \<Rightarrow> string result) \<Rightarrow> MutationEvent \<Rightarrow> string result" where
  "buildRedactedDetails json ev = json \<lparr>ad_Route = me_Route ev, ad_Args = redactArgs (me_Args ev)\<rparr>"

text \<open>The record the observer hands to \<open>WriteAuditRecord\<close>; \<open>now\<close> is the formatted time.\<close>
definition auditRecordOf :: "(auditDetails \<Rightarrow> string result) \<Rightarrow> string \<Rightarrow> MutationEvent \<Rightarrow> AuditRecord" where
  "auditRecordOf json now ev =
     \<lparr>ar_OccurredAt = now, ar_Actor = me_Actor ev, ar_Source = me_Source ev, ar_CorrelationID = me_CorrelationID ev,
      ar_Route = me_Route ev, ar_ExpectedRevision = me_ExpectedRevision ev, ar_ResultingRevision = me_ResultingRevision ev,
      ar_Outcome = me_Outcome ev, ar_StatusCode = me_StatusCode ev,
      ar_RedactedDetails = (case buildRedactedDetails json ev of
         Inr details \<Rightarrow> details
       | Inl _ \<Rightarrow> [CHR 0x7B, CHR 0x22] @ ''route'' @ [CHR 0x22] @ '':'' @ [CHR 0x22] @ me_Route ev @ [CHR 0x22] @ '','' @ [CHR 0x22] @ ''args'' @
           [CHR 0x22] @ '':'' @ [CHR 0x22] @ ''<redaction failed>'' @ [CHR 0x22, CHR 0x7D])\<rparr>"

section \<open>show/audit.go\<close>

text \<open>The table \<open>audit_log\<close>: rows with their ids in insertion order, and the \<open>AUTOINCREMENT\<close> counter.\<close>
record AuditTable =
  at_rows :: "(int \<times> AuditRecord) list"
  at_seq :: int

text \<open>\<open>failure\<close>: opening the store fails; \<open>commits\<close>: the transaction commits.\<close>
definition WriteAuditRecord :: "golc_error option \<Rightarrow> bool \<Rightarrow> AuditTable \<Rightarrow> AuditRecord \<Rightarrow> AuditTable \<times> golc_error option" where
  "WriteAuditRecord failure commits tbl rec =
     (case failure of
        Some e \<Rightarrow> (tbl, Some e)
      | None \<Rightarrow>
          if \<not> commits then (tbl, Some (Code ''GOLC_SHOW_STATE_INVALID''))
          else (tbl\<lparr>at_rows := at_rows tbl @ [(at_seq tbl + 1, rec)], at_seq := at_seq tbl + 1\<rparr>, None))"

text \<open>\<open>ORDER BY occurred_at ASC, id ASC\<close>\<close>
definition QueryAuditLog :: "golc_error option \<Rightarrow> AuditTable \<Rightarrow> (int \<times> AuditRecord) list result" where
  "QueryAuditLog failure tbl =
     (case failure of
        Some e \<Rightarrow> Inl e
      | None \<Rightarrow> Inr (sort_key (\<lambda>(i, rec). ar_OccurredAt rec) (sort_key fst (at_rows tbl))))"

text \<open>The observer: one row per event, whatever its outcome; a write that fails is only reported.\<close>
definition auditObserver ::
  "(auditDetails \<Rightarrow> string result) \<Rightarrow> (golc_error option \<times> bool) \<Rightarrow> string \<Rightarrow> MutationEvent \<Rightarrow> AuditTable \<Rightarrow> AuditTable" where
  "auditObserver json disk now ev tbl = fst (WriteAuditRecord (fst disk) (snd disk) tbl (auditRecordOf json now ev))"

section \<open>Nothing is missed silently\<close>

text \<open>The events in the order they were published, numbered from \<open>n + 1\<close>.\<close>
primrec numbered :: "(int \<Rightarrow> 'e \<Rightarrow> 'e) \<Rightarrow> int \<Rightarrow> 'e list \<Rightarrow> 'e list" where
  "numbered stamp n [] = []"
| "numbered stamp n (e # es) = stamp (n + 1) e # numbered stamp (n + 1) es"

lemma numbered_simps [simp]:
  "length (numbered stamp n es) = length es"
  "numbered stamp n (es @ fs) = numbered stamp n es @ numbered stamp (n + int (length es)) fs"
  by (induction es arbitrary: n) (simp_all add: algebra_simps)

lemma numbered_nth: "i < length es \<Longrightarrow> numbered stamp n es ! i = stamp (n + int i + 1) (es ! i)"
proof (induction es arbitrary: n i)
  case (Cons e es)
  then show ?case by (cases i) (simp_all add: algebra_simps)
qed simp

lemma keep_last_append: "keep_last n (keep_last n xs @ ys) = keep_last n (xs @ ys)"
proof (cases "length xs \<le> n")
  case False
  then have "keep_last n (xs @ ys) = drop (length ys) (drop (length xs - n) (xs @ ys))" by (simp add: keep_last_def add.commute)
  also have "drop (length xs - n) (xs @ ys) = keep_last n xs @ ys" using False by (simp add: keep_last_def)
  finally show ?thesis using False by (simp add: keep_last_def)
qed simp

locale sequenced_bus =
  fixes pub :: "'e \<Rightarrow> 'e bus \<Rightarrow> 'e bus" and seq :: "'e \<Rightarrow> int" and stamp :: "int \<Rightarrow> 'e \<Rightarrow> 'e" and cap :: nat
    and attach :: "int \<Rightarrow> 'e bus \<Rightarrow> 'e list \<times> bool \<times> nat \<times> 'e bus"
  assumes cap_pos: "0 < cap"
    and seq_stamp [simp]: "seq (stamp n e) = n"
    and pub_buffer: "bus_buffer (pub e b) = keep_last cap (bus_buffer b @ [stamp (wrap64 (bus_nextSeq b + 1)) e])"
    and pub_next: "bus_nextSeq (pub e b) = wrap64 (bus_nextSeq b + 1)"
    and pub_subscribers: "bus_subscribers (pub e b) = map (offer cap (stamp (wrap64 (bus_nextSeq b + 1)) e)) (bus_subscribers b)"
    and attach_channel: "(fst (snd (snd (attach k b))), snd (snd (snd (attach k b)))) = open_channel b"
    and attach_decides: "0 < k \<Longrightarrow> k \<le> max_int64 \<Longrightarrow> (fst (attach k b), fst (snd (attach k b))) =
      (if bus_buffer b = [] \<or> k < seq (hd (bus_buffer b)) - 1 then ([], True)
       else if k = seq (last (bus_buffer b)) then ([], False)
       else if k > seq (last (bus_buffer b)) then ([], True)
       else (filter (\<lambda>e. k < seq e) (bus_buffer b), False))"
begin

lemma pub_all:
  assumes "0 \<le> bus_nextSeq b" "bus_nextSeq b + int (length es) \<le> max_int64"
  shows "bus_nextSeq (fold pub es b) = bus_nextSeq b + int (length es)"
    and "es \<noteq> [] \<Longrightarrow> bus_buffer (fold pub es b) = keep_last cap (bus_buffer b @ numbered stamp (bus_nextSeq b) es)"
    and "map_of (bus_subscribers b) ch = Some pending \<Longrightarrow> length pending + length es \<le> cap \<Longrightarrow>
      map_of (bus_subscribers (fold pub es b)) ch = Some (pending @ numbered stamp (bus_nextSeq b) es)"
proof -
  have "bus_nextSeq (fold pub es b) = bus_nextSeq b + int (length es) \<and>
    (es \<noteq> [] \<longrightarrow> bus_buffer (fold pub es b) = keep_last cap (bus_buffer b @ numbered stamp (bus_nextSeq b) es)) \<and>
    (\<forall>pending. map_of (bus_subscribers b) ch = Some pending \<longrightarrow> length pending + length es \<le> cap \<longrightarrow>
      map_of (bus_subscribers (fold pub es b)) ch = Some (pending @ numbered stamp (bus_nextSeq b) es))" for ch
    using assms
  proof (induction es arbitrary: b)
    case (Cons e es)
    let ?n = "bus_nextSeq b"
    have n: "wrap64 (?n + 1) = ?n + 1" using Cons.prems by (simp add: is_int64_def min_int64_def max_int64_def)
    then have next1: "bus_nextSeq (pub e b) = ?n + 1" by (simp add: pub_next)
    have IH: "bus_nextSeq (fold pub es (pub e b)) = ?n + 1 + int (length es) \<and>
      (es \<noteq> [] \<longrightarrow> bus_buffer (fold pub es (pub e b)) = keep_last cap (bus_buffer (pub e b) @ numbered stamp (?n + 1) es)) \<and>
      (\<forall>pending. map_of (bus_subscribers (pub e b)) ch = Some pending \<longrightarrow> length pending + length es \<le> cap \<longrightarrow>
        map_of (bus_subscribers (fold pub es (pub e b))) ch = Some (pending @ numbered stamp (?n + 1) es))"
      using Cons.IH [of "pub e b"] Cons.prems next1 by simp
    have buf: "bus_buffer (fold pub es (pub e b)) = keep_last cap (bus_buffer b @ numbered stamp ?n (e # es))"
    proof (cases "es = []")
      case True
      then show ?thesis using n by (simp add: pub_buffer)
    next
      case False
      then show ?thesis using IH n keep_last_append [of cap "bus_buffer b @ [stamp (?n + 1) e]" "numbered stamp (?n + 1) es"]
        by (simp add: pub_buffer)
    qed
    have "map_of (bus_subscribers (pub e b)) ch = Some (pending @ [stamp (?n + 1) e])"
      if "map_of (bus_subscribers b) ch = Some pending" "length pending < cap" for pending
    proof -
      have "map_of (map (offer cap x) subs) ch = Some (pending @ [x])" if "map_of subs ch = Some pending" for subs x
        using that \<open>length pending < cap\<close> by (induction subs) (auto simp: offer_def)
      then show ?thesis using that(1) n by (simp add: pub_subscribers)
    qed
    then show ?case using IH buf by auto
  qed simp
  then show "bus_nextSeq (fold pub es b) = bus_nextSeq b + int (length es)"
    "es \<noteq> [] \<Longrightarrow> bus_buffer (fold pub es b) = keep_last cap (bus_buffer b @ numbered stamp (bus_nextSeq b) es)"
    "map_of (bus_subscribers b) ch = Some pending \<Longrightarrow> length pending + length es \<le> cap \<Longrightarrow>
      map_of (bus_subscribers (fold pub es b)) ch = Some (pending @ numbered stamp (bus_nextSeq b) es)"
    by blast+
qed

lemma ring_contents:
  assumes "int (length es) \<le> max_int64"
  shows "bus_buffer (fold pub es empty_bus) = keep_last cap (numbered stamp 0 es)" "bus_nextSeq (fold pub es empty_bus) = int (length es)"
  using pub_all [of empty_bus es] assms by (cases "es = []"; simp add: empty_bus_def)+

lemma seqs: "x \<in> set (numbered stamp n es) \<Longrightarrow> n < seq x \<and> seq x \<le> n + int (length es)"
  by (induction es arbitrary: n) force+

text \<open>The numbers of the ring run without a gap up to the last one given out.\<close>
lemma ring_bounds:
  assumes "int (length es) \<le> max_int64" "es \<noteq> []"
  defines "buf \<equiv> bus_buffer (fold pub es empty_bus)"
  shows "buf \<noteq> []" "seq (hd buf) = int (length es - cap) + 1" "seq (last buf) = int (length es)"
proof -
  have b: "buf = drop (length es - cap) (numbered stamp 0 es)" using ring_contents(1) [OF assms(1)] by (simp add: buf_def keep_last_def)
  then show ne: "buf \<noteq> []" using assms(2) cap_pos by (cases es) auto
  have "length es - cap < length es" using assms(2) cap_pos by (cases es) auto
  then show "seq (hd buf) = int (length es - cap) + 1" using b numbered_nth [of "length es - cap" es stamp 0]
    by (simp add: hd_drop_conv_nth)
  have "last buf = numbered stamp 0 es ! (length es - 1)" using b ne by (simp add: last_drop last_conv_nth)
  then show "seq (last buf) = int (length es)" using numbered_nth [of "length es - 1" es stamp 0] assms(2) by (cases es) auto
qed

lemma attach_catches_up:
  assumes "int (length es) \<le> max_int64" "0 < k \<and> k \<le> max_int64" "attach k (fold pub es empty_bus) = (replay, resync, ch, b)"
  shows "resync \<longleftrightarrow> int (length es) < k \<or> k + int cap < int (length es)"
    and "\<not> resync \<Longrightarrow> replay = filter (\<lambda>e. k < seq e) (numbered stamp 0 es)"
proof -
  let ?b = "fold pub es empty_bus"
  have d: "(replay, resync) = (if bus_buffer ?b = [] \<or> k < seq (hd (bus_buffer ?b)) - 1 then ([], True)
       else if k = seq (last (bus_buffer ?b)) then ([], False)
       else if k > seq (last (bus_buffer ?b)) then ([], True)
       else (filter (\<lambda>e. k < seq e) (bus_buffer ?b), False))"
    using attach_decides [of k ?b] assms(2,3) by simp
  show "resync \<longleftrightarrow> int (length es) < k \<or> k + int cap < int (length es)"
  proof (cases "es = []")
    case True
    then show ?thesis using d assms(2) by (simp add: empty_bus_def)
  next
    case False
    note r = ring_bounds [OF assms(1) False]
    show ?thesis using d r assms(2) by (auto split: if_splits)
  qed
  assume "\<not> resync"
  then have ne: "bus_buffer ?b \<noteq> []" "\<not> k < seq (hd (bus_buffer ?b)) - 1" "k \<le> seq (last (bus_buffer ?b))"
    and rep: "replay = (if k = seq (last (bus_buffer ?b)) then [] else filter (\<lambda>e. k < seq e) (bus_buffer ?b))"
    using d by (auto split: if_splits)
  have es: "es \<noteq> []" using ne(1) by (auto simp: empty_bus_def)
  note r = ring_bounds [OF assms(1) es]
  let ?h = "numbered stamp 0 es" and ?i = "length es - cap"
  have split: "?h = take ?i ?h @ bus_buffer ?b" using ring_contents(1) [OF assms(1)] by (simp add: keep_last_def)
  have old: "seq e \<le> k" if "e \<in> set (take ?i ?h)" for e
  proof -
    obtain j where "j < length (take ?i ?h)" "e = take ?i ?h ! j" using \<open>e \<in> set (take ?i ?h)\<close> unfolding in_set_conv_nth by blast
    then have j: "j < ?i" "e = ?h ! j" by simp_all
    then have "seq e = int j + 1" using numbered_nth [of j es stamp 0] by simp
    then show ?thesis using ne(2) r(2) j(1) by linarith
  qed
  have "filter (\<lambda>e. k < seq e) ?h = filter (\<lambda>e. k < seq e) (bus_buffer ?b)"
    by (subst split) (auto simp: filter_empty_conv dest: old)
  moreover have "filter (\<lambda>e. k < seq e) ?h = []" if "k = seq (last (bus_buffer ?b))"
    using that r(3) seqs [of _ 0 es] by (fastforce simp: filter_empty_conv)
  ultimately show "replay = filter (\<lambda>e. k < seq e) ?h" using rep by (cases "k = seq (last (bus_buffer ?b))") simp_all
qed

text \<open>A client that reconnects with the number of the last event it saw is told to resync, or gets by replay and over its
  channel every later event in order.\<close>
lemma reconnect_complete:
  assumes "int (length es) + int (length later) \<le> max_int64" "0 < k \<and> k \<le> max_int64" "attach k (fold pub es empty_bus) = (replay, resync, ch, b)"
    and "\<not> resync" "length later \<le> cap"
  obtains pending where "map_of (bus_subscribers (fold pub later b)) ch = Some pending"
    "replay @ pending = filter (\<lambda>e. k < seq e) (numbered stamp 0 (es @ later))"
proof -
  let ?b = "fold pub es empty_bus"
  have es: "int (length es) \<le> max_int64" using assms(1) by simp
  have o: "open_channel ?b = (ch, b)" using attach_channel [of k ?b] assms(3) by simp
  have b: "bus_nextSeq b = int (length es)" "map_of (bus_subscribers b) ch = Some []"
    using o ring_contents(2) [OF es] by (auto simp: open_channel_def)
  have pend: "map_of (bus_subscribers (fold pub later b)) ch = Some (numbered stamp (int (length es)) later)"
    using pub_all(3) [of b later ch "[]"] b assms(1,5) by simp
  have k: "k \<le> int (length es)" using attach_catches_up(1) [OF es assms(2,3)] assms(4) by auto
  have "filter (\<lambda>e. k < seq e) (numbered stamp (int (length es)) later) = numbered stamp (int (length es)) later"
    using seqs [of _ "int (length es)" later] k by (fastforce simp: filter_id_conv)
  then have "replay @ numbered stamp (int (length es)) later = filter (\<lambda>e. k < seq e) (numbered stamp 0 (es @ later))"
    using attach_catches_up(2) [OF es assms(2-4)] by simp
  then show thesis using that pend by blast
qed

end

text \<open>The stream of the HTTP interface.\<close>
lemma publish_keeps:
  "bus_buffer (publish ev b) = keep_last EventRingBufferCapacity (bus_buffer b @ [ev\<lparr>re_Seq := wrap64 (bus_nextSeq b + 1)\<rparr>])"
  by (auto simp: publish_def Let_def keep_last_def)

interpretation api: sequenced_bus publish re_Seq "\<lambda>n e. e\<lparr>re_Seq := n\<rparr>" EventRingBufferCapacity "\<lambda>k. subscribe (itoa k)"
proof unfold_locales
  fix k :: int and b :: eventBroadcaster
  show "(fst (snd (snd (subscribe (itoa k) b))), snd (snd (snd (subscribe (itoa k) b)))) = open_channel b"
    by (auto simp: subscribe_def Let_def split: prod.split option.split)
  assume "0 < k" "k \<le> max_int64"
  then have "ParseInt (itoa k) = Some k" by (intro ParseInt_itoa) (simp add: is_int64_def min_int64_def)
  moreover have "itoa k \<noteq> []" using nat_text_digits by (simp add: itoa_def)
  ultimately show "(fst (subscribe (itoa k) b), fst (snd (subscribe (itoa k) b))) =
      (if bus_buffer b = [] \<or> k < re_Seq (hd (bus_buffer b)) - 1 then ([], True)
       else if k = re_Seq (last (bus_buffer b)) then ([], False)
       else if k > re_Seq (last (bus_buffer b)) then ([], True)
       else (filter (\<lambda>e. k < re_Seq e) (bus_buffer b), False))"
    using \<open>0 < k\<close> by (auto simp: subscribe_def Let_def split: prod.split)
next
  fix e :: ringEvent and b :: eventBroadcaster
  show "bus_nextSeq (publish e b) = wrap64 (bus_nextSeq b + 1)"
    "bus_subscribers (publish e b) = map (offer EventRingBufferCapacity (e\<lparr>re_Seq := wrap64 (bus_nextSeq b + 1)\<rparr>)) (bus_subscribers b)"
    by (simp_all add: publish_def Let_def)
qed (simp_all add: publish_keeps EventRingBufferCapacity_def)


definition demo_event :: "int \<Rightarrow> ringEvent" where
  "demo_event r = \<lparr>re_Seq = 0, re_Revision = r, re_Payload = ScriptPayload \<lparr>sp_RunID = [], sp_ScriptName = [], sp_Status = [], sp_Reason = []\<rparr>\<rparr>"


section \<open>What the stream shows of a mutation\<close>

text \<open>Only a committed change becomes an event; one is published without a revision when a script issued it.\<close>
lemma publishMutationEvent_silent:
  "me_ResultingRevision ev = None \<or> me_Outcome ev \<noteq> ''success'' \<Longrightarrow> publishMutationEvent ev b = b"
  by (auto simp: publishMutationEvent_def split: option.splits)

text \<open>Once a tick finds the key revoked, expired or unreadable, nothing more is sent.\<close>
lemma revoked_key_ends_stream:
  "\<not> apiKeyStillValid keys now keyID \<Longrightarrow> streamLoop keyID (before @ KeyTick keys now # after) = streamLoop keyID before"
  by (induction keyID before rule: streamLoop.induct) auto

lemma apiKeyStillValid_iff:
  assumes "distinct (map ak_KeyID ks)"
  shows "apiKeyStillValid (Some ks) now keyID \<longleftrightarrow>
    keyID \<noteq> [] \<and> (\<exists>key\<in>set ks. ak_KeyID key = keyID \<and> ak_RevokedAt key = 0 \<and> now < ak_ExpiresAt key)"
proof (cases "find_by ak_KeyID keyID ks")
  case None
  then have "keyID \<notin> ak_KeyID ` set ks" by (simp add: find_by_None_iff)
  then show ?thesis using None by (auto simp: apiKeyStillValid_def)
next
  case (Some key)
  then have "key \<in> set ks \<and> ak_KeyID key = keyID" by (rule find_by_SomeD)
  then have "k = key" if "k \<in> set ks" "ak_KeyID k = keyID" for k using assms that by (auto simp: distinct_map inj_on_def)
  then show ?thesis using Some \<open>key \<in> set ks \<and> ak_KeyID key = keyID\<close> by (auto simp: apiKeyStillValid_def)
qed

section \<open>What the audit log shows of it\<close>

lemma redact_steps:
  assumes "n \<le> length args"
  defines "r \<equiv> fold (\<lambda>i redacted. if sensitiveFlag (args ! i) \<and> i + 1 < length redacted then redacted[i + 1 := redactedPlaceholder] else redacted)
       [0..<n] (map Redact args)"
  shows "length r = length args"
    and "\<forall>j<length args. r ! j = (if 0 < j \<and> j \<le> n \<and> sensitiveFlag (args ! (j - 1)) then redactedPlaceholder else Redact (args ! j))"
  unfolding r_def using assms(1)
proof (induction n)
  case (Suc n)
  case 1 then show ?case using Suc by simp
next
  case (Suc n)
  case 2
  let ?f = "\<lambda>i redacted. if sensitiveFlag (args ! i) \<and> i + 1 < length redacted then redacted[i + 1 := redactedPlaceholder] else redacted"
  have IH: "length (fold ?f [0..<n] (map Redact args)) = length args"
    "\<forall>j<length args. fold ?f [0..<n] (map Redact args) ! j =
       (if 0 < j \<and> j \<le> n \<and> sensitiveFlag (args ! (j - 1)) then redactedPlaceholder else Redact (args ! j))"
    using Suc 2 by simp_all
  show ?case
  proof (intro allI impI)
    fix j assume j: "j < length args"
    show "fold ?f [0..<Suc n] (map Redact args) ! j =
       (if 0 < j \<and> j \<le> Suc n \<and> sensitiveFlag (args ! (j - 1)) then redactedPlaceholder else Redact (args ! j))"
    proof (cases "j = Suc n")
      case True
      then show ?thesis using IH j by simp
    next
      case False
      then have "fold ?f [0..<Suc n] (map Redact args) ! j = fold ?f [0..<n] (map Redact args) ! j" by simp
      then show ?thesis using IH(2) j False by (simp add: le_Suc_eq)
    qed
  qed
qed simp_all

text \<open>Every argument after a credential-named flag is replaced, and every other one is redacted on its own.\<close>
lemma redactArgs_nth:
  "length (redactArgs args) = length args"
  "j < length args \<Longrightarrow> redactArgs args ! j =
     (if 0 < j \<and> sensitiveFlag (args ! (j - 1)) then redactedPlaceholder else Redact (args ! j))"
  using redact_steps [of "length args" args] by (simp_all add: redactArgs_def)

lemma redactArgs_clean: "\<forall>arg\<in>set (redactArgs args). clean arg"
proof -
  have "redactedPlaceholder = redactedMarker" by (simp add: redactedPlaceholder_def redactedMarker_def)
  then show ?thesis using marker_clean by (auto simp: in_set_conv_nth redactArgs_nth)
qed

lemma redactArgs_after_flag:
  "\<lbrakk>Suc i < length args; CutPrefix (args ! i) ''--'' = Some flag; isSensitiveFlagName flag\<rbrakk> \<Longrightarrow> redactArgs args ! Suc i = redactedPlaceholder"
  by (simp add: redactArgs_nth sensitiveFlag_def)

text \<open>A credential written as \<open>--token=value\<close> is one argument and is not recognised by its flag.\<close>
lemma equals_form_kept: "redactArgs [''--token=abc''] = [''--token=abc'']"
  by code_simp

text \<open>The log only grows, its ids are distinct, and it holds one row per event whose write committed.\<close>
definition audit_ok :: "AuditTable \<Rightarrow> bool" where
  "audit_ok tbl \<longleftrightarrow> sorted (map fst (at_rows tbl)) \<and> distinct (map fst (at_rows tbl)) \<and> (\<forall>(i, rec)\<in>set (at_rows tbl). i \<le> at_seq tbl)"

lemma audit_appends:
  assumes "audit_ok tbl"
  shows "audit_ok (auditObserver json (None, True) now ev tbl)"
    and "at_rows (auditObserver json (None, True) now ev tbl) = at_rows tbl @ [(at_seq tbl + 1, auditRecordOf json now ev)]"
    and "auditObserver json (failure, commits) now ev tbl = tbl \<or> (failure = None \<and> commits)"
  using assms by (force simp: audit_ok_def auditObserver_def WriteAuditRecord_def sorted_append split: option.splits)+

text \<open>Reading the log loses no row.\<close>
lemma QueryAuditLog_complete: "QueryAuditLog None tbl = Inr rows \<Longrightarrow> mset rows = mset (at_rows tbl)"
  by (auto simp: QueryAuditLog_def)

end
