(* ===== verification/ScriptSdk.thy ===== *)
theory ScriptSdk
  imports ShowState GoStrings
begin

text \<open>
  \<open>src/internal/scriptsdk\<close>: the methods a script may call.  Every method names the command route it runs, the scope it
  needs and the shape of its parameters and result; the routes that scripts may not reach are listed with the reason.
  The registry is a map by route, an association list with distinct keys.  The one-line summaries, which only the
  generated documentation shows, are left out.
\<close>

section \<open>Parameter shapes\<close>

record ShowOnlyParams =
  so_Show :: string

record NameShowParams =
  ns_Name :: string
  ns_Show :: string

record RenameParams =
  rn_Name :: string
  rn_NewName :: string
  rn_Show :: string

record DeploymentInstanceReassignParams =
  dir_DeploymentName :: string
  dir_InstanceID :: string
  dir_Mode :: string
  dir_Universe :: int
  dir_Address :: int
  dir_Show :: string

record PoolCreateParams =
  pcr_Name :: string
  pcr_Requires :: "string list"
  pcr_Show :: string

record PoolUpdateParams =
  pup_Pool :: string
  pup_Add :: "string list"
  pup_Remove :: "string list"
  pup_Propagate :: string
  pup_Out :: string
  pup_JSONOutput :: bool
  pup_Show :: string

record PoolApplyParams =
  pap_PlanFile :: string
  pap_PlanID :: string
  pap_Show :: string

record PoolSubstituteParams =
  psb_Pool :: string
  psb_From :: string
  psb_To :: string
  psb_Out :: string
  psb_JSONOutput :: bool
  psb_Show :: string

record ShowOpenParams =
  sop_Show :: string
  sop_AcceptRecovery :: string
  sop_DiscardRecovery :: bool

record ShowSaveAsParams =
  ssa_Show :: string
  ssa_To :: string

record SceneCreateParams =
  scr_Name :: string
  scr_Bars :: int
  scr_Show :: string

record SceneLayerSetParams =
  sls_Scene :: string
  sls_Kind :: string
  sls_Ref :: string
  sls_Instances :: "string list"
  sls_Pools :: "string list"
  sls_Groups :: "string list"
  sls_FixtureRefs :: "string list"
  sls_Disable :: bool
  sls_Show :: string

record SceneReorderParams =
  sre_Order :: "int list"
  sre_Show :: string

record BlendCreateParams =
  bcr_Name :: string
  bcr_DurationBars :: f64
  bcr_Curve :: string
  bcr_Show :: string

record PresetRecordParams =
  prc_Name :: string
  prc_Kind :: string
  prc_Show :: string

record NoteEditParams =
  ned_Name :: string
  ned_Title :: string
  ned_BodyFile :: string
  ned_Show :: string

record ChaseCreateParams =
  ccr_Name :: string
  ccr_Unit :: string
  ccr_StepDuration :: f64
  ccr_Show :: string

record ChaseUpdateParams =
  cup_Name :: string
  cup_NewName :: string
  cup_Unit :: string
  cup_StepDuration :: "f64 option"
  cup_Show :: string

record ChaseReorderParams =
  cre_Name :: string
  cre_Order :: "int list"
  cre_Show :: string

record ProgrammerSetParams =
  prs_Instances :: "string list"
  prs_Pools :: "string list"
  prs_Groups :: "string list"
  prs_FixtureRefs :: "string list"
  prs_Attrs :: "string list"
  prs_Show :: string

record PlaybackBPMSetParams =
  pbs_BPM :: f64
  pbs_Show :: string

record PlaybackBPMTapParams =
  pbt_At :: "string list"
  pbt_Show :: string

record PlaybackSwitchParams =
  psw_Scene :: string
  psw_Show :: string

record OperatorSurfaceSurfaceParams =
  oss_Surface :: string
  oss_Show :: string

record OperatorSurfaceAssignParams =
  osa_Surface :: string
  osa_Scene :: string
  osa_Layer :: string
  osa_Master :: string
  osa_Safety :: string
  osa_Show :: string

record ArtnetStatusParams =
  ast_Watch :: bool
  ast_JSONOutput :: bool
  ast_Pipe :: string

record ArtnetInterfaceListParams =
  ail_JSONOutput :: bool
  ail_Pipe :: string

record ArtnetDiscoverParams =
  adi_Interface :: int
  adi_Window :: string
  adi_JSONOutput :: bool

record ArtnetConfigureParams =
  aco_Universe :: int
  aco_IP :: string
  aco_Port :: int
  aco_Enabled :: bool
  aco_Pipe :: string

record ArtnetTargetParams =
  ata_Universe :: int
  ata_IP :: string
  ata_Port :: int
  ata_Pipe :: string

record ArtnetSafetyParams =
  asa_On :: bool
  asa_Pipe :: string

record ArtnetMasterSetParams =
  ams_Grand :: f64
  ams_Group :: string
  ams_Level :: f64
  ams_Pipe :: string

record ArtnetDeskSetParams =
  ads_Instance :: string
  ads_Attr :: string
  ads_Pipe :: string

record ArtnetDeskClearParams =
  adc_Instance :: string
  adc_Attr :: string
  adc_Pipe :: string

record ArtnetDeskClearAllParams =
  ada_Pipe :: string

record FixtureFileParams =
  ffi_File :: string

record FixtureImportParams =
  fim_OFL :: string
  fim_OFLFile :: string
  fim_Mirror :: string
  fim_AllowMirror :: bool
  fim_Out :: string

record APIKeyCreateParams =
  akc_Scopes :: "string list"
  akc_Expires :: string
  akc_Show :: string
  akc_JSONOutput :: bool

record APIKeyListParams =
  akl_Show :: string
  akl_JSONOutput :: bool

record APIKeyRevokeParams =
  akr_ID :: string
  akr_Show :: string
  akr_JSONOutput :: bool

section \<open>The values of absent parameters\<close>

definition zeroShowOnlyParams :: ShowOnlyParams where
  "zeroShowOnlyParams = \<lparr>so_Show = []\<rparr>"

definition zeroNameShowParams :: NameShowParams where
  "zeroNameShowParams = \<lparr>ns_Name = [], ns_Show = []\<rparr>"

definition zeroRenameParams :: RenameParams where
  "zeroRenameParams = \<lparr>rn_Name = [], rn_NewName = [], rn_Show = []\<rparr>"

definition zeroDeploymentInstanceReassignParams :: DeploymentInstanceReassignParams where
  "zeroDeploymentInstanceReassignParams = \<lparr>dir_DeploymentName = [], dir_InstanceID = [], dir_Mode = [], dir_Universe = 0, dir_Address = 0, dir_Show = []\<rparr>"

definition zeroPoolCreateParams :: PoolCreateParams where
  "zeroPoolCreateParams = \<lparr>pcr_Name = [], pcr_Requires = [], pcr_Show = []\<rparr>"

definition zeroPoolUpdateParams :: PoolUpdateParams where
  "zeroPoolUpdateParams = \<lparr>pup_Pool = [], pup_Add = [], pup_Remove = [], pup_Propagate = [], pup_Out = [], pup_JSONOutput = False, pup_Show = []\<rparr>"

definition zeroPoolApplyParams :: PoolApplyParams where
  "zeroPoolApplyParams = \<lparr>pap_PlanFile = [], pap_PlanID = [], pap_Show = []\<rparr>"

definition zeroPoolSubstituteParams :: PoolSubstituteParams where
  "zeroPoolSubstituteParams = \<lparr>psb_Pool = [], psb_From = [], psb_To = [], psb_Out = [], psb_JSONOutput = False, psb_Show = []\<rparr>"

definition zeroShowOpenParams :: ShowOpenParams where
  "zeroShowOpenParams = \<lparr>sop_Show = [], sop_AcceptRecovery = [], sop_DiscardRecovery = False\<rparr>"

definition zeroShowSaveAsParams :: ShowSaveAsParams where
  "zeroShowSaveAsParams = \<lparr>ssa_Show = [], ssa_To = []\<rparr>"

definition zeroSceneCreateParams :: SceneCreateParams where
  "zeroSceneCreateParams = \<lparr>scr_Name = [], scr_Bars = 0, scr_Show = []\<rparr>"

definition zeroSceneLayerSetParams :: SceneLayerSetParams where
  "zeroSceneLayerSetParams = \<lparr>sls_Scene = [], sls_Kind = [], sls_Ref = [], sls_Instances = [], sls_Pools = [], sls_Groups = [], sls_FixtureRefs = [], sls_Disable = False, sls_Show = []\<rparr>"

definition zeroSceneReorderParams :: SceneReorderParams where
  "zeroSceneReorderParams = \<lparr>sre_Order = [], sre_Show = []\<rparr>"

definition zeroBlendCreateParams :: BlendCreateParams where
  "zeroBlendCreateParams = \<lparr>bcr_Name = [], bcr_DurationBars = 0, bcr_Curve = [], bcr_Show = []\<rparr>"

definition zeroPresetRecordParams :: PresetRecordParams where
  "zeroPresetRecordParams = \<lparr>prc_Name = [], prc_Kind = [], prc_Show = []\<rparr>"

definition zeroNoteEditParams :: NoteEditParams where
  "zeroNoteEditParams = \<lparr>ned_Name = [], ned_Title = [], ned_BodyFile = [], ned_Show = []\<rparr>"

definition zeroChaseCreateParams :: ChaseCreateParams where
  "zeroChaseCreateParams = \<lparr>ccr_Name = [], ccr_Unit = [], ccr_StepDuration = 0, ccr_Show = []\<rparr>"

definition zeroChaseUpdateParams :: ChaseUpdateParams where
  "zeroChaseUpdateParams = \<lparr>cup_Name = [], cup_NewName = [], cup_Unit = [], cup_StepDuration = None, cup_Show = []\<rparr>"

definition zeroChaseReorderParams :: ChaseReorderParams where
  "zeroChaseReorderParams = \<lparr>cre_Name = [], cre_Order = [], cre_Show = []\<rparr>"

definition zeroProgrammerSetParams :: ProgrammerSetParams where
  "zeroProgrammerSetParams = \<lparr>prs_Instances = [], prs_Pools = [], prs_Groups = [], prs_FixtureRefs = [], prs_Attrs = [], prs_Show = []\<rparr>"

definition zeroPlaybackBPMSetParams :: PlaybackBPMSetParams where
  "zeroPlaybackBPMSetParams = \<lparr>pbs_BPM = 0, pbs_Show = []\<rparr>"

definition zeroPlaybackBPMTapParams :: PlaybackBPMTapParams where
  "zeroPlaybackBPMTapParams = \<lparr>pbt_At = [], pbt_Show = []\<rparr>"

definition zeroPlaybackSwitchParams :: PlaybackSwitchParams where
  "zeroPlaybackSwitchParams = \<lparr>psw_Scene = [], psw_Show = []\<rparr>"

definition zeroOperatorSurfaceSurfaceParams :: OperatorSurfaceSurfaceParams where
  "zeroOperatorSurfaceSurfaceParams = \<lparr>oss_Surface = [], oss_Show = []\<rparr>"

definition zeroOperatorSurfaceAssignParams :: OperatorSurfaceAssignParams where
  "zeroOperatorSurfaceAssignParams = \<lparr>osa_Surface = [], osa_Scene = [], osa_Layer = [], osa_Master = [], osa_Safety = [], osa_Show = []\<rparr>"

definition zeroArtnetStatusParams :: ArtnetStatusParams where
  "zeroArtnetStatusParams = \<lparr>ast_Watch = False, ast_JSONOutput = False, ast_Pipe = []\<rparr>"

definition zeroArtnetInterfaceListParams :: ArtnetInterfaceListParams where
  "zeroArtnetInterfaceListParams = \<lparr>ail_JSONOutput = False, ail_Pipe = []\<rparr>"

definition zeroArtnetDiscoverParams :: ArtnetDiscoverParams where
  "zeroArtnetDiscoverParams = \<lparr>adi_Interface = 0, adi_Window = [], adi_JSONOutput = False\<rparr>"

definition zeroArtnetConfigureParams :: ArtnetConfigureParams where
  "zeroArtnetConfigureParams = \<lparr>aco_Universe = 0, aco_IP = [], aco_Port = 0, aco_Enabled = False, aco_Pipe = []\<rparr>"

definition zeroArtnetTargetParams :: ArtnetTargetParams where
  "zeroArtnetTargetParams = \<lparr>ata_Universe = 0, ata_IP = [], ata_Port = 0, ata_Pipe = []\<rparr>"

definition zeroArtnetSafetyParams :: ArtnetSafetyParams where
  "zeroArtnetSafetyParams = \<lparr>asa_On = False, asa_Pipe = []\<rparr>"

definition zeroArtnetMasterSetParams :: ArtnetMasterSetParams where
  "zeroArtnetMasterSetParams = \<lparr>ams_Grand = 0, ams_Group = [], ams_Level = 0, ams_Pipe = []\<rparr>"

definition zeroArtnetDeskSetParams :: ArtnetDeskSetParams where
  "zeroArtnetDeskSetParams = \<lparr>ads_Instance = [], ads_Attr = [], ads_Pipe = []\<rparr>"

definition zeroArtnetDeskClearParams :: ArtnetDeskClearParams where
  "zeroArtnetDeskClearParams = \<lparr>adc_Instance = [], adc_Attr = [], adc_Pipe = []\<rparr>"

definition zeroArtnetDeskClearAllParams :: ArtnetDeskClearAllParams where
  "zeroArtnetDeskClearAllParams = \<lparr>ada_Pipe = []\<rparr>"

definition zeroFixtureFileParams :: FixtureFileParams where
  "zeroFixtureFileParams = \<lparr>ffi_File = []\<rparr>"

definition zeroFixtureImportParams :: FixtureImportParams where
  "zeroFixtureImportParams = \<lparr>fim_OFL = [], fim_OFLFile = [], fim_Mirror = [], fim_AllowMirror = False, fim_Out = []\<rparr>"

definition zeroAPIKeyCreateParams :: APIKeyCreateParams where
  "zeroAPIKeyCreateParams = \<lparr>akc_Scopes = [], akc_Expires = [], akc_Show = [], akc_JSONOutput = False\<rparr>"

definition zeroAPIKeyListParams :: APIKeyListParams where
  "zeroAPIKeyListParams = \<lparr>akl_Show = [], akl_JSONOutput = False\<rparr>"

definition zeroAPIKeyRevokeParams :: APIKeyRevokeParams where
  "zeroAPIKeyRevokeParams = \<lparr>akr_ID = [], akr_Show = [], akr_JSONOutput = False\<rparr>"

section \<open>The registry\<close>

datatype param_shape =
  OfShowOnlyParams | OfNameShowParams | OfRenameParams | OfDeploymentInstanceReassignParams | OfPoolCreateParams |
  OfPoolUpdateParams | OfPoolApplyParams | OfPoolSubstituteParams | OfShowOpenParams | OfShowSaveAsParams |
  OfSceneCreateParams | OfSceneLayerSetParams | OfSceneReorderParams | OfBlendCreateParams | OfPresetRecordParams |
  OfNoteEditParams | OfChaseCreateParams | OfChaseUpdateParams | OfChaseReorderParams | OfProgrammerSetParams |
  OfPlaybackBPMSetParams | OfPlaybackBPMTapParams | OfPlaybackSwitchParams | OfOperatorSurfaceSurfaceParams |
  OfOperatorSurfaceAssignParams | OfArtnetStatusParams | OfArtnetInterfaceListParams | OfArtnetDiscoverParams |
  OfArtnetConfigureParams | OfArtnetTargetParams | OfArtnetSafetyParams | OfArtnetMasterSetParams |
  OfArtnetDeskSetParams | OfArtnetDeskClearParams | OfArtnetDeskClearAllParams | OfFixtureFileParams |
  OfFixtureImportParams | OfAPIKeyCreateParams | OfAPIKeyListParams | OfAPIKeyRevokeParams

datatype result_shape = OfAckResult | OfJSONResult | OfAPIKeyCreateResult

record SDKMethodDescriptor =
  sdm_Route :: string
  sdm_Method :: string
  sdm_Scope :: APIKeyScope
  sdm_Params :: param_shape
  sdm_Result :: result_shape

record SdkRegistry =
  sdk_byRoute :: "(string \<times> SDKMethodDescriptor) list"
  sdk_excluded :: "(string \<times> string) list"

definition RegisterSDKMethod :: "SDKMethodDescriptor \<Rightarrow> SdkRegistry \<Rightarrow> SdkRegistry result" where
  "RegisterSDKMethod descriptor reg =
     (let route = trim_space (sdm_Route descriptor); method = trim_space (sdm_Method descriptor) in
      if route = [] \<or> method = [] \<or> sdm_Scope descriptor = [] then Inl (Code ''GOLC_SCRIPTSDK_DESCRIPTOR_INVALID'')
      else if map_of (sdk_byRoute reg) route \<noteq> None then Inl (Code ''GOLC_SCRIPTSDK_ROUTE_DUPLICATE'')
      else Inr (reg\<lparr>sdk_byRoute := (route, descriptor\<lparr>sdm_Route := route, sdm_Method := method\<rparr>) # sdk_byRoute reg\<rparr>))"

definition RegisterExclusion :: "string \<Rightarrow> string \<Rightarrow> SdkRegistry \<Rightarrow> SdkRegistry result" where
  "RegisterExclusion route reason reg =
     (let trimmedRoute = trim_space route; trimmedReason = trim_space reason in
      if trimmedRoute = [] \<or> trimmedReason = [] then Inl (Code ''GOLC_SCRIPTSDK_DESCRIPTOR_INVALID'')
      else if map_of (sdk_byRoute reg) trimmedRoute \<noteq> None then Inl (Code ''GOLC_SCRIPTSDK_ROUTE_DUPLICATE'')
      else if map_of (sdk_excluded reg) trimmedRoute \<noteq> None then Inl (Code ''GOLC_SCRIPTSDK_ROUTE_DUPLICATE'')
      else Inr (reg\<lparr>sdk_excluded := (trimmedRoute, trimmedReason) # sdk_excluded reg\<rparr>))"

definition RegisteredSDKMethods :: "SdkRegistry \<Rightarrow> SDKMethodDescriptor list" where
  "RegisteredSDKMethods reg = map snd (sort_key fst (sdk_byRoute reg))"

section \<open>descriptors.go\<close>

definition sdkMethodTable :: "(string \<times> string \<times> APIKeyScope \<times> param_shape \<times> result_shape) list" where
  "sdkMethodTable =
    [(''pool create'', ''pool.create'', ''authoring'', OfPoolCreateParams, OfAckResult),
     (''pool update'', ''pool.update'', ''authoring'', OfPoolUpdateParams, OfJSONResult),
     (''pool apply'', ''pool.apply'', ''authoring'', OfPoolApplyParams, OfAckResult),
     (''pool substitute'', ''pool.substitute'', ''authoring'', OfPoolSubstituteParams, OfJSONResult),
     (''pool rename'', ''pool.rename'', ''authoring'', OfRenameParams, OfAckResult),
     (''pool delete'', ''pool.remove'', ''authoring'', OfNameShowParams, OfAckResult),
     (''deployment create'', ''deployment.create'', ''authoring'', OfNameShowParams, OfAckResult),
     (''deployment activate'', ''deployment.activate'', ''authoring'', OfNameShowParams, OfAckResult),
     (''deployment rename'', ''deployment.rename'', ''authoring'', OfRenameParams, OfAckResult),
     (''deployment delete'', ''deployment.remove'', ''authoring'', OfNameShowParams, OfAckResult),
     (''deployment instance reassign'', ''deployment.instance.reassign'', ''authoring'', OfDeploymentInstanceReassignParams, OfAckResult),
     (''show inspect'', ''show.inspect'', ''playback'', OfShowOnlyParams, OfJSONResult),
     (''show open'', ''show.open'', ''authoring'', OfShowOpenParams, OfAckResult),
     (''show save'', ''show.save'', ''authoring'', OfShowOnlyParams, OfAckResult),
     (''show save-as'', ''show.saveAs'', ''authoring'', OfShowSaveAsParams, OfAckResult),
     (''show diagnose'', ''show.diagnose'', ''playback'', OfShowOnlyParams, OfJSONResult),
     (''show export'', ''show.exportDocument'', ''admin'', OfShowOnlyParams, OfJSONResult),
     (''scene create'', ''scene.create'', ''authoring'', OfSceneCreateParams, OfAckResult),
     (''scene activate'', ''scene.activate'', ''authoring'', OfNameShowParams, OfAckResult),
     (''scene layer set'', ''scene.layer.set'', ''authoring'', OfSceneLayerSetParams, OfAckResult),
     (''scene reorder'', ''scene.reorder'', ''authoring'', OfSceneReorderParams, OfAckResult),
     (''scene rename'', ''scene.rename'', ''authoring'', OfRenameParams, OfAckResult),
     (''scene duplicate'', ''scene.duplicate'', ''authoring'', OfRenameParams, OfAckResult),
     (''scene delete'', ''scene.remove'', ''authoring'', OfNameShowParams, OfAckResult),
     (''blend create'', ''blend.create'', ''authoring'', OfBlendCreateParams, OfAckResult),
     (''blend rename'', ''blend.rename'', ''authoring'', OfRenameParams, OfAckResult),
     (''blend delete'', ''blend.remove'', ''authoring'', OfNameShowParams, OfAckResult),
     (''theme create'', ''theme.create'', ''authoring'', OfNameShowParams, OfAckResult),
     (''theme rename'', ''theme.rename'', ''authoring'', OfRenameParams, OfAckResult),
     (''theme delete'', ''theme.remove'', ''authoring'', OfNameShowParams, OfAckResult),
     (''note create'', ''note.create'', ''authoring'', OfNameShowParams, OfJSONResult),
     (''note list'', ''note.list'', ''authoring'', OfShowOnlyParams, OfJSONResult),
     (''note show'', ''note.show'', ''authoring'', OfNameShowParams, OfJSONResult),
     (''note edit'', ''note.edit'', ''authoring'', OfNoteEditParams, OfJSONResult),
     (''note delete'', ''note.remove'', ''authoring'', OfNameShowParams, OfAckResult),
     (''preset record'', ''preset.record'', ''authoring'', OfPresetRecordParams, OfAckResult),
     (''preset rename'', ''preset.rename'', ''authoring'', OfRenameParams, OfAckResult),
     (''preset delete'', ''preset.remove'', ''authoring'', OfNameShowParams, OfAckResult),
     (''chase create'', ''chase.create'', ''authoring'', OfChaseCreateParams, OfAckResult),
     (''chase update'', ''chase.update'', ''authoring'', OfChaseUpdateParams, OfAckResult),
     (''chase reorder'', ''chase.reorder'', ''authoring'', OfChaseReorderParams, OfAckResult),
     (''chase duplicate'', ''chase.duplicate'', ''authoring'', OfRenameParams, OfAckResult),
     (''chase delete'', ''chase.remove'', ''authoring'', OfNameShowParams, OfAckResult),
     (''motion create'', ''motion.create'', ''authoring'', OfNameShowParams, OfAckResult),
     (''motion rename'', ''motion.rename'', ''authoring'', OfRenameParams, OfAckResult),
     (''motion duplicate'', ''motion.duplicate'', ''authoring'', OfRenameParams, OfAckResult),
     (''motion delete'', ''motion.remove'', ''authoring'', OfNameShowParams, OfAckResult),
     (''programmer set'', ''programmer.set'', ''authoring'', OfProgrammerSetParams, OfAckResult),
     (''programmer inspect'', ''programmer.inspect'', ''authoring'', OfShowOnlyParams, OfJSONResult),
     (''programmer clear'', ''programmer.clear'', ''authoring'', OfShowOnlyParams, OfAckResult),
     (''playback bpm set'', ''playback.bpm.set'', ''playback'', OfPlaybackBPMSetParams, OfAckResult),
     (''playback bpm tap'', ''playback.bpm.tap'', ''playback'', OfPlaybackBPMTapParams, OfAckResult),
     (''playback switch'', ''playback.switchScene'', ''playback'', OfPlaybackSwitchParams, OfAckResult),
     (''operatorsurface create'', ''operatorsurface.create'', ''authoring'', OfNameShowParams, OfAckResult),
     (''operatorsurface list'', ''operatorsurface.list'', ''authoring'', OfShowOnlyParams, OfJSONResult),
     (''operatorsurface show'', ''operatorsurface.show'', ''authoring'', OfOperatorSurfaceSurfaceParams, OfJSONResult),
     (''operatorsurface assign'', ''operatorsurface.assign'', ''authoring'', OfOperatorSurfaceAssignParams, OfAckResult),
     (''operatorsurface unassign'', ''operatorsurface.unassign'', ''authoring'', OfOperatorSurfaceAssignParams, OfAckResult),
     (''operatorsurface remove'', ''operatorsurface.remove'', ''authoring'', OfOperatorSurfaceSurfaceParams, OfAckResult),
     (''artnet status'', ''artnet.status'', ''playback'', OfArtnetStatusParams, OfJSONResult),
     (''artnet interface list'', ''artnet.interfaces.list'', ''playback'', OfArtnetInterfaceListParams, OfJSONResult),
     (''artnet discover'', ''artnet.discover'', ''playback'', OfArtnetDiscoverParams, OfJSONResult),
     (''artnet configure'', ''artnet.configure'', ''admin'', OfArtnetConfigureParams, OfAckResult),
     (''artnet target enable'', ''artnet.target.enable'', ''admin'', OfArtnetTargetParams, OfAckResult),
     (''artnet target disable'', ''artnet.target.disable'', ''admin'', OfArtnetTargetParams, OfAckResult),
     (''artnet master set'', ''artnet.master.set'', ''admin'', OfArtnetMasterSetParams, OfAckResult),
     (''artnet desk set'', ''artnet.desk.set'', ''admin'', OfArtnetDeskSetParams, OfAckResult),
     (''artnet desk clear'', ''artnet.desk.clear'', ''admin'', OfArtnetDeskClearParams, OfAckResult),
     (''artnet desk clear-all'', ''artnet.desk.clearAll'', ''admin'', OfArtnetDeskClearAllParams, OfAckResult),
     (''artnet safety blackout'', ''artnet.safety.blackout'', ''admin'', OfArtnetSafetyParams, OfAckResult),
     (''artnet safety stop-all'', ''artnet.safety.stopAll'', ''admin'', OfArtnetSafetyParams, OfAckResult),
     (''artnet safety revoke-automation'', ''artnet.safety.revokeAutomation'', ''admin'', OfArtnetSafetyParams, OfAckResult),
     (''fixture validate'', ''fixture.validate'', ''playback'', OfFixtureFileParams, OfAckResult),
     (''fixture inspect'', ''fixture.inspect'', ''playback'', OfFixtureFileParams, OfJSONResult),
     (''fixture import'', ''fixture.importDefinition'', ''authoring'', OfFixtureImportParams, OfAckResult),
     (''api-key create'', ''apiKey.create'', ''admin'', OfAPIKeyCreateParams, OfAPIKeyCreateResult),
     (''api-key list'', ''apiKey.list'', ''admin'', OfAPIKeyListParams, OfJSONResult),
     (''api-key revoke'', ''apiKey.revoke'', ''admin'', OfAPIKeyRevokeParams, OfAckResult)]"

definition excludedRouteTable :: "(string \<times> string) list" where
  "excludedRouteTable =
    [(''playback evaluate'', ''frame evaluation is not a script-reachable capability (ROADMAP Phase 8 success criterion 2)''),
     (''artnet serve'', ''daemon lifecycle, owned by the application not a script''),
     (''build'', ''contributor build tooling, not a show-domain capability''),
     (''test'', ''contributor build tooling, not a show-domain capability''),
     (''check'', ''contributor build tooling, not a show-domain capability''),
     (''generate'', ''contributor build tooling, not a show-domain capability''),
     (''package'', ''contributor build tooling, not a show-domain capability''),
     (''run'', ''contributor build tooling, not a show-domain capability''),
     (''dev'', ''contributor build tooling, not a show-domain capability''),
     (''docs'', ''contributor build tooling, not a show-domain capability''),
     (''lint'', ''contributor build tooling, not a show-domain capability''),
     (''vulncheck'', ''contributor build tooling, not a show-domain capability''),
     (''designsystem'', ''contributor build tooling, not a show-domain capability''),
     (''tools update'', ''contributor build tooling, not a show-domain capability''),
     (''config inspect'', ''repository configuration is a contributor concern outside the show domain''),
     (''config set'', ''repository configuration is a contributor concern outside the show domain''),
     (''config explain'', ''repository configuration is a contributor concern outside the show domain''),
     (''linear catalog'', ''planning-traceability tooling, not a show-domain capability''),
     (''linear preview'', ''planning-traceability tooling, not a show-domain capability''),
     (''linear apply'', ''planning-traceability tooling, not a show-domain capability''),
     (''linear drift'', ''planning-traceability tooling, not a show-domain capability''),
     (''linear status'', ''planning-traceability tooling, not a show-domain capability''),
     (''linear archive'', ''planning-traceability tooling, not a show-domain capability''),
     (''linear unlink'', ''planning-traceability tooling, not a show-domain capability''),
     (''linear map migrate'', ''planning-traceability tooling, not a show-domain capability''),
     (''linear validate'', ''planning-traceability tooling, not a show-domain capability''),
     (''script create'', ''script entity lifecycle, owned by the application/CLI, not a capability exposed to a running script''),
     (''script list'', ''script entity lifecycle, owned by the application/CLI, not a capability exposed to a running script''),
     (''script show'', ''script entity lifecycle, owned by the application/CLI, not a capability exposed to a running script''),
     (''script edit'', ''script entity lifecycle, owned by the application/CLI, not a capability exposed to a running script''),
     (''script delete'', ''script entity lifecycle, owned by the application/CLI, not a capability exposed to a running script''),
     (''script profile set'', ''script entity lifecycle, owned by the application/CLI, not a capability exposed to a running script''),
     (''script run'', ''script lifecycle control; a script must not be able to launch another script''),
     (''script stop'', ''script lifecycle control; a script must not be able to terminate itself or another run through the SDK''),
     (''script validate'', ''script lifecycle control; a script must not validate or introspect other scripts through the SDK''),
     (''script debug'', ''script lifecycle and debugger control; a script must not launch, debug, or step another script through the SDK''),
     (''script continue'', ''script lifecycle and debugger control; a script must not launch, debug, or step another script through the SDK''),
     (''script step-over'', ''script lifecycle and debugger control; a script must not launch, debug, or step another script through the SDK''),
     (''script step-into'', ''script lifecycle and debugger control; a script must not launch, debug, or step another script through the SDK''),
     (''script step-out'', ''script lifecycle and debugger control; a script must not launch, debug, or step another script through the SDK'')]"

definition descriptor_of :: "string \<times> string \<times> APIKeyScope \<times> param_shape \<times> result_shape \<Rightarrow> SDKMethodDescriptor" where
  "descriptor_of e = (case e of (route, method, scope, params, res) \<Rightarrow>
     \<lparr>sdm_Route = route, sdm_Method = method, sdm_Scope = scope, sdm_Params = params, sdm_Result = res\<rparr>)"

fun register_each :: "('a \<Rightarrow> SdkRegistry \<Rightarrow> SdkRegistry result) \<Rightarrow> 'a list \<Rightarrow> SdkRegistry \<Rightarrow> SdkRegistry result" where
  "register_each f [] reg = Inr reg"
| "register_each f (x # xs) reg = bind_res (f x reg) (register_each f xs)"

text \<open>What \<open>init\<close> does; an error is a panic at start-up.\<close>
definition sdk_init :: "SdkRegistry result" where
  "sdk_init =
     bind_res (register_each RegisterSDKMethod (map descriptor_of sdkMethodTable) \<lparr>sdk_byRoute = [], sdk_excluded = []\<rparr>)
       (register_each (\<lambda>(route, reason). RegisterExclusion route reason) excludedRouteTable)"

section \<open>The registry starts up\<close>

definition sdk_routes :: "string list" where "sdk_routes = map fst sdkMethodTable"

definition excluded_routes :: "string list" where "excluded_routes = map fst excludedRouteTable"

lemma tables_trimmed:
  "list_all (\<lambda>(route, method, scope, p, r). trim_space route = route \<and> trim_space method = method \<and> route \<noteq> [] \<and> method \<noteq> [] \<and>
      scope \<in> {''playback'', ''authoring'', ''admin''}) sdkMethodTable"
  "list_all (\<lambda>(route, reason). trim_space route = route \<and> route \<noteq> [] \<and> trim_space reason \<noteq> []) excludedRouteTable"
  by code_simp+

lemma sdk_routes_distinct: "distinct sdk_routes" unfolding sdk_routes_def sdkMethodTable_def by simp

lemma excluded_routes_distinct: "distinct excluded_routes" unfolding excluded_routes_def excludedRouteTable_def by simp

lemma routes_disjoint: "set sdk_routes \<inter> set excluded_routes = {}"
  unfolding sdk_routes_def excluded_routes_def sdkMethodTable_def excludedRouteTable_def by simp

lemmas routes_distinct = sdk_routes_distinct excluded_routes_distinct routes_disjoint

lemma register_methods_ok:
  assumes "list_all (\<lambda>(route, method, scope, p, r). trim_space route = route \<and> trim_space method = method \<and> route \<noteq> [] \<and> method \<noteq> [] \<and>
      scope \<in> {''playback'', ''authoring'', ''admin''}) es"
    and "distinct (map fst es)" "fst ` set (sdk_byRoute reg) \<inter> fst ` set es = {}"
  shows "register_each RegisterSDKMethod (map descriptor_of es) reg =
    Inr (reg\<lparr>sdk_byRoute := rev (map (\<lambda>e. (fst e, descriptor_of e)) es) @ sdk_byRoute reg\<rparr>)"
  using assms
proof (induction es arbitrary: reg)
  case (Cons e es)
  obtain route meth scope p r where e: "e = (route, meth, scope, p, r)" by (metis prod_cases5)
  let ?reg = "reg\<lparr>sdk_byRoute := (route, descriptor_of e) # sdk_byRoute reg\<rparr>"
  have "RegisterSDKMethod (descriptor_of e) reg = Inr ?reg"
    using Cons.prems by (auto simp: RegisterSDKMethod_def Let_def e descriptor_of_def map_of_eq_None_iff)
  then show ?case using Cons.IH [of ?reg] Cons.prems by (auto simp: bind_res_def e)
qed simp

lemma register_exclusions_ok:
  assumes "list_all (\<lambda>(route, reason). trim_space route = route \<and> route \<noteq> [] \<and> trim_space reason \<noteq> []) es"
    and "distinct (map fst es)" "fst ` set (sdk_byRoute reg) \<inter> fst ` set es = {}" "fst ` set (sdk_excluded reg) \<inter> fst ` set es = {}"
  shows "\<exists>reg'. register_each (\<lambda>(route, reason). RegisterExclusion route reason) es reg = Inr reg' \<and>
    sdk_byRoute reg' = sdk_byRoute reg \<and> fst ` set (sdk_excluded reg') = fst ` set (sdk_excluded reg) \<union> fst ` set es"
  using assms
proof (induction es arbitrary: reg)
  case (Cons e es)
  obtain route reason where e: "e = (route, reason)" by force
  let ?reg = "reg\<lparr>sdk_excluded := (route, trim_space reason) # sdk_excluded reg\<rparr>"
  have "RegisterExclusion route reason reg = Inr ?reg"
    using Cons.prems by (auto simp: RegisterExclusion_def Let_def e map_of_eq_None_iff)
  moreover obtain reg' where "register_each (\<lambda>(route, reason). RegisterExclusion route reason) es ?reg = Inr reg'"
    "sdk_byRoute reg' = sdk_byRoute ?reg" "fst ` set (sdk_excluded reg') = fst ` set (sdk_excluded ?reg) \<union> fst ` set es"
    using Cons.IH [of ?reg] Cons.prems by (auto simp: e)
  ultimately show ?case by (auto simp: bind_res_def e)
qed simp

definition sdkRegistry :: SdkRegistry where
  "sdkRegistry = (case sdk_init of Inr reg \<Rightarrow> reg | Inl _ \<Rightarrow> \<lparr>sdk_byRoute = [], sdk_excluded = []\<rparr>)"

text \<open>Start-up does not panic, and every route of the two tables is registered.\<close>
lemma sdk_starts:
  "sdk_init = Inr sdkRegistry"
  "sdk_byRoute sdkRegistry = rev (map (\<lambda>e. (fst e, descriptor_of e)) sdkMethodTable)"
  "fst ` set (sdk_excluded sdkRegistry) = set excluded_routes"
proof -
  let ?r0 = "\<lparr>sdk_byRoute = [], sdk_excluded = []\<rparr>" and ?r1 = "\<lparr>sdk_byRoute = rev (map (\<lambda>e. (fst e, descriptor_of e)) sdkMethodTable), sdk_excluded = []\<rparr>"
  have m: "register_each RegisterSDKMethod (map descriptor_of sdkMethodTable) ?r0 = Inr ?r1"
    using register_methods_ok [OF tables_trimmed(1), of ?r0] routes_distinct(1) by (simp add: sdk_routes_def)
  have "fst ` set (sdk_byRoute ?r1) \<inter> fst ` set excludedRouteTable = {}"
    using routes_distinct(3) by (simp add: sdk_routes_def excluded_routes_def image_image)
  then obtain reg where reg: "register_each (\<lambda>(route, reason). RegisterExclusion route reason) excludedRouteTable ?r1 = Inr reg"
    "sdk_byRoute reg = sdk_byRoute ?r1" "fst ` set (sdk_excluded reg) = fst ` set excludedRouteTable"
    using register_exclusions_ok [OF tables_trimmed(2), of ?r1] routes_distinct(2) by (auto simp: excluded_routes_def)
  then have init: "sdk_init = Inr reg" using m by (simp add: sdk_init_def bind_res_def)
  have "sdkRegistry = reg" unfolding sdkRegistry_def init by simp
  then show "sdk_init = Inr sdkRegistry"
    "sdk_byRoute sdkRegistry = rev (map (\<lambda>e. (fst e, descriptor_of e)) sdkMethodTable)"
    "fst ` set (sdk_excluded sdkRegistry) = set excluded_routes"
    using init reg(2,3) by (simp_all only: excluded_routes_def list.set_map SdkRegistry.select_convs)
qed

text \<open>A lookup by a key that is distinct does not depend on the order.\<close>
lemma find_by_mset:
  assumes "distinct (map f xs)" "mset ys = mset xs"
  shows "find_by f k ys = find_by f k xs"
proof -
  have d: "distinct (map f ys)" using assms by (metis mset_eq_imp_distinct_iff mset_map)
  have s: "set ys = set xs" using assms(2) by (metis set_mset_mset)
  show ?thesis
  proof (cases "find_by f k xs")
    case None
    then have "k \<notin> f ` set ys" unfolding find_by_None_iff s .
    then show ?thesis using None unfolding find_by_None_iff [symmetric] by simp
  next
    case (Some x)
    then have x: "x \<in> set ys" "f x = k" using s by (auto dest: find_by_SomeD)
    then have "k \<in> f ` set ys" by blast
    then obtain y where y: "find_by f k ys = Some y" using find_by_None_iff [of f k ys] by (cases "find_by f k ys") blast+
    then have "y \<in> set ys" "f y = k" by (auto dest: find_by_SomeD)
    then have "y = x" using d x by (auto simp: distinct_map inj_on_def)
    then show ?thesis using y Some by simp
  qed
qed

definition method_of :: "string \<Rightarrow> SDKMethodDescriptor option" where
  "method_of route = map_option descriptor_of (find_by fst route sdkMethodTable)"

lemma sdm_Route_descriptor [simp]: "sdm_Route (descriptor_of e) = fst e"
  by (simp add: descriptor_of_def split: prod.split)

lemma registered_methods: "mset (RegisteredSDKMethods sdkRegistry) = mset (map descriptor_of sdkMethodTable)"
proof -
  have "mset (RegisteredSDKMethods sdkRegistry) = image_mset snd (mset (sdk_byRoute sdkRegistry))" by (simp add: RegisteredSDKMethods_def)
  also have "\<dots> = mset (map snd (rev (map (\<lambda>e. (fst e, descriptor_of e)) sdkMethodTable)))" by (simp only: sdk_starts(2) mset_map)
  also have "\<dots> = mset (map descriptor_of sdkMethodTable)" by (simp add: rev_map [symmetric] comp_def)
  finally show ?thesis .
qed

lemma find_method: "find_by sdm_Route route (RegisteredSDKMethods sdkRegistry) = method_of route"
proof -
  have d: "distinct (map sdm_Route (map descriptor_of sdkMethodTable))" using routes_distinct(1) by (simp add: sdk_routes_def comp_def)
  have f: "find_by sdm_Route route (map descriptor_of es) = map_option descriptor_of (find_by fst route es)" for es
    by (induction es) auto
  show ?thesis using find_by_mset [OF d registered_methods] by (simp add: f method_of_def)
qed

end
