(* ===== verification/ScriptCapability.thy ===== *)
theory ScriptCapability
  imports ScriptSdk ApiKeys Security
begin

text \<open>
  \<open>src/internal/script/capability.go\<close> and \<open>memorywatch.go\<close>: what a script may do and for how long.  Every call is
  checked against the run's capability profile, and a run that oversteps its scope, its rate, its deadline or its
  memory is terminated with a reason.

  The token bucket of \<open>golang.org/x/time/rate\<close> is a parameter: how one is made and what \<open>Allow\<close> answers at a given
  time.  So are the texts of quoted strings and of durations.
\<close>

record TextEnv =
  tx_quote :: "string \<Rightarrow> string"
  tx_duration :: "int \<Rightarrow> string"

record 'l RateLib =
  rate_NewLimiter :: "int \<Rightarrow> int \<Rightarrow> 'l"
  rate_Allow :: "time \<Rightarrow> 'l \<Rightarrow> bool \<times> 'l"

record TerminationReason =
  tr_Code :: string
  tr_Message :: string
  tr_At :: time

definition TerminationReason_String :: "TerminationReason \<Rightarrow> string" where
  "TerminationReason_String r = tr_Code r @ '': '' @ tr_Message r"

section \<open>Scopes\<close>

definition scopeRank :: "APIKeyScope \<Rightarrow> int" where
  "scopeRank s = (if s = ''playback'' then 1 else if s = ''authoring'' then 2 else if s = ''admin'' then 3 else 0)"

definition requiredScope :: "string \<Rightarrow> APIKeyScope option" where
  "requiredScope method = map_option sdm_Scope (find_by sdm_Route method (RegisteredSDKMethods sdkRegistry))"

section \<open>Rate, deadline and limits\<close>

type_synonym 'l runLimiter = "uuid \<rightharpoonup> 'l"

definition newRunLimiter :: "'l runLimiter" where "newRunLimiter = Map.empty"

definition run_allow :: "'l RateLib \<Rightarrow> time \<Rightarrow> uuid \<Rightarrow> int \<Rightarrow> 'l runLimiter \<Rightarrow> bool \<times> 'l runLimiter" where
  "run_allow lib now runID ratePerSecond l =
     (let limiter = (case l runID of
            Some x \<Rightarrow> x
          | None \<Rightarrow> let n = (if ratePerSecond \<le> 0 then 1 else ratePerSecond) in rate_NewLimiter lib n n);
          (ok, limiter') = rate_Allow lib now limiter
      in (ok, l(runID \<mapsto> limiter')))"

definition resourceLimitsFor :: "CapabilityProfile \<Rightarrow> ResolvedLimits" where
  "resourceLimitsFor profile = ResolveResourceLimits profile"

definition deadlineFor :: "CapabilityProfile \<Rightarrow> int" where
  "deadlineFor profile = rl_Deadline (resourceLimitsFor profile)"

definition checkDeadline :: "TextEnv \<Rightarrow> time \<Rightarrow> int \<Rightarrow> int \<Rightarrow> TerminationReason option" where
  "checkDeadline tx now elapsed deadline =
     (if elapsed < deadline then None
      else Some \<lparr>tr_Code = ''GOLC_SCRIPT_DEADLINE_EXCEEDED'',
        tr_Message = ''run exceeded its '' @ tx_duration tx deadline @ '' deadline (elapsed '' @ tx_duration tx elapsed @ '')'', tr_At = now\<rparr>)"

section \<open>Memory\<close>

definition memoryPressureTriggerPercent :: int where "memoryPressureTriggerPercent = 95"
definition memoryExhaustionCorroborationPercent :: int where "memoryExhaustionCorroborationPercent = 90"

definition v8AllocationFailureSignatures :: "string list" where
  "v8AllocationFailureSignatures =
    [''array buffer allocation failed'', ''javascript heap out of memory'', ''reached heap limit'', ''fatal javascript out of memory'']"

definition bytesPerMB :: "64 word" where "bytesPerMB = 1024 * 1024"
definition maxSafeLimitBytes :: "64 word" where "maxSafeLimitBytes = (- 1) div 2"

definition memoryLimitBytes :: "int \<Rightarrow> 64 word result" where
  "memoryLimitBytes mb =
     (if mb \<le> 0 then Inl (Code ''GOLC_SCRIPT_LIMIT_INVALID'')
      else
        let mbU = word_of_int mb :: 64 word in
        if mbU > maxSafeLimitBytes div bytesPerMB then Inl (Code ''GOLC_SCRIPT_LIMIT_INVALID'')
        else Inr (mbU * bytesPerMB))"

definition memoryTriggerBytes :: "int \<Rightarrow> int \<Rightarrow> 64 word option" where
  "memoryTriggerBytes mb percent =
     (case memoryLimitBytes mb of
        Inl _ \<Rightarrow> None
      | Inr limitBytes \<Rightarrow> Some (limitBytes div 100 * word_of_int percent))"

definition memoryLimitReason :: "time \<Rightarrow> int \<Rightarrow> TerminationReason" where
  "memoryLimitReason now mb =
     \<lparr>tr_Code = ''GOLC_SCRIPT_MEMORY_EXCEEDED'', tr_Message = ''run exceeded its '' @ itoa mb @ '' MB memory limit'', tr_At = now\<rparr>"

definition checkMemoryPressure :: "time \<Rightarrow> 64 word \<Rightarrow> ResolvedLimits \<Rightarrow> TerminationReason option" where
  "checkMemoryPressure now peakBytes limits =
     (case memoryTriggerBytes (rl_MemoryLimitMB limits) memoryPressureTriggerPercent of
        None \<Rightarrow> None
      | Some trigger \<Rightarrow> if peakBytes < trigger then None else Some (memoryLimitReason now (rl_MemoryLimitMB limits)))"

definition classifyMemoryExhaustion :: "time \<Rightarrow> string \<Rightarrow> 64 word \<Rightarrow> ResolvedLimits \<Rightarrow> TerminationReason option" where
  "classifyMemoryExhaustion now reason peakBytes limits =
     (let lower = ToLower reason in
      if \<not> (\<exists>signature\<in>set v8AllocationFailureSignatures. Contains lower signature) then None
      else case memoryTriggerBytes (rl_MemoryLimitMB limits) memoryExhaustionCorroborationPercent of
          None \<Rightarrow> None
        | Some trigger \<Rightarrow> if peakBytes < trigger then None else Some (memoryLimitReason now (rl_MemoryLimitMB limits)))"

definition cpuPercentToRateUnits :: "32 word" where "cpuPercentToRateUnits = 100"

definition cpuRateFor :: "int \<Rightarrow> 32 word result" where
  "cpuRateFor percent =
     (if percent < 1 \<or> percent > 100 then Inl (Code ''GOLC_SCRIPT_LIMIT_INVALID'')
      else Inr (word_of_int percent * cpuPercentToRateUnits))"

section \<open>Enforce\<close>

text \<open>\<open>limiter\<close>: the host's limiter, if it has one.\<close>
definition Enforce ::
  "TextEnv \<Rightarrow> 'l RateLib \<Rightarrow> time \<Rightarrow> CapabilityProfile \<Rightarrow> uuid \<Rightarrow> string \<Rightarrow> 'l runLimiter option \<Rightarrow> TerminationReason option \<times> 'l runLimiter option" where
  "Enforce tx lib now profile runID method limiter =
     (case requiredScope method of
        None \<Rightarrow> (Some \<lparr>tr_Code = ''GOLC_SCRIPT_SCOPE_DENIED'',
            tr_Message = ''method '' @ tx_quote tx method @ '' is not a registered SDK method'', tr_At = now\<rparr>, limiter)
      | Some required \<Rightarrow>
          if scopeRank (cp_Scope profile) < scopeRank required then
            (Some \<lparr>tr_Code = ''GOLC_SCRIPT_SCOPE_DENIED'',
               tr_Message = ''method '' @ tx_quote tx method @ '' requires scope '' @ tx_quote tx required @ '', profile carries '' @
                 tx_quote tx (cp_Scope profile), tr_At = now\<rparr>, limiter)
          else case limiter of
              None \<Rightarrow> (None, limiter)
            | Some l \<Rightarrow>
                let limits = resourceLimitsFor profile; (ok, l') = run_allow lib now runID (rl_RatePerSecond limits) l in
                (if ok then None
                 else Some \<lparr>tr_Code = ''GOLC_SCRIPT_RATE_EXCEEDED'',
                   tr_Message = ''run exceeded its '' @ itoa (rl_RatePerSecond limits) @ '' call/sec rate limit'', tr_At = now\<rparr>,
                 Some l'))"

section \<open>memorywatch.go\<close>

definition memoryPressureDebounceSamples :: nat where "memoryPressureDebounceSamples = 2"

text \<open>What the monitor wakes up for: the run's context is done, \<open>stop\<close> was called, or a tick, at which the sampler
  gives the peak, fails, or says that the platform has no such figure.\<close>
datatype memory_event = ContextDone | StopCalled | Sample time "64 word" | SampleFailed | SampleUnsupported

text \<open>The loop with its streak of samples above the trigger; the reason with which it begins termination, if it does.\<close>
fun memoryWatch :: "ResolvedLimits \<Rightarrow> nat \<Rightarrow> memory_event list \<Rightarrow> TerminationReason option" where
  "memoryWatch limits streak [] = None"
| "memoryWatch limits streak (ContextDone # es) = None"
| "memoryWatch limits streak (StopCalled # es) = None"
| "memoryWatch limits streak (SampleUnsupported # es) = None"
| "memoryWatch limits streak (SampleFailed # es) = memoryWatch limits streak es"
| "memoryWatch limits streak (Sample now peak # es) =
     (case checkMemoryPressure now peak limits of
        None \<Rightarrow> memoryWatch limits 0 es
      | Some reason \<Rightarrow>
          if streak + 1 < memoryPressureDebounceSamples then memoryWatch limits (streak + 1) es else Some reason)"

section \<open>Conversions do not wrap\<close>

lemma memory_consts: "unat (maxSafeLimitBytes div bytesPerMB) = 8796093022207" "unat bytesPerMB = 1048576"
  by (simp_all add: maxSafeLimitBytes_def bytesPerMB_def unat_div)

lemma memoryLimitBytes_exact:
  assumes "is_int64 mb"
  shows "(\<exists>b. memoryLimitBytes mb = Inr b) \<longleftrightarrow> 0 < mb \<and> mb \<le> 8796093022207"
    and "memoryLimitBytes mb = Inr b \<Longrightarrow> uint b = mb * 1048576"
proof -
  have m: "unat (word_of_int mb :: 64 word) = nat mb" if "0 < mb"
    using that assms by (simp add: is_int64_def max_int64_def unat_eq_nat_uint take_bit_int_eq_self uint_word_of_int_eq)
  have le: "(word_of_int mb :: 64 word) \<le> maxSafeLimitBytes div bytesPerMB \<longleftrightarrow> mb \<le> 8796093022207" if "0 < mb"
    using that by (simp add: word_le_nat_alt memory_consts m nat_le_iff)
  show "(\<exists>b. memoryLimitBytes mb = Inr b) \<longleftrightarrow> 0 < mb \<and> mb \<le> 8796093022207"
    using le by (auto simp: memoryLimitBytes_def Let_def not_less)
  assume "memoryLimitBytes mb = Inr b"
  then have b: "0 < mb" "mb \<le> 8796093022207" "b = word_of_int mb * bytesPerMB"
    using le by (auto simp: memoryLimitBytes_def Let_def not_less split: if_splits)
  have "unat b = nat mb * 1048576"
    unfolding b(3) using b(1,2) by (subst unat_mult_lem [THEN iffD1]) (simp_all add: m memory_consts)
  then show "uint b = mb * 1048576" using b(1) by (simp add: uint_nat)
qed

lemma memoryTriggerBytes_exact:
  assumes "is_int64 mb" "memoryTriggerBytes mb percent = Some t" "0 \<le> percent" "percent \<le> 100"
  shows "uint t = (mb * 1048576) div 100 * percent" "0 < mb"
proof -
  obtain b where b: "memoryLimitBytes mb = Inr b" "t = b div 100 * word_of_int percent"
    using assms(2) by (auto simp: memoryTriggerBytes_def split: sum.splits)
  have u: "uint b = mb * 1048576" "0 < mb" "mb \<le> 8796093022207"
    using memoryLimitBytes_exact [OF assms(1)] b(1) by blast+
  have ub: "unat b = nat (mb * 1048576)" using u(1) by (simp add: unat_eq_nat_uint)
  have "unat (b div 100) = unat b div 100" by (simp add: unat_div)
  also have "\<dots> = nat (mb * 1048576 div 100)" unfolding ub using u(2) by (subst nat_div_distrib) simp_all
  finally have d: "unat (b div 100) = nat (mb * 1048576 div 100)" .
  have p: "unat (word_of_int percent :: 64 word) = nat percent"
    using assms(3,4) by (simp add: unat_eq_nat_uint uint_word_of_int_eq take_bit_int_eq_self)
  have le: "mb * 1048576 div 100 * percent \<le> 8796093022207 * 1048576"
  proof -
    have "mb * 1048576 div 100 * percent \<le> mb * 1048576 div 100 * 100" using assms(4) u(2) by (intro mult_left_mono) auto
    also have "\<dots> \<le> mb * 1048576" by simp
    finally show ?thesis using u(3) by simp
  qed
  have "nat (mb * 1048576 div 100) * nat percent = nat (mb * 1048576 div 100 * percent)"
    using u(2) assms(3) by (simp add: nat_mult_distrib)
  then have "unat (b div 100) * unat (word_of_int percent :: 64 word) < 2 ^ LENGTH(64)" using le by (simp add: d p)
  then have "unat t = unat (b div 100) * unat (word_of_int percent :: 64 word)" unfolding b(2) by (rule unat_mult_lem [THEN iffD1])
  then show "uint t = (mb * 1048576) div 100 * percent"
    using u(2) assms(3) by (simp add: uint_nat d p)
  show "0 < mb" by (rule u(2))
qed

section \<open>When a call passes\<close>

lemma requiredScope_eq: "requiredScope method = map_option sdm_Scope (method_of method)"
  by (simp add: requiredScope_def find_method)

lemma method_scope:
  assumes "requiredScope method = Some s"
  shows "s \<in> {''playback'', ''authoring'', ''admin''}"
proof -
  obtain e where e: "find_by fst method sdkMethodTable = Some e" "s = sdm_Scope (descriptor_of e)"
    using assms by (auto simp: requiredScope_eq method_of_def)
  then have "e \<in> set sdkMethodTable" by (auto dest: find_by_SomeD)
  moreover obtain route m scope p r where "e = (route, m, scope, p, r)" by (metis prod_cases5)
  ultimately show ?thesis using tables_trimmed(1) e(2) unfolding list_all_iff by (fastforce simp: descriptor_of_def)
qed

lemma Enforce_passes:
  "fst (Enforce tx lib now profile runID method limiter) = None \<longleftrightarrow>
   (\<exists>required. requiredScope method = Some required \<and> scopeRank required \<le> scopeRank (cp_Scope profile) \<and>
      (\<forall>l. limiter = Some l \<longrightarrow> fst (run_allow lib now runID (rl_RatePerSecond (ResolveResourceLimits profile)) l)))"
  by (auto simp: Enforce_def Let_def resourceLimitsFor_def split: option.splits prod.splits)

text \<open>A scope that is none of the three grants nothing.\<close>
lemma unknown_scope_denied:
  "cp_Scope profile \<notin> {''playback'', ''authoring'', ''admin''} \<Longrightarrow> fst (Enforce tx lib now profile runID method limiter) \<noteq> None"
  by (auto simp: Enforce_passes scopeRank_def dest: method_scope)

section \<open>When a run is stopped for its memory\<close>

text \<open>A signature in the text, which the script controls, never suffices.\<close>
lemma classify_needs_memory:
  assumes "is_int64 (rl_MemoryLimitMB limits)" "classifyMemoryExhaustion now reason peak limits = Some r"
  shows "(rl_MemoryLimitMB limits * 1048576) div 100 * 90 \<le> uint peak" "0 < rl_MemoryLimitMB limits"
    "tr_Message r = ''run exceeded its '' @ itoa (rl_MemoryLimitMB limits) @ '' MB memory limit''"
proof -
  obtain t where t: "memoryTriggerBytes (rl_MemoryLimitMB limits) 90 = Some t" "\<not> peak < t" "r = memoryLimitReason now (rl_MemoryLimitMB limits)"
    using assms(2) by (auto simp: classifyMemoryExhaustion_def Let_def memoryExhaustionCorroborationPercent_def split: if_splits option.splits)
  note e = memoryTriggerBytes_exact [OF assms(1) t(1)]
  show "(rl_MemoryLimitMB limits * 1048576) div 100 * 90 \<le> uint peak" "0 < rl_MemoryLimitMB limits"
    using e t(2) by (simp_all add: word_less_def)
  show "tr_Message r = ''run exceeded its '' @ itoa (rl_MemoryLimitMB limits) @ '' MB memory limit''" using t(3) by (simp add: memoryLimitReason_def)
qed

lemma pressure_iff:
  assumes "is_int64 (rl_MemoryLimitMB limits)"
  shows "checkMemoryPressure now peak limits \<noteq> None \<longleftrightarrow> 0 < rl_MemoryLimitMB limits \<and> rl_MemoryLimitMB limits \<le> 8796093022207 \<and>
    (rl_MemoryLimitMB limits * 1048576) div 100 * 95 \<le> uint peak"
proof (cases "memoryTriggerBytes (rl_MemoryLimitMB limits) 95")
  case None
  then have "\<not> (0 < rl_MemoryLimitMB limits \<and> rl_MemoryLimitMB limits \<le> 8796093022207)"
    using memoryLimitBytes_exact(1) [OF assms] by (auto simp: memoryTriggerBytes_def split: sum.splits)
  then show ?thesis using None by (auto simp: checkMemoryPressure_def memoryPressureTriggerPercent_def)
next
  case (Some t)
  then have "0 < rl_MemoryLimitMB limits \<and> rl_MemoryLimitMB limits \<le> 8796093022207"
    using memoryLimitBytes_exact(1) [OF assms] by (auto simp: memoryTriggerBytes_def split: sum.splits)
  moreover have "uint t = (rl_MemoryLimitMB limits * 1048576) div 100 * 95" using memoryTriggerBytes_exact(1) [OF assms Some] by simp
  ultimately show ?thesis using Some by (auto simp: checkMemoryPressure_def memoryPressureTriggerPercent_def word_less_def)
qed

text \<open>The samples since the last one below the trigger, ticks without a figure left out.\<close>
fun hot_streak :: "ResolvedLimits \<Rightarrow> nat \<Rightarrow> memory_event list \<Rightarrow> nat" where
  "hot_streak limits n [] = n"
| "hot_streak limits n (Sample now peak # es) = hot_streak limits (if checkMemoryPressure now peak limits = None then 0 else n + 1) es"
| "hot_streak limits n (_ # es) = hot_streak limits n es"

text \<open>A single spike does not stop a run; two samples in a row do.\<close>
lemma memoryWatch_two_samples:
  assumes "streak < 2" "memoryWatch limits streak es = Some reason"
  shows "\<exists>before now peak after. es = before @ Sample now peak # after \<and> checkMemoryPressure now peak limits = Some reason \<and>
    hot_streak limits streak (before @ [Sample now peak]) = 2 \<and> set before \<inter> {ContextDone, StopCalled, SampleUnsupported} = {}"
  using assms
proof (induction limits streak es rule: memoryWatch.induct)
  case (5 limits streak es)
  then obtain before now peak after where "es = before @ Sample now peak # after" "checkMemoryPressure now peak limits = Some reason"
    "hot_streak limits streak (before @ [Sample now peak]) = 2" "set before \<inter> {ContextDone, StopCalled, SampleUnsupported} = {}"
    by auto
  then show ?case by (intro exI [of _ "SampleFailed # before"] exI [of _ now] exI [of _ peak] exI [of _ after]) simp
next
  case (6 limits streak now peak es)
  show ?case
  proof (cases "\<exists>r. checkMemoryPressure now peak limits = Some r \<and> \<not> streak + 1 < memoryPressureDebounceSamples")
    case True
    then have "checkMemoryPressure now peak limits = Some reason" "streak = 1" using 6 by (auto simp: memoryPressureDebounceSamples_def)
    then show ?thesis by (intro exI [of _ "[]"] exI [of _ now] exI [of _ peak] exI [of _ es]) simp
  next
    case False
    define n where "n = (if checkMemoryPressure now peak limits = None then 0 else streak + 1)"
    have "memoryWatch limits n es = Some reason" "n < 2"
      using False 6 by (auto simp: n_def memoryPressureDebounceSamples_def split: option.splits if_splits)
    then obtain before now' peak' after where "es = before @ Sample now' peak' # after" "checkMemoryPressure now' peak' limits = Some reason"
      "hot_streak limits n (before @ [Sample now' peak']) = 2" "set before \<inter> {ContextDone, StopCalled, SampleUnsupported} = {}"
      using 6 False by (cases "checkMemoryPressure now peak limits") (auto simp: n_def memoryPressureDebounceSamples_def)
    then show ?thesis
      by (intro exI [of _ "Sample now peak # before"] exI [of _ now'] exI [of _ peak'] exI [of _ after]) (simp add: n_def)
  qed
qed simp_all

end
