(* ===== verification/ScriptEvents.thy ===== *)
theory ScriptEvents
  imports EventStream ScriptCapability
begin

text \<open>
  \<open>src/internal/script/events.go\<close> and \<open>protocol.go\<close>: the bus on which a run reports what it does, and the frames that a
  script and its host exchange, one JSON object per line.

  The bus is the ring of \<open>EventStream\<close> built a second time, so it interprets the same locale; what differs is that it
  redacts an event as it numbers it.  JSON is the fields of a \<open>FrameCodec\<close>.
\<close>

section \<open>events.go\<close>

datatype ScriptEventKind = ScriptEventLog | ScriptEventOutcome | ScriptEventStatus | ScriptEventTerminal

record ScriptEvent =
  sc_Seq :: int
  sc_Kind :: ScriptEventKind
  sc_RunID :: uuid
  sc_ScriptName :: string
  sc_At :: time
  sc_Level :: string
  sc_Message :: string
  sc_Source :: string
  sc_Method :: string
  sc_Route :: string
  sc_DurationMS :: int
  sc_Ok :: bool
  sc_Code :: string
  sc_Status :: ScriptRunStatus
  sc_Reason :: string

text \<open>An event with only the fields that every kind sets.\<close>
definition script_event :: "ScriptEventKind \<Rightarrow> uuid \<Rightarrow> string \<Rightarrow> time \<Rightarrow> ScriptEvent" where
  "script_event kind runID name now =
     \<lparr>sc_Seq = 0, sc_Kind = kind, sc_RunID = runID, sc_ScriptName = name, sc_At = now, sc_Level = [], sc_Message = [], sc_Source = [],
      sc_Method = [], sc_Route = [], sc_DurationMS = 0, sc_Ok = False, sc_Code = [], sc_Status = [], sc_Reason = []\<rparr>"

definition ScriptEventRingCapacity :: nat where "ScriptEventRingCapacity = 512"

type_synonym eventBus = "ScriptEvent bus"

definition newEventBus :: eventBus where "newEventBus = empty_bus"

definition PublishScriptEvent :: "ScriptEvent \<Rightarrow> eventBus \<Rightarrow> eventBus" where
  "PublishScriptEvent event b =
     (let n = wrap64 (bus_nextSeq b + 1);
          ev = event\<lparr>sc_Message := Redact (sc_Message event), sc_Reason := Redact (sc_Reason event), sc_Seq := n\<rparr>;
          buffer = bus_buffer b @ [ev] in
      b\<lparr>bus_buffer := (if length buffer > ScriptEventRingCapacity then drop (length buffer - ScriptEventRingCapacity) buffer else buffer),
        bus_subscribers := map (offer ScriptEventRingCapacity ev) (bus_subscribers b), bus_nextSeq := n\<rparr>)"

definition SubscribeScriptEvents :: "int \<Rightarrow> eventBus \<Rightarrow> ScriptEvent list \<times> bool \<times> nat \<times> eventBus" where
  "SubscribeScriptEvents lastSeq b =
     (let (ch, b') = open_channel b in
      if lastSeq \<le> 0 then ([], False, ch, b')
      else if bus_buffer b = [] then ([], True, ch, b')
      else
        let oldest = sc_Seq (hd (bus_buffer b)); latest = sc_Seq (last (bus_buffer b)) in
        if lastSeq < oldest - 1 then ([], True, ch, b')
        else if lastSeq = latest then ([], False, ch, b')
        else if lastSeq > latest then ([], True, ch, b')
        else (filter (\<lambda>bufEv. sc_Seq bufEv > lastSeq) (bus_buffer b), False, ch, b'))"

definition resetScriptEvents :: "eventBus \<Rightarrow> eventBus" where
  "resetScriptEvents b = b\<lparr>bus_buffer := [], bus_subscribers := [], bus_nextSeq := 0\<rparr>"

section \<open>protocol.go\<close>

definition maxFrameBytes :: nat where "maxFrameBytes = 1048576"

record CmdCallFrame =
  cc_ID :: string
  cc_Method :: string
  cc_Params :: string

record LogFrame =
  lf_Level :: string
  lf_Message :: string
  lf_Source :: string

record DoneFrame = df_ExitReason :: string

record CmdResultFrame =
  crf_ID :: string
  crf_Ok :: bool
  crf_Result :: string
  crf_Code :: string
  crf_Message :: string

record CancelFrame = cf_Reason :: string

datatype Frame = FrameCmdCall CmdCallFrame | FrameLog LogFrame | FrameReady | FrameDone DoneFrame | FrameCmdResult CmdResultFrame | FrameCancel CancelFrame

definition FrameKindCmdCall :: string where "FrameKindCmdCall = ''cmd-call''"
definition FrameKindLog :: string where "FrameKindLog = ''log''"
definition FrameKindReady :: string where "FrameKindReady = ''ready''"
definition FrameKindDone :: string where "FrameKindDone = ''done''"
definition FrameKindCmdResult :: string where "FrameKindCmdResult = ''cmd-result''"
definition FrameKindCancel :: string where "FrameKindCancel = ''cancel''"

fun FrameKind :: "Frame \<Rightarrow> string" where
  "FrameKind (FrameCmdCall _) = FrameKindCmdCall"
| "FrameKind (FrameLog _) = FrameKindLog"
| "FrameKind FrameReady = FrameKindReady"
| "FrameKind (FrameDone _) = FrameKindDone"
| "FrameKind (FrameCmdResult _) = FrameKindCmdResult"
| "FrameKind (FrameCancel _) = FrameKindCancel"

text \<open>\<open>encoding/json\<close>: whether a line is a JSON value, its \<open>kind\<close> member, and the value of each frame type; an error is its text.\<close>
record FrameCodec =
  fc_Valid :: "string \<Rightarrow> bool"
  fc_Kind :: "string \<Rightarrow> string + string"
  fc_CmdCall :: "string \<Rightarrow> string + CmdCallFrame"
  fc_Log :: "string \<Rightarrow> string + LogFrame"
  fc_Done :: "string \<Rightarrow> string + DoneFrame"
  fc_CmdResult :: "string \<Rightarrow> string + CmdResultFrame"
  fc_Cancel :: "string \<Rightarrow> string + CancelFrame"
  fc_Marshal :: "Frame \<Rightarrow> string + string"

abbreviation frame_malformed :: "string \<Rightarrow> string" where
  "frame_malformed text \<equiv> ''GOLC_SCRIPT_FRAME_MALFORMED: '' @ text"

definition decodeAs :: "('a \<Rightarrow> Frame) \<Rightarrow> string + 'a \<Rightarrow> string + Frame" where
  "decodeAs mk r = (case r of Inl e \<Rightarrow> Inl (frame_malformed e) | Inr f \<Rightarrow> Inr (mk f))"

definition DecodeFrame :: "TextEnv \<Rightarrow> FrameCodec \<Rightarrow> string \<Rightarrow> string + Frame" where
  "DecodeFrame tx codec line =
     (if \<not> fc_Valid codec line then Inl (frame_malformed ''line is not valid JSON'')
      else case fc_Kind codec line of
          Inl e \<Rightarrow> Inl (frame_malformed e)
        | Inr kind \<Rightarrow>
            if kind = FrameKindCmdCall then decodeAs FrameCmdCall (fc_CmdCall codec line)
            else if kind = FrameKindLog then decodeAs FrameLog (fc_Log codec line)
            else if kind = FrameKindReady then Inr FrameReady
            else if kind = FrameKindDone then decodeAs FrameDone (fc_Done codec line)
            else if kind = FrameKindCmdResult then decodeAs FrameCmdResult (fc_CmdResult codec line)
            else if kind = FrameKindCancel then decodeAs FrameCancel (fc_Cancel codec line)
            else Inl (''GOLC_SCRIPT_FRAME_UNKNOWN: unrecognized frame kind '' @ tx_quote tx kind))"

text \<open>\<open>failure\<close>: the error of the write, if there is one.  The error of the call, and the bytes that reached the writer.\<close>
definition EncodeFrame :: "FrameCodec \<Rightarrow> string option \<Rightarrow> Frame \<Rightarrow> string option \<times> string" where
  "EncodeFrame codec failure frame =
     (case fc_Marshal codec frame of
        Inl e \<Rightarrow> (Some e, [])
      | Inr payload \<Rightarrow>
          if CHR 0x0A \<in> set payload \<or> CHR 0x0D \<in> set payload then
            (Some ''GOLC_SCRIPT_PROTOCOL_VIOLATION: encoded frame contains an embedded newline'', [])
          else (failure, if failure = None then payload @ [CHR 0x0A] else []))"

text \<open>What a scan of the child's output meets: a line, the end, a line that does not fit, or an error of the reader.\<close>
datatype scan = Scanned string | ScanEnd | ScanTooLong | ScanFailed string

definition scanFrameLine :: "scan \<Rightarrow> string option \<times> string option" where
  "scanFrameLine s =
     (case s of
        Scanned line \<Rightarrow> (Some line, None)
      | ScanEnd \<Rightarrow> (None, None)
      | ScanTooLong \<Rightarrow> (None, Some (''GOLC_SCRIPT_FRAME_TOO_LARGE: line exceeds the '' @ itoa (int maxFrameBytes) @ '' byte maximum''))
      | ScanFailed e \<Rightarrow> (None, Some e))"

section \<open>The second ring\<close>

text \<open>An event as every subscriber sees it.\<close>
definition numbered_event :: "int \<Rightarrow> ScriptEvent \<Rightarrow> ScriptEvent" where
  "numbered_event n event = event\<lparr>sc_Message := Redact (sc_Message event), sc_Reason := Redact (sc_Reason event), sc_Seq := n\<rparr>"

lemma PublishScriptEvent_eq:
  "PublishScriptEvent event b =
     b\<lparr>bus_buffer := keep_last ScriptEventRingCapacity (bus_buffer b @ [numbered_event (wrap64 (bus_nextSeq b + 1)) event]),
       bus_subscribers := map (offer ScriptEventRingCapacity (numbered_event (wrap64 (bus_nextSeq b + 1)) event)) (bus_subscribers b),
       bus_nextSeq := wrap64 (bus_nextSeq b + 1)\<rparr>"
  by (auto simp: PublishScriptEvent_def numbered_event_def Let_def keep_last_def)

interpretation scripts: sequenced_bus PublishScriptEvent sc_Seq numbered_event ScriptEventRingCapacity SubscribeScriptEvents
proof unfold_locales
  fix k :: int and b :: eventBus
  show "(fst (snd (snd (SubscribeScriptEvents k b))), snd (snd (snd (SubscribeScriptEvents k b)))) = open_channel b"
    by (auto simp: SubscribeScriptEvents_def Let_def split: prod.split)
  assume "0 < k"
  then show "(fst (SubscribeScriptEvents k b), fst (snd (SubscribeScriptEvents k b))) =
      (if bus_buffer b = [] \<or> k < sc_Seq (hd (bus_buffer b)) - 1 then ([], True)
       else if k = sc_Seq (last (bus_buffer b)) then ([], False)
       else if k > sc_Seq (last (bus_buffer b)) then ([], True)
       else (filter (\<lambda>e. k < sc_Seq e) (bus_buffer b), False))"
    by (auto simp: SubscribeScriptEvents_def Let_def split: prod.split)
qed (simp_all add: PublishScriptEvent_eq numbered_event_def ScriptEventRingCapacity_def)

text \<open>What every subscriber of the bus may see: no forbidden token in a message or a reason.\<close>
definition event_clean :: "ScriptEvent \<Rightarrow> bool" where
  "event_clean ev \<longleftrightarrow> clean (sc_Message ev) \<and> clean (sc_Reason ev)"

definition bus_clean :: "eventBus \<Rightarrow> bool" where
  "bus_clean b \<longleftrightarrow> list_all event_clean (bus_buffer b) \<and> list_all (\<lambda>(ch, pending). list_all event_clean pending) (bus_subscribers b)"

lemma numbered_event_clean: "event_clean (numbered_event n event)"
  using Redact_clean by (simp add: event_clean_def numbered_event_def)

lemma PublishScriptEvent_clean: "bus_clean b \<Longrightarrow> bus_clean (PublishScriptEvent event b)"
  using numbered_event_clean set_keep_last
  by (fastforce simp: bus_clean_def PublishScriptEvent_eq list_all_iff offer_def split: if_splits)

section \<open>Frames\<close>

text \<open>A frame of the child is one of the six kinds, exactly as its \<open>kind\<close> says; anything else is an error.\<close>
lemma DecodeFrame_kind: "DecodeFrame tx codec line = Inr frame \<Longrightarrow> fc_Valid codec line \<and> fc_Kind codec line = Inr (FrameKind frame)"
  by (auto simp: DecodeFrame_def decodeAs_def split: if_splits sum.splits)

text \<open>A frame goes out as one line or not at all.\<close>
lemma EncodeFrame_one_line:
  "\<lbrakk>EncodeFrame codec failure frame = (e, out); out \<noteq> []\<rbrakk> \<Longrightarrow>
   \<exists>payload. fc_Marshal codec frame = Inr payload \<and> out = payload @ [CHR 0x0A] \<and> CHR 0x0A \<notin> set payload \<and> CHR 0x0D \<notin> set payload \<and> e = None"
  by (auto simp: EncodeFrame_def split: sum.splits if_splits)

text \<open>A codec that reads back what it writes.\<close>
definition codec_round_trips :: "FrameCodec \<Rightarrow> bool" where
  "codec_round_trips codec \<longleftrightarrow> (\<forall>frame line. fc_Marshal codec frame = Inr line \<longrightarrow> fc_Valid codec line \<and> fc_Kind codec line = Inr (FrameKind frame) \<and>
     (case frame of
        FrameCmdCall f \<Rightarrow> fc_CmdCall codec line = Inr f | FrameLog f \<Rightarrow> fc_Log codec line = Inr f | FrameReady \<Rightarrow> True
      | FrameDone f \<Rightarrow> fc_Done codec line = Inr f | FrameCmdResult f \<Rightarrow> fc_CmdResult codec line = Inr f | FrameCancel f \<Rightarrow> fc_Cancel codec line = Inr f))"

lemma frame_kinds_distinct [simp]:
  "distinct [FrameKindCmdCall, FrameKindLog, FrameKindReady, FrameKindDone, FrameKindCmdResult, FrameKindCancel]"
  by (simp add: FrameKindCmdCall_def FrameKindLog_def FrameKindReady_def FrameKindDone_def FrameKindCmdResult_def FrameKindCancel_def)

text \<open>Every frame is read back from the line it was written as.\<close>
lemma frame_round_trip:
  assumes "codec_round_trips codec" "EncodeFrame codec None frame = (None, line @ [CHR 0x0A])"
  shows "DecodeFrame tx codec line = Inr frame"
proof -
  have m: "fc_Marshal codec frame = Inr line" using assms(2) by (auto simp: EncodeFrame_def split: sum.splits if_splits)
  then show ?thesis using assms(1) frame_kinds_distinct unfolding codec_round_trips_def
    by (cases frame) (fastforce simp: DecodeFrame_def decodeAs_def)+
qed

end
