(* ===== verification/ScriptArgv.thy ===== *)
theory ScriptArgv
  imports ScriptSdk Command
begin

text \<open>
  \<open>src/internal/script/argv.go\<close>: how the parameters of a call become the arguments of the command route it names.  The show
  is always the host's own; nothing a script sends selects it.

  Decoding JSON into a parameter shape, and the text of a floating-point number, are the fields of a \<open>ParamDecoders\<close>.
\<close>

record ParamDecoders =
  pd_NameShow :: "string \<Rightarrow> NameShowParams result"
  pd_Rename :: "string \<Rightarrow> RenameParams result"
  pd_DeploymentInstanceReassign :: "string \<Rightarrow> DeploymentInstanceReassignParams result"
  pd_PoolCreate :: "string \<Rightarrow> PoolCreateParams result"
  pd_PoolUpdate :: "string \<Rightarrow> PoolUpdateParams result"
  pd_PoolApply :: "string \<Rightarrow> PoolApplyParams result"
  pd_PoolSubstitute :: "string \<Rightarrow> PoolSubstituteParams result"
  pd_ShowOpen :: "string \<Rightarrow> ShowOpenParams result"
  pd_ShowSaveAs :: "string \<Rightarrow> ShowSaveAsParams result"
  pd_SceneCreate :: "string \<Rightarrow> SceneCreateParams result"
  pd_SceneLayerSet :: "string \<Rightarrow> SceneLayerSetParams result"
  pd_SceneReorder :: "string \<Rightarrow> SceneReorderParams result"
  pd_BlendCreate :: "string \<Rightarrow> BlendCreateParams result"
  pd_PresetRecord :: "string \<Rightarrow> PresetRecordParams result"
  pd_NoteEdit :: "string \<Rightarrow> NoteEditParams result"
  pd_ChaseCreate :: "string \<Rightarrow> ChaseCreateParams result"
  pd_ChaseUpdate :: "string \<Rightarrow> ChaseUpdateParams result"
  pd_ChaseReorder :: "string \<Rightarrow> ChaseReorderParams result"
  pd_ProgrammerSet :: "string \<Rightarrow> ProgrammerSetParams result"
  pd_PlaybackBPMSet :: "string \<Rightarrow> PlaybackBPMSetParams result"
  pd_PlaybackBPMTap :: "string \<Rightarrow> PlaybackBPMTapParams result"
  pd_PlaybackSwitch :: "string \<Rightarrow> PlaybackSwitchParams result"
  pd_OperatorSurfaceSurface :: "string \<Rightarrow> OperatorSurfaceSurfaceParams result"
  pd_OperatorSurfaceAssign :: "string \<Rightarrow> OperatorSurfaceAssignParams result"
  pd_ArtnetStatus :: "string \<Rightarrow> ArtnetStatusParams result"
  pd_ArtnetInterfaceList :: "string \<Rightarrow> ArtnetInterfaceListParams result"
  pd_ArtnetDiscover :: "string \<Rightarrow> ArtnetDiscoverParams result"
  pd_ArtnetConfigure :: "string \<Rightarrow> ArtnetConfigureParams result"
  pd_ArtnetTarget :: "string \<Rightarrow> ArtnetTargetParams result"
  pd_ArtnetSafety :: "string \<Rightarrow> ArtnetSafetyParams result"
  pd_ArtnetMasterSet :: "string \<Rightarrow> ArtnetMasterSetParams result"
  pd_ArtnetDeskSet :: "string \<Rightarrow> ArtnetDeskSetParams result"
  pd_ArtnetDeskClear :: "string \<Rightarrow> ArtnetDeskClearParams result"
  pd_ArtnetDeskClearAll :: "string \<Rightarrow> ArtnetDeskClearAllParams result"
  pd_FixtureFile :: "string \<Rightarrow> FixtureFileParams result"
  pd_FixtureImport :: "string \<Rightarrow> FixtureImportParams result"
  pd_APIKeyCreate :: "string \<Rightarrow> APIKeyCreateParams result"
  pd_APIKeyList :: "string \<Rightarrow> APIKeyListParams result"
  pd_APIKeyRevoke :: "string \<Rightarrow> APIKeyRevokeParams result"
  pd_FormatFloat :: "f64 \<Rightarrow> string"

type_synonym builder = "ParamDecoders \<Rightarrow> string \<Rightarrow> string \<Rightarrow> string list result"

definition decodeParams :: "'p \<Rightarrow> (string \<Rightarrow> 'p result) \<Rightarrow> string \<Rightarrow> 'p result" where
  "decodeParams zero decode raw =
     (if raw = [] then Inr zero
      else case decode raw of Inl e \<Rightarrow> Inl (Wrap ''GOLC_SCRIPT_PARAMS_INVALID'' e) | Inr v \<Rightarrow> Inr v)"

definition appendRepeated :: "string list \<Rightarrow> string \<Rightarrow> string list \<Rightarrow> string list" where
  "appendRepeated args flag values = args @ concat (map (\<lambda>v. [flag, v]) values)"

text \<open>A flag that is only sent when its value is not empty.\<close>
abbreviation given :: "string \<Rightarrow> string \<Rightarrow> string list" where
  "given flag v \<equiv> (if v \<noteq> [] then [flag, v] else [])"

definition formatFloat :: "ParamDecoders \<Rightarrow> f64 \<Rightarrow> string" where
  "formatFloat d f = pd_FormatFloat d f"

definition FormatBool :: "bool \<Rightarrow> string" where
  "FormatBool b = (if b then ''true'' else ''false'')"

section \<open>Shared shapes\<close>

definition showOnlyArgs :: builder where
  "showOnlyArgs d showPath raw = Inr [''--show'', showPath]"

definition nameShowArgs :: builder where
  "nameShowArgs d showPath raw =
     bind_res (decodeParams zeroNameShowParams (pd_NameShow d) raw) (\<lambda>p.
       Inr (ns_Name p # [''--show'', showPath]))"

definition renameArgs :: builder where
  "renameArgs d showPath raw =
     bind_res (decodeParams zeroRenameParams (pd_Rename d) raw) (\<lambda>p.
       Inr (rn_Name p # rn_NewName p # [''--show'', showPath]))"

section \<open>Pools and deployments\<close>

definition buildPoolCreateArgs :: builder where
  "buildPoolCreateArgs d showPath raw =
     bind_res (decodeParams zeroPoolCreateParams (pd_PoolCreate d) raw) (\<lambda>p.
       Inr (pcr_Name p # (if pcr_Requires p = [] then [] else [''--requires'', Join '','' (pcr_Requires p)]) @ [''--show'', showPath]))"

definition buildPoolUpdateArgs :: builder where
  "buildPoolUpdateArgs d showPath raw =
     bind_res (decodeParams zeroPoolUpdateParams (pd_PoolUpdate d) raw) (\<lambda>p.
       Inr (appendRepeated (appendRepeated [pup_Pool p] ''--add'' (pup_Add p)) ''--remove'' (pup_Remove p) @
            given ''--propagate'' (pup_Propagate p) @ given ''--out'' (pup_Out p) @ (if pup_Out p = [] then [''--json''] else []) @ [''--show'', showPath]))"

definition buildPoolApplyArgs :: builder where
  "buildPoolApplyArgs d showPath raw =
     bind_res (decodeParams zeroPoolApplyParams (pd_PoolApply d) raw) (\<lambda>p.
       Inr ([pap_PlanFile p, ''--plan-id'', pap_PlanID p] @ [''--show'', showPath]))"

definition buildPoolSubstituteArgs :: builder where
  "buildPoolSubstituteArgs d showPath raw =
     bind_res (decodeParams zeroPoolSubstituteParams (pd_PoolSubstitute d) raw) (\<lambda>p.
       Inr ([psb_Pool p, ''--from'', psb_From p, ''--to'', psb_To p] @ given ''--out'' (psb_Out p) @
            (if psb_Out p = [] then [''--json''] else []) @ [''--show'', showPath]))"

definition buildDeploymentInstanceReassignArgs :: builder where
  "buildDeploymentInstanceReassignArgs d showPath raw =
     bind_res (decodeParams zeroDeploymentInstanceReassignParams (pd_DeploymentInstanceReassign d) raw) (\<lambda>p.
       Inr ([dir_DeploymentName p, dir_InstanceID p] @ given ''--mode'' (dir_Mode p) @
            (if dir_Universe p \<noteq> 0 then [''--universe'', itoa (dir_Universe p)] else []) @
            (if dir_Address p \<noteq> 0 then [''--address'', itoa (dir_Address p)] else []) @ [''--show'', showPath]))"

section \<open>Notes and shows\<close>

definition buildNoteEditArgs :: builder where
  "buildNoteEditArgs d showPath raw =
     bind_res (decodeParams zeroNoteEditParams (pd_NoteEdit d) raw) (\<lambda>p.
       Inr ([ned_Name p] @ given ''--title'' (ned_Title p) @ given ''--body-file'' (ned_BodyFile p) @ [''--show'', showPath]))"

definition buildShowOpenArgs :: builder where
  "buildShowOpenArgs d showPath raw =
     bind_res (decodeParams zeroShowOpenParams (pd_ShowOpen d) raw) (\<lambda>p.
       Inr ([''--show'', showPath] @ given ''--accept-recovery'' (sop_AcceptRecovery p) @
            (if sop_DiscardRecovery p then [''--discard-recovery''] else [])))"

definition buildShowSaveAsArgs :: builder where
  "buildShowSaveAsArgs d showPath raw =
     bind_res (decodeParams zeroShowSaveAsParams (pd_ShowSaveAs d) raw) (\<lambda>p.
       Inr ([''--show'', showPath] @ [''--to'', ssa_To p]))"

section \<open>Scenes, blends, presets, chases and the programmer\<close>

definition buildSceneCreateArgs :: builder where
  "buildSceneCreateArgs d showPath raw =
     bind_res (decodeParams zeroSceneCreateParams (pd_SceneCreate d) raw) (\<lambda>p.
       Inr ([scr_Name p, ''--bars'', itoa (scr_Bars p)] @ [''--show'', showPath]))"

definition buildSceneLayerSetArgs :: builder where
  "buildSceneLayerSetArgs d showPath raw =
     bind_res (decodeParams zeroSceneLayerSetParams (pd_SceneLayerSet d) raw) (\<lambda>p.
       Inr (appendRepeated (appendRepeated (appendRepeated (appendRepeated ([sls_Scene p, ''--kind'', sls_Kind p] @ given ''--ref'' (sls_Ref p))
            ''--instance'' (sls_Instances p)) ''--pool'' (sls_Pools p)) ''--group'' (sls_Groups p)) ''--fixture'' (sls_FixtureRefs p) @
            (if sls_Disable p then [''--disable''] else []) @ [''--show'', showPath]))"

definition buildSceneReorderArgs :: builder where
  "buildSceneReorderArgs d showPath raw =
     bind_res (decodeParams zeroSceneReorderParams (pd_SceneReorder d) raw) (\<lambda>p.
       Inr ([''--order'', Join '','' (map itoa (sre_Order p))] @ [''--show'', showPath]))"

definition buildBlendCreateArgs :: builder where
  "buildBlendCreateArgs d showPath raw =
     bind_res (decodeParams zeroBlendCreateParams (pd_BlendCreate d) raw) (\<lambda>p.
       Inr ([bcr_Name p, ''--duration-bars'', formatFloat d (bcr_DurationBars p)] @ given ''--curve'' (bcr_Curve p) @ [''--show'', showPath]))"

definition buildPresetRecordArgs :: builder where
  "buildPresetRecordArgs d showPath raw =
     bind_res (decodeParams zeroPresetRecordParams (pd_PresetRecord d) raw) (\<lambda>p.
       Inr ([prc_Name p, ''--kind'', prc_Kind p] @ [''--show'', showPath]))"

definition buildChaseCreateArgs :: builder where
  "buildChaseCreateArgs d showPath raw =
     bind_res (decodeParams zeroChaseCreateParams (pd_ChaseCreate d) raw) (\<lambda>p.
       Inr ([ccr_Name p, ''--unit'', ccr_Unit p, ''--step-duration'', formatFloat d (ccr_StepDuration p)] @ [''--show'', showPath]))"

definition buildChaseUpdateArgs :: builder where
  "buildChaseUpdateArgs d showPath raw =
     bind_res (decodeParams zeroChaseUpdateParams (pd_ChaseUpdate d) raw) (\<lambda>p.
       Inr ([cup_Name p] @ given ''--name'' (cup_NewName p) @ given ''--unit'' (cup_Unit p) @
            (case cup_StepDuration p of None \<Rightarrow> [] | Some x \<Rightarrow> [''--step-duration'', formatFloat d x]) @ [''--show'', showPath]))"

definition buildChaseReorderArgs :: builder where
  "buildChaseReorderArgs d showPath raw =
     bind_res (decodeParams zeroChaseReorderParams (pd_ChaseReorder d) raw) (\<lambda>p.
       Inr ([cre_Name p, ''--order'', Join '','' (map itoa (cre_Order p))] @ [''--show'', showPath]))"

definition buildProgrammerSetArgs :: builder where
  "buildProgrammerSetArgs d showPath raw =
     bind_res (decodeParams zeroProgrammerSetParams (pd_ProgrammerSet d) raw) (\<lambda>p.
       Inr (appendRepeated (appendRepeated (appendRepeated (appendRepeated (appendRepeated [] ''--instance'' (prs_Instances p)) ''--pool'' (prs_Pools p))
            ''--group'' (prs_Groups p)) ''--fixture'' (prs_FixtureRefs p)) ''--attr'' (prs_Attrs p) @ [''--show'', showPath]))"

section \<open>Playback and operator surfaces\<close>

definition buildPlaybackBPMSetArgs :: builder where
  "buildPlaybackBPMSetArgs d showPath raw =
     bind_res (decodeParams zeroPlaybackBPMSetParams (pd_PlaybackBPMSet d) raw) (\<lambda>p.
       Inr (formatFloat d (pbs_BPM p) # [''--show'', showPath]))"

definition buildPlaybackBPMTapArgs :: builder where
  "buildPlaybackBPMTapArgs d showPath raw =
     bind_res (decodeParams zeroPlaybackBPMTapParams (pd_PlaybackBPMTap d) raw) (\<lambda>p.
       Inr (appendRepeated [] ''--at'' (pbt_At p) @ [''--show'', showPath]))"

definition buildPlaybackSwitchArgs :: builder where
  "buildPlaybackSwitchArgs d showPath raw =
     bind_res (decodeParams zeroPlaybackSwitchParams (pd_PlaybackSwitch d) raw) (\<lambda>p.
       Inr (psw_Scene p # [''--show'', showPath]))"

definition buildOperatorSurfaceSurfaceArgs :: builder where
  "buildOperatorSurfaceSurfaceArgs d showPath raw =
     bind_res (decodeParams zeroOperatorSurfaceSurfaceParams (pd_OperatorSurfaceSurface d) raw) (\<lambda>p.
       Inr ([''--surface'', oss_Surface p] @ [''--show'', showPath]))"

definition buildOperatorSurfaceAssignArgs :: builder where
  "buildOperatorSurfaceAssignArgs d showPath raw =
     bind_res (decodeParams zeroOperatorSurfaceAssignParams (pd_OperatorSurfaceAssign d) raw) (\<lambda>p.
       Inr ([''--surface'', osa_Surface p] @
            (if osa_Scene p \<noteq> [] then [''--scene'', osa_Scene p]
             else if osa_Layer p \<noteq> [] then [''--layer'', osa_Layer p]
             else if osa_Master p \<noteq> [] then [''--master'', osa_Master p]
             else given ''--safety'' (osa_Safety p)) @ [''--show'', showPath]))"

section \<open>Art-Net\<close>

definition buildArtnetStatusArgs :: builder where
  "buildArtnetStatusArgs d showPath raw =
     bind_res (decodeParams zeroArtnetStatusParams (pd_ArtnetStatus d) raw) (\<lambda>p.
       Inr (''--json'' # given ''--pipe'' (ast_Pipe p)))"

definition buildArtnetInterfaceListArgs :: builder where
  "buildArtnetInterfaceListArgs d showPath raw =
     bind_res (decodeParams zeroArtnetInterfaceListParams (pd_ArtnetInterfaceList d) raw) (\<lambda>p.
       Inr (''--json'' # given ''--pipe'' (ail_Pipe p)))"

definition buildArtnetDiscoverArgs :: builder where
  "buildArtnetDiscoverArgs d showPath raw =
     bind_res (decodeParams zeroArtnetDiscoverParams (pd_ArtnetDiscover d) raw) (\<lambda>p.
       Inr ([''--interface'', itoa (adi_Interface p), ''--json''] @ given ''--window'' (adi_Window p)))"

definition buildArtnetConfigureArgs :: builder where
  "buildArtnetConfigureArgs d showPath raw =
     bind_res (decodeParams zeroArtnetConfigureParams (pd_ArtnetConfigure d) raw) (\<lambda>p.
       Inr ([''--universe'', itoa (aco_Universe p), ''--ip'', aco_IP p] @
            (if aco_Port p \<noteq> 0 then [''--port'', itoa (aco_Port p)] else []) @
            [''--enabled'', FormatBool (aco_Enabled p)] @ given ''--pipe'' (aco_Pipe p)))"

definition buildArtnetTargetArgs :: builder where
  "buildArtnetTargetArgs d showPath raw =
     bind_res (decodeParams zeroArtnetTargetParams (pd_ArtnetTarget d) raw) (\<lambda>p.
       Inr ([''--universe'', itoa (ata_Universe p), ''--ip'', ata_IP p] @
            (if ata_Port p \<noteq> 0 then [''--port'', itoa (ata_Port p)] else []) @ given ''--pipe'' (ata_Pipe p)))"

definition buildArtnetSafetyArgs :: builder where
  "buildArtnetSafetyArgs d showPath raw =
     bind_res (decodeParams zeroArtnetSafetyParams (pd_ArtnetSafety d) raw) (\<lambda>p.
       Inr ([''--on'', FormatBool (asa_On p)] @ given ''--pipe'' (asa_Pipe p)))"

definition buildArtnetMasterSetArgs :: builder where
  "buildArtnetMasterSetArgs d showPath raw =
     bind_res (decodeParams zeroArtnetMasterSetParams (pd_ArtnetMasterSet d) raw) (\<lambda>p.
       Inr ((if ams_Group p \<noteq> [] then [''--group'', ams_Group p, ''--level'', formatFloat d (ams_Level p)]
             else [''--grand'', formatFloat d (ams_Grand p)]) @ given ''--pipe'' (ams_Pipe p)))"

definition buildArtnetDeskSetArgs :: builder where
  "buildArtnetDeskSetArgs d showPath raw =
     bind_res (decodeParams zeroArtnetDeskSetParams (pd_ArtnetDeskSet d) raw) (\<lambda>p.
       Inr ([''--instance'', ads_Instance p, ''--attr'', ads_Attr p] @ given ''--pipe'' (ads_Pipe p)))"

definition buildArtnetDeskClearArgs :: builder where
  "buildArtnetDeskClearArgs d showPath raw =
     bind_res (decodeParams zeroArtnetDeskClearParams (pd_ArtnetDeskClear d) raw) (\<lambda>p.
       Inr ([''--instance'', adc_Instance p] @ given ''--attr'' (adc_Attr p) @ given ''--pipe'' (adc_Pipe p)))"

definition buildArtnetDeskClearAllArgs :: builder where
  "buildArtnetDeskClearAllArgs d showPath raw =
     bind_res (decodeParams zeroArtnetDeskClearAllParams (pd_ArtnetDeskClearAll d) raw) (\<lambda>p.
       Inr (given ''--pipe'' (ada_Pipe p)))"

section \<open>Fixtures and API keys\<close>

definition buildFixtureFileArgs :: builder where
  "buildFixtureFileArgs d showPath raw =
     bind_res (decodeParams zeroFixtureFileParams (pd_FixtureFile d) raw) (\<lambda>p.
       Inr ([ffi_File p]))"

definition buildFixtureImportArgs :: builder where
  "buildFixtureImportArgs d showPath raw =
     bind_res (decodeParams zeroFixtureImportParams (pd_FixtureImport d) raw) (\<lambda>p.
       Inr ((if fim_OFL p \<noteq> [] then [''--ofl'', fim_OFL p] else given ''--ofl-file'' (fim_OFLFile p)) @
            given ''--mirror'' (fim_Mirror p) @ (if fim_AllowMirror p then [''--allow-mirror''] else []) @ [''--out'', fim_Out p]))"

definition buildAPIKeyCreateArgs :: builder where
  "buildAPIKeyCreateArgs d showPath raw =
     bind_res (decodeParams zeroAPIKeyCreateParams (pd_APIKeyCreate d) raw) (\<lambda>p.
       Inr ([''--scope'', Join '','' (akc_Scopes p), ''--expires'', akc_Expires p] @ [''--show'', showPath] @ [''--json'']))"

definition buildAPIKeyListArgs :: builder where
  "buildAPIKeyListArgs d showPath raw =
     bind_res (decodeParams zeroAPIKeyListParams (pd_APIKeyList d) raw) (\<lambda>p.
       Inr ([''--show'', showPath] @ [''--json'']))"

definition buildAPIKeyRevokeArgs :: builder where
  "buildAPIKeyRevokeArgs d showPath raw =
     bind_res (decodeParams zeroAPIKeyRevokeParams (pd_APIKeyRevoke d) raw) (\<lambda>p.
       Inr ([''--id'', akr_ID p] @ [''--show'', showPath] @ (if akr_JSONOutput p then [''--json''] else [])))"

section \<open>The table of builders\<close>

definition routeArgvBuilders :: "(string \<times> builder) list" where
  "routeArgvBuilders =
    [(''programmer inspect'', showOnlyArgs),
     (''programmer clear'', showOnlyArgs),
     (''show save'', showOnlyArgs),
     (''show diagnose'', showOnlyArgs),
     (''show export'', showOnlyArgs),
     (''deployment create'', nameShowArgs),
     (''deployment activate'', nameShowArgs),
     (''scene activate'', nameShowArgs),
     (''theme create'', nameShowArgs),
     (''motion create'', nameShowArgs),
     (''operatorsurface create'', nameShowArgs),
     (''scene delete'', nameShowArgs),
     (''theme delete'', nameShowArgs),
     (''preset delete'', nameShowArgs),
     (''chase delete'', nameShowArgs),
     (''motion delete'', nameShowArgs),
     (''pool delete'', nameShowArgs),
     (''deployment delete'', nameShowArgs),
     (''blend delete'', nameShowArgs),
     (''note create'', nameShowArgs),
     (''note show'', nameShowArgs),
     (''note delete'', nameShowArgs),
     (''theme rename'', renameArgs),
     (''preset rename'', renameArgs),
     (''motion rename'', renameArgs),
     (''motion duplicate'', renameArgs),
     (''scene rename'', renameArgs),
     (''scene duplicate'', renameArgs),
     (''chase duplicate'', renameArgs),
     (''pool rename'', renameArgs),
     (''deployment rename'', renameArgs),
     (''blend rename'', renameArgs),
     (''note list'', showOnlyArgs),
     (''pool create'', buildPoolCreateArgs),
     (''pool update'', buildPoolUpdateArgs),
     (''pool apply'', buildPoolApplyArgs),
     (''pool substitute'', buildPoolSubstituteArgs),
     (''deployment instance reassign'', buildDeploymentInstanceReassignArgs),
     (''note edit'', buildNoteEditArgs),
     (''show inspect'', showOnlyArgs),
     (''show open'', buildShowOpenArgs),
     (''show save-as'', buildShowSaveAsArgs),
     (''scene create'', buildSceneCreateArgs),
     (''scene layer set'', buildSceneLayerSetArgs),
     (''scene reorder'', buildSceneReorderArgs),
     (''blend create'', buildBlendCreateArgs),
     (''preset record'', buildPresetRecordArgs),
     (''chase create'', buildChaseCreateArgs),
     (''chase update'', buildChaseUpdateArgs),
     (''chase reorder'', buildChaseReorderArgs),
     (''programmer set'', buildProgrammerSetArgs),
     (''playback bpm set'', buildPlaybackBPMSetArgs),
     (''playback bpm tap'', buildPlaybackBPMTapArgs),
     (''playback switch'', buildPlaybackSwitchArgs),
     (''operatorsurface list'', showOnlyArgs),
     (''operatorsurface show'', buildOperatorSurfaceSurfaceArgs),
     (''operatorsurface remove'', buildOperatorSurfaceSurfaceArgs),
     (''operatorsurface assign'', buildOperatorSurfaceAssignArgs),
     (''operatorsurface unassign'', buildOperatorSurfaceAssignArgs),
     (''artnet status'', buildArtnetStatusArgs),
     (''artnet interface list'', buildArtnetInterfaceListArgs),
     (''artnet discover'', buildArtnetDiscoverArgs),
     (''artnet configure'', buildArtnetConfigureArgs),
     (''artnet target enable'', buildArtnetTargetArgs),
     (''artnet target disable'', buildArtnetTargetArgs),
     (''artnet master set'', buildArtnetMasterSetArgs),
     (''artnet desk set'', buildArtnetDeskSetArgs),
     (''artnet desk clear'', buildArtnetDeskClearArgs),
     (''artnet desk clear-all'', buildArtnetDeskClearAllArgs),
     (''artnet safety blackout'', buildArtnetSafetyArgs),
     (''artnet safety stop-all'', buildArtnetSafetyArgs),
     (''artnet safety revoke-automation'', buildArtnetSafetyArgs),
     (''fixture validate'', buildFixtureFileArgs),
     (''fixture inspect'', buildFixtureFileArgs),
     (''fixture import'', buildFixtureImportArgs),
     (''api-key create'', buildAPIKeyCreateArgs),
     (''api-key list'', buildAPIKeyListArgs),
     (''api-key revoke'', buildAPIKeyRevokeArgs)]"

definition buildRouteArgs :: "ParamDecoders \<Rightarrow> string \<Rightarrow> string \<Rightarrow> string \<Rightarrow> string list result" where
  "buildRouteArgs d route showPath raw =
     (case map_of routeArgvBuilders route of
        None \<Rightarrow> Inl (Code ''GOLC_SCRIPT_ROUTE_UNSUPPORTED'')
      | Some builder \<Rightarrow> builder d showPath raw)"

text \<open>Every method of the registry has a builder, and there is no other.\<close>
lemma builders_complete: "set (map fst routeArgvBuilders) = set sdk_routes"
  unfolding routeArgvBuilders_def sdk_routes_def sdkMethodTable_def by auto

lemma builder_of_method: "method_of route \<noteq> None \<longleftrightarrow> map_of routeArgvBuilders route \<noteq> None"
proof -
  have "method_of route \<noteq> None \<longleftrightarrow> route \<in> set sdk_routes" unfolding method_of_def sdk_routes_def
    using find_by_None_iff [of fst route sdkMethodTable] by auto
  then show ?thesis using builders_complete by (metis list.set_map map_of_eq_None_iff)
qed

end
