(* ===== verification/ScriptValidate.thy ===== *)
theory ScriptValidate
  imports EventStream
begin

text \<open>
  \<open>src/internal/script/validate.go\<close>, \<open>diagnostics.go\<close>, \<open>stacktrace.go\<close> and the command lines of \<open>host.go\<close>: a script's source is
  refused when it is too long or mentions \<open>import\<close> or \<open>export\<close> outside comments and string literals, and only then
  type-checked by Deno, whose messages are mapped back to the author's lines.

  The regular expressions are written as the functions they compute on one line.  Deno, the temporary directory and the
  files are the fields of a \<open>CheckEnv\<close>; the injected runtime shim is a parameter.  Indexing or slicing an empty stack is a
  panic, the value \<open>None\<close>.
\<close>

section \<open>diagnostics.go\<close>

record Diagnostic =
  dg_Code :: string
  dg_Message :: string
  dg_Line :: int
  dg_Column :: int
  dg_Severity :: string

record ValidationResult =
  vr_ScriptName :: string
  vr_Diagnostics :: "Diagnostic list"
  vr_Valid :: bool

definition diagnostic_less :: "Diagnostic \<Rightarrow> Diagnostic \<Rightarrow> bool" where
  "diagnostic_less a b =
     (if dg_Line a \<noteq> dg_Line b then dg_Line a < dg_Line b
      else if dg_Column a \<noteq> dg_Column b then dg_Column a < dg_Column b
      else dg_Code a < dg_Code b)"

definition sortDiagnostics :: "Diagnostic list \<Rightarrow> Diagnostic list" where
  "sortDiagnostics ds = sort_slice diagnostic_less ds"

section \<open>The gates of validate.go\<close>

definition maxScriptSourceBytes :: nat where "maxScriptSourceBytes = 1048576"
definition checkOutputBudget :: nat where "checkOutputBudget = 65536"

definition checkSourceSize :: "string \<Rightarrow> Diagnostic list" where
  "checkSourceSize source =
     (if length source \<le> maxScriptSourceBytes then []
      else [\<lparr>dg_Code = ''GOLC_SCRIPT_SOURCE_TOO_LARGE'',
        dg_Message = ''script source is '' @ itoa (int (length source)) @ '' bytes, exceeding the '' @
          itoa (int maxScriptSourceBytes) @ '' byte validation maximum'',
        dg_Line = 1, dg_Column = 1, dg_Severity = ''error''\<rparr>])"

abbreviation nl :: char where "nl \<equiv> CHR 0x0A"

datatype strip_mode = ModeNormal | ModeLineComment | ModeBlockComment | ModeSingleQuote | ModeDoubleQuote | ModeTemplateRaw

datatype template_kind = KindRaw | KindSub

text \<open>The stack of template literals, the innermost first: its kind and its depth of braces.\<close>
type_synonym templateFrame = "template_kind \<times> nat"

definition blank :: "char \<Rightarrow> string" where
  "blank c = (if c = nl then [nl] else '' '')"

text \<open>
  One turn of the scanning loop at a character and the text after it: whether the next character is taken too, what is
  written, and the mode and stack afterwards.  A quoted string skips one escaped character unread, and ends at the quote or
  at the end of the line.
\<close>
fun strip_step :: "strip_mode \<Rightarrow> templateFrame list \<Rightarrow> char \<Rightarrow> string \<Rightarrow> (bool \<times> string \<times> strip_mode \<times> templateFrame list) option" where
  "strip_step ModeNormal stack c r =
     (if c = CHR ''/'' \<and> r \<noteq> [] \<and> hd r = CHR ''/'' then Some (True, ''  '', ModeLineComment, stack)
      else if c = CHR ''/'' \<and> r \<noteq> [] \<and> hd r = CHR ''*'' then Some (True, ''  '', ModeBlockComment, stack)
      else if c = CHR 0x27 then Some (False, '' '', ModeSingleQuote, stack)
      else if c = CHR 0x22 then Some (False, '' '', ModeDoubleQuote, stack)
      else if c = CHR 0x60 then Some (False, '' '', ModeTemplateRaw, (KindRaw, 0) # stack)
      else case stack of
          (KindSub, depth) # frames \<Rightarrow>
            if c = CHR 0x7B then Some (False, [c], ModeNormal, (KindSub, Suc depth) # frames)
            else if c = CHR 0x7D then
              (if depth > 0 then Some (False, [c], ModeNormal, (KindSub, depth - 1) # frames)
               else Some (False, '' '', ModeTemplateRaw, (KindRaw, depth) # frames))
            else Some (False, [c], ModeNormal, stack)
        | _ \<Rightarrow> Some (False, [c], ModeNormal, stack))"
| "strip_step ModeLineComment stack c r = Some (False, blank c, if c = nl then ModeNormal else ModeLineComment, stack)"
| "strip_step ModeBlockComment stack c r =
     (if c = CHR ''*'' \<and> r \<noteq> [] \<and> hd r = CHR ''/'' then Some (True, ''  '', ModeNormal, stack)
      else Some (False, blank c, ModeBlockComment, stack))"
| "strip_step ModeSingleQuote stack c r =
     (if c = CHR 0x5C \<and> r \<noteq> [] then Some (True, ''  '', ModeSingleQuote, stack)
      else if c = CHR 0x27 then Some (False, '' '', ModeNormal, stack)
      else Some (False, blank c, if c = nl then ModeNormal else ModeSingleQuote, stack))"
| "strip_step ModeDoubleQuote stack c r =
     (if c = CHR 0x5C \<and> r \<noteq> [] then Some (True, ''  '', ModeDoubleQuote, stack)
      else if c = CHR 0x22 then Some (False, '' '', ModeNormal, stack)
      else Some (False, blank c, if c = nl then ModeNormal else ModeDoubleQuote, stack))"
| "strip_step ModeTemplateRaw stack c r =
     (if c = CHR 0x5C \<and> r \<noteq> [] then Some (True, ''  '', ModeTemplateRaw, stack)
      else if c = CHR 0x60 then (case stack of [] \<Rightarrow> None | _ # frames \<Rightarrow> Some (False, '' '', ModeNormal, frames))
      else if c = CHR ''$'' \<and> r \<noteq> [] \<and> hd r = CHR 0x7B then
        (case stack of [] \<Rightarrow> None | (_, depth) # frames \<Rightarrow> Some (True, ''  '', ModeNormal, (KindSub, depth) # frames))
      else Some (False, blank c, ModeTemplateRaw, stack))"

function strip :: "strip_mode \<Rightarrow> templateFrame list \<Rightarrow> string \<Rightarrow> string option" where
  "strip mode stack [] = Some []"
| "strip mode stack (c # r) =
     (case strip_step mode stack c r of
        None \<Rightarrow> None
      | Some (two, out, mode', stack') \<Rightarrow> map_option ((@) out) (strip mode' stack' (if two then tl r else r)))"
  by pat_completeness auto
termination by (relation "measure (\<lambda>(mode, stack, s). length s)") auto

definition stripCommentsAndStringLiterals :: "string \<Rightarrow> string option" where
  "stripCommentsAndStringLiterals source = strip ModeNormal [] source"

text \<open>\<open>\b(import|export)\b\<close>: the matches in a line, each with the offset at which it starts.\<close>
definition is_word :: "char \<Rightarrow> bool" where
  "is_word c = (let n = of_char c :: nat in (48 \<le> n \<and> n \<le> 57) \<or> (65 \<le> n \<and> n \<le> 90) \<or> (97 \<le> n \<and> n \<le> 122) \<or> n = 95)"

definition token_here :: "string \<Rightarrow> string option" where
  "token_here s =
     (if HasPrefix s ''import'' \<and> \<not> (drop 6 s \<noteq> [] \<and> is_word (hd (drop 6 s))) then Some ''import''
      else if HasPrefix s ''export'' \<and> \<not> (drop 6 s \<noteq> [] \<and> is_word (hd (drop 6 s))) then Some ''export''
      else None)"

fun findTokens :: "bool \<Rightarrow> nat \<Rightarrow> string \<Rightarrow> (nat \<times> string \<times> string) list" where
  "findTokens after_word i [] = []"
| "findTokens after_word i (c # r) =
     (case (if after_word then None else token_here (c # r)) of
        Some token \<Rightarrow> [(i, token, drop 6 (c # r))]
      | None \<Rightarrow> []) @ findTokens (is_word c) (Suc i) r"

definition forbiddenModuleDiagnostic :: "string \<Rightarrow> string \<Rightarrow> int \<Rightarrow> int \<Rightarrow> Diagnostic" where
  "forbiddenModuleDiagnostic token rest line column =
     \<lparr>dg_Code = ''GOLC_SCRIPT_IMPORT_FORBIDDEN'',
      dg_Message =
        (if token = ''export'' then
           ''export declarations are forbidden: a script is a single ambient-global consumer, never a module another file could import''
         else
           (if HasPrefix (dropWhile (\<lambda>c. c = CHR '' '' \<or> c = CHR 0x09) rest) ''('' then ''dynamic import(...) expressions are forbidden: the GOLC SDK is available as the ''
            else ''import statements are forbidden: the GOLC SDK is available as the '') @
           ''ambient '' @ [CHR 0x60] @ ''golc'' @ [CHR 0x60] @ '' global and no module specifier is needed or permitted''),
      dg_Line = line, dg_Column = column, dg_Severity = ''error''\<rparr>"

definition lineDiagnostics :: "nat \<Rightarrow> string \<Rightarrow> Diagnostic list" where
  "lineDiagnostics lineNumber line =
     map (\<lambda>(i, token, rest). forbiddenModuleDiagnostic token rest (int lineNumber) (int i + 1)) (findTokens False 0 line)"

definition checkForbiddenModuleSyntax :: "string \<Rightarrow> Diagnostic list option" where
  "checkForbiddenModuleSyntax source =
     map_option (\<lambda>cleaned. sortDiagnostics (concat (map (\<lambda>(lineIndex, line). lineDiagnostics (lineIndex + 1) line)
         (enumerate 0 (Split nl cleaned)))))
       (stripCommentsAndStringLiterals source)"

section \<open>Deno's diagnostics\<close>

definition shimLineOffsetFor :: "string \<Rightarrow> int" where
  "shimLineOffsetFor shim = int (length (filter (\<lambda>c. c = nl) shim)) + 1"

definition buildDenoCheckArgs :: "string \<Rightarrow> string list" where
  "buildDenoCheckArgs scriptPath = [''check'', ''--no-remote'', scriptPath]"

text \<open>\<open>\s\<close> of the regular expressions.\<close>
definition re_space :: "char \<Rightarrow> bool" where
  "re_space c = (let n = of_char c :: nat in n = 9 \<or> n = 10 \<or> n = 12 \<or> n = 13 \<or> n = 32)"

text \<open>\<open>^(?:error: )?TS\d+ \[(?:ERROR|WARN)\]:\s*(.*)$\<close>\<close>
definition denoCheckHeader :: "string \<Rightarrow> string option" where
  "denoCheckHeader line =
     (case CutPrefix (TrimPrefix line ''error: '') ''TS'' of
        None \<Rightarrow> None
      | Some s \<Rightarrow>
          if s = [] \<or> \<not> is_digit (hd s) then None
          else
            let t = dropWhile is_digit s in
            case CutPrefix t '' [ERROR]:'' of
              Some u \<Rightarrow> Some (dropWhile re_space u)
            | None \<Rightarrow> map_option (dropWhile re_space) (CutPrefix t '' [WARN]:''))"

text \<open>A trailing \<open>:LINE:COLUMN\<close>: what stands before it, and the two numbers as written.\<close>
definition cutLocation :: "string \<Rightarrow> (string \<times> string \<times> string) option" where
  "cutLocation s =
     (let r = rev s; column = takeWhile is_digit r; r1 = dropWhile is_digit r in
      if column = [] \<or> r1 = [] \<or> hd r1 \<noteq> CHR '':'' then None
      else
        let line = takeWhile is_digit (tl r1); r2 = dropWhile is_digit (tl r1) in
        if line = [] \<or> r2 = [] \<or> hd r2 \<noteq> CHR '':'' then None else Some (rev (tl r2), rev line, rev column))"

text \<open>What follows \<open>at\<close> and white space, which \<open>^\s*at\s+(.+)$\<close> captures.\<close>
definition afterAt :: "string \<Rightarrow> string option" where
  "afterAt line =
     (case CutPrefix (dropWhile re_space line) ''at'' of
        None \<Rightarrow> None
      | Some t \<Rightarrow> if t = [] \<or> \<not> re_space (hd t) \<or> tl t = [] then None else Some (tl t))"

text \<open>\<open>^\s*at\s+.+:(\d+):(\d+)\s*$\<close>\<close>
definition denoCheckLocation :: "string \<Rightarrow> (string \<times> string) option" where
  "denoCheckLocation line =
     (case cutLocation (rev (dropWhile re_space (rev line))) of
        None \<Rightarrow> None
      | Some (before, l, c) \<Rightarrow> (case afterAt before of None \<Rightarrow> None | Some _ \<Rightarrow> Some (l, c)))"

text \<open>\<open>strconv.Atoi\<close> with the error ignored: the nearest representable value.\<close>
definition atoi_saturated :: "string \<Rightarrow> int" where
  "atoi_saturated digits = (case ParseInt digits of Some v \<Rightarrow> v | None \<Rightarrow> max_int64)"

record check_state =
  ck_diagnostics :: "Diagnostic list"
  ck_pending :: "string list option"

definition flushPending :: "int \<Rightarrow> int \<Rightarrow> int \<Rightarrow> check_state \<Rightarrow> check_state" where
  "flushPending shimLineOffset rawLine rawColumn st =
     (case ck_pending st of
        None \<Rightarrow> st
      | Some pendingLines \<Rightarrow>
          let message = trim_space (Join '' '' pendingLines); userLine = wrap64 (rawLine - shimLineOffset) in
          \<lparr>ck_diagnostics = ck_diagnostics st @
             [if userLine < 1 then
                \<lparr>dg_Code = ''GOLC_SCRIPT_SDK_SHIM_ERROR'', dg_Message = message, dg_Line = rawLine, dg_Column = rawColumn, dg_Severity = ''error''\<rparr>
              else
                \<lparr>dg_Code = ''GOLC_SCRIPT_TYPECHECK_FAILED'', dg_Message = message, dg_Line = userLine, dg_Column = rawColumn, dg_Severity = ''error''\<rparr>],
           ck_pending = None\<rparr>)"

definition checkLine :: "int \<Rightarrow> string \<Rightarrow> check_state \<Rightarrow> check_state" where
  "checkLine shimLineOffset line st =
     (case denoCheckHeader line of
        Some message \<Rightarrow> st\<lparr>ck_pending := Some [message]\<rparr>
      | None \<Rightarrow>
          (case denoCheckLocation line of
             Some (l, c) \<Rightarrow> flushPending shimLineOffset (atoi_saturated l) (atoi_saturated c) st
           | None \<Rightarrow>
               (case ck_pending st of
                  None \<Rightarrow> st
                | Some pendingLines \<Rightarrow>
                    let trimmed = trim_space line in
                    if trimmed \<noteq> [] \<and> \<not> HasPrefix trimmed ''^'' then st\<lparr>ck_pending := Some (pendingLines @ [trimmed])\<rparr> else st)))"

definition parseDenoCheckDiagnostics :: "string \<Rightarrow> int \<Rightarrow> Diagnostic list" where
  "parseDenoCheckDiagnostics text shimLineOffset =
     sortDiagnostics (ck_diagnostics (fold (checkLine shimLineOffset) (Split nl text) \<lparr>ck_diagnostics = [], ck_pending = None\<rparr>))"

definition redactLines :: "string \<Rightarrow> string" where
  "redactLines text = Join [nl] (map Redact (Split nl text))"

section \<open>Validate\<close>

text \<open>\<open>boundedBuffer\<close>: the trailing bytes of what was written.\<close>
definition bounded_write :: "nat \<Rightarrow> string \<Rightarrow> string \<Rightarrow> string" where
  "bounded_write limit data p = keep_last limit (data @ p)"

record CheckEnv =
  ce_deno :: "string result"
  ce_temp_dir :: "string option"
  ce_write_source :: bool
  ce_sdk_types :: "string option"
  ce_write_types :: bool
  ce_write_config :: bool
  ce_check :: "string \<Rightarrow> string \<Rightarrow> string list \<times> string list \<times> bool"

text \<open>\<open>ce_check deno source\<close>: the pieces written to standard output and to standard error, and whether the process failed.
  The second component says whether it was spawned.\<close>
definition Validate :: "CheckEnv \<Rightarrow> string \<Rightarrow> Script \<Rightarrow> (ValidationResult result \<times> bool) option" where
  "Validate env shim s =
     (let res = \<lparr>vr_ScriptName = script_Name s, vr_Diagnostics = [], vr_Valid = False\<rparr>; source = script_Source s in
      if checkSourceSize source \<noteq> [] then Some (Inr (res\<lparr>vr_Diagnostics := checkSourceSize source\<rparr>), False)
      else case checkForbiddenModuleSyntax source of
          None \<Rightarrow> None
        | Some diagnostics \<Rightarrow>
            if diagnostics \<noteq> [] then Some (Inr (res\<lparr>vr_Diagnostics := diagnostics\<rparr>), False)
            else Some (case ce_deno env of
                Inl e \<Rightarrow> (Inl e, False)
              | Inr denoPath \<Rightarrow>
                  if ce_temp_dir env = None then (Inl (Code ''GOLC_SCRIPT_VALIDATE_TEMP_DIR_FAILED''), False)
                  else if \<not> ce_write_source env then (Inl (Code ''GOLC_SCRIPT_VALIDATE_SOURCE_WRITE_FAILED''), False)
                  else if ce_sdk_types env = None then (Inl (Code ''GOLC_SCRIPT_VALIDATE_SDK_TYPES_MISSING''), False)
                  else if \<not> ce_write_types env then (Inl (Code ''GOLC_SCRIPT_VALIDATE_SDK_TYPES_WRITE_FAILED''), False)
                  else if \<not> ce_write_config env then (Inl (Code ''GOLC_SCRIPT_VALIDATE_CONFIG_WRITE_FAILED''), False)
                  else
                    let (outs, errs, runErr) = ce_check env denoPath (shim @ [nl] @ source);
                        combined = redactLines (fold (\<lambda>p b. bounded_write checkOutputBudget b p) outs [] @ [nl] @
                          fold (\<lambda>p b. bounded_write checkOutputBudget b p) errs []);
                        found = parseDenoCheckDiagnostics combined (shimLineOffsetFor shim);
                        all = (if found = [] \<and> runErr then
                            [\<lparr>dg_Code = ''GOLC_SCRIPT_TYPECHECK_FAILED'', dg_Message = trim_space combined, dg_Line = 1, dg_Column = 1,
                              dg_Severity = ''error''\<rparr>]
                          else found)
                    in (Inr (res\<lparr>vr_Diagnostics := sortDiagnostics all, vr_Valid := (sortDiagnostics all = [])\<rparr>), True)))"

section \<open>stacktrace.go\<close>

record StackFrame =
  sf_Function :: string
  sf_File :: string
  sf_Line :: int
  sf_Column :: int

definition shimErrorMarker :: string where "shimErrorMarker = ''GOLC_SCRIPT_SDK_SHIM_ERROR''"

definition correctLine :: "int \<Rightarrow> int \<Rightarrow> int \<times> bool" where
  "correctLine rawLine shimLineCount = (let userLine = wrap64 (rawLine - shimLineCount) in (userLine, userLine < 1))"

text \<open>\<open>strings.LastIndex(rest, " (")\<close>: the text before and after the last occurrence.\<close>
fun cutLastParen :: "string \<Rightarrow> (string \<times> string) option" where
  "cutLastParen [] = None"
| "cutLastParen (c # r) =
     (case cutLastParen r of
        Some (before, after) \<Rightarrow> Some (c # before, after)
      | None \<Rightarrow> if HasPrefix (c # r) '' ('' then Some ([], drop 2 (c # r)) else None)"

definition parseStackFrameLine :: "string \<Rightarrow> int \<Rightarrow> string \<Rightarrow> StackFrame option" where
  "parseStackFrameLine line shimLineCount scriptName =
     (case afterAt line of
        None \<Rightarrow> None
      | Some captured \<Rightarrow>
          let rest = trim_space captured;
              (func, locationSpec) =
                (if rest \<noteq> [] \<and> last rest = CHR '')'' then
                   (case cutLastParen rest of
                      Some (before, after) \<Rightarrow> (trim_space before, if after \<noteq> [] \<and> last after = CHR '')'' then butlast after else after)
                    | None \<Rightarrow> ([], rest))
                 else ([], rest))
          in case cutLocation locationSpec of
              None \<Rightarrow> None
            | Some (_, l, c) \<Rightarrow>
                (case (ParseInt l, ParseInt c) of
                   (Some rawLine, Some rawColumn) \<Rightarrow>
                     let function_name = Redact (if func = [] then ''<anonymous>'' else func);
                         (userLine, inShim) = correctLine rawLine shimLineCount
                     in Some (if inShim then
                           \<lparr>sf_Function = function_name @ '': '' @ shimErrorMarker, sf_File = Redact scriptName, sf_Line = 0, sf_Column = rawColumn\<rparr>
                         else \<lparr>sf_Function = function_name, sf_File = Redact scriptName, sf_Line = userLine, sf_Column = rawColumn\<rparr>)
                 | _ \<Rightarrow> None))"

definition parseStackTrace :: "string \<Rightarrow> int \<Rightarrow> string \<Rightarrow> StackFrame list" where
  "parseStackTrace raw shimLineCount scriptName =
     List.map_filter (\<lambda>line. parseStackFrameLine line shimLineCount scriptName) (Split nl raw)"

section \<open>host.go\<close>

datatype LaunchMode = LaunchModeRun | LaunchModeDebug

definition forbiddenDenoArgPrefixes :: "string list" where
  "forbiddenDenoArgPrefixes = [''--allow-'', ''-A'']"

definition buildDenoArgs :: "string \<Rightarrow> LaunchMode \<Rightarrow> int \<Rightarrow> string list" where
  "buildDenoArgs scriptPath mode debugPort =
     [''run'', ''--no-prompt''] @
     (if mode = LaunchModeDebug then [''--inspect-brk=127.0.0.1:'' @ itoa debugPort] else []) @ [scriptPath]"

section \<open>The scanner returns, and keeps every position\<close>

text \<open>A character of the scanned text is the source's, or blanked.\<close>
definition kept_or_blank :: "char \<Rightarrow> char \<Rightarrow> bool" where
  "kept_or_blank out c \<longleftrightarrow> out = c \<or> out = CHR '' ''"

lemma kept_simps [simp]: "kept_or_blank c c" "kept_or_blank CHR '' '' c" by (simp_all add: kept_or_blank_def)

abbreviation same_newline :: "char \<Rightarrow> char \<Rightarrow> bool" where "same_newline out c \<equiv> (out = nl \<longleftrightarrow> c = nl)"

lemma blank_kept [simp]: "list_all2 kept_or_blank (blank c) [c]" "list_all2 same_newline (blank c) [c]"
  by (simp_all add: blank_def)

text \<open>Line ends stay where they are, unless one is escaped inside a literal.\<close>
definition escaped_newline :: "string \<Rightarrow> bool" where
  "escaped_newline s \<longleftrightarrow> sublist [CHR 0x5C, nl] s"

lemma escaped_newline_Cons: "\<not> escaped_newline (c # r) \<Longrightarrow> \<not> escaped_newline r"
  by (auto simp: escaped_newline_def sublist_Cons_right)

lemma escaped_newline_tl: "\<not> escaped_newline r \<Longrightarrow> \<not> escaped_newline (tl r)"
  by (cases r) (auto dest: escaped_newline_Cons)

lemma escaped_newline_pair: "\<lbrakk>\<not> escaped_newline (CHR 0x5C # r); r \<noteq> []\<rbrakk> \<Longrightarrow> hd r \<noteq> nl"
  by (cases r) (auto simp: escaped_newline_def sublist_Cons_right)

text \<open>What one turn of the loop takes from the text.\<close>
abbreviation taken :: "bool \<Rightarrow> char \<Rightarrow> string \<Rightarrow> string" where
  "taken two c r \<equiv> (if two then [c, hd r] else [c])"

abbreviation stack_ok :: "strip_mode \<Rightarrow> templateFrame list \<Rightarrow> bool" where
  "stack_ok mode stack \<equiv> mode = ModeTemplateRaw \<longrightarrow> stack \<noteq> []"

definition step_ok :: "char \<Rightarrow> string \<Rightarrow> (bool \<times> string \<times> strip_mode \<times> templateFrame list) option \<Rightarrow> bool" where
  "step_ok c r st \<longleftrightarrow> (case st of
     None \<Rightarrow> False
   | Some (two, out, mode', stack') \<Rightarrow> stack_ok mode' stack' \<and> list_all2 kept_or_blank out (taken two c r) \<and> (two \<longrightarrow> r \<noteq> []) \<and>
       (\<not> escaped_newline (c # r) \<longrightarrow> list_all2 same_newline out (taken two c r)))"

lemma step_ok_Some [simp]:
  "step_ok c r (Some (two, out, mode', stack')) \<longleftrightarrow> stack_ok mode' stack' \<and> list_all2 kept_or_blank out (taken two c r) \<and>
     (two \<longrightarrow> r \<noteq> []) \<and> (\<not> escaped_newline (c # r) \<longrightarrow> list_all2 same_newline out (taken two c r))"
  by (simp add: step_ok_def)

lemma step_ok_if [simp]: "step_ok c r (if b then x else y) = (if b then step_ok c r x else step_ok c r y)"
  by simp

lemma strip_step_ok:
  assumes "stack_ok mode stack"
  shows "step_ok c r (strip_step mode stack c r)"
proof (cases mode)
  case ModeNormal
  show ?thesis
  proof (cases stack)
    case Nil
    show ?thesis using ModeNormal Nil by (auto simp: if_split_asm)
  next
    case (Cons f frames)
    obtain k d where "f = (k, d)" by (cases f)
    then show ?thesis using ModeNormal Cons by (cases k) auto
  qed
next
  case ModeTemplateRaw
  then obtain k d frames where "stack = (k, d) # frames" using assms by (cases stack) auto
  then show ?thesis using ModeTemplateRaw by (auto dest: escaped_newline_pair)
qed (auto dest: escaped_newline_pair)

lemma strip_step_some:
  assumes "stack_ok mode stack"
  obtains two out mode' stack' where "strip_step mode stack c r = Some (two, out, mode', stack')" "stack_ok mode' stack'"
    "list_all2 kept_or_blank out (taken two c r)" "two \<Longrightarrow> r \<noteq> []"
    "\<not> escaped_newline (c # r) \<Longrightarrow> list_all2 same_newline out (taken two c r)"
  using strip_step_ok [OF assms, of c r] by (auto simp: step_ok_def split: option.splits)

lemma taken_rest: "\<lbrakk>two \<Longrightarrow> r \<noteq> []\<rbrakk> \<Longrightarrow> c # r = taken two c r @ (if two then tl r else r)"
  by (cases r) auto

lemma strip_total:
  "stack_ok mode stack \<Longrightarrow> \<exists>out. strip mode stack s = Some out \<and> list_all2 kept_or_blank out s \<and>
     (\<not> escaped_newline s \<longrightarrow> list_all2 same_newline out s)"
proof (induction s arbitrary: mode stack rule: length_induct)
  case (1 s)
  show ?case
  proof (cases s)
    case (Cons c r)
    obtain two out mode' stack' where st: "strip_step mode stack c r = Some (two, out, mode', stack')" "stack_ok mode' stack'"
      "list_all2 kept_or_blank out (taken two c r)" "two \<Longrightarrow> r \<noteq> []"
      "\<not> escaped_newline (c # r) \<Longrightarrow> list_all2 same_newline out (taken two c r)"
      using strip_step_some [OF 1(2), where c = c and r = r] by metis
    let ?rest = "if two then tl r else r"
    have "length ?rest < length s" using Cons by (cases r) auto
    then obtain out' where r: "strip mode' stack' ?rest = Some out'" "list_all2 kept_or_blank out' ?rest"
        "\<not> escaped_newline ?rest \<longrightarrow> list_all2 same_newline out' ?rest"
      using 1(1) st(2) by blast
    have s: "s = taken two c r @ ?rest" using taken_rest [OF st(4)] Cons by metis
    have "\<not> escaped_newline s \<Longrightarrow> \<not> escaped_newline ?rest" using Cons by (auto dest: escaped_newline_Cons escaped_newline_tl)
    then have "list_all2 kept_or_blank (out @ out') s" "\<not> escaped_newline s \<longrightarrow> list_all2 same_newline (out @ out') s"
      using st(3,5) r(2,3) Cons by (subst s, blast intro: list_all2_appendI, subst (2) s, blast intro: list_all2_appendI)
    then show ?thesis using Cons st(1) r(1) by simp
  qed simp
qed

section \<open>A diagnostic points at the source\<close>

lemma Split_pointwise:
  assumes "list_all2 R out s" "\<And>a b. R a b \<Longrightarrow> same_newline a b"
  shows "list_all2 (list_all2 R) (Split nl out) (Split nl s)"
  using assms(1)
proof (induction rule: list_all2_induct)
  case (Cons a as b bs)
  then have "a = nl \<longleftrightarrow> b = nl" using assms(2) by blast
  then show ?case using Cons by (auto split: list.splits simp: list_all2_Cons1)
qed simp

lemma findTokens_at:
  "(i, token, rest) \<in> set (findTokens w k line) \<Longrightarrow>
   \<exists>j. i = k + j \<and> j < length line \<and> HasPrefix (drop j line) token \<and> token \<in> {''import'', ''export''}"
proof (induction w k line rule: findTokens.induct)
  case (2 w k c r)
  show ?case
  proof (cases "(i, token, rest) \<in> set (findTokens (is_word c) (Suc k) r)")
    case True
    then obtain j where "i = Suc k + j" "j < length r" "HasPrefix (drop j r) token" "token \<in> {''import'', ''export''}" using 2 by blast
    then show ?thesis by (intro exI [of _ "Suc j"]) simp
  next
    case False
    then have "token_here (c # r) = Some token" "i = k" using 2(2) by (auto split: option.splits if_splits)
    then show ?thesis by (intro exI [of _ 0]) (auto simp: token_here_def split: if_splits)
  qed
qed simp

lemma token_in_source:
  assumes "list_all2 kept_or_blank out s" "HasPrefix out token" "CHR '' '' \<notin> set token"
  shows "HasPrefix s token"
proof -
  obtain t where out: "out = token @ t" using assms(2) by (auto simp: HasPrefix_iff prefix_def)
  then obtain s1 s2 where s: "s = s1 @ s2" "list_all2 kept_or_blank token s1" using assms(1) by (auto simp: list_all2_append1)
  have "s1 = token" using s(2) assms(3) by (induction rule: list_all2_induct) (auto simp: kept_or_blank_def)
  then show ?thesis using s(1) by simp
qed

text \<open>The position of a diagnostic, in the author's own lines.\<close>
definition points_at :: "string \<Rightarrow> Diagnostic \<Rightarrow> string \<Rightarrow> bool" where
  "points_at source d token \<longleftrightarrow> 1 \<le> dg_Line d \<and> nat (dg_Line d) \<le> length (Split nl source) \<and> 1 \<le> dg_Column d \<and>
     HasPrefix (drop (nat (dg_Column d) - 1) (Split nl source ! (nat (dg_Line d) - 1))) token"

lemma gate_positions:
  assumes "\<not> escaped_newline source"
  shows "\<exists>ds. checkForbiddenModuleSyntax source = Some ds \<and> (\<forall>d\<in>set ds. points_at source d ''import'' \<or> points_at source d ''export'')"
proof -
  obtain out where out: "strip ModeNormal [] source = Some out" "list_all2 kept_or_blank out source" "list_all2 same_newline out source"
    using strip_total [of ModeNormal "[]" source] assms by auto
  have "list_all2 (\<lambda>o1 c. kept_or_blank o1 c \<and> same_newline o1 c) out source"
    using out(2,3) by (simp add: list_all2_conv_all_nth)
  then have lines: "list_all2 (list_all2 (\<lambda>o1 c. kept_or_blank o1 c \<and> same_newline o1 c)) (Split nl out) (Split nl source)"
    by (rule Split_pointwise) blast
  let ?ds = "concat (map (\<lambda>(lineIndex, line). lineDiagnostics (lineIndex + 1) line) (enumerate 0 (Split nl out)))"
  have "points_at source d ''import'' \<or> points_at source d ''export''" if d: "d \<in> set ?ds" for d
  proof -
    obtain n line where n: "(n, line) \<in> set (enumerate 0 (Split nl out))" "d \<in> set (lineDiagnostics (n + 1) line)"
      using d unfolding set_concat set_map by (elim UnionE imageE, hypsubst, split prod.splits) blast
    then have nl1: "n < length (Split nl out)" "line = Split nl out ! n" by (auto simp: in_set_enumerate_eq)
    then have src: "list_all2 kept_or_blank line (Split nl source ! n)" "n < length (Split nl source)"
      using lines by (auto simp: list_all2_conv_all_nth)
    obtain i token rest where t: "(i, token, rest) \<in> set (findTokens False 0 line)" "d = forbiddenModuleDiagnostic token rest (int (n + 1)) (int i + 1)"
      using n(2) by (auto simp: lineDiagnostics_def)
    then have i: "HasPrefix (drop i line) token" "token \<in> {''import'', ''export''}" using findTokens_at [OF t(1)] by auto
    have "list_all2 kept_or_blank (drop i line) (drop i (Split nl source ! n))" using src(1) by (rule list_all2_dropI)
    then have "HasPrefix (drop i (Split nl source ! n)) token" using i by (elim token_in_source) auto
    then have "points_at source d token"
      using src(2) t(2) by (simp add: points_at_def forbiddenModuleDiagnostic_def nat_add_distrib)
    then show ?thesis using i(2) by auto
  qed
  then show ?thesis using out(1) by (simp add: checkForbiddenModuleSyntax_def stripCommentsAndStringLiterals_def sortDiagnostics_def)
qed



section \<open>What the gate misses\<close>

text \<open>The apostrophe of a regular expression literal opens a string that hides the import after it.\<close>
lemma regexp_hides_import:
  "checkForbiddenModuleSyntax (''const r = /'' @ [CHR 0x27] @ ''/; await import('' @ [CHR 0x27] @ ''x'' @ [CHR 0x27] @ '')'') = Some []"
  by code_simp

text \<open>A carriage return ends a line comment in TypeScript; the scan reads on to the next line feed.\<close>
lemma carriage_return_hides_import:
  "checkForbiddenModuleSyntax (''// a'' @ [CHR 0x0D] @ ''import b'') = Some []"
  by code_simp

text \<open>A line continuation inside a literal takes a line end away, so what follows is reported one line too early.\<close>
lemma escaped_newline_shifts_lines:
  "map_option (map dg_Line) (checkForbiddenModuleSyntax ([CHR 0x27, CHR 0x5C, nl, CHR 0x27, nl] @ ''import b'')) = Some [2]"
  "Split nl ([CHR 0x27, CHR 0x5C, nl, CHR 0x27, nl] @ ''import b'') ! 2 = ''import b''"
  by code_simp+

section \<open>Nothing is checked that a gate refused\<close>

lemma Validate_returns: "Validate env shim s \<noteq> None"
proof -
  obtain out where "strip ModeNormal [] (script_Source s) = Some out" using strip_total [of ModeNormal "[]" "script_Source s"] by auto
  then obtain ds where "checkForbiddenModuleSyntax (script_Source s) = Some ds"
    by (simp add: checkForbiddenModuleSyntax_def stripCommentsAndStringLiterals_def)
  then show ?thesis unfolding Validate_def Let_def by (cases "checkSourceSize (script_Source s) = []"; cases "ds = []") simp_all
qed

lemma sortDiagnostics_Nil [simp]: "sortDiagnostics ds = [] \<longleftrightarrow> ds = []"
  using sort_slice_length [of diagnostic_less ds] unfolding sortDiagnostics_def by (metis length_0_conv)

text \<open>A subprocess is only spawned for a source that passed both gates, and only such a run can call a script valid.\<close>
lemma Validate_gated:
  assumes "Validate env shim s = Some (r, spawned)"
  shows "spawned \<Longrightarrow> length (script_Source s) \<le> maxScriptSourceBytes \<and> checkForbiddenModuleSyntax (script_Source s) = Some [] \<and>
      (\<exists>denoPath. ce_deno env = Inr denoPath)"
    and "\<lbrakk>r = Inr v; vr_Valid v\<rbrakk> \<Longrightarrow> spawned \<and> vr_Diagnostics v = []"
    and "\<lbrakk>r = Inr v; \<not> vr_Valid v\<rbrakk> \<Longrightarrow> vr_Diagnostics v \<noteq> []"
  using assms by (auto simp: Validate_def Let_def checkSourceSize_def split: if_splits option.splits sum.splits prod.splits)

section \<open>Stack frames and command lines\<close>

lemma frame_positions:
  assumes "f \<in> set (parseStackTrace raw shimLineCount scriptName)"
  shows "sf_File f = Redact scriptName" "0 \<le> sf_Line f"
    "sf_Line f = 0 \<longleftrightarrow> (\<exists>g. clean g \<and> sf_Function f = g @ '': '' @ shimErrorMarker) \<and> sf_Line f = 0"
proof -
  obtain line where l: "parseStackFrameLine line shimLineCount scriptName = Some f"
    using assms by (auto simp: parseStackTrace_def List.map_filter_def)
  show "sf_File f = Redact scriptName" "0 \<le> sf_Line f"
    "sf_Line f = 0 \<longleftrightarrow> (\<exists>g. clean g \<and> sf_Function f = g @ '': '' @ shimErrorMarker) \<and> sf_Line f = 0"
    using l Redact_clean unfolding parseStackFrameLine_def Let_def correctLine_def
    by (auto split: option.splits prod.splits if_splits)
qed

text \<open>No launch mode grants a permission, and only a debug launch opens the inspector.\<close>
lemma deno_args_grant_nothing:
  assumes "\<forall>p\<in>set forbiddenDenoArgPrefixes. \<not> HasPrefix scriptPath p"
  shows "\<forall>arg\<in>set (buildDenoArgs scriptPath mode debugPort). \<forall>p\<in>set forbiddenDenoArgPrefixes. \<not> HasPrefix arg p"
  using assms by (auto simp: buildDenoArgs_def forbiddenDenoArgPrefixes_def HasPrefix_def)

end
