(* ===== verification/ScriptSession.thy ===== *)
theory ScriptSession
  imports ScriptEvents ScriptArgv ScriptValidate
begin

text \<open>
  \<open>src/internal/script/session.go\<close>: one run of a script, from its start to its outcome.  Each call of the child is
  refused, or becomes one command of the host, and is answered once; a run that is being terminated reaches no command any
  more; and every run that began ends with one terminal event.

  What the dispatch meets is a list of events in the order they happen: what the child writes on its two streams, and the
  terminations that other goroutines begin (\<open>Stop\<close> and the memory monitor).  The two goroutines of the code that append to
  the log take turns here.  The executor is a parameter over a world \<open>'w\<close>; \<open>CommandScript\<close> gives it the command registry.
\<close>

section \<open>A run and its termination\<close>

definition maxCapturedLogLines :: nat where "maxCapturedLogLines = 1000"
definition stderrTailBudget :: nat where "stderrTailBudget = 8192"

definition ScriptRunStatusSucceeded :: ScriptRunStatus where "ScriptRunStatusSucceeded = ''succeeded''"
definition ScriptRunStatusFailed :: ScriptRunStatus where "ScriptRunStatusFailed = ''failed''"
definition ScriptRunStatusTerminated :: ScriptRunStatus where "ScriptRunStatusTerminated = ''terminated''"
definition ScriptRunStatusRunning :: ScriptRunStatus where "ScriptRunStatusRunning = ''running''"

text \<open>A debug bridge, a job object, a context: in use, or closed or cancelled.\<close>
datatype resource = Held | Released

record Run =
  run_RunID :: uuid
  run_ScriptName :: string
  run_Profile :: CapabilityProfile
  run_StartedAt :: time
  run_termination :: "TerminationReason option"
  run_cancel :: "resource option"
  run_job :: "resource option"
  run_bridge :: "resource option"

definition beginTermination :: "TerminationReason \<Rightarrow> Run \<Rightarrow> bool \<times> Run" where
  "beginTermination reason r =
     (if run_termination r \<noteq> None then (False, r) else (True, r\<lparr>run_termination := Some reason\<rparr>))"

definition closed :: "resource option \<Rightarrow> resource option" where
  "closed h = map_option (\<lambda>_. Released) h"

definition terminate :: "Run \<Rightarrow> Run" where
  "terminate r = r\<lparr>run_cancel := closed (run_cancel r), run_job := closed (run_job r), run_bridge := closed (run_bridge r)\<rparr>"

definition closeBridge :: "Run \<Rightarrow> Run" where
  "closeBridge r = r\<lparr>run_bridge := closed (run_bridge r)\<rparr>"

section \<open>The runs of the process\<close>

text \<open>\<open>activeRuns.byName\<close>, in the order in which the map is walked; a run is known by its id.\<close>
type_synonym activeRuns = "(string \<times> uuid) list"

definition registerActiveRun :: "string \<Rightarrow> uuid \<Rightarrow> activeRuns \<Rightarrow> activeRuns" where
  "registerActiveRun name runID byName = (name, runID) # filter (\<lambda>entry. fst entry \<noteq> name) byName"

definition deregisterActiveRun :: "string \<Rightarrow> uuid \<Rightarrow> activeRuns \<Rightarrow> activeRuns" where
  "deregisterActiveRun name runID byName =
     (if map_of byName name = Some runID then filter (\<lambda>entry. fst entry \<noteq> name) byName else byName)"

definition ActiveRun :: "activeRuns \<Rightarrow> string \<Rightarrow> uuid option" where
  "ActiveRun byName name = map_of byName name"

definition AnyActiveRun :: "activeRuns \<Rightarrow> uuid option" where
  "AnyActiveRun byName = (case byName of [] \<Rightarrow> None | (_, runID) # _ \<Rightarrow> Some runID)"

section \<open>Outcomes\<close>

record LogLine =
  ll_Level :: string
  ll_Message :: string
  ll_Source :: string

record CallOutcome =
  co_Method :: string
  co_Route :: string
  co_DurationMS :: int
  co_Ok :: bool
  co_Code :: string
  co_Message :: string

record RunOutcome =
  ro_RunID :: uuid
  ro_Status :: ScriptRunStatus
  ro_Reason :: string
  ro_Logs :: "LogLine list"
  ro_Outcomes :: "CallOutcome list"

definition zeroRunOutcome :: RunOutcome where
  "zeroRunOutcome = \<lparr>ro_RunID = 0, ro_Status = [], ro_Reason = [], ro_Logs = [], ro_Outcomes = []\<rparr>"

definition appendBoundedLog :: "LogLine list \<Rightarrow> LogLine \<Rightarrow> LogLine list" where
  "appendBoundedLog ls line =
     (let ls' = ls @ [line] in if length ls' > maxCapturedLogLines then drop (length ls' - maxCapturedLogLines) ls' else ls')"

section \<open>The state and the surroundings of a dispatch\<close>

text \<open>\<open>sn_mutations\<close>: what was handed to \<open>api.PublishMutationEvent\<close>; \<open>sn_written\<close>: the answers that reached the child.\<close>
record ('l, 'w) Session =
  sn_run :: Run
  sn_limiter :: "'l runLimiter option"
  sn_world :: 'w
  sn_bus :: eventBus
  sn_mutations :: "MutationEvent list"
  sn_outcome :: RunOutcome
  sn_stderrTail :: string
  sn_written :: "CmdResultFrame list"

text \<open>\<open>ss_ack\<close> and \<open>ss_json\<close> marshal the two generic results around a text.\<close>
record ('l, 'w) SessionEnv =
  ss_text :: TextEnv
  ss_rate :: "'l RateLib"
  ss_params :: ParamDecoders
  ss_codec :: FrameCodec
  ss_ack :: "string \<Rightarrow> string"
  ss_json :: "string \<Rightarrow> string"
  ss_uuid_text :: "uuid \<Rightarrow> string"
  ss_error_text :: "golc_error \<Rightarrow> string"
  ss_execute :: "string \<Rightarrow> string list \<Rightarrow> string \<Rightarrow> 'w \<Rightarrow> Result \<times> 'w"
  ss_Root :: string
  ss_ShowPath :: string

text \<open>The time of an event, how long its call takes, and the error of writing its answer.\<close>
record Moment =
  mo_now :: time
  mo_ms :: int
  mo_write :: "string option"

section \<open>One call\<close>

definition enforce ::
  "('l, 'w) SessionEnv \<Rightarrow> time \<Rightarrow> SDKMethodDescriptor \<Rightarrow> ('l, 'w) Session \<Rightarrow> TerminationReason option \<times> ('l, 'w) Session" where
  "enforce env now descriptor s =
     (let run = sn_run s;
          (reason, limiter) = Enforce (ss_text env) (ss_rate env) now (run_Profile run) (run_RunID run) (sdm_Route descriptor) (sn_limiter s) in
      (reason, s\<lparr>sn_limiter := limiter,
         sn_run := (case reason of None \<Rightarrow> run | Some r \<Rightarrow> terminate (snd (beginTermination r run)))\<rparr>))"

definition methodDescriptorsByRoute :: "string \<rightharpoonup> SDKMethodDescriptor" where
  "methodDescriptorsByRoute route = find_by sdm_Route route (RegisteredSDKMethods sdkRegistry)"

definition wrapExecutorResult :: "('l, 'w) SessionEnv \<Rightarrow> SDKMethodDescriptor \<Rightarrow> string \<Rightarrow> string" where
  "wrapExecutorResult env descriptor stdout =
     (let text = trim_space stdout in
      case sdm_Result descriptor of
        OfJSONResult \<Rightarrow> ss_json env text
      | OfAPIKeyCreateResult \<Rightarrow> if fc_Valid (ss_codec env) stdout then stdout else ss_ack env text
      | OfAckResult \<Rightarrow> ss_ack env text)"

text \<open>A call that was not executed: the text of the answer, and the one that is recorded.\<close>
definition refuse :: "Moment \<Rightarrow> CmdCallFrame \<Rightarrow> string \<Rightarrow> string \<Rightarrow> string \<Rightarrow> string \<Rightarrow> CmdResultFrame \<times> CallOutcome" where
  "refuse m call route code answer recorded =
     (\<lparr>crf_ID = cc_ID call, crf_Ok = False, crf_Result = [], crf_Code = code, crf_Message = answer\<rparr>,
      \<lparr>co_Method = cc_Method call, co_Route = route, co_DurationMS = mo_ms m, co_Ok = False, co_Code = code, co_Message = recorded\<rparr>)"

definition executeCall ::
  "('l, 'w) SessionEnv \<Rightarrow> Moment \<Rightarrow> CmdCallFrame \<Rightarrow> SDKMethodDescriptor \<Rightarrow> string list \<Rightarrow> ('l, 'w) Session \<Rightarrow>
   (CmdResultFrame \<times> CallOutcome) \<times> ('l, 'w) Session" where
  "executeCall env m call descriptor args s =
     (let route = sdm_Route descriptor; (result, w) = ss_execute env route args (ss_Root env) (sn_world s) in
      (if res_ExitCode result = 0 then
         (\<lparr>crf_ID = cc_ID call, crf_Ok = True, crf_Result = wrapExecutorResult env descriptor (res_Stdout result), crf_Code = [], crf_Message = []\<rparr>,
          \<lparr>co_Method = cc_Method call, co_Route = route, co_DurationMS = mo_ms m, co_Ok = True, co_Code = [], co_Message = []\<rparr>)
       else
         let redacted = Redact (trim_space (res_Stderr result));
             message = (if redacted = [] then
                 ''route '' @ tx_quote (ss_text env) route @ '' failed with exit code '' @ itoa (res_ExitCode result)
               else redacted)
         in refuse m call route ''GOLC_SCRIPT_EXECUTE_FAILED'' message message,
       s\<lparr>sn_world := w\<rparr>))"

definition dispatchCmdCall ::
  "('l, 'w) SessionEnv \<Rightarrow> Moment \<Rightarrow> CmdCallFrame \<Rightarrow> ('l, 'w) Session \<Rightarrow> (CmdResultFrame \<times> CallOutcome) \<times> ('l, 'w) Session" where
  "dispatchCmdCall env m call s =
     (case run_termination (sn_run s) of
        Some reason \<Rightarrow> (refuse m call [] (tr_Code reason) (Redact (tr_Message reason)) (Redact (tr_Message reason)), s)
      | None \<Rightarrow>
          (case methodDescriptorsByRoute (cc_Method call) of
             None \<Rightarrow>
               (let message = ''no SDK method registered for '' @ tx_quote (ss_text env) (cc_Method call) in
                (refuse m call [] ''GOLC_SCRIPT_METHOD_UNKNOWN'' (''GOLC_SCRIPT_METHOD_UNKNOWN: '' @ message) message, s))
           | Some descriptor \<Rightarrow>
               (case enforce env (mo_now m) descriptor s of
                  (Some reason, s1) \<Rightarrow>
                    (refuse m call (sdm_Route descriptor) (tr_Code reason) (Redact (tr_Message reason)) (Redact (tr_Message reason)), s1)
                | (None, s1) \<Rightarrow>
                    (case buildRouteArgs (ss_params env) (sdm_Route descriptor) (ss_ShowPath env) (cc_Params call) of
                       Inl e \<Rightarrow>
                         (let message = Redact (ss_error_text env e) in
                          (refuse m call (sdm_Route descriptor) ''GOLC_SCRIPT_PARAMS_INVALID'' message message, s1))
                     | Inr args \<Rightarrow> executeCall env m call descriptor args s1))))"

definition mutationOutcomeFor :: "bool \<Rightarrow> string" where
  "mutationOutcomeFor ok = (if ok then ''success'' else ''failure'')"

definition mutationStatusCodeFor :: "bool \<Rightarrow> int" where
  "mutationStatusCodeFor ok = (if ok then 200 else 500)"

definition run_event :: "Run \<Rightarrow> ScriptEventKind \<Rightarrow> time \<Rightarrow> ScriptEvent" where
  "run_event run kind now = script_event kind (run_RunID run) (run_ScriptName run) now"

definition outcomeEvent :: "Run \<Rightarrow> time \<Rightarrow> string \<Rightarrow> CallOutcome \<Rightarrow> ScriptEvent" where
  "outcomeEvent run now route outcome =
     (run_event run ScriptEventOutcome now)\<lparr>sc_Message := co_Message outcome, sc_Method := co_Method outcome, sc_Route := route,
        sc_DurationMS := co_DurationMS outcome, sc_Ok := co_Ok outcome, sc_Code := co_Code outcome\<rparr>"

definition mutationOf :: "('l, 'w) SessionEnv \<Rightarrow> Run \<Rightarrow> string \<Rightarrow> CallOutcome \<Rightarrow> MutationEvent" where
  "mutationOf env run route outcome =
     \<lparr>me_Route = route, me_Args = [], me_Actor = ''script:'' @ run_ScriptName run, me_Source = ''script'',
      me_CorrelationID = ss_uuid_text env (run_RunID run), me_ExpectedRevision = None, me_ResultingRevision = None,
      me_Outcome = mutationOutcomeFor (co_Ok outcome), me_StatusCode = mutationStatusCodeFor (co_Ok outcome)\<rparr>"

definition publishCallOutcome :: "('l, 'w) SessionEnv \<Rightarrow> time \<Rightarrow> string \<Rightarrow> CallOutcome \<Rightarrow> ('l, 'w) Session \<Rightarrow> ('l, 'w) Session" where
  "publishCallOutcome env now method outcome s =
     (let route = (if co_Route outcome = [] then method else co_Route outcome) in
      s\<lparr>sn_bus := PublishScriptEvent (outcomeEvent (sn_run s) now route outcome) (sn_bus s),
        sn_mutations := sn_mutations s @ [mutationOf env (sn_run s) route outcome]\<rparr>)"

section \<open>The dispatch loop\<close>

text \<open>The loop reads; or it was left and waits for the other stream to end; or the function returned at once.\<close>
datatype phase = Reading | Draining | Returned

definition log_line :: "Moment \<Rightarrow> LogLine \<Rightarrow> string \<Rightarrow> ('l, 'w) Session \<Rightarrow> ('l, 'w) Session" where
  "log_line m line source s =
     s\<lparr>sn_outcome := (sn_outcome s)\<lparr>ro_Logs := appendBoundedLog (ro_Logs (sn_outcome s)) line\<rparr>,
       sn_bus := PublishScriptEvent ((run_event (sn_run s) ScriptEventLog (mo_now m))\<lparr>sc_Level := ll_Level line,
         sc_Message := ll_Message line, sc_Source := source\<rparr>) (sn_bus s)\<rparr>"

definition fail_run :: "string \<Rightarrow> ('l, 'w) Session \<Rightarrow> ('l, 'w) Session" where
  "fail_run reason s = s\<lparr>sn_outcome := (sn_outcome s)\<lparr>ro_Status := ScriptRunStatusFailed, ro_Reason := reason\<rparr>\<rparr>"

definition answerCall :: "('l, 'w) SessionEnv \<Rightarrow> Moment \<Rightarrow> CmdCallFrame \<Rightarrow> ('l, 'w) Session \<Rightarrow> phase \<times> ('l, 'w) Session" where
  "answerCall env m call s =
     (case dispatchCmdCall env m call s of
        ((result, callOutcome), s1) \<Rightarrow>
          let s2 = publishCallOutcome env (mo_now m) (cc_Method call) callOutcome
                (s1\<lparr>sn_outcome := (sn_outcome s1)\<lparr>ro_Outcomes := ro_Outcomes (sn_outcome s1) @ [callOutcome]\<rparr>\<rparr>) in
          (case fst (EncodeFrame (ss_codec env) (mo_write m) (FrameCmdResult result)) of
             Some e \<Rightarrow> (Returned, fail_run e s2)
           | None \<Rightarrow> (Reading, s2\<lparr>sn_written := sn_written s2 @ [result]\<rparr>)))"

definition handleFrame :: "('l, 'w) SessionEnv \<Rightarrow> Moment \<Rightarrow> Frame \<Rightarrow> ('l, 'w) Session \<Rightarrow> phase \<times> ('l, 'w) Session" where
  "handleFrame env m frame s =
     (case frame of
        FrameReady \<Rightarrow> (Reading, s)
      | FrameLog f \<Rightarrow>
          (Reading, log_line m \<lparr>ll_Level = lf_Level f, ll_Message = Redact (lf_Message f), ll_Source = lf_Source f\<rparr> (lf_Source f) s)
      | FrameDone f \<Rightarrow>
          (Reading, s\<lparr>sn_outcome := (if df_ExitReason f \<noteq> [] then (sn_outcome s)\<lparr>ro_Reason := df_ExitReason f\<rparr> else sn_outcome s),
             sn_run := closeBridge (sn_run s)\<rparr>)
      | FrameCmdCall f \<Rightarrow> answerCall env m f s
      | _ \<Rightarrow> (Returned, fail_run (''GOLC_SCRIPT_PROTOCOL_VIOLATION: unexpected frame kind '' @
            tx_quote (ss_text env) (FrameKind frame) @ '' from child'') s))"

text \<open>One turn of the loop.\<close>
definition readFrame :: "('l, 'w) SessionEnv \<Rightarrow> Moment \<Rightarrow> scan \<Rightarrow> ('l, 'w) Session \<Rightarrow> phase \<times> ('l, 'w) Session" where
  "readFrame env m scanned s =
     (case scanFrameLine scanned of
        (_, Some scanErr) \<Rightarrow> (Draining, fail_run scanErr s)
      | (None, None) \<Rightarrow> (Draining, s)
      | (Some line, None) \<Rightarrow>
          (case DecodeFrame (ss_text env) (ss_codec env) line of
             Inl decodeErr \<Rightarrow> (Draining, fail_run decodeErr s)
           | Inr frame \<Rightarrow> handleFrame env m frame s))"

text \<open>A line of the error stream, or its scanner's error.  After an early return the outcome is no longer the goroutine's
  to change.\<close>
definition captureStderr :: "Moment \<Rightarrow> string \<Rightarrow> phase \<times> ('l, 'w) Session \<Rightarrow> phase \<times> ('l, 'w) Session" where
  "captureStderr m text = (\<lambda>(ph, s).
     let redacted = Redact text;
         s1 = log_line m \<lparr>ll_Level = ''stderr'', ll_Message = redacted, ll_Source = []\<rparr> ''stderr''
           (s\<lparr>sn_stderrTail := bounded_write stderrTailBudget (sn_stderrTail s) (redacted @ [nl])\<rparr>) in
     (ph, if ph = Returned then s1\<lparr>sn_outcome := sn_outcome s\<rparr> else s1))"

text \<open>The last two are what the bridge of a debug run publishes meanwhile: a status of the debugger, or a log line.\<close>
datatype child_event = StdoutScan scan | StderrText string | TerminationBegun TerminationReason | DebugStatus string | DebugLog string string

definition publish_only :: "ScriptEvent \<Rightarrow> ('l, 'w) Session \<Rightarrow> ('l, 'w) Session" where
  "publish_only ev s = s\<lparr>sn_bus := PublishScriptEvent ev (sn_bus s)\<rparr>"

definition publishDebugStatus :: "time \<Rightarrow> string \<Rightarrow> ('l, 'w) Session \<Rightarrow> ('l, 'w) Session" where
  "publishDebugStatus now reason s =
     publish_only ((run_event (sn_run s) ScriptEventStatus now)\<lparr>sc_Status := ScriptRunStatusRunning, sc_Reason := Redact reason\<rparr>) s"

definition publishDebugLog :: "time \<Rightarrow> string \<Rightarrow> string \<Rightarrow> ('l, 'w) Session \<Rightarrow> ('l, 'w) Session" where
  "publishDebugLog now level message s =
     publish_only ((run_event (sn_run s) ScriptEventLog now)\<lparr>sc_Level := level, sc_Message := message, sc_Source := ''debugger''\<rparr>) s"

definition io_step ::
  "('l, 'w) SessionEnv \<Rightarrow> Moment \<times> child_event \<Rightarrow> phase \<times> ('l, 'w) Session \<Rightarrow> phase \<times> ('l, 'w) Session" where
  "io_step env = (\<lambda>(m, ev) (ph, s).
     case ev of
       StdoutScan scanned \<Rightarrow> if ph = Reading then readFrame env m scanned s else (ph, s)
     | StderrText text \<Rightarrow> captureStderr m text (ph, s)
     | TerminationBegun reason \<Rightarrow> (ph, s\<lparr>sn_run := terminate (snd (beginTermination reason (sn_run s)))\<rparr>)
     | DebugStatus reason \<Rightarrow> (ph, publishDebugStatus (mo_now m) reason s)
     | DebugLog level message \<Rightarrow> (ph, publishDebugLog (mo_now m) level message s))"

definition start_outcome :: "Run \<Rightarrow> RunOutcome" where
  "start_outcome run = zeroRunOutcome\<lparr>ro_RunID := run_RunID run, ro_Status := ScriptRunStatusSucceeded\<rparr>"

text \<open>\<open>None\<close>: the child's output has not ended, and the function has not returned.\<close>
definition runDispatchIO ::
  "('l, 'w) SessionEnv \<Rightarrow> (Moment \<times> child_event) list \<Rightarrow> ('l, 'w) Session \<Rightarrow> ('l, 'w) Session option" where
  "runDispatchIO env events s =
     (case fold (io_step env) events (Reading, s\<lparr>sn_outcome := start_outcome (sn_run s), sn_stderrTail := []\<rparr>) of
        (Reading, _) \<Rightarrow> None
      | (Returned, s') \<Rightarrow> Some s'
      | (Draining, s') \<Rightarrow>
          let tail = trim_space (sn_stderrTail s') in
          Some (if ro_Reason (sn_outcome s') = [] \<and> tail \<noteq> [] then s'\<lparr>sn_outcome := (sn_outcome s')\<lparr>ro_Reason := tail\<rparr>\<rparr> else s'))"

section \<open>The run\<close>

definition terminalStatusReason :: "RunOutcome \<Rightarrow> string option \<Rightarrow> ScriptRunStatus \<times> string" where
  "terminalStatusReason result runErr =
     (if ro_Status result = [] then ScriptRunStatusFailed else ro_Status result,
      case runErr of
        Some e \<Rightarrow> if ro_Reason result = [] then e else ro_Reason result
      | None \<Rightarrow> ro_Reason result)"

definition computeTerminalEvent :: "Run \<Rightarrow> time \<Rightarrow> RunOutcome \<Rightarrow> string option \<Rightarrow> ScriptEvent" where
  "computeTerminalEvent run now result runErr =
     (let (status, reason) = terminalStatusReason result runErr in
      (run_event run ScriptEventTerminal now)\<lparr>sc_Status := status, sc_Reason := reason\<rparr>)"

text \<open>\<open>runCtx.Err()\<close> when the child has been waited for.\<close>
datatype context_end = ContextLive | ContextDeadline | ContextCancelled string

text \<open>How the process ended: the context, the error of waiting for it, the time, what had elapsed, and the sampled peak (0
  when nothing could be sampled).\<close>
record Ending =
  en_context :: context_end
  en_wait :: "string option"
  en_now :: time
  en_elapsed :: int
  en_peak :: "64 word"

definition deadlineReason :: "TextEnv \<Rightarrow> CapabilityProfile \<Rightarrow> Ending \<Rightarrow> TerminationReason" where
  "deadlineReason tx profile en =
     (case checkDeadline tx (en_now en) (en_elapsed en) (deadlineFor profile) of
        Some reason \<Rightarrow> reason
      | None \<Rightarrow> \<lparr>tr_Code = ''GOLC_SCRIPT_DEADLINE_EXCEEDED'',
          tr_Message = ''run exceeded its '' @ tx_duration tx (deadlineFor profile) @ '' deadline'', tr_At = en_now en\<rparr>)"

definition classifyEnding :: "TextEnv \<Rightarrow> Run \<Rightarrow> Ending \<Rightarrow> RunOutcome \<Rightarrow> RunOutcome" where
  "classifyEnding tx run en outcome =
     (case run_termination run of
        Some reason \<Rightarrow> outcome\<lparr>ro_Status := ScriptRunStatusTerminated, ro_Reason := TerminationReason_String reason\<rparr>
      | None \<Rightarrow>
          (case en_context en of
             ContextDeadline \<Rightarrow>
               outcome\<lparr>ro_Status := ScriptRunStatusTerminated,
                 ro_Reason := TerminationReason_String (deadlineReason tx (run_Profile run) en)\<rparr>
           | ContextCancelled e \<Rightarrow>
               outcome\<lparr>ro_Status := ScriptRunStatusTerminated, ro_Reason := (if ro_Reason outcome = [] then e else ro_Reason outcome)\<rparr>
           | ContextLive \<Rightarrow>
               (case en_wait en of
                  None \<Rightarrow> outcome
                | Some waitErr \<Rightarrow>
                    let failed = (if ro_Status outcome = ScriptRunStatusSucceeded then
                        outcome\<lparr>ro_Status := ScriptRunStatusFailed, ro_Reason := (if ro_Reason outcome = [] then waitErr else ro_Reason outcome)\<rparr>
                      else outcome) in
                    (case classifyMemoryExhaustion (en_now en) (ro_Reason failed) (en_peak en) (resourceLimitsFor (run_Profile run)) of
                       None \<Rightarrow> failed
                     | Some reason \<Rightarrow> failed\<lparr>ro_Status := ScriptRunStatusTerminated, ro_Reason := TerminationReason_String reason\<rparr>))))"

text \<open>What the process keeps between runs of a host: whether one is running, its limiter, the registry, the bus, what was handed
  to the two seams of the API, and the world of the commands.\<close>
record ('l, 'w) Site =
  si_running :: bool
  si_limiter :: "'l runLimiter option"
  si_active :: activeRuns
  si_bus :: eventBus
  si_lifecycle :: "(string \<times> string \<times> string \<times> string) list"
  si_mutations :: "MutationEvent list"
  si_world :: 'w

datatype job_result = JobAssigned | JobCreateFailed string | JobAssignFailed string

datatype bridge_result = BridgeReady | BridgeFailed string

text \<open>What the operating system answers while a run is started, the events of its dispatch, and how it ends.  An error is
  its text; \<open>la_start\<close> is the first error of opening the pipes and starting the process.\<close>
record Launch =
  la_RunID :: "string + uuid"
  la_StartedAt :: time
  la_temp_dir :: "string option"
  la_write_source :: "string option"
  la_debug_port :: "string + int"
  la_start :: "string option"
  la_job :: job_result
  la_bridge :: bridge_result
  la_events :: "(Moment \<times> child_event) list"
  la_ending :: Ending

definition prepareError :: "LaunchMode \<Rightarrow> Launch \<Rightarrow> string option" where
  "prepareError mode la =
     (case la_temp_dir la of
        Some e \<Rightarrow> Some (''GOLC_SCRIPT_RUN_TEMP_DIR_FAILED: '' @ e)
      | None \<Rightarrow>
          (case la_write_source la of
             Some e \<Rightarrow> Some (''GOLC_SCRIPT_RUN_SOURCE_WRITE_FAILED: '' @ e)
           | None \<Rightarrow>
               (case (if mode = LaunchModeDebug then la_debug_port la else Inr 0) of
                  Inl e \<Rightarrow> Some (''GOLC_SCRIPT_DEBUG_PORT_FAILED: '' @ e)
                | Inr port \<Rightarrow> map_option (\<lambda>e. ''GOLC_SCRIPT_RUN_START_FAILED: '' @ e) (la_start la))))"

definition error_log :: "string \<Rightarrow> LogLine" where
  "error_log text = \<lparr>ll_Level = ''error'', ll_Message = Redact text, ll_Source = []\<rparr>"

definition jobLog :: "job_result \<Rightarrow> LogLine list" where
  "jobLog r = (case r of JobAssigned \<Rightarrow> [] | JobCreateFailed e \<Rightarrow> [error_log (''GOLC_SCRIPT_JOBOBJECT_CREATE_FAILED: '' @ e)]
     | JobAssignFailed e \<Rightarrow> [error_log e])"

definition debugLog :: "LaunchMode \<Rightarrow> bridge_result \<Rightarrow> LogLine list" where
  "debugLog mode r =
     (if mode = LaunchModeDebug then (case r of BridgeReady \<Rightarrow> [] | BridgeFailed e \<Rightarrow> [error_log e]) else [])"

definition newRun :: "uuid \<Rightarrow> Script \<Rightarrow> time \<Rightarrow> Run" where
  "newRun runID target now =
     \<lparr>run_RunID = runID, run_ScriptName = script_Name target, run_Profile = script_CapabilityProfile target, run_StartedAt = now,
      run_termination = None, run_cancel = None, run_job = None, run_bridge = None\<rparr>"

text \<open>The run once its process is supervised.\<close>
definition superviseRun :: "LaunchMode \<Rightarrow> Launch \<Rightarrow> Run \<Rightarrow> Run" where
  "superviseRun mode la run =
     run\<lparr>run_cancel := Some Held, run_job := (if la_job la = JobAssigned then Some Held else None),
         run_bridge := (if mode = LaunchModeDebug \<and> la_bridge la = BridgeReady then Some Held else None)\<rparr>"

text \<open>The first deferred calls: the terminal event on both streams, the registry, the flag of the host.\<close>
definition finishRun ::
  "('l, 'w) SessionEnv \<Rightarrow> Run \<Rightarrow> time \<Rightarrow> RunOutcome \<Rightarrow> string option \<Rightarrow> ('l, 'w) Site \<Rightarrow> (RunOutcome \<times> string option) \<times> ('l, 'w) Site" where
  "finishRun env run now result runErr si =
     (let ev = computeTerminalEvent run now result runErr in
      ((result, runErr),
       si\<lparr>si_active := deregisterActiveRun (run_ScriptName run) (run_RunID run) (si_active si),
          si_bus := PublishScriptEvent ev (si_bus si),
          si_lifecycle := si_lifecycle si @ [(ss_uuid_text env (run_RunID run), run_ScriptName run, sc_Status ev, sc_Reason ev)],
          si_running := False\<rparr>))"

definition startedSite :: "('l, 'w) SessionEnv \<Rightarrow> Run \<Rightarrow> ('l, 'w) Site \<Rightarrow> ('l, 'w) Site" where
  "startedSite env run si =
     si\<lparr>si_running := True, si_active := registerActiveRun (run_ScriptName run) (run_RunID run) (si_active si),
        si_bus := PublishScriptEvent ((run_event run ScriptEventStatus (run_StartedAt run))\<lparr>sc_Status := ScriptRunStatusRunning\<rparr>) (si_bus si),
        si_lifecycle := si_lifecycle si @ [(ss_uuid_text env (run_RunID run), run_ScriptName run, ScriptRunStatusRunning, [])]\<rparr>"

definition session_of :: "Run \<Rightarrow> ('l, 'w) Site \<Rightarrow> ('l, 'w) Session" where
  "session_of run si =
     \<lparr>sn_run = run, sn_limiter = si_limiter si, sn_world = si_world si, sn_bus = si_bus si, sn_mutations = si_mutations si,
      sn_outcome = zeroRunOutcome, sn_stderrTail = [], sn_written = []\<rparr>"

text \<open>\<open>Host.Run\<close>: the outcome, the error and what it leaves behind; \<open>None\<close> when the child never ends its output.\<close>
definition Host_Run ::
  "('l, 'w) SessionEnv \<Rightarrow> Launch \<Rightarrow> LaunchMode \<Rightarrow> Script \<Rightarrow> ('l, 'w) Site \<Rightarrow> ((RunOutcome \<times> string option) \<times> ('l, 'w) Site) option" where
  "Host_Run env la mode target si =
     (if si_running si then
        Some ((zeroRunOutcome, Some ''GOLC_SCRIPT_RUN_ACTIVE: a script run is already active on this host''), si)
      else case la_RunID la of
          Inl e \<Rightarrow> Some ((zeroRunOutcome, Some (''GOLC_SCRIPT_RUN_ID_MINT_FAILED: '' @ e)), si)
        | Inr runID \<Rightarrow>
            let run = newRun runID target (la_StartedAt la); si1 = startedSite env run si in
            (case prepareError mode la of
               Some e \<Rightarrow> Some (finishRun env run (la_StartedAt la) zeroRunOutcome (Some e) si1)
             | None \<Rightarrow>
                 (case runDispatchIO env (la_events la) (session_of (superviseRun mode la run) si1) of
                    None \<Rightarrow> None
                  | Some s \<Rightarrow>
                      let outcome = (sn_outcome s)\<lparr>ro_Logs :=
                            fold (\<lambda>line ls. appendBoundedLog ls line) (jobLog (la_job la) @ debugLog mode (la_bridge la)) (ro_Logs (sn_outcome s))\<rparr> in
                      Some (finishRun env (sn_run s) (en_now (la_ending la)) (classifyEnding (ss_text env) (sn_run s) (la_ending la) outcome) None
                        (si1\<lparr>si_limiter := sn_limiter s, si_bus := sn_bus s, si_mutations := sn_mutations s, si_world := sn_world s\<rparr>)))))"

end
