(* ===== verification/ScriptRun.thy ===== *)
theory ScriptRun
  imports ScriptSession
begin

text \<open>
  What one run of a script can do, proved of the dispatch of \<open>ScriptSession\<close>: every event is either quiet, or one call of the
  child, and from that shape follow what the run may change, what a termination stops, and what is reported.
\<close>

section \<open>The shape of one event\<close>

lemma beginTermination_simps [simp]:
  "run_RunID (snd (beginTermination reason r)) = run_RunID r"
  "run_ScriptName (snd (beginTermination reason r)) = run_ScriptName r"
  "run_Profile (snd (beginTermination reason r)) = run_Profile r"
  "run_termination (snd (beginTermination reason r)) = (case run_termination r of None \<Rightarrow> Some reason | Some first \<Rightarrow> Some first)"
  by (auto simp: beginTermination_def split: option.split)

lemma terminate_simps [simp]:
  "run_RunID (terminate r) = run_RunID r" "run_ScriptName (terminate r) = run_ScriptName r" "run_Profile (terminate r) = run_Profile r"
  "run_termination (terminate r) = run_termination r"
  "run_RunID (closeBridge r) = run_RunID r" "run_ScriptName (closeBridge r) = run_ScriptName r"
  "run_Profile (closeBridge r) = run_Profile r" "run_termination (closeBridge r) = run_termination r"
  by (simp_all add: terminate_def closeBridge_def)

text \<open>A later state of the same run: its first termination stays.\<close>
definition same_run :: "Run \<Rightarrow> Run \<Rightarrow> bool" where
  "same_run r r' \<longleftrightarrow> run_RunID r' = run_RunID r \<and> run_ScriptName r' = run_ScriptName r \<and> run_Profile r' = run_Profile r \<and>
     (\<forall>reason. run_termination r = Some reason \<longrightarrow> run_termination r' = Some reason)"

lemma same_run_refl [simp]: "same_run r r" by (simp add: same_run_def)

lemma same_run_trans: "\<lbrakk>same_run r r1; same_run r1 r2\<rbrakk> \<Longrightarrow> same_run r r2" by (simp add: same_run_def)

lemma same_run_ops [intro]:
  "same_run r (terminate (snd (beginTermination reason r)))" "same_run r (closeBridge r)"
  by (simp_all add: same_run_def)

lemma log_line_simps [simp]:
  "sn_run (log_line m line src s) = sn_run s" "sn_world (log_line m line src s) = sn_world s"
  "sn_mutations (log_line m line src s) = sn_mutations s" "sn_written (log_line m line src s) = sn_written s"
  "ro_Outcomes (sn_outcome (log_line m line src s)) = ro_Outcomes (sn_outcome s)"
  "ro_RunID (sn_outcome (log_line m line src s)) = ro_RunID (sn_outcome s)"
  by (simp_all add: log_line_def)

lemma fail_run_simps [simp]:
  "sn_run (fail_run e s) = sn_run s" "sn_world (fail_run e s) = sn_world s" "sn_bus (fail_run e s) = sn_bus s"
  "sn_mutations (fail_run e s) = sn_mutations s" "sn_written (fail_run e s) = sn_written s"
  "ro_Outcomes (sn_outcome (fail_run e s)) = ro_Outcomes (sn_outcome s)"
  "ro_RunID (sn_outcome (fail_run e s)) = ro_RunID (sn_outcome s)"
  by (simp_all add: fail_run_def)

text \<open>An event that is no call: nothing is executed or answered, and at most one log line or debugger status is published.\<close>
definition quiet :: "('l, 'w) Session \<Rightarrow> ('l, 'w) Session \<Rightarrow> bool" where
  "quiet s s' \<longleftrightarrow> same_run (sn_run s) (sn_run s') \<and> sn_world s' = sn_world s \<and> sn_mutations s' = sn_mutations s \<and>
     sn_written s' = sn_written s \<and> ro_Outcomes (sn_outcome s') = ro_Outcomes (sn_outcome s) \<and>
     (sn_bus s' = sn_bus s \<or> (\<exists>ev. sc_Kind ev \<in> {ScriptEventLog, ScriptEventStatus} \<and> sn_bus s' = PublishScriptEvent ev (sn_bus s)))"

text \<open>One call, dispatched, recorded, reported and answered unless the answer could not be written.\<close>
definition called :: "('l, 'w) SessionEnv \<Rightarrow> Moment \<Rightarrow> CmdCallFrame \<Rightarrow> ('l, 'w) Session \<Rightarrow> phase \<times> ('l, 'w) Session \<Rightarrow> bool" where
  "called env m call s = (\<lambda>(ph', s'). \<exists>result outcome s1 route.
     dispatchCmdCall env m call s = ((result, outcome), s1) \<and> ph' \<in> {Reading, Returned} \<and>
     sn_run s' = sn_run s1 \<and> sn_world s' = sn_world s1 \<and>
     ro_Outcomes (sn_outcome s') = ro_Outcomes (sn_outcome s1) @ [outcome] \<and>
     sn_bus s' = PublishScriptEvent (outcomeEvent (sn_run s1) (mo_now m) route outcome) (sn_bus s1) \<and>
     sn_mutations s' = sn_mutations s1 @ [mutationOf env (sn_run s1) route outcome] \<and>
     sn_written s' = sn_written s1 @ (if ph' = Reading then [result] else []))"

lemma answerCall_called: "called env m call s (answerCall env m call s)"
proof -
  obtain result outcome s1 where d: "dispatchCmdCall env m call s = ((result, outcome), s1)" by (metis surj_pair)
  show ?thesis
    by (cases "fst (EncodeFrame (ss_codec env) (mo_write m) (FrameCmdResult result))")
      (auto simp: called_def answerCall_def d Let_def publishCallOutcome_def)
qed

lemma quiet_logs:
  "quiet s (log_line m line src s)"
  "quiet s (snd (captureStderr m text (ph, s)))" "fst (captureStderr m text (ph, s)) = ph"
proof -
  have k: "\<exists>ev. sc_Kind ev \<in> {ScriptEventLog, ScriptEventStatus} \<and> PublishScriptEvent ((run_event (sn_run s) ScriptEventLog (mo_now m))\<lparr>sc_Level := l, sc_Message := t, sc_Source := u\<rparr>) b =
      PublishScriptEvent ev b" for l t u b
    by (intro exI [of _ "(run_event (sn_run s) ScriptEventLog (mo_now m))\<lparr>sc_Level := l, sc_Message := t, sc_Source := u\<rparr>"])
      (simp add: run_event_def script_event_def)
  show "quiet s (log_line m line src s)" using k by (simp add: quiet_def log_line_def)
  show "quiet s (snd (captureStderr m text (ph, s)))" using k by (simp add: quiet_def captureStderr_def Let_def log_line_def)
  show "fst (captureStderr m text (ph, s)) = ph" by (simp add: captureStderr_def Let_def)
qed

lemma publish_quiet: "sc_Kind ev \<in> {ScriptEventLog, ScriptEventStatus} \<Longrightarrow> quiet s (publish_only ev s)"
  unfolding quiet_def publish_only_def by auto

lemma readFrame_shape:
  "(\<exists>call. called env m call s (readFrame env m scanned s)) \<or> quiet s (snd (readFrame env m scanned s))"
proof (cases "\<exists>line call. scanFrameLine scanned = (Some line, None) \<and> DecodeFrame (ss_text env) (ss_codec env) line = Inr (FrameCmdCall call)")
  case True
  then obtain line call where "scanFrameLine scanned = (Some line, None)" "DecodeFrame (ss_text env) (ss_codec env) line = Inr (FrameCmdCall call)" by blast
  then have "readFrame env m scanned s = answerCall env m call s" by (simp add: readFrame_def handleFrame_def)
  then show ?thesis using answerCall_called [of env m call s] by auto
next
  case False
  have q: "quiet s s" "quiet s (fail_run e s)" for e by (simp_all add: quiet_def)
  have done_quiet: "quiet s (s\<lparr>sn_outcome := (if df_ExitReason f \<noteq> [] then (sn_outcome s)\<lparr>ro_Reason := df_ExitReason f\<rparr> else sn_outcome s),
             sn_run := closeBridge (sn_run s)\<rparr>)" for f
    by (auto simp: quiet_def)
  have "quiet s (snd (handleFrame env m frame s))" if "\<forall>call. frame \<noteq> FrameCmdCall call" for frame
    using that q quiet_logs(1) done_quiet by (cases frame) (simp_all only: handleFrame_def Frame.case snd_conv; blast)+
  then show ?thesis using False q
    by (auto simp: readFrame_def split: prod.split option.split sum.split)
qed

text \<open>Every event is quiet or a call; calls are only read while the loop reads.\<close>
lemma io_step_shape:
  "(ph = Reading \<and> (\<exists>call. called env m call s (io_step env (m, ev) (ph, s)))) \<or> quiet s (snd (io_step env (m, ev) (ph, s)))"
proof (cases ev)
  case (StdoutScan scanned)
  then show ?thesis using readFrame_shape [of env m s scanned] by (auto simp: io_step_def quiet_def)
next
  case (StderrText line)
  then show ?thesis by (simp add: io_step_def quiet_logs(2))
next
  case (TerminationBegun reason)
  then show ?thesis by (auto simp: io_step_def quiet_def)
next
  case (DebugStatus reason)
  then show ?thesis by (simp add: io_step_def publishDebugStatus_def publish_quiet run_event_def script_event_def)
next
  case (DebugLog level message)
  then show ?thesis by (simp add: io_step_def publishDebugLog_def publish_quiet run_event_def script_event_def)
qed

lemma phase_left: "ph \<noteq> Reading \<Longrightarrow> fst (io_step env e (ph, s)) = ph"
  by (cases e; cases "snd e") (simp_all add: io_step_def quiet_logs)

section \<open>What a call does\<close>

text \<open>A command the host may be asked for: a method that the profile's scope reaches, with the arguments built for the host's
  own show.\<close>
definition permitted :: "('l, 'w) SessionEnv \<Rightarrow> CapabilityProfile \<Rightarrow> string \<times> string list \<Rightarrow> bool" where
  "permitted env profile = (\<lambda>(route, args). \<exists>required raw. requiredScope route = Some required \<and>
     scopeRank required \<le> scopeRank (cp_Scope profile) \<and> buildRouteArgs (ss_params env) route (ss_ShowPath env) raw = Inr args)"

definition run_call :: "('l, 'w) SessionEnv \<Rightarrow> string \<times> string list \<Rightarrow> 'w \<Rightarrow> 'w" where
  "run_call env = (\<lambda>(route, args) w. snd (ss_execute env route args (ss_Root env) w))"

lemma known_route: "methodDescriptorsByRoute route = Some d \<Longrightarrow> sdm_Route d = route"
  unfolding methodDescriptorsByRoute_def by (auto dest: find_by_SomeD)

lemma enforce_shape:
  assumes "enforce env now d s = (reason, s1)"
  shows "same_run (sn_run s) (sn_run s1)" "sn_world s1 = sn_world s" "sn_bus s1 = sn_bus s" "sn_mutations s1 = sn_mutations s"
    "sn_written s1 = sn_written s" "sn_outcome s1 = sn_outcome s" "reason = None \<Longrightarrow> sn_run s1 = sn_run s"
    "reason = Some r \<Longrightarrow> run_termination (sn_run s1) \<noteq> None"
    "reason = fst (Enforce (ss_text env) (ss_rate env) now (run_Profile (sn_run s)) (run_RunID (sn_run s)) (sdm_Route d) (sn_limiter s))"
  using assms by (auto simp: enforce_def Let_def split: prod.splits option.splits)

lemma executeCall_shape:
  assumes "executeCall env m call d args s = ((result, outcome), s1)"
  shows "s1 = s\<lparr>sn_world := run_call env (sdm_Route d, args) (sn_world s)\<rparr>" "crf_ID result = cc_ID call" "co_Method outcome = cc_Method call"
    "crf_Ok result = co_Ok outcome" "crf_Code result = co_Code outcome"
  using assms by (auto simp: executeCall_def refuse_def run_call_def Let_def split: prod.splits if_splits)

text \<open>A call is refused and changes nothing outside the run, or it runs one permitted command.\<close>
definition dispatched :: "('l, 'w) SessionEnv \<Rightarrow> CmdCallFrame \<Rightarrow> ('l, 'w) Session \<Rightarrow> CmdResultFrame \<Rightarrow> CallOutcome \<Rightarrow> ('l, 'w) Session \<Rightarrow> bool" where
  "dispatched env call s result outcome s1 \<longleftrightarrow>
     same_run (sn_run s) (sn_run s1) \<and> sn_bus s1 = sn_bus s \<and> sn_mutations s1 = sn_mutations s \<and> sn_written s1 = sn_written s \<and>
     sn_outcome s1 = sn_outcome s \<and> crf_ID result = cc_ID call \<and> co_Method outcome = cc_Method call \<and>
     crf_Ok result = co_Ok outcome \<and> crf_Code result = co_Code outcome \<and>
     ((sn_world s1 = sn_world s \<and> \<not> co_Ok outcome) \<or>
      (\<exists>args. permitted env (run_Profile (sn_run s)) (cc_Method call, args) \<and> run_termination (sn_run s) = None \<and>
         sn_world s1 = run_call env (cc_Method call, args) (sn_world s)))"

lemma dispatch_terminating:
  "\<lbrakk>dispatchCmdCall env m call s = ((result, outcome), s1); run_termination (sn_run s) = Some reason\<rbrakk> \<Longrightarrow>
   \<not> co_Ok outcome \<and> co_Code outcome = tr_Code reason \<and> s1 = s"
  by (auto simp: dispatchCmdCall_def refuse_def)

lemma dispatch_known:
  assumes "dispatchCmdCall env m call s = ((result, outcome), s1)" "run_termination (sn_run s) = None"
    and d: "methodDescriptorsByRoute (cc_Method call) = Some d"
  shows "dispatched env call s result outcome s1"
proof -
  obtain reason s2 where e: "enforce env (mo_now m) d s = (reason, s2)" by (metis surj_pair)
  note sh = enforce_shape(1-6) [OF e] and route = known_route [OF d]
  show ?thesis
  proof (cases reason)
    case (Some r)
    then show ?thesis using assms e sh by (auto simp: dispatchCmdCall_def refuse_def dispatched_def)
  next
    case None
    have passes: "fst (Enforce (ss_text env) (ss_rate env) (mo_now m) (run_Profile (sn_run s)) (run_RunID (sn_run s)) (cc_Method call) (sn_limiter s)) = None"
      using enforce_shape(9) [OF e] None route by simp
    show ?thesis
    proof (cases "buildRouteArgs (ss_params env) (sdm_Route d) (ss_ShowPath env) (cc_Params call)")
      case (Inl err)
      then show ?thesis using assms e sh None by (auto simp: dispatchCmdCall_def refuse_def dispatched_def Let_def)
    next
      case (Inr args)
      then have x: "executeCall env m call d args s2 = ((result, outcome), s1)" using assms e None by (simp add: dispatchCmdCall_def)
      have "permitted env (run_Profile (sn_run s)) (cc_Method call, args)"
        using passes Inr route unfolding permitted_def Enforce_passes by auto
      then show ?thesis using executeCall_shape [OF x] sh assms(2) route by (auto simp: dispatched_def)
    qed
  qed
qed

lemma dispatch_shape:
  assumes "dispatchCmdCall env m call s = ((result, outcome), s1)"
  shows "dispatched env call s result outcome s1"
proof (cases "run_termination (sn_run s)")
  case (Some reason)
  then show ?thesis using assms by (auto simp: dispatchCmdCall_def refuse_def dispatched_def)
next
  case None
  show ?thesis
  proof (cases "methodDescriptorsByRoute (cc_Method call)")
    case None
    then show ?thesis using assms \<open>run_termination (sn_run s) = None\<close> by (auto simp: dispatchCmdCall_def refuse_def dispatched_def Let_def)
  next
    case (Some d)
    then show ?thesis using dispatch_known [OF assms None] by simp
  qed
qed

section \<open>A whole dispatch\<close>

text \<open>What has happened since a session \<open>s0\<close>: the commands that were run, the calls recorded and the events published.\<close>
definition history ::
  "('l, 'w) SessionEnv \<Rightarrow> ('l, 'w) Session \<Rightarrow> (string \<times> string list) list \<Rightarrow> CallOutcome list \<Rightarrow> ScriptEvent list \<Rightarrow> ('l, 'w) Session \<Rightarrow> bool" where
  "history env s0 calls outs evs s \<longleftrightarrow>
     same_run (sn_run s0) (sn_run s) \<and>
     sn_world s = fold (run_call env) calls (sn_world s0) \<and> list_all (permitted env (run_Profile (sn_run s0))) calls \<and>
     (run_termination (sn_run s0) \<noteq> None \<longrightarrow> calls = []) \<and>
     (\<forall>reason. run_termination (sn_run s0) = Some reason \<longrightarrow> (\<forall>out\<in>set outs. \<not> co_Ok out \<and> co_Code out = tr_Code reason)) \<and>
     ro_Outcomes (sn_outcome s) = ro_Outcomes (sn_outcome s0) @ outs \<and>
     sn_bus s = fold PublishScriptEvent evs (sn_bus s0) \<and> set (map sc_Kind evs) \<subseteq> {ScriptEventLog, ScriptEventOutcome, ScriptEventStatus} \<and>
     map (\<lambda>ev. (sc_Method ev, sc_Ok ev, sc_Code ev)) (filter (\<lambda>ev. sc_Kind ev = ScriptEventOutcome) evs) =
       map (\<lambda>out. (co_Method out, co_Ok out, co_Code out)) outs \<and>
     (\<exists>ms. sn_mutations s = sn_mutations s0 @ ms \<and> map me_Outcome ms = map (\<lambda>out. mutationOutcomeFor (co_Ok out)) outs \<and>
        list_all (\<lambda>ev. me_Source ev = ''script'' \<and> me_ResultingRevision ev = None) ms)"

lemma history_start: "history env s0 [] [] [] s0" by (simp add: history_def)

lemma history_quiet:
  assumes "history env s0 calls outs evs s" "quiet s s'"
  shows "\<exists>evs'. history env s0 calls outs (evs @ evs') s'"
proof -
  have q: "same_run (sn_run s) (sn_run s')" "sn_world s' = sn_world s" "sn_mutations s' = sn_mutations s"
    "ro_Outcomes (sn_outcome s') = ro_Outcomes (sn_outcome s)"
    using assms(2) by (simp_all add: quiet_def)
  have r: "same_run (sn_run s0) (sn_run s')" using assms(1) q(1) same_run_trans by (auto simp: history_def)
  show ?thesis
  proof (cases "sn_bus s' = sn_bus s")
    case True
    then show ?thesis using assms(1) q r by (intro exI [of _ "[]"]) (simp add: history_def)
  next
    case False
    then obtain ev where "sc_Kind ev \<in> {ScriptEventLog, ScriptEventStatus}" "sn_bus s' = PublishScriptEvent ev (sn_bus s)" using assms(2) by (auto simp: quiet_def)
    then show ?thesis using assms(1) q r by (intro exI [of _ "[ev]"]) (auto simp: history_def)
  qed
qed

lemma outcomeEvent_simps [simp]:
  "sc_Kind (outcomeEvent run now route out) = ScriptEventOutcome" "sc_Method (outcomeEvent run now route out) = co_Method out"
  "sc_Ok (outcomeEvent run now route out) = co_Ok out" "sc_Code (outcomeEvent run now route out) = co_Code out"
  by (simp_all add: outcomeEvent_def run_event_def script_event_def)

lemma mutationOf_simps [simp]:
  "me_Source (mutationOf env run route out) = ''script''" "me_ResultingRevision (mutationOf env run route out) = None"
  "me_Outcome (mutationOf env run route out) = mutationOutcomeFor (co_Ok out)"
  by (simp_all add: mutationOf_def)

lemma history_called:
  assumes h: "history env s0 calls outs evs s" and c: "called env m call s (ph', s')"
  shows "\<exists>calls' out ev. history env s0 (calls @ calls') (outs @ [out]) (evs @ [ev]) s'"
proof -
  obtain result out s1 route where d: "dispatchCmdCall env m call s = ((result, out), s1)"
    and e: "sn_run s' = sn_run s1" "sn_world s' = sn_world s1" "ro_Outcomes (sn_outcome s') = ro_Outcomes (sn_outcome s1) @ [out]"
      "sn_bus s' = PublishScriptEvent (outcomeEvent (sn_run s1) (mo_now m) route out) (sn_bus s1)"
      "sn_mutations s' = sn_mutations s1 @ [mutationOf env (sn_run s1) route out]"
    using c by (auto simp: called_def)
  note sh = dispatch_shape [OF d, unfolded dispatched_def]
  have r: "same_run (sn_run s0) (sn_run s')" using h sh e(1) same_run_trans by (auto simp: history_def)
  have profile: "run_Profile (sn_run s) = run_Profile (sn_run s0)" using h by (simp add: history_def same_run_def)
  have stopped: "\<not> co_Ok out \<and> co_Code out = tr_Code reason \<and> s1 = s" if "run_termination (sn_run s0) = Some reason" for reason
    using dispatch_terminating [OF d] h that by (simp add: history_def same_run_def)
  obtain calls' where k: "sn_world s1 = fold (run_call env) calls' (sn_world s)" "list_all (permitted env (run_Profile (sn_run s0))) calls'"
      "run_termination (sn_run s0) \<noteq> None \<longrightarrow> calls' = []"
  proof (cases "sn_world s1 = sn_world s \<and> \<not> co_Ok out")
    case True
    then show thesis using that [of "[]"] by simp
  next
    case False
    then obtain args where a: "permitted env (run_Profile (sn_run s)) (cc_Method call, args)" "run_termination (sn_run s) = None"
        "sn_world s1 = run_call env (cc_Method call, args) (sn_world s)" using sh by blast
    then have "run_termination (sn_run s0) = None" using h by (cases "run_termination (sn_run s0)") (auto simp: history_def same_run_def)
    then show thesis using that [of "[(cc_Method call, args)]"] a profile by simp
  qed
  let ?ev = "outcomeEvent (sn_run s1) (mo_now m) route out"
  obtain ms where ms: "sn_mutations s = sn_mutations s0 @ ms" "map me_Outcome ms = map (\<lambda>out. mutationOutcomeFor (co_Ok out)) outs"
      "list_all (\<lambda>ev. me_Source ev = ''script'' \<and> me_ResultingRevision ev = None) ms"
    using h by (auto simp: history_def)
  have "history env s0 (calls @ calls') (outs @ [out]) (evs @ [?ev]) s'"
    unfolding history_def
  proof (intro conjI)
    show "\<exists>ms. sn_mutations s' = sn_mutations s0 @ ms \<and> map me_Outcome ms = map (\<lambda>out. mutationOutcomeFor (co_Ok out)) (outs @ [out]) \<and>
        list_all (\<lambda>ev. me_Source ev = ''script'' \<and> me_ResultingRevision ev = None) ms"
      using ms e(5) sh by (intro exI [of _ "ms @ [mutationOf env (sn_run s1) route out]"]) simp
    show "\<forall>reason. run_termination (sn_run s0) = Some reason \<longrightarrow> (\<forall>o'\<in>set (outs @ [out]). \<not> co_Ok o' \<and> co_Code o' = tr_Code reason)"
      using h stopped by (auto simp: history_def)
    show "run_termination (sn_run s0) \<noteq> None \<longrightarrow> calls @ calls' = []" using h k(3) by (auto simp: history_def)
  qed (use h r k(1,2) e sh in \<open>simp_all add: history_def\<close>)
  then show ?thesis by blast
qed

lemma history_step:
  assumes "history env s0 calls outs evs s" "io_step env e (ph, s) = (ph', s')"
  shows "\<exists>calls' outs' evs'. history env s0 calls' outs' evs' s'"
proof -
  obtain m ev where e: "e = (m, ev)" by (cases e)
  show ?thesis
  proof (cases "quiet s s'")
    case True
    then show ?thesis using history_quiet [OF assms(1)] by blast
  next
    case False
    then obtain call where "called env m call s (ph', s')" using io_step_shape [of ph env m s ev] assms(2) e by auto
    then show ?thesis using history_called [OF assms(1)] by blast
  qed
qed

lemma history_fold:
  "\<lbrakk>history env s0 calls outs evs s; fold (io_step env) events (ph, s) = (ph', s')\<rbrakk> \<Longrightarrow>
   \<exists>calls' outs' evs'. history env s0 calls' outs' evs' s'"
proof (induction events arbitrary: ph s calls outs evs)
  case (Cons e events)
  obtain ph1 s1 where st: "io_step env e (ph, s) = (ph1, s1)" by (metis surj_pair)
  obtain calls' outs' evs' where "history env s0 calls' outs' evs' s1" using history_step [OF Cons.prems(1) st] by blast
  then show ?case using Cons.IH st Cons.prems(2) by simp
qed auto

section \<open>What a run may change\<close>

lemma dispatch_history:
  assumes "runDispatchIO env events s = Some s'"
  shows "\<exists>calls outs evs. history env (s\<lparr>sn_outcome := start_outcome (sn_run s), sn_stderrTail := []\<rparr>) calls outs evs s'"
proof -
  let ?s0 = "s\<lparr>sn_outcome := start_outcome (sn_run s), sn_stderrTail := []\<rparr>"
  obtain ph s1 where f: "fold (io_step env) events (Reading, ?s0) = (ph, s1)" by (metis surj_pair)
  obtain calls outs evs where h: "history env ?s0 calls outs evs s1" using history_fold [OF history_start f] by blast
  have "s' = s1 \<or> (\<exists>tail. s' = s1\<lparr>sn_outcome := (sn_outcome s1)\<lparr>ro_Reason := tail\<rparr>\<rparr>)"
    using assms f by (auto simp: runDispatchIO_def Let_def split: phase.splits if_splits)
  then have "history env ?s0 calls outs evs s'" using h by (elim disjE exE) (simp_all add: history_def)
  then show ?thesis by blast
qed

text \<open>The dispatch of a run that reached it.\<close>
lemma Host_Run_cases:
  assumes "Host_Run env la mode target si = Some ((result, err), si')"
  obtains (refused) "si' = si" "err \<noteq> None" "si_running si \<or> (\<exists>e. la_RunID la = Inl e)"
  | (unprepared) runID e where "\<not> si_running si" "la_RunID la = Inr runID" "prepareError mode la = Some e"
      "((result, err), si') = finishRun env (newRun runID target (la_StartedAt la)) (la_StartedAt la) zeroRunOutcome (Some e)
         (startedSite env (newRun runID target (la_StartedAt la)) si)"
  | (dispatched) runID s outcome where "\<not> si_running si" "la_RunID la = Inr runID"
      "runDispatchIO env (la_events la) (session_of (superviseRun mode la (newRun runID target (la_StartedAt la)))
         (startedSite env (newRun runID target (la_StartedAt la)) si)) = Some s"
      "ro_Outcomes outcome = ro_Outcomes (sn_outcome s)"
      "((result, err), si') = finishRun env (sn_run s) (en_now (la_ending la)) (classifyEnding (ss_text env) (sn_run s) (la_ending la) outcome) None
         ((startedSite env (newRun runID target (la_StartedAt la)) si)\<lparr>si_limiter := sn_limiter s, si_bus := sn_bus s, si_mutations := sn_mutations s,
            si_world := sn_world s\<rparr>)"
proof (cases "si_running si \<or> (\<exists>e. la_RunID la = Inl e)")
  case True
  then have "si' = si \<and> err \<noteq> None" using assms by (cases "si_running si") (auto simp: Host_Run_def)
  then show thesis using refused True by blast
next
  case False
  then obtain runID where r: "\<not> si_running si" "la_RunID la = Inr runID" by (cases "la_RunID la") auto
  let ?run = "newRun runID target (la_StartedAt la)"
  show thesis
  proof (cases "prepareError mode la")
    case (Some e)
    then show thesis using assms r by (intro unprepared) (auto simp: Host_Run_def Let_def)
  next
    case None
    then obtain s where s: "runDispatchIO env (la_events la) (session_of (superviseRun mode la ?run) (startedSite env ?run si)) = Some s"
      using assms r by (auto simp: Host_Run_def Let_def split: option.splits)
    let ?outcome = "(sn_outcome s)\<lparr>ro_Logs := fold (\<lambda>line ls. appendBoundedLog ls line) (jobLog (la_job la) @ debugLog mode (la_bridge la)) (ro_Logs (sn_outcome s))\<rparr>"
    show thesis using assms r None s by (intro dispatched [of runID s ?outcome]) (simp_all add: Host_Run_def Let_def)
  qed
qed

lemma finishRun_simps [simp]:
  "si_world (snd (finishRun env run now result err si)) = si_world si"
  "fst (finishRun env run now result err si) = (result, err)"
  "si_running (snd (finishRun env run now result err si)) = False"
  "si_mutations (snd (finishRun env run now result err si)) = si_mutations si"
  "si_bus (snd (finishRun env run now result err si)) = PublishScriptEvent (computeTerminalEvent run now result err) (si_bus si)"
  by (simp_all add: finishRun_def Let_def)

lemma session_of_simps [simp]:
  "run_Profile (newRun runID target now) = script_CapabilityProfile target" "run_termination (newRun runID target now) = None"
  "run_RunID (newRun runID target now) = runID" "run_ScriptName (newRun runID target now) = script_Name target"
  "run_Profile (superviseRun mode la run) = run_Profile run" "run_termination (superviseRun mode la run) = run_termination run"
  "run_RunID (superviseRun mode la run) = run_RunID run" "run_ScriptName (superviseRun mode la run) = run_ScriptName run"
  "sn_run (session_of run si) = run" "sn_world (session_of run si) = si_world si" "sn_bus (session_of run si) = si_bus si"
  "sn_mutations (session_of run si) = si_mutations si"
  "si_world (startedSite env run si) = si_world si" "si_mutations (startedSite env run si) = si_mutations si"
  by (simp_all add: newRun_def superviseRun_def session_of_def startedSite_def)

text \<open>
  C10: Whatever a script sends, its run changes the world only by commands that its profile permits: each is a method of the
  generated SDK whose required scope the profile reaches, with the arguments that the host's own builder made for the host's
  own show. An unknown method, a scope, rate or parameter error and a protocol violation execute nothing.
\<close>
theorem run_only_permitted_calls:
  assumes "Host_Run env la mode target si = Some ((result, err), si')"
  shows "\<exists>calls. si_world si' = fold (\<lambda>(route, args) w. snd (ss_execute env route args (ss_Root env) w)) calls (si_world si) \<and>
    (\<forall>(route, args)\<in>set calls. \<exists>required raw. requiredScope route = Some required \<and>
       scopeRank required \<le> scopeRank (cp_Scope (script_CapabilityProfile target)) \<and>
       buildRouteArgs (ss_params env) route (ss_ShowPath env) raw = Inr args)"
  using assms
proof (cases rule: Host_Run_cases)
  case refused
  then show ?thesis by (intro exI [of _ "[]"]) simp
next
  case (unprepared runID e)
  then have "si_world si' = si_world si" using finishRun_simps(1) session_of_simps(13) by (metis snd_conv)
  then show ?thesis by (intro exI [of _ "[]"]) simp
next
  case (dispatched runID s outcome)
  obtain calls outs evs where h: "history env ((session_of (superviseRun mode la (newRun runID target (la_StartedAt la)))
         (startedSite env (newRun runID target (la_StartedAt la)) si))\<lparr>sn_outcome := start_outcome (sn_run (session_of (superviseRun mode la (newRun runID target (la_StartedAt la)))
         (startedSite env (newRun runID target (la_StartedAt la)) si))), sn_stderrTail := []\<rparr>) calls outs evs s"
    using dispatch_history [OF dispatched(3)] by blast
  have "si_world si' = sn_world s" using dispatched(5) finishRun_simps(1) by (metis (no_types, lifting) Site.select_convs(7) Site.surjective Site.update_convs(7) snd_conv)
  then show ?thesis using h
    by (intro exI [of _ calls]) (auto simp: history_def permitted_def run_call_def list_all_iff)
qed

text \<open>A host with one permitted call, for the witnesses: every decoder gives the zero value, and the world is the list of
  routes that were executed.\<close>
definition plain_decoders :: ParamDecoders where
  "plain_decoders = \<lparr>
      pd_NameShow = (\<lambda>_. Inr zeroNameShowParams),
      pd_Rename = (\<lambda>_. Inr zeroRenameParams),
      pd_DeploymentInstanceReassign = (\<lambda>_. Inr zeroDeploymentInstanceReassignParams),
      pd_PoolCreate = (\<lambda>_. Inr zeroPoolCreateParams),
      pd_PoolUpdate = (\<lambda>_. Inr zeroPoolUpdateParams),
      pd_PoolApply = (\<lambda>_. Inr zeroPoolApplyParams),
      pd_PoolSubstitute = (\<lambda>_. Inr zeroPoolSubstituteParams),
      pd_ShowOpen = (\<lambda>_. Inr zeroShowOpenParams),
      pd_ShowSaveAs = (\<lambda>_. Inr zeroShowSaveAsParams),
      pd_SceneCreate = (\<lambda>_. Inr zeroSceneCreateParams),
      pd_SceneLayerSet = (\<lambda>_. Inr zeroSceneLayerSetParams),
      pd_SceneReorder = (\<lambda>_. Inr zeroSceneReorderParams),
      pd_BlendCreate = (\<lambda>_. Inr zeroBlendCreateParams),
      pd_PresetRecord = (\<lambda>_. Inr zeroPresetRecordParams),
      pd_NoteEdit = (\<lambda>_. Inr zeroNoteEditParams),
      pd_ChaseCreate = (\<lambda>_. Inr zeroChaseCreateParams),
      pd_ChaseUpdate = (\<lambda>_. Inr zeroChaseUpdateParams),
      pd_ChaseReorder = (\<lambda>_. Inr zeroChaseReorderParams),
      pd_ProgrammerSet = (\<lambda>_. Inr zeroProgrammerSetParams),
      pd_PlaybackBPMSet = (\<lambda>_. Inr zeroPlaybackBPMSetParams),
      pd_PlaybackBPMTap = (\<lambda>_. Inr zeroPlaybackBPMTapParams),
      pd_PlaybackSwitch = (\<lambda>_. Inr zeroPlaybackSwitchParams),
      pd_OperatorSurfaceSurface = (\<lambda>_. Inr zeroOperatorSurfaceSurfaceParams),
      pd_OperatorSurfaceAssign = (\<lambda>_. Inr zeroOperatorSurfaceAssignParams),
      pd_ArtnetStatus = (\<lambda>_. Inr zeroArtnetStatusParams),
      pd_ArtnetInterfaceList = (\<lambda>_. Inr zeroArtnetInterfaceListParams),
      pd_ArtnetDiscover = (\<lambda>_. Inr zeroArtnetDiscoverParams),
      pd_ArtnetConfigure = (\<lambda>_. Inr zeroArtnetConfigureParams),
      pd_ArtnetTarget = (\<lambda>_. Inr zeroArtnetTargetParams),
      pd_ArtnetSafety = (\<lambda>_. Inr zeroArtnetSafetyParams),
      pd_ArtnetMasterSet = (\<lambda>_. Inr zeroArtnetMasterSetParams),
      pd_ArtnetDeskSet = (\<lambda>_. Inr zeroArtnetDeskSetParams),
      pd_ArtnetDeskClear = (\<lambda>_. Inr zeroArtnetDeskClearParams),
      pd_ArtnetDeskClearAll = (\<lambda>_. Inr zeroArtnetDeskClearAllParams),
      pd_FixtureFile = (\<lambda>_. Inr zeroFixtureFileParams),
      pd_FixtureImport = (\<lambda>_. Inr zeroFixtureImportParams),
      pd_APIKeyCreate = (\<lambda>_. Inr zeroAPIKeyCreateParams),
      pd_APIKeyList = (\<lambda>_. Inr zeroAPIKeyListParams),
      pd_APIKeyRevoke = (\<lambda>_. Inr zeroAPIKeyRevokeParams),
      pd_FormatFloat = (\<lambda>_. ''0'')\<rparr>"

definition demo_codec :: FrameCodec where
  "demo_codec = \<lparr>fc_Valid = (\<lambda>_. True), fc_Kind = (\<lambda>_. Inr ''cmd-call''),
     fc_CmdCall = (\<lambda>line. Inr \<lparr>cc_ID = ''1'', cc_Method = line, cc_Params = []\<rparr>), fc_Log = (\<lambda>e. Inl e), fc_Done = (\<lambda>e. Inl e),
     fc_CmdResult = (\<lambda>e. Inl e), fc_Cancel = (\<lambda>e. Inl e), fc_Marshal = (\<lambda>_. Inr ''x'')\<rparr>"

definition demo_session :: "(unit, string list) SessionEnv" where
  "demo_session = \<lparr>ss_text = \<lparr>tx_quote = (\<lambda>t. t), tx_duration = (\<lambda>_. [])\<rparr>,
     ss_rate = \<lparr>rate_NewLimiter = (\<lambda>_ _. ()), rate_Allow = (\<lambda>_ l. (True, l))\<rparr>, ss_params = plain_decoders, ss_codec = demo_codec,
     ss_ack = (\<lambda>t. t), ss_json = (\<lambda>t. t), ss_uuid_text = (\<lambda>_. ''run''), ss_error_text = (\<lambda>_. ''error''),
     ss_execute = (\<lambda>route args root w. (\<lparr>res_ExitCode = 0, res_Stdout = [], res_Stderr = []\<rparr>, w @ [route])),
     ss_Root = ''r'', ss_ShowPath = ''s''\<rparr>"

definition demo_moment :: Moment where "demo_moment = \<lparr>mo_now = 0, mo_ms = 0, mo_write = None\<rparr>"

definition demo_launch :: Launch where
  "demo_launch = \<lparr>la_RunID = Inr 7, la_StartedAt = 0, la_temp_dir = None, la_write_source = None, la_debug_port = Inr 0, la_start = None,
     la_job = JobAssigned, la_bridge = BridgeReady,
     la_events = [(demo_moment, StdoutScan (Scanned ''note list'')), (demo_moment, StdoutScan (Scanned ''rm'')), (demo_moment, StdoutScan ScanEnd)],
     la_ending = \<lparr>en_context = ContextLive, en_wait = None, en_now = 9, en_elapsed = 9, en_peak = 0\<rparr>\<rparr>"

definition demo_script :: Script where
  "demo_script = \<lparr>script_ID = 1, script_Name = ''a'', script_Source = [],
     script_CapabilityProfile = \<lparr>cp_Scope = ''authoring'', cp_Preset = ResourcePresetQuickAction, cp_DeadlineSeconds = 0, cp_RatePerSecond = 0, cp_MemoryLimitMB = 0, cp_CPUCapPercent = 0\<rparr>,
     script_LastRunStatus = ''never_run'', script_LastRunReason = [], script_LastRunAt = []\<rparr>"

definition demo_site :: "(unit, string list) Site" where
  "demo_site = \<lparr>si_running = False, si_limiter = None, si_active = [], si_bus = newEventBus, si_lifecycle = [], si_mutations = [], si_world = []\<rparr>"

lemma demo_methods:
  "methodDescriptorsByRoute ''note list'' = Some (descriptor_of (''note list'', ''note.list'', ''authoring'', OfShowOnlyParams, OfJSONResult))"
  "methodDescriptorsByRoute ''rm'' = None" "requiredScope ''note list'' = Some ''authoring''"
  unfolding methodDescriptorsByRoute_def requiredScope_def find_method method_of_def sdkMethodTable_def
  by (simp_all add: descriptor_of_def)

lemma demo_args: "buildRouteArgs plain_decoders ''note list'' show raw = Inr [''--show'', show]"
  by (simp add: buildRouteArgs_def routeArgvBuilders_def showOnlyArgs_def)

text \<open>Its two calls, and the end of its output.\<close>
lemma demo_steps:
  "io_step demo_session (demo_moment, StdoutScan (Scanned method)) (Reading, s) =
     answerCall demo_session demo_moment \<lparr>cc_ID = ''1'', cc_Method = method, cc_Params = []\<rparr> s"
  "io_step demo_session (demo_moment, StdoutScan ScanEnd) (Reading, s) = (Draining, s)"
  by (simp_all add: io_step_def readFrame_def scanFrameLine_def DecodeFrame_def decodeAs_def demo_session_def demo_codec_def FrameKindCmdCall_def
      handleFrame_def)

lemma demo_encode: "fst (EncodeFrame (ss_codec demo_session) (mo_write demo_moment) frame) = None"
  by (simp add: EncodeFrame_def demo_session_def demo_codec_def demo_moment_def)

lemma demo_dispatch:
  "\<lbrakk>run_termination (sn_run s) = None; cp_Scope (run_Profile (sn_run s)) = ''authoring''; sn_limiter s = None\<rbrakk> \<Longrightarrow>
   \<exists>result out. dispatchCmdCall demo_session demo_moment \<lparr>cc_ID = ''1'', cc_Method = ''note list'', cc_Params = []\<rparr> s =
     ((result, out), s\<lparr>sn_world := sn_world s @ [''note list'']\<rparr>) \<and> co_Code out = []"
  "run_termination (sn_run s) = None \<Longrightarrow>
   \<exists>result out. dispatchCmdCall demo_session demo_moment \<lparr>cc_ID = ''1'', cc_Method = ''rm'', cc_Params = []\<rparr> s = ((result, out), s) \<and>
     co_Code out = ''GOLC_SCRIPT_METHOD_UNKNOWN''"
proof -
  have d: "sdm_Route (descriptor_of (''note list'', ''note.list'', ''authoring'', OfShowOnlyParams, OfJSONResult)) = ''note list''" by simp
  assume s: "run_termination (sn_run s) = None" "cp_Scope (run_Profile (sn_run s)) = ''authoring''" "sn_limiter s = None"
  have e: "enforce demo_session (mo_now demo_moment) (descriptor_of (''note list'', ''note.list'', ''authoring'', OfShowOnlyParams, OfJSONResult)) s = (None, s)"
    unfolding enforce_def d Enforce_def demo_methods(3) using s by (simp add: scopeRank_def Let_def)
  have p: "ss_params demo_session = plain_decoders" by (simp add: demo_session_def)
  have x: "ss_execute demo_session route args root w = (\<lparr>res_ExitCode = 0, res_Stdout = [], res_Stderr = []\<rparr>, w @ [route])" for route args root w
    by (simp add: demo_session_def)
  show "\<exists>result out. dispatchCmdCall demo_session demo_moment \<lparr>cc_ID = ''1'', cc_Method = ''note list'', cc_Params = []\<rparr> s =
     ((result, out), s\<lparr>sn_world := sn_world s @ [''note list'']\<rparr>) \<and> co_Code out = []"
    by (simp add: dispatchCmdCall_def s demo_methods(1) e p demo_args executeCall_def x Let_def)
next
  assume "run_termination (sn_run s) = None"
  then show "\<exists>result out. dispatchCmdCall demo_session demo_moment \<lparr>cc_ID = ''1'', cc_Method = ''rm'', cc_Params = []\<rparr> s = ((result, out), s) \<and>
     co_Code out = ''GOLC_SCRIPT_METHOD_UNKNOWN''"
    by (simp add: dispatchCmdCall_def demo_methods(2) refuse_def Let_def)
qed

lemma demo_answer:
  assumes "dispatchCmdCall demo_session demo_moment call s = ((result, out), s1)"
  shows "\<exists>s2. answerCall demo_session demo_moment call s = (Reading, s2) \<and> sn_run s2 = sn_run s1 \<and> sn_world s2 = sn_world s1 \<and>
    sn_limiter s2 = sn_limiter s1 \<and> sn_stderrTail s2 = sn_stderrTail s1 \<and>
    sn_outcome s2 = (sn_outcome s1)\<lparr>ro_Outcomes := ro_Outcomes (sn_outcome s1) @ [out]\<rparr>"
  unfolding answerCall_def assms by (simp add: demo_encode publishCallOutcome_def Let_def)

lemma demo_events:
  assumes "run_termination (sn_run s) = None" "cp_Scope (run_Profile (sn_run s)) = ''authoring''" "sn_limiter s = None"
  shows "\<exists>s'. runDispatchIO demo_session (la_events demo_launch) s = Some s' \<and> sn_run s' = sn_run s \<and> sn_world s' = sn_world s @ [''note list''] \<and>
    ro_Status (sn_outcome s') = ScriptRunStatusSucceeded \<and> map co_Code (ro_Outcomes (sn_outcome s')) = [[], ''GOLC_SCRIPT_METHOD_UNKNOWN'']"
proof -
  let ?s0 = "s\<lparr>sn_outcome := start_outcome (sn_run s), sn_stderrTail := []\<rparr>"
  have s0: "run_termination (sn_run ?s0) = None" "cp_Scope (run_Profile (sn_run ?s0)) = ''authoring''" "sn_limiter ?s0 = None" using assms by simp_all
  obtain r1 o1 where d1: "dispatchCmdCall demo_session demo_moment \<lparr>cc_ID = ''1'', cc_Method = ''note list'', cc_Params = []\<rparr> ?s0 =
     ((r1, o1), ?s0\<lparr>sn_world := sn_world ?s0 @ [''note list'']\<rparr>)" "co_Code o1 = []" using demo_dispatch(1) [OF s0] by blast
  obtain s1 where s1: "io_step demo_session (demo_moment, StdoutScan (Scanned ''note list'')) (Reading, ?s0) = (Reading, s1)" "sn_run s1 = sn_run s"
    "sn_world s1 = sn_world s @ [''note list'']" "sn_stderrTail s1 = []" "sn_outcome s1 = (start_outcome (sn_run s))\<lparr>ro_Outcomes := [o1]\<rparr>"
    using demo_answer [OF d1(1)] by (auto simp: demo_steps start_outcome_def zeroRunOutcome_def)
  have "run_termination (sn_run s1) = None" using s1(2) assms(1) by simp
  then obtain r2 o2 where d2: "dispatchCmdCall demo_session demo_moment \<lparr>cc_ID = ''1'', cc_Method = ''rm'', cc_Params = []\<rparr> s1 = ((r2, o2), s1)"
    "co_Code o2 = ''GOLC_SCRIPT_METHOD_UNKNOWN''" using demo_dispatch(2) by blast
  obtain s2 where s2: "io_step demo_session (demo_moment, StdoutScan (Scanned ''rm'')) (Reading, s1) = (Reading, s2)" "sn_run s2 = sn_run s"
    "sn_world s2 = sn_world s @ [''note list'']" "sn_stderrTail s2 = []" "sn_outcome s2 = (start_outcome (sn_run s))\<lparr>ro_Outcomes := [o1, o2]\<rparr>"
    using demo_answer [OF d2(1)] s1 by (auto simp: demo_steps)
  have "runDispatchIO demo_session (la_events demo_launch) s = Some s2"
    using s1(1) s2(1,4) by (simp add: runDispatchIO_def demo_launch_def demo_steps(2) trim_space_def Let_def)
  then show ?thesis using s2 d1(2) d2(2) by (simp add: start_outcome_def)
qed

lemma demo_run:
  "\<exists>result si'. Host_Run demo_session demo_launch LaunchModeRun demo_script demo_site = Some ((result, None), si') \<and>
     si_world si' = [''note list''] \<and> ro_Status result = ''succeeded'' \<and> map co_Code (ro_Outcomes result) = [[], ''GOLC_SCRIPT_METHOD_UNKNOWN'']"
proof -
  let ?run = "newRun 7 demo_script 0"
  let ?s = "session_of (superviseRun LaunchModeRun demo_launch ?run) (startedSite demo_session ?run demo_site)"
  have s: "run_termination (sn_run ?s) = None" "cp_Scope (run_Profile (sn_run ?s)) = ''authoring''" "sn_limiter ?s = None" "sn_world ?s = []"
    by (simp_all add: demo_script_def session_of_def startedSite_def demo_site_def)
  obtain s' where s': "runDispatchIO demo_session (la_events demo_launch) ?s = Some s'" "sn_run s' = sn_run ?s" "sn_world s' = [''note list'']"
    "ro_Status (sn_outcome s') = ScriptRunStatusSucceeded" "map co_Code (ro_Outcomes (sn_outcome s')) = [[], ''GOLC_SCRIPT_METHOD_UNKNOWN'']"
    using demo_events [OF s(1-3)] s(4) by auto
  have l: "la_RunID demo_launch = Inr 7" "la_StartedAt demo_launch = 0" "prepareError LaunchModeRun demo_launch = None" "\<not> si_running demo_site"
    "en_context (la_ending demo_launch) = ContextLive" "en_wait (la_ending demo_launch) = None"
    by (simp_all add: demo_launch_def prepareError_def demo_site_def)
  have c: "classifyEnding tx (sn_run s') (la_ending demo_launch) outcome = outcome" for tx outcome
    using s(1) s'(2) l(5,6) by (simp add: classifyEnding_def)
  show ?thesis
    by (simp add: Host_Run_def l s'(1) c finishRun_def Let_def s'(3-5)) (simp add: ScriptRunStatusSucceeded_def)
qed

theorem run_only_permitted_calls_witness:
  "\<exists>result si' calls. Host_Run demo_session demo_launch LaunchModeRun demo_script demo_site = Some ((result, None), si') \<and> si_world si' = [''note list''] \<and>
     [''note list''] = fold (\<lambda>(route, args) w. snd (ss_execute demo_session route args (ss_Root demo_session) w)) calls (si_world demo_site) \<and>
     (\<forall>(route, args)\<in>set calls. \<exists>required raw. requiredScope route = Some required \<and>
       scopeRank required \<le> scopeRank (cp_Scope (script_CapabilityProfile demo_script)) \<and>
       buildRouteArgs (ss_params demo_session) route (ss_ShowPath demo_session) raw = Inr args)"
proof -
  obtain result si' where r: "Host_Run demo_session demo_launch LaunchModeRun demo_script demo_site = Some ((result, None), si')"
    "si_world si' = [''note list'']" using demo_run by blast
  show ?thesis using run_only_permitted_calls [OF r(1)] r by auto
qed

section \<open>What a termination stops\<close>


definition demo_terminated :: "(unit, string list) Session" where
  "demo_terminated = session_of ((newRun 7 demo_script 0)\<lparr>run_termination := Some \<lparr>tr_Code = ''STOP'', tr_Message = [], tr_At = 0\<rparr>\<rparr>) demo_site"


section \<open>What a run reports\<close>

lemma deregistered: "ActiveRun (deregisterActiveRun name runID byName) name \<noteq> Some runID"
proof -
  have "map_of (filter (\<lambda>entry. fst entry \<noteq> name) byName) name = None" by (auto simp: map_of_eq_None_iff)
  then show ?thesis by (simp add: ActiveRun_def deregisterActiveRun_def)
qed

lemma terminal_event:
  "sc_Kind (computeTerminalEvent run now result err) = ScriptEventTerminal"
  "sc_Status (computeTerminalEvent run now result err) = (if ro_Status result = [] then ScriptRunStatusFailed else ro_Status result)"
  by (simp_all add: computeTerminalEvent_def terminalStatusReason_def run_event_def script_event_def Let_def split: prod.split)

lemma classifyEnding_Outcomes [simp]: "ro_Outcomes (classifyEnding tx run en outcome) = ro_Outcomes outcome"
  by (simp add: classifyEnding_def Let_def split: option.split context_end.split)

text \<open>What the reports of a finished run look like: the run's start, its log lines and calls, and its end.\<close>
definition reported ::
  "('l, 'w) Site \<Rightarrow> ScriptEvent list \<Rightarrow> CallOutcome list \<Rightarrow> ScriptRunStatus \<Rightarrow> ('l, 'w) Site \<Rightarrow> bool" where
  "reported si evs outs status si' \<longleftrightarrow> (\<exists>begin terminal.
     si_bus si' = fold PublishScriptEvent (begin # evs @ [terminal]) (si_bus si) \<and>
     sc_Kind begin = ScriptEventStatus \<and> sc_Kind terminal = ScriptEventTerminal \<and> sc_Status terminal = status \<and>
     set (map sc_Kind evs) \<subseteq> {ScriptEventLog, ScriptEventOutcome, ScriptEventStatus} \<and>
     map (\<lambda>ev. (sc_Method ev, sc_Ok ev, sc_Code ev)) (filter (\<lambda>ev. sc_Kind ev = ScriptEventOutcome) evs) =
       map (\<lambda>out. (co_Method out, co_Ok out, co_Code out)) outs)"

lemma finished_active:
  assumes "si_active s1 = byName"
  shows "ActiveRun (si_active (snd (finishRun env run now result err s1))) (run_ScriptName run) \<noteq> Some (run_RunID run)"
  using deregistered by (simp add: finishRun_def Let_def)

lemma reports_of_run:
  assumes "Host_Run env la mode target si = Some ((result, err), si')" "\<not> si_running si" "la_RunID la = Inr runID"
  shows "\<exists>evs. reported si evs (ro_Outcomes result) (if ro_Status result = [] then ScriptRunStatusFailed else ro_Status result) si'"
    and "\<not> si_running si'" and "ActiveRun (si_active si') (script_Name target) \<noteq> Some runID"
    and "\<exists>ms. si_mutations si' = si_mutations si @ ms \<and> map me_Outcome ms = map (\<lambda>out. mutationOutcomeFor (co_Ok out)) (ro_Outcomes result) \<and>
      list_all (\<lambda>ev. me_Source ev = ''script'' \<and> me_ResultingRevision ev = None) ms"
proof -
  let ?run = "newRun runID target (la_StartedAt la)"
  let ?began = "(run_event ?run ScriptEventStatus (run_StartedAt ?run))\<lparr>sc_Status := ScriptRunStatusRunning\<rparr>"
  have b: "si_bus (startedSite env ?run si) = PublishScriptEvent ?began (si_bus si)" "sc_Kind ?began = ScriptEventStatus"
    by (simp_all add: startedSite_def run_event_def script_event_def)
  have "(\<exists>evs. reported si evs (ro_Outcomes result) (if ro_Status result = [] then ScriptRunStatusFailed else ro_Status result) si') \<and>
    \<not> si_running si' \<and> ActiveRun (si_active si') (script_Name target) \<noteq> Some runID \<and>
    (\<exists>ms. si_mutations si' = si_mutations si @ ms \<and> map me_Outcome ms = map (\<lambda>out. mutationOutcomeFor (co_Ok out)) (ro_Outcomes result) \<and>
      list_all (\<lambda>ev. me_Source ev = ''script'' \<and> me_ResultingRevision ev = None) ms)"
    using assms(1)
  proof (cases rule: Host_Run_cases)
    case refused
    then show ?thesis using assms(2,3) by auto
  next
    case (unprepared runID' e)
    then have id: "runID' = runID" using assms(3) by simp
    note u = unprepared(4) [unfolded id]
    have si': "si' = snd (finishRun env ?run (la_StartedAt la) zeroRunOutcome (Some e) (startedSite env ?run si))"
      and res: "result = zeroRunOutcome" "err = Some e" using u by (metis snd_conv, metis fst_conv finishRun_simps(2) prod.inject, metis fst_conv finishRun_simps(2) prod.inject)
    have "reported si [] (ro_Outcomes result) (if ro_Status result = [] then ScriptRunStatusFailed else ro_Status result) si'"
      unfolding reported_def si' res
      by (intro exI [of _ ?began] exI [of _ "computeTerminalEvent ?run (la_StartedAt la) zeroRunOutcome (Some e)"])
        (simp add: b terminal_event zeroRunOutcome_def)
    moreover have "ActiveRun (si_active si') (script_Name target) \<noteq> Some runID"
      using finished_active [OF refl, of env ?run "la_StartedAt la" zeroRunOutcome "Some e" "startedSite env ?run si"] by (simp add: si')
    moreover have "\<not> si_running si'" "si_mutations si' = si_mutations si" by (simp_all add: si')
    ultimately show ?thesis using res by (auto simp: zeroRunOutcome_def)
  next
    case (dispatched runID' s outcome)
    then have id: "runID' = runID" using assms(3) by simp
    let ?start = "startedSite env ?run si"
    let ?s1 = "?start\<lparr>si_limiter := sn_limiter s, si_bus := sn_bus s, si_mutations := sn_mutations s, si_world := sn_world s\<rparr>"
    let ?result = "classifyEnding (ss_text env) (sn_run s) (la_ending la) outcome" and ?now = "en_now (la_ending la)"
    note u = dispatched(5) [unfolded id]
    have si': "si' = snd (finishRun env (sn_run s) ?now ?result None ?s1)" and res: "result = ?result"
      using u by (metis snd_conv, metis fst_conv finishRun_simps(2) prod.inject)
    obtain calls outs evs where h: "history env ((session_of (superviseRun mode la ?run) ?start)\<lparr>sn_outcome := start_outcome (sn_run (session_of (superviseRun mode la ?run) ?start)),
        sn_stderrTail := []\<rparr>) calls outs evs s"
      using dispatch_history [OF dispatched(3) [unfolded id]] by blast
    have outs: "ro_Outcomes result = outs" using h dispatched(4) res by (simp add: history_def start_outcome_def zeroRunOutcome_def)
    have run: "run_ScriptName (sn_run s) = script_Name target" "run_RunID (sn_run s) = runID" using h by (simp_all add: history_def same_run_def)
    have bus: "sn_bus s = fold PublishScriptEvent evs (PublishScriptEvent ?began (si_bus si))" using h b(1) by (simp add: history_def)
    have evs: "set (map sc_Kind evs) \<subseteq> {ScriptEventLog, ScriptEventOutcome, ScriptEventStatus}"
      "map (\<lambda>ev. (sc_Method ev, sc_Ok ev, sc_Code ev)) (filter (\<lambda>ev. sc_Kind ev = ScriptEventOutcome) evs) = map (\<lambda>out. (co_Method out, co_Ok out, co_Code out)) outs"
      using h by (simp_all add: history_def)
    have "reported si evs (ro_Outcomes result) (if ro_Status result = [] then ScriptRunStatusFailed else ro_Status result) si'"
      unfolding reported_def outs si'
      by (intro exI [of _ ?began] exI [of _ "computeTerminalEvent (sn_run s) ?now ?result None"])
        (use evs b(2) bus res in \<open>simp add: terminal_event\<close>)
    moreover have "ActiveRun (si_active si') (script_Name target) \<noteq> Some runID"
      using finished_active [OF refl, of env "sn_run s" ?now ?result None ?s1] run by (simp add: si')
    moreover have "\<not> si_running si'" "si_mutations si' = sn_mutations s" by (simp_all add: si')
    moreover have "\<exists>ms. sn_mutations s = si_mutations si @ ms \<and> map me_Outcome ms = map (\<lambda>out. mutationOutcomeFor (co_Ok out)) outs \<and>
        list_all (\<lambda>ev. me_Source ev = ''script'' \<and> me_ResultingRevision ev = None) ms"
      using h by (simp add: history_def)
    ultimately show ?thesis using outs by auto
  qed
  then show "\<exists>evs. reported si evs (ro_Outcomes result) (if ro_Status result = [] then ScriptRunStatusFailed else ro_Status result) si'"
    "\<not> si_running si'" "ActiveRun (si_active si') (script_Name target) \<noteq> Some runID"
    "\<exists>ms. si_mutations si' = si_mutations si @ ms \<and> map me_Outcome ms = map (\<lambda>out. mutationOutcomeFor (co_Ok out)) (ro_Outcomes result) \<and>
      list_all (\<lambda>ev. me_Source ev = ''script'' \<and> me_ResultingRevision ev = None) ms"
    by blast+
qed

text \<open>
  C13: Every run that began is seen to end. On whatever path it returns, the bus receives its start first, one terminal event
  last, and in between one event per call, in order and with the call's result, among its log lines and the debugger's statuses; the audit observer
  receives one mutation per call; the host is free again and the run is no longer registered.
\<close>
theorem run_reports_once:
  assumes "Host_Run env la mode target si = Some ((result, err), si')" "\<not> si_running si" "la_RunID la = Inr runID"
  shows "(\<exists>evs. reported si evs (ro_Outcomes result) (if ro_Status result = [] then ScriptRunStatusFailed else ro_Status result) si') \<and>
    (\<exists>ms. si_mutations si' = si_mutations si @ ms \<and> map me_Outcome ms = map (\<lambda>out. mutationOutcomeFor (co_Ok out)) (ro_Outcomes result)) \<and>
    \<not> si_running si' \<and> ActiveRun (si_active si') (script_Name target) \<noteq> Some runID"
  using reports_of_run [OF assms] by blast

theorem run_reports_once_witness:
  "\<exists>result si' evs. Host_Run demo_session demo_launch LaunchModeRun demo_script demo_site = Some ((result, None), si') \<and>
     length (ro_Outcomes result) = 2 \<and> reported demo_site evs (ro_Outcomes result) ''succeeded'' si' \<and> ActiveRun (si_active si') ''a'' \<noteq> Some 7"
proof -
  obtain result si' where r: "Host_Run demo_session demo_launch LaunchModeRun demo_script demo_site = Some ((result, None), si')"
    "ro_Status result = ''succeeded''" "map co_Code (ro_Outcomes result) = [[], ''GOLC_SCRIPT_METHOD_UNKNOWN'']" using demo_run by (elim exE conjE) (rule that)
  have l: "length (ro_Outcomes result) = 2" using arg_cong [OF r(3), of length] by simp
  have c: "\<not> si_running demo_site" "la_RunID demo_launch = Inr 7" by (simp_all add: demo_site_def demo_launch_def)
  note t = run_reports_once [OF r(1) c]
  then obtain evs where "reported demo_site evs (ro_Outcomes result) ''succeeded'' si'" using r(2) by auto
  moreover have "script_Name demo_script = ''a''" by (simp add: demo_script_def)
  ultimately show ?thesis using r(1) l t by (intro exI [of _ result] exI [of _ si'] exI [of _ evs]) simp
qed

section \<open>What the reports leave out\<close>

text \<open>No call of a script reaches the stream of HTTP events, because it is reported without a revision.\<close>
lemma script_calls_unstreamed:
  assumes "Host_Run env la mode target si = Some ((result, err), si')" "\<not> si_running si" "la_RunID la = Inr runID"
  shows "\<exists>ms. si_mutations si' = si_mutations si @ ms \<and> length ms = length (ro_Outcomes result) \<and> fold publishMutationEvent ms b = b"
proof -
  obtain ms where ms: "si_mutations si' = si_mutations si @ ms" "map me_Outcome ms = map (\<lambda>out. mutationOutcomeFor (co_Ok out)) (ro_Outcomes result)"
    "list_all (\<lambda>ev. me_Source ev = ''script'' \<and> me_ResultingRevision ev = None) ms"
    using reports_of_run(4) [OF assms] by blast
  have "length ms = length (ro_Outcomes result)" using arg_cong [OF ms(2), of length] by simp
  moreover have "fold publishMutationEvent ms b = b" using ms(3) by (induction ms) (auto simp: publishMutationEvent_silent)
  ultimately show ?thesis using ms(1) by blast
qed

text \<open>The reason a run ended with is redacted on the script bus, and reaches the HTTP stream as it is.\<close>
lemma terminal_reason_unredacted:
  assumes "ro_Reason result = ''used Bearer abc''"
  shows "map (\<lambda>(_, _, _, reason). reason) (si_lifecycle (snd (finishRun env run now result None si))) =
      map (\<lambda>(_, _, _, reason). reason) (si_lifecycle si) @ [''used Bearer abc'']"
    and "sc_Reason (last (bus_buffer (si_bus (snd (finishRun env run now result None si))))) = redactedMarker"
proof -
  have r: "sc_Reason (computeTerminalEvent run now result None) = ''used Bearer abc''"
    using assms by (simp add: computeTerminalEvent_def terminalStatusReason_def Let_def)
  show "map (\<lambda>(_, _, _, reason). reason) (si_lifecycle (snd (finishRun env run now result None si))) =
      map (\<lambda>(_, _, _, reason). reason) (si_lifecycle si) @ [''used Bearer abc'']"
    using r by (simp add: finishRun_def Let_def)
  have m: "Redact ''used Bearer abc'' = redactedMarker" by code_simp
  have "bus_buffer (PublishScriptEvent ev b) \<noteq> [] \<and> last (bus_buffer (PublishScriptEvent ev b)) = numbered_event (wrap64 (bus_nextSeq b + 1)) ev" for ev b
    by (simp add: PublishScriptEvent_eq keep_last_def ScriptEventRingCapacity_def last_drop)
  then show "sc_Reason (last (bus_buffer (si_bus (snd (finishRun env run now result None si))))) = redactedMarker"
    using r m by (simp add: numbered_event_def)
qed

text \<open>A second run under a name takes the place of the first, which can then no longer be found.\<close>
lemma registration_replaces:
  "ActiveRun (registerActiveRun name newer (registerActiveRun name older byName)) name = Some newer"
  "older \<noteq> newer \<Longrightarrow> deregisterActiveRun name older (registerActiveRun name newer byName) = registerActiveRun name newer byName"
  by (simp_all add: ActiveRun_def registerActiveRun_def deregisterActiveRun_def)

section \<open>Bounds\<close>

lemma appendBoundedLog_bound: "length ls \<le> maxCapturedLogLines \<Longrightarrow> length (appendBoundedLog ls line) \<le> maxCapturedLogLines"
  by (auto simp: appendBoundedLog_def maxCapturedLogLines_def Let_def)

text \<open>A run whose termination began is reported as terminated, with that reason and no other.\<close>
lemma terminated_ending:
  "run_termination run = Some reason \<Longrightarrow>
   ro_Status (classifyEnding tx run en outcome) = ''terminated'' \<and> ro_Reason (classifyEnding tx run en outcome) = tr_Code reason @ '': '' @ tr_Message reason"
  by (simp add: classifyEnding_def ScriptRunStatusTerminated_def TerminationReason_String_def)

end
