(* ===== verification/DebugBridge.thy ===== *)
theory DebugBridge
  imports ScriptSession
begin

text \<open>
  \<open>src/internal/script/debugbridge.go\<close>: the client of the debugger that a debug launch opens.  It translates lines between the
  author's source and the file that runs, in which the runtime shim stands first, and publishes what the debugger reports.

  The debugger protocol is a parameter: whether a command fails, with which error, and the replies as they arrive.
\<close>

section \<open>Lines\<close>

definition materializedCDPLine :: "int \<Rightarrow> int \<Rightarrow> int" where
  "materializedCDPLine authorLine shimLineCount = wrap64 (wrap64 (authorLine + shimLineCount) - 1)"

definition authorLineFromCDP :: "int \<Rightarrow> int \<Rightarrow> int \<times> bool" where
  "authorLineFromCDP cdpLine shimLineCount = correctLine (wrap64 (cdpLine + 1)) shimLineCount"

section \<open>The bridge\<close>

record Bridge =
  br_scriptName :: string
  br_shimLineCount :: int
  br_closed :: bool
  br_paused :: bool
  br_disconnected :: bool

definition newBridge :: "string \<Rightarrow> int \<Rightarrow> Bridge" where
  "newBridge scriptName shimLineCount =
     \<lparr>br_scriptName = scriptName, br_shimLineCount = shimLineCount, br_closed = False, br_paused = False, br_disconnected = False\<rparr>"

text \<open>The steps of connecting, each with its error if it fails.\<close>
definition NewDebugBridge ::
  "string option \<Rightarrow> string option \<Rightarrow> string option \<Rightarrow> string option \<Rightarrow> string option \<Rightarrow> string option \<Rightarrow> string \<Rightarrow> int \<Rightarrow> string + Bridge" where
  "NewDebugBridge target dial paused thrown enableDebugger enableRuntime scriptName shimLineCount =
     (let failed = (\<lambda>what e. Inl (''GOLC_SCRIPT_DEBUG_CONNECT_FAILED: '' @ what @ '': '' @ e)) in
      case target of Some e \<Rightarrow> failed ''resolve inspector target'' e | None \<Rightarrow>
      case dial of Some e \<Rightarrow> failed ''dial inspector'' e | None \<Rightarrow>
      case paused of Some e \<Rightarrow> failed ''subscribe Debugger.paused'' e | None \<Rightarrow>
      case thrown of Some e \<Rightarrow> failed ''subscribe Runtime.exceptionThrown'' e | None \<Rightarrow>
      case enableDebugger of Some e \<Rightarrow> failed ''Debugger.enable'' e | None \<Rightarrow>
      case enableRuntime of Some e \<Rightarrow> failed ''Runtime.enable'' e | None \<Rightarrow> Inr (newBridge scriptName shimLineCount))"

text \<open>The lines handed to \<open>Debugger.setBreakpointByUrl\<close> until one fails, and the error; the last step resumes the child.\<close>
fun SetBreakpoints :: "(int \<Rightarrow> string option) \<Rightarrow> string option \<Rightarrow> Bridge \<Rightarrow> int list \<Rightarrow> string option \<times> int list" where
  "SetBreakpoints send resume b [] =
     (map_option (\<lambda>e. ''GOLC_SCRIPT_DEBUG_BREAKPOINT_FAILED: resume from initial break: '' @ e) resume, [])"
| "SetBreakpoints send resume b (authorLine # authorLines) =
     (let line = materializedCDPLine authorLine (br_shimLineCount b) in
      case send line of
        Some e \<Rightarrow> (Some (''GOLC_SCRIPT_DEBUG_BREAKPOINT_FAILED: line '' @ itoa authorLine @ '': '' @ e), [])
      | None \<Rightarrow> let (err, rest) = SetBreakpoints send resume b authorLines in (err, line # rest))"

datatype StepControl = Continue | StepOver | StepInto | StepOut

definition controlName :: "StepControl \<Rightarrow> string" where
  "controlName c = (case c of Continue \<Rightarrow> ''continue'' | StepOver \<Rightarrow> ''step-over'' | StepInto \<Rightarrow> ''step-into'' | StepOut \<Rightarrow> ''step-out'')"

text \<open>A control: its error, the bridge, and what it publishes.\<close>
definition control :: "StepControl \<Rightarrow> string option \<Rightarrow> Bridge \<Rightarrow> string option \<times> Bridge \<times> child_event list" where
  "control c failure b =
     (case failure of
        Some e \<Rightarrow> (Some (''GOLC_SCRIPT_DEBUG_CONTROL_FAILED: '' @ controlName c @ '': '' @ e), b, [])
      | None \<Rightarrow> (None, b\<lparr>br_paused := False\<rparr>,
          [DebugStatus (if c = Continue then ''GOLC_SCRIPT_DEBUG_RESUMED'' else ''GOLC_SCRIPT_DEBUG_STEPPED: '' @ controlName c)]))"

section \<open>What the debugger reports\<close>

record PausedReply =
  pr_Reason :: string
  pr_CallFrames :: "int list"
  pr_HitBreakpoints :: "string list"

definition staleEnableNotificationReason :: string where "staleEnableNotificationReason = ''debugCommand''"

definition autoResumeStaleEnableNotification :: "bool \<Rightarrow> PausedReply \<Rightarrow> Bridge \<Rightarrow> Bridge" where
  "autoResumeStaleEnableNotification resumed reply b =
     (if pr_Reason reply \<noteq> staleEnableNotificationReason \<or> pr_HitBreakpoints reply \<noteq> [] then b
      else if resumed then b\<lparr>br_paused := False\<rparr> else b)"

text \<open>\<open>resumed\<close>: whether \<open>Debugger.resume\<close> succeeds, when it is sent.\<close>
definition handlePaused :: "bool \<Rightarrow> PausedReply \<Rightarrow> Bridge \<Rightarrow> Bridge \<times> child_event list" where
  "handlePaused resumed reply b =
     (autoResumeStaleEnableNotification resumed reply (b\<lparr>br_paused := True\<rparr>),
      [DebugStatus (case pr_CallFrames reply of
          [] \<Rightarrow> ''GOLC_SCRIPT_DEBUG_PAUSED: reason='' @ pr_Reason reply
        | line # _ \<Rightarrow>
            (case authorLineFromCDP line (br_shimLineCount b) of
               (userLine, inShim) \<Rightarrow>
                 if inShim then ''GOLC_SCRIPT_DEBUG_PAUSED: reason='' @ pr_Reason reply @ '', '' @ shimErrorMarker
                 else ''GOLC_SCRIPT_DEBUG_PAUSED: line='' @ itoa userLine @ '', reason='' @ pr_Reason reply))])"

record CallFrame =
  cfr_FunctionName :: string
  cfr_LineNumber :: int
  cfr_ColumnNumber :: int

definition framesFromCDPCallFrames :: "CallFrame list \<Rightarrow> int \<Rightarrow> string \<Rightarrow> StackFrame list" where
  "framesFromCDPCallFrames frames shimLineCount scriptName =
     map (\<lambda>frame.
       let function_name = Redact (if cfr_FunctionName frame = [] then ''<anonymous>'' else cfr_FunctionName frame);
           (userLine, inShim) = authorLineFromCDP (cfr_LineNumber frame) shimLineCount
       in if inShim then
            \<lparr>sf_Function = function_name @ '': '' @ shimErrorMarker, sf_File = Redact scriptName, sf_Line = 0, sf_Column = cfr_ColumnNumber frame\<rparr>
          else \<lparr>sf_Function = function_name, sf_File = Redact scriptName, sf_Line = userLine, sf_Column = cfr_ColumnNumber frame\<rparr>) frames"

definition formatExceptionMessage :: "string \<Rightarrow> StackFrame list \<Rightarrow> string" where
  "formatExceptionMessage headerText frames =
     Redact headerText @
     concat (map (\<lambda>frame. [nl] @ ''    at '' @ sf_Function frame @ '' ('' @ sf_File frame @ '':'' @ itoa (sf_Line frame) @ '':'' @
       itoa (sf_Column frame) @ '')'') frames)"

text \<open>\<open>stack\<close>: the frames of the exception's stack trace, if it has one.\<close>
definition handleExceptionThrown :: "string \<Rightarrow> CallFrame list option \<Rightarrow> Bridge \<Rightarrow> child_event list" where
  "handleExceptionThrown headerText stack b =
     [DebugLog ''exception'' (formatExceptionMessage headerText
        (case stack of None \<Rightarrow> [] | Some frames \<Rightarrow> framesFromCDPCallFrames frames (br_shimLineCount b) (br_scriptName b)))]"

definition reportUnexpectedDisconnect :: "string \<Rightarrow> Bridge \<Rightarrow> Bridge \<times> child_event list" where
  "reportUnexpectedDisconnect e b =
     (if br_closed b \<or> br_disconnected b then (b, [])
      else (b\<lparr>br_disconnected := True\<rparr>, [DebugLog ''error'' (Redact (''GOLC_SCRIPT_DEBUG_DISCONNECTED: '' @ e))]))"

text \<open>Whether the streams and the connection were closed by this call.\<close>
definition Bridge_Close :: "Bridge \<Rightarrow> bool \<times> Bridge" where
  "Bridge_Close b = (if br_closed b then (False, b) else (True, b\<lparr>br_closed := True\<rparr>))"

section \<open>A breakpoint stops at the author's line\<close>

lemma Split_append_nl: "Split nl (a @ nl # b) = Split nl a @ Split nl b"
  by (induction a) (auto split: list.split)

lemma Split_count: "length (Split nl s) = Suc (length (filter (\<lambda>c. c = nl) s))"
  by (induction s) (auto split: list.split)

text \<open>The shim pushes every line of the source down by its offset.\<close>
lemma materialized_line:
  assumes "i < length (Split nl source)"
  shows "Split nl (shim @ [nl] @ source @ [nl] @ trailer) ! (nat (shimLineOffsetFor shim) + i) = Split nl source ! i"
proof -
  have o: "nat (shimLineOffsetFor shim) = length (Split nl shim)" by (simp add: shimLineOffsetFor_def Split_count)
  show ?thesis using assms unfolding o by (simp add: Split_append_nl nth_append)
qed

text \<open>
  C16: A breakpoint stops at the line its author asked for. The line that is sent to the debugger is the one at which that line
  of the source stands in the file that runs, behind the shim and before the trailer; and a pause there is reported with the
  author's number.
\<close>
theorem breakpoint_at_author_line:
  assumes "1 \<le> line" "nat line \<le> length (Split nl source)" "line + shimLineOffsetFor shim \<le> max_int64"
  shows "Split nl (shim @ [nl] @ source @ [nl] @ trailer) ! nat (materializedCDPLine line (shimLineOffsetFor shim)) = Split nl source ! (nat line - 1) \<and>
    authorLineFromCDP (materializedCDPLine line (shimLineOffsetFor shim)) (shimLineOffsetFor shim) = (line, False)"
proof -
  let ?o = "shimLineOffsetFor shim"
  have o: "1 \<le> ?o" by (simp add: shimLineOffsetFor_def)
  have m: "materializedCDPLine line ?o = line + ?o - 1"
    using assms(1,3) o by (simp add: materializedCDPLine_def is_int64_def min_int64_def max_int64_def)
  have "nat (line + ?o - 1) = nat ?o + (nat line - 1)" using assms(1) o by linarith
  moreover have "nat line - 1 < length (Split nl source)" using assms(1,2) by linarith
  ultimately have "Split nl (shim @ [nl] @ source @ [nl] @ trailer) ! nat (materializedCDPLine line ?o) = Split nl source ! (nat line - 1)"
    using materialized_line unfolding m by metis
  moreover have "authorLineFromCDP (materializedCDPLine line ?o) ?o = (line, False)"
    using assms(1,3) o by (simp add: m authorLineFromCDP_def correctLine_def is_int64_def min_int64_def max_int64_def)
  ultimately show ?thesis by blast
qed

theorem breakpoint_at_author_line_witness:
  "Split nl (''shim'' @ [nl] @ ''a'' @ [nl] @ ''b'') ! 2 = ''b'' \<and> authorLineFromCDP 2 1 = (2, False)"
proof -
  have m: "materializedCDPLine 2 1 = 2" "shimLineOffsetFor ''shim'' = 1" by code_simp+
  have "(1::int) \<le> 2" "nat 2 \<le> length (Split nl (''a'' @ [nl] @ ''b''))" "2 + shimLineOffsetFor ''shim'' \<le> max_int64"
    by (simp_all add: m(2) max_int64_def)
  note t = breakpoint_at_author_line [OF this, of "[]"]
  have "Split nl (''shim'' @ [nl] @ (''a'' @ [nl] @ ''b'') @ [nl] @ []) ! 2 = Split nl (''shim'' @ [nl] @ ''a'' @ [nl] @ ''b'') ! 2" by simp
  moreover have "Split nl (''a'' @ [nl] @ ''b'') ! (nat 2 - 1) = ''b''" by simp
  ultimately show ?thesis using t by (simp add: m)
qed

section \<open>Pauses\<close>

text \<open>A breakpoint that was hit is never resumed by the bridge itself.\<close>
lemma hit_stays_paused: "pr_HitBreakpoints reply \<noteq> [] \<Longrightarrow> br_paused (fst (handlePaused resumed reply b))"
  by (simp add: handlePaused_def autoResumeStaleEnableNotification_def)

text \<open>A connection that breaks is reported once, and not at all once the bridge was closed.\<close>
lemma disconnect_once:
  "snd (reportUnexpectedDisconnect e2 (fst (reportUnexpectedDisconnect e1 b))) = []"
  "snd (reportUnexpectedDisconnect e (snd (Bridge_Close b))) = []"
  by (simp_all add: reportUnexpectedDisconnect_def Bridge_Close_def)

text \<open>The breakpoints that are set are those that were asked for, in order, unless the debugger refuses one.\<close>
lemma SetBreakpoints_all:
  "fst (SetBreakpoints send resume b ls) = None \<Longrightarrow> snd (SetBreakpoints send resume b ls) = map (\<lambda>l. materializedCDPLine l (br_shimLineCount b)) ls"
  by (induction ls) (auto simp: Let_def split: option.splits prod.splits)

end
