(* ===== verification/CommandScript.thy ===== *)
theory CommandScript
  imports ScriptRun DebugBridge CommandNote
begin

text \<open>
  \<open>src/internal/command/scriptrun.go\<close>, \<open>scriptstop.go\<close>, \<open>scriptdebug.go\<close> and \<open>scriptvalidate.go\<close>: the commands that run a saved
  script over the registry of commands, stop it, step through it, and check it.

  The commands act on a \<open>Site\<close>, the shows and what the process keeps between runs.  What the operating system answers to a
  launch is a parameter, as are the JSON of the answers and what a stopped run leaves behind.
\<close>

section \<open>The executor of scripts\<close>

definition isExposedSDKRoute :: "string \<Rightarrow> bool" where
  "isExposedSDKRoute route = (\<exists>descriptor\<in>set (RegisteredSDKMethods sdkRegistry). sdm_Route descriptor = route)"

text \<open>A registration without a handler is a nil function, which no registry holds.\<close>
definition registryExecute ::
  "(string \<Rightarrow> string) \<Rightarrow> World CommandRegistry \<Rightarrow> string \<Rightarrow> string list \<Rightarrow> string \<Rightarrow> World \<Rightarrow> Result \<times> World" where
  "registryExecute quote registry route args dir w =
     (let refused = (\<lambda>text. (\<lparr>res_ExitCode = 2, res_Stdout = [], res_Stderr = text @ newline\<rparr>, w)) in
      if \<not> isExposedSDKRoute route then
        refused (''GOLC_SCRIPT_ROUTE_UNKNOWN: '' @ quote route @ '' is not a route the generated SDK exposes to scripts'')
      else case Lookup registry (Fields route) of
          Some (registration, []) \<Rightarrow>
            (case cr_Handler registration of
               Some handler \<Rightarrow> handler \<lparr>rq_Route = cr_Route registration, rq_Args = args, rq_Root = dir\<rparr> w
             | None \<Rightarrow> refused [])
        | _ \<Rightarrow> refused (''GOLC_ROUTE_UNKNOWN: no registered route matches '' @ quote route))"

section \<open>The answer\<close>

record scriptRunOutcomeView =
  sov_Method :: string
  sov_Route :: string
  sov_DurationMS :: int
  sov_Ok :: bool
  sov_Code :: string
  sov_Message :: string

record scriptRunLogView =
  slv_Level :: string
  slv_Message :: string
  slv_Source :: string

record scriptRunResultView =
  srv_RunID :: string
  srv_Status :: string
  srv_Reason :: string
  srv_Outcomes :: "scriptRunOutcomeView list"
  srv_Logs :: "scriptRunLogView list"

definition toScriptRunResultView :: "(uuid \<Rightarrow> string) \<Rightarrow> RunOutcome \<Rightarrow> scriptRunResultView" where
  "toScriptRunResultView uuid_text outcome =
     \<lparr>srv_RunID = uuid_text (ro_RunID outcome), srv_Status = ro_Status outcome, srv_Reason = ro_Reason outcome,
      srv_Outcomes = map (\<lambda>out. \<lparr>sov_Method = co_Method out, sov_Route = co_Route out, sov_DurationMS = co_DurationMS out, sov_Ok = co_Ok out,
        sov_Code = co_Code out, sov_Message = co_Message out\<rparr>) (ro_Outcomes outcome),
      srv_Logs = map (\<lambda>l. \<lparr>slv_Level = ll_Level l, slv_Message = ll_Message l, slv_Source = ll_Source l\<rparr>) (ro_Logs outcome)\<rparr>"

section \<open>Running\<close>

text \<open>The services of the daemon: the default registry, the provisioned Deno, the surroundings of a dispatch (whose executor,
  root and show are filled in), the launch, the time of the end as text, and the encoders.\<close>
record 'l ScriptServices =
  svc_registry :: "World CommandRegistry result"
  svc_deno :: "string result"
  svc_session :: "('l, World) SessionEnv"
  svc_launch :: Launch
  svc_at :: string
  svc_json :: "scriptRunResultView \<Rightarrow> string result"
  svc_control_json :: "string result"

definition on_world :: "(World \<Rightarrow> Result \<times> World) \<Rightarrow> ('l, World) Site \<Rightarrow> Result \<times> ('l, World) Site" where
  "on_world f si = (case f (si_world si) of (res, w) \<Rightarrow> (res, si\<lparr>si_world := w\<rparr>))"

definition hostSession :: "'l ScriptServices \<Rightarrow> World CommandRegistry \<Rightarrow> string \<Rightarrow> string \<Rightarrow> ('l, World) SessionEnv" where
  "hostSession svc registry dir showPath =
     (svc_session svc)\<lparr>ss_execute := registryExecute (tx_quote (ss_text (svc_session svc))) registry, ss_Root := dir, ss_ShowPath := showPath\<rparr>"

definition recordRunOutcome :: "string \<Rightarrow> RunOutcome \<Rightarrow> Script \<Rightarrow> Script" where
  "recordRunOutcome now outcome target =
     target\<lparr>script_LastRunStatus := ro_Status outcome, script_LastRunReason := ro_Reason outcome, script_LastRunAt := now\<rparr>"

definition run_answer :: "'l ScriptServices \<Rightarrow> Host \<Rightarrow> RunOutcome \<Rightarrow> World \<Rightarrow> Result \<times> World" where
  "run_answer svc h outcome w =
     (case encodeScriptResult (svc_json svc) (toScriptRunResultView (ss_uuid_text (svc_session svc)) outcome) of
        Inl e \<Rightarrow> fail h e w
      | Inr payload \<Rightarrow>
          (\<lparr>res_ExitCode = (if ro_Status outcome = ScriptRunStatusFailed \<or> ro_Status outcome = ScriptRunStatusTerminated then 1 else 0),
            res_Stdout = payload, res_Stderr = []\<rparr>, w))"

text \<open>What \<open>script run\<close> and \<open>script debug\<close> do with the script they found in the document they loaded: a new host with a limiter of its own,
  the run, and the save.  \<open>None\<close>: the run never ends.\<close>
definition run_and_record ::
  "'l ScriptServices \<Rightarrow> Host \<Rightarrow> LaunchMode \<Rightarrow> string \<Rightarrow> string \<Rightarrow> State \<Rightarrow> Script \<Rightarrow> nat \<Rightarrow> ('l, World) Site \<Rightarrow> (Result \<times> ('l, World) Site) option" where
  "run_and_record svc h mode dir showPath state target index si =
     (case svc_registry svc of
        Inl e \<Rightarrow> Some (on_world (fail h (Wrap ''GOLC_SCRIPT_RUN_FAILED'' e)) si)
      | Inr registry \<Rightarrow>
          (case svc_deno svc of
             Inl e \<Rightarrow> Some (on_world (fail h e) si)
           | Inr denoPath \<Rightarrow>
               (case Host_Run (hostSession svc registry dir showPath) (svc_launch svc) mode target
                       (si\<lparr>si_running := False, si_limiter := Some newRunLimiter\<rparr>) of
                  None \<Rightarrow> None
                | Some ((outcome, Some runErr), si1) \<Rightarrow>
                    Some (\<lparr>res_ExitCode = 1, res_Stdout = [], res_Stderr = runErr @ newline\<rparr>, si1)
                | Some ((outcome, None), si1) \<Rightarrow>
                    Some (on_world (\<lambda>w.
                      case save_show h dir showPath
                             (state\<lparr>st_Scripts := (st_Scripts state)[index := recordRunOutcome (svc_at svc) outcome target]\<rparr>) w of
                        (Some e, w1) \<Rightarrow> fail h e w1
                      | (None, w1) \<Rightarrow> run_answer svc h outcome w1) si1))))"

definition runScriptRun ::
  "'l ScriptServices \<Rightarrow> Host \<Rightarrow> Request \<Rightarrow> ('l, World) Site \<Rightarrow> (Result \<times> ('l, World) Site) option" where
  "runScriptRun svc h request si =
     (case scriptArgs [''show''] (rq_Args request) of
        Inl e \<Rightarrow> Some (on_world (malformed h e) si)
      | Inr (name, flags, showPath) \<Rightarrow>
          (case load_show h (rq_Root request) showPath (si_world si) of
             (Inl e, w1) \<Rightarrow> Some (on_world (fail h e) (si\<lparr>si_world := w1\<rparr>))
           | (Inr state, w1) \<Rightarrow>
               (case scriptByName (st_Scripts state) name of
                  None \<Rightarrow> Some (on_world (fail h (Code ''GOLC_SCRIPT_NOT_FOUND'')) (si\<lparr>si_world := w1\<rparr>))
                | Some (target, index) \<Rightarrow>
                    run_and_record svc h LaunchModeRun (rq_Root request) showPath state target index (si\<lparr>si_world := w1\<rparr>))))"

section \<open>Debugging\<close>

definition debugFlag :: "string \<Rightarrow> string \<Rightarrow> string \<times> int list \<Rightarrow> (string \<times> int list) result" where
  "debugFlag flagName v = (\<lambda>(showPath, breakpoints).
     if flagName = ''show'' then Inr (v, breakpoints)
     else if flagName = ''breakpoint'' then
       (case ParseInt v of
          None \<Rightarrow> Inl (Code ''GOLC_SCRIPT_BREAKPOINT_INVALID'')
        | Some line \<Rightarrow> if line \<le> 0 then Inl (Code ''GOLC_SCRIPT_BREAKPOINT_INVALID'') else Inr (showPath, breakpoints @ [line]))
     else Inl script_usage)"

fun debugFlags :: "string list \<Rightarrow> string \<times> int list \<Rightarrow> (string \<times> int list) result" where
  "debugFlags [] acc = Inr acc"
| "debugFlags (argument # rest) acc =
     (if \<not> HasPrefix argument ''--'' then Inl script_usage
      else case SplitN CHR ''='' 2 argument of
          [flag, v] \<Rightarrow> bind_res (debugFlag (drop 2 flag) v acc) (debugFlags rest)
        | _ \<Rightarrow> (case rest of
              [] \<Rightarrow> Inl script_usage
            | v # rest' \<Rightarrow> bind_res (debugFlag (TrimPrefix argument ''--'') v acc) (debugFlags rest')))"

definition parseScriptDebugArgs :: "string list \<Rightarrow> (string \<times> string \<times> int list) result" where
  "parseScriptDebugArgs args =
     (case args of
        [] \<Rightarrow> Inl script_usage
      | name # rest \<Rightarrow>
          if HasPrefix name ''-'' then Inl script_usage
          else bind_res (debugFlags rest ([], [])) (\<lambda>(showPath, breakpoints).
            if showPath = [] then Inl script_usage else Inr (name, showPath, breakpoints)))"

definition scriptLineCount :: "string \<Rightarrow> int" where
  "scriptLineCount source = (if source = [] then 1 else int (length (filter (\<lambda>c. c = nl) source)) + 1)"

definition runScriptDebug ::
  "'l ScriptServices \<Rightarrow> Host \<Rightarrow> Request \<Rightarrow> ('l, World) Site \<Rightarrow> (Result \<times> ('l, World) Site) option" where
  "runScriptDebug svc h request si =
     (case parseScriptDebugArgs (rq_Args request) of
        Inl e \<Rightarrow> Some (on_world (malformed h e) si)
      | Inr (name, showPath, breakpoints) \<Rightarrow>
          (case load_show h (rq_Root request) showPath (si_world si) of
             (Inl e, w1) \<Rightarrow> Some (on_world (fail h e) (si\<lparr>si_world := w1\<rparr>))
           | (Inr state, w1) \<Rightarrow>
               (case scriptByName (st_Scripts state) name of
                  None \<Rightarrow> Some (on_world (fail h (Code ''GOLC_SCRIPT_NOT_FOUND'')) (si\<lparr>si_world := w1\<rparr>))
                | Some (target, index) \<Rightarrow>
                    if \<exists>breakpoint\<in>set breakpoints. breakpoint > scriptLineCount (script_Source target) then
                      Some (on_world (malformed h (Code ''GOLC_SCRIPT_BREAKPOINT_INVALID'')) (si\<lparr>si_world := w1\<rparr>))
                    else run_and_record svc h LaunchModeDebug (rq_Root request) showPath state target index (si\<lparr>si_world := w1\<rparr>))))"

definition parseScriptControlArgs :: "string list \<Rightarrow> string result" where
  "parseScriptControlArgs args = listArgs parseScriptFlags rejectUnknownScriptFlags script_usage args"

text \<open>\<open>bridge\<close>: the bridge of the active run, if it has one; \<open>failure\<close>: the debugger's error.  What the control publishes joins the bus.\<close>
definition runScriptDebugControl ::
  "'l ScriptServices \<Rightarrow> Host \<Rightarrow> (uuid \<Rightarrow> Bridge option) \<Rightarrow> string option \<Rightarrow> StepControl \<Rightarrow> Request \<Rightarrow> ('l, World) Site \<Rightarrow>
   Result \<times> child_event list \<times> ('l, World) Site" where
  "runScriptDebugControl svc h bridge failure action request si =
     (let none = (\<lambda>r. (fst r, [], snd r)) in
      case parseScriptControlArgs (rq_Args request) of
        Inl e \<Rightarrow> none (on_world (malformed h e) si)
      | Inr showPath \<Rightarrow>
          (case AnyActiveRun (si_active si) of
             None \<Rightarrow> none (on_world (fail h (Code ''GOLC_SCRIPT_NO_ACTIVE_DEBUG'')) si)
           | Some runID \<Rightarrow>
               (case bridge runID of
                  None \<Rightarrow> none (on_world (fail h (Code ''GOLC_SCRIPT_NO_ACTIVE_DEBUG'')) si)
                | Some b \<Rightarrow>
                    (case control action failure b of
                       (Some e, _, published) \<Rightarrow> (\<lparr>res_ExitCode = 1, res_Stdout = [], res_Stderr = e @ newline\<rparr>, published, si)
                     | (None, _, published) \<Rightarrow>
                         (case wrapEncode ''GOLC_SCRIPT_ENCODE_FAILED'' (svc_control_json svc) of
                            Inl e \<Rightarrow> (fst (fail h e (si_world si)), published, si)
                          | Inr payload \<Rightarrow> (fst (succeed payload (si_world si)), published, si))))))"

section \<open>Stopping\<close>

text \<open>\<open>stopped\<close>: the outcome that the run's own goroutine leaves, and the site by then.\<close>
definition runScriptStop ::
  "'l ScriptServices \<Rightarrow> Host \<Rightarrow> time \<Rightarrow> (uuid \<Rightarrow> TerminationReason \<Rightarrow> ('l, World) Site \<Rightarrow> RunOutcome \<times> ('l, World) Site) \<Rightarrow> Request \<Rightarrow>
   ('l, World) Site \<Rightarrow> Result \<times> ('l, World) Site" where
  "runScriptStop svc h now stopped request si =
     (case scriptArgs [''show''] (rq_Args request) of
        Inl e \<Rightarrow> on_world (malformed h e) si
      | Inr (name, flags, showPath) \<Rightarrow>
          (case ActiveRun (si_active si) name of
             None \<Rightarrow> on_world (fail h (Code ''GOLC_SCRIPT_NO_ACTIVE_RUN'')) si
           | Some runID \<Rightarrow>
               (case stopped runID \<lparr>tr_Code = ''GOLC_SCRIPT_STOPPED_BY_USER'',
                       tr_Message = ''script '' @ tx_quote (ss_text (svc_session svc)) name @ '' was stopped by user request'', tr_At = now\<rparr> si of
                  (outcome, si1) \<Rightarrow>
                    on_world (\<lambda>w.
                      let finish = (\<lambda>w2. answer h (encodeScriptResult (svc_json svc)
                            (toScriptRunResultView (ss_uuid_text (svc_session svc)) outcome)) w2) in
                      case load_show h (rq_Root request) showPath w of
                        (Inl e, w1) \<Rightarrow> fail h e w1
                      | (Inr state, w1) \<Rightarrow>
                          (case scriptByName (st_Scripts state) name of
                             None \<Rightarrow> finish w1
                           | Some (target, index) \<Rightarrow>
                               (case save_show h (rq_Root request) showPath
                                       (state\<lparr>st_Scripts := (st_Scripts state)[index := recordRunOutcome (svc_at svc) outcome target]\<rparr>) w1 of
                                  (Some e, w2) \<Rightarrow> fail h e w2
                                | (None, w2) \<Rightarrow> finish w2))) si1)))"

section \<open>Validating\<close>

record scriptValidateResultView =
  vv_Valid :: bool
  vv_Diagnostics :: "Diagnostic list"

definition toScriptValidateResultView :: "ValidationResult \<Rightarrow> scriptValidateResultView" where
  "toScriptValidateResultView result = \<lparr>vv_Valid = vr_Valid result, vv_Diagnostics = vr_Diagnostics result\<rparr>"

text \<open>\<open>None\<close>: a panic.\<close>
definition runScriptValidate ::
  "CheckEnv \<Rightarrow> string \<Rightarrow> (scriptValidateResultView \<Rightarrow> string result) \<Rightarrow> Host \<Rightarrow> Request \<Rightarrow> World \<Rightarrow> (Result \<times> World) option" where
  "runScriptValidate checker shim json h request w =
     (case scriptArgs [''show''] (rq_Args request) of
        Inl e \<Rightarrow> Some (malformed h e w)
      | Inr (name, flags, showPath) \<Rightarrow>
          (case load_show h (rq_Root request) showPath w of
             (Inl e, w1) \<Rightarrow> Some (fail h e w1)
           | (Inr state, w1) \<Rightarrow>
               (case scriptByName (st_Scripts state) name of
                  None \<Rightarrow> Some (fail h (Code ''GOLC_SCRIPT_NOT_FOUND'') w1)
                | Some (target, _) \<Rightarrow>
                    map_option (\<lambda>(outcome, spawned).
                      case outcome of
                        Inl e \<Rightarrow> fail h e w1
                      | Inr result \<Rightarrow>
                          (case encodeScriptResult json (toScriptValidateResultView result) of
                             Inl e \<Rightarrow> fail h e w1
                           | Inr payload \<Rightarrow>
                               (\<lparr>res_ExitCode = (if vr_Valid result then 0 else 1), res_Stdout = payload, res_Stderr = []\<rparr>, w1)))
                      (Validate checker shim target))))"

section \<open>What the executor reaches\<close>

lemma isExposedSDKRoute_iff: "isExposedSDKRoute route \<longleftrightarrow> requiredScope route \<noteq> None"
proof -
  have "isExposedSDKRoute route \<longleftrightarrow> route \<in> sdm_Route ` set (RegisteredSDKMethods sdkRegistry)" by (auto simp: isExposedSDKRoute_def)
  then show ?thesis by (cases "find_by sdm_Route route (RegisteredSDKMethods sdkRegistry)") (auto simp: requiredScope_def find_by_None_iff dest: find_by_SomeD)
qed

text \<open>A route the SDK does not expose changes nothing, whatever the registry holds; no registry holds a nil handler.\<close>
lemma unexposed_route: "requiredScope route = None \<Longrightarrow> snd (registryExecute quote registry route args dir w) = w"
  by (simp add: registryExecute_def isExposedSDKRoute_iff Let_def)

section \<open>What a run does to the show it runs on\<close>

lemma run_and_record_saves:
  assumes "run_and_record svc h mode dir showPath state target index si = Some (res, si')" "res_ExitCode res = 0"
  shows "\<exists>outcome w w1. save_show h dir showPath (state\<lparr>st_Scripts := (st_Scripts state)[index := recordRunOutcome (svc_at svc) outcome target]\<rparr>) w = (None, w1) \<and>
    si_world si' = w1 \<and> ro_Status outcome \<notin> {ScriptRunStatusFailed, ScriptRunStatusTerminated}"
proof -
  obtain registry denoPath where s: "svc_registry svc = Inr registry" "svc_deno svc = Inr denoPath"
    using assms by (auto simp: run_and_record_def on_world_def fail_def split: sum.splits)
  then obtain outcome err si1 where r: "Host_Run (hostSession svc registry dir showPath) (svc_launch svc) mode target
      (si\<lparr>si_running := False, si_limiter := Some newRunLimiter\<rparr>) = Some ((outcome, err), si1)"
    using assms(1) by (auto simp: run_and_record_def split: option.splits)
  have "err = None" using assms s r by (auto simp: run_and_record_def split: option.splits)
  obtain e w1 where sv: "save_show h dir showPath (state\<lparr>st_Scripts := (st_Scripts state)[index := recordRunOutcome (svc_at svc) outcome target]\<rparr>) (si_world si1) = (e, w1)"
    by (metis surj_pair)
  have "e = None" using assms s r sv \<open>err = None\<close> by (cases e) (auto simp: run_and_record_def on_world_def fail_def)
  then have "run_answer svc h outcome w1 = (res, w1)" "si_world si' = w1" "res_ExitCode (fst (run_answer svc h outcome w1)) = 0"
    using assms s r sv \<open>err = None\<close>
    by (auto simp: run_and_record_def on_world_def run_answer_def fail_def split: sum.splits)
  moreover have "ro_Status outcome \<notin> {ScriptRunStatusFailed, ScriptRunStatusTerminated}"
    using calculation(3) by (auto simp: run_answer_def fail_def split: sum.splits if_splits)
  ultimately show ?thesis using sv \<open>e = None\<close> by blast
qed

text \<open>
  C12: A run that succeeds leaves the show as it was before the run. Whatever the script's own calls, or anyone else, saved to the show
  while it ran, what the show holds afterwards is the document that was loaded before the run with the run's status in the
  script, under the revision number that follows the one loaded: every edit made in between is overwritten.
\<close>
theorem run_overwrites_edits:
  assumes "round_trips (host_env h)" "scriptArgs [''show''] (rq_Args request) = Inr (name, flags, showPath)"
    and "runScriptRun svc h request si = Some (res, si')" "res_ExitCode res = 0"
  defines "p \<equiv> host_resolve h (rq_Root request) showPath"
  shows "\<exists>state target index outcome. snd (Load (host_env h) (w_Shows (si_world si) p)) = Inr state \<and>
    scriptByName (st_Scripts state) name = Some (target, index) \<and>
    content (host_env h) (w_Shows (si_world si') p) =
      (Inr (stampState (scrubState (host_env h)
         (state\<lparr>st_Scripts := (st_Scripts state)[index := recordRunOutcome (svc_at svc) outcome target]\<rparr>))),
       Inr (wrap64 (st_Revision state + 1)))"
proof -
  obtain r w1 where l: "load_show h (rq_Root request) showPath (si_world si) = (r, w1)" by (metis surj_pair)
  then obtain state where st: "r = Inr state" using assms(2-4) by (cases r) (auto simp: runScriptRun_def on_world_def fail_def)
  then obtain target index where t: "scriptByName (st_Scripts state) name = Some (target, index)"
    using assms(2-4) l by (cases "scriptByName (st_Scripts state) name") (auto simp: runScriptRun_def on_world_def fail_def)
  have run: "run_and_record svc h LaunchModeRun (rq_Root request) showPath state target index (si\<lparr>si_world := w1\<rparr>) = Some (res, si')"
    using assms(2,3) l st t by (simp add: runScriptRun_def)
  obtain outcome w w2 where s: "save_show h (rq_Root request) showPath (state\<lparr>st_Scripts := (st_Scripts state)[index := recordRunOutcome (svc_at svc) outcome target]\<rparr>) w = (None, w2)"
    "si_world si' = w2" using run_and_record_saves [OF run assms(4)] by blast
  have "snd (Load (host_env h) (w_Shows (si_world si) p)) = Inr state"
    using l st by (auto simp: load_show_def Let_def p_def split: prod.splits)
  then show ?thesis using save_show_round_trip [OF s(1) assms(1)] t s(2) unfolding p_def by auto
qed

text \<open>A show with one script, for the witness, and a launch whose child ends at once.\<close>
definition script_doc :: "Script \<Rightarrow> int \<Rightarrow> State" where
  "script_doc script r = freshState\<lparr>st_Scripts := [script], st_Revision := r\<rparr>"

definition demo_outcome :: RunOutcome where
  "demo_outcome = \<lparr>ro_RunID = 7, ro_Status = ScriptRunStatusSucceeded, ro_Reason = [], ro_Logs = [], ro_Outcomes = []\<rparr>"

definition demo_services :: "unit ScriptServices" where
  "demo_services = \<lparr>svc_registry = Inr NewCommandRegistry, svc_deno = Inr ''deno'',
     svc_session = \<lparr>ss_text = \<lparr>tx_quote = (\<lambda>t. t), tx_duration = (\<lambda>_. [])\<rparr>,
       ss_rate = \<lparr>rate_NewLimiter = (\<lambda>_ _. ()), rate_Allow = (\<lambda>_ l. (True, l))\<rparr>, ss_params = plain_decoders, ss_codec = demo_codec,
       ss_ack = (\<lambda>t. t), ss_json = (\<lambda>t. t), ss_uuid_text = (\<lambda>_. ''run''), ss_error_text = (\<lambda>_. ''error''),
       ss_execute = (\<lambda>route args dir w. (\<lparr>res_ExitCode = 0, res_Stdout = [], res_Stderr = []\<rparr>, w)), ss_Root = [], ss_ShowPath = []\<rparr>,
     svc_launch = demo_launch\<lparr>la_events := [(demo_moment, StdoutScan ScanEnd)]\<rparr>, svc_at = ''t'', svc_json = (\<lambda>_. Inr ''x''), svc_control_json = Inr ''x''\<rparr>"

definition script_docs :: "State list" where
  "script_docs = [script_doc demo_script 1, script_doc (recordRunOutcome ''t'' demo_outcome demo_script) 2]"

definition script_world :: World where
  "script_world = snd (save_show (table_host script_docs) ''r'' ''s'' (script_doc demo_script 0) empty_world)"

definition script_request :: Request where
  "script_request = \<lparr>rq_Route = ''script run'', rq_Args = [''a'', ''--show'', ''s''], rq_Root = ''r''\<rparr>"

definition script_site :: "(unit, World) Site" where
  "script_site = \<lparr>si_running = False, si_limiter = None, si_active = [], si_bus = newEventBus, si_lifecycle = [], si_mutations = [], si_world = script_world\<rparr>"

lemma script_doc_prepared:
  "scrubState env (script_doc script r) = script_doc script r"
  "stampState (script_doc script r) = script_doc script (wrap64 (r + 1))"
  by (simp_all add: script_doc_def scrubState_def stampState_def freshState_def ScrubDanglingSelections_def ScrubDanglingMappings_def)

lemma script_doc_valid: "ValidateScript script = None \<Longrightarrow> validate f ok (script_doc script r) = None"
  by (simp add: script_doc_def validate_def freshState_def ValidateUniquePoolNames_def ValidateUniqueDeploymentNames_def
      ValidateSingleActive_def count_active_def ValidateUniqueGroupNames_def ValidateGroupReferences_def
      ValidateThemeUniqueNames_def ValidatePresetUniqueNames_def ValidateChaseUniqueNames_def
      ValidateMotionPresetUniqueNames_def ValidateSceneUniqueNames_def ValidateSingleActiveScene_def
      ValidateBlendPresetUniqueNames_def ValidateLayerReferences_def ValidateSurfaces_def ValidateUniqueSurfaceNames_def
      ValidateScriptUniqueNames_def ValidateNoteUniqueTitles_def ValidateMappings_def)

lemma demo_scripts_valid: "ValidateScript demo_script = None" "ValidateScript (recordRunOutcome ''t'' demo_outcome demo_script) = None"
  unfolding demo_script_def recordRunOutcome_def demo_outcome_def by code_simp+

lemma script_doc_saved:
  assumes "ValidateScript script = None" "index_of (\<lambda>t. t = script_doc script (r + 1)) script_docs = Some i" "wrap64 (r + 1) = r + 1"
    and "openStore (w_Shows w ''s'') = Inr db"
  shows "\<exists>w1. save_show (table_host script_docs) ''r'' ''s'' (script_doc script r) w = (None, w1)"
proof -
  have enc: "env_encode (table_env script_docs) (stampState (scrubState (table_env script_docs) (script_doc script r))) = Inr [word_of_nat i]"
    using table_encode assms(2,3) by (simp add: script_doc_prepared)
  have v: "validate (env_uuid_str (table_env script_docs)) (env_uuid_ok (table_env script_docs)) (scrubState (table_env script_docs) (script_doc script r)) = None"
    using script_doc_valid [OF assms(1)] by (simp add: script_doc_prepared)
  obtain f' where "Save (table_env script_docs) ''t'' True True (w_Shows w ''s'') (script_doc script r) = (f', None)"
    using Save_committed [OF v enc assms(4), of "''t''"] by blast
  then show ?thesis by (simp add: save_show_def Let_def)
qed

lemma script_docs_index:
  "index_of (\<lambda>t. t = script_doc demo_script (0 + 1)) script_docs = Some 0"
  "index_of (\<lambda>t. t = script_doc (recordRunOutcome ''t'' demo_outcome demo_script) (1 + 1)) script_docs = Some 1"
proof -
  have "script_doc demo_script 1 \<noteq> script_doc script 2" for script
  proof
    assume "script_doc demo_script 1 = script_doc script 2"
    then have "st_Revision (script_doc demo_script 1) = st_Revision (script_doc script 2)" by simp
    then show False by (simp add: script_doc_def)
  qed
  then show "index_of (\<lambda>t. t = script_doc demo_script (0 + 1)) script_docs = Some 0"
    "index_of (\<lambda>t. t = script_doc (recordRunOutcome ''t'' demo_outcome demo_script) (1 + 1)) script_docs = Some 1"
    by (simp_all add: script_docs_def)
qed

lemma script_world_holds:
  "content (table_env script_docs) (w_Shows script_world ''s'') = (Inr (script_doc demo_script 1), Inr 1)"
proof -
  obtain db where db: "openStore (w_Shows empty_world ''s'') = Inr db" using open_fresh by (auto simp: empty_world_def)
  obtain w1 where w1: "save_show (table_host script_docs) ''r'' ''s'' (script_doc demo_script 0) empty_world = (None, w1)"
    using script_doc_saved [OF demo_scripts_valid(1) script_docs_index(1) _ db] by (auto simp: wrap64_def)
  then have "script_world = w1" by (simp add: script_world_def)
  then show ?thesis using save_show_round_trip [OF w1] table_env_round_trips [of script_docs]
    by (simp add: script_docs_def script_doc_prepared) (simp add: script_doc_def wrap64_def)
qed

lemma script_host_run:
  "\<exists>si1. Host_Run (hostSession demo_services NewCommandRegistry ''r'' ''s'') (svc_launch demo_services) LaunchModeRun demo_script si =
     Some ((demo_outcome, None), si1) \<and> si_world si1 = si_world si" if "\<not> si_running si" for si :: "(unit, World) Site"
proof -
  have l: "la_RunID (svc_launch demo_services) = Inr 7" "prepareError LaunchModeRun (svc_launch demo_services) = None"
    "la_events (svc_launch demo_services) = [(demo_moment, StdoutScan ScanEnd)]" "la_job (svc_launch demo_services) = JobAssigned"
    "en_context (la_ending (svc_launch demo_services)) = ContextLive" "en_wait (la_ending (svc_launch demo_services)) = None"
    by (simp_all add: demo_services_def demo_launch_def prepareError_def)
  have e: "io_step env (m, StdoutScan ScanEnd) (Reading, s) = (Draining, s)" for env m and s :: "(unit, World) Session"
    by (simp add: io_step_def readFrame_def scanFrameLine_def)
  have c: "classifyEnding tx run (la_ending (svc_launch demo_services)) outcome = outcome" if "run_termination run = None" for tx run outcome
    using that l(5,6) by (simp add: classifyEnding_def)
  show ?thesis using that
    by (simp add: Host_Run_def l runDispatchIO_def e trim_space_def c finishRun_def Let_def jobLog_def debugLog_def start_outcome_def zeroRunOutcome_def)
      (simp add: demo_outcome_def)
qed

theorem run_overwrites_edits_witness:
  "\<exists>res si'. runScriptRun demo_services (table_host script_docs) script_request script_site = Some (res, si') \<and> res_ExitCode res = 0 \<and>
     snd (content (table_env script_docs) (w_Shows (si_world si') ''s'')) = Inr 2"
proof -
  let ?h = "table_host script_docs"
  have p: "scriptArgs [''show''] (rq_Args script_request) = Inr (''a'', [(''show'', ''s'')], ''s'')"
    unfolding script_request_def by code_simp
  obtain r w1 where l: "load_show ?h ''r'' ''s'' script_world = (r, w1)" by (metis surj_pair)
  have st: "r = Inr (script_doc demo_script 1)"
    using load_show_unchanged(2) [OF l] script_world_holds by (simp add: content_def)
  have "content (table_env script_docs) (w_Shows w1 ''s'') = content (table_env script_docs) (w_Shows script_world ''s'')"
    using load_show_unchanged(1) [OF l] by (simp add: unchanged_def)
  then obtain db where db: "openStore (w_Shows w1 ''s'') = Inr db"
    using script_world_holds by (auto simp: content_def Load_def split: sum.splits)
  have t: "scriptByName (st_Scripts (script_doc demo_script 1)) ''a'' = Some (demo_script, 0)"
    unfolding script_doc_def freshState_def demo_script_def by code_simp
  let ?si = "script_site\<lparr>si_world := w1, si_running := False, si_limiter := Some newRunLimiter\<rparr>"
  obtain si1 where run: "Host_Run (hostSession demo_services NewCommandRegistry ''r'' ''s'') (svc_launch demo_services) LaunchModeRun demo_script ?si =
     Some ((demo_outcome, None), si1)" "si_world si1 = w1" using script_host_run [of ?si] by auto
  have rec: "(script_doc demo_script 1)\<lparr>st_Scripts := (st_Scripts (script_doc demo_script 1))[0 := recordRunOutcome ''t'' demo_outcome demo_script]\<rparr> =
      script_doc (recordRunOutcome ''t'' demo_outcome demo_script) 1" by (simp add: script_doc_def)
  obtain w2 where w2: "save_show ?h ''r'' ''s'' (script_doc (recordRunOutcome ''t'' demo_outcome demo_script) 1) w1 = (None, w2)"
    using script_doc_saved [OF demo_scripts_valid(2) script_docs_index(2) _ db] by (auto simp: wrap64_def)
  have svc: "svc_registry demo_services = Inr NewCommandRegistry" "svc_deno demo_services = Inr ''deno''" "svc_at demo_services = ''t''"
    "svc_json demo_services v = Inr ''x''" for v
    by (simp_all add: demo_services_def)
  have q: "rq_Root script_request = ''r''" "si_world script_site = script_world" by (simp_all add: script_request_def script_site_def)
  have x: "run_answer demo_services ?h demo_outcome w2 = (\<lparr>res_ExitCode = 0, res_Stdout = ''x'', res_Stderr = []\<rparr>, w2)"
    by (simp add: run_answer_def encodeScriptResult_def wrapEncode_def svc)
      (simp add: demo_outcome_def ScriptRunStatusSucceeded_def ScriptRunStatusFailed_def ScriptRunStatusTerminated_def)
  have run': "runScriptRun demo_services ?h script_request script_site =
      Some (\<lparr>res_ExitCode = 0, res_Stdout = ''x'', res_Stderr = []\<rparr>, si1\<lparr>si_world := w2\<rparr>)"
    unfolding runScriptRun_def p using run w2
    by (simp add: l st t q run_and_record_def svc rec on_world_def x)
  have rt: "round_trips (host_env ?h)" using table_env_round_trips [of script_docs] by (simp add: script_docs_def)
  obtain state target index outcome where o: "snd (Load (host_env ?h) (w_Shows (si_world script_site) (host_resolve ?h (rq_Root script_request) ''s''))) = Inr state"
    "snd (content (host_env ?h) (w_Shows (si_world (si1\<lparr>si_world := w2\<rparr>)) (host_resolve ?h (rq_Root script_request) ''s''))) = Inr (wrap64 (st_Revision state + 1))"
    using run_overwrites_edits [OF rt p run'] by auto
  have "st_Revision state = 1"
    using o(1) script_world_holds by (simp add: q content_def) (simp add: script_doc_def)
  then show ?thesis using o(2) run' by (simp add: wrap64_def)
qed

end
