(* ===== verification/History.thy ===== *)
theory History
  imports Prelude
begin

text \<open>
  \<open>src/internal/programming/history.go\<close>: the whole-session linear undo/redo log.  Snapshots are of
  Go type \<open>any\<close>, here a type variable.  The log is shown to implement the contract \<open>undo_log\<close> and
  to refine a pair of stacks.
\<close>

section \<open>history.go\<close>

type_synonym EditKind = string

record 'v EditOp =
  edit_Kind :: EditKind
  edit_ObjectType :: string
  edit_ObjectID :: uuid
  edit_Before :: 'v
  edit_After :: 'v

record 'v History =
  hist_ops :: "'v EditOp list"
  hist_cursor :: nat

definition NewHistory :: "'v History" where
  "NewHistory = \<lparr>hist_ops = [], hist_cursor = 0\<rparr>"

definition Record :: "'v EditOp \<Rightarrow> 'v History \<Rightarrow> 'v History" where
  "Record op h =
     (let ops = take (hist_cursor h) (hist_ops h) @ [op] in
      h\<lparr>hist_ops := ops, hist_cursor := length ops\<rparr>)"

definition CanUndo :: "'v History \<Rightarrow> bool" where
  "CanUndo h = (hist_cursor h > 0)"

definition CanRedo :: "'v History \<Rightarrow> bool" where
  "CanRedo h = (hist_cursor h < length (hist_ops h))"

definition Undo :: "'v History \<Rightarrow> ('v EditOp \<times> 'v History) result" where
  "Undo h =
     (if \<not> CanUndo h then Inl (Code ''GOLC_HISTORY_NOTHING_TO_UNDO'')
      else let c = hist_cursor h - 1 in Inr (hist_ops h ! c, h\<lparr>hist_cursor := c\<rparr>))"

definition Redo :: "'v History \<Rightarrow> ('v EditOp \<times> 'v History) result" where
  "Redo h =
     (if \<not> CanRedo h then Inl (Code ''GOLC_HISTORY_NOTHING_TO_REDO'')
      else Inr (hist_ops h ! hist_cursor h, h\<lparr>hist_cursor := Suc (hist_cursor h)\<rparr>))"

section \<open>The contract of an undo log\<close>

text \<open>Runs a step \<open>n\<close> times, collecting what it returns.\<close>
fun steps :: "('h \<Rightarrow> ('op \<times> 'h) result) \<Rightarrow> nat \<Rightarrow> 'h \<Rightarrow> ('op list \<times> 'h) result" where
  "steps f 0 h = Inr ([], h)"
| "steps f (Suc n) h =
     bind_res (f h) (\<lambda>(op, h'). bind_res (steps f n h') (\<lambda>(ops, h''). Inr (op # ops, h'')))"

locale undo_log =
  fixes inv :: "'h \<Rightarrow> bool"
    and init :: 'h
    and log :: "'op \<Rightarrow> 'h \<Rightarrow> 'h"
    and undo redo :: "'h \<Rightarrow> ('op \<times> 'h) result"
  assumes inv_init: "inv init"
    and inv_log: "inv h \<Longrightarrow> inv (log op h)"
    and inv_undo: "inv h \<Longrightarrow> undo h = Inr (op, h') \<Longrightarrow> inv h'"
    and inv_redo: "inv h \<Longrightarrow> redo h = Inr (op, h') \<Longrightarrow> inv h'"
    and undo_log: "inv h \<Longrightarrow> \<exists>h'. undo (log op h) = Inr (op, h')"
    and redo_log: "inv h \<Longrightarrow> \<not> is_ok (redo (log op h))"
    and redo_undo: "inv h \<Longrightarrow> undo h = Inr (op, h') \<Longrightarrow> redo h' = Inr (op, h)"
    and undo_redo: "inv h \<Longrightarrow> redo h = Inr (op, h') \<Longrightarrow> undo h' = Inr (op, h)"
begin

lemma redo_after:
  assumes "inv h" "steps undo n h = Inr (ops, h')"
  shows "steps redo n h' = Inr (List.rev ops, h)"
  using assms
proof (induction n arbitrary: h ops h')
  case (Suc n)
  then obtain op g ops' where *: "undo h = Inr (op, g)" "steps undo n g = Inr (ops', h')" "ops = op # ops'"
    by (auto simp: bind_res_Inr_iff)
  have "steps redo n h' = Inr (List.rev ops', g)" using Suc.IH * inv_undo Suc.prems(1) by blast
  moreover have "redo g = Inr (op, h)" using redo_undo Suc.prems(1) *(1) by blast
  moreover have snoc: "steps redo (Suc k) x = Inr (os @ [o'], z)"
    if "steps redo k x = Inr (os, y)" "redo y = Inr (o', z)" for k x os y o' z
    using that by (induction k arbitrary: x os) (auto simp: bind_res_Inr_iff)
  ultimately show ?case using * by simp
qed simp

end

section \<open>The log implements the contract\<close>

definition hist_inv :: "'v History \<Rightarrow> bool" where
  "hist_inv h = (hist_cursor h \<le> length (hist_ops h))"

lemmas history_defs = NewHistory_def Record_def CanUndo_def CanRedo_def Undo_def Redo_def hist_inv_def Let_def

interpretation hist: undo_log hist_inv NewHistory Record Undo Redo
proof (unfold_locales, goal_cases)
  case (5 h op)
  then show ?case by (simp add: history_defs nth_append)
qed (auto simp: history_defs split: if_splits)

text \<open>Abstraction: the applied edits, most recent first, and the undone ones, next first.\<close>
definition hist_stacks :: "'v History \<Rightarrow> 'v EditOp list \<times> 'v EditOp list" where
  "hist_stacks h = (List.rev (take (hist_cursor h) (hist_ops h)), drop (hist_cursor h) (hist_ops h))"

fun pop_done :: "'o list \<times> 'o list \<Rightarrow> ('o \<times> 'o list \<times> 'o list) option" where
  "pop_done ([], undone) = None"
| "pop_done (op # applied, undone) = Some (op, applied, op # undone)"

fun pop_undone :: "'o list \<times> 'o list \<Rightarrow> ('o \<times> 'o list \<times> 'o list) option" where
  "pop_undone (applied, []) = None"
| "pop_undone (applied, op # undone) = Some (op, op # applied, undone)"

lemma rev_take_Suc: "n < length xs \<Longrightarrow> List.rev (take (Suc n) xs) = xs ! n # List.rev (take n xs)"
  by (simp add: take_Suc_conv_app_nth)

text \<open>
  The history refines a pair of stacks.  Recording pushes on the applied stack and discards
  every undone edit, undo moves the top of the applied stack onto the undone stack and redo
  moves it back, and each fails exactly when its stack is empty.
\<close>
theorem history_refines_stacks:
  assumes "hist_inv h"
  shows "hist_stacks (Record op h) = (op # fst (hist_stacks h), []) \<and>
    pop_done (hist_stacks h) = (case Undo h of Inl _ \<Rightarrow> None | Inr (o1, h1) \<Rightarrow> Some (o1, hist_stacks h1)) \<and>
    pop_undone (hist_stacks h) = (case Redo h of Inl _ \<Rightarrow> None | Inr (o2, h2) \<Rightarrow> Some (o2, hist_stacks h2))"
proof (intro conjI)
  show "hist_stacks (Record op h) = (op # fst (hist_stacks h), [])"
    using assms by (simp add: hist_stacks_def history_defs)
  show "pop_done (hist_stacks h) = (case Undo h of Inl _ \<Rightarrow> None | Inr (o1, h1) \<Rightarrow> Some (o1, hist_stacks h1))"
  proof (cases "hist_cursor h")
    case 0
    then show ?thesis by (simp add: hist_stacks_def history_defs)
  next
    case (Suc n)
    then have "n < length (hist_ops h)" using assms by (simp add: hist_inv_def)
    then show ?thesis using Suc
      by (simp add: hist_stacks_def history_defs rev_take_Suc Cons_nth_drop_Suc)
  qed
  show "pop_undone (hist_stacks h) = (case Redo h of Inl _ \<Rightarrow> None | Inr (o2, h2) \<Rightarrow> Some (o2, hist_stacks h2))"
  proof (cases "hist_cursor h < length (hist_ops h)")
    case True
    then show ?thesis
      by (simp add: hist_stacks_def history_defs rev_take_Suc flip: Cons_nth_drop_Suc)
  next
    case False
    then show ?thesis by (simp add: hist_stacks_def history_defs)
  qed
qed

text \<open>
  Undoing any number of edits and redoing the same number returns the same edits in
  opposite order and restores the history exactly.
\<close>
theorem undo_then_redo:
  assumes "hist_inv h" "steps Undo n h = Inr (ops, h')"
  shows "steps Redo n h' = Inr (List.rev ops, h)"
  using assms by (rule hist.redo_after)

definition demo_edit :: "nat \<Rightarrow> nat EditOp" where
  "demo_edit n = \<lparr>edit_Kind = ''update'', edit_ObjectType = ''theme'', edit_ObjectID = 1, edit_Before = n, edit_After = Suc n\<rparr>"

definition demo_history :: "nat History" where
  "demo_history = Record (demo_edit 1) (Record (demo_edit 0) NewHistory)"

theorem history_refines_stacks_witness:
  "hist_stacks (Record (demo_edit 2) demo_history) = ([demo_edit 2, demo_edit 1, demo_edit 0], [])"
proof -
  have "hist_inv demo_history" by code_simp
  then show ?thesis using history_refines_stacks [of demo_history "demo_edit 2"]
    by (simp add: demo_history_def hist_stacks_def history_defs)
qed

theorem undo_then_redo_witness:
  "\<exists>h'. steps Undo 2 demo_history = Inr ([demo_edit 1, demo_edit 0], h') \<and>
     steps Redo 2 h' = Inr ([demo_edit 0, demo_edit 1], demo_history)"
proof -
  let ?h = "demo_history\<lparr>hist_cursor := 0\<rparr>"
  have "hist_inv demo_history" by code_simp
  moreover have "steps Undo 2 demo_history = Inr ([demo_edit 1, demo_edit 0], ?h)" by code_simp
  ultimately show ?thesis using undo_then_redo [of demo_history 2 _ ?h] by fastforce
qed

end
