(* ===== verification/Midi.thy ===== *)
theory Midi
  imports F64
begin

text \<open>
  \<open>src/internal/midi\<close>: cross-to-catch soft takeover of a continuous control (\<open>takeover.go\<close>) and the
  learn-time conflict check (\<open>learn.go\<close>).  A fader's life is a sequence of physical readings; the
  theorem characterises exactly which sequences catch the control.
\<close>

section \<open>takeover.go\<close>

record TakeoverState =
  tk_Armed :: bool
  tk_AppValue :: f64
  tk_LastPhysical :: f64

definition NewTakeoverState :: "f64 \<Rightarrow> TakeoverState" where
  "NewTakeoverState appValue = \<lparr>tk_Armed = False, tk_AppValue = appValue, tk_LastPhysical = F_NaN\<rparr>"

definition SetAppValue :: "TakeoverState \<Rightarrow> f64 \<Rightarrow> TakeoverState" where
  "SetAppValue t appValue = (if \<not> tk_Armed t then t\<lparr>tk_AppValue := appValue\<rparr> else t)"

definition Update :: "TakeoverState \<Rightarrow> f64 \<Rightarrow> TakeoverState \<times> bool \<times> f64" where
  "Update t physical =
     (let crossedUp = tk_LastPhysical t \<le> tk_AppValue t \<and> tk_AppValue t \<le> physical;
          crossedDown = tk_AppValue t \<le> tk_LastPhysical t \<and> physical \<le> tk_AppValue t;
          armed = (tk_Armed t \<or> crossedUp \<or> crossedDown);
          t1 = t\<lparr>tk_Armed := armed, tk_LastPhysical := physical\<rparr>;
          t2 = (if armed then t1\<lparr>tk_AppValue := physical\<rparr> else t1) in
      (t2, tk_Armed t2, tk_AppValue t2))"

section \<open>learn.go\<close>

text \<open>\<open>MessageKind\<close>: 0 is a note, 1 a control change.\<close>
datatype MessageKind = Note | ControlChange

record ControlKey =
  key_Channel :: int
  key_Kind :: MessageKind
  key_Number :: int

definition ProposeMapping :: "ControlKey list \<Rightarrow> ControlKey \<Rightarrow> golc_error option" where
  "ProposeMapping existing candidate =
     (if candidate \<in> set existing then Some (Code ''GOLC_MIDI_MAPPING_CONFLICT'') else None)"

text \<open>What arrives first on the two channels of the capture window.\<close>
datatype CaptureEvent = Message ControlKey | Timeout

definition CaptureCandidate :: "CaptureEvent \<Rightarrow> ControlKey result" where
  "CaptureCandidate first =
     (case first of
        Message candidate \<Rightarrow> Inr candidate
      | Timeout \<Rightarrow> Inl (Code ''GOLC_MIDI_LEARN_TIMEOUT''))"

section \<open>Which readings catch a control\<close>

text \<open>Feeds readings one after the other; collects what \<open>Update\<close> returns.\<close>
fun feed :: "TakeoverState \<Rightarrow> f64 list \<Rightarrow> TakeoverState \<times> (bool \<times> f64) list" where
  "feed t [] = (t, [])"
| "feed t (p # ps) = (let (t', out) = Update t p; (t'', outs) = feed t' ps in (t'', out # outs))"

text \<open>A crossing between two consecutive readings: the target lies between them, ends included.\<close>
definition crosses :: "f64 \<Rightarrow> f64 \<Rightarrow> f64 \<Rightarrow> bool" where
  "crosses target a b = (a \<le> target \<and> target \<le> b \<or> target \<le> a \<and> b \<le> target)"

fun first_crossing :: "f64 \<Rightarrow> f64 \<Rightarrow> f64 list \<Rightarrow> nat option" where
  "first_crossing target lst [] = None"
| "first_crossing target lst (p # ps) =
     (if crosses target lst p then Some 0 else map_option Suc (first_crossing target p ps))"

lemma Update_simps:
  "Update \<lparr>tk_Armed = True, tk_AppValue = a, tk_LastPhysical = l\<rparr> p =
     (\<lparr>tk_Armed = True, tk_AppValue = p, tk_LastPhysical = p\<rparr>, True, p)"
  "crosses a l p \<Longrightarrow> Update \<lparr>tk_Armed = False, tk_AppValue = a, tk_LastPhysical = l\<rparr> p =
     (\<lparr>tk_Armed = True, tk_AppValue = p, tk_LastPhysical = p\<rparr>, True, p)"
  "\<not> crosses a l p \<Longrightarrow> Update \<lparr>tk_Armed = False, tk_AppValue = a, tk_LastPhysical = l\<rparr> p =
     (\<lparr>tk_Armed = False, tk_AppValue = a, tk_LastPhysical = p\<rparr>, False, a)"
  by (auto simp: Update_def Let_def crosses_def)

lemma feed_armed:
  "snd (feed \<lparr>tk_Armed = True, tk_AppValue = a, tk_LastPhysical = l\<rparr> ps) = map (Pair True) ps"
  by (induction ps arbitrary: a l) (simp_all add: Update_simps split_beta)

lemma feed_not_armed:
  "snd (feed \<lparr>tk_Armed = False, tk_AppValue = a, tk_LastPhysical = l\<rparr> ps) =
     (case first_crossing a l ps of
        None \<Rightarrow> replicate (length ps) (False, a)
      | Some n \<Rightarrow> replicate n (False, a) @ map (Pair True) (drop n ps))"
proof (induction ps arbitrary: l)
  case (Cons p ps)
  show ?case
  proof (cases "crosses a l p")
    case True
    then show ?thesis using feed_armed [of p p ps] by (simp add: Update_simps split_beta)
  next
    case False
    then show ?thesis using Cons.IH [of p] by (simp add: Update_simps split_beta split: option.splits)
  qed
qed simp

lemma first_crossing_None:
  assumes "a \<noteq> F_NaN" "l \<noteq> F_NaN" "\<forall>p\<in>set ps. p \<noteq> F_NaN"
  shows "first_crossing a l ps = None \<longleftrightarrow> ps = [] \<or> (\<forall>p\<in>set (l # ps). p < a) \<or> (\<forall>p\<in>set (l # ps). a < p)"
  using assms(2,3)
proof (induction ps arbitrary: l)
  case (Cons p ps)
  have cr: "crosses a l p \<longleftrightarrow> \<not> (l < a \<and> p < a) \<and> \<not> (a < l \<and> a < p)"
    using assms(1) Cons.prems by (cases a; cases l; cases p) (auto simp: crosses_def less_eq_f64_def)
  have tot: "x < a \<and> a < x \<longleftrightarrow> False" for x :: f64 by (cases a; cases x) auto
  show ?case using Cons.IH [of p] Cons.prems cr tot by (cases ps) auto
qed simp

text \<open>
  Soft takeover never jumps and never catches by proximity.  Feeding numeric readings to a
  fresh control, every reply before the first crossing is the untouched target value, every
  reply from the first crossing on is the physical reading, and the control is caught exactly
  when there are at least two readings that are neither all strictly below nor all strictly
  above the target.
\<close>
theorem takeover_catches_by_crossing:
  assumes "a \<noteq> F_NaN" "\<forall>p\<in>set ps. p \<noteq> F_NaN"
  shows "(\<exists>n. snd (feed (NewTakeoverState a) ps) = replicate n (False, a) @ map (Pair True) (drop n ps) \<and> n \<le> length ps \<and>
      (n < length ps \<longleftrightarrow> 2 \<le> length ps \<and> \<not> (\<forall>p\<in>set ps. p < a) \<and> \<not> (\<forall>p\<in>set ps. a < p)))"
proof (cases ps)
  case Nil
  then show ?thesis by simp
next
  case (Cons p qs)
  have nan: "\<not> crosses a F_NaN p" by (simp add: crosses_def)
  have out: "snd (feed (NewTakeoverState a) ps) =
      (False, a) # (case first_crossing a p qs of None \<Rightarrow> replicate (length qs) (False, a)
        | Some n \<Rightarrow> replicate n (False, a) @ map (Pair True) (drop n qs))"
    using feed_not_armed [of a p qs] nan
    by (simp add: Cons NewTakeoverState_def Update_simps split_beta)
  have bound: "first_crossing a l xs = Some n \<Longrightarrow> n < length xs" for l xs n
    by (induction xs arbitrary: l n) (auto split: if_splits)
  have none: "first_crossing a p qs = None \<longleftrightarrow> \<not> (2 \<le> length ps \<and> \<not> (\<forall>x\<in>set ps. x < a) \<and> \<not> (\<forall>x\<in>set ps. a < x))"
    using first_crossing_None [of a p qs] assms Cons by (cases qs) auto
  show ?thesis
  proof (cases "first_crossing a p qs")
    case None
    then show ?thesis using out none Cons by (intro exI [of _ "length ps"]) auto
  next
    case (Some n)
    then show ?thesis using out none bound [OF Some] Cons by (intro exI [of _ "Suc n"]) auto
  qed
qed

theorem takeover_catches_by_crossing_witness:
  "\<exists>n<3. snd (feed (NewTakeoverState (Fin (1 / 2))) [Fin (1 / 4), Fin (2 / 5), Fin (3 / 4)]) =
     replicate n (False, Fin (1 / 2)) @ map (Pair True) (drop n [Fin (1 / 4), Fin (2 / 5), Fin (3 / 4)])"
proof -
  have "Fin (1 / 2) \<noteq> F_NaN" "\<forall>p\<in>set [Fin (1 / 4), Fin (2 / 5), Fin (3 / 4)]. p \<noteq> F_NaN" by simp_all
  from takeover_catches_by_crossing [OF this] obtain n where
    n: "snd (feed (NewTakeoverState (Fin (1 / 2))) [Fin (1 / 4), Fin (2 / 5), Fin (3 / 4)]) =
      replicate n (False, Fin (1 / 2)) @ map (Pair True) (drop n [Fin (1 / 4), Fin (2 / 5), Fin (3 / 4)])"
    "n < 3 \<longleftrightarrow> 2 \<le> length [Fin (1 / 4), Fin (2 / 5), Fin (3 / 4)] \<and>
       \<not> (\<forall>p\<in>set [Fin (1 / 4), Fin (2 / 5), Fin (3 / 4)]. p < Fin (1 / 2)) \<and>
       \<not> (\<forall>p\<in>set [Fin (1 / 4), Fin (2 / 5), Fin (3 / 4)]. Fin (1 / 2) < p)"
    by auto
  then have "n < 3" by simp
  then show ?thesis using n(1) by blast
qed

end
