(* ===== verification/Engine.thy ===== *)
theory Engine
  imports Playback
begin

text \<open>
  \<open>src/internal/playback/engine.go\<close>: the real-time engine.  Its atomic pointers are option-valued
  fields; the operations that other goroutines call (\<open>StageEdit\<close>, \<open>SwitchScene\<close>, the getters) are
  functions on the engine state, and \<open>tick\<close> is split at the point where it has loaded the active
  and the pending plan, so that an operation of another goroutine can fall in between.  Times are
  nanoseconds of the monotonic clock; the goroutine of \<open>Start\<close> is the sequence of ticks it makes.
\<close>

section \<open>engine.go\<close>

definition tickHz :: int where "tickHz = 40"
definition tickInterval :: int where "tickInterval = go_quot 1000000000 tickHz"

record Engine =
  eng_activeFrame :: "Frame option"
  eng_activePlan :: "CompiledPlan option"
  eng_pendingPlan :: "CompiledPlan option"
  eng_lastState :: "State option"
  eng_position :: "MusicalPosition option"
  eng_loopStart :: int
  eng_lastBar :: int

text \<open>\<open>Engine{loopStart: time.Now(), lastBar: -1}\<close>\<close>
definition blankEngine :: "int \<Rightarrow> Engine" where
  "blankEngine now = \<lparr>eng_activeFrame = None, eng_activePlan = None, eng_pendingPlan = None,
     eng_lastState = None, eng_position = None, eng_loopStart = now, eng_lastBar = -1\<rparr>"

definition NewEngine :: "int \<Rightarrow> State \<Rightarrow> Engine result" where
  "NewEngine now state =
     (case Compile state of
        Inl err \<Rightarrow>
          if err \<noteq> ErrNoActiveScene then Inl err
          else Inr ((blankEngine now)\<lparr>eng_lastState := Some state\<rparr>)
      | Inr plan \<Rightarrow>
          let pos = Position now (plan_BPM plan) (plan_BarsPerLoop plan) now;
              frame = Evaluate plan pos
          in Inr ((blankEngine now)\<lparr>eng_activePlan := Some plan, eng_lastState := Some state,
                   eng_activeFrame := Some frame, eng_position := Some pos, eng_lastBar := pos_BarIndex pos\<rparr>))"

definition crossedBarBoundary :: "int \<Rightarrow> int \<Rightarrow> int \<Rightarrow> bool" where
  "crossedBarBoundary lastBar curBar barsPerLoop =
     (if lastBar < 0 \<or> lastBar \<ge> barsPerLoop then True else curBar \<noteq> lastBar)"

text \<open>The two atomic loads at the start of \<open>tick\<close>.\<close>
definition tickLoad :: "Engine \<Rightarrow> (CompiledPlan \<times> CompiledPlan option) option" where
  "tickLoad e = map_option (\<lambda>plan. (plan, eng_pendingPlan e)) (eng_activePlan e)"

text \<open>The rest of \<open>tick\<close>, on the values it loaded.\<close>
definition tickCommit :: "int \<Rightarrow> CompiledPlan \<Rightarrow> CompiledPlan option \<Rightarrow> Engine \<Rightarrow> Engine" where
  "tickCommit now plan loaded e =
     (let pos = Position now (plan_BPM plan) (plan_BarsPerLoop plan) (eng_loopStart e);
          publish = (\<lambda>plan pos e. e\<lparr>eng_lastBar := pos_BarIndex pos, eng_activeFrame := Some (Evaluate plan pos),
                                     eng_position := Some pos\<rparr>)
      in case loaded of
           Some pending \<Rightarrow>
             if crossedBarBoundary (eng_lastBar e) (pos_BarIndex pos) (plan_BarsPerLoop plan) then
               let e1 = (if plan_BPM pending \<noteq> plan_BPM plan
                         then e\<lparr>eng_loopStart := RecomputeEpoch (plan_PreserveOnBPMChange pending) (plan_BPM plan)
                                  (plan_BPM pending) (plan_BarsPerLoop plan) (eng_loopStart e) now\<rparr>
                         else e);
                   e2 = e1\<lparr>eng_activePlan := Some pending, eng_pendingPlan := None\<rparr>;
                   pos2 = Position now (plan_BPM pending) (plan_BarsPerLoop pending) (eng_loopStart e2)
               in publish pending pos2 e2
             else publish plan pos e
         | None \<Rightarrow> publish plan pos e)"

definition tick :: "int \<Rightarrow> Engine \<Rightarrow> Engine" where
  "tick now e = (case tickLoad e of None \<Rightarrow> e | Some (plan, pending) \<Rightarrow> tickCommit now plan pending e)"

definition StageEdit :: "State \<Rightarrow> Engine \<Rightarrow> Engine \<times> golc_error option" where
  "StageEdit state e =
     (case Compile state of
        Inl err \<Rightarrow> (e, Some err)
      | Inr plan \<Rightarrow> (e\<lparr>eng_pendingPlan := Some plan, eng_lastState := Some state\<rparr>, None))"

definition SwitchScene :: "string \<Rightarrow> Engine \<Rightarrow> Engine \<times> golc_error option" where
  "SwitchScene nm e =
     (case eng_lastState e of
        None \<Rightarrow> (e, Some (Code ''GOLC_PLAYBACK_SWITCH_UNKNOWN_SCENE''))
      | Some state \<Rightarrow>
          (case ActivateScene (st_Scenes state) nm of
             Inl err \<Rightarrow> (e, Some (Wrap ''GOLC_PLAYBACK_SWITCH_UNKNOWN_SCENE'' err))
           | Inr activated \<Rightarrow> StageEdit (state\<lparr>st_Scenes := activated\<rparr>) e))"

definition CurrentFrame :: "Engine \<Rightarrow> Frame option" where "CurrentFrame e = eng_activeFrame e"
definition CurrentPlan :: "Engine \<Rightarrow> CompiledPlan option" where "CurrentPlan e = eng_activePlan e"

definition CurrentPosition :: "Engine \<Rightarrow> MusicalPosition" where
  "CurrentPosition e =
     (case eng_position e of Some p \<Rightarrow> p | None \<Rightarrow> \<lparr>pos_BarIndex = 0, pos_BeatFraction = Fin 0\<rparr>)"

definition ActiveSceneName :: "Engine \<Rightarrow> string option" where
  "ActiveSceneName e =
     (case (eng_activePlan e, eng_lastState e) of
        (Some plan, Some state) \<Rightarrow> map_option scene_Name (find_by scene_ID (plan_SceneID plan) (st_Scenes state))
      | _ \<Rightarrow> None)"

section \<open>Reachable engines\<close>

inductive engine_step :: "Engine \<Rightarrow> Engine \<Rightarrow> bool" where
  tick: "engine_step e (tick now e)"
| stage: "engine_step e (fst (StageEdit state e))"
| switch: "engine_step e (fst (SwitchScene nm e))"

inductive reachable :: "Engine \<Rightarrow> bool" where
  new: "NewEngine now state = Inr e \<Longrightarrow> reachable e"
| step: "reachable e \<Longrightarrow> engine_step e e' \<Longrightarrow> reachable e'"

inductive_cases engine_stepE: "engine_step e e'"

definition compiled_plan :: "CompiledPlan \<Rightarrow> bool" where
  "compiled_plan plan \<longleftrightarrow> (\<exists>state. Compile state = Inr plan)"

definition engine_inv :: "Engine \<Rightarrow> bool" where
  "engine_inv e \<longleftrightarrow>
     (\<forall>plan. eng_pendingPlan e = Some plan \<longrightarrow> compiled_plan plan) \<and>
     (case eng_activePlan e of
        None \<Rightarrow> eng_activeFrame e = None \<and> eng_position e = None
      | Some plan \<Rightarrow> compiled_plan plan \<and>
          (\<exists>pos. eng_position e = Some pos \<and> eng_activeFrame e = Some (Evaluate plan pos) \<and> eng_lastBar e = pos_BarIndex pos))"

lemma StageEdit_cases:
  "fst (StageEdit state e) = e \<or>
   (\<exists>plan st. compiled_plan plan \<and> fst (StageEdit state e) = e\<lparr>eng_pendingPlan := Some plan, eng_lastState := Some st\<rparr>)"
  by (auto simp: StageEdit_def compiled_plan_def split: sum.split)

lemma SwitchScene_cases:
  "fst (SwitchScene nm e) = e \<or>
   (\<exists>plan st. compiled_plan plan \<and> fst (SwitchScene nm e) = e\<lparr>eng_pendingPlan := Some plan, eng_lastState := Some st\<rparr>)"
  using StageEdit_cases by (auto simp: SwitchScene_def split: option.split sum.split)

lemma tick_inv: "engine_inv e \<Longrightarrow> engine_inv (tick now e)"
  by (auto simp: tick_def tickLoad_def tickCommit_def engine_inv_def Let_def split: option.splits)

lemma staged_inv: "engine_inv e \<Longrightarrow> compiled_plan p \<Longrightarrow> engine_inv (e\<lparr>eng_pendingPlan := Some p, eng_lastState := st\<rparr>)"
  by (cases "eng_activePlan e") (simp_all add: engine_inv_def)

lemma engine_step_inv: "engine_step e e' \<Longrightarrow> engine_inv e \<Longrightarrow> engine_inv e'"
proof (elim engine_stepE)
  fix state
  assume "engine_inv e" "e' = fst (StageEdit state e)"
  then show "engine_inv e'" using StageEdit_cases [of state e] staged_inv by metis
next
  fix nm
  assume "engine_inv e" "e' = fst (SwitchScene nm e)"
  then show "engine_inv e'" using SwitchScene_cases [of nm e] staged_inv by metis
qed (simp add: tick_inv)

lemma Compile_bpm: "Compile state = Inr plan \<Longrightarrow> ValidateBPM (plan_BPM plan) = None"
  by (auto simp: Compile_def bind_res_Inr_iff split: option.splits)

lemma reachable_inv: "reachable e \<Longrightarrow> engine_inv e"
proof (induction rule: reachable.induct)
  case (new now state e)
  then show ?case
    by (auto simp: NewEngine_def blankEngine_def engine_inv_def compiled_plan_def Let_def split: sum.splits if_splits)
qed (rule engine_step_inv)

text \<open>
  C6: a running engine never shows anything but its plan.  In every engine reachable from
  \<open>NewEngine\<close> by ticks, staged edits and scene switches in any order, the active and the pending plan
  are plans that compiled, and the published frame is the evaluation of the active plan at the
  published position; without an active plan no frame is published.  And no step ever takes the
  active plan or the frame away.
\<close>
theorem engine_publishes_its_plan:
  assumes "reachable e"
  shows "engine_inv e \<and>
    (\<forall>e'. engine_step e e' \<longrightarrow> (eng_activePlan e \<noteq> None \<longrightarrow> eng_activePlan e' \<noteq> None \<and> eng_activeFrame e' \<noteq> None))"
proof (intro conjI allI impI)
  show inv: "engine_inv e" using assms by (rule reachable_inv)
  fix e' assume st: "engine_step e e'" and act: "eng_activePlan e \<noteq> None"
  then show pl: "eng_activePlan e' \<noteq> None"
  proof (cases rule: engine_step.cases)
    case (tick now)
    then show ?thesis using act by (auto simp: tick_def tickLoad_def tickCommit_def Let_def split: option.splits)
  next
    case (stage state)
    then show ?thesis using act StageEdit_cases [of state e] by auto
  next
    case (switch nm)
    then show ?thesis using act SwitchScene_cases [of nm e] by auto
  qed
  then show "eng_activeFrame e' \<noteq> None" using engine_step_inv [OF st inv] by (auto simp: engine_inv_def)
qed

section \<open>Edits\<close>

text \<open>
  An edit never disturbs what is running.  A rejected \<open>StageEdit\<close> or \<open>SwitchScene\<close> leaves the whole
  engine as it was; an accepted one changes only the pending plan and the remembered document, so
  that the active plan, the frame, the position and the clock are the same until a tick adopts
  it, and what it stages is the plan of the edited document (for a switch, of the document with the named
  scene activated).
\<close>
theorem edits_leave_output_alone:
  "(case StageEdit state e of
      (e', Some err) \<Rightarrow> e' = e \<and> Compile state = Inl err
    | (e', None) \<Rightarrow> \<exists>plan. Compile state = Inr plan \<and> e' = e\<lparr>eng_pendingPlan := Some plan, eng_lastState := Some state\<rparr>) \<and>
   (case SwitchScene nm e of
      (e', Some err) \<Rightarrow> e' = e
    | (e', None) \<Rightarrow> \<exists>st ss plan. eng_lastState e = Some st \<and> ActivateScene (st_Scenes st) nm = Inr ss \<and>
        Compile (st\<lparr>st_Scenes := ss\<rparr>) = Inr plan \<and>
        e' = e\<lparr>eng_pendingPlan := Some plan, eng_lastState := Some (st\<lparr>st_Scenes := ss\<rparr>)\<rparr>)"
  by (auto simp: SwitchScene_def StageEdit_def split: option.splits sum.splits)

text \<open>What \<open>tick\<close> does, by cases.\<close>
lemma tick_adopts:
  assumes "eng_activePlan e = Some plan" "eng_pendingPlan e = Some pending"
    and "crossedBarBoundary (eng_lastBar e) (pos_BarIndex (Position now (plan_BPM plan) (plan_BarsPerLoop plan) (eng_loopStart e)))
          (plan_BarsPerLoop plan)"
  shows "eng_activePlan (tick now e) = Some pending" "eng_pendingPlan (tick now e) = None"
    "eng_lastState (tick now e) = eng_lastState e"
    "eng_loopStart (tick now e) = (if plan_BPM pending \<noteq> plan_BPM plan
       then RecomputeEpoch (plan_PreserveOnBPMChange pending) (plan_BPM plan) (plan_BPM pending) (plan_BarsPerLoop plan) (eng_loopStart e) now
       else eng_loopStart e)"
    "eng_activeFrame (tick now e) = Some (Evaluate pending (Position now (plan_BPM pending) (plan_BarsPerLoop pending) (eng_loopStart (tick now e))))"
  using assms by (simp_all add: tick_def tickLoad_def tickCommit_def Let_def)

lemma tick_keeps:
  assumes "eng_activePlan e = Some plan"
    and "eng_pendingPlan e = None \<or> \<not> crossedBarBoundary (eng_lastBar e)
          (pos_BarIndex (Position now (plan_BPM plan) (plan_BarsPerLoop plan) (eng_loopStart e))) (plan_BarsPerLoop plan)"
  shows "eng_activePlan (tick now e) = Some plan" "eng_pendingPlan (tick now e) = eng_pendingPlan e"
    "eng_loopStart (tick now e) = eng_loopStart e"
    "eng_lastBar (tick now e) = pos_BarIndex (Position now (plan_BPM plan) (plan_BarsPerLoop plan) (eng_loopStart e))"
  using assms by (auto simp: tick_def tickLoad_def tickCommit_def Let_def split: option.split)

definition bar_at :: "int \<Rightarrow> f64 \<Rightarrow> int \<Rightarrow> int" where
  "bar_at now bpm loopStart = f_to_int (barsElapsed now bpm loopStart)"

lemma bar_index_mod:
  assumes "ValidateBPM bpm = None" "loopStart \<le> now" "1 \<le> n"
  shows "pos_BarIndex (Position now bpm n loopStart) = bar_at now bpm loopStart mod n" "0 \<le> bar_at now bpm loopStart"
proof -
  obtain b where b: "barsElapsed now bpm loopStart = Fin b" "is_rep b" "0 \<le> b" "b \<le> 73786976296"
    using barsElapsed_rep [OF assms(1,2)] .
  then show "pos_BarIndex (Position now bpm n loopStart) = bar_at now bpm loopStart mod n" "0 \<le> bar_at now bpm loopStart"
    using Position_exact [OF b(3,4,2,1), of n] assms(3) by (simp_all add: bar_at_def f_to_int_floor)
qed

text \<open>
  A staged edit goes live at the next bar.  In a loop of at least two bars, with a plan pending and
  ticks that see two consecutive bars (the usual case: a tick every 25 ms), the tick that first sees the new bar adopts the
  pending plan, publishes its evaluation in the same tick, and clears the pending slot; the tick
  before it, still in the bar of the last tick, did not adopt it.
\<close>
theorem adoption_at_next_bar:
  assumes "reachable e" and "eng_activePlan e = Some plan" and "eng_pendingPlan e = Some pending"
    and "2 \<le> plan_BarsPerLoop plan" and "eng_loopStart e \<le> t1" and "t1 \<le> t2"
    and "eng_lastBar e = bar_at t1 (plan_BPM plan) (eng_loopStart e) mod plan_BarsPerLoop plan"
    and "bar_at t2 (plan_BPM plan) (eng_loopStart e) = bar_at t1 (plan_BPM plan) (eng_loopStart e) + 1"
  shows "eng_activePlan (tick t1 e) = Some plan \<and> eng_pendingPlan (tick t1 e) = Some pending \<and>
    eng_activePlan (tick t2 (tick t1 e)) = Some pending \<and> eng_pendingPlan (tick t2 (tick t1 e)) = None \<and>
    eng_activeFrame (tick t2 (tick t1 e)) = Some (Evaluate pending (CurrentPosition (tick t2 (tick t1 e))))"
proof -
  let ?n = "plan_BarsPerLoop plan" and ?b = "bar_at t1 (plan_BPM plan) (eng_loopStart e)"
  obtain st where "Compile st = Inr plan"
    using reachable_inv [OF assms(1)] assms(2) by (auto simp: engine_inv_def compiled_plan_def)
  then have bpm: "ValidateBPM (plan_BPM plan) = None" using Compile_bpm by blast
  have n: "1 \<le> ?n" using assms(4) by simp
  note p1 = bar_index_mod [OF bpm assms(5) n]
  have t2: "eng_loopStart e \<le> t2" using assms(5,6) by simp
  note p2 = bar_index_mod [OF bpm t2 n]
  have lb: "0 \<le> ?b mod ?n" "?b mod ?n < ?n" using assms(4) by simp_all
  have ne: "(?b + 1) mod ?n \<noteq> ?b mod ?n"
  proof
    assume "(?b + 1) mod ?n = ?b mod ?n"
    then have "?n dvd 1" by (metis add_diff_cancel_left' mod_eq_dvd_iff)
    then show False using assms(4) by (simp add: zdvd_not_zless)
  qed
  have nc: "\<not> crossedBarBoundary (eng_lastBar e) (pos_BarIndex (Position t1 (plan_BPM plan) ?n (eng_loopStart e))) ?n"
    using p1 lb assms(7) by (simp add: crossedBarBoundary_def)
  note k = tick_keeps [OF assms(2) disjI2, OF nc]
  have e1: "eng_activePlan (tick t1 e) = Some plan" "eng_pendingPlan (tick t1 e) = Some pending"
    "eng_loopStart (tick t1 e) = eng_loopStart e" "eng_lastBar (tick t1 e) = ?b mod ?n"
    using k assms(3) p1(1) by simp_all
  have cr: "crossedBarBoundary (eng_lastBar (tick t1 e))
      (pos_BarIndex (Position t2 (plan_BPM plan) ?n (eng_loopStart (tick t1 e)))) ?n"
    using p2 e1 ne assms(8) by (simp add: crossedBarBoundary_def)
  note a = tick_adopts [OF e1(1,2) cr]
  have "engine_inv (tick t2 (tick t1 e))" using tick_inv reachable_inv [OF assms(1)] by blast
  then show ?thesis using e1 a(1,2) by (auto simp: engine_inv_def CurrentPosition_def)
qed

section \<open>Edits that never go live\<close>

lemma go_rem_1 [simp]: "go_rem x 1 = 0"
  by (simp add: go_rem_def go_quot_def sgn_if abs_if)

text \<open>
  In a one-bar loop no edit ever goes live.  Once an engine plays a scene with one bar per loop, its bar
  index is 0 at every time, so no tick, at whatever times and however many, sees a bar
  boundary: the pending plan stays pending forever.
\<close>
theorem one_bar_loop_never_adopts:
  assumes "eng_activePlan e = Some plan" and "plan_BarsPerLoop plan = 1" and "eng_lastBar e = 0"
    and "eng_pendingPlan e = Some pending"
  shows "eng_activePlan (fold tick ts e) = Some plan \<and> eng_pendingPlan (fold tick ts e) = Some pending"
  using assms
proof (induction ts arbitrary: e)
  case (Cons now ts)
  have z: "pos_BarIndex (Position now (plan_BPM plan) (plan_BarsPerLoop plan) (eng_loopStart e)) = 0"
    using Cons.prems(2) by (simp add: Position_def Let_def)
  have nc: "\<not> crossedBarBoundary (eng_lastBar e)
      (pos_BarIndex (Position now (plan_BPM plan) (plan_BarsPerLoop plan) (eng_loopStart e))) (plan_BarsPerLoop plan)"
    unfolding z using Cons.prems by (simp add: crossedBarBoundary_def)
  note k = tick_keeps [OF Cons.prems(1) disjI2, OF nc]
  show ?case using Cons.IH [of "tick now e"] k z Cons.prems by simp
qed simp

text \<open>
  A late tick can miss an adoption.  A tick that comes a whole number of loops later than the bar of the
  last tick sees the same bar index and keeps the old plan, although on-time ticks in between
  would have adopted the pending one at the first of the bars that passed.
\<close>
theorem late_tick_misses_adoption:
  assumes "reachable e" and "eng_activePlan e = Some plan" and "eng_pendingPlan e = Some pending"
    and "2 \<le> plan_BarsPerLoop plan" and "eng_loopStart e \<le> t1" and "t1 \<le> t2" and "0 \<le> k"
    and "eng_lastBar e = bar_at t1 (plan_BPM plan) (eng_loopStart e) mod plan_BarsPerLoop plan"
    and "bar_at t2 (plan_BPM plan) (eng_loopStart e) = bar_at t1 (plan_BPM plan) (eng_loopStart e) + k * plan_BarsPerLoop plan"
  shows "eng_activePlan (tick t2 e) = Some plan \<and> eng_pendingPlan (tick t2 e) = Some pending"
proof -
  let ?n = "plan_BarsPerLoop plan"
  have "ValidateBPM (plan_BPM plan) = None"
    using reachable_inv [OF assms(1)] assms(2) Compile_bpm by (auto simp: engine_inv_def compiled_plan_def)
  then have "pos_BarIndex (Position t2 (plan_BPM plan) ?n (eng_loopStart e)) = eng_lastBar e"
    using bar_index_mod(1) [of "plan_BPM plan" "eng_loopStart e" t2 ?n] assms(4-6,8,9) by simp
  moreover have "0 \<le> eng_lastBar e" "eng_lastBar e < ?n" using assms(4,8) by simp_all
  ultimately have nc: "\<not> crossedBarBoundary (eng_lastBar e) (pos_BarIndex (Position t2 (plan_BPM plan) ?n (eng_loopStart e))) ?n"
    by (simp add: crossedBarBoundary_def)
  show ?thesis using tick_keeps [OF assms(2) disjI2, OF nc] assms(3) by simp
qed

text \<open>
  An idle engine stays idle.  An engine started without an active scene publishes no frame ever again,
  whatever scenes are activated and whatever edits are staged afterwards, because only a tick
  adopts a pending plan and a tick returns at once while there is no active one.
\<close>
theorem idle_engine_never_plays:
  assumes "findActiveScene (st_Scenes state) = None" and "NewEngine now state = Inr e" and "engine_step\<^sup>*\<^sup>* e e'"
  shows "CurrentPlan e' = None \<and> CurrentFrame e' = None"
  using assms(3)
proof (induction rule: rtranclp_induct)
  case base
  then show ?case using assms(1,2) by (auto simp: NewEngine_def Compile_def blankEngine_def CurrentPlan_def CurrentFrame_def)
next
  case (step e1 e2)
  from step.hyps(2) show ?case
  proof (cases rule: engine_step.cases)
    case (tick t)
    then show ?thesis using step.IH by (simp add: tick_def tickLoad_def CurrentPlan_def)
  next
    case (stage st)
    then show ?thesis using step.IH StageEdit_cases [of st e1] by (auto simp: CurrentPlan_def CurrentFrame_def)
  next
    case (switch nm)
    then show ?thesis using step.IH SwitchScene_cases [of nm e1] by (auto simp: CurrentPlan_def CurrentFrame_def)
  qed
qed

text \<open>
  An accepted edit can be lost.  When a tick has loaded a pending plan that it is about to adopt, and another
  goroutine stages a different plan before the tick clears the pending slot, the staging reports
  success but the tick clears the new plan with the old one: afterwards the newer plan is
  neither active nor pending.
\<close>
theorem staged_edit_can_be_lost:
  assumes "tickLoad e = Some (plan, Some pending)"
    and "crossedBarBoundary (eng_lastBar e) (pos_BarIndex (Position now (plan_BPM plan) (plan_BarsPerLoop plan) (eng_loopStart e)))
          (plan_BarsPerLoop plan)"
    and "StageEdit state e = (e1, None)" and "Compile state = Inr newer" and "newer \<noteq> pending"
  shows "eng_activePlan (tickCommit now plan (Some pending) e1) = Some pending \<and>
    eng_pendingPlan (tickCommit now plan (Some pending) e1) = None \<and>
    eng_lastState (tickCommit now plan (Some pending) e1) = Some state \<and> Compile state \<noteq> Inr pending"
proof -
  have "e1 = e\<lparr>eng_pendingPlan := Some newer, eng_lastState := Some state\<rparr>"
    using assms(3,4) by (simp add: StageEdit_def)
  then show ?thesis using assms(2,4,5) by (simp add: tickCommit_def Let_def)
qed

section \<open>Concrete engines\<close>

definition demo_one_bar :: State where
  "demo_one_bar = demo_show\<lparr>st_Scenes := map (\<lambda>s. s\<lparr>scene_BarsPerLoop := 1\<rparr>) (st_Scenes demo_show)\<rparr>"

definition demo_plan_of :: "State \<Rightarrow> CompiledPlan" where
  "demo_plan_of s = (case Compile s of Inr p \<Rightarrow> p | Inl _ \<Rightarrow> \<lparr>plan_SceneID = 0, plan_BPM = F_NaN, plan_BarsPerLoop = 0,
     plan_PreserveOnBPMChange = False, plan_Layers = Map.empty\<rparr>)"

lemma demo_compiles: "Compile demo_show = Inr (demo_plan_of demo_show)" "Compile demo_one_bar = Inr (demo_plan_of demo_one_bar)"
proof -
  have "is_ok (Compile demo_show)" by code_simp
  then show "Compile demo_show = Inr (demo_plan_of demo_show)" by (cases "Compile demo_show") (simp_all add: demo_plan_of_def)
  have "is_ok (Compile demo_one_bar)" by code_simp
  then show "Compile demo_one_bar = Inr (demo_plan_of demo_one_bar)"
    by (cases "Compile demo_one_bar") (simp_all add: demo_plan_of_def)
qed

lemma demo_plan_values:
  "plan_BarsPerLoop (demo_plan_of demo_show) = 4" "plan_BPM (demo_plan_of demo_show) = Fin 120"
  "plan_BarsPerLoop (demo_plan_of demo_one_bar) = 1" "plan_BPM (demo_plan_of demo_one_bar) = Fin 120"
  by (code_simp, code_simp, code_simp, code_simp)

text \<open>Started at time 0 on the four-bar show, with the one-bar show staged.\<close>
definition demo_engine :: Engine where
  "demo_engine = (case NewEngine 0 demo_show of Inr e \<Rightarrow> fst (StageEdit demo_one_bar e) | Inl _ \<Rightarrow> blankEngine 0)"

lemma demo_bars: "bar_at 0 (Fin 120) 0 = 0" "bar_at 2000000000 (Fin 120) 0 = 1" "bar_at 8000000000 (Fin 120) 0 = 4"
  by (code_simp, code_simp, code_simp)

lemma demo_engine_fields:
  "reachable demo_engine" "eng_activePlan demo_engine = Some (demo_plan_of demo_show)"
  "eng_pendingPlan demo_engine = Some (demo_plan_of demo_one_bar)" "eng_lastBar demo_engine = 0" "eng_loopStart demo_engine = 0"
proof -
  have "pos_BarIndex (Position 0 (Fin 120) 4 0) = 0" by code_simp
  note d = this demo_compiles demo_plan_values
  obtain e where e: "NewEngine 0 demo_show = Inr e" by (simp add: NewEngine_def demo_compiles Let_def)
  then have "demo_engine = fst (StageEdit demo_one_bar e)" by (simp add: demo_engine_def)
  then show "reachable demo_engine" using reachable.step [OF reachable.new [OF e] engine_step.stage] by metis
  show "eng_activePlan demo_engine = Some (demo_plan_of demo_show)"
    "eng_pendingPlan demo_engine = Some (demo_plan_of demo_one_bar)" "eng_lastBar demo_engine = 0" "eng_loopStart demo_engine = 0"
    by (simp_all add: demo_engine_def NewEngine_def StageEdit_def blankEngine_def Let_def d)
qed

theorem engine_publishes_its_plan_witness: "engine_inv demo_engine"
  using engine_publishes_its_plan [OF demo_engine_fields(1)] by blast

theorem adoption_at_next_bar_witness:
  "eng_activePlan (tick 2000000000 (tick 0 demo_engine)) = Some (demo_plan_of demo_one_bar)"
  using adoption_at_next_bar [OF demo_engine_fields(1-3), of 0 2000000000]
  by (simp add: demo_plan_values demo_engine_fields demo_bars)

theorem late_tick_misses_adoption_witness:
  "eng_activePlan (tick 8000000000 demo_engine) = Some (demo_plan_of demo_show)"
  using late_tick_misses_adoption [OF demo_engine_fields(1-3), of 0 8000000000 1]
  by (simp add: demo_plan_values demo_engine_fields demo_bars)

definition demo_stuck_engine :: Engine where
  "demo_stuck_engine = (blankEngine 0)\<lparr>eng_activePlan := Some (demo_plan_of demo_one_bar),
     eng_pendingPlan := Some (demo_plan_of demo_show), eng_lastBar := 0\<rparr>"

theorem one_bar_loop_never_adopts_witness:
  "eng_activePlan (fold tick [1000000000, 2000000000, 3000000000] demo_stuck_engine) = Some (demo_plan_of demo_one_bar)"
  using one_bar_loop_never_adopts [of demo_stuck_engine "demo_plan_of demo_one_bar" "demo_plan_of demo_show"
      "[1000000000, 2000000000, 3000000000]"]
  by (simp add: demo_stuck_engine_def demo_plan_values)

theorem idle_engine_never_plays_witness:
  "\<exists>e. NewEngine 0 freshState = Inr e \<and> CurrentFrame (tick 8000000000 (fst (StageEdit demo_show e))) = None"
proof -
  have n: "findActiveScene (st_Scenes freshState) = None" by (simp add: freshState_def findActiveScene_def)
  then obtain e where e: "NewEngine 0 freshState = Inr e" by (simp add: NewEngine_def Compile_def)
  have "engine_step\<^sup>*\<^sup>* e (tick 8000000000 (fst (StageEdit demo_show e)))"
    by (meson engine_step.stage engine_step.tick r_into_rtranclp rtranclp.rtrancl_into_rtrancl)
  from idle_engine_never_plays [OF n e this] e show ?thesis by blast
qed

theorem staged_edit_can_be_lost_witness:
  "\<exists>e1. StageEdit demo_show demo_engine = (e1, None) \<and>
     eng_pendingPlan (tickCommit 2000000000 (demo_plan_of demo_show) (Some (demo_plan_of demo_one_bar)) e1) = None"
proof -
  obtain e1 where e1: "StageEdit demo_show demo_engine = (e1, None)" by (simp add: StageEdit_def demo_compiles)
  have l: "tickLoad demo_engine = Some (demo_plan_of demo_show, Some (demo_plan_of demo_one_bar))"
    by (simp add: tickLoad_def demo_engine_fields)
  have ne: "demo_plan_of demo_show \<noteq> demo_plan_of demo_one_bar" using demo_plan_values by (metis numeral_eq_one_iff verit_eq_simplify(10))
  have "pos_BarIndex (Position 2000000000 (Fin 120) 4 0) = 1" by code_simp
  then have "crossedBarBoundary (eng_lastBar demo_engine) (pos_BarIndex (Position 2000000000 (plan_BPM (demo_plan_of demo_show))
      (plan_BarsPerLoop (demo_plan_of demo_show)) (eng_loopStart demo_engine))) (plan_BarsPerLoop (demo_plan_of demo_show))"
    by (simp add: demo_engine_fields demo_plan_values crossedBarBoundary_def)
  from staged_edit_can_be_lost [OF l this e1 demo_compiles(1) ne] e1 show ?thesis by blast
qed

section \<open>The engine as a frame source\<close>

text \<open>
  What a reader of frames (\<open>FrameSource\<close> in \<open>artnet/worker.go\<close>) may rely on: in a legal state a
  published frame drives no instance outside the source's reach.
\<close>
locale frame_source =
  fixes ok :: "'s \<Rightarrow> bool" and current :: "'s \<Rightarrow> Frame option" and reach :: "'s \<Rightarrow> uuid set"
  assumes current_reach: "ok s \<Longrightarrow> current s = Some f \<Longrightarrow> dom f \<subseteq> reach s"
begin

lemma frame_outside_reach: "ok s \<Longrightarrow> i \<notin> reach s \<Longrightarrow> (case current s of Some f \<Rightarrow> f | None \<Rightarrow> Map.empty) i = None"
  using current_reach [of s] by (cases "current s") (auto simp: domIff)

end

text \<open>The instances the enabled layers of the active plan select.\<close>
definition engine_reach :: "Engine \<Rightarrow> uuid set" where
  "engine_reach e = (case eng_activePlan e of None \<Rightarrow> {} | Some plan \<Rightarrow>
     {i. \<exists>kind layer. plan_Layers plan kind = Some layer \<and> cl_Enabled layer \<and> i \<in> layer_reach layer})"

interpretation engine_frames: frame_source reachable CurrentFrame engine_reach
proof
  fix e f
  assume "reachable e" "CurrentFrame e = Some f"
  then obtain plan pos where "eng_activePlan e = Some plan" "f = Evaluate plan pos"
    using reachable_inv [of e] by (auto simp: engine_inv_def CurrentFrame_def split: option.splits)
  then show "dom f \<subseteq> engine_reach e" using dom_Evaluate [of _ plan pos] by (auto simp: engine_reach_def)
qed

end
