(* ===== verification/ArtnetPacket.thy ===== *)
theory ArtnetPacket
  imports Prelude
begin

text \<open>
  The Art-Net wire format and the output target model: \<open>internal/artnet/packet.go\<close> and
  \<open>internal/artnet/target.go\<close>.  Bytes are \<open>8 word\<close>s and Port-Addresses \<open>16 word\<close>s, so the shifts
  and masks of the source are the word operations of the same name.  A \<open>net.IP\<close> is its byte
  slice (\<open>nil\<close> is the empty list); of the \<open>net\<close> package only \<open>To4\<close>, \<open>Equal\<close> and
  \<open>IsUnspecified\<close> are needed, and \<open>String\<close> is represented by the bytes it prints, the four-byte
  form of an IPv4 address in either representation.

  The theorems: a packet is refused exactly when its data length is illegal and every field can be
  read back from an accepted one; sequence numbers run 1 to 255 round and round and are never 0;
  valid targets on different universes never share a Port-Address; an \<open>ArtPollReply\<close> of any bytes
  is either refused or decoded to at most four 15-bit Port-Addresses.
\<close>

unbundle bit_operations_syntax

section \<open>ArtDMX packets\<close>

type_synonym byte = "8 word"

definition artNetPort :: int where "artNetPort = 6454"
definition opOutputDMX :: "16 word" where "opOutputDMX = 0x5000"
definition protVerHi :: byte where "protVerHi = 0x00"
definition protVerLo :: byte where "protVerLo = 0x0e"

text \<open>The bytes of the string literal \<open>"Art-Net\x00"\<close>.\<close>
definition artNetID :: "byte list" where
  "artNetID = [0x41, 0x72, 0x74, 0x2d, 0x4e, 0x65, 0x74, 0x00]"

text \<open>\<open>binary.LittleEndian.PutUint16\<close> and \<open>binary.BigEndian.PutUint16\<close>.\<close>
definition le16 :: "16 word \<Rightarrow> byte list" where
  "le16 w = [ucast w, ucast (drop_bit 8 w)]"

definition be16 :: "16 word \<Rightarrow> byte list" where
  "be16 w = [ucast (drop_bit 8 w), ucast w]"

definition EncodeArtDMX :: "byte \<Rightarrow> byte \<Rightarrow> 16 word \<Rightarrow> byte list \<Rightarrow> byte list result" where
  "EncodeArtDMX seq physical portAddress data =
     (if length data < 2 \<or> length data > 512 \<or> length data mod 2 \<noteq> 0
        then Inl (Code ''GOLC_ARTNET_DMX_LENGTH_INVALID'')
      else Inr (artNetID @ le16 opOutputDMX @ [protVerHi, protVerLo, seq, physical,
                  ucast (portAddress AND 0xff), ucast (drop_bit 8 portAddress AND 0x7f)] @
                be16 (word_of_nat (length data)) @ data))"

definition PortAddress :: "int \<Rightarrow> 16 word" where
  "PortAddress universe =
     (let subNet = word_of_int (drop_bit 4 universe) AND 0xF;
          universeBits = word_of_int universe AND 0xF;
          net = 0 AND 0x7F in
      push_bit 8 net OR push_bit 4 subNet OR universeBits)"

definition nextSeq :: "byte \<Rightarrow> byte" where
  "nextSeq prev = (if prev = 0 \<or> prev = 255 then 1 else prev + 1)"

section \<open>ArtPoll and ArtPollReply\<close>

definition opPoll :: "16 word" where "opPoll = 0x2000"
definition opPollReply :: "16 word" where "opPollReply = 0x2100"
definition artPollReplyMinLen :: nat where "artPollReplyMinLen = 239"
definition artPollReplyMaxPorts :: int where "artPollReplyMaxPorts = 4"

record ArtPollReply =
  reply_IP :: "byte list"
  reply_ShortName :: "byte list"
  reply_LongName :: "byte list"
  reply_PortAddresses :: "16 word list"

definition EncodeArtPoll :: "byte list" where
  "EncodeArtPoll = artNetID @ le16 opPoll @ [protVerHi, protVerLo, 0x00, 0x00]"

definition artPollReplyNullTerminated :: "byte list \<Rightarrow> byte list" where
  "artPollReplyNullTerminated field = takeWhile (\<lambda>b. b \<noteq> 0) field"

text \<open>\<open>buf[a:b]\<close>, and \<open>net.IPv4\<close>, which builds the sixteen-byte form.\<close>
definition slice :: "nat \<Rightarrow> nat \<Rightarrow> 'a list \<Rightarrow> 'a list" where
  "slice a b xs = take (b - a) (drop a xs)"

definition v4InV6Prefix :: "byte list" where
  "v4InV6Prefix = [0, 0, 0, 0, 0, 0, 0, 0, 0, 0, 0xff, 0xff]"

definition IPv4 :: "byte \<Rightarrow> byte \<Rightarrow> byte \<Rightarrow> byte \<Rightarrow> byte list" where
  "IPv4 a b c d = v4InV6Prefix @ [a, b, c, d]"

definition get_le16 :: "byte list \<Rightarrow> nat \<Rightarrow> 16 word" where
  "get_le16 buf i = ucast (buf ! i) OR push_bit 8 (ucast (buf ! Suc i))"

definition replyPortAddress :: "byte \<Rightarrow> byte \<Rightarrow> byte \<Rightarrow> 16 word" where
  "replyPortAddress netSwitch subSwitch swOut =
     push_bit 8 (ucast netSwitch AND 0x7F) OR push_bit 4 (ucast subSwitch AND 0xF) OR (ucast swOut AND 0xF)"

definition DecodeArtPollReply :: "byte list \<Rightarrow> ArtPollReply result" where
  "DecodeArtPollReply buf =
     (if length buf < artPollReplyMinLen then Inl (Code ''GOLC_ARTNET_POLLREPLY_INVALID'')
      else if slice 0 8 buf \<noteq> artNetID then Inl (Code ''GOLC_ARTNET_POLLREPLY_INVALID'')
      else if get_le16 buf 8 \<noteq> opPollReply then Inl (Code ''GOLC_ARTNET_POLLREPLY_INVALID'')
      else
        let numPorts = uint (buf ! 173); swOut = slice 190 194 buf in
        if numPorts < 0 \<or> numPorts > artPollReplyMaxPorts then Inl (Code ''GOLC_ARTNET_POLLREPLY_INVALID'')
        else Inr \<lparr>reply_IP = IPv4 (buf ! 10) (buf ! 11) (buf ! 12) (buf ! 13),
                   reply_ShortName = artPollReplyNullTerminated (slice 26 44 buf),
                   reply_LongName = artPollReplyNullTerminated (slice 44 108 buf),
                   reply_PortAddresses =
                     map (\<lambda>i. replyPortAddress (buf ! 18) (buf ! 19) (swOut ! i)) [0..<nat numPorts]\<rparr>)"

section \<open>Targets\<close>

record Target =
  tgt_Universe :: int
  tgt_IP :: "byte list"
  tgt_Port :: int
  tgt_Enabled :: bool

definition effectivePort :: "Target \<Rightarrow> int" where
  "effectivePort t = (if tgt_Port t = 0 then artNetPort else tgt_Port t)"

text \<open>\<open>IP.To4\<close>: the four-byte form of an IPv4 address, if it is one.\<close>
definition To4 :: "byte list \<Rightarrow> byte list option" where
  "To4 ip = (if length ip = 4 then Some ip
             else if length ip = 16 \<and> take 12 ip = v4InV6Prefix then Some (drop 12 ip) else None)"

definition ip_Equal :: "byte list \<Rightarrow> byte list \<Rightarrow> bool" where
  "ip_Equal a b =
     (if length a = length b then a = b
      else if length a = 4 \<and> length b = 16 then take 12 b = v4InV6Prefix \<and> a = drop 12 b
      else if length a = 16 \<and> length b = 4 then take 12 a = v4InV6Prefix \<and> drop 12 a = b
      else False)"

definition IsUnspecified :: "byte list \<Rightarrow> bool" where
  "IsUnspecified ip = (ip_Equal ip (IPv4 0 0 0 0) \<or> ip_Equal ip (replicate 16 0))"

definition IPv4bcast :: "byte list" where "IPv4bcast = IPv4 255 255 255 255"

text \<open>What \<open>IP.String\<close> prints: two addresses have one text exactly when these bytes agree.\<close>
definition ip_text :: "byte list \<Rightarrow> byte list" where
  "ip_text ip = (case To4 ip of Some b \<Rightarrow> b | None \<Rightarrow> ip)"

type_synonym targetKey = "int \<times> byte list \<times> int"

definition keyOf :: "Target \<Rightarrow> targetKey" where
  "keyOf t = (tgt_Universe t, ip_text (tgt_IP t), effectivePort t)"

definition artNetMaxUniverse :: int where "artNetMaxUniverse = 255"

definition ValidateTarget :: "Target \<Rightarrow> golc_error option" where
  "ValidateTarget t =
     (if tgt_Universe t < 1 then Some (Code ''GOLC_ARTNET_TARGET_INVALID'')
      else if tgt_Universe t > artNetMaxUniverse then Some (Code ''GOLC_ARTNET_TARGET_INVALID'')
      else if tgt_IP t = [] \<or> IsUnspecified (tgt_IP t) then Some (Code ''GOLC_ARTNET_TARGET_INVALID'')
      else if ip_Equal (tgt_IP t) IPv4bcast then Some (Code ''GOLC_ARTNET_TARGET_INVALID'')
      else let port = effectivePort t in
        if port < 1 \<or> port > 65535 then Some (Code ''GOLC_ARTNET_TARGET_INVALID'') else None)"

definition ValidateUniqueTargets :: "Target list \<Rightarrow> golc_error option" where
  "ValidateUniqueTargets targets = unique_keys (Code ''GOLC_ARTNET_TARGET_DUPLICATE'') keyOf {} targets"

definition SetEnabled :: "Target list \<Rightarrow> Target \<Rightarrow> bool \<Rightarrow> Target list result" where
  "SetEnabled targets match enabled =
     (if \<exists>t\<in>set targets. keyOf t = keyOf match
      then Inr (map (\<lambda>t. if keyOf t = keyOf match then t\<lparr>tgt_Enabled := enabled\<rparr> else t) targets)
      else Inl (Code ''GOLC_ARTNET_TARGET_NOT_FOUND''))"

section \<open>The wire format\<close>

lemma high_low_byte: "push_bit 8 (ucast (ucast (drop_bit 8 w) :: byte)) OR ucast (ucast w :: byte) = (w :: 16 word)"
  by (rule bit_word_eqI) (auto simp: bit_simps not_less)

lemma EncodeArtDMX_Inr:
  "EncodeArtDMX seq physical pa data = Inr pkt \<longleftrightarrow>
     2 \<le> length data \<and> length data \<le> 512 \<and> even (length data) \<and>
     pkt = artNetID @ le16 opOutputDMX @ [protVerHi, protVerLo, seq, physical,
       ucast (pa AND 0xff), ucast (drop_bit 8 pa AND 0x7f)] @ be16 (word_of_nat (length data)) @ data"
  by (auto simp: EncodeArtDMX_def even_iff_mod_2_eq_zero)

lemma portAddress_bytes:
  "push_bit 8 (ucast (ucast (drop_bit 8 pa AND 0x7f) :: byte)) OR ucast (ucast (pa AND 0xff) :: byte)
     = (pa AND 0x7fff :: 16 word)"
proof (rule bit_word_eqI)
  fix n assume n: "n < LENGTH(16)"
  have m: "(0x7f :: 16 word) = mask 7" "(0xff :: 16 word) = mask 8" "(0x7fff :: 16 word) = mask 15"
    by (simp_all add: mask_eq_exp_minus_1)
  show "bit (push_bit 8 (ucast (ucast (drop_bit 8 pa AND 0x7f) :: byte)) OR ucast (ucast (pa AND 0xff) :: byte) :: 16 word) n
      = bit (pa AND 0x7fff) n"
    using n unfolding m by (auto simp: bit_simps not_less)
qed

text \<open>
  C32: The ArtDMX packet. A packet is produced exactly when the DMX data has an even length between
  2 and 512, and otherwise the length error; a produced packet is the eighteen-byte header
  followed by the data, and a receiver that follows the protocol reads back the identifier, the
  opcode, the sequence number, the physical port, the low fifteen bits of the Port-Address and
  the data length that were encoded.
\<close>
theorem EncodeArtDMX_wire_format:
  "case EncodeArtDMX seq physical pa data of
     Inl e \<Rightarrow> e = Code ''GOLC_ARTNET_DMX_LENGTH_INVALID'' \<and>
       length data \<notin> {n. 2 \<le> n \<and> n \<le> 512 \<and> even n}
   | Inr pkt \<Rightarrow> length data \<in> {n. 2 \<le> n \<and> n \<le> 512 \<and> even n} \<and> length pkt = 18 + length data \<and>
       slice 0 8 pkt = artNetID \<and> get_le16 pkt 8 = opOutputDMX \<and> pkt ! 10 = 0 \<and> pkt ! 11 = 14 \<and>
       pkt ! 12 = seq \<and> pkt ! 13 = physical \<and>
       push_bit 8 (ucast (pkt ! 15)) OR ucast (pkt ! 14) = (pa AND 0x7fff) \<and>
       256 * unat (pkt ! 16) + unat (pkt ! 17) = length data \<and> drop 18 pkt = data"
proof (cases "EncodeArtDMX seq physical pa data")
  case (Inl e)
  then show ?thesis by (auto simp: EncodeArtDMX_def even_iff_mod_2_eq_zero split: if_splits)
next
  case (Inr pkt)
  let ?n = "length data"
  from Inr have pkt: "2 \<le> ?n" "?n \<le> 512" "even ?n"
    "pkt = artNetID @ le16 opOutputDMX @ [protVerHi, protVerLo, seq, physical,
       ucast (pa AND 0xff), ucast (drop_bit 8 pa AND 0x7f)] @ be16 (word_of_nat ?n) @ data"
    by (simp_all add: EncodeArtDMX_Inr)
  have len: "256 * unat (ucast (drop_bit 8 (word_of_nat ?n :: 16 word)) :: byte) +
      unat (ucast (word_of_nat ?n :: 16 word) :: byte) = ?n"
  proof -
    have "unat (drop_bit 8 (word_of_nat ?n :: 16 word)) = ?n div 256"
      using pkt(2) by (simp only: unsigned_drop_bit_eq) (simp add: unat_of_nat take_bit_eq_mod drop_bit_eq_div)
    then show ?thesis
      using pkt(2) by (simp add: unsigned_ucast_eq unat_of_nat take_bit_eq_mod)
  qed
  have op: "get_le16 pkt 8 = opOutputDMX"
    unfolding pkt by (simp add: get_le16_def artNetID_def le16_def) code_simp
  have pa: "push_bit 8 (ucast (pkt ! 15)) OR ucast (pkt ! 14) = (pa AND 0x7fff)"
    unfolding pkt by (simp add: artNetID_def le16_def portAddress_bytes)
  show ?thesis
    unfolding Inr sum.case using pkt(1,2,3) op pa len
    by (simp add: pkt(4) slice_def artNetID_def le16_def be16_def protVerHi_def protVerLo_def)
qed

section \<open>Port-Addresses and sequence numbers\<close>

lemma PortAddress_mod: "uint (PortAddress u) = u mod 256"
proof -
  have m: "(0xF :: 16 word) = mask 4" by (simp add: mask_eq_exp_minus_1)
  have "PortAddress u = word_of_int (take_bit 8 u)"
    unfolding PortAddress_def Let_def m by (rule bit_word_eqI) (auto simp: bit_simps not_less)
  then show ?thesis by (simp add: uint_word_of_int take_bit_eq_mod)
qed

lemma ValidateTarget_None:
  "ValidateTarget t = None \<longleftrightarrow> 1 \<le> tgt_Universe t \<and> tgt_Universe t \<le> 255 \<and> tgt_IP t \<noteq> [] \<and>
     \<not> IsUnspecified (tgt_IP t) \<and> \<not> ip_Equal (tgt_IP t) IPv4bcast \<and>
     1 \<le> effectivePort t \<and> effectivePort t \<le> 65535"
  by (auto simp: ValidateTarget_def artNetMaxUniverse_def Let_def)

text \<open>
  No aliasing on the wire. The Port-Address of a universe is its value modulo 256, so two
  targets that pass validation are sent under one Port-Address only when they are on one universe,
  and the Port-Address then is the universe number itself; beyond 255, which validation refuses,
  universes alias.
\<close>
theorem valid_targets_do_not_alias:
  assumes "ValidateTarget a = None" and "ValidateTarget b = None"
  shows "(PortAddress (tgt_Universe a) = PortAddress (tgt_Universe b) \<longleftrightarrow> tgt_Universe a = tgt_Universe b) \<and>
    uint (PortAddress (tgt_Universe a)) = tgt_Universe a \<and>
    PortAddress (tgt_Universe a + 256) = PortAddress (tgt_Universe a)"
proof (intro conjI)
  have id: "uint (PortAddress (tgt_Universe t)) = tgt_Universe t" if "ValidateTarget t = None" for t
    using that by (simp add: PortAddress_mod ValidateTarget_None)
  show "uint (PortAddress (tgt_Universe a)) = tgt_Universe a"
    by (rule id [OF assms(1)])
  show "PortAddress (tgt_Universe a) = PortAddress (tgt_Universe b) \<longleftrightarrow> tgt_Universe a = tgt_Universe b"
    using id [OF assms(1)] id [OF assms(2)] by metis
  show "PortAddress (tgt_Universe a + 256) = PortAddress (tgt_Universe a)"
    by (simp add: word_uint_eq_iff PortAddress_mod)
qed

definition demo_target :: "int \<Rightarrow> byte \<Rightarrow> Target" where
  "demo_target u host = \<lparr>tgt_Universe = u, tgt_IP = [10, 0, 0, host], tgt_Port = 0, tgt_Enabled = True\<rparr>"

lemma zero_ip: "replicate 16 (0 :: byte) = [0, 0, 0, 0, 0, 0, 0, 0, 0, 0, 0, 0, 0, 0, 0, 0]"
  by (simp add: numeral_eq_Suc)

lemma demo_target_valid: "1 \<le> u \<Longrightarrow> u \<le> 255 \<Longrightarrow> ValidateTarget (demo_target u h) = None"
  by (simp add: ValidateTarget_None demo_target_def IsUnspecified_def ip_Equal_def IPv4bcast_def IPv4_def v4InV6Prefix_def
      effectivePort_def artNetPort_def zero_ip)

theorem valid_targets_do_not_alias_witness:
  "ValidateTarget (demo_target 1 5) = None \<and> ValidateTarget (demo_target 255 5) = None \<and>
   PortAddress 1 \<noteq> PortAddress 255 \<and> uint (PortAddress 1) = 1 \<and> PortAddress 257 = PortAddress 1"
  using valid_targets_do_not_alias [of "demo_target 1 5" "demo_target 255 5"] demo_target_valid [of 1 5]
    demo_target_valid [of 255 5]
  by (simp add: demo_target_def)

text \<open>
  Enabling and disabling a target. When no configured target has the key of the request the
  list is refused unchanged; otherwise every target keeps its place and its key, the targets with
  that key get the new flag, and every other target is untouched, so a list without duplicate
  keys stays without them.
\<close>
theorem SetEnabled_exact:
  "case SetEnabled ts m b of
     Inl e \<Rightarrow> e = Code ''GOLC_ARTNET_TARGET_NOT_FOUND'' \<and> keyOf m \<notin> keyOf ` set ts
   | Inr ts' \<Rightarrow> keyOf m \<in> keyOf ` set ts \<and> map keyOf ts' = map keyOf ts \<and>
       ValidateUniqueTargets ts' = ValidateUniqueTargets ts \<and>
       list_all2 (\<lambda>t t'. t' = (if keyOf t = keyOf m then t\<lparr>tgt_Enabled := b\<rparr> else t)) ts ts'"
proof -
  have key: "keyOf (t\<lparr>tgt_Enabled := b\<rparr>) = keyOf t" for t
    by (simp add: keyOf_def effectivePort_def)
  have uniq: "unique_keys e keyOf seen xs = unique_keys e keyOf seen ys" if "map keyOf xs = map keyOf ys" for e seen xs ys
  proof -
    have "unique_keys e keyOf seen zs = unique_keys e id seen (map keyOf zs)" for zs seen
      by (induction zs arbitrary: seen) simp_all
    then show ?thesis using that by metis
  qed
  let ?f = "\<lambda>t. if keyOf t = keyOf m then t\<lparr>tgt_Enabled := b\<rparr> else t"
  have same: "map keyOf (map ?f ts) = map keyOf ts" by (simp add: key)
  have eff: "list_all2 (\<lambda>t t'. t' = ?f t) ts (map ?f ts)"
    by (simp add: list_all2_map2 list_all2_same)
  show ?thesis
  proof (cases "\<exists>t\<in>set ts. keyOf t = keyOf m")
    case True
    then have "keyOf m \<in> keyOf ` set ts" by (auto intro: rev_image_eqI)
    then show ?thesis
      using True eff same uniq [OF same] by (simp only: SetEnabled_def ValidateUniqueTargets_def if_True sum.case simp_thms)
  next
    case False
    then have "keyOf m \<notin> keyOf ` set ts" by (metis imageE)
    then show ?thesis using False by (simp only: SetEnabled_def if_False sum.case simp_thms)
  qed
qed

lemma nextSeq_int: "uint (nextSeq p) = uint p mod 255 + 1"
proof -
  have b: "uint p < 256" "0 \<le> uint p" using uint_bounded [of p] by simp_all
  show ?thesis
  proof (cases "p = 0 \<or> p = 255")
    case True
    then show ?thesis by (auto simp: nextSeq_def)
  next
    case False
    then have "uint p \<noteq> uint (0::byte)" "uint p \<noteq> uint (255::byte)"
      by (auto simp only: word_uint_eq_iff [symmetric])
    then have "0 < uint p" "uint p < 255" using b by (simp_all add: order_less_le)
    then show ?thesis using False by (simp add: nextSeq_def uint_plus_if' )
  qed
qed

text \<open>
  Sequence numbers. Counting from the zero value, the n-th packet of a universe carries the
  sequence number \<open>(n - 1) mod 255 + 1\<close>: the numbers run 1, 2, ..., 255, 1, ... without a gap and
  never take the value 0, which would switch off reordering at the receiver.
\<close>
theorem nextSeq_cycle:
  "uint ((nextSeq ^^ Suc n) 0) = int n mod 255 + 1"
proof (induction n)
  case 0
  show ?case by (simp add: nextSeq_def)
next
  case (Suc n)
  have "uint ((nextSeq ^^ Suc (Suc n)) 0) = uint ((nextSeq ^^ Suc n) 0) mod 255 + 1"
    by (simp add: nextSeq_int)
  then show ?case unfolding Suc by (simp add: mod_simps add.commute)
qed

section \<open>Decoding replies from the network\<close>

lemma replyPortAddress_15bit: "replyPortAddress n s p = replyPortAddress n s p AND 0x7fff"
proof -
  have m: "(0xF :: 16 word) = mask 4" "(0x7F :: 16 word) = mask 7" "(0x7fff :: 16 word) = mask 15"
    by (simp_all add: mask_eq_exp_minus_1)
  show ?thesis unfolding replyPortAddress_def m by (rule bit_word_eqI) (auto simp: bit_simps)
qed

lemma declared_ports: "4 < uint w \<longleftrightarrow> 4 < unat (w :: byte)"
  by (simp only: unat_eq_nat_uint zless_nat_eq_int_zless of_nat_numeral)

text \<open>The replies the decoder accepts: long enough, the identifier, the opcode, at most four ports.\<close>
definition reply_wf :: "byte list \<Rightarrow> bool" where
  "reply_wf buf = (239 \<le> length buf \<and> take 8 buf = artNetID \<and> get_le16 buf 8 = opPollReply \<and>
     unat (buf ! 173) \<le> 4)"

text \<open>
  C34: Replies from the network. Every byte string is either refused with the one diagnostic, or is
  long enough that each fixed-offset field lies inside it, and then the reply lists exactly the
  declared number of Port-Addresses, at most four, each a fifteen-bit address read from its own
  output slot; the names are at most 18 and 64 bytes and hold no zero byte.
\<close>
theorem DecodeArtPollReply_bounded:
  "case DecodeArtPollReply buf of
     Inl e \<Rightarrow> e = Code ''GOLC_ARTNET_POLLREPLY_INVALID'' \<and> \<not> reply_wf buf
   | Inr r \<Rightarrow> reply_wf buf \<and> reply_IP r = v4InV6Prefix @ slice 10 14 buf \<and>
       reply_PortAddresses r = map (\<lambda>p. replyPortAddress (buf ! 18) (buf ! 19) p) (take (unat (buf ! 173)) (drop 190 buf)) \<and>
       length (reply_PortAddresses r) = unat (buf ! 173) \<and>
       list_all (\<lambda>pa. pa = (pa AND 0x7fff)) (reply_PortAddresses r) \<and>
       length (reply_ShortName r) \<le> 18 \<and> 0 \<notin> set (reply_ShortName r) \<and>
       length (reply_LongName r) \<le> 64 \<and> 0 \<notin> set (reply_LongName r)"
proof (cases "DecodeArtPollReply buf")
  case (Inl e)
  then show ?thesis
    by (auto simp: DecodeArtPollReply_def reply_wf_def artPollReplyMinLen_def artPollReplyMaxPorts_def slice_def
        Let_def declared_ports split: if_splits)
next
  case (Inr r)
  then have wf: "reply_wf buf" and
    r: "r = \<lparr>reply_IP = IPv4 (buf ! 10) (buf ! 11) (buf ! 12) (buf ! 13),
       reply_ShortName = artPollReplyNullTerminated (slice 26 44 buf),
       reply_LongName = artPollReplyNullTerminated (slice 44 108 buf),
       reply_PortAddresses = map (\<lambda>i. replyPortAddress (buf ! 18) (buf ! 19) (slice 190 194 buf ! i)) [0..<nat (uint (buf ! 173))]\<rparr>"
    by (auto simp: DecodeArtPollReply_def reply_wf_def artPollReplyMinLen_def artPollReplyMaxPorts_def slice_def
        Let_def declared_ports split: if_splits)
  from wf have len: "239 \<le> length buf" and n: "unat (buf ! 173) \<le> 4"
    by (simp_all add: reply_wf_def)
  have ports: "reply_PortAddresses r = map (\<lambda>p. replyPortAddress (buf ! 18) (buf ! 19) p) (take (unat (buf ! 173)) (drop 190 buf))"
    using len n by (auto simp: r slice_def intro!: nth_equalityI)
  have ip: "reply_IP r = v4InV6Prefix @ slice 10 14 buf"
    using len by (auto simp: r IPv4_def slice_def intro!: nth_equalityI simp: nth_append nth_Cons' less_Suc_eq numeral_eq_Suc)
  show ?thesis
    unfolding Inr sum.case using wf ip ports len n
    by (auto simp: r artPollReplyNullTerminated_def slice_def list_all_iff replyPortAddress_15bit [symmetric]
        intro: order_trans [OF length_takeWhile_le] dest: set_takeWhileD)
qed

end
