(* ===== verification/ArtnetOutput.thy ===== *)
theory ArtnetOutput
  imports Engine ArtnetPacket
begin

text \<open>
  From a published frame to DMX bytes: \<open>internal/artnet/channelmap.go\<close> (the channel map),
  \<open>internal/artnet/safety.go\<close> (blackout, stop-all, revoke and the master levels) and
  \<open>internal/artnet/desk.go\<close> (manual faders).  A frame is the playback component's
  \<open>Frame\<close>.  The \<open>atomic\<close> cells are plain fields: each operation stores its cell once.  A nil
  \<open>*safetyState\<close> or \<open>*deskState\<close> is \<open>None\<close>.

  The theorems: \<open>Encode\<close> succeeds exactly on resolvable, fully valued, in-range instances and its
  buffers are the last-write-wins image of the declared channel layouts; blackout zeroes and
  masters never raise an intensity, and neither touches any other attribute; the desk is a map
  update and its values are the ones \<open>Encode\<close> sees.
\<close>

section \<open>Channel map\<close>

record InstanceFixture =
  fx_Definition :: FixtureDefinition
  fx_Mode :: Mode

type_synonym ResolveFunc = "Instance \<Rightarrow> InstanceFixture result"

definition dmxChannels :: int where "dmxChannels = 512"

definition scaleToByte :: "f64 \<Rightarrow> byte" where
  "scaleToByte v = (if v \<le> Fin 0 then 0 else if v \<ge> Fin 1 then 255 else f_to_byte (v * Fin 255))"

text \<open>The inner loop of \<open>Encode\<close>: \<open>k\<close> is \<open>channelIndex\<close> and the list the slots from there on.\<close>
fun encodeChannels ::
  "Instance \<Rightarrow> AttributeSet \<Rightarrow> nat \<Rightarrow> ChannelSlot list \<Rightarrow> byte list \<Rightarrow> byte list result" where
  "encodeChannels i attrs k [] buffer = Inr buffer"
| "encodeChannels i attrs k (s # slots) buffer =
     (case attrs (slot_Type s) of
        None \<Rightarrow> Inl (Code ''GOLC_ARTNET_CHANNEL_VALUE_MISSING'')
      | Some v \<Rightarrow>
          let offset = wrap64 (inst_Address i - 1 + int k) in
          if offset < 0 \<or> offset \<ge> dmxChannels then Inl (Code ''GOLC_ARTNET_CHANNEL_LAYOUT_MISSING'')
          else encodeChannels i attrs (Suc k) slots (buffer[nat offset := scaleToByte v]))"

fun encodeInstances ::
  "Frame \<Rightarrow> ResolveFunc \<Rightarrow> Instance list \<Rightarrow> (int \<rightharpoonup> byte list) \<Rightarrow> (int \<rightharpoonup> byte list) result" where
  "encodeInstances frame resolve [] buffers = Inr buffers"
| "encodeInstances frame resolve (i # is) buffers =
     (case resolve i of
        Inl e \<Rightarrow> Inl e
      | Inr fx \<Rightarrow>
          if mode_Channels (fx_Mode fx) = [] then Inl (Code ''GOLC_ARTNET_CHANNEL_LAYOUT_MISSING'')
          else
            let buffer = (case buffers (inst_Universe i) of Some b \<Rightarrow> b | None \<Rightarrow> replicate (nat dmxChannels) 0) in
            case frame (inst_ID i) of
              None \<Rightarrow> encodeInstances frame resolve is (buffers(inst_Universe i \<mapsto> buffer))
            | Some attrs \<Rightarrow>
                bind_res (encodeChannels i attrs 0 (mode_Channels (fx_Mode fx)) buffer) (\<lambda>buffer'.
                  encodeInstances frame resolve is (buffers(inst_Universe i \<mapsto> buffer'))))"

definition Encode :: "Frame \<Rightarrow> Instance list \<Rightarrow> ResolveFunc \<Rightarrow> (int \<rightharpoonup> byte list) result" where
  "Encode frame instances resolve = encodeInstances frame resolve instances Map.empty"

section \<open>Safety and masters\<close>

record masterLevels =
  ml_grand :: f64
  ml_groups :: "uuid \<rightharpoonup> f64"

definition identityMasterLevels :: masterLevels where
  "identityMasterLevels = \<lparr>ml_grand = Fin 1, ml_groups = Map.empty\<rparr>"

record safetyState =
  sf_blackout :: bool
  sf_stopAll :: bool
  sf_revokeAutomation :: bool
  sf_masters :: "masterLevels option"

definition newSafetyState :: safetyState where
  "newSafetyState = \<lparr>sf_blackout = False, sf_stopAll = False, sf_revokeAutomation = False,
                     sf_masters = Some identityMasterLevels\<rparr>"

definition currentMasters :: "safetyState option \<Rightarrow> masterLevels" where
  "currentMasters s = (case s of None \<Rightarrow> identityMasterLevels
                         | Some st \<Rightarrow> (case sf_masters st of Some m \<Rightarrow> m | None \<Rightarrow> identityMasterLevels))"

definition setBlackout :: "bool \<Rightarrow> safetyState \<Rightarrow> safetyState" where
  "setBlackout on s = s\<lparr>sf_blackout := on\<rparr>"

definition setStopAll :: "bool \<Rightarrow> safetyState \<Rightarrow> safetyState" where
  "setStopAll on s = s\<lparr>sf_stopAll := on\<rparr>"

definition setRevokeAutomation :: "bool \<Rightarrow> safetyState \<Rightarrow> safetyState" where
  "setRevokeAutomation on s = s\<lparr>sf_revokeAutomation := on\<rparr>"

definition revokeActive :: "safetyState option \<Rightarrow> bool" where
  "revokeActive s = (case s of None \<Rightarrow> False | Some st \<Rightarrow> sf_revokeAutomation st)"

definition validateMasterLevel :: "f64 \<Rightarrow> golc_error option" where
  "validateMasterLevel level =
     (if level < Fin 0 \<or> level > Fin 1 then Some (Code ''GOLC_ARTNET_SAFETY_MASTER_INVALID'') else None)"

definition setGrandMaster :: "f64 \<Rightarrow> safetyState \<Rightarrow> safetyState \<times> golc_error option" where
  "setGrandMaster level s =
     (case validateMasterLevel level of
        Some e \<Rightarrow> (s, Some e)
      | None \<Rightarrow> (s\<lparr>sf_masters := Some \<lparr>ml_grand = level, ml_groups = ml_groups (currentMasters (Some s))\<rparr>\<rparr>, None))"

definition setGroupMaster :: "uuid \<Rightarrow> f64 \<Rightarrow> safetyState \<Rightarrow> safetyState \<times> golc_error option" where
  "setGroupMaster groupID level s =
     (case validateMasterLevel level of
        Some e \<Rightarrow> (s, Some e)
      | None \<Rightarrow>
          let current = currentMasters (Some s) in
          (s\<lparr>sf_masters := Some \<lparr>ml_grand = ml_grand current, ml_groups = (ml_groups current)(groupID \<mapsto> level)\<rparr>\<rparr>, None))"

definition clampUnit :: "f64 \<Rightarrow> f64" where
  "clampUnit v = (if v < Fin 0 then Fin 0 else if v > Fin 1 then Fin 1 else v)"

text \<open>Membership is the map \<open>buildMembership\<close> builds; an absent instance has the nil slice.\<close>
definition effectiveMultiplier :: "uuid \<Rightarrow> masterLevels \<Rightarrow> (uuid \<Rightarrow> uuid list) \<Rightarrow> f64" where
  "effectiveMultiplier instanceID masters membership =
     fold (\<lambda>g m. case ml_groups masters g of Some level \<Rightarrow> m * level | None \<Rightarrow> m)
       (membership instanceID) (ml_grand masters)"

definition zeroedAttributeSet :: "AttributeSet \<Rightarrow> AttributeSet" where
  "zeroedAttributeSet attrs = (\<lambda>c. map_option (\<lambda>v. if c = CapabilityIntensity then Fin 0 else v) (attrs c))"

definition scaledAttributeSet :: "AttributeSet \<Rightarrow> f64 \<Rightarrow> AttributeSet" where
  "scaledAttributeSet attrs multiplier =
     (\<lambda>c. map_option (\<lambda>v. if c = CapabilityIntensity then clampUnit (v * multiplier) else v) (attrs c))"

definition dark :: "safetyState option \<Rightarrow> bool" where
  "dark s = (case s of None \<Rightarrow> False | Some st \<Rightarrow> sf_blackout st \<or> sf_stopAll st)"

text \<open>The early return on an empty frame is the same map: there is no entry to transform.\<close>
definition applyOverrides :: "Frame \<Rightarrow> safetyState option \<Rightarrow> (uuid \<Rightarrow> uuid list) \<Rightarrow> Frame" where
  "applyOverrides frame s membership =
     (let blackout = dark s; masters = currentMasters s in
      (\<lambda>i. map_option (\<lambda>attrs. if blackout then zeroedAttributeSet attrs
             else scaledAttributeSet attrs (effectiveMultiplier i masters membership)) (frame i)))"

definition buildMembership :: "Instance list \<Rightarrow> Group list \<Rightarrow> uuid \<Rightarrow> uuid list" where
  "buildMembership instances groups =
     fold (\<lambda>i m. fold (\<lambda>g m.
         if \<exists>r\<in>set (group_MemberRefs g). ref_PoolID r = inst_PoolID i \<and> ref_PoolMemberID r = inst_PoolMemberID i
         then m(inst_ID i := m (inst_ID i) @ [group_ID g]) else m) groups m)
       instances (\<lambda>_. [])"

section \<open>The desk\<close>

type_synonym deskState = "(uuid \<rightharpoonup> AttributeSet) option"

definition newDeskState :: "uuid \<rightharpoonup> AttributeSet" where "newDeskState = Map.empty"

definition currentOverrides :: "deskState \<Rightarrow> (uuid \<rightharpoonup> AttributeSet)" where
  "currentOverrides d = (case d of None \<Rightarrow> Map.empty | Some m \<Rightarrow> m)"

definition validateDeskValue :: "f64 \<Rightarrow> golc_error option" where
  "validateDeskValue v = (if v < Fin 0 \<or> v > Fin 1 then Some (Code ''GOLC_ARTNET_DESK_VALUE_INVALID'') else None)"

definition validateDeskCapability :: "CapabilityType \<Rightarrow> golc_error option" where
  "validateDeskCapability c =
     (if \<exists>supported\<in>set SupportedCapabilityTypes. c = supported then None
      else Some (Code ''GOLC_ARTNET_DESK_CAPABILITY_INVALID''))"

definition setAttribute ::
  "uuid \<Rightarrow> CapabilityType \<Rightarrow> f64 \<Rightarrow> (uuid \<rightharpoonup> AttributeSet) \<Rightarrow> (uuid \<rightharpoonup> AttributeSet) \<times> golc_error option" where
  "setAttribute instanceID capType v d =
     (case validateDeskCapability capType of
        Some e \<Rightarrow> (d, Some e)
      | None \<Rightarrow> (case validateDeskValue v of
          Some e \<Rightarrow> (d, Some e)
        | None \<Rightarrow> (let existing = (case d instanceID of Some a \<Rightarrow> a | None \<Rightarrow> Map.empty) in
            (d(instanceID \<mapsto> existing(capType \<mapsto> v)), None))))"

definition clearAttribute ::
  "uuid \<Rightarrow> CapabilityType \<Rightarrow> (uuid \<rightharpoonup> AttributeSet) \<Rightarrow> (uuid \<rightharpoonup> AttributeSet)" where
  "clearAttribute instanceID capType d =
     (case d instanceID of
        None \<Rightarrow> d
      | Some existing \<Rightarrow>
          if existing capType = None then d
          else let values = existing(capType := None) in
            if values = Map.empty then d(instanceID := None) else d(instanceID \<mapsto> values))"

definition clearInstance :: "uuid \<Rightarrow> (uuid \<rightharpoonup> AttributeSet) \<Rightarrow> (uuid \<rightharpoonup> AttributeSet)" where
  "clearInstance instanceID d = (if d instanceID = None then d else d(instanceID := None))"

definition clearAll :: "(uuid \<rightharpoonup> AttributeSet) \<Rightarrow> (uuid \<rightharpoonup> AttributeSet)" where
  "clearAll d = Map.empty"

text \<open>With no override the frame is returned as it is, which the map below also gives.\<close>
definition applyDeskOverrides :: "Frame \<Rightarrow> (uuid \<rightharpoonup> AttributeSet) \<Rightarrow> Frame" where
  "applyDeskOverrides frame overrides =
     (\<lambda>i. case overrides i of
        None \<Rightarrow> frame i
      | Some override \<Rightarrow> Some (Overlay (case frame i of Some a \<Rightarrow> a | None \<Rightarrow> Map.empty) override))"

section \<open>What Encode writes\<close>

text \<open>Reference semantics: the bytes an instance writes, in channel order, as offset and value.\<close>
definition chan_writes :: "Instance \<Rightarrow> AttributeSet \<Rightarrow> nat \<Rightarrow> ChannelSlot list \<Rightarrow> (nat \<times> byte) list" where
  "chan_writes i attrs k slots =
     map (\<lambda>(j, s). (nat (inst_Address i - 1) + j, scaleToByte (the (attrs (slot_Type s))))) (enumerate k slots)"

definition channels_of :: "ResolveFunc \<Rightarrow> Instance \<Rightarrow> ChannelSlot list" where
  "channels_of resolve i = (case resolve i of Inr fx \<Rightarrow> mode_Channels (fx_Mode fx) | Inl _ \<Rightarrow> [])"

definition inst_writes :: "Frame \<Rightarrow> ResolveFunc \<Rightarrow> Instance \<Rightarrow> (nat \<times> byte) list" where
  "inst_writes frame resolve i =
     (case frame (inst_ID i) of None \<Rightarrow> [] | Some attrs \<Rightarrow> chan_writes i attrs 0 (channels_of resolve i))"

definition all_writes :: "Frame \<Rightarrow> ResolveFunc \<Rightarrow> Instance list \<Rightarrow> ((int \<times> nat) \<times> byte) list" where
  "all_writes frame resolve is =
     concat (map (\<lambda>i. map (\<lambda>(o', b). ((inst_Universe i, o'), b)) (inst_writes frame resolve i)) is)"

text \<open>An instance \<open>Encode\<close> can render: its fixture resolves to a non-empty layout, and if the frame
  has an entry for it, that entry has a value for every channel and the channels fit the universe.\<close>
definition encodable :: "Frame \<Rightarrow> ResolveFunc \<Rightarrow> Instance \<Rightarrow> bool" where
  "encodable frame resolve i =
     (is_ok (resolve i) \<and> channels_of resolve i \<noteq> [] \<and>
      (case frame (inst_ID i) of None \<Rightarrow> True | Some attrs \<Rightarrow>
         (\<forall>s\<in>set (channels_of resolve i). attrs (slot_Type s) \<noteq> None) \<and>
         nat (inst_Address i - 1) + length (channels_of resolve i) \<le> 512))"

definition upd_bytes :: "(nat \<times> byte) list \<Rightarrow> byte list \<Rightarrow> byte list" where
  "upd_bytes ws buf = fold (\<lambda>(o', b) buf. buf[o' := b]) ws buf"

lemma upd_bytes_simps [simp]:
  "upd_bytes [] buf = buf" "upd_bytes (w # ws) buf = upd_bytes ws (buf[fst w := snd w])"
  "length (upd_bytes ws buf) = length buf"
proof -
  show "length (upd_bytes ws buf) = length buf"
    unfolding upd_bytes_def by (induction ws arbitrary: buf) (auto simp: case_prod_beta)
qed (simp_all add: upd_bytes_def case_prod_beta)

lemma upd_bytes_nth:
  "o' < length buf \<Longrightarrow> upd_bytes ws buf ! o' = (case map_of (rev ws) o' of Some b \<Rightarrow> b | None \<Rightarrow> buf ! o')"
  by (induction ws arbitrary: buf) (auto simp: map_add_def nth_list_update split: option.splits)

lemma chan_writes_simps [simp]:
  "chan_writes i attrs k [] = []"
  "chan_writes i attrs k (s # slots) =
     (nat (inst_Address i - 1) + k, scaleToByte (the (attrs (slot_Type s)))) # chan_writes i attrs (Suc k) slots"
  by (simp_all add: chan_writes_def)

lemma encodeChannels_Inr:
  assumes "1 \<le> inst_Address i" "inst_Address i \<le> 512"
  shows "k \<le> 512 \<Longrightarrow> encodeChannels i attrs k slots buf = Inr buf' \<longleftrightarrow>
    (\<forall>s\<in>set slots. attrs (slot_Type s) \<noteq> None) \<and>
    (slots = [] \<or> nat (inst_Address i - 1) + k + length slots \<le> 512) \<and>
    buf' = upd_bytes (chan_writes i attrs k slots) buf"
proof (induction slots arbitrary: k buf)
  case Nil
  then show ?case by auto
next
  case (Cons s slots)
  have w: "wrap64 (inst_Address i - 1 + int k) = inst_Address i - 1 + int k"
    using assms Cons.prems by (intro wrap64_id) (simp add: is_int64_def min_int64_def max_int64_def)
  have n: "nat (inst_Address i - 1 + int k) = nat (inst_Address i - 1) + k"
    using assms by (simp add: nat_add_distrib)
  show ?case
  proof (cases "attrs (slot_Type s)")
    case None
    then show ?thesis by simp
  next
    case (Some v)
    show ?thesis
    proof (cases "inst_Address i - 1 + int k < 512")
      case True
      then have k: "Suc k \<le> 512" "nat (inst_Address i - 1) + k + 1 \<le> 512" using assms by linarith+
      have "encodeChannels i attrs k (s # slots) buf =
          encodeChannels i attrs (Suc k) slots (buf[nat (inst_Address i - 1) + k := scaleToByte v])"
        using True assms by (simp add: Some w n dmxChannels_def Let_def)
      then show ?thesis
        using k(2) by (cases "slots = []") (auto simp: Cons.IH [OF k(1)] Some)
    next
      case False
      then have "\<not> nat (inst_Address i - 1) + k + length (s # slots) \<le> 512" using assms by simp
      moreover have "encodeChannels i attrs k (s # slots) buf = Inl (Code ''GOLC_ARTNET_CHANNEL_LAYOUT_MISSING'')"
        using False by (simp add: Some w dmxChannels_def Let_def)
      ultimately show ?thesis by (simp only: sum.distinct list.distinct simp_thms)
    qed
  qed
qed

text \<open>One turn of the outer loop, on the buffers, and the byte a set of buffers holds at a slot.\<close>
definition encode_step :: "Frame \<Rightarrow> ResolveFunc \<Rightarrow> Instance \<Rightarrow> (int \<rightharpoonup> byte list) \<Rightarrow> (int \<rightharpoonup> byte list)" where
  "encode_step frame resolve i B =
     B(inst_Universe i \<mapsto> upd_bytes (inst_writes frame resolve i)
         (case B (inst_Universe i) of Some b \<Rightarrow> b | None \<Rightarrow> replicate 512 0))"

definition byte_at :: "(int \<rightharpoonup> byte list) \<Rightarrow> int \<Rightarrow> nat \<Rightarrow> byte" where
  "byte_at B u o' = (case B u of Some b \<Rightarrow> b ! o' | None \<Rightarrow> 0)"

lemma encodeInstances_step:
  assumes a: "1 \<le> inst_Address i" "inst_Address i \<le> 512"
  shows "encodeInstances frame resolve (i # is) B = Inr B' \<longleftrightarrow>
    encodable frame resolve i \<and> encodeInstances frame resolve is (encode_step frame resolve i B) = Inr B'"
proof (cases "resolve i")
  case (Inl e)
  then show ?thesis by (simp add: encodable_def is_ok_def)
next
  case (Inr fx)
  then have c: "channels_of resolve i = mode_Channels (fx_Mode fx)" by (simp add: channels_of_def)
  let ?buf = "case B (inst_Universe i) of None \<Rightarrow> replicate 512 0 | Some b \<Rightarrow> b"
  show ?thesis
  proof (cases "mode_Channels (fx_Mode fx) = []")
    case True
    then show ?thesis by (simp add: Inr c encodable_def)
  next
    case False
    show ?thesis
    proof (cases "frame (inst_ID i)")
      case None
      then show ?thesis
        using False by (cases "B (inst_Universe i)")
          (simp_all add: Inr c encodable_def is_ok_def dmxChannels_def Let_def inst_writes_def encode_step_def)
    next
      case (Some attrs)
      have "encodeInstances frame resolve (i # is) B =
          bind_res (encodeChannels i attrs 0 (mode_Channels (fx_Mode fx)) ?buf)
            (\<lambda>b. encodeInstances frame resolve is (B(inst_Universe i \<mapsto> b)))"
        using False Some Inr by (cases "B (inst_Universe i)") (simp_all add: dmxChannels_def Let_def)
      then show ?thesis
        using False encodeChannels_Inr [OF a, of 0 attrs "mode_Channels (fx_Mode fx)" ?buf]
        by (auto simp: bind_res_Inr_iff Inr Some c encodable_def is_ok_def inst_writes_def encode_step_def)
    qed
  qed
qed

lemma encodeInstances_Inr:
  assumes "addresses_valid is"
  shows "encodeInstances frame resolve is B = Inr B' \<longleftrightarrow>
    (\<forall>i\<in>set is. encodable frame resolve i) \<and> B' = fold (encode_step frame resolve) is B"
  using assms
proof (induction "is" arbitrary: B)
  case Nil
  then show ?case by auto
next
  case (Cons i "is")
  then have a: "1 \<le> inst_Address i" "inst_Address i \<le> 512" and v: "addresses_valid is"
    by (auto simp: addresses_valid_def ValidateInstanceAddress_None channelsPerUniverse_def)
  show ?case by (simp only: encodeInstances_step [OF a] Cons.IH [OF v]) simp
qed

lemma encode_step_byte:
  assumes "\<And>b. B u = Some b \<Longrightarrow> length b = 512" "o' < 512"
  shows "byte_at (encode_step frame resolve i B) u o' =
    (case map_of (rev (map (\<lambda>(o', b). ((inst_Universe i, o'), b)) (inst_writes frame resolve i))) (u, o') of
       Some b \<Rightarrow> b | None \<Rightarrow> byte_at B u o')"
proof -
  have key: "map_of (map (\<lambda>(o', b). ((v, o'), b)) ws) (u, o') = (if u = v then map_of ws o' else None)" for v ws
    by (induction ws) auto
  show ?thesis
    using assms
    by (auto simp: byte_at_def encode_step_def upd_bytes_nth rev_map key split: option.splits)
qed

lemma fold_encode_step:
  assumes "\<And>u b. B u = Some b \<Longrightarrow> length b = 512"
  shows "dom (fold (encode_step frame resolve) is B) = inst_Universe ` set is \<union> dom B \<and>
    (\<forall>u b. fold (encode_step frame resolve) is B u = Some b \<longrightarrow> length b = 512) \<and>
    (\<forall>u o'. o' < 512 \<longrightarrow> byte_at (fold (encode_step frame resolve) is B) u o' =
       (case map_of (rev (all_writes frame resolve is)) (u, o') of Some b \<Rightarrow> b | None \<Rightarrow> byte_at B u o'))"
  using assms
proof (induction "is" arbitrary: B)
  case Nil
  then show ?case by (auto simp: all_writes_def)
next
  case (Cons i "is")
  let ?B = "encode_step frame resolve i B"
  have len: "length b = 512" if "?B u = Some b" for u b
    using that Cons.prems by (auto simp: encode_step_def split: if_splits option.splits)
  have d: "dom ?B = insert (inst_Universe i) (dom B)" by (simp add: encode_step_def)
  have w: "map_of (rev (all_writes frame resolve (i # is))) (u, o') =
      (case map_of (rev (all_writes frame resolve is)) (u, o') of Some b \<Rightarrow> Some b
       | None \<Rightarrow> map_of (rev (map (\<lambda>(o', b). ((inst_Universe i, o'), b)) (inst_writes frame resolve i))) (u, o'))" for u o'
    by (simp add: all_writes_def map_add_def)
  from Cons.IH [OF len] show ?case
    unfolding fold_simps w
    by (auto simp: d encode_step_byte [OF Cons.prems] split: option.splits)
qed

lemma Encode_Inr:
  assumes "addresses_valid instances" "Encode frame instances resolve = Inr B"
  shows "\<forall>i\<in>set instances. encodable frame resolve i" "dom B = inst_Universe ` set instances"
    "B u = Some buf \<Longrightarrow> length buf = 512"
    "B u = Some buf \<Longrightarrow> o' < 512 \<Longrightarrow>
       buf ! o' = (case map_of (rev (all_writes frame resolve instances)) (u, o') of Some b \<Rightarrow> b | None \<Rightarrow> 0)"
proof -
  have ok: "\<forall>i\<in>set instances. encodable frame resolve i" and B: "B = fold (encode_step frame resolve) instances Map.empty"
    using encodeInstances_Inr [OF assms(1)] assms(2) by (auto simp: Encode_def)
  have "byte_at Map.empty = (\<lambda>_ _. 0)" by (simp add: byte_at_def fun_eq_iff)
  then have f: "dom B = inst_Universe ` set instances" "\<forall>u b. B u = Some b \<longrightarrow> length b = 512"
    "\<forall>u o'. o' < 512 \<longrightarrow> byte_at B u o' =
       (case map_of (rev (all_writes frame resolve instances)) (u, o') of Some b \<Rightarrow> b | None \<Rightarrow> 0)"
    using fold_encode_step [of Map.empty frame resolve instances] unfolding B by (simp_all cong: option.case_cong)
  show "\<forall>i\<in>set instances. encodable frame resolve i" by (rule ok)
  show "dom B = inst_Universe ` set instances" by (rule f(1))
  show "length buf = 512" if "B u = Some buf" using f(2) that by blast
  show "buf ! o' = (case map_of (rev (all_writes frame resolve instances)) (u, o') of Some b \<Rightarrow> b | None \<Rightarrow> 0)"
    if "B u = Some buf" "o' < 512"
    using f(3) that by (simp add: byte_at_def) (metis option.simps(5))
qed

text \<open>
  C5: The channel map. For validly addressed instances, encoding fails exactly when some instance
  cannot be rendered: its fixture does not resolve, its mode has no channels, its frame entry
  lacks a value for a channel, or a channel falls outside the universe. Otherwise there is one
  512-byte buffer for each universe with an instance, and each byte is the scaled value of the
  last channel, in instance order and declared channel order, that lies on it, or 0.
\<close>
theorem Encode_exact:
  assumes "addresses_valid instances"
  shows "case Encode frame instances resolve of
      Inl e \<Rightarrow> \<exists>i\<in>set instances. \<not> encodable frame resolve i
    | Inr B \<Rightarrow> (\<forall>i\<in>set instances. encodable frame resolve i) \<and> dom B = inst_Universe ` set instances \<and>
        (\<forall>u buf. B u = Some buf \<longrightarrow> length buf = 512 \<and>
           (\<forall>o'<512. buf ! o' = (case map_of (rev (all_writes frame resolve instances)) (u, o') of Some b \<Rightarrow> b | None \<Rightarrow> 0)))"
proof (cases "Encode frame instances resolve")
  case (Inl e)
  then have "encodeInstances frame resolve instances Map.empty \<noteq> Inr (fold (encode_step frame resolve) instances Map.empty)"
    by (simp add: Encode_def)
  then show ?thesis using encodeInstances_Inr [OF assms] Inl by fastforce
next
  case (Inr B)
  then show ?thesis using Encode_Inr [OF assms Inr] by simp
qed

section \<open>Scaling, masters and blackout\<close>

lemma scaleToByte_inner:
  assumes "0 < q" "q < 1"
  shows "uint (scaleToByte (Fin q)) = \<lfloor>rnd (q * 255)\<rfloor> \<and> 0 \<le> \<lfloor>rnd (q * 255)\<rfloor> \<and> \<lfloor>rnd (q * 255)\<rfloor> \<le> 255"
proof -
  have "is_rep 255" by (rule is_rep_numeral) simp
  then have r: "round64 (q * 255) = Fin (rnd (q * 255))" "0 \<le> rnd (q * 255)" "rnd (q * 255) \<le> 255"
    using round64_between [OF is_rep_0 _ , of 255 "q * 255"] assms by auto
  then have b: "0 \<le> \<lfloor>rnd (q * 255)\<rfloor>" "\<lfloor>rnd (q * 255)\<rfloor> \<le> 255"
    by (simp_all add: floor_le_iff)
  then have "f_to_int (Fin q * Fin 255) = \<lfloor>rnd (q * 255)\<rfloor>"
    using r by (simp add: f_to_int_def rat_trunc_def is_int64_def min_int64_def max_int64_def Let_def)
  then have "scaleToByte (Fin q) = word_of_int \<lfloor>rnd (q * 255)\<rfloor>"
    using assms by (simp add: scaleToByte_def f_to_byte_def)
  then show ?thesis using b by (simp add: uint_word_of_int take_bit_eq_mod)
qed

lemma scaleToByte_special [simp]: "scaleToByte (Fin 0) = 0" "scaleToByte (Fin 1) = 255"
  by (simp_all add: scaleToByte_def)

lemma scaleToByte_clamped: "v \<le> Fin 0 \<Longrightarrow> scaleToByte v = 0" "Fin 1 \<le> v \<Longrightarrow> scaleToByte v = 255"
  by (auto simp: scaleToByte_def dest: f64_le_trans)

lemma scaleToByte_le:
  assumes "a \<le> b"
  shows "uint (scaleToByte a) \<le> uint (scaleToByte b)"
proof -
  have top: "uint x \<le> 255" for x :: byte using uint_bounded [of x] by simp
  show ?thesis
  proof (cases "a \<le> Fin 0 \<or> Fin 1 \<le> b")
    case True
    then show ?thesis using top by (auto simp: scaleToByte_clamped)
  next
    case False
    with assms obtain p q where pq: "a = Fin p" "b = Fin q" "0 < p" "p \<le> q" "q < 1"
      by (cases a; cases b) (auto simp: less_eq_f64_def)
    have "rnd (p * 255) \<le> rnd (q * 255)" using pq by (intro rnd_mono) simp
    then show ?thesis
      using scaleToByte_inner [of p] scaleToByte_inner [of q] pq by (simp add: floor_mono)
  qed
qed

text \<open>
  The scaling of a level to a DMX byte is monotone over all numbers, infinities included: a
  higher level never gives a lower byte. Levels at or below 0 give 0, levels at or above 1 give
  255, so no level wraps around.
\<close>
theorem scaleToByte_mono:
  assumes "a \<le> b"
  shows "uint (scaleToByte a) \<le> uint (scaleToByte b) \<and>
    (a \<le> Fin 0 \<longrightarrow> scaleToByte a = 0) \<and> (Fin 1 \<le> b \<longrightarrow> scaleToByte b = 255)"
  using scaleToByte_le [OF assms] by (simp add: scaleToByte_clamped)

theorem scaleToByte_mono_witness:
  "Fin (1 / 4) \<le> Fin (1 / 2) \<and> uint (scaleToByte (Fin (1 / 4))) \<le> uint (scaleToByte (Fin (1 / 2))) \<and>
   scaleToByte (Fin (1 / 2)) = 127"
  using scaleToByte_mono [of "Fin (1 / 4)" "Fin (1 / 2)"] by simp code_simp

text \<open>A level of the unit interval, and master levels that are all such.\<close>
definition unit_level :: "f64 \<Rightarrow> bool" where
  "unit_level x = (case x of Fin q \<Rightarrow> is_rep q \<and> 0 \<le> q \<and> q \<le> 1 | _ \<Rightarrow> False)"

definition masters_ok :: "masterLevels \<Rightarrow> bool" where
  "masters_ok m = (unit_level (ml_grand m) \<and> (\<forall>l\<in>ran (ml_groups m). unit_level l))"

lemma unit_level_times:
  assumes "unit_level x" "unit_level y"
  shows "unit_level (x * y) \<and> x * y \<le> x \<and> x * y \<le> y"
proof -
  from assms obtain a b where ab: "x = Fin a" "y = Fin b" "is_rep a" "is_rep b" "0 \<le> a" "a \<le> 1" "0 \<le> b" "b \<le> 1"
    by (auto simp: unit_level_def split: f64.splits)
  have "a * b \<le> a" "a * b \<le> b" "0 \<le> a * b"
    using ab by (simp_all add: mult_left_le mult_left_le_one_le)
  then show ?thesis
    using round64_between [OF is_rep_0 ab(3), of "a * b"] round64_between [OF is_rep_0 ab(4), of "a * b"] ab
    by (auto simp: unit_level_def)
qed

lemma clampUnit_id: "unit_level x \<Longrightarrow> clampUnit x = x"
  by (auto simp: unit_level_def clampUnit_def split: f64.splits)

lemma effectiveMultiplier_unit:
  assumes "masters_ok m"
  shows "unit_level (effectiveMultiplier i m mem)"
proof -
  have "unit_level x \<Longrightarrow> unit_level (fold (\<lambda>g y. case ml_groups m g of Some level \<Rightarrow> y * level | None \<Rightarrow> y) gs x)" for gs x
    using assms
    by (induction gs arbitrary: x) (auto simp: masters_ok_def unit_level_times ranI split: option.splits)
  then show ?thesis using assms by (simp add: effectiveMultiplier_def masters_ok_def)
qed

lemma overridden_other:
  "c \<noteq> CapabilityIntensity \<Longrightarrow> zeroedAttributeSet a c = a c \<and> scaledAttributeSet a m c = a c"
  by (cases "a c") (simp_all add: zeroedAttributeSet_def scaledAttributeSet_def)

lemma overridden_intensity:
  "zeroedAttributeSet a CapabilityIntensity = map_option (\<lambda>_. Fin 0) (a CapabilityIntensity) \<and>
   scaledAttributeSet a m CapabilityIntensity = map_option (\<lambda>v. clampUnit (v * m)) (a CapabilityIntensity)"
  by (cases "a CapabilityIntensity") (simp_all add: zeroedAttributeSet_def scaledAttributeSet_def)


lemma all_writes_cases:
  assumes "((u, o'), b) \<in> set (rev (all_writes frame resolve instances))"
  obtains i attrs k where "i \<in> set instances" "inst_Universe i = u" "frame (inst_ID i) = Some attrs"
    "k < length (channels_of resolve i)" "nat (inst_Address i - 1) + k = o'"
    "b = scaleToByte (the (attrs (slot_Type (channels_of resolve i ! k))))"
proof -
  from assms obtain i where i: "i \<in> set instances" "inst_Universe i = u" "(o', b) \<in> set (inst_writes frame resolve i)"
    by (auto simp: all_writes_def)
  then obtain attrs where a: "frame (inst_ID i) = Some attrs" "(o', b) \<in> set (chan_writes i attrs 0 (channels_of resolve i))"
    by (cases "frame (inst_ID i)") (simp_all add: inst_writes_def)
  then obtain k where "k < length (channels_of resolve i)" "nat (inst_Address i - 1) + k = o'"
    "b = scaleToByte (the (attrs (slot_Type (channels_of resolve i ! k))))"
    by (auto simp: chan_writes_def in_set_enumerate_eq)
  then show ?thesis using i(1,2) a(1) by (rule_tac that)
qed

text \<open>
  Nothing shines through a blackout. While blackout or stop-all is set, whatever the scene and
  the desk ask for, every DMX slot of an encoded universe that carries only intensity channels
  is 0 (slots without any channel are 0 as well).
\<close>
theorem blackout_sends_dark:
  assumes "addresses_valid instances" and "dark s"
    and "Encode (applyOverrides (applyDeskOverrides frame desk) s mem) instances resolve = Inr B"
    and "B u = Some buf" and "o' < 512"
    and only: "\<And>i k. \<lbrakk>i \<in> set instances; inst_Universe i = u; k < length (channels_of resolve i);
        nat (inst_Address i - 1) + k = o'\<rbrakk> \<Longrightarrow> slot_Type (channels_of resolve i ! k) = CapabilityIntensity"
  shows "buf ! o' = 0"
proof -
  let ?f = "applyOverrides (applyDeskOverrides frame desk) s mem"
  note E = Encode_Inr [OF assms(1,3)]
  have "b = 0" if "map_of (rev (all_writes ?f resolve instances)) (u, o') = Some b" for b
  proof -
    from map_of_SomeD [OF that] obtain i attrs k where
      i: "i \<in> set instances" "inst_Universe i = u" "?f (inst_ID i) = Some attrs"
      "k < length (channels_of resolve i)" "nat (inst_Address i - 1) + k = o'"
      and b: "b = scaleToByte (the (attrs (slot_Type (channels_of resolve i ! k))))"
      by (rule all_writes_cases)
    have t: "slot_Type (channels_of resolve i ! k) = CapabilityIntensity" using i by (intro only)
    obtain a where "attrs = zeroedAttributeSet a"
      using i(3) assms(2) by (auto simp: applyOverrides_def Let_def)
    moreover have "attrs (slot_Type (channels_of resolve i ! k)) \<noteq> None"
      using E(1) i(1,3,4) by (auto simp: encodable_def dest!: bspec)
    ultimately show ?thesis unfolding b t by (auto simp: overridden_intensity)
  qed
  then show ?thesis using E(4) [OF assms(4,5)] by (simp split: option.splits)
qed

section \<open>The safety state and the desk as state machines\<close>

text \<open>The safety states a session reaches when the levels it sends are floats other than NaN.\<close>
inductive safety_reach :: "safetyState \<Rightarrow> bool" where
  safety_new: "safety_reach newSafetyState"
| safety_blackout: "safety_reach s \<Longrightarrow> safety_reach (setBlackout on s)"
| safety_stop: "safety_reach s \<Longrightarrow> safety_reach (setStopAll on s)"
| safety_revoke: "safety_reach s \<Longrightarrow> safety_reach (setRevokeAutomation on s)"
| safety_grand: "safety_reach s \<Longrightarrow> is_f64 l \<Longrightarrow> l \<noteq> F_NaN \<Longrightarrow> safety_reach (fst (setGrandMaster l s))"
| safety_group: "safety_reach s \<Longrightarrow> is_f64 l \<Longrightarrow> l \<noteq> F_NaN \<Longrightarrow> safety_reach (fst (setGroupMaster g l s))"

lemma validateMasterLevel_unit:
  "is_f64 l \<Longrightarrow> l \<noteq> F_NaN \<Longrightarrow> validateMasterLevel l = None \<longleftrightarrow> unit_level l"
  by (cases l) (auto simp: validateMasterLevel_def unit_level_def)

lemma ran_fun_upd: "l \<in> ran (m(k \<mapsto> v)) \<Longrightarrow> l = v \<or> l \<in> ran m"
  by (auto simp: ran_def split: if_splits)

text \<open>
  Master levels stay in the unit interval. In every safety state reached from a fresh one by
  blackout, stop-all, revoke and master changes (levels being numbers), the grand master and
  every group master lie in [0,1]: a level outside is refused and changes nothing.
\<close>
theorem masters_stay_in_range:
  assumes "safety_reach s"
  shows "masters_ok (currentMasters (Some s))"
  using assms
proof induction
  case safety_new
  show ?case by (simp add: masters_ok_def currentMasters_def newSafetyState_def identityMasterLevels_def unit_level_def)
next
  case (safety_grand s l)
  then show ?case
    using validateMasterLevel_unit [of l]
    by (auto simp: setGrandMaster_def currentMasters_def masters_ok_def split: option.splits)
next
  case (safety_group s l g)
  then show ?case
    using validateMasterLevel_unit [of l]
    by (auto simp: setGroupMaster_def currentMasters_def masters_ok_def Let_def split: option.splits dest!: ran_fun_upd)
qed (simp_all add: currentMasters_def setBlackout_def setStopAll_def setRevokeAutomation_def)

theorem masters_stay_in_range_witness:
  "safety_reach (fst (setGroupMaster 7 (Fin (1 / 2)) newSafetyState)) \<and>
   masters_ok (currentMasters (Some (fst (setGroupMaster 7 (Fin (1 / 2)) newSafetyState))))"
proof -
  have "is_f64 (Fin (1 / 2))" by code_simp
  then have "safety_reach (fst (setGroupMaster 7 (Fin (1 / 2)) newSafetyState))"
    by (intro safety_group safety_new) simp_all
  then show ?thesis using masters_stay_in_range by blast
qed

text \<open>NaN passes the range test, which compares with \<open><\<close> and \<open>>\<close> only, and becomes the master level.\<close>
lemma nan_master_accepted:
  "snd (setGrandMaster F_NaN newSafetyState) = None \<and>
   ml_grand (currentMasters (Some (fst (setGrandMaster F_NaN newSafetyState)))) = F_NaN"
  by (simp add: setGrandMaster_def validateMasterLevel_def currentMasters_def)

text \<open>The desk as one partial map from instance and capability to a level.\<close>
definition desk_value :: "(uuid \<rightharpoonup> AttributeSet) \<Rightarrow> uuid \<times> CapabilityType \<Rightarrow> f64 option" where
  "desk_value d = (\<lambda>(i, c). case d i of None \<Rightarrow> None | Some a \<Rightarrow> a c)"

text \<open>Published desks hold no empty attribute set, so an empty desk is one without overrides.\<close>
definition desk_wf :: "(uuid \<rightharpoonup> AttributeSet) \<Rightarrow> bool" where
  "desk_wf d = (\<forall>a\<in>ran d. a \<noteq> Map.empty)"

lemma desk_clearAttribute: "desk_value (clearAttribute i c d) = (desk_value d)((i, c) := None)"
proof (cases "d i")
  case None
  then show ?thesis by (auto simp: clearAttribute_def desk_value_def fun_eq_iff)
next
  case (Some a)
  have e: "a c' = None" if "a(c := None) = Map.empty" "c' \<noteq> c" for c'
    using that by (metis fun_upd_apply)
  from Some show ?thesis
    by (auto simp: clearAttribute_def desk_value_def fun_eq_iff Let_def dest: e split: option.splits)
qed

lemma desk_setAttribute:
  assumes "setAttribute i c v d = (d', None)"
  shows "desk_value d' = (desk_value d)((i, c) \<mapsto> v)"
proof -
  have "d' = d(i \<mapsto> (case d i of Some a \<Rightarrow> a | None \<Rightarrow> Map.empty)(c \<mapsto> v))"
    using assms unfolding setAttribute_def Let_def
    by (cases "validateDeskCapability c"; cases "validateDeskValue v") simp_all
  then show ?thesis by (cases "d i") (auto simp: desk_value_def fun_eq_iff)
qed

text \<open>
  C39: The desk refines a map. Setting a fader updates exactly its (instance, capability) entry or,
  when the capability is unknown or the level out of range, is refused with the desk unchanged;
  releasing a fader, an instance or the whole desk removes exactly those entries; and a frame
  composited with the desk has the desk's value where there is one and the scene's elsewhere.
\<close>
theorem desk_refines_map:
  "(case setAttribute i c v d of
      (d', None) \<Rightarrow> c \<in> set SupportedCapabilityTypes \<and> \<not> v < Fin 0 \<and> \<not> v > Fin 1 \<and>
        desk_value d' = (desk_value d)((i, c) \<mapsto> v)
    | (d', Some e) \<Rightarrow> d' = d \<and> e = (if c \<in> set SupportedCapabilityTypes
        then Code ''GOLC_ARTNET_DESK_VALUE_INVALID'' else Code ''GOLC_ARTNET_DESK_CAPABILITY_INVALID'')) \<and>
   desk_value (clearAttribute i c d) = (desk_value d)((i, c) := None) \<and>
   desk_value (clearInstance i d) = (\<lambda>(j, c'). if j = i then None else desk_value d (j, c')) \<and>
   desk_value (clearAll d) = Map.empty \<and>
   attrs_at (applyDeskOverrides frame d) i c =
     (case desk_value d (i, c) of Some x \<Rightarrow> Some x | None \<Rightarrow> attrs_at frame i c)"
proof (intro conjI)
  show "case setAttribute i c v d of
      (d', None) \<Rightarrow> c \<in> set SupportedCapabilityTypes \<and> \<not> v < Fin 0 \<and> \<not> v > Fin 1 \<and>
        desk_value d' = (desk_value d)((i, c) \<mapsto> v)
    | (d', Some e) \<Rightarrow> d' = d \<and> e = (if c \<in> set SupportedCapabilityTypes
        then Code ''GOLC_ARTNET_DESK_VALUE_INVALID'' else Code ''GOLC_ARTNET_DESK_CAPABILITY_INVALID'')"
  proof -
    have cap: "validateDeskCapability c = (if c \<in> set SupportedCapabilityTypes then None
        else Some (Code ''GOLC_ARTNET_DESK_CAPABILITY_INVALID''))"
      by (simp add: validateDeskCapability_def)
    show ?thesis
    proof (cases "c \<in> set SupportedCapabilityTypes")
      case False
      then show ?thesis by (simp only: setAttribute_def cap if_False option.case prod.case simp_thms)
    next
      case True
      note set = setAttribute_def [of i c v d] cap
      show ?thesis
      proof (cases "validateDeskValue v")
        case None
        then have "\<not> v < Fin 0" "\<not> v > Fin 1" by (auto simp: validateDeskValue_def split: if_splits)
        then show ?thesis
          using True None desk_setAttribute [of i c v d] by (simp only: set if_True option.case prod.case simp_thms Let_def)
      next
        case (Some e)
        then have "e = Code ''GOLC_ARTNET_DESK_VALUE_INVALID''" by (auto simp: validateDeskValue_def split: if_splits)
        then show ?thesis using True Some by (simp only: set if_True option.case prod.case simp_thms)
      qed
    qed
  qed
  show "desk_value (clearInstance i d) = (\<lambda>(j, c'). if j = i then None else desk_value d (j, c'))"
    by (auto simp: clearInstance_def desk_value_def fun_eq_iff)
  show "desk_value (clearAll d) = Map.empty" by (simp add: clearAll_def desk_value_def fun_eq_iff)
  show "attrs_at (applyDeskOverrides frame d) i c =
     (case desk_value d (i, c) of Some x \<Rightarrow> Some x | None \<Rightarrow> attrs_at frame i c)"
    by (auto simp: attrs_at_def applyDeskOverrides_def desk_value_def Overlay_def split: option.splits)
qed (rule desk_clearAttribute)

lemma desk_wf_ops:
  assumes "desk_wf d"
  shows "desk_wf (fst (setAttribute i c v d))" "desk_wf (clearAttribute i c d)" "desk_wf (clearInstance i d)"
    "desk_wf (clearAll d)"
proof -
  have "a(c \<mapsto> v) \<noteq> Map.empty" for a :: AttributeSet by (metis fun_upd_same option.distinct(1))
  then have "d(i \<mapsto> a(c \<mapsto> v)) = d' \<Longrightarrow> desk_wf d'" for a d'
    using assms by (metis desk_wf_def ran_fun_upd)
  then show "desk_wf (fst (setAttribute i c v d))"
    using assms unfolding setAttribute_def Let_def
    by (cases "validateDeskCapability c"; cases "validateDeskValue v") simp_all
  have del: "desk_wf (d(i := None))" using assms by (auto simp: desk_wf_def ran_def)
  show "desk_wf (clearAttribute i c d)"
    using assms del
    by (cases "d i") (auto simp: clearAttribute_def Let_def desk_wf_def dest!: ran_fun_upd)
  show "desk_wf (clearInstance i d)" using assms del by (simp add: clearInstance_def)
  show "desk_wf (clearAll d)" by (simp add: clearAll_def desk_wf_def)
qed

lemma desk_wf_empty: "desk_wf d \<Longrightarrow> d = Map.empty \<longleftrightarrow> desk_value d = Map.empty"
proof
  assume wf: "desk_wf d" and "desk_value d = Map.empty"
  then have v: "d i = Some a \<Longrightarrow> a c = None" for i a c
    by (auto simp: desk_value_def fun_eq_iff dest: spec [of _ i])
  have "d i = None" for i
  proof (cases "d i")
    case (Some a)
    then have "a = Map.empty" using v by (simp add: fun_eq_iff)
    then show ?thesis using wf Some by (auto simp: desk_wf_def ran_def)
  qed
  then show "d = Map.empty" by (simp add: fun_eq_iff)
qed (simp add: desk_value_def fun_eq_iff)

section \<open>Concrete runs\<close>

definition par_resolve :: ResolveFunc where
  "par_resolve i = Inr \<lparr>fx_Definition = par_fixture, fx_Mode = hd (def_Modes par_fixture)\<rparr>"

definition par_at :: "uuid \<Rightarrow> int \<Rightarrow> Instance" where
  "par_at i a = \<lparr>inst_ID = i, inst_PoolID = 10, inst_PoolMemberID = i, inst_Mode = ''2ch'', inst_Universe = 1, inst_Address = a\<rparr>"

definition par_look :: AttributeSet where
  "par_look = [CapabilityIntensity \<mapsto> Fin 1, CapabilityShutter \<mapsto> Fin (1 / 2)]"

lemma par_channels: "channels_of par_resolve i =
    [\<lparr>slot_Type = CapabilityIntensity, slot_Occurrence = 0\<rparr>, \<lparr>slot_Type = CapabilityShutter, slot_Occurrence = 1\<rparr>]"
  by (simp add: channels_of_def par_resolve_def par_fixture_def)

lemma par_valid: "1 \<le> a \<Longrightarrow> a \<le> 512 \<Longrightarrow> addresses_valid [par_at i a]"
  by (simp add: addresses_valid_def par_at_def ValidateInstanceAddress_None channelsPerUniverse_def)

definition blacked_out :: safetyState where "blacked_out = setBlackout True newSafetyState"

lemma par_blackout_frame:
  "applyOverrides (applyDeskOverrides [1 \<mapsto> par_look] Map.empty) (Some blacked_out) mem =
     [1 \<mapsto> zeroedAttributeSet par_look]"
  by (auto simp: applyOverrides_def applyDeskOverrides_def fun_eq_iff dark_def blacked_out_def setBlackout_def)

lemma par_blackout_encode:
  "Encode [1 \<mapsto> zeroedAttributeSet par_look] [par_at 1 1] par_resolve =
     Inr [1 \<mapsto> (replicate 512 0)[0 := scaleToByte (Fin 0), 1 := scaleToByte (Fin (1 / 2))]]"
  by (simp add: Encode_def par_resolve_def par_fixture_def par_at_def dmxChannels_def wrap64_def zeroedAttributeSet_def
      par_look_def bind_res_def)

theorem blackout_sends_dark_witness:
  "\<exists>B buf. Encode (applyOverrides (applyDeskOverrides [1 \<mapsto> par_look] Map.empty) (Some blacked_out) (\<lambda>_. []))
     [par_at 1 1] par_resolve = Inr B \<and> B 1 = Some buf \<and> buf ! 0 = 0"
proof -
  obtain B buf where B: "Encode (applyOverrides (applyDeskOverrides [1 \<mapsto> par_look] Map.empty) (Some blacked_out) (\<lambda>_. []))
     [par_at 1 1] par_resolve = Inr B" "B 1 = Some buf"
    unfolding par_blackout_frame par_blackout_encode by auto
  have "dark (Some blacked_out)" by (simp add: dark_def blacked_out_def setBlackout_def)
  from blackout_sends_dark [OF par_valid this B] have "buf ! 0 = 0"
    by (simp add: par_channels par_at_def less_Suc_eq)
  then show ?thesis using B by blast
qed

theorem Encode_exact_witness:
  "addresses_valid [par_at 1 1] \<and> (\<exists>B. Encode [1 \<mapsto> zeroedAttributeSet par_look] [par_at 1 1] par_resolve = Inr B \<and>
     (\<forall>i\<in>set [par_at 1 1]. encodable [1 \<mapsto> zeroedAttributeSet par_look] par_resolve i))"
  using Encode_exact [OF par_valid [of 1 1], of "[1 \<mapsto> zeroedAttributeSet par_look]" par_resolve] par_valid [of 1 1]
  by (simp add: par_blackout_encode)


text \<open>
  A single raised fader stops a universe: with no scene playing, the desk entry of a two-channel
  fixture has a value for the raised channel only, and encoding the universe fails.
\<close>
theorem one_fader_stops_the_universe:
  "case setAttribute 1 CapabilityIntensity (Fin 1) newDeskState of (desk, err) \<Rightarrow>
     err = None \<and> Encode (applyDeskOverrides Map.empty desk) [par_at 1 1] par_resolve =
       Inl (Code ''GOLC_ARTNET_CHANNEL_VALUE_MISSING'')"
  by (simp add: setAttribute_def validateDeskCapability_def SupportedCapabilityTypes_def validateDeskValue_def
      newDeskState_def applyDeskOverrides_def Encode_def par_resolve_def par_fixture_def par_at_def dmxChannels_def
      wrap64_def bind_res_def)

text \<open>
  Collision checks that count one channel let two two-channel fixtures share a slot: both
  placements pass \<open>Reassign\<close>, and the shutter of the first is overwritten by the second's
  intensity.
\<close>
theorem patched_fixtures_can_overlap:
  "Reassign [par_at 1 1, par_at 2 10] 2 ''2ch'' 1 2 = Inr [par_at 1 1, par_at 2 2] \<and>
   patch_ok [par_at 1 1, par_at 2 2] \<and>
   rev (all_writes (\<lambda>_. Some [CapabilityIntensity \<mapsto> Fin 1, CapabilityShutter \<mapsto> Fin 0]) par_resolve [par_at 1 1, par_at 2 2]) =
     [((1, 2), 0), ((1, 1), 255), ((1, 1), 0), ((1, 0), 255)]"
proof (intro conjI)
  show "Reassign [par_at 1 1, par_at 2 10] 2 ''2ch'' 1 2 = Inr [par_at 1 1, par_at 2 2]"
    by (simp add: Reassign_def par_at_def guard_err_def ValidateInstanceAddress_def overlapsExisting_def channelsPerUniverse_def
        reassignChannelCount_def wrap64_def Let_def)
  show "patch_ok [par_at 1 1, par_at 2 2]"
    by (simp add: patch_ok_def addresses_valid_def par_at_def ValidateInstanceAddress_None channelsPerUniverse_def)
  show "rev (all_writes (\<lambda>_. Some [CapabilityIntensity \<mapsto> Fin 1, CapabilityShutter \<mapsto> Fin 0]) par_resolve [par_at 1 1, par_at 2 2]) =
     [((1, 2), 0), ((1, 1), 255), ((1, 1), 0), ((1, 0), 255)]"
    by (simp add: all_writes_def inst_writes_def par_channels par_at_def)
qed

end
