(* ===== verification/ArtnetWorker.thy ===== *)
theory ArtnetWorker
  imports ArtnetOutput
begin

text \<open>
  The Art-Net send loop and its health model: \<open>internal/artnet/health.go\<close> and
  \<open>internal/artnet/worker.go\<close>.  A worker is a record; its tick is a function from the frame it
  reads and the time; the goroutines that perform the writes are the list \<open>w_inflight\<close> (target
  position and packet), and a finished write is a step of its own, so the interleavings of ticks,
  completions and operator changes are the runs of \<open>worker_reach\<close>.  Dialling a target and
  writing to its socket are the operating system's: their outcomes are arguments.  Log lines
  (\<open>logArtnetError\<close>) are not represented.

  The theorems: at most one send per target is ever in flight and every packet in flight is a
  well-formed ArtDMX packet for an enabled, connected target; a tick reaches every idle target of
  an encodable universe whatever the other targets and universes do; under blackout no packet of a
  tick carries light in an intensity slot; health counts exactly the recorded outcomes of
  configured targets.
\<close>

section \<open>Health\<close>

definition workerTickInterval :: int where "workerTickInterval = 1000000000 div 40"
definition frameStaleAfter :: int where "frameStaleAfter = 10 * workerTickInterval"

text \<open>\<open>LastFrameAt\<close> is \<open>None\<close> for the zero time.\<close>
record FrameHealth =
  fh_LastFrameAt :: "int option"
  fh_OnCadence :: bool

definition FrameHealth_Err :: "FrameHealth \<Rightarrow> golc_error option" where
  "FrameHealth_Err f = (if fh_OnCadence f then None else Some (Code ''GOLC_ARTNET_FRAME_STALLED''))"

definition evaluateFrameHealth :: "int option \<Rightarrow> int \<Rightarrow> FrameHealth" where
  "evaluateFrameHealth lastFrameAt now =
     (case lastFrameAt of
        None \<Rightarrow> \<lparr>fh_LastFrameAt = None, fh_OnCadence = False\<rparr>
      | Some t \<Rightarrow> \<lparr>fh_LastFrameAt = Some t, fh_OnCadence = timeSub now t \<le> frameStaleAfter\<rparr>)"

text \<open>\<open>LastError\<close> is \<open>None\<close> for the empty string.\<close>
record TargetHealth =
  th_Universe :: int
  th_Target :: Target
  th_SendOK :: int
  th_SendErr :: int
  th_Reachable :: bool
  th_LastError :: "golc_error option"

record Health =
  h_lastFrameAtNano :: int
  h_targetsPtr :: "targetKey \<rightharpoonup> TargetHealth"
  h_universeValuesPtr :: "int \<rightharpoonup> byte list"
  h_targets :: "targetKey \<rightharpoonup> TargetHealth"
  h_configured :: "targetKey set"
  h_universeValues :: "int \<rightharpoonup> byte list"
  h_configuredUniverses :: "int set"

record HealthSnapshot =
  hs_Frame :: FrameHealth
  hs_Targets :: "targetKey \<rightharpoonup> TargetHealth"
  hs_UniverseValues :: "int \<rightharpoonup> byte list"

definition NewHealth :: Health where
  "NewHealth = \<lparr>h_lastFrameAtNano = 0, h_targetsPtr = Map.empty, h_universeValuesPtr = Map.empty,
     h_targets = Map.empty, h_configured = {}, h_universeValues = Map.empty, h_configuredUniverses = {}\<rparr>"

definition publishTargetsLocked :: "Health \<Rightarrow> Health" where
  "publishTargetsLocked h = h\<lparr>h_targetsPtr := h_targets h\<rparr>"

definition publishUniverseValuesLocked :: "Health \<Rightarrow> Health" where
  "publishUniverseValuesLocked h = h\<lparr>h_universeValuesPtr := h_universeValues h\<rparr>"

definition configureTarget :: "int \<Rightarrow> Target \<Rightarrow> Health \<Rightarrow> Health" where
  "configureTarget universe t h =
     (let key = keyOf t;
          entry = (case h_targets h key of
             None \<Rightarrow> \<lparr>th_Universe = universe, th_Target = t, th_SendOK = 0, th_SendErr = 0,
                      th_Reachable = False, th_LastError = None\<rparr>
           | Some existing \<Rightarrow> existing\<lparr>th_Universe := universe, th_Target := t\<rparr>) in
      h\<lparr>h_configured := insert key (h_configured h), h_targets := (h_targets h)(key \<mapsto> entry)\<rparr>)"

text \<open>The map \<open>targets\<close> is an association list, in the order the range loop visits it.\<close>
definition Configure :: "(int \<times> Target list) list \<Rightarrow> Health \<Rightarrow> Health" where
  "Configure targets h =
     (let h1 = fold (\<lambda>(universe, ts) h. fold (configureTarget universe) ts h) targets (h\<lparr>h_configured := {}\<rparr>);
          h2 = publishTargetsLocked h1 in
      publishUniverseValuesLocked (h2\<lparr>h_configuredUniverses := set (map fst targets)\<rparr>))"

definition RecordFrame :: "int \<Rightarrow> Health \<Rightarrow> Health" where
  "RecordFrame readAt h = h\<lparr>h_lastFrameAtNano := readAt\<rparr>"

definition loadLastFrameAt :: "Health \<Rightarrow> int option" where
  "loadLastFrameAt h = (if h_lastFrameAtNano h = 0 then None else Some (h_lastFrameAtNano h))"

definition recordOutcome :: "int \<Rightarrow> Target \<Rightarrow> golc_error option \<Rightarrow> TargetHealth \<Rightarrow> TargetHealth" where
  "recordOutcome universe target err th =
     (let th1 = th\<lparr>th_Universe := universe, th_Target := target\<rparr> in
      case err of
        Some e \<Rightarrow> th1\<lparr>th_SendErr := wrap64 (th_SendErr th1 + 1), th_LastError := Some e\<rparr>
      | None \<Rightarrow> th1\<lparr>th_SendOK := wrap64 (th_SendOK th1 + 1), th_Reachable := True, th_LastError := None\<rparr>)"

text \<open>An untracked key reads as the zero \<open>TargetHealth\<close>.\<close>
definition zeroTargetHealth :: TargetHealth where
  "zeroTargetHealth = \<lparr>th_Universe = 0, th_Target = \<lparr>tgt_Universe = 0, tgt_IP = [], tgt_Port = 0, tgt_Enabled = False\<rparr>,
     th_SendOK = 0, th_SendErr = 0, th_Reachable = False, th_LastError = None\<rparr>"

definition RecordSend :: "int \<Rightarrow> Target \<Rightarrow> golc_error option \<Rightarrow> Health \<Rightarrow> Health" where
  "RecordSend universe target err h =
     (let key = keyOf target in
      if key \<in> h_configured h then
        let th = (case h_targets h key of Some t \<Rightarrow> t | None \<Rightarrow> zeroTargetHealth) in
        publishTargetsLocked (h\<lparr>h_targets := (h_targets h)(key \<mapsto> recordOutcome universe target err th)\<rparr>)
      else h)"

definition RecordUniverseValues :: "int \<Rightarrow> byte list \<Rightarrow> Health \<Rightarrow> Health" where
  "RecordUniverseValues universe data h =
     (if universe \<notin> h_configuredUniverses h then h
      else publishUniverseValuesLocked (h\<lparr>h_universeValues := (h_universeValues h)(universe \<mapsto> data)\<rparr>))"

definition Snapshot :: "int \<Rightarrow> Health \<Rightarrow> HealthSnapshot" where
  "Snapshot now h = \<lparr>hs_Frame = evaluateFrameHealth (loadLastFrameAt h) now, hs_Targets = h_targetsPtr h,
     hs_UniverseValues = h_universeValuesPtr h\<rparr>"

section \<open>The worker\<close>

definition defaultSendTimeout :: int where "defaultSendTimeout = 200 * 1000000"

record WorkerConfig =
  cfg_Instances :: "Instance list"
  cfg_Groups :: "Group list"
  cfg_Targets :: "(int \<times> Target list) list"
  cfg_Safety :: "safetyState option"
  cfg_Desk :: deskState
  cfg_SendTimeout :: int
  cfg_Health :: "Health option"

text \<open>\<open>ts_sender\<close> says whether the target has an open connection.\<close>
record targetState =
  ts_universe :: int
  ts_target :: Target
  ts_sender :: bool
  ts_busy :: bool

record Worker =
  w_instancesByUniverse :: "int \<Rightarrow> Instance list"
  w_universes :: "int list"
  w_targetStates :: "int \<Rightarrow> targetState list"
  w_safety :: "safetyState option"
  w_desk :: deskState
  w_membership :: "uuid \<Rightarrow> uuid list"
  w_sendTimeout :: int
  w_health :: Health
  w_seq :: "int \<Rightarrow> byte"
  w_inflight :: "(int \<times> nat \<times> byte list) list"

definition targetsOf :: "(int \<times> Target list) list \<Rightarrow> int \<Rightarrow> Target list" where
  "targetsOf targets u = (case map_of targets u of Some ts \<Rightarrow> ts | None \<Rightarrow> [])"

definition NewWorker :: "WorkerConfig \<Rightarrow> Worker" where
  "NewWorker cfg =
     (let sendTimeout = (if cfg_SendTimeout cfg \<le> 0 then defaultSendTimeout else cfg_SendTimeout cfg);
          health = (case cfg_Health cfg of Some h \<Rightarrow> h | None \<Rightarrow> NewHealth);
          universes = sort (map fst (cfg_Targets cfg)) in
      \<lparr>w_instancesByUniverse = (\<lambda>u. filter (\<lambda>i. inst_Universe i = u) (cfg_Instances cfg)),
       w_universes = universes,
       w_targetStates = (\<lambda>u. if u \<in> set universes
          then map (\<lambda>t. \<lparr>ts_universe = u, ts_target = t, ts_sender = False, ts_busy = False\<rparr>) (targetsOf (cfg_Targets cfg) u)
          else []),
       w_safety = cfg_Safety cfg, w_desk = cfg_Desk cfg,
       w_membership = buildMembership (cfg_Instances cfg) (cfg_Groups cfg),
       w_sendTimeout = sendTimeout, w_health = Configure (cfg_Targets cfg) health, w_seq = (\<lambda>_. 0), w_inflight = []\<rparr>)"

text \<open>The dial loop of \<open>Start\<close>; \<open>dial\<close> is the error of \<open>net.DialUDP\<close>, if any.\<close>
definition dialTarget :: "(int \<Rightarrow> Target \<Rightarrow> golc_error option) \<Rightarrow> int \<Rightarrow> nat \<Rightarrow> Worker \<Rightarrow> Worker" where
  "dialTarget dial u n w =
     (let ts = w_targetStates w u ! n in
      case dial u (ts_target ts) of
        Some e \<Rightarrow> w\<lparr>w_health := RecordSend u (ts_target ts) (Some (Wrap ''GOLC_ARTNET_TARGET_DIAL_FAILED'' e)) (w_health w)\<rparr>
      | None \<Rightarrow> w\<lparr>w_targetStates := (w_targetStates w)(u := (w_targetStates w u)[n := ts\<lparr>ts_sender := True\<rparr>])\<rparr>)"

definition Worker_Start :: "(int \<Rightarrow> Target \<Rightarrow> golc_error option) \<Rightarrow> Worker \<Rightarrow> Worker" where
  "Worker_Start dial w =
     fold (\<lambda>u w. fold (dialTarget dial u) [0..<length (w_targetStates w u)] w) (w_universes w) w"

definition Worker_nextSeq :: "int \<Rightarrow> Worker \<Rightarrow> byte \<times> Worker" where
  "Worker_nextSeq universe w =
     (let next' = nextSeq (w_seq w universe) in (next', w\<lparr>w_seq := (w_seq w)(universe := next')\<rparr>))"

definition dispatchSend :: "int \<Rightarrow> byte list \<Rightarrow> nat \<Rightarrow> Worker \<Rightarrow> Worker" where
  "dispatchSend u pkt n w =
     (let ts = w_targetStates w u ! n in
      if \<not> ts_sender ts
        then w\<lparr>w_health := RecordSend (ts_universe ts) (ts_target ts) (Some (Code ''GOLC_ARTNET_TARGET_NOT_CONNECTED'')) (w_health w)\<rparr>
      else if ts_busy ts then w
      else w\<lparr>w_targetStates := (w_targetStates w)(u := (w_targetStates w u)[n := ts\<lparr>ts_busy := True\<rparr>]),
             w_inflight := w_inflight w @ [(u, n, pkt)]\<rparr>)"

text \<open>The body of \<open>tick\<close>'s loop over the universes; \<open>RecordEncodeError\<close> only logs.\<close>
definition tickUniverse :: "ResolveFunc \<Rightarrow> Frame \<Rightarrow> int \<Rightarrow> Worker \<Rightarrow> Worker" where
  "tickUniverse resolve overridden u w =
     (case Encode overridden (w_instancesByUniverse w u) resolve of
        Inl err \<Rightarrow> w
      | Inr buffers \<Rightarrow>
          let data = (case buffers u of Some d \<Rightarrow> d | None \<Rightarrow> replicate (nat dmxChannels) 0);
              w1 = w\<lparr>w_health := RecordUniverseValues u data (w_health w)\<rparr>;
              (seq, w2) = Worker_nextSeq u w1 in
          case EncodeArtDMX seq 0 (PortAddress u) data of
            Inl err \<Rightarrow> w2
          | Inr pkt \<Rightarrow>
              fold (\<lambda>n w. if tgt_Enabled (ts_target (w_targetStates w u ! n)) then dispatchSend u pkt n w else w)
                [0..<length (w_targetStates w2 u)] w2)"

definition overriddenFrame :: "Frame \<Rightarrow> Worker \<Rightarrow> Frame" where
  "overriddenFrame frame w =
     applyOverrides (applyDeskOverrides frame (currentOverrides (w_desk w))) (w_safety w) (w_membership w)"

definition Worker_tick :: "ResolveFunc \<Rightarrow> int \<Rightarrow> Frame option \<Rightarrow> Worker \<Rightarrow> Worker" where
  "Worker_tick resolve now frame w =
     (if frame = None \<and> currentOverrides (w_desk w) = Map.empty then w
      else
        let f = (case frame of Some f \<Rightarrow> f | None \<Rightarrow> Map.empty);
            w1 = w\<lparr>w_health := RecordFrame now (w_health w)\<rparr> in
        fold (tickUniverse resolve (overriddenFrame f w)) (w_universes w1) w1)"

text \<open>The end of a send goroutine: the \<open>k\<close>-th one in flight, with the outcome of its write.\<close>
definition finishSend :: "nat \<Rightarrow> golc_error option \<Rightarrow> Worker \<Rightarrow> Worker" where
  "finishSend k err w =
     (let (u, n, pkt) = w_inflight w ! k; ts = w_targetStates w u ! n in
      w\<lparr>w_health := RecordSend (ts_universe ts) (ts_target ts) err (w_health w),
        w_targetStates := (w_targetStates w)(u := (w_targetStates w u)[n := ts\<lparr>ts_busy := False\<rparr>]),
        w_inflight := remove_at k (w_inflight w)\<rparr>)"

text \<open>The states of a running worker: ticks, completed sends and changes of the safety and desk
  state the daemon makes, in any order.\<close>
inductive worker_reach :: "ResolveFunc \<Rightarrow> (int \<Rightarrow> Target \<Rightarrow> golc_error option) \<Rightarrow> WorkerConfig \<Rightarrow> Worker \<Rightarrow> bool"
  for resolve dial cfg where
  worker_start: "worker_reach resolve dial cfg (Worker_Start dial (NewWorker cfg))"
| worker_ticks: "worker_reach resolve dial cfg w \<Longrightarrow> worker_reach resolve dial cfg (Worker_tick resolve now frame w)"
| worker_finish: "\<lbrakk>worker_reach resolve dial cfg w; k < length (w_inflight w)\<rbrakk>
    \<Longrightarrow> worker_reach resolve dial cfg (finishSend k err w)"
| worker_override: "worker_reach resolve dial cfg w
    \<Longrightarrow> worker_reach resolve dial cfg (w\<lparr>w_safety := s, w_desk := d\<rparr>)"

section \<open>Sends in flight\<close>

definition artdmx :: "int \<Rightarrow> byte list \<Rightarrow> bool" where
  "artdmx u pkt = (\<exists>seq data. seq \<noteq> 0 \<and> length data = 512 \<and> EncodeArtDMX seq 0 (PortAddress u) data = Inr pkt)"

definition flight_key :: "int \<times> nat \<times> byte list \<Rightarrow> int \<times> nat" where
  "flight_key f = (fst f, fst (snd f))"

definition send_ok :: "(int \<Rightarrow> targetState list) \<Rightarrow> int \<times> nat \<times> byte list \<Rightarrow> bool" where
  "send_ok states f = (case f of (u, n, pkt) \<Rightarrow>
     n < length (states u) \<and> ts_busy (states u ! n) \<and> ts_sender (states u ! n) \<and>
     tgt_Enabled (ts_target (states u ! n)) \<and> artdmx u pkt)"

text \<open>Every send in flight is legitimate, no target has two, and a busy target has one.\<close>
definition flights_ok :: "(int \<Rightarrow> targetState list) \<Rightarrow> (int \<times> nat \<times> byte list) list \<Rightarrow> bool" where
  "flights_ok states fs =
     (distinct (map flight_key fs) \<and> (\<forall>f\<in>set fs. send_ok states f) \<and>
      (\<forall>u n. n < length (states u) \<longrightarrow> ts_busy (states u ! n) \<longrightarrow> (u, n) \<in> set (map flight_key fs)))"

abbreviation worker_ok :: "Worker \<Rightarrow> bool" where
  "worker_ok w \<equiv> flights_ok (w_targetStates w) (w_inflight w)"

lemma flights_ok_add:
  assumes ok: "flights_ok states fs" and n: "n < length (states u)" "\<not> ts_busy (states u ! n)" "ts_sender (states u ! n)"
    "tgt_Enabled (ts_target (states u ! n))" "artdmx u pkt"
  shows "flights_ok (states(u := (states u)[n := (states u ! n)\<lparr>ts_busy := True\<rparr>])) (fs @ [(u, n, pkt)])"
proof -
  have fresh: "(u, n) \<notin> set (map flight_key fs)"
    using ok n(2) by (auto simp: flights_ok_def send_ok_def flight_key_def)
  have other: "flight_key f \<noteq> (u, n)" if "f \<in> set fs" for f
    using that fresh by (metis image_eqI set_map)
  have "send_ok (states(u := (states u)[n := (states u ! n)\<lparr>ts_busy := True\<rparr>])) f" if f: "f \<in> set fs" for f
    using ok f other [OF f] by (auto simp: flights_ok_def send_ok_def flight_key_def nth_list_update)
  moreover have "send_ok (states(u := (states u)[n := (states u ! n)\<lparr>ts_busy := True\<rparr>])) (u, n, pkt)"
    using n by (simp add: send_ok_def)
  ultimately show ?thesis
    using ok fresh by (auto simp: flights_ok_def nth_list_update flight_key_def split: if_splits)
qed

lemma distinct_remove_at:
  assumes "distinct (map f xs)" "k < length xs"
  shows "distinct (map f (remove_at k xs)) \<and> set (map f (remove_at k xs)) = set (map f xs) - {f (xs ! k)}"
proof -
  have e: "xs = take k xs @ xs ! k # drop (Suc k) xs" using assms(2) by (rule id_take_nth_drop)
  have "distinct (map f (take k xs @ xs ! k # drop (Suc k) xs))" using assms(1) e by simp
  moreover have "set (map f xs) = set (map f (take k xs @ xs ! k # drop (Suc k) xs))" using e by simp
  ultimately show ?thesis by (auto simp: remove_at_def)
qed

lemma flights_ok_remove:
  assumes ok: "flights_ok states fs" and k: "k < length fs" "fs ! k = (u, n, pkt)"
  shows "flights_ok (states(u := (states u)[n := (states u ! n)\<lparr>ts_busy := False\<rparr>])) (remove_at k fs)"
proof -
  from ok have "distinct (map flight_key fs)" by (simp add: flights_ok_def)
  note d = distinct_remove_at [OF this k(1)]
  have key: "flight_key (fs ! k) = (u, n)" by (simp add: k flight_key_def)
  have n: "n < length (states u)"
    using ok nth_mem [OF k(1)] by (auto simp: flights_ok_def send_ok_def k(2))
  have sub: "f \<in> set fs \<and> flight_key f \<noteq> (u, n)" if "f \<in> set (remove_at k fs)" for f
    using that d key by (auto simp: remove_at_def dest: in_set_takeD in_set_dropD)
  have "send_ok (states(u := (states u)[n := (states u ! n)\<lparr>ts_busy := False\<rparr>])) f" if "f \<in> set (remove_at k fs)" for f
    using ok sub [OF that] by (auto simp: flights_ok_def send_ok_def flight_key_def nth_list_update)
  then show ?thesis
    using ok d key n by (auto simp: flights_ok_def nth_list_update split: if_splits)
qed

lemma dispatchSend_ok:
  assumes "worker_ok w" "n < length (w_targetStates w u)" "tgt_Enabled (ts_target (w_targetStates w u ! n))" "artdmx u pkt"
  shows "worker_ok (dispatchSend u pkt n w)"
  using assms by (simp add: dispatchSend_def Let_def flights_ok_add)

text \<open>What a worker's steps leave alone: the configuration and which target stands where.\<close>
definition same_setup :: "Worker \<Rightarrow> Worker \<Rightarrow> bool" where
  "same_setup w w' =
     (w_instancesByUniverse w' = w_instancesByUniverse w \<and> w_universes w' = w_universes w \<and>
      w_membership w' = w_membership w \<and> w_sendTimeout w' = w_sendTimeout w \<and>
      (\<forall>u. map ts_target (w_targetStates w' u) = map ts_target (w_targetStates w u) \<and>
           map ts_universe (w_targetStates w' u) = map ts_universe (w_targetStates w u)))"

lemma same_setup_refl [simp]: "same_setup w w" by (simp add: same_setup_def)

lemma same_setup_trans: "same_setup a b \<Longrightarrow> same_setup b c \<Longrightarrow> same_setup a c" by (simp add: same_setup_def)

lemma map_update_same: "f y = f (xs ! n) \<Longrightarrow> map f (xs[n := y]) = map f xs"
  by (metis list_update_beyond list_update_id map_update not_le)

lemma same_setup_length: "same_setup w w' \<Longrightarrow> length (w_targetStates w' u) = length (w_targetStates w u)"
  unfolding same_setup_def by (metis length_map)

lemma same_setup_target:
  "same_setup w w' \<Longrightarrow> n < length (w_targetStates w u) \<Longrightarrow> ts_target (w_targetStates w' u ! n) = ts_target (w_targetStates w u ! n)"
  using same_setup_length [of w w' u] unfolding same_setup_def by (metis nth_map)

lemma dispatchSend_setup: "same_setup w (dispatchSend u pkt n w)"
  by (simp add: dispatchSend_def Let_def same_setup_def map_update_same)

definition dispatchAll :: "int \<Rightarrow> byte list \<Rightarrow> nat list \<Rightarrow> Worker \<Rightarrow> Worker" where
  "dispatchAll u pkt ns w =
     fold (\<lambda>n w. if tgt_Enabled (ts_target (w_targetStates w u ! n)) then dispatchSend u pkt n w else w) ns w"

lemma dispatchAll_ok:
  assumes "worker_ok w" "\<forall>n\<in>set ns. n < length (w_targetStates w u)" "artdmx u pkt"
  shows "worker_ok (dispatchAll u pkt ns w) \<and> same_setup w (dispatchAll u pkt ns w)"
  using assms
proof (induction ns arbitrary: w)
  case Nil
  then show ?case by (simp add: dispatchAll_def)
next
  case (Cons n ns)
  let ?w = "if tgt_Enabled (ts_target (w_targetStates w u ! n)) then dispatchSend u pkt n w else w"
  have "worker_ok ?w" "same_setup w ?w" using Cons.prems by (simp_all add: dispatchSend_ok dispatchSend_setup)
  moreover from this have "\<forall>n\<in>set ns. n < length (w_targetStates ?w u)"
    using Cons.prems(2) by (simp add: same_setup_length)
  ultimately show ?case
    using Cons.IH [of ?w] Cons.prems(3) same_setup_trans [of w ?w] by (simp add: dispatchAll_def)
qed

section \<open>One tick\<close>

lemma encodeChannels_length: "encodeChannels i attrs k slots buf = Inr buf' \<Longrightarrow> length buf' = length buf"
  by (induction slots arbitrary: k buf) (auto simp: Let_def split: option.splits if_splits)

lemma encodeInstances_length:
  assumes "encodeInstances frame resolve is B = Inr B'" "\<And>u b. B u = Some b \<Longrightarrow> length b = 512"
  shows "B' u = Some b \<Longrightarrow> length b = 512"
  using assms
proof (induction "is" arbitrary: B)
  case Nil
  then show ?case by simp
next
  case (Cons i "is")
  let ?buf = "case B (inst_Universe i) of Some b \<Rightarrow> b | None \<Rightarrow> replicate (nat dmxChannels) 0"
  have buf: "length ?buf = 512"
    using Cons.prems(3) by (cases "B (inst_Universe i)") (simp_all add: dmxChannels_def)
  from Cons.prems(2) obtain fx where fx: "resolve i = Inr fx" "mode_Channels (fx_Mode fx) \<noteq> []"
    by (auto split: sum.splits if_splits)
  have "\<exists>b'. length b' = 512 \<and> encodeInstances frame resolve is (B(inst_Universe i \<mapsto> b')) = Inr B'"
  proof (cases "frame (inst_ID i)")
    case None
    then show ?thesis using Cons.prems(2) fx buf by (intro exI [of _ ?buf]) (simp add: Let_def)
  next
    case (Some attrs)
    then show ?thesis
      using Cons.prems(2) fx buf encodeChannels_length [of i attrs 0 _ ?buf]
      by (auto simp: Let_def bind_res_Inr_iff)
  qed
  then obtain b' where b': "length b' = 512" "encodeInstances frame resolve is (B(inst_Universe i \<mapsto> b')) = Inr B'"
    by blast
  show ?case by (rule Cons.IH [OF Cons.prems(1) b'(2)]) (use b'(1) Cons.prems(3) in \<open>auto split: if_splits\<close>)
qed

text \<open>The DMX data a tick computes for a universe, and the packet it makes of it.\<close>
definition tick_data :: "ResolveFunc \<Rightarrow> Frame \<Rightarrow> Worker \<Rightarrow> int \<Rightarrow> byte list option" where
  "tick_data resolve f w u =
     (case Encode f (w_instancesByUniverse w u) resolve of
        Inl _ \<Rightarrow> None
      | Inr B \<Rightarrow> Some (case B u of Some d \<Rightarrow> d | None \<Rightarrow> replicate (nat dmxChannels) 0))"

definition tick_packet :: "Worker \<Rightarrow> int \<Rightarrow> byte list \<Rightarrow> byte list" where
  "tick_packet w u data =
     (case EncodeArtDMX (nextSeq (w_seq w u)) 0 (PortAddress u) data of Inr pkt \<Rightarrow> pkt | Inl _ \<Rightarrow> [])"

lemma tick_data_length: "tick_data resolve f w u = Some data \<Longrightarrow> length data = 512"
proof -
  assume "tick_data resolve f w u = Some data"
  then obtain B where B: "Encode f (w_instancesByUniverse w u) resolve = Inr B"
    "data = (case B u of Some d \<Rightarrow> d | None \<Rightarrow> replicate (nat dmxChannels) 0)"
    by (auto simp: tick_data_def split: sum.splits)
  have "B u = Some d \<Longrightarrow> length d = 512" for d
    by (rule encodeInstances_length [OF B(1) [unfolded Encode_def]]) simp_all
  then show ?thesis by (cases "B u") (simp_all add: B(2) dmxChannels_def)
qed

lemma tick_packet_ok:
  assumes "length data = 512"
  shows "EncodeArtDMX (nextSeq (w_seq w u)) 0 (PortAddress u) data = Inr (tick_packet w u data) \<and>
    artdmx u (tick_packet w u data) \<and> drop 18 (tick_packet w u data) = data"
proof -
  obtain pkt where e: "EncodeArtDMX (nextSeq (w_seq w u)) 0 (PortAddress u) data = Inr pkt"
    using assms by (simp add: EncodeArtDMX_def)
  have "nextSeq x \<noteq> 0" for x using nextSeq_int [of x] pos_mod_sign [of 255 "uint x"] by fastforce
  moreover have "drop 18 pkt = data"
    using e by (auto simp: EncodeArtDMX_Inr artNetID_def le16_def be16_def)
  ultimately show ?thesis using e assms unfolding artdmx_def tick_packet_def by auto
qed

definition afterEncode :: "int \<Rightarrow> byte list \<Rightarrow> Worker \<Rightarrow> Worker" where
  "afterEncode u data w =
     w\<lparr>w_health := RecordUniverseValues u data (w_health w), w_seq := (w_seq w)(u := nextSeq (w_seq w u))\<rparr>"

lemma tickUniverse_eq:
  "tickUniverse resolve f u w =
     (case tick_data resolve f w u of
        None \<Rightarrow> w
      | Some data \<Rightarrow> dispatchAll u (tick_packet w u data) [0..<length (w_targetStates w u)] (afterEncode u data w))"
proof (cases "Encode f (w_instancesByUniverse w u) resolve")
  case (Inl e)
  then show ?thesis by (simp add: tickUniverse_def tick_data_def)
next
  case (Inr B)
  let ?d = "case B u of Some d \<Rightarrow> d | None \<Rightarrow> replicate (nat dmxChannels) 0"
  have d: "tick_data resolve f w u = Some ?d" using Inr by (simp add: tick_data_def)
  have "EncodeArtDMX (nextSeq (w_seq w u)) 0 (PortAddress u) ?d = Inr (tick_packet w u ?d)"
    using tick_packet_ok [OF tick_data_length [OF d]] by blast
  then show ?thesis
    unfolding d option.case
    by (simp add: tickUniverse_def Inr Worker_nextSeq_def Let_def dispatchAll_def afterEncode_def)
qed

lemma tickUniverse_ok: "worker_ok w \<Longrightarrow> worker_ok (tickUniverse resolve f u w) \<and> same_setup w (tickUniverse resolve f u w)"
proof (cases "tick_data resolve f w u")
  case (Some data)
  assume ok: "worker_ok w"
  let ?w = "afterEncode u data w"
  have s: "same_setup w ?w" "worker_ok ?w" using ok by (simp_all add: afterEncode_def same_setup_def)
  have "artdmx u (tick_packet w u data)"
    using tick_packet_ok [OF tick_data_length [OF Some]] by blast
  then have "worker_ok (tickUniverse resolve f u w) \<and> same_setup ?w (tickUniverse resolve f u w)"
    unfolding tickUniverse_eq Some option.case
    by (intro dispatchAll_ok) (use s in \<open>simp_all add: afterEncode_def\<close>)
  then show ?thesis using same_setup_trans [OF s(1)] by blast
qed (simp add: tickUniverse_eq)

lemma fold_tickUniverse_ok:
  "worker_ok w \<Longrightarrow> worker_ok (fold (tickUniverse resolve f) us w) \<and> same_setup w (fold (tickUniverse resolve f) us w)"
proof (induction us arbitrary: w)
  case (Cons u us)
  let ?w = "tickUniverse resolve f u w"
  have "worker_ok ?w" "same_setup w ?w" using tickUniverse_ok [OF Cons.prems, of resolve f u] by blast+
  then show ?case using Cons.IH [of ?w] same_setup_trans [of w ?w] by simp
qed simp

lemma Worker_tick_ok:
  assumes "worker_ok w"
  shows "worker_ok (Worker_tick resolve now frame w) \<and> same_setup w (Worker_tick resolve now frame w)"
proof -
  let ?w = "w\<lparr>w_health := RecordFrame now (w_health w)\<rparr>"
  have "worker_ok ?w" "same_setup w ?w" using assms by (simp_all add: same_setup_def)
  then show ?thesis
    using assms fold_tickUniverse_ok [of ?w resolve _ "w_universes w"] same_setup_trans [of w ?w]
    by (auto simp: Worker_tick_def Let_def)
qed

lemma finishSend_ok:
  assumes "worker_ok w" "k < length (w_inflight w)"
  shows "worker_ok (finishSend k err w) \<and> same_setup w (finishSend k err w)"
proof -
  obtain u n pkt where k: "w_inflight w ! k = (u, n, pkt)" by (metis prod_cases3)
  show ?thesis
    using flights_ok_remove [OF assms k] by (simp add: finishSend_def k Let_def same_setup_def map_update_same)
qed

section \<open>Every reachable worker\<close>

definition idle_targets :: "Worker \<Rightarrow> bool" where
  "idle_targets w = (w_inflight w = [] \<and> (\<forall>u. \<forall>ts\<in>set (w_targetStates w u). \<not> ts_busy ts))"

lemma idle_targets_ok: "idle_targets w \<Longrightarrow> worker_ok w"
  by (auto simp: idle_targets_def flights_ok_def dest: nth_mem)

lemma dialTarget_idle: "idle_targets w \<Longrightarrow> idle_targets (dialTarget dial u n w) \<and> same_setup w (dialTarget dial u n w)"
proof -
  assume idle: "idle_targets w"
  have "\<not> ts_busy ts" if "ts \<in> set ((w_targetStates w u)[n := (w_targetStates w u ! n)\<lparr>ts_sender := True\<rparr>])" for ts
    using idle that by (cases "n < length (w_targetStates w u)")
      (auto simp: idle_targets_def list_update_beyond dest!: set_update_subset_insert [THEN subsetD] dest: nth_mem)
  then show ?thesis
    using idle
    by (auto simp: dialTarget_def Let_def idle_targets_def same_setup_def map_update_same split: option.splits)
qed

lemma fold_step_setup:
  assumes "\<And>x w. P w \<Longrightarrow> P (f x w) \<and> same_setup w (f x w)" "P w"
  shows "P (fold f xs w) \<and> same_setup w (fold f xs w)"
  using assms(2)
proof (induction xs arbitrary: w)
  case (Cons x xs)
  then show ?case using assms(1) [of w x] Cons.IH [of "f x w"] same_setup_trans [of w "f x w"] by simp
qed simp

lemma Worker_Start_idle: "idle_targets w \<Longrightarrow> idle_targets (Worker_Start dial w) \<and> same_setup w (Worker_Start dial w)"
  unfolding Worker_Start_def by (intro fold_step_setup dialTarget_idle)

lemma NewWorker_targets: "map ts_target (w_targetStates (NewWorker cfg) u) = targetsOf (cfg_Targets cfg) u"
proof -
  have "u \<notin> set (map fst (cfg_Targets cfg)) \<Longrightarrow> map_of (cfg_Targets cfg) u = None"
    by (metis image_set map_of_eq_None_iff)
  then show ?thesis by (auto simp: NewWorker_def Let_def targetsOf_def comp_def)
qed

lemma worker_reach_ok:
  assumes "worker_reach resolve dial cfg w"
  shows "worker_ok w \<and> same_setup (NewWorker cfg) w"
  using assms
proof induction
  case worker_start
  have "idle_targets (NewWorker cfg)" by (auto simp: idle_targets_def NewWorker_def Let_def)
  then show ?case using Worker_Start_idle idle_targets_ok by blast
next
  case (worker_ticks w now frame)
  then show ?case using Worker_tick_ok same_setup_trans by blast
next
  case (worker_finish w k err)
  then show ?case using finishSend_ok same_setup_trans by blast
next
  case (worker_override w s d)
  then show ?case by (simp add: same_setup_def)
qed

text \<open>
  C7: Sends in flight. In every state a running worker reaches, whatever the order of ticks,
  completed writes and operator changes, no target has two writes in flight, and each write in
  flight goes to the configured target at its position, which is enabled, connected and marked
  busy, and carries an ArtDMX packet of 512 bytes of data addressed to the target's universe
  with a sequence number other than 0.
\<close>
theorem one_send_per_target:
  assumes "worker_reach resolve dial cfg w"
  shows "distinct (map flight_key (w_inflight w)) \<and>
    list_all (\<lambda>(u, n, pkt). n < length (targetsOf (cfg_Targets cfg) u) \<and> tgt_Enabled (targetsOf (cfg_Targets cfg) u ! n) \<and>
      ts_target (w_targetStates w u ! n) = targetsOf (cfg_Targets cfg) u ! n \<and>
      ts_sender (w_targetStates w u ! n) \<and> ts_busy (w_targetStates w u ! n) \<and> artdmx u pkt) (w_inflight w)"
proof -
  note ok = worker_reach_ok [OF assms]
  have t: "map ts_target (w_targetStates w u) = targetsOf (cfg_Targets cfg) u" for u
    using ok NewWorker_targets [of cfg u] by (simp add: same_setup_def)
  have "n < length (targetsOf (cfg_Targets cfg) u) \<and> ts_target (w_targetStates w u ! n) = targetsOf (cfg_Targets cfg) u ! n"
    if "n < length (w_targetStates w u)" for u n
    using that by (simp flip: t)
  then show ?thesis
    using ok by (auto simp: flights_ok_def send_ok_def list_all_iff)
qed

lemma dispatchSend_other:
  "(u', n') \<noteq> (u, n) \<Longrightarrow> w_targetStates (dispatchSend u' pkt n' w) u ! n = w_targetStates w u ! n"
  by (auto simp: dispatchSend_def Let_def nth_list_update_neq)

lemma dispatchSend_inflight:
  "set (w_inflight (dispatchSend u pkt n w)) =
     (if ts_sender (w_targetStates w u ! n) \<and> \<not> ts_busy (w_targetStates w u ! n) then insert (u, n, pkt) (set (w_inflight w))
      else set (w_inflight w))"
  by (auto simp: dispatchSend_def Let_def)

lemma dispatchAll_other:
  "u' \<noteq> u \<or> n \<notin> set ns \<Longrightarrow> w_targetStates (dispatchAll u' pkt ns w) u ! n = w_targetStates w u ! n"
  unfolding dispatchAll_def
  by (induction ns arbitrary: w) (auto simp: dispatchSend_other)

lemma dispatchAll_inflight:
  "set (w_inflight w) \<subseteq> set (w_inflight (dispatchAll u pkt ns w)) \<and>
   set (w_inflight (dispatchAll u pkt ns w)) \<subseteq> set (w_inflight w) \<union> {(u, n, pkt) | n. n \<in> set ns}"
  unfolding dispatchAll_def
proof (induction ns arbitrary: w)
  case (Cons n ns)
  then show ?case
    using Cons.IH [of "dispatchSend u pkt n w"] Cons.IH [of w]
    by (auto simp: dispatchSend_inflight split: if_splits)
qed simp

lemma dispatchAll_adds:
  assumes "n \<in> set ns" "distinct ns" "tgt_Enabled (ts_target (w_targetStates w u ! n))"
    "ts_sender (w_targetStates w u ! n)" "\<not> ts_busy (w_targetStates w u ! n)"
  shows "(u, n, pkt) \<in> set (w_inflight (dispatchAll u pkt ns w))"
  using assms
proof (induction ns arbitrary: w)
  case (Cons m ns)
  let ?w = "if tgt_Enabled (ts_target (w_targetStates w u ! m)) then dispatchSend u pkt m w else w"
  have e: "dispatchAll u pkt (m # ns) w = dispatchAll u pkt ns ?w" by (simp add: dispatchAll_def)
  show ?case
  proof (cases "m = n")
    case True
    then have "(u, n, pkt) \<in> set (w_inflight ?w)" using Cons.prems by (simp add: dispatchSend_inflight)
    then show ?thesis unfolding e using dispatchAll_inflight [of ?w u pkt ns] by blast
  next
    case False
    then have "w_targetStates ?w u ! n = w_targetStates w u ! n" by (simp add: dispatchSend_other)
    then show ?thesis unfolding e using Cons.IH [of ?w] Cons.prems False by simp
  qed
qed simp

section \<open>What a tick sends\<close>

lemma tick_data_setup: "same_setup w w' \<Longrightarrow> tick_data resolve f w' u = tick_data resolve f w u"
  by (simp add: tick_data_def same_setup_def)

lemma dispatchAll_seq: "w_seq (dispatchAll u pkt ns w) = w_seq w"
  unfolding dispatchAll_def by (induction ns arbitrary: w) (auto simp: dispatchSend_def Let_def)

lemma dispatchAll_setup: "same_setup w (dispatchAll u pkt ns w)"
proof -
  have "True \<and> same_setup w (dispatchAll u pkt ns w)"
    unfolding dispatchAll_def
    by (rule fold_step_setup) (simp_all add: dispatchSend_setup)
  then show ?thesis ..
qed

lemma tickUniverse_setup: "same_setup w (tickUniverse resolve f u w)"
proof -
  have "same_setup w (afterEncode u data w)" for data by (simp add: afterEncode_def same_setup_def)
  then show ?thesis
    using same_setup_trans [OF _ dispatchAll_setup] by (simp add: tickUniverse_eq split: option.split)
qed

text \<open>The parts of the state that the loop body for another universe does not touch.\<close>
lemma tickUniverse_other:
  assumes "u' \<noteq> u"
  shows "w_targetStates (tickUniverse resolve f u' w) u ! n = w_targetStates w u ! n"
    "w_seq (tickUniverse resolve f u' w) u = w_seq w u"
  using assms dispatchAll_other [of u' u]
  by (simp_all add: tickUniverse_eq dispatchAll_seq afterEncode_def split: option.split)

lemma tickUniverse_inflight:
  "set (w_inflight w) \<subseteq> set (w_inflight (tickUniverse resolve f u w)) \<and>
   (\<forall>x\<in>set (w_inflight (tickUniverse resolve f u w)). x \<in> set (w_inflight w) \<or>
      (\<exists>n data. tick_data resolve f w u = Some data \<and> x = (u, n, tick_packet w u data)))"
proof (cases "tick_data resolve f w u")
  case (Some data)
  have "w_inflight (afterEncode u data w) = w_inflight w" by (simp add: afterEncode_def)
  then show ?thesis
    using dispatchAll_inflight [of "afterEncode u data w" u "tick_packet w u data" "[0..<length (w_targetStates w u)]"]
    by (auto simp: tickUniverse_eq Some)
qed (simp add: tickUniverse_eq)

lemma fold_tick_inflight:
  "set (w_inflight w) \<subseteq> set (w_inflight (fold (tickUniverse resolve f) us w)) \<and>
   (\<forall>u n pkt. (u, n, pkt) \<in> set (w_inflight (fold (tickUniverse resolve f) us w)) \<longrightarrow> (u, n, pkt) \<in> set (w_inflight w) \<or>
      (\<exists>data. tick_data resolve f w u = Some data \<and> drop 18 pkt = data))"
proof (induction us arbitrary: w)
  case (Cons u us)
  let ?w = "tickUniverse resolve f u w"
  have d: "tick_data resolve f ?w v = tick_data resolve f w v" for v
    by (rule tick_data_setup [OF tickUniverse_setup])
  have p: "drop 18 (tick_packet w u data) = data" if "tick_data resolve f w u = Some data" for data
    using tick_packet_ok [OF tick_data_length [OF that]] by blast
  show ?case
    using Cons.IH [of ?w] tickUniverse_inflight [of w resolve f u] p unfolding d fold_simps by blast
qed simp

lemma fold_tick_sends:
  assumes "u \<in> set us" "distinct us" "tick_data resolve f w u = Some data" "n < length (w_targetStates w u)"
    "tgt_Enabled (ts_target (w_targetStates w u ! n))" "ts_sender (w_targetStates w u ! n)" "\<not> ts_busy (w_targetStates w u ! n)"
  shows "(u, n, tick_packet w u data) \<in> set (w_inflight (fold (tickUniverse resolve f) us w))"
  using assms
proof (induction us arbitrary: w)
  case (Cons v us)
  let ?w = "tickUniverse resolve f v w"
  show ?case
  proof (cases "v = u")
    case True
    have "(u, n, tick_packet w u data) \<in> set (w_inflight ?w)"
      unfolding True tickUniverse_eq Cons.prems(3) option.case
      by (rule dispatchAll_adds) (use Cons.prems in \<open>simp_all add: afterEncode_def\<close>)
    then show ?thesis using fold_tick_inflight [of ?w resolve f us] by (auto simp del: set_append)
  next
    case False
    note o = tickUniverse_other [OF False, of resolve f w]
    have "tick_packet ?w u data = tick_packet w u data" by (simp add: tick_packet_def o)
    moreover have "length (w_targetStates ?w u) = length (w_targetStates w u)"
      by (rule same_setup_length [OF tickUniverse_setup])
    ultimately show ?thesis
      using Cons.IH [of ?w] Cons.prems False by (simp add: o tick_data_setup [OF tickUniverse_setup])
  qed
qed simp

text \<open>
  C8: A slow or broken target delays nobody. When a tick has a frame to send, every enabled,
  connected target of a universe that encodes and that has no earlier write pending gets a write
  of the universe's current data with the next sequence number, whatever state the other
  targets are in and whether or not other universes encode.
\<close>
theorem tick_reaches_idle_targets:
  assumes "Encode (overriddenFrame f w) (w_instancesByUniverse w u) resolve = Inr B"
    and "u \<in> set (w_universes w)" and "distinct (w_universes w)"
    and "n < length (w_targetStates w u)" and "tgt_Enabled (ts_target (w_targetStates w u ! n))"
    and "ts_sender (w_targetStates w u ! n)" and "\<not> ts_busy (w_targetStates w u ! n)"
  shows "\<exists>pkt data. (u, n, pkt) \<in> set (w_inflight (Worker_tick resolve now (Some f) w)) \<and>
    data = (case B u of Some d \<Rightarrow> d | None \<Rightarrow> replicate 512 0) \<and>
    EncodeArtDMX (nextSeq (w_seq w u)) 0 (PortAddress u) data = Inr pkt"
proof -
  let ?w = "w\<lparr>w_health := RecordFrame now (w_health w)\<rparr>"
  let ?d = "case B u of Some d \<Rightarrow> d | None \<Rightarrow> replicate 512 0"
  have d: "tick_data resolve (overriddenFrame f w) ?w u = Some ?d"
    using assms(1) by (cases "B u") (simp_all add: tick_data_def dmxChannels_def)
  have "(u, n, tick_packet ?w u ?d) \<in> set (w_inflight (Worker_tick resolve now (Some f) w))"
    unfolding Worker_tick_def Let_def using fold_tick_sends [OF _ _ d] assms(2-) by simp
  moreover have "EncodeArtDMX (nextSeq (w_seq w u)) 0 (PortAddress u) ?d = Inr (tick_packet ?w u ?d)"
    using tick_packet_ok [OF tick_data_length [OF d], of ?w u] by simp
  ultimately show ?thesis by blast
qed

lemma new_packet_data:
  assumes "(u, n, pkt) \<in> set (w_inflight (Worker_tick resolve now frame w)) - set (w_inflight w)"
  obtains B where "Encode (overriddenFrame (case frame of Some f \<Rightarrow> f | None \<Rightarrow> Map.empty) w) (w_instancesByUniverse w u) resolve = Inr B"
    "drop 18 pkt = (case B u of Some d \<Rightarrow> d | None \<Rightarrow> replicate (nat dmxChannels) 0)"
proof -
  let ?f = "overriddenFrame (case frame of Some f \<Rightarrow> f | None \<Rightarrow> Map.empty) w"
  let ?w = "w\<lparr>w_health := RecordFrame now (w_health w)\<rparr>"
  have "(u, n, pkt) \<in> set (w_inflight (fold (tickUniverse resolve ?f) (w_universes w) ?w)) - set (w_inflight ?w)"
    using assms by (auto simp: Worker_tick_def Let_def split: if_splits)
  then obtain data where data: "tick_data resolve ?f ?w u = Some data" "drop 18 pkt = data"
    using fold_tick_inflight [of ?w resolve ?f "w_universes w"] by blast
  from data(1) obtain B where B: "Encode ?f (w_instancesByUniverse w u) resolve = Inr B"
    "data = (case B u of Some d \<Rightarrow> d | None \<Rightarrow> replicate (nat dmxChannels) 0)"
    by (auto simp: tick_data_def split: sum.splits)
  show ?thesis by (rule that [OF B(1)]) (simp add: data(2) B(2))
qed

text \<open>
  C4: Blackout on the wire. While blackout or stop-all is set, every packet a tick puts in flight,
  whatever the scene and the desk ask for, carries 0 in each slot on which only intensity
  channels lie.
\<close>
theorem blackout_on_the_wire:
  assumes "dark (w_safety w)" and "addresses_valid (w_instancesByUniverse w u)" and "o' < 512"
    and only: "\<And>i k. \<lbrakk>i \<in> set (w_instancesByUniverse w u); inst_Universe i = u; k < length (channels_of resolve i);
        nat (inst_Address i - 1) + k = o'\<rbrakk> \<Longrightarrow> slot_Type (channels_of resolve i ! k) = CapabilityIntensity"
    and new: "(u, n, pkt) \<in> set (w_inflight (Worker_tick resolve now frame w)) - set (w_inflight w)"
  shows "drop 18 pkt ! o' = 0"
proof -
  obtain B where B: "Encode (overriddenFrame (case frame of Some f \<Rightarrow> f | None \<Rightarrow> Map.empty) w) (w_instancesByUniverse w u) resolve = Inr B"
    "drop 18 pkt = (case B u of Some d \<Rightarrow> d | None \<Rightarrow> replicate (nat dmxChannels) 0)"
    using new by (rule new_packet_data)
  have "d ! o' = 0" if "B u = Some d" for d
    using blackout_sends_dark [OF assms(2,1) B(1) [unfolded overriddenFrame_def] that assms(3) only] .
  then show ?thesis using assms(3) by (cases "B u") (simp_all add: B(2) dmxChannels_def)
qed

text \<open>A slot that is not 0 in a packet belongs to an instance the source or the desk drives.\<close>
context frame_source
begin

lemma lit_slot:
  assumes "ok s" "addresses_valid (w_instancesByUniverse w u)" "o' < 512"
    "(u, n, pkt) \<in> set (w_inflight (Worker_tick resolve now (current s) w)) - set (w_inflight w)" "drop 18 pkt ! o' \<noteq> 0"
  shows "\<exists>i\<in>set (w_instancesByUniverse w u). (inst_ID i \<in> reach s \<or> currentOverrides (w_desk w) (inst_ID i) \<noteq> None) \<and>
    (\<exists>k<length (channels_of resolve i). nat (inst_Address i - 1) + k = o')"
proof -
  let ?g = "case current s of Some f \<Rightarrow> f | None \<Rightarrow> Map.empty"
  let ?f = "overriddenFrame ?g w" and ?is = "w_instancesByUniverse w u"
  from assms(4) obtain B where B: "Encode ?f ?is resolve = Inr B"
    "drop 18 pkt = (case B u of Some d \<Rightarrow> d | None \<Rightarrow> replicate (nat dmxChannels) 0)"
    by (rule new_packet_data)
  with assms(3,5) obtain d where d: "B u = Some d" "d ! o' \<noteq> 0"
    by (cases "B u") (simp_all add: dmxChannels_def)
  then obtain b where "map_of (rev (all_writes ?f resolve ?is)) (u, o') = Some b"
    using Encode_Inr(4) [OF assms(2) B(1) d(1) assms(3)] by (cases "map_of (rev (all_writes ?f resolve ?is)) (u, o')") auto
  from map_of_SomeD [OF this] obtain i attrs k where i: "i \<in> set ?is" "?f (inst_ID i) = Some attrs"
    "k < length (channels_of resolve i)" "nat (inst_Address i - 1) + k = o'"
    by (rule all_writes_cases)
  have "?g (inst_ID i) \<noteq> None \<or> currentOverrides (w_desk w) (inst_ID i) \<noteq> None"
    using i(2) by (auto simp: overriddenFrame_def applyOverrides_def applyDeskOverrides_def Let_def split: option.splits)
  then have "inst_ID i \<in> reach s \<or> currentOverrides (w_desk w) (inst_ID i) \<noteq> None"
    using frame_outside_reach [OF assms(1), of "inst_ID i"] by (cases "inst_ID i \<in> reach s") simp_all
  then show ?thesis using i by blast
qed

end

section \<open>Health\<close>

lemma RecordSend_entry:
  assumes "keyOf t \<in> h_configured h" "h_targets h (keyOf t) = Some th"
  shows "h_targets (RecordSend u t err h) = (h_targets h)(keyOf t \<mapsto> recordOutcome u t err th)"
    "h_targetsPtr (RecordSend u t err h) = h_targets (RecordSend u t err h)"
    "h_configured (RecordSend u t err h) = h_configured h"
  using assms by (simp_all add: RecordSend_def publishTargetsLocked_def Let_def)

text \<open>The health entry after a list of outcomes: what an observer counts.\<close>
definition counted :: "int \<Rightarrow> Target \<Rightarrow> golc_error option list \<Rightarrow> TargetHealth \<Rightarrow> TargetHealth" where
  "counted u t outs th =
     \<lparr>th_Universe = u, th_Target = t,
      th_SendOK = wrap64 (th_SendOK th + int (length (filter (\<lambda>e. e = None) outs))),
      th_SendErr = wrap64 (th_SendErr th + int (length (filter (\<lambda>e. e \<noteq> None) outs))),
      th_Reachable = (th_Reachable th \<or> None \<in> set outs), th_LastError = last outs\<rparr>"

lemma wrap64_add: "wrap64 (wrap64 a + b) = wrap64 (a + b)"
proof -
  obtain k where "wrap64 a = a + 18446744073709551616 * k" using wrap64_shift by blast
  then have "wrap64 a + b = (a + b) + 18446744073709551616 * k" by simp
  then show ?thesis by (simp only: wrap64_period)
qed

lemma counted_step:
  assumes "is_int64 (th_SendOK th)" "is_int64 (th_SendErr th)"
  shows "counted u t [e] th = recordOutcome u t e th"
    "outs \<noteq> [] \<Longrightarrow> counted u t outs (recordOutcome u t e th) = counted u t (e # outs) th"
    "is_int64 (th_SendOK (recordOutcome u t e th))" "is_int64 (th_SendErr (recordOutcome u t e th))"
  using assms
  by (cases e; auto simp: counted_def recordOutcome_def Let_def wrap64_add wrap64_range algebra_simps)+

lemma fold_RecordSend:
  assumes "outs \<noteq> []" "keyOf t \<in> h_configured h" "h_targets h (keyOf t) = Some th"
    "is_int64 (th_SendOK th)" "is_int64 (th_SendErr th)"
  shows "h_targets (fold (RecordSend u t) outs h) = (h_targets h)(keyOf t \<mapsto> counted u t outs th) \<and>
    h_targetsPtr (fold (RecordSend u t) outs h) = h_targets (fold (RecordSend u t) outs h)"
  using assms
proof (induction outs arbitrary: h th)
  case (Cons e outs)
  let ?h = "RecordSend u t e h" and ?th = "recordOutcome u t e th"
  note entry = RecordSend_entry [OF Cons.prems(2,3), of u e]
  note c = counted_step [OF Cons.prems(4,5), where u = u and t = t and e = e]
  show ?case
  proof (cases "outs = []")
    case True
    then show ?thesis using entry c(1) by simp
  next
    case False
    have k: "keyOf t \<in> h_configured ?h" "h_targets ?h (keyOf t) = Some ?th"
      using entry Cons.prems(2) by simp_all
    from Cons.IH [OF False k c(3,4)] show ?thesis
      using c(2) [OF False] entry(1) by (auto simp: fun_eq_iff)
  qed
qed simp

lemma configureTarget_fields:
  "h_configured (configureTarget u t h) = insert (keyOf t) (h_configured h)"
  "h_targets (configureTarget u t h) k =
     (if k = keyOf t then Some ((case h_targets h k of None \<Rightarrow> zeroTargetHealth | Some e \<Rightarrow> e)\<lparr>th_Universe := u, th_Target := t\<rparr>)
      else h_targets h k)"
  "h_configuredUniverses (configureTarget u t h) = h_configuredUniverses h"
  "h_universeValues (configureTarget u t h) = h_universeValues h"
  by (auto simp: configureTarget_def Let_def zeroTargetHealth_def split: option.splits)

text \<open>A tracked entry that has counted nothing yet.\<close>
definition untouched :: "TargetHealth \<Rightarrow> bool" where
  "untouched th = (th_SendOK th = 0 \<and> th_SendErr th = 0 \<and> \<not> th_Reachable th \<and> th_LastError th = None)"

definition fresh_health :: "targetKey set \<Rightarrow> Health \<Rightarrow> bool" where
  "fresh_health K h = (h_configured h = K \<and> dom (h_targets h) = K \<and> (\<forall>th\<in>ran (h_targets h). untouched th) \<and>
     h_universeValues h = Map.empty)"

lemma configureTarget_fresh: "fresh_health K h \<Longrightarrow> fresh_health (insert (keyOf t) K) (configureTarget u t h)"
proof -
  assume f: "fresh_health K h"
  have old: "untouched th" if "h_targets h k = Some th" for k th
    using that f by (metis fresh_health_def ranI)
  have "untouched th" if "h_targets (configureTarget u t h) k = Some th" for k th
  proof (cases "k = keyOf t")
    case True
    then show ?thesis
      using that old [of k] by (cases "h_targets h k") (auto simp: configureTarget_fields untouched_def zeroTargetHealth_def)
  next
    case False
    then show ?thesis using that old [of k] by (simp add: configureTarget_fields)
  qed
  then have "\<forall>th\<in>ran (h_targets (configureTarget u t h)). untouched th" unfolding ran_def by blast
  moreover have "dom (h_targets (configureTarget u t h)) = insert (keyOf t) K"
    using f by (auto simp: configureTarget_fields fresh_health_def dom_def)
  ultimately show ?thesis
    using f unfolding fresh_health_def by (simp only: configureTarget_fields(1,4) simp_thms)
qed

definition configured_keys :: "(int \<times> Target list) list \<Rightarrow> targetKey set" where
  "configured_keys targets = (\<Union>(u, ts)\<in>set targets. keyOf ` set ts)"

lemma Configure_fresh:
  "fresh_health (configured_keys targets) (Configure targets NewHealth) \<and>
   h_configuredUniverses (Configure targets NewHealth) = fst ` set targets \<and>
   h_targetsPtr (Configure targets NewHealth) = h_targets (Configure targets NewHealth)"
proof -
  have inner: "fresh_health K h \<Longrightarrow> fresh_health (K \<union> keyOf ` set ts) (fold (configureTarget u) ts h)" for K u ts h
  proof (induction ts arbitrary: K h)
    case (Cons t ts)
    from Cons.IH [OF configureTarget_fresh [OF Cons.prems]] show ?case by simp
  qed simp
  have "fresh_health K h \<Longrightarrow>
      fresh_health (K \<union> configured_keys targets) (fold (\<lambda>(u, ts) h. fold (configureTarget u) ts h) targets h)" for K h
  proof (induction targets arbitrary: K h)
    case (Cons p targets)
    obtain u ts where p: "p = (u, ts)" by (cases p)
    from Cons.IH [OF inner [OF Cons.prems, of ts u]] show ?case
      by (simp add: p configured_keys_def Un_assoc)
  qed (simp add: configured_keys_def)
  from this [of "{}" "NewHealth\<lparr>h_configured := {}\<rparr>"] show ?thesis
    by (auto simp: Configure_def Let_def publishTargetsLocked_def publishUniverseValuesLocked_def fresh_health_def NewHealth_def)
qed

text \<open>
  Health counts what happened. After configuration, a sequence of send outcomes for a target
  leaves, for a configured target, an entry with the number of successes and of failures (at
  their 64-bit width), reachable exactly when some send succeeded, with the error of the last
  outcome if that failed, all other entries untouched and the published snapshot up to date; for
  a target that is not configured it leaves everything as it was.
\<close>
theorem health_counts_outcomes:
  assumes "outs \<noteq> []"
  shows "let h = Configure targets NewHealth; h' = fold (RecordSend u t) outs h in
    if keyOf t \<in> configured_keys targets then
      hs_Targets (Snapshot now h') = (hs_Targets (Snapshot now h))(keyOf t \<mapsto>
        \<lparr>th_Universe = u, th_Target = t,
         th_SendOK = wrap64 (int (length (filter (\<lambda>e. e = None) outs))),
         th_SendErr = wrap64 (int (length (filter (\<lambda>e. e \<noteq> None) outs))),
         th_Reachable = (None \<in> set outs), th_LastError = last outs\<rparr>)
    else h' = h"
proof -
  let ?h = "Configure targets NewHealth"
  note f = Configure_fresh [of targets]
  show ?thesis
  proof (cases "keyOf t \<in> configured_keys targets")
    case True
    then have "keyOf t \<in> dom (h_targets ?h)" using f by (simp add: fresh_health_def)
    then obtain th where th: "h_targets ?h (keyOf t) = Some th" by blast
    then have un: "untouched th" using f ranI [of "h_targets ?h"] by (simp add: fresh_health_def)
    have "keyOf t \<in> h_configured ?h" using f True by (simp add: fresh_health_def)
    from fold_RecordSend [OF assms this th] show ?thesis
      using un True f by (simp add: Snapshot_def untouched_def counted_def is_int64_def min_int64_def max_int64_def Let_def)
  next
    case False
    then have "RecordSend u t e ?h = ?h" for e using f by (simp add: RecordSend_def fresh_health_def Let_def)
    then have "fold (RecordSend u t) outs ?h = ?h" by (induction outs) simp_all
    then show ?thesis using False by (simp add: Let_def)
  qed
qed

text \<open>
  A stalled engine is reported healthy.  A tick records the time it reads a frame, not the time
  the frame was made: as long as the worker ticks on whatever frame the engine published last,
  the frame health is on cadence for the next quarter of a second.
\<close>
theorem stalled_engine_looks_healthy:
  assumes "now \<noteq> 0" and "now \<le> later" and "later \<le> now + 250000000"
  shows "FrameHealth_Err (hs_Frame (Snapshot later (w_health (Worker_tick resolve now (Some f) w)))) = None"
proof -
  have "h_lastFrameAtNano (w_health (tickUniverse resolve g u w)) = h_lastFrameAtNano (w_health w)" for g u w
  proof -
    have send: "h_lastFrameAtNano (RecordSend x t e h) = h_lastFrameAtNano h" for x t e h
      by (simp add: RecordSend_def publishTargetsLocked_def Let_def)
    have "h_lastFrameAtNano (w_health (dispatchAll u pkt ns w)) = h_lastFrameAtNano (w_health w)" for pkt ns w
      unfolding dispatchAll_def by (induction ns arbitrary: w) (simp_all add: dispatchSend_def Let_def send)
    then show ?thesis
      by (simp add: tickUniverse_eq afterEncode_def RecordUniverseValues_def publishUniverseValuesLocked_def split: option.split)
  qed
  then have "h_lastFrameAtNano (w_health (fold (tickUniverse resolve g) us w)) = h_lastFrameAtNano (w_health w)" for g us w
    by (induction us arbitrary: w) simp_all
  then have "h_lastFrameAtNano (w_health (Worker_tick resolve now (Some f) w)) = now"
    by (simp add: Worker_tick_def Let_def RecordFrame_def)
  then show ?thesis
    using assms by (simp add: Snapshot_def loadLastFrameAt_def evaluateFrameHealth_def FrameHealth_Err_def timeSub_def
        frameStaleAfter_def workerTickInterval_def min_int64_def max_int64_def)
qed

section \<open>A worker at work\<close>

definition demo_cfg :: WorkerConfig where
  "demo_cfg = \<lparr>cfg_Instances = [par_at 1 1], cfg_Groups = [], cfg_Targets = [(1, [demo_target 1 5])],
     cfg_Safety = Some blacked_out, cfg_Desk = None, cfg_SendTimeout = 0, cfg_Health = None\<rparr>"

definition demo_worker :: Worker where
  "demo_worker = Worker_Start (\<lambda>_ _. None) (NewWorker demo_cfg)"

lemma demo_worker_fields:
  "w_universes demo_worker = [1]" "w_safety demo_worker = Some blacked_out" "w_desk demo_worker = None"
  "w_targetStates demo_worker 1 = [\<lparr>ts_universe = 1, ts_target = demo_target 1 5, ts_sender = True, ts_busy = False\<rparr>]"
  "w_instancesByUniverse demo_worker 1 = [par_at 1 1]" "w_inflight demo_worker = []" "w_seq demo_worker 1 = 0"
  by (simp_all add: demo_worker_def Worker_Start_def NewWorker_def demo_cfg_def dialTarget_def targetsOf_def Let_def par_at_def)

lemma demo_overridden: "overriddenFrame [1 \<mapsto> par_look] demo_worker = [1 \<mapsto> zeroedAttributeSet par_look]"
  by (simp add: overriddenFrame_def demo_worker_fields currentOverrides_def par_blackout_frame)

lemma demo_tick_sends:
  "(1, 0, tick_packet demo_worker 1 ((replicate 512 0)[0 := scaleToByte (Fin 0), 1 := scaleToByte (Fin (1 / 2))]))
     \<in> set (w_inflight (Worker_tick par_resolve 5 (Some [1 \<mapsto> par_look]) demo_worker))"
proof -
  let ?w = "demo_worker\<lparr>w_health := RecordFrame 5 (w_health demo_worker)\<rparr>"
  let ?d = "(replicate 512 0)[0 := scaleToByte (Fin 0), 1 := scaleToByte (Fin (1 / 2))]"
  have d: "tick_data par_resolve [1 \<mapsto> zeroedAttributeSet par_look] ?w 1 = Some ?d"
    by (simp add: tick_data_def demo_worker_fields par_blackout_encode)
  have "tick_packet ?w 1 ?d = tick_packet demo_worker 1 ?d" by (simp add: tick_packet_def)
  moreover have "(1, 0, tick_packet ?w 1 ?d) \<in>
      set (w_inflight (fold (tickUniverse par_resolve [1 \<mapsto> zeroedAttributeSet par_look]) [1] ?w))"
    by (rule fold_tick_sends [OF _ _ d]) (simp_all add: demo_worker_fields demo_target_def)
  ultimately show ?thesis by (simp add: Worker_tick_def demo_overridden demo_worker_fields del: fold_simps)
qed

theorem one_send_per_target_witness:
  "worker_reach par_resolve (\<lambda>_ _. None) demo_cfg (Worker_tick par_resolve 5 (Some [1 \<mapsto> par_look]) demo_worker) \<and>
   distinct (map flight_key (w_inflight (Worker_tick par_resolve 5 (Some [1 \<mapsto> par_look]) demo_worker))) \<and>
   w_inflight (Worker_tick par_resolve 5 (Some [1 \<mapsto> par_look]) demo_worker) \<noteq> []"
proof -
  have "worker_reach par_resolve (\<lambda>_ _. None) demo_cfg (Worker_tick par_resolve 5 (Some [1 \<mapsto> par_look]) demo_worker)"
    unfolding demo_worker_def by (intro worker_ticks worker_start)
  then show ?thesis using one_send_per_target demo_tick_sends by fastforce
qed

theorem tick_reaches_idle_targets_witness:
  "\<exists>pkt. (1, 0, pkt) \<in> set (w_inflight (Worker_tick par_resolve 5 (Some [1 \<mapsto> par_look]) demo_worker))"
  using tick_reaches_idle_targets [of "[1 \<mapsto> par_look]" demo_worker 1 par_resolve _ 0 5]
  by (simp add: demo_overridden demo_worker_fields par_blackout_encode) (auto simp: demo_target_def)

theorem blackout_on_the_wire_witness:
  "\<exists>n pkt. (1, n, pkt) \<in> set (w_inflight (Worker_tick par_resolve 5 (Some [1 \<mapsto> par_look]) demo_worker)) \<and>
     drop 18 pkt ! 0 = 0"
proof -
  have "dark (w_safety demo_worker)" "addresses_valid (w_instancesByUniverse demo_worker 1)"
    by (simp_all add: demo_worker_fields dark_def blacked_out_def setBlackout_def par_valid)
  from blackout_on_the_wire [OF this, of 0 par_resolve 0 _ 5 "Some [1 \<mapsto> par_look]"] demo_tick_sends show ?thesis
    by (fastforce simp: demo_worker_fields par_channels par_at_def less_Suc_eq)
qed

theorem health_counts_outcomes_witness:
  "hs_Targets (Snapshot 0 (fold (RecordSend 1 (demo_target 1 5)) [Some (Code ''x''), None]
     (Configure [(1, [demo_target 1 5])] NewHealth))) (keyOf (demo_target 1 5)) =
   Some \<lparr>th_Universe = 1, th_Target = demo_target 1 5, th_SendOK = 1, th_SendErr = 1, th_Reachable = True, th_LastError = None\<rparr>"
  using health_counts_outcomes [of "[Some (Code ''x''), None]" "[(1, [demo_target 1 5])]" 1 "demo_target 1 5" 0]
  by (simp add: configured_keys_def Let_def wrap64_def)

end
