(* ===== verification/ArtnetDiscovery.thy ===== *)
theory ArtnetDiscovery
  imports ArtnetPacket
begin

text \<open>
  Network discovery and the pinned interface: \<open>internal/artnet/discovery.go\<close> and
  \<open>internal/artnet/interfacemgr.go\<close>.  Sockets are outside the model: the datagrams that arrive
  before the read fails (deadline, cancellation or close) are an argument of \<open>Discover\<close>, and what
  \<open>net.InterfaceByIndex\<close> answers is an argument of the interface manager's operations.

  The theorems: discovery lists each replying address once, in order of first reply and with its
  latest answer, and skips every malformed datagram; the subnet broadcast address keeps the network
  part and sets every host bit; a lost interface stays lost.
\<close>

section \<open>Interfaces\<close>

text \<open>\<open>net.Addr\<close> values: an \<open>*net.IPNet\<close> with its mask, an \<open>*net.IPAddr\<close>, or any other kind.\<close>
datatype Addr = IPNet "byte list" "byte list" | IPAddr "byte list" | OtherAddr

record InterfaceInfo =
  if_Index :: int
  if_Name :: string
  if_Up :: bool
  if_Addrs :: "Addr list"

text \<open>\<open>ifaces\<close> is what \<open>net.Interfaces\<close> returns: index, name, flags and the outcome of \<open>Addrs\<close>;
  bit 0 of the flags is \<open>net.FlagUp\<close>.\<close>
definition ListCandidateInterfaces ::
  "(int \<times> string \<times> 32 word \<times> Addr list result) list result \<Rightarrow> InterfaceInfo list result" where
  "ListCandidateInterfaces ifaces =
     (case ifaces of
        Inl e \<Rightarrow> Inl (Wrap ''GOLC_ARTNET_INTERFACE_ENUM_FAILED'' e)
      | Inr l \<Rightarrow> Inr (map (\<lambda>(index, nm, flags, addrs).
          \<lparr>if_Index = index, if_Name = nm, if_Up = (flags AND 1 \<noteq> 0),
           if_Addrs = (case addrs of Inr as \<Rightarrow> as | Inl _ \<Rightarrow> [])\<rparr>) l))"

definition addrIP :: "Addr \<Rightarrow> byte list" where
  "addrIP addr = (case addr of IPNet ip _ \<Rightarrow> ip | IPAddr ip \<Rightarrow> ip | OtherAddr \<Rightarrow> [])"

text \<open>\<open>for ... { if ip := addrIP(addr); ip != nil { if ip4 := ip.To4(); ip4 != nil { return ip4 } } }\<close>\<close>
fun firstIPv4 :: "Addr list \<Rightarrow> byte list option" where
  "firstIPv4 [] = None"
| "firstIPv4 (a # as) = (if addrIP a \<noteq> [] \<and> To4 (addrIP a) \<noteq> None then To4 (addrIP a) else firstIPv4 as)"

datatype InterfaceStatus = InterfaceStatusOK | InterfaceStatusLost

fun InterfaceStatus_String :: "InterfaceStatus \<Rightarrow> string" where
  "InterfaceStatus_String InterfaceStatusOK = ''ok''"
| "InterfaceStatus_String InterfaceStatusLost = ''lost''"

record InterfaceManager =
  im_pinnedIndex :: int
  im_pinnedName :: string
  im_status :: InterfaceStatus

definition NewInterfaceManager :: "int \<Rightarrow> string \<Rightarrow> InterfaceManager" where
  "NewInterfaceManager index nm = \<lparr>im_pinnedIndex = index, im_pinnedName = nm, im_status = InterfaceStatusOK\<rparr>"

definition InterfaceManager_Err :: "InterfaceManager \<Rightarrow> golc_error option" where
  "InterfaceManager_Err m =
     (if im_status m = InterfaceStatusLost then Some (Code ''GOLC_ARTNET_INTERFACE_LOST'') else None)"

definition markLost :: "InterfaceManager \<Rightarrow> InterfaceManager" where
  "markLost m = m\<lparr>im_status := InterfaceStatusLost\<rparr>"

text \<open>\<open>byIndex\<close> is the system's interface table.\<close>
definition Check :: "(int \<Rightarrow> InterfaceInfo result) \<Rightarrow> InterfaceManager \<Rightarrow> InterfaceManager" where
  "Check byIndex m =
     (case byIndex (im_pinnedIndex m) of
        Inl e \<Rightarrow> markLost m
      | Inr iface \<Rightarrow> if \<not> if_Up iface then markLost m else m)"

definition LocalIP :: "(int \<Rightarrow> InterfaceInfo result) \<Rightarrow> InterfaceManager \<Rightarrow> byte list result" where
  "LocalIP byIndex m =
     (case byIndex (im_pinnedIndex m) of
        Inl e \<Rightarrow> Inl (Wrap ''GOLC_ARTNET_INTERFACE_LOST'' e)
      | Inr iface \<Rightarrow> (case firstIPv4 (if_Addrs iface) of
          Some ip4 \<Rightarrow> Inr ip4
        | None \<Rightarrow> Inl (Code ''GOLC_ARTNET_INTERFACE_LOST'')))"

section \<open>Discovery\<close>

definition defaultDiscoveryWindow :: int where "defaultDiscoveryWindow = 3 * 1000000000"
definition artPollReplyReadBufferSize :: nat where "artPollReplyReadBufferSize = 1024"

record DiscoveredNode =
  node_IP :: "byte list"
  node_ShortName :: "byte list"
  node_LongName :: "byte list"
  node_PortAddresses :: "16 word list"

definition localIPv4FromInterfaceInfo :: "InterfaceInfo \<Rightarrow> byte list result" where
  "localIPv4FromInterfaceInfo iface =
     (case firstIPv4 (if_Addrs iface) of
        Some ip4 \<Rightarrow> Inr ip4
      | None \<Rightarrow> Inl (Code ''GOLC_ARTNET_DISCOVERY_NO_LOCAL_IP''))"

fun discoveryBroadcast :: "Addr list \<Rightarrow> byte list" where
  "discoveryBroadcast [] = IPv4bcast"
| "discoveryBroadcast (IPNet ip msk # as) =
     (case To4 ip of
        Some ip4 \<Rightarrow> if length msk \<noteq> 4 then discoveryBroadcast as
                    else map2 (\<lambda>b m. b OR NOT m) ip4 msk
      | None \<Rightarrow> discoveryBroadcast as)"
| "discoveryBroadcast (_ # as) = discoveryBroadcast as"

definition discoveryBroadcastAddr :: "InterfaceInfo \<Rightarrow> byte list" where
  "discoveryBroadcastAddr iface = discoveryBroadcast (if_Addrs iface)"

definition nodeOf :: "ArtPollReply \<Rightarrow> DiscoveredNode" where
  "nodeOf r = \<lparr>node_IP = reply_IP r, node_ShortName = reply_ShortName r, node_LongName = reply_LongName r,
     node_PortAddresses = reply_PortAddresses r\<rparr>"

text \<open>The collection loop: \<open>byIP\<close> and \<open>order\<close>, one datagram at a time; a read returns at most the
  buffer's size of a datagram.\<close>
fun collectReplies ::
  "byte list list \<Rightarrow> (byte list \<rightharpoonup> DiscoveredNode) \<Rightarrow> byte list list \<Rightarrow> (byte list \<rightharpoonup> DiscoveredNode) \<times> byte list list" where
  "collectReplies [] byIP order = (byIP, order)"
| "collectReplies (d # ds) byIP order =
     (case DecodeArtPollReply (take artPollReplyReadBufferSize d) of
        Inl e \<Rightarrow> collectReplies ds byIP order
      | Inr reply \<Rightarrow>
          let key = ip_text (reply_IP reply);
              order' = (if byIP key = None then order @ [key] else order) in
          collectReplies ds (byIP(key \<mapsto> nodeOf reply)) order')"

text \<open>\<open>listen\<close> is the outcome of opening the socket and setting its deadline, with the datagrams
  read from it.\<close>
definition Discover :: "(byte list \<Rightarrow> byte list \<Rightarrow> byte list \<Rightarrow> byte list list result) \<Rightarrow> InterfaceInfo \<Rightarrow> DiscoveredNode list result" where
  "Discover listen iface =
     bind_res (localIPv4FromInterfaceInfo iface) (\<lambda>localIP.
     bind_res (listen localIP (discoveryBroadcastAddr iface) EncodeArtPoll) (\<lambda>datagrams.
       let (byIP, order) = collectReplies datagrams Map.empty [] in
       Inr (map (\<lambda>key. the (byIP key)) order)))"

section \<open>Properties\<close>

text \<open>The replies of a list of datagrams that decode.\<close>
definition good_replies :: "byte list list \<Rightarrow> ArtPollReply list" where
  "good_replies ds = concat (map (\<lambda>d. case DecodeArtPollReply (take 1024 d) of Inr r \<Rightarrow> [r] | Inl _ \<Rightarrow> []) ds)"

definition reply_key :: "ArtPollReply \<Rightarrow> byte list" where "reply_key r = ip_text (reply_IP r)"

definition collect_step ::
  "ArtPollReply \<Rightarrow> (byte list \<rightharpoonup> DiscoveredNode) \<times> byte list list \<Rightarrow> (byte list \<rightharpoonup> DiscoveredNode) \<times> byte list list" where
  "collect_step r st = ((fst st)(reply_key r \<mapsto> nodeOf r), if fst st (reply_key r) = None then snd st @ [reply_key r] else snd st)"

lemma collectReplies_fold: "collectReplies ds byIP order = fold collect_step (good_replies ds) (byIP, order)"
proof (induction ds arbitrary: byIP order)
  case (Cons d ds)
  show ?case
  proof (cases "DecodeArtPollReply (take 1024 d)")
    case (Inl e)
    then show ?thesis using Cons by (simp add: good_replies_def artPollReplyReadBufferSize_def)
  next
    case (Inr r)
    let ?st = "(byIP(reply_key r \<mapsto> nodeOf r), if byIP (reply_key r) = None then order @ [reply_key r] else order)"
    have "good_replies (d # ds) = r # good_replies ds" using Inr by (simp add: good_replies_def)
    moreover have "collectReplies (d # ds) byIP order = collectReplies ds (fst ?st) (snd ?st)"
      using Inr by (simp add: artPollReplyReadBufferSize_def Let_def reply_key_def)
    moreover have "collect_step r (byIP, order) = ?st" by (simp add: collect_step_def)
    ultimately show ?thesis using Cons [of "fst ?st" "snd ?st"] by (simp only: fold_simps prod.collapse)
  qed
qed (simp add: good_replies_def)

lemma fold_collect_step:
  "fold collect_step rs (Map.empty, []) =
     (map_of (rev (map (\<lambda>r. (reply_key r, nodeOf r)) rs)), rev (remdups (rev (map reply_key rs))))"
proof (induction rs rule: rev_induct)
  case (snoc r rs)
  have "map_of (rev (map (\<lambda>r. (reply_key r, nodeOf r)) rs)) (reply_key r) = None \<longleftrightarrow> reply_key r \<notin> set (map reply_key rs)"
    by (force simp: map_of_eq_None_iff)
  then show ?case using snoc by (simp add: collect_step_def fun_eq_iff)
qed simp

text \<open>
  Discovery. When the interface has an IPv4 address and the socket opens, the scan always
  succeeds: it lists exactly the addresses of the replies that decode, each once and in the order
  of its first reply, with the names and Port-Addresses of its latest reply; malformed datagrams
  leave no trace.
\<close>
theorem Discover_lists_each_node_once:
  assumes "localIPv4FromInterfaceInfo iface = Inr ip"
    and "listen ip (discoveryBroadcastAddr iface) EncodeArtPoll = Inr ds"
  shows "\<exists>nodes. Discover listen iface = Inr nodes \<and>
    map (\<lambda>n. ip_text (node_IP n)) nodes = rev (remdups (rev (map reply_key (good_replies ds)))) \<and>
    map Some nodes = map (\<lambda>k. map_option nodeOf (find_by reply_key k (rev (good_replies ds))))
      (rev (remdups (rev (map reply_key (good_replies ds)))))"
proof -
  let ?rs = "good_replies ds"
  let ?m = "map_of (rev (map (\<lambda>r. (reply_key r, nodeOf r)) ?rs))"
  let ?ks = "rev (remdups (rev (map reply_key ?rs)))"
  have m: "?m k = map_option nodeOf (find_by reply_key k (rev ?rs))" for k
  proof -
    have "map_of (map (\<lambda>r. (reply_key r, nodeOf r)) xs) k = map_option nodeOf (find_by reply_key k xs)" for xs
      by (induction xs) auto
    then show ?thesis by (simp add: rev_map)
  qed
  have D: "Discover listen iface = Inr (map (\<lambda>k. the (?m k)) ?ks)"
    using assms by (simp add: Discover_def bind_res_def collectReplies_fold fold_collect_step)
  have key: "?m k = Some (the (?m k)) \<and> ip_text (node_IP (the (?m k))) = k" if "k \<in> set ?ks" for k
  proof -
    from that obtain r where "find_by reply_key k (rev ?rs) = Some r"
      using find_by_None_iff [of reply_key k "rev ?rs"] by (cases "find_by reply_key k (rev ?rs)") auto
    then have "?m k = Some (nodeOf r)" "reply_key r = k" by (simp_all only: m) (auto dest: find_by_SomeD)
    then show ?thesis by (simp only: option.sel) (simp add: nodeOf_def reply_key_def)
  qed
  show ?thesis
  proof (intro exI conjI, rule D)
    show "map (\<lambda>n. ip_text (node_IP n)) (map (\<lambda>k. the (?m k)) ?ks) = ?ks"
      unfolding map_map comp_def by (rule map_idI) (rule key [THEN conjunct2])
    show "map Some (map (\<lambda>k. the (?m k)) ?ks) = map (\<lambda>k. map_option nodeOf (find_by reply_key k (rev ?rs))) ?ks"
      unfolding map_map comp_def m [symmetric]
      by (rule map_cong [OF refl]) (rule key [THEN conjunct1, symmetric])
  qed
qed

text \<open>The scan is addressed to the subnet: the network bits of the interface's address are kept and
  every host bit is set.\<close>
lemma discovery_stays_on_subnet:
  assumes "To4 ip = Some ip4" "length ip4 = 4" "length msk = 4" "k < 4"
  shows "discoveryBroadcast (IPNet ip msk # as) ! k AND msk ! k = ip4 ! k AND msk ! k \<and>
    discoveryBroadcast (IPNet ip msk # as) ! k OR msk ! k = - 1"
proof -
  have "discoveryBroadcast (IPNet ip msk # as) ! k = ip4 ! k OR NOT (msk ! k)" using assms by simp
  moreover have "(b OR NOT m) AND m = b AND m" "(b OR NOT m) OR m = - 1" for b m :: byte
    by (simp_all add: bit_eq_iff bit_simps) blast+
  ultimately show ?thesis by simp
qed

text \<open>
  Loss is terminal. Whatever the interface table says later, an interface manager that has
  seen its interface missing or down stays lost and keeps reporting it, and no check ever changes
  which interface is pinned; it is lost exactly when some check found the interface missing or down.
\<close>
theorem interface_loss_is_terminal:
  "let m = fold Check tables (NewInterfaceManager index nm) in
   im_pinnedIndex m = index \<and> im_pinnedName m = nm \<and>
   (InterfaceManager_Err m = Some (Code ''GOLC_ARTNET_INTERFACE_LOST'') \<longleftrightarrow>
      (\<exists>t\<in>set tables. case t index of Inl _ \<Rightarrow> True | Inr iface \<Rightarrow> \<not> if_Up iface)) \<and>
   (InterfaceManager_Err m = None \<longleftrightarrow> im_status m = InterfaceStatusOK)"
proof -
  let ?bad = "\<lambda>t. case t index of Inl _ \<Rightarrow> True | Inr iface \<Rightarrow> \<not> if_Up iface"
  have step: "Check t m = (if ?bad t then markLost m else m)" if "im_pinnedIndex m = index" for t m
    using that by (simp add: Check_def split: sum.split)
  have "im_pinnedIndex (fold Check ts m) = index \<and> im_pinnedName (fold Check ts m) = im_pinnedName m \<and>
      (im_status (fold Check ts m) = InterfaceStatusLost \<longleftrightarrow> im_status m = InterfaceStatusLost \<or> (\<exists>t\<in>set ts. ?bad t))"
    if "im_pinnedIndex m = index" for ts m
    using that
  proof (induction ts arbitrary: m)
    case (Cons t ts)
    then have "im_pinnedIndex (Check t m) = index" by (simp add: step markLost_def)
    from Cons.IH [OF this] show ?case using Cons.prems by (simp add: step markLost_def)
  qed simp
  from this [of "NewInterfaceManager index nm" tables] show ?thesis
    by (cases "im_status (fold Check tables (NewInterfaceManager index nm))")
       (simp_all add: NewInterfaceManager_def InterfaceManager_Err_def Let_def)
qed

end
