(* ===== verification/Spec2Isabelle.thy ===== *)
theory Spec2Isabelle
  imports ApiPool Commands CommandScript History Midi ArtnetWorker ArtnetDiscovery
begin

text \<open>
  Verification of GOLC, an open-source lighting controller written in Go (\<open>src/internal\<close>).

  \<^bold>\<open>The program.\<close>  A show document holds fixtures grouped in pools, deployments that patch pool members
  to DMX universes and addresses, programming objects (selections, colour themes, presets, chases,
  motions) and scenes of four fixed layers.  The document is kept in a SQLite file.  The playback
  engine compiles the active scene into an immutable plan and, forty times a second, evaluates it
  at the musical position into a frame: attribute values per instance.  The Art-Net worker reads
  the engine's current frame on its own ticker, overlays the manual desk, applies blackout and
  master levels, maps the frame to 512-byte universes and sends them to its targets.  Operator
  surfaces and MIDI mappings say which controls reach which operation.  A command line, an HTTP interface and
  scripts run the same registry of commands on the show; scripts are sandboxed processes whose calls the host checks
  one by one.

  \<^bold>\<open>The theories and the code they model.\<close>
  \<^item> \<open>Prelude\<close>, \<open>F64\<close>, \<open>Contracts\<close>: Go errors as values, loops over slices, 64-bit integers with
    wrap-around, IEEE double arithmetic by exact rationals and rounding, and the contracts that
    packages share as locales (named objects with unique names, single-active collections).
  \<^item> \<open>Fixture\<close> (\<open>fixture/model.go\<close>, \<open>decode.go\<close>, \<open>identity.go\<close>, \<open>provenance.go\<close>): definitions and their
    validation; \<open>validate_fixture_iff\<close> characterises what is accepted.
  \<^item> \<open>Deployment\<close> (\<open>deployment\<close>): the first-fit address allocator, reassignment, activation.
  \<^item> \<open>Pool\<close> and \<open>PoolPlan\<close> (\<open>pool\<close>): pools, groups, cascading deletion, and the reviewed change: plans are
    built, gated by integrity and freshness, and applied without collisions or dangling references.
  \<^item> \<open>Substitution\<close> (\<open>substitution/plan.go\<close>): the capability difference of two fixtures, exact range inclusion by
    merging, and replacement plans that pass the gates of \<open>PoolPlan\<close>.
  \<^item> \<open>Selection\<close>, \<open>Programming\<close>, \<open>History\<close> (\<open>programming\<close>): resolution of selections, the programmer buffer as a
    map, presets and the other objects, and the undo log as two stacks.
  \<^item> \<open>Scene\<close> (\<open>scene\<close>), \<open>OperatorSurface\<close> (\<open>operatorsurface\<close>, \<open>deskmidi\<close>), \<open>Midi\<close> (\<open>midi/takeover.go\<close>, \<open>learn.go\<close>).
  \<^item> \<open>ShowState\<close>, \<open>ShowStore\<close> (\<open>show\<close>): the document with its whole-document check, and the store: opening,
    loading, saving in two transactions, recovery points, backups and migration.  Sessions are an
    inductive relation; saving and loading round-trip, a failed save keeps the show, an
    interrupted one can be recovered, and nothing unchecked is loaded.
  \<^item> \<open>Clock\<close>, \<open>Playback\<close>, \<open>Engine\<close> (\<open>playback\<close>): musical position in double precision, compilation and
    evaluation, and the engine as a step relation with its invariant: the published frame is the
    evaluation of the active plan.  The tick is also split at its atomic loads, which exhibits a
    race with staged edits.
  \<^item> \<open>ArtnetPacket\<close>, \<open>ArtnetOutput\<close>, \<open>ArtnetWorker\<close>, \<open>ArtnetDiscovery\<close> (\<open>artnet\<close>, except the daemon): wire formats on
    words, targets, the channel map, safety and masters, the desk, the worker with its sends in
    flight as a step relation, health, discovery and the pinned interface.

  \<^item> \<open>GoStrings\<close>, \<open>Command\<close> (\<open>command/router.go\<close>): Go's string functions, and the registry of routes: what is
    declared is dispatched, by longest match, whatever the order of declaration.
  \<^item> \<open>CommandShow\<close>: a command on a world of files, from its argument list to its exit code, and the law \<open>one_edit\<close> of
    an authoring command: every show loads as before, or one show was saved, valid, at the next revision.
    \<open>CommandObjects\<close> proves it once for creating, renaming, duplicating and deleting a named object.
  \<^item> \<open>CommandPool\<close>, \<open>CommandDeployment\<close>, \<open>CommandScene\<close>, \<open>CommandProgramming\<close>, \<open>CommandSurface\<close>, \<open>CommandPlayback\<close>, \<open>CommandNote\<close>
    (\<open>command/pool.go\<close>, \<open>deployment.go\<close>, \<open>scene.go\<close>, \<open>programming.go\<close>, \<open>operatorsurface.go\<close>, \<open>playback.go\<close>, \<open>note.go\<close> and \<open>script.go\<close>): the
    parsers and handlers of these files.  \<open>CommandFile\<close> (\<open>show.go\<close>, \<open>show_diagnose.go\<close>, \<open>show/diagnose.go\<close>): saving, saving
    elsewhere, opening with recovery and migration, diagnosis and export.  \<open>Commands\<close> puts them into the registry
    of the command line and shows the law for every invocation of it.
  \<^item> \<open>ApiKeys\<close> (\<open>show/apikeys.go\<close>, \<open>api/auth.go\<close>): keys, their table as a step relation, authentication.
  \<^item> \<open>Api\<close>, \<open>ApiBatch\<close>, \<open>ApiPool\<close> (\<open>api/mutate.go\<close>, \<open>dryrun.go\<close>, \<open>batch.go\<close>, \<open>idempotency.go\<close>, \<open>revision.go\<close>, \<open>observer.go\<close>,
    \<open>translate.go\<close>): the pipeline of a mutating request and atomic batches.  \<open>ApiBatch\<close> states what the interface
    relies on of a command as the locale \<open>show_executor\<close>; \<open>ApiPool\<close> interprets it on the command registry.
  \<^item> \<open>Security\<close> (\<open>security/redact.go\<close>): the scan for secrets and the redaction of diagnostics.
  \<^item> \<open>EventStream\<close> (\<open>api/events.go\<close>, \<open>audit.go\<close>): numbered events, their ring buffer and the replay to a client that
    reconnects, audit records.  The ring's laws are the locale \<open>sequenced_bus\<close>, interpreted here as \<open>api\<close> and, for the
    second bus of the code, in \<open>ScriptEvents\<close> (\<open>script/events.go\<close>, \<open>protocol.go\<close>) as \<open>scripts\<close>.
  \<^item> \<open>ScriptSdk\<close> (\<open>scriptsdk\<close>), \<open>ScriptCapability\<close> (\<open>script/capability.go\<close>, \<open>memorywatch.go\<close>), \<open>ScriptArgv\<close> (\<open>argv.go\<close>),
    \<open>ScriptValidate\<close> (\<open>validate.go\<close>, \<open>diagnostics.go\<close>, \<open>stacktrace.go\<close>, \<open>host.go\<close>): the methods that scripts may call, who may
    call them and how often, how their parameters become arguments, and the gate that a source passes before it runs.
  \<^item> \<open>ScriptSession\<close>, \<open>ScriptRun\<close> (\<open>script/session.go\<close>): one run as a fold over the events it meets.  \<open>ScriptRun\<close> shows
    that each event is quiet or is one call, and derives what a run may change, that nothing is executed once a
    termination has begun, and that the run reports every call and ends with one terminal event.
  \<^item> \<open>DebugBridge\<close> (\<open>script/debugbridge.go\<close>): the debugger's client; \<open>CommandScript\<close> (\<open>command/scriptrun.go\<close>, \<open>scriptstop.go\<close>,
    \<open>scriptdebug.go\<close>, \<open>scriptvalidate.go\<close>): the commands around a run, with the registry of \<open>Commands\<close> as the executor of
    its calls.

  This theory holds what spans the components: the path from the engine to the wire.  The
  worker relies on the engine through the locale \<open>frame_source\<close> of \<open>Engine\<close>, which is interpreted there on the
  engine's own operations.

  \<^bold>\<open>Conventions.\<close>  A Go struct is a record with a field prefix, a map is a partial function, a slice is a
  list, an error is a value of \<open>golc_error\<close> (its stable code; the text after it is not represented),
  and a fallible function returns \<open>golc_error + 'a\<close>, or the new state with an optional error.  Code
  outside the repository is an argument: UUID minting and formatting, SHA-256, JSON and YAML
  codecs, which database transactions commit, the outcomes of dialling, writing and reading
  sockets, the system's interface table, the token bucket of a script's rate limit, the processes of Deno and
  the protocol of its debugger.  What is assumed of them is a named hypothesis
  (\<open>codec_on\<close>, \<open>keeps_revision\<close>, \<open>round_trips\<close>, \<open>encodes\<close>, \<open>key_env_ok\<close>) with a concrete instance in a witness.

  \<^bold>\<open>Termination and bounds.\<close>  No definition uses fuel.  The allocator's loops have termination proofs for all
  64-bit arguments, wrap-around included; all other loops recurse on lists.  Counters, revisions
  and address arithmetic are taken modulo \<open>2^64\<close> where the code's are.

  \<^bold>\<open>Not modelled.\<close>  The Art-Net daemon and its IPC, the command files that start processes, sockets and build
  tools or work on the repository itself, the commands on keys and fixture files, the HTTP server
  around the mutation pipeline with its framing of streams, the desktop bindings, the supervision of a script's
  process by the operating system, device drivers, the import of Open Fixture Library
  files, and the repository's own build, documentation and issue-tracking tools.
  Goroutines and tickers are represented by the sequences of steps they perform: a script's run takes one list of
  events in which the child's output and the terminations begun elsewhere are interleaved.  Log lines are not
  represented.
\<close>

section \<open>From the show to the wire\<close>

text \<open>
  C3: Light comes from the show or the desk. Let an engine in any reachable state feed a worker
  whose instances are validly addressed. In every packet a tick puts in flight, a DMX slot that is
  not 0 carries a channel of an instance of that universe which is either selected by an enabled
  layer of the engine's active plan or has a raised fader on the desk; nothing else lights.
\<close>
theorem light_comes_from_the_show:
  assumes "reachable e" and "addresses_valid (w_instancesByUniverse w u)" and "o' < 512"
    and "(u, n, pkt) \<in> set (w_inflight (Worker_tick resolve now (CurrentFrame e) w)) - set (w_inflight w)"
    and "drop 18 pkt ! o' \<noteq> 0"
  shows "\<exists>i\<in>set (w_instancesByUniverse w u).
    (inst_ID i \<in> engine_reach e \<or> currentOverrides (w_desk w) (inst_ID i) \<noteq> None) \<and>
    (\<exists>k<length (channels_of resolve i). nat (inst_Address i - 1) + k = o')"
  by (rule engine_frames.lit_slot [OF assms])

text \<open>A worker for the one instance of the running demonstration show, a fixture with a colour channel.\<close>
definition wire_instance :: Instance where
  "wire_instance = hd (dep_Instances demo_deployment)"

definition wire_resolve :: ResolveFunc where
  "wire_resolve i = Inr \<lparr>fx_Definition = par_fixture,
     fx_Mode = \<lparr>mode_Name = ''m'', mode_Channels = [\<lparr>slot_Type = CapabilityColor, slot_Occurrence = 0\<rparr>]\<rparr>\<rparr>"

definition wire_worker :: Worker where
  "wire_worker = Worker_Start (\<lambda>_ _. None) (NewWorker \<lparr>cfg_Instances = [wire_instance], cfg_Groups = [],
     cfg_Targets = [(1, [demo_target 1 5])], cfg_Safety = None, cfg_Desk = None, cfg_SendTimeout = 0, cfg_Health = None\<rparr>)"

lemma wire_worker_fields:
  "w_universes wire_worker = [1]" "w_safety wire_worker = None" "w_desk wire_worker = None"
  "w_targetStates wire_worker 1 = [\<lparr>ts_universe = 1, ts_target = demo_target 1 5, ts_sender = True, ts_busy = False\<rparr>]"
  "w_instancesByUniverse wire_worker 1 = [wire_instance]" "w_inflight wire_worker = []"
  by (simp_all add: wire_worker_def Worker_Start_def NewWorker_def dialTarget_def targetsOf_def Let_def wire_instance_def
      demo_deployment_def)

lemma wire_frame: "case CurrentFrame demo_engine of Some f \<Rightarrow> attrs_at f 7 CapabilityColor = Some (Fin 5) | None \<Rightarrow> False"
  by code_simp

lemma wire_encode:
  assumes "attrs_at f 7 CapabilityColor = Some (Fin 5)"
  shows "Encode (overriddenFrame f wire_worker) [wire_instance] wire_resolve = Inr [1 \<mapsto> (replicate 512 0)[0 := 255]]"
proof -
  obtain a where a: "f 7 = Some a" "a CapabilityColor = Some (Fin 5)"
    using assms by (cases "f 7") (simp_all add: attrs_at_def)
  have m: "scaledAttributeSet a m CapabilityColor = Some (Fin 5)" for m
    using overridden_other [of CapabilityColor a m] a(2) by simp
  then show ?thesis
    using a(1)
    by (simp add: Encode_def overriddenFrame_def applyOverrides_def applyDeskOverrides_def currentOverrides_def dark_def Let_def
        wire_worker_fields wire_resolve_def wire_instance_def demo_deployment_def bind_res_def wrap64_def dmxChannels_def scaleToByte_def)
qed

theorem light_comes_from_the_show_witness:
  "\<exists>i\<in>set (w_instancesByUniverse wire_worker 1). inst_ID i \<in> engine_reach demo_engine"
proof -
  obtain f where f: "CurrentFrame demo_engine = Some f" "attrs_at f 7 CapabilityColor = Some (Fin 5)"
    using wire_frame by (cases "CurrentFrame demo_engine") auto
  let ?w = "wire_worker\<lparr>w_health := RecordFrame 5 (w_health wire_worker)\<rparr>"
  let ?d = "(replicate 512 0)[0 := 255] :: byte list"
  have d: "tick_data wire_resolve (overriddenFrame f wire_worker) ?w 1 = Some ?d"
    by (simp add: tick_data_def wire_worker_fields wire_encode [OF f(2)])
  have "(1, 0, tick_packet ?w 1 ?d) \<in> set (w_inflight (fold (tickUniverse wire_resolve (overriddenFrame f wire_worker)) [1] ?w))"
    by (rule fold_tick_sends [OF _ _ d]) (simp_all add: wire_worker_fields demo_target_def)
  then have new: "(1, 0, tick_packet ?w 1 ?d) \<in>
      set (w_inflight (Worker_tick wire_resolve 5 (CurrentFrame demo_engine) wire_worker)) - set (w_inflight wire_worker)"
    by (simp add: Worker_tick_def f(1) wire_worker_fields Let_def del: fold_simps)
  have lit: "drop 18 (tick_packet ?w 1 ?d) ! 0 \<noteq> 0"
    using tick_packet_ok [OF tick_data_length [OF d], of ?w 1] by simp
  have "addresses_valid (w_instancesByUniverse wire_worker 1)"
    by (simp add: wire_worker_fields addresses_valid_def wire_instance_def demo_deployment_def ValidateInstanceAddress_None
        channelsPerUniverse_def)
  from light_comes_from_the_show [OF demo_engine_fields(1) this _ new lit] show ?thesis
    by (simp add: wire_worker_fields currentOverrides_def)
qed

end
